(* ===== verification/Prelude.thy ===== *)
theory Prelude
  imports Main "HOL-Library.Word"
begin

text \<open>
  Shared vocabulary of the development: the machine integers of the code
  (Source/Core/Common/CommonTypes.h) as words, the error values of operations that do not
  return in the code, the plumbing for operations that may fail, and the lemmas on 64-bit words
  that hold a sign-extended 40-bit value.  All other theories import this one.
\<close>

unbundle bit_operations_syntax

section \<open>Machine integers\<close>

type_synonym u8 = "8 word"
type_synonym u16 = "16 word"
type_synonym u32 = "32 word"
type_synonym u64 = "64 word"

text \<open>
  A signed C++ integer is the word of its two's complement bits: \<open>s64\<close> and \<open>u64\<close> are the same
  type, and the model writes \<open><s\<close>, \<open>sint\<close>, \<open>scast\<close> or \<open>signed_drop_bit\<close> where the code's operand
  is signed.
\<close>

type_synonym s16 = "16 word"
type_synonym s32 = "32 word"
type_synonym s64 = "64 word"

section \<open>Errors\<close>

text \<open>
  What an operation of the code does when it does not come back with a new state:
  \<open>ProcessExit\<close> is a call of \<open>std::exit\<close>; \<open>OutOfBounds\<close> is an access outside the array an index or
  pointer was derived from; \<open>NullPointer\<close> is a read through \<open>nullptr\<close>; \<open>Diverges\<close> is a loop that
  does not terminate.
\<close>

datatype dsp_error = ProcessExit | OutOfBounds | NullPointer | Diverges

type_synonym 's result = "dsp_error + 's"

fun bindE :: "'err + 'a \<Rightarrow> ('a \<Rightarrow> 'err + 'b) \<Rightarrow> 'err + 'b" where
  "bindE (Inl e) f = Inl e"
| "bindE (Inr x) f = f x"

fun okE :: "('a \<Rightarrow> bool) \<Rightarrow> 'err + 'a \<Rightarrow> bool" where
  "okE P (Inl e) = True"
| "okE P (Inr x) = P x"

named_theorems okE_intros "rules that establish a postcondition of a fallible operation"

lemma bindE_assoc: "bindE (bindE m f) g = bindE m (\<lambda>x. bindE (f x) g)"
  by (cases m) auto

lemma bindE_Inr_right [simp]: "bindE m Inr = m"
  by (cases m) auto

lemma bindE_eq_Inr_iff: "bindE m f = Inr y \<longleftrightarrow> (\<exists>x. m = Inr x \<and> f x = Inr y)"
  by (cases m) auto

lemma bindE_eq_Inl_iff: "bindE m f = Inl e \<longleftrightarrow> m = Inl e \<or> (\<exists>x. m = Inr x \<and> f x = Inl e)"
  by (cases m) auto

lemma okE_bindE [okE_intros]: "okE (\<lambda>x. okE P (f x)) m \<Longrightarrow> okE P (bindE m f)"
  by (cases m) auto

lemma okE_mono: "okE P m \<Longrightarrow> (\<And>x. P x \<Longrightarrow> Q x) \<Longrightarrow> okE Q m"
  by (cases m) auto

lemma okE_conj: "okE P m \<Longrightarrow> okE Q m \<Longrightarrow> okE (\<lambda>x. P x \<and> Q x) m"
  by (cases m) auto

lemma okE_InrD: "okE P m \<Longrightarrow> m = Inr x \<Longrightarrow> P x"
  by simp

lemma okE_iff: "okE P m \<longleftrightarrow> (\<forall>x. m = Inr x \<longrightarrow> P x)"
  by (cases m) auto

lemma okE_if [okE_intros]:
  "(b \<Longrightarrow> okE P x) \<Longrightarrow> (\<not> b \<Longrightarrow> okE P y) \<Longrightarrow> okE P (if b then x else y)"
  by simp

section \<open>Masks and small fields of a word\<close>

lemma unat_and_le: "unat (x AND y) \<le> unat (y :: 'a::len word)"
  using word_and_le1 [of x y] by (simp add: word_le_nat_alt)

lemma unat_and_1_cases: "unat (x AND (1 :: 'a::len word)) = 0 \<or> unat (x AND 1) = 1"
proof -
  have "unat (x AND (1 :: 'a word)) \<le> unat (1 :: 'a word)" by (rule unat_and_le)
  then show ?thesis by (simp add: le_Suc_eq)
qed

lemma unat_and_1_le: "unat (x AND (1 :: 'a::len word)) \<le> 1"
  using unat_and_1_cases [of x] by auto

lemma unat_and_1_less: "unat (x AND (1 :: 'a::len word)) < 2"
  using unat_and_1_cases [of x] by auto

lemma unat_and_3_less: "unat (x AND (3 :: 16 word)) < 4"
  using unat_and_le [of x 3] by simp

lemma unat_and_7_less: "unat (x AND (7 :: 16 word)) < 8"
  using unat_and_le [of x 7] by simp

lemma unat_and_31_less: "unat (x AND (31 :: 16 word)) < 32"
  using unat_and_le [of x 31] by simp

lemma word_and_idem_mask: "(x AND m) AND m = x AND (m :: 'a::len word)"
  by (simp add: and.assoc)

lemma bit_exp_le: "bit n k \<Longrightarrow> 2 ^ k \<le> (n :: nat)"
  by (auto simp: bit_iff_odd not_le intro: ccontr)

section \<open>Forty-bit values in a 64-bit word\<close>

text \<open>
  The accumulators of the DSP are 40 bits wide and live sign-extended in 64-bit variables.
  \<open>sext40\<close> is the shift idiom \<open>(val << 24) >> 24\<close> on a signed 64-bit value; \<open>is40\<close> says a word is
  sign-extended from bit 39, \<open>u40\<close> is the unsigned value of the low 40 bits.
\<close>

definition sext40 :: "s64 \<Rightarrow> s64" where
  "sext40 v = signed_drop_bit 24 (push_bit 24 v)"

definition is40 :: "s64 \<Rightarrow> bool" where
  "is40 v \<longleftrightarrow> sext40 v = v"

definition u40 :: "s64 \<Rightarrow> nat" where
  "u40 v = unat v mod 2 ^ 40"

lemma bit_sext40: "bit (sext40 v) n \<longleftrightarrow> n < 64 \<and> bit v (min n 39)"
  by (auto simp: sext40_def bit_signed_drop_bit_iff bit_push_bit_iff min_def
      dest: bit_imp_le_length)

lemma is40_iff_bits: "is40 v \<longleftrightarrow> (\<forall>n. 39 \<le> n \<longrightarrow> n < 64 \<longrightarrow> bit v n = bit v 39)"
proof
  assume "is40 v"
  then have "sext40 v = v" by (simp add: is40_def)
  then have "bit v n \<longleftrightarrow> n < 64 \<and> bit v (min n 39)" for n
    by (metis bit_sext40)
  then show "\<forall>n. 39 \<le> n \<longrightarrow> n < 64 \<longrightarrow> bit v n = bit v 39"
    by (metis min.absorb2)
next
  assume eq: "\<forall>n. 39 \<le> n \<longrightarrow> n < 64 \<longrightarrow> bit v n = bit v 39"
  have "sext40 v = v"
  proof (rule bit_word_eqI)
    fix n assume "n < LENGTH(64)"
    then show "bit (sext40 v) n \<longleftrightarrow> bit v n"
      using eq [rule_format, of n] by (cases "39 \<le> n") (simp_all add: bit_sext40 min_def)
  qed
  then show "is40 v" by (simp add: is40_def)
qed

lemma is40_sext40 [simp]: "is40 (sext40 v)"
  by (auto simp: is40_iff_bits bit_sext40)

lemma sext40_id: "is40 v \<Longrightarrow> sext40 v = v"
  by (simp add: is40_def)

lemma sint_sext40: "sint (sext40 v) = signed_take_bit 39 (sint v)"
proof (rule bit_eqI)
  fix n
  show "bit (sint (sext40 v)) n \<longleftrightarrow> bit (signed_take_bit 39 (sint v)) n"
    by (auto simp: bit_sint_iff bit_sext40 bit_signed_take_bit_iff min_def not_less)
qed

lemma is40_iff_range: "is40 v \<longleftrightarrow> - (2 ^ 39) \<le> sint v \<and> sint v < 2 ^ 39"
proof -
  have "is40 v \<longleftrightarrow> sint (sext40 v) = sint v"
    by (simp add: is40_def word_eq_iff_signed)
  also have "\<dots> \<longleftrightarrow> signed_take_bit 39 (sint v) = sint v" by (simp add: sint_sext40)
  also have "\<dots> \<longleftrightarrow> - (2 ^ 39) \<le> sint v \<and> sint v < 2 ^ 39"
    by (rule signed_take_bit_int_eq_self_iff)
  finally show ?thesis .
qed

lemma is40_0 [simp]: "is40 0"
  by (simp add: is40_iff_range)

end
