(* ===== verification/Dsp_Accelerator.thy ===== *)
theory Dsp_Accelerator
  imports Prelude
begin

text \<open>
  The sample accelerator of the DSP (Source/Core/Core/DSP/DSPAccelerator.h and
  DSPAccelerator.cpp): its registers, raw reads and writes, and the ADPCM and PCM sample
  decoder.  The virtual functions of the C++ class are arguments: \<open>rd\<close> stands for
  \<open>ReadMemory\<close>, \<open>wr\<close> for \<open>WriteMemory\<close> (both given by \<open>LLEAccelerator\<close>, see Dsp_Host), and the three
  \<open>On...EndException\<close> callbacks are returned as a list of events, raised in the order of the list.
\<close>

unbundle bit_operations_syntax

section \<open>State\<close>

datatype FormatSize = Size4Bit | Size8Bit | Size16Bit | SizeInvalid

datatype FormatDecode = ADPCM | MMIOPCMNoInc | PCM | MMIOPCMInc

datatype FormatGainScale = GainScale2048 | GainScale1 | GainScale65536 | GainScaleInvalid

record Accelerator =
  m_start_address :: u32
  m_end_address :: u32
  m_current_address :: u32
  m_sample_format :: u16
  m_gain :: s16
  m_yn1 :: s16
  m_yn2 :: s16
  m_pred_scale :: u16
  m_input :: u16
  m_reads_stopped :: bool

definition init_accelerator :: Accelerator where
  "init_accelerator = \<lparr>m_start_address = 0, m_end_address = 0, m_current_address = 0,
     m_sample_format = 0, m_gain = 0, m_yn1 = 0, m_yn2 = 0, m_pred_scale = 0, m_input = 0,
     m_reads_stopped = False\<rparr>"

text \<open>The bit fields of the sample format register (the union \<open>SampleFormat\<close>).\<close>

definition SampleFormat_size :: "u16 \<Rightarrow> FormatSize" where
  "SampleFormat_size hex =
     (let v = hex AND 0x3
      in if v = 0 then Size4Bit else if v = 1 then Size8Bit
         else if v = 2 then Size16Bit else SizeInvalid)"

definition SampleFormat_decode :: "u16 \<Rightarrow> FormatDecode" where
  "SampleFormat_decode hex =
     (let v = drop_bit 2 hex AND 0x3
      in if v = 0 then ADPCM else if v = 1 then MMIOPCMNoInc
         else if v = 2 then PCM else MMIOPCMInc)"

definition SampleFormat_gain_scale :: "u16 \<Rightarrow> FormatGainScale" where
  "SampleFormat_gain_scale hex =
     (let v = drop_bit 4 hex AND 0x3
      in if v = 0 then GainScale2048 else if v = 1 then GainScale1
         else if v = 2 then GainScale65536 else GainScaleInvalid)"

datatype accel_event = OnRawReadEndException | OnRawWriteEndException | OnSampleReadEndException

section \<open>Register setters\<close>

abbreviation START_END_ADDRESS_MASK :: u32 where "START_END_ADDRESS_MASK \<equiv> 0x3fffffff"

abbreviation CURRENT_ADDRESS_MASK :: u32 where "CURRENT_ADDRESS_MASK \<equiv> 0xbfffffff"

definition SetStartAddress :: "u32 \<Rightarrow> Accelerator \<Rightarrow> Accelerator" where
  "SetStartAddress address a = a\<lparr>m_start_address := address AND START_END_ADDRESS_MASK\<rparr>"

definition SetEndAddress :: "u32 \<Rightarrow> Accelerator \<Rightarrow> Accelerator" where
  "SetEndAddress address a = a\<lparr>m_end_address := address AND START_END_ADDRESS_MASK\<rparr>"

definition SetCurrentAddress :: "u32 \<Rightarrow> Accelerator \<Rightarrow> Accelerator" where
  "SetCurrentAddress address a = a\<lparr>m_current_address := address AND CURRENT_ADDRESS_MASK\<rparr>"

definition SetSampleFormat :: "u16 \<Rightarrow> Accelerator \<Rightarrow> Accelerator" where
  "SetSampleFormat format a = a\<lparr>m_sample_format := format\<rparr>"

definition SetGain :: "s16 \<Rightarrow> Accelerator \<Rightarrow> Accelerator" where
  "SetGain gain a = a\<lparr>m_gain := gain\<rparr>"

definition SetYn1 :: "s16 \<Rightarrow> Accelerator \<Rightarrow> Accelerator" where
  "SetYn1 yn1 a = a\<lparr>m_yn1 := yn1\<rparr>"

definition SetYn2 :: "s16 \<Rightarrow> Accelerator \<Rightarrow> Accelerator" where
  "SetYn2 yn2 a = a\<lparr>m_yn2 := yn2, m_reads_stopped := False\<rparr>"

definition SetPredScale :: "u16 \<Rightarrow> Accelerator \<Rightarrow> Accelerator" where
  "SetPredScale pred_scale a = a\<lparr>m_pred_scale := pred_scale AND 0x7f\<rparr>"

definition SetInput :: "u16 \<Rightarrow> Accelerator \<Rightarrow> Accelerator" where
  "SetInput input a = a\<lparr>m_input := input\<rparr>"

section \<open>Raw accesses\<close>

definition GetCurrentSample :: "(u32 \<Rightarrow> u8) \<Rightarrow> Accelerator \<Rightarrow> u16" where
  "GetCurrentSample rd a =
     (case SampleFormat_size (m_sample_format a) of
        Size4Bit \<Rightarrow>
          (let val = (ucast (rd (drop_bit 1 (m_current_address a))) :: u16)
           in if m_current_address a AND 1 \<noteq> 0 then val AND 0xf else drop_bit 4 val)
      | Size8Bit \<Rightarrow> ucast (rd (m_current_address a))
      | Size16Bit \<Rightarrow>
          push_bit 8 (ucast (rd (m_current_address a * 2)))
            OR ucast (rd (m_current_address a * 2 + 1))
      | SizeInvalid \<Rightarrow> 0)"

definition ReadRaw :: "(u32 \<Rightarrow> u8) \<Rightarrow> Accelerator \<Rightarrow> u16 \<times> Accelerator \<times> accel_event list" where
  "ReadRaw rd a =
     (let val = GetCurrentSample rd a;
          cur = (if SampleFormat_size (m_sample_format a) \<noteq> SizeInvalid
                 then m_current_address a + 1
                 else (m_current_address a AND NOT 3) OR ((m_current_address a + 1) AND 3));
          (cur, ev) = (if cur - 1 = m_end_address a
                       then (m_start_address a, [OnRawReadEndException]) else (cur, []))
      in (val, SetCurrentAddress cur a, ev))"

definition WriteRaw ::
  "(u32 \<Rightarrow> u8 \<Rightarrow> 'h \<Rightarrow> 'h) \<Rightarrow> u16 \<Rightarrow> Accelerator \<Rightarrow> 'h \<Rightarrow> Accelerator \<times> 'h \<times> accel_event list" where
  "WriteRaw wr val a h =
     (if m_current_address a AND 0x80000000 \<noteq> 0
      then let h = wr (m_current_address a * 2) (ucast (drop_bit 8 val)) h;
               h = wr (m_current_address a * 2 + 1) (ucast (val AND 0xff)) h
           in (a\<lparr>m_current_address := m_current_address a + 1\<rparr>, h, [OnRawWriteEndException])
      else (a, h, []))"

section \<open>Processed samples\<close>

text \<open>\<open>std::clamp<s32>(v, -0x7fff, 0x7fff)\<close>, on the two's complement bits.\<close>

definition clamp_s16 :: "s32 \<Rightarrow> s32" where
  "clamp_s16 v = (if v <s - 0x7fff then - 0x7fff else if 0x7fff <s v then 0x7fff else v)"

text \<open>
  The ADPCM case of \<open>ReadSample\<close>: the sample, the accelerator after it, and the step size.  Sums
  and products of \<open>s32\<close> values wrap here; in C++ their overflow is undefined.
\<close>

definition adpcm_value :: "s16 \<Rightarrow> s32 \<Rightarrow> s32 \<Rightarrow> Accelerator \<Rightarrow> u16" where
  "adpcm_value raw_sample coef1 coef2 a =
     (let raw = raw_sample AND 0xf;
          scale = push_bit (unat (m_pred_scale a AND 0xf)) 1 :: s32;
          raw = (if 8 \<le>s raw then raw - 16 else raw);
          val32 = scale * scast raw +
            signed_drop_bit 11 (0x400 + coef1 * scast (m_yn1 a) + coef2 * scast (m_yn2 a))
      in ucast (clamp_s16 val32))"

definition adpcm_step :: "(u32 \<Rightarrow> u8) \<Rightarrow> u16 \<Rightarrow> Accelerator \<Rightarrow> Accelerator \<times> u32" where
  "adpcm_step rd val a =
     (let a = a\<lparr>m_yn2 := m_yn1 a, m_yn1 := val, m_current_address := m_current_address a + 1\<rparr>;
          cur = m_current_address a
      in if m_end_address a AND 0xf = 0x0 \<and> cur = m_end_address a
         then (a\<lparr>m_current_address := m_start_address a + 1\<rparr>, 2)
         else if m_end_address a AND 0xf = 0x1 \<and> cur = m_end_address a - 1
         then (a\<lparr>m_current_address := m_start_address a\<rparr>, 2)
         else if cur AND 15 = 0
         then (a\<lparr>m_pred_scale := ucast (rd (drop_bit 1 (cur AND NOT 15))),
                 m_current_address := cur + 2\<rparr>, 4)
         else (a, 2))"

definition pcm_value :: "s16 \<Rightarrow> s32 \<Rightarrow> s32 \<Rightarrow> Accelerator \<Rightarrow> u16" where
  "pcm_value raw_sample coef1 coef2 a =
     (let gain_shift = (case SampleFormat_gain_scale (m_sample_format a) of
            GainScale2048 \<Rightarrow> 11 | GainScale1 \<Rightarrow> 0 | GainScale65536 \<Rightarrow> 16 | GainScaleInvalid \<Rightarrow> 0);
          val32 = signed_drop_bit gain_shift (scast (m_gain a) * scast raw_sample :: s32) +
            (signed_drop_bit gain_shift (coef1 * scast (m_yn1 a)) +
             signed_drop_bit gain_shift (coef2 * scast (m_yn2 a)))
      in ucast val32)"

definition pcm_step :: "u16 \<Rightarrow> Accelerator \<Rightarrow> Accelerator \<times> u32" where
  "pcm_step val a =
     (let a = a\<lparr>m_yn2 := m_yn1 a, m_yn1 := val\<rparr>
      in if SampleFormat_decode (m_sample_format a) \<noteq> MMIOPCMNoInc
         then (a\<lparr>m_current_address := m_current_address a + 1\<rparr>, 2) else (a, 2))"

definition ReadSample ::
  "(u32 \<Rightarrow> u8) \<Rightarrow> (nat \<Rightarrow> u16) \<Rightarrow> Accelerator \<Rightarrow> u16 \<times> Accelerator \<times> accel_event list" where
  "ReadSample rd coefs a =
     (if m_reads_stopped a then (0x0000, a, [])
      else
        let decode = SampleFormat_decode (m_sample_format a);
            raw_sample = (if decode = MMIOPCMNoInc \<or> decode = MMIOPCMInc then m_input a
                          else GetCurrentSample rd a);
            coef_idx = unat (drop_bit 4 (m_pred_scale a) AND 0x7);
            coef1 = scast (coefs (coef_idx * 2 + 0)) :: s32;
            coef2 = scast (coefs (coef_idx * 2 + 1)) :: s32;
            val = (if decode = ADPCM then adpcm_value raw_sample coef1 coef2 a
                   else pcm_value raw_sample coef1 coef2 a);
            (a, step_size) = (if decode = ADPCM then adpcm_step rd val a else pcm_step val a);
            (a, ev) = (if m_current_address a = m_end_address a + step_size - 1
                       then (a\<lparr>m_current_address := m_start_address a, m_reads_stopped := True\<rparr>,
                             [OnSampleReadEndException])
                       else (a, []))
        in (val, SetCurrentAddress (m_current_address a) a, ev))"

end
