(* ===== verification/Dsp_Host.thy ===== *)
theory Dsp_Host
  imports Prelude
begin

text \<open>
  The environment of the DSP core: the auxiliary RAM (Source/Core/Core/HW/DSP.cpp), the main
  memory of the console (Source/Core/Core/HW/Memmap.cpp and Memmap.h) and the functions of
  Source/Core/Core/HW/DSPLLE/DSPHost.cpp through which the core reaches them.  Requests to
  components that are not modelled (the interrupt raised on the PowerPC, the exception check
  forced on CoreTiming) are recorded in a list, oldest first.
\<close>

unbundle bit_operations_syntax

section \<open>State\<close>

datatype host_event = GenerateDSPInterrupt | ForceExceptionCheck nat

text \<open>
  \<open>aram_ptr\<close> is the ARAM of a GameCube by masked address (on a Wii, \<open>aram_wii_mode\<close>, the code
  points it into EXRAM); \<open>m_ram\<close> and \<open>m_exram\<close> are the two regions of main
  memory by offset, with their sizes and masks; \<open>has_exram\<close> is \<open>m_exram != nullptr\<close>.
\<close>

record Host =
  aram_wii_mode :: bool
  aram_ptr :: "u32 \<Rightarrow> u8"
  aram_size :: u32
  aram_mask :: u32
  m_ram :: "nat \<Rightarrow> u8"
  m_ram_size_real :: u32
  m_ram_mask :: u32
  has_exram :: bool
  m_exram :: "nat \<Rightarrow> u8"
  m_exram_size_real :: u32
  m_exram_mask :: u32
  host_events :: "host_event list"

section \<open>Main memory\<close>

datatype region = RAM | EXRAM

text \<open>A host pointer into main memory is a region and an offset; \<open>None\<close> is \<open>nullptr\<close>.\<close>

type_synonym ptr = "region \<times> nat"

definition GetSpanForAddress :: "Host \<Rightarrow> u32 \<Rightarrow> (ptr \<times> nat) option" where
  "GetSpanForAddress h address =
     (let address = address AND 0x3FFFFFFF
      in if address < m_ram_size_real h
         then Some ((RAM, unat address), unat (m_ram_size_real h - address))
         else if has_exram h \<and> drop_bit 28 address = 0x1 \<and>
                 address AND 0x0fffffff < m_exram_size_real h
         then Some ((EXRAM, unat (address AND m_exram_mask h)),
                    unat (m_exram_size_real h - (address AND m_exram_mask h)))
         else None)"

definition GetPointerForRange :: "Host \<Rightarrow> u32 \<Rightarrow> nat \<Rightarrow> ptr option" where
  "GetPointerForRange h address sz =
     (case GetSpanForAddress h address of
        None \<Rightarrow> None
      | Some (p, n) \<Rightarrow> if n < sz then None else Some p)"

fun mem_byte :: "Host \<Rightarrow> ptr \<Rightarrow> nat \<Rightarrow> u8" where
  "mem_byte h (RAM, off) i = m_ram h (off + i)"
| "mem_byte h (EXRAM, off) i = m_exram h (off + i)"

definition Read_U8 :: "Host \<Rightarrow> u32 \<Rightarrow> u8" where
  "Read_U8 h address =
     (case GetPointerForRange h address 1 of None \<Rightarrow> 0 | Some p \<Rightarrow> mem_byte h p 0)"

text \<open>
  Plain copies.  A 64-bit value that is only copied and byte-swapped is the list of its eight bytes,
  lowest first, as a little-endian host keeps it in memory.
\<close>

definition store_byte :: "ptr \<Rightarrow> nat \<Rightarrow> u8 \<Rightarrow> Host \<Rightarrow> Host" where
  "store_byte p i b h =
     (case p of (RAM, off) \<Rightarrow> h\<lparr>m_ram := (m_ram h)(off + i := b)\<rparr>
      | (EXRAM, off) \<Rightarrow> h\<lparr>m_exram := (m_exram h)(off + i := b)\<rparr>)"

fun store_bytes :: "ptr \<Rightarrow> nat \<Rightarrow> u8 list \<Rightarrow> Host \<Rightarrow> Host" where
  "store_bytes p i [] h = h"
| "store_bytes p i (b # bs) h = store_bytes p (Suc i) bs (store_byte p i b h)"

definition CopyFromEmu :: "Host \<Rightarrow> u32 \<Rightarrow> nat \<Rightarrow> u8 list option" where
  "CopyFromEmu h address sz =
     (if sz = 0 then Some []
      else case GetPointerForRange h address sz of
        None \<Rightarrow> None
      | Some p \<Rightarrow> Some (map (mem_byte h p) [0..<sz]))"

definition CopyToEmu :: "u32 \<Rightarrow> u8 list \<Rightarrow> Host \<Rightarrow> Host" where
  "CopyToEmu address data h =
     (if data = [] then h
      else case GetPointerForRange h address (length data) of
        None \<Rightarrow> h
      | Some p \<Rightarrow> store_bytes p 0 data h)"

type_synonym bytes8 = "u8 list"

definition swap64 :: "bytes8 \<Rightarrow> bytes8" where
  "swap64 v = rev v"

definition Read_U64 :: "Host \<Rightarrow> u32 \<Rightarrow> bytes8" where
  "Read_U64 h address =
     (let v = (case CopyFromEmu h address 8 of None \<Rightarrow> replicate 8 0 | Some v \<Rightarrow> v) in swap64 v)"

definition Write_U64 :: "bytes8 \<Rightarrow> u32 \<Rightarrow> Host \<Rightarrow> Host" where
  "Write_U64 v address h = CopyToEmu address (swap64 v) h"

definition Write_U64_Swap :: "bytes8 \<Rightarrow> u32 \<Rightarrow> Host \<Rightarrow> Host" where
  "Write_U64_Swap v address h = CopyToEmu address v h"

section \<open>ARAM\<close>

text \<open>
  The bytes behind \<open>m_aram.ptr\<close>: memory of its own on the GameCube, EXRAM on the Wii.
\<close>

definition aram_byte :: "u32 \<Rightarrow> Host \<Rightarrow> u8" where
  "aram_byte i h = (if aram_wii_mode h then m_exram h (unat i) else aram_ptr h i)"

definition store_aram :: "u32 \<Rightarrow> u8 \<Rightarrow> Host \<Rightarrow> Host" where
  "store_aram i b h =
     (if aram_wii_mode h then h\<lparr>m_exram := (m_exram h)(unat i := b)\<rparr>
      else h\<lparr>aram_ptr := (aram_ptr h)(i := b)\<rparr>)"

definition ReadARAM :: "Host \<Rightarrow> u32 \<Rightarrow> u8" where
  "ReadARAM h address =
     (if aram_wii_mode h
      then if address AND 0x10000000 \<noteq> 0 then aram_byte (address AND aram_mask h) h
           else Read_U8 h (address AND m_ram_mask h)
      else aram_byte (address AND aram_mask h) h)"

definition WriteARAM :: "u8 \<Rightarrow> u32 \<Rightarrow> Host \<Rightarrow> Host" where
  "WriteARAM val address h = store_aram (address AND aram_mask h) val h"

section \<open>Byte-swapped copies\<close>

definition swap16 :: "u16 \<Rightarrow> u16" where
  "swap16 data = push_bit 8 data OR drop_bit 8 data"

text \<open>The halfword a little-endian host loads from two adjacent bytes.\<close>

definition load_le16 :: "u8 \<Rightarrow> u8 \<Rightarrow> u16" where
  "load_le16 b0 b1 = ucast b0 OR push_bit 8 (ucast b1)"

text \<open>
  \<open>CopyFromEmuSwapped<u16>\<close>: the halfwords copied to the destination, \<open>None\<close> when the source
  range is invalid and nothing is copied.
\<close>

definition CopyFromEmuSwapped :: "Host \<Rightarrow> u32 \<Rightarrow> nat \<Rightarrow> u16 list option" where
  "CopyFromEmuSwapped h address sz =
     (case GetPointerForRange h address sz of
        None \<Rightarrow> None
      | Some p \<Rightarrow> Some (map (\<lambda>i. swap16 (load_le16 (mem_byte h p (2 * i)) (mem_byte h p (2 * i + 1))))
                    [0..<sz div 2]))"

fun store_swapped :: "ptr \<Rightarrow> nat \<Rightarrow> u16 list \<Rightarrow> Host \<Rightarrow> Host" where
  "store_swapped p i [] h = h"
| "store_swapped p i (w # ws) h =
     store_swapped p (Suc i) ws
       (store_byte p (2 * i + 1) (ucast (drop_bit 8 (swap16 w)))
         (store_byte p (2 * i) (ucast (swap16 w)) h))"

definition CopyToEmuSwapped :: "u32 \<Rightarrow> u16 list \<Rightarrow> nat \<Rightarrow> Host \<Rightarrow> Host" where
  "CopyToEmuSwapped address data sz h =
     (case GetPointerForRange h address sz of
        None \<Rightarrow> h
      | Some p \<Rightarrow> store_swapped p 0 (take (sz div 2) data) h)"

section \<open>The functions of DSPHost.cpp\<close>

definition ReadHostMemory :: "Host \<Rightarrow> u32 \<Rightarrow> u8" where
  "ReadHostMemory h addr = ReadARAM h addr"

definition WriteHostMemory :: "u8 \<Rightarrow> u32 \<Rightarrow> Host \<Rightarrow> Host" where
  "WriteHostMemory val addr h = WriteARAM val addr h"

definition InterruptRequest :: "Host \<Rightarrow> Host" where
  "InterruptRequest h = h\<lparr>host_events := host_events h @ [GenerateDSPInterrupt]\<rparr>"

definition HashEctor :: "u8 list \<Rightarrow> u32" where
  "HashEctor data =
     foldl (\<lambda>crc b. let crc = crc XOR ucast b in push_bit 3 crc OR drop_bit 29 crc) 0 data"

section \<open>Lemmas\<close>

lemma GetPointerForRange_Some_bound:
  "GetPointerForRange h address sz = Some (RAM, off) \<Longrightarrow> off + sz \<le> unat (m_ram_size_real h)"
  by (auto simp: GetPointerForRange_def GetSpanForAddress_def Let_def unat_sub word_less_nat_alt
      word_le_nat_alt split: option.splits if_splits)

lemma swap16_involutive [simp]: "swap16 (swap16 v) = v"
  by (rule bit_word_eqI) (auto simp: swap16_def bit_simps)

lemma bit_u8_high: "\<not> bit (b :: u8) (8 + n)"
  using bit_imp_le_length [of b "8 + n"] by auto

lemma swap16_load_le16: "swap16 (load_le16 b0 b1) = push_bit 8 (ucast b0) OR ucast b1"
  by (rule bit_word_eqI)
    (simp add: swap16_def load_le16_def bit_simps, auto simp: bit_u8_high dest: bit_imp_le_length)

end
