(* ===== verification/Dsp_State.thy ===== *)
theory Dsp_State
  imports Dsp_Accelerator Dsp_Host
begin

text \<open>
  The state of the DSP core (Source/Core/Core/DSP/DSPCore.h): the constants and enumerations, the
  register file \<open>DSP_Regs\<close> with its unions, and the record \<open>SDSP\<close>.  The record \<open>Interpreter\<close> of
  the interpreter class extends \<open>SDSP\<close> by the write-back log: the class holds a reference to the
  one \<open>SDSP\<close> object, and functions on \<open>SDSP\<close> are written for every extension of the record.

  C arrays are functions on \<open>nat\<close>; every index the code computes is masked, or is checked where
  the model says so.  The unions are read as on a little-endian host, as the code does.
\<close>

unbundle bit_operations_syntax

section \<open>Constants\<close>

abbreviation DSP_IRAM_SIZE :: nat where "DSP_IRAM_SIZE \<equiv> 0x1000"
abbreviation DSP_IRAM_MASK :: u16 where "DSP_IRAM_MASK \<equiv> 0x0fff"
abbreviation DSP_IROM_MASK :: u16 where "DSP_IROM_MASK \<equiv> 0x0fff"
abbreviation DSP_DRAM_SIZE :: nat where "DSP_DRAM_SIZE \<equiv> 0x1000"
abbreviation DSP_DRAM_MASK :: u16 where "DSP_DRAM_MASK \<equiv> 0x0fff"
abbreviation DSP_COEF_MASK :: u16 where "DSP_COEF_MASK \<equiv> 0x7ff"
abbreviation DSP_RESET_VECTOR :: u16 where "DSP_RESET_VECTOR \<equiv> 0x8000"
abbreviation DSP_STACK_MASK :: u8 where "DSP_STACK_MASK \<equiv> 0x1f"

text \<open>Register numbers.\<close>

abbreviation DSP_REG_AR0 :: int where "DSP_REG_AR0 \<equiv> 0x00"
abbreviation DSP_REG_AR1 :: int where "DSP_REG_AR1 \<equiv> 0x01"
abbreviation DSP_REG_AR2 :: int where "DSP_REG_AR2 \<equiv> 0x02"
abbreviation DSP_REG_AR3 :: int where "DSP_REG_AR3 \<equiv> 0x03"
abbreviation DSP_REG_IX0 :: int where "DSP_REG_IX0 \<equiv> 0x04"
abbreviation DSP_REG_IX1 :: int where "DSP_REG_IX1 \<equiv> 0x05"
abbreviation DSP_REG_IX2 :: int where "DSP_REG_IX2 \<equiv> 0x06"
abbreviation DSP_REG_IX3 :: int where "DSP_REG_IX3 \<equiv> 0x07"
abbreviation DSP_REG_WR0 :: int where "DSP_REG_WR0 \<equiv> 0x08"
abbreviation DSP_REG_WR1 :: int where "DSP_REG_WR1 \<equiv> 0x09"
abbreviation DSP_REG_WR2 :: int where "DSP_REG_WR2 \<equiv> 0x0a"
abbreviation DSP_REG_WR3 :: int where "DSP_REG_WR3 \<equiv> 0x0b"
abbreviation DSP_REG_ST0 :: int where "DSP_REG_ST0 \<equiv> 0x0c"
abbreviation DSP_REG_ST1 :: int where "DSP_REG_ST1 \<equiv> 0x0d"
abbreviation DSP_REG_ST2 :: int where "DSP_REG_ST2 \<equiv> 0x0e"
abbreviation DSP_REG_ST3 :: int where "DSP_REG_ST3 \<equiv> 0x0f"
abbreviation DSP_REG_ACH0 :: int where "DSP_REG_ACH0 \<equiv> 0x10"
abbreviation DSP_REG_ACH1 :: int where "DSP_REG_ACH1 \<equiv> 0x11"
abbreviation DSP_REG_CR :: int where "DSP_REG_CR \<equiv> 0x12"
abbreviation DSP_REG_SR :: int where "DSP_REG_SR \<equiv> 0x13"
abbreviation DSP_REG_PRODL :: int where "DSP_REG_PRODL \<equiv> 0x14"
abbreviation DSP_REG_PRODM :: int where "DSP_REG_PRODM \<equiv> 0x15"
abbreviation DSP_REG_PRODH :: int where "DSP_REG_PRODH \<equiv> 0x16"
abbreviation DSP_REG_PRODM2 :: int where "DSP_REG_PRODM2 \<equiv> 0x17"
abbreviation DSP_REG_AXL0 :: int where "DSP_REG_AXL0 \<equiv> 0x18"
abbreviation DSP_REG_AXL1 :: int where "DSP_REG_AXL1 \<equiv> 0x19"
abbreviation DSP_REG_AXH0 :: int where "DSP_REG_AXH0 \<equiv> 0x1a"
abbreviation DSP_REG_AXH1 :: int where "DSP_REG_AXH1 \<equiv> 0x1b"
abbreviation DSP_REG_ACL0 :: int where "DSP_REG_ACL0 \<equiv> 0x1c"
abbreviation DSP_REG_ACL1 :: int where "DSP_REG_ACL1 \<equiv> 0x1d"
abbreviation DSP_REG_ACM0 :: int where "DSP_REG_ACM0 \<equiv> 0x1e"
abbreviation DSP_REG_ACM1 :: int where "DSP_REG_ACM1 \<equiv> 0x1f"

text \<open>Bits of the control register shared with the CPU, and of the status register.\<close>

abbreviation CR_RESET :: u16 where "CR_RESET \<equiv> 0x0001"
abbreviation CR_EXTERNAL_INT :: u16 where "CR_EXTERNAL_INT \<equiv> 0x0002"
abbreviation CR_HALT :: u16 where "CR_HALT \<equiv> 0x0004"
abbreviation CR_INIT_CODE :: u16 where "CR_INIT_CODE \<equiv> 0x0400"
abbreviation CR_INIT :: u16 where "CR_INIT \<equiv> 0x0800"

abbreviation SR_CARRY :: u16 where "SR_CARRY \<equiv> 0x0001"
abbreviation SR_OVERFLOW :: u16 where "SR_OVERFLOW \<equiv> 0x0002"
abbreviation SR_ARITH_ZERO :: u16 where "SR_ARITH_ZERO \<equiv> 0x0004"
abbreviation SR_SIGN :: u16 where "SR_SIGN \<equiv> 0x0008"
abbreviation SR_OVER_S32 :: u16 where "SR_OVER_S32 \<equiv> 0x0010"
abbreviation SR_TOP2BITS :: u16 where "SR_TOP2BITS \<equiv> 0x0020"
abbreviation SR_LOGIC_ZERO :: u16 where "SR_LOGIC_ZERO \<equiv> 0x0040"
abbreviation SR_OVERFLOW_STICKY :: u16 where "SR_OVERFLOW_STICKY \<equiv> 0x0080"
abbreviation SR_100 :: u16 where "SR_100 \<equiv> 0x0100"
abbreviation SR_INT_ENABLE :: u16 where "SR_INT_ENABLE \<equiv> 0x0200"
abbreviation SR_EXT_INT_ENABLE :: u16 where "SR_EXT_INT_ENABLE \<equiv> 0x0800"
abbreviation SR_MUL_MODIFY :: u16 where "SR_MUL_MODIFY \<equiv> 0x2000"
abbreviation SR_40_MODE_BIT :: u16 where "SR_40_MODE_BIT \<equiv> 0x4000"
abbreviation SR_MUL_UNSIGNED :: u16 where "SR_MUL_UNSIGNED \<equiv> 0x8000"
abbreviation SR_CMP_MASK :: u16 where "SR_CMP_MASK \<equiv> 0x3f"

datatype StackRegister = Call | Data | LoopAddress | LoopCounter

text \<open>\<open>static_cast<size_t>\<close> of a stack register, and the cast back from a register number.\<close>

definition stack_index :: "StackRegister \<Rightarrow> nat" where
  "stack_index sr = (case sr of Call \<Rightarrow> 0 | Data \<Rightarrow> 1 | LoopAddress \<Rightarrow> 2 | LoopCounter \<Rightarrow> 3)"

definition StackRegister_of :: "int \<Rightarrow> StackRegister" where
  "StackRegister_of i =
     (if i = 0 then Call else if i = 1 then Data else if i = 2 then LoopAddress else LoopCounter)"

datatype ExceptionType =
  StackOverflow | EXP_2 | AcceleratorRawReadOverflow | AcceleratorRawWriteOverflow
| AcceleratorSampleReadOverflow | EXP_6 | ExternalInterrupt

definition exception_code :: "ExceptionType \<Rightarrow> nat" where
  "exception_code e =
     (case e of StackOverflow \<Rightarrow> 1 | EXP_2 \<Rightarrow> 2 | AcceleratorRawReadOverflow \<Rightarrow> 3
      | AcceleratorRawWriteOverflow \<Rightarrow> 4 | AcceleratorSampleReadOverflow \<Rightarrow> 5 | EXP_6 \<Rightarrow> 6
      | ExternalInterrupt \<Rightarrow> 7)"

datatype Mailbox = MailboxCPU | MailboxDSP

section \<open>The register file\<close>

record DSP_Regs =
  ar :: "nat \<Rightarrow> u16"
  ix :: "nat \<Rightarrow> u16"
  wr :: "nat \<Rightarrow> u16"
  st :: "nat \<Rightarrow> u16"
  cr :: u16
  sr :: u16
  prod :: u64
  ax :: "nat \<Rightarrow> u32"
  ac :: "nat \<Rightarrow> u64"

text \<open>The members of the unions: 16-bit parts at a bit offset, and the 32-bit high part of \<open>ac\<close>.\<close>

definition get16 :: "nat \<Rightarrow> 'a::len word \<Rightarrow> u16" where
  "get16 off v = ucast (drop_bit off v)"

definition put16 :: "nat \<Rightarrow> u16 \<Rightarrow> 'a::len word \<Rightarrow> 'a word" where
  "put16 off x v = (v AND NOT (push_bit off 0xffff)) OR push_bit off (ucast x)"

abbreviation prod_l :: "u64 \<Rightarrow> u16" where "prod_l \<equiv> get16 0"
abbreviation prod_m :: "u64 \<Rightarrow> u16" where "prod_m \<equiv> get16 16"
abbreviation prod_h :: "u64 \<Rightarrow> u16" where "prod_h \<equiv> get16 32"
abbreviation prod_m2 :: "u64 \<Rightarrow> u16" where "prod_m2 \<equiv> get16 48"
abbreviation ax_l :: "u32 \<Rightarrow> u16" where "ax_l \<equiv> get16 0"
abbreviation ax_h :: "u32 \<Rightarrow> u16" where "ax_h \<equiv> get16 16"
abbreviation ac_l :: "u64 \<Rightarrow> u16" where "ac_l \<equiv> get16 0"
abbreviation ac_m :: "u64 \<Rightarrow> u16" where "ac_m \<equiv> get16 16"

definition ac_h :: "u64 \<Rightarrow> u32" where
  "ac_h v = ucast (drop_bit 32 v)"

definition put_ac_h :: "u32 \<Rightarrow> u64 \<Rightarrow> u64" where
  "put_ac_h x v = (v AND NOT (push_bit 32 0xffffffff)) OR push_bit 32 (ucast x)"

section \<open>The DSP state and the interpreter\<close>

record SDSP =
  regs :: DSP_Regs
  pc :: u16
  control_reg :: u16
  control_reg_init_code_clear_time :: u64
  reg_stack_ptrs :: "nat \<Rightarrow> u8"
  exceptions :: u8
  external_interrupt_waiting :: bool
  reg_stacks :: "nat \<Rightarrow> nat \<Rightarrow> u16"
  iram :: "nat \<Rightarrow> u16"
  dram :: "nat \<Rightarrow> u16"
  irom :: "nat \<Rightarrow> u16"
  coef :: "nat \<Rightarrow> u16"
  m_iram_crc :: u32
  m_step_counter :: u64
  m_ifx_regs :: "nat \<Rightarrow> u16"
  m_accelerator :: Accelerator
  m_mailbox :: "Mailbox \<Rightarrow> u32"
  m_code_flags :: "u16 \<Rightarrow> u8"
  host :: Host

record Interpreter = SDSP +
  m_write_back_log :: "nat \<Rightarrow> u16"
  m_write_back_log_idx :: "nat \<Rightarrow> int"

text \<open>Assignments to a register of the file.\<close>

abbreviation set_ar :: "nat \<Rightarrow> u16 \<Rightarrow> 'a SDSP_scheme \<Rightarrow> 'a SDSP_scheme" where
  "set_ar i v \<equiv> regs_update (ar_update (\<lambda>f. f(i := v)))"
abbreviation set_ix :: "nat \<Rightarrow> u16 \<Rightarrow> 'a SDSP_scheme \<Rightarrow> 'a SDSP_scheme" where
  "set_ix i v \<equiv> regs_update (ix_update (\<lambda>f. f(i := v)))"
abbreviation set_wr :: "nat \<Rightarrow> u16 \<Rightarrow> 'a SDSP_scheme \<Rightarrow> 'a SDSP_scheme" where
  "set_wr i v \<equiv> regs_update (wr_update (\<lambda>f. f(i := v)))"
abbreviation set_st :: "nat \<Rightarrow> u16 \<Rightarrow> 'a SDSP_scheme \<Rightarrow> 'a SDSP_scheme" where
  "set_st i v \<equiv> regs_update (st_update (\<lambda>f. f(i := v)))"
abbreviation set_cr :: "u16 \<Rightarrow> 'a SDSP_scheme \<Rightarrow> 'a SDSP_scheme" where
  "set_cr v \<equiv> regs_update (cr_update (\<lambda>_. v))"
abbreviation set_sr :: "u16 \<Rightarrow> 'a SDSP_scheme \<Rightarrow> 'a SDSP_scheme" where
  "set_sr v \<equiv> regs_update (sr_update (\<lambda>_. v))"
abbreviation set_prod :: "u64 \<Rightarrow> 'a SDSP_scheme \<Rightarrow> 'a SDSP_scheme" where
  "set_prod v \<equiv> regs_update (prod_update (\<lambda>_. v))"
abbreviation upd_prod :: "(u64 \<Rightarrow> u64) \<Rightarrow> 'a SDSP_scheme \<Rightarrow> 'a SDSP_scheme" where
  "upd_prod g \<equiv> regs_update (prod_update g)"
abbreviation upd_ax :: "nat \<Rightarrow> (u32 \<Rightarrow> u32) \<Rightarrow> 'a SDSP_scheme \<Rightarrow> 'a SDSP_scheme" where
  "upd_ax i g \<equiv> regs_update (ax_update (\<lambda>f. f(i := g (f i))))"
abbreviation upd_ac :: "nat \<Rightarrow> (u64 \<Rightarrow> u64) \<Rightarrow> 'a SDSP_scheme \<Rightarrow> 'a SDSP_scheme" where
  "upd_ac i g \<equiv> regs_update (ac_update (\<lambda>f. f(i := g (f i))))"

section \<open>Flags and exceptions\<close>

definition SetSRFlag :: "u16 \<Rightarrow> 'a SDSP_scheme \<Rightarrow> 'a SDSP_scheme" where
  "SetSRFlag flag s = set_sr (sr (regs s) OR flag) s"

definition IsSRFlagSet :: "'a SDSP_scheme \<Rightarrow> u16 \<Rightarrow> bool" where
  "IsSRFlagSet s flag \<longleftrightarrow> sr (regs s) AND flag \<noteq> 0"

definition SetException :: "ExceptionType \<Rightarrow> 'a SDSP_scheme \<Rightarrow> 'a SDSP_scheme" where
  "SetException exception s =
     s\<lparr>exceptions := exceptions s OR push_bit (exception_code exception) 1\<rparr>"

text \<open>The callbacks of \<open>LLEAccelerator\<close>.\<close>

definition accel_exception :: "accel_event \<Rightarrow> ExceptionType" where
  "accel_exception e =
     (case e of OnRawReadEndException \<Rightarrow> AcceleratorRawReadOverflow
      | OnRawWriteEndException \<Rightarrow> AcceleratorRawWriteOverflow
      | OnSampleReadEndException \<Rightarrow> AcceleratorSampleReadOverflow)"

definition raise_events :: "accel_event list \<Rightarrow> 'a SDSP_scheme \<Rightarrow> 'a SDSP_scheme" where
  "raise_events evs s = fold (\<lambda>e. SetException (accel_exception e)) evs s"

section \<open>Lemmas on the unions\<close>

named_theorems union_bits "bits of the parts of a union"

lemma bit_get16 [union_bits]: "bit (get16 off v) n \<longleftrightarrow> n < 16 \<and> bit v (off + n)"
  by (auto simp: get16_def bit_simps)

lemma bit_put16 [union_bits]:
  "bit (put16 off x (v :: 'a::len word)) n \<longleftrightarrow>
     n < LENGTH('a) \<and> (if off \<le> n \<and> n < off + 16 then bit x (n - off) else bit v n)"
proof -
  have m: "(0xffff :: 'a word) = mask 16" by (simp add: mask_eq_exp_minus_1)
  show ?thesis
    unfolding put16_def m by (auto simp: bit_simps not_less dest: bit_imp_le_length)
qed

lemma bit_ac_h [union_bits]: "bit (ac_h v) n \<longleftrightarrow> n < 32 \<and> bit v (32 + n)"
  by (auto simp: ac_h_def bit_simps)

lemma bit_put_ac_h [union_bits]:
  "bit (put_ac_h x v) n \<longleftrightarrow> n < 64 \<and> (if 32 \<le> n then bit x (n - 32) else bit v n)"
proof -
  have m: "(0xffffffff :: u64) = mask 32" by (simp add: mask_eq_exp_minus_1)
  show ?thesis
    unfolding put_ac_h_def m by (auto simp: bit_simps not_less dest: bit_imp_le_length)
qed

lemma get16_put16_same [simp]:
  "off + 16 \<le> LENGTH('a) \<Longrightarrow> get16 off (put16 off x (v :: 'a::len word)) = x"
  by (rule bit_word_eqI) (simp add: union_bits)

lemma get16_put16_other [simp]:
  "off + 16 \<le> off' \<or> off' + 16 \<le> off \<Longrightarrow> get16 off (put16 off' x (v :: 'a::len word)) = get16 off v"
  by (rule bit_word_eqI) (auto simp: union_bits dest: bit_imp_le_length)

lemma ac_h_put_ac_h [simp]: "ac_h (put_ac_h x v) = x"
  by (rule bit_word_eqI) (simp add: union_bits)

lemma get16_put_ac_h [simp]: "off + 16 \<le> 32 \<Longrightarrow> get16 off (put_ac_h x v) = get16 off v"
  by (rule bit_word_eqI) (simp add: union_bits)

lemma ac_h_put16 [simp]: "off + 16 \<le> 32 \<Longrightarrow> ac_h (put16 off x v) = ac_h v"
  by (rule bit_word_eqI) (simp add: union_bits)

end
