(* ===== verification/Bit_Patterns.thy ===== *)
theory Bit_Patterns
  imports Prelude
begin

text \<open>
  Opcode patterns: a table entry matches an instruction word when the word, under the entry's mask,
  is the entry's opcode.  The theory turns a mask and an opcode into a list of optional bits and
  gives three checks on lists of such patterns that walk the bits once (no two patterns of a list
  overlap; every word matched in one list is matched in another; matching entries of two lists are
  related), each with its soundness.  The check of a table is then one evaluation.  The locale
  \<open>opcode_table\<close> states what a look-up by first match may rely on.
\<close>

unbundle bit_operations_syntax

section \<open>Patterns\<close>

type_synonym pattern = "bool option list"

definition pattern_of :: "u16 \<Rightarrow> u16 \<Rightarrow> pattern" where
  "pattern_of m c = map (\<lambda>n. if bit m n then Some (bit c n) else None) (rev [0..<16])"

definition bits_of :: "u16 \<Rightarrow> bool list" where
  "bits_of i = map (bit i) (rev [0..<16])"

fun accepts :: "pattern \<Rightarrow> bool list \<Rightarrow> bool" where
  "accepts [] [] = True"
| "accepts (p # ps) (b # bs) = ((p = None \<or> p = Some b) \<and> accepts ps bs)"
| "accepts _ _ = False"

lemma length_pattern_of [simp]: "length (pattern_of m c) = 16"
  by (simp add: pattern_of_def)

lemma length_bits_of [simp]: "length (bits_of i) = 16"
  by (simp add: bits_of_def)

lemma accepts_map: "accepts (map f xs) (map g xs) \<longleftrightarrow> (\<forall>x\<in>set xs. f x = None \<or> f x = Some (g x))"
  by (induction xs) auto

lemma word_bits_16: "(a :: u16) = b \<longleftrightarrow> (\<forall>n<16. bit a n = bit b n)"
  by (auto intro: bit_word_eqI)

lemma accepts_pattern_of:
  assumes "c AND m = c"
  shows "accepts (pattern_of m c) (bits_of i) \<longleftrightarrow> i AND m = c"
proof -
  have sub: "bit c n \<longrightarrow> bit m n" for n
    using assms by (metis bit_and_iff)
  have "i AND m = c \<longleftrightarrow> (\<forall>n<16. bit (i AND m) n = bit c n)"
    by (auto simp: word_bits_16)
  also have "\<dots> \<longleftrightarrow> (\<forall>n<16. bit m n \<longrightarrow> bit c n = bit i n)"
    using sub by (auto simp: bit_and_iff)
  finally show ?thesis
    unfolding pattern_of_def bits_of_def accepts_map by auto
qed

section \<open>Evaluating a pattern\<close>

text \<open>
  \<open>pattern_of\<close> tests 32 bits of two words; this code equation for it reads the binary numerals
  once, so that the checks below run over a whole table in seconds.
\<close>

fun num_bits :: "num \<Rightarrow> bool list" where
  "num_bits num.One = [True]"
| "num_bits (num.Bit0 n) = False # num_bits n"
| "num_bits (num.Bit1 n) = True # num_bits n"

definition int_bits :: "int \<Rightarrow> bool list" where
  "int_bits i = (if i \<le> 0 then [] else num_bits (num_of_nat (nat i)))"

lemma int_bits_code [code]:
  "int_bits 0 = []" "int_bits (Int.Pos n) = num_bits n" "int_bits (Int.Neg n) = []"
  by (simp_all add: int_bits_def num_of_nat_numeral_eq flip: Int.Pos_def Int.Neg_def) (simp_all add: Int.Pos_def Int.Neg_def)

fun pattern_bits :: "nat \<Rightarrow> bool list \<Rightarrow> bool list \<Rightarrow> pattern \<Rightarrow> pattern" where
  "pattern_bits 0 ms cs acc = acc"
| "pattern_bits (Suc n) [] cs acc = pattern_bits n [] [] (None # acc)"
| "pattern_bits (Suc n) (False # ms) cs acc = pattern_bits n ms (tl cs) (None # acc)"
| "pattern_bits (Suc n) (True # ms) [] acc = pattern_bits n ms [] (Some False # acc)"
| "pattern_bits (Suc n) (True # ms) (c # cs) acc = pattern_bits n ms cs (Some c # acc)"

definition nth_bit :: "bool list \<Rightarrow> nat \<Rightarrow> bool" where
  "nth_bit bs n \<longleftrightarrow> n < length bs \<and> bs ! n"

lemma nth_bit_num_bits: "nth_bit (num_bits k) n = bit (numeral k :: int) n"
proof (induction k arbitrary: n rule: num_bits.induct)
  case 1
  then show ?case by (cases n) (auto simp: nth_bit_def)
next
  case (2 k)
  then show ?case by (cases n) (auto simp: nth_bit_def)
next
  case (3 k)
  then show ?case by (cases n) (auto simp: nth_bit_def)
qed

lemma nth_bit_int_bits: "0 \<le> i \<Longrightarrow> nth_bit (int_bits i) n = bit i n"
proof (cases "i = 0")
  case True
  then show ?thesis by (simp add: int_bits_def nth_bit_def)
next
  case False
  assume "0 \<le> i"
  with False obtain k where "i = numeral k"
    by (metis nat_0_le num_of_nat_inverse numeral_num_of_nat of_nat_numeral zero_less_iff_neq_zero nat_0_iff not_le order_antisym)
  then show ?thesis by (simp add: int_bits_def num_of_nat_numeral_eq nth_bit_num_bits)
qed

lemma nth_bit_simps [simp]:
  "nth_bit [] n = False" "nth_bit (b # bs) 0 = b" "nth_bit (b # bs) (Suc n) = nth_bit bs n"
  "nth_bit (tl bs) n = nth_bit bs (Suc n)"
  by (auto simp: nth_bit_def nth_tl)

lemma pattern_bits:
  "pattern_bits n ms cs acc =
     map (\<lambda>n. if nth_bit ms n then Some (nth_bit cs n) else None) (rev [0..<n]) @ acc"
proof -
  have *: "rev [0..<Suc n] = map Suc (rev [0..<n]) @ [0]" for n
    by (simp add: rev_map [symmetric] map_Suc_upt upt_conv_Cons del: upt_Suc)
  show ?thesis
    by (induction n ms cs acc rule: pattern_bits.induct)
       (simp_all add: * comp_def del: upt_Suc)
qed

lemma pattern_of_code [code]:
  "pattern_of m c = pattern_bits 16 (int_bits (uint m)) (int_bits (uint c)) []"
  by (simp add: pattern_bits pattern_of_def nth_bit_int_bits bit_uint_iff)

section \<open>Walking the bits\<close>

text \<open>The patterns that allow the first bit to be \<open>b\<close>, without it.\<close>

fun on_bit :: "bool \<Rightarrow> ('a \<times> pattern) list \<Rightarrow> ('a \<times> pattern) list" where
  "on_bit b [] = []"
| "on_bit b ((a, []) # xs) = on_bit b xs"
| "on_bit b ((a, p # ps) # xs) =
     (if p = Some (\<not> b) then on_bit b xs else (a, ps) # on_bit b xs)"

definition hits :: "('a \<times> pattern) list \<Rightarrow> bool list \<Rightarrow> 'a list" where
  "hits xs bs = map fst (filter (\<lambda>x. accepts (snd x) bs) xs)"

lemma hits_Nil [simp]: "hits [] bs = []"
  by (simp add: hits_def)

lemma hits_on_bit: "hits (on_bit b xs) bs = hits xs (b # bs)"
proof (induction b xs rule: on_bit.induct)
  case (3 b a p ps xs)
  then show ?case by (cases p) (auto simp: hits_def)
qed (auto simp: hits_def)

lemma hits_set_subset: "set (hits xs bs) \<subseteq> fst ` set xs"
  by (auto simp: hits_def)

lemma length_hits_le: "length (hits xs bs) \<le> length xs"
  by (simp add: hits_def)

fun at_most_one :: "nat \<Rightarrow> ('a \<times> pattern) list \<Rightarrow> bool" where
  "at_most_one n xs =
     (if tl xs = [] then True
      else case n of 0 \<Rightarrow> False
           | Suc n \<Rightarrow> if at_most_one n (on_bit False xs) then at_most_one n (on_bit True xs) else False)"

declare at_most_one.simps [simp del]

lemma at_most_one_hits: "at_most_one (length bs) xs \<Longrightarrow> length (hits xs bs) \<le> 1"
proof (induction bs arbitrary: xs)
  case Nil
  then have "tl xs = []" by (subst (asm) at_most_one.simps) (simp split: if_splits)
  then show ?case using length_hits_le [of xs "[]"] by (cases xs) auto
next
  case (Cons b bs)
  show ?case
  proof (cases "tl xs = []")
    case True
    then show ?thesis using length_hits_le [of xs "b # bs"] by (cases xs) auto
  next
    case False
    with Cons.prems have "at_most_one (length bs) (on_bit b xs)"
      by (subst (asm) at_most_one.simps) (cases b; simp split: if_splits)
    from Cons.IH [OF this] show ?thesis by (simp add: hits_on_bit)
  qed
qed

text \<open>The labels do not matter to the count.\<close>

definition unlabelled :: "('a \<times> pattern) list \<Rightarrow> (unit \<times> pattern) list" where
  "unlabelled xs = map (\<lambda>x. ((), snd x)) xs"

lemma length_hits_unlabelled: "length (hits (unlabelled xs) bs) = length (hits xs bs)"
  unfolding unlabelled_def hits_def by (induction xs) auto

definition wildcard :: "('a \<times> pattern) list \<Rightarrow> bool" where
  "wildcard xs \<longleftrightarrow> (\<exists>x\<in>set xs. list_all (\<lambda>p. p = None) (snd x))"

fun covered :: "nat \<Rightarrow> ('a \<times> pattern) list \<Rightarrow> ('b \<times> pattern) list \<Rightarrow> bool" where
  "covered n xs ys =
     (if xs = [] then True
      else if ys = [] then False
      else case n of 0 \<Rightarrow> True
           | Suc n \<Rightarrow>
               if wildcard ys then True
               else if covered n (on_bit False xs) (on_bit False ys)
                    then covered n (on_bit True xs) (on_bit True ys) else False)"

declare covered.simps [simp del]

lemma accepts_wildcard: "list_all (\<lambda>p. p = None) ps \<Longrightarrow> length ps = length bs \<Longrightarrow> accepts ps bs"
  by (induction ps bs rule: accepts.induct) auto

lemma on_bit_length:
  "(a, ps) \<in> set (on_bit b xs) \<Longrightarrow> \<forall>x\<in>set xs. length (snd x) = Suc n \<Longrightarrow> length ps = n"
  by (induction b xs rule: on_bit.induct) (auto split: if_splits)

lemma covered_hits:
  "covered (length bs) xs ys \<Longrightarrow> \<forall>y\<in>set ys. length (snd y) = length bs \<Longrightarrow> hits xs bs \<noteq> []
    \<Longrightarrow> hits ys bs \<noteq> []"
proof (induction bs arbitrary: xs ys)
  case Nil
  then have "ys \<noteq> []" by (subst (asm) covered.simps) (auto split: if_splits)
  then obtain y ys' where "ys = y # ys'" by (cases ys) auto
  with Nil.prems(2) show ?case by (auto simp: hits_def)
next
  case (Cons b bs)
  have xs: "xs \<noteq> []" using Cons.prems(3) by auto
  show ?case
  proof (cases "wildcard ys")
    case True
    then obtain y where "y \<in> set ys" "list_all (\<lambda>p. p = None) (snd y)" by (auto simp: wildcard_def)
    with Cons.prems(2) have "fst y \<in> set (hits ys (b # bs))"
      by (auto simp: hits_def intro!: image_eqI accepts_wildcard)
    then show ?thesis by force
  next
    case False
    with Cons.prems(1) xs have "covered (length bs) (on_bit b xs) (on_bit b ys)"
      by (subst (asm) covered.simps) (cases b; simp split: if_splits)
    moreover have "\<forall>y\<in>set (on_bit b ys). length (snd y) = length bs"
      using on_bit_length [of _ _ b ys "length bs"] Cons.prems(2) by fastforce
    moreover have "hits (on_bit b xs) bs \<noteq> []"
      using Cons.prems(3) by (simp add: hits_on_bit)
    ultimately have "hits (on_bit b ys) bs \<noteq> []" by (rule Cons.IH)
    then show ?thesis by (simp add: hits_on_bit)
  qed
qed

fun all_pairs :: "('a \<Rightarrow> 'b \<Rightarrow> bool) \<Rightarrow> ('a \<times> pattern) list \<Rightarrow> ('b \<times> pattern) list \<Rightarrow> bool" where
  "all_pairs R [] ys = True"
| "all_pairs R (x # xs) ys = (if list_all (\<lambda>y. R (fst x) (fst y)) ys then all_pairs R xs ys else False)"

lemma all_pairs_iff: "all_pairs R xs ys \<longleftrightarrow> (\<forall>x\<in>set xs. \<forall>y\<in>set ys. R (fst x) (fst y))"
  by (induction xs) (auto simp: list_all_iff)

fun related :: "('a \<Rightarrow> 'b \<Rightarrow> bool) \<Rightarrow> nat \<Rightarrow> ('a \<times> pattern) list \<Rightarrow> ('b \<times> pattern) list \<Rightarrow> bool" where
  "related R n xs ys =
     (if xs = [] then True else if ys = [] then True
      else if (if tl xs = [] then True else tl ys = []) then
        (if all_pairs R xs ys then True
         else case n of 0 \<Rightarrow> False
              | Suc n \<Rightarrow> if related R n (on_bit False xs) (on_bit False ys)
                         then related R n (on_bit True xs) (on_bit True ys) else False)
      else case n of 0 \<Rightarrow> all_pairs R xs ys
           | Suc n \<Rightarrow> if related R n (on_bit False xs) (on_bit False ys)
                      then related R n (on_bit True xs) (on_bit True ys) else False)"

declare related.simps [simp del]

lemma all_pairs_hits:
  "all_pairs R xs ys \<Longrightarrow> a \<in> set (hits xs bs) \<Longrightarrow> b \<in> set (hits ys bs) \<Longrightarrow> R a b"
  by (auto simp: all_pairs_iff hits_def)

lemma related_hits:
  "related R (length bs) xs ys \<Longrightarrow> a \<in> set (hits xs bs) \<Longrightarrow> b \<in> set (hits ys bs) \<Longrightarrow> R a b"
proof (induction bs arbitrary: xs ys)
  case Nil
  then have "xs \<noteq> []" "ys \<noteq> []" by auto
  with Nil.prems(1) have "all_pairs R xs ys"
    by (subst (asm) related.simps) (simp split: if_splits)
  from this Nil.prems(2,3) show ?case by (rule all_pairs_hits)
next
  case (Cons c bs)
  have ne: "xs \<noteq> []" "ys \<noteq> []" using Cons.prems by auto
  show ?case
  proof (cases "all_pairs R xs ys")
    case True
    from this Cons.prems(2,3) show ?thesis by (rule all_pairs_hits)
  next
    case False
    with Cons.prems(1) ne have "related R (length bs) (on_bit c xs) (on_bit c ys)"
      by (subst (asm) related.simps) (cases c; simp split: if_splits)
    with Cons.prems(2,3) show ?thesis by (intro Cons.IH) (auto simp: hits_on_bit)
  qed
qed


section \<open>Tables looked up by first match\<close>

text \<open>Tables are lists of entries with a mask and an opcode; these are their labelled patterns.\<close>

definition patterns :: "('e \<Rightarrow> u16) \<Rightarrow> ('e \<Rightarrow> u16) \<Rightarrow> 'e list \<Rightarrow> ('e \<times> pattern) list" where
  "patterns msk code es = map (\<lambda>e. (e, pattern_of (msk e) (code e))) es"

definition masks_ok :: "('e \<Rightarrow> u16) \<Rightarrow> ('e \<Rightarrow> u16) \<Rightarrow> 'e list \<Rightarrow> bool" where
  "masks_ok msk code es \<longleftrightarrow> list_all (\<lambda>e. code e AND msk e = code e) es"

lemma hits_patterns:
  "masks_ok msk code es \<Longrightarrow> hits (patterns msk code es) (bits_of i) = filter (\<lambda>e. i AND msk e = code e) es"
  unfolding masks_ok_def patterns_def hits_def
  by (induction es) (simp_all add: accepts_pattern_of)

lemma patterns_length: "\<forall>y\<in>set (patterns msk code es). length (snd y) = 16"
  by (auto simp: patterns_def)

locale opcode_table =
  fixes msk code :: "'e \<Rightarrow> u16" and entries :: "'e list"
  assumes masks: "masks_ok msk code entries"
    and one_match: "at_most_one 16 (unlabelled (patterns msk code entries))"
begin

definition lookup :: "u16 \<Rightarrow> 'e option" where
  "lookup i = find (\<lambda>e. i AND msk e = code e) entries"

lemma at_most_one_match: "length (filter (\<lambda>e. i AND msk e = code e) entries) \<le> 1"
  using at_most_one_hits [of "bits_of i" "unlabelled (patterns msk code entries)"] one_match
  by (simp add: hits_patterns [OF masks] length_hits_unlabelled)

lemma match_unique:
  assumes "e \<in> set entries" "i AND msk e = code e" "e' \<in> set entries" "i AND msk e' = code e'"
  shows "e = e'"
proof -
  have "set (filter (\<lambda>e. i AND msk e = code e) entries) \<supseteq> {e, e'}" using assms by auto
  with at_most_one_match [of i] show ?thesis
    by (cases "filter (\<lambda>e. i AND msk e = code e) entries") auto
qed

lemma lookup_iff: "lookup i = Some e \<longleftrightarrow> e \<in> set entries \<and> i AND msk e = code e"
proof
  assume "lookup i = Some e"
  then show "e \<in> set entries \<and> i AND msk e = code e"
    by (auto simp: lookup_def find_Some_iff)
next
  assume r: "e \<in> set entries \<and> i AND msk e = code e"
  then obtain e' where e': "lookup i = Some e'"
    by (cases "lookup i") (auto simp: lookup_def find_None_iff)
  then have "e' \<in> set entries \<and> i AND msk e' = code e'"
    by (auto simp: lookup_def find_Some_iff)
  with r e' match_unique show "lookup i = Some e" by blast
qed

text \<open>The order of the entries does not matter.\<close>

lemma lookup_perm:
  assumes "set es = set entries"
  shows "find (\<lambda>e. i AND msk e = code e) es = lookup i"
proof (cases "find (\<lambda>e. i AND msk e = code e) es")
  case None
  with assms have "lookup i = None" by (simp add: lookup_def find_None_iff)
  with None show ?thesis by simp
next
  case (Some e)
  with assms have "e \<in> set entries \<and> i AND msk e = code e" by (auto simp: find_Some_iff)
  then have "lookup i = Some e" by (simp add: lookup_iff)
  with Some show ?thesis by simp
qed

end

end
