(* ===== verification/Dsp_Tables.thy ===== *)
theory Dsp_Tables
  imports Dsp_State Bit_Patterns
begin

text \<open>
  The instruction tables of Source/Core/Core/DSP/DSPTables.cpp and DSPTables.h: parameter types,
  the template of an instruction, the list of all templates and of the extension templates, and
  the two look-up tables \<open>InitInstructionTable\<close> builds.  The code writes the tables as aggregates,
  so a template is a datatype whose arguments are the members in order.  The lemmas show that the
  patterns of the main table do not overlap, so that the order of its entries does not matter.
\<close>

unbundle bit_operations_syntax

section \<open>Templates\<close>

text \<open>The enumerators of \<open>partype_t\<close>; the base register of a register parameter is in bits 8 to 14.\<close>

type_synonym partype_t = u32

abbreviation P_NONE :: partype_t where "P_NONE \<equiv> 0x0000"
abbreviation P_VAL :: partype_t where "P_VAL \<equiv> 0x0001"
abbreviation P_IMM :: partype_t where "P_IMM \<equiv> 0x0002"
abbreviation P_MEM :: partype_t where "P_MEM \<equiv> 0x0003"
abbreviation P_STR :: partype_t where "P_STR \<equiv> 0x0004"
abbreviation P_ADDR_I :: partype_t where "P_ADDR_I \<equiv> 0x0005"
abbreviation P_ADDR_D :: partype_t where "P_ADDR_D \<equiv> 0x0006"
abbreviation P_REG :: partype_t where "P_REG \<equiv> 0x8000"
abbreviation P_REG04 :: partype_t where "P_REG04 \<equiv> 0x8400"
abbreviation P_REG08 :: partype_t where "P_REG08 \<equiv> 0x8800"
abbreviation P_REG18 :: partype_t where "P_REG18 \<equiv> 0x9800"
abbreviation P_REGM18 :: partype_t where "P_REGM18 \<equiv> 0x9810"
abbreviation P_REG19 :: partype_t where "P_REG19 \<equiv> 0x9900"
abbreviation P_REGM19 :: partype_t where "P_REGM19 \<equiv> 0x9910"
abbreviation P_REG1A :: partype_t where "P_REG1A \<equiv> 0x9a80"
abbreviation P_ACCL :: partype_t where "P_ACCL \<equiv> 0x9c00"
abbreviation P_REG1C :: partype_t where "P_REG1C \<equiv> 0x9c10"
abbreviation P_ACCM :: partype_t where "P_ACCM \<equiv> 0x9e00"
abbreviation P_ACCM_D :: partype_t where "P_ACCM_D \<equiv> 0x9e80"
abbreviation P_ACC :: partype_t where "P_ACC \<equiv> 0xa000"
abbreviation P_ACCH :: partype_t where "P_ACCH \<equiv> 0x9000"
abbreviation P_ACC_D :: partype_t where "P_ACC_D \<equiv> 0xa080"
abbreviation P_AX :: partype_t where "P_AX \<equiv> 0xa200"
abbreviation P_REF :: partype_t where "P_REF \<equiv> 0xc000"
abbreviation P_PRG :: partype_t where "P_PRG \<equiv> 0xc000"

datatype param2_t =
  Param (param_type: partype_t) (param_size: nat) (param_loc: nat) (param_lshift: int)
    (param_mask: u16)

datatype DSPOPCTemplate =
  DSPOPCTemplate (op_name: string) (opcode: u16) (opcode_mask: u16) (op_size: u16) (op_param_count: nat)
    (op_params: "param2_t list") (extended: bool) (branch: bool) (uncond_branch: bool)
    (reads_pc: bool) (updates_sr: bool)

section \<open>The tables\<close>

definition s_opcodes_basic :: "DSPOPCTemplate list" where
  "s_opcodes_basic = [
     DSPOPCTemplate ''NOP'' 0x0000 0xfffc 1 0 [] False False False False False,
     DSPOPCTemplate ''DAR'' 0x0004 0xfffc 1 1 [Param P_REG 1 0 0 0x0003] False False False False False,
     DSPOPCTemplate ''IAR'' 0x0008 0xfffc 1 1 [Param P_REG 1 0 0 0x0003] False False False False False,
     DSPOPCTemplate ''SUBARN'' 0x000c 0xfffc 1 1 [Param P_REG 1 0 0 0x0003] False False False False False,
     DSPOPCTemplate ''ADDARN'' 0x0010 0xfff0 1 2 [Param P_REG 1 0 0 0x0003, Param P_REG04 1 0 2 0x000c] False False False False False,
     DSPOPCTemplate ''HALT'' 0x0021 0xffff 1 0 [] False True True False False]"

definition s_opcodes_ret :: "DSPOPCTemplate list" where
  "s_opcodes_ret = [
     DSPOPCTemplate ''RETGE'' 0x02d0 0xffff 1 0 [] False True False True False,
     DSPOPCTemplate ''RETL'' 0x02d1 0xffff 1 0 [] False True False True False,
     DSPOPCTemplate ''RETG'' 0x02d2 0xffff 1 0 [] False True False True False,
     DSPOPCTemplate ''RETLE'' 0x02d3 0xffff 1 0 [] False True False True False,
     DSPOPCTemplate ''RETNZ'' 0x02d4 0xffff 1 0 [] False True False True False,
     DSPOPCTemplate ''RETZ'' 0x02d5 0xffff 1 0 [] False True False True False,
     DSPOPCTemplate ''RETNC'' 0x02d6 0xffff 1 0 [] False True False True False,
     DSPOPCTemplate ''RETC'' 0x02d7 0xffff 1 0 [] False True False True False,
     DSPOPCTemplate ''RETX8'' 0x02d8 0xffff 1 0 [] False True False True False,
     DSPOPCTemplate ''RETX9'' 0x02d9 0xffff 1 0 [] False True False True False,
     DSPOPCTemplate ''RETXA'' 0x02da 0xffff 1 0 [] False True False True False,
     DSPOPCTemplate ''RETXB'' 0x02db 0xffff 1 0 [] False True False True False,
     DSPOPCTemplate ''RETLNZ'' 0x02dc 0xffff 1 0 [] False True False True False,
     DSPOPCTemplate ''RETLZ'' 0x02dd 0xffff 1 0 [] False True False True False,
     DSPOPCTemplate ''RETO'' 0x02de 0xffff 1 0 [] False True False True False,
     DSPOPCTemplate ''RET'' 0x02df 0xffff 1 0 [] False True True False False]"

definition s_opcodes_rti :: "DSPOPCTemplate list" where
  "s_opcodes_rti = [
     DSPOPCTemplate ''RTIGE'' 0x02f0 0xffff 1 0 [] False True False True False,
     DSPOPCTemplate ''RTIL'' 0x02f1 0xffff 1 0 [] False True False True False,
     DSPOPCTemplate ''RTIG'' 0x02f2 0xffff 1 0 [] False True False True False,
     DSPOPCTemplate ''RTILE'' 0x02f3 0xffff 1 0 [] False True False True False,
     DSPOPCTemplate ''RTINZ'' 0x02f4 0xffff 1 0 [] False True False True False,
     DSPOPCTemplate ''RTIZ'' 0x02f5 0xffff 1 0 [] False True False True False,
     DSPOPCTemplate ''RTINC'' 0x02f6 0xffff 1 0 [] False True False True False,
     DSPOPCTemplate ''RTIC'' 0x02f7 0xffff 1 0 [] False True False True False,
     DSPOPCTemplate ''RTIX8'' 0x02f8 0xffff 1 0 [] False True False True False,
     DSPOPCTemplate ''RTIX9'' 0x02f9 0xffff 1 0 [] False True False True False,
     DSPOPCTemplate ''RTIXA'' 0x02fa 0xffff 1 0 [] False True False True False,
     DSPOPCTemplate ''RTIXB'' 0x02fb 0xffff 1 0 [] False True False True False,
     DSPOPCTemplate ''RTILNZ'' 0x02fc 0xffff 1 0 [] False True False True False,
     DSPOPCTemplate ''RTILZ'' 0x02fd 0xffff 1 0 [] False True False True False,
     DSPOPCTemplate ''RTIO'' 0x02fe 0xffff 1 0 [] False True False True False,
     DSPOPCTemplate ''RTI'' 0x02ff 0xffff 1 0 [] False True True False False]"

definition s_opcodes_call :: "DSPOPCTemplate list" where
  "s_opcodes_call = [
     DSPOPCTemplate ''CALLGE'' 0x02b0 0xffff 2 1 [Param P_ADDR_I 2 1 0 0xffff] False True False True False,
     DSPOPCTemplate ''CALLL'' 0x02b1 0xffff 2 1 [Param P_ADDR_I 2 1 0 0xffff] False True False True False,
     DSPOPCTemplate ''CALLG'' 0x02b2 0xffff 2 1 [Param P_ADDR_I 2 1 0 0xffff] False True False True False,
     DSPOPCTemplate ''CALLLE'' 0x02b3 0xffff 2 1 [Param P_ADDR_I 2 1 0 0xffff] False True False True False,
     DSPOPCTemplate ''CALLNZ'' 0x02b4 0xffff 2 1 [Param P_ADDR_I 2 1 0 0xffff] False True False True False,
     DSPOPCTemplate ''CALLZ'' 0x02b5 0xffff 2 1 [Param P_ADDR_I 2 1 0 0xffff] False True False True False,
     DSPOPCTemplate ''CALLNC'' 0x02b6 0xffff 2 1 [Param P_ADDR_I 2 1 0 0xffff] False True False True False,
     DSPOPCTemplate ''CALLC'' 0x02b7 0xffff 2 1 [Param P_ADDR_I 2 1 0 0xffff] False True False True False,
     DSPOPCTemplate ''CALLX8'' 0x02b8 0xffff 2 1 [Param P_ADDR_I 2 1 0 0xffff] False True False True False,
     DSPOPCTemplate ''CALLX9'' 0x02b9 0xffff 2 1 [Param P_ADDR_I 2 1 0 0xffff] False True False True False,
     DSPOPCTemplate ''CALLXA'' 0x02ba 0xffff 2 1 [Param P_ADDR_I 2 1 0 0xffff] False True False True False,
     DSPOPCTemplate ''CALLXB'' 0x02bb 0xffff 2 1 [Param P_ADDR_I 2 1 0 0xffff] False True False True False,
     DSPOPCTemplate ''CALLLNZ'' 0x02bc 0xffff 2 1 [Param P_ADDR_I 2 1 0 0xffff] False True False True False,
     DSPOPCTemplate ''CALLLZ'' 0x02bd 0xffff 2 1 [Param P_ADDR_I 2 1 0 0xffff] False True False True False,
     DSPOPCTemplate ''CALLO'' 0x02be 0xffff 2 1 [Param P_ADDR_I 2 1 0 0xffff] False True False True False,
     DSPOPCTemplate ''CALL'' 0x02bf 0xffff 2 1 [Param P_ADDR_I 2 1 0 0xffff] False True True True False]"

definition s_opcodes_if :: "DSPOPCTemplate list" where
  "s_opcodes_if = [
     DSPOPCTemplate ''IFGE'' 0x0270 0xffff 1 0 [] False True False True False,
     DSPOPCTemplate ''IFL'' 0x0271 0xffff 1 0 [] False True False True False,
     DSPOPCTemplate ''IFG'' 0x0272 0xffff 1 0 [] False True False True False,
     DSPOPCTemplate ''IFLE'' 0x0273 0xffff 1 0 [] False True False True False,
     DSPOPCTemplate ''IFNZ'' 0x0274 0xffff 1 0 [] False True False True False,
     DSPOPCTemplate ''IFZ'' 0x0275 0xffff 1 0 [] False True False True False,
     DSPOPCTemplate ''IFNC'' 0x0276 0xffff 1 0 [] False True False True False,
     DSPOPCTemplate ''IFC'' 0x0277 0xffff 1 0 [] False True False True False,
     DSPOPCTemplate ''IFX8'' 0x0278 0xffff 1 0 [] False True False True False,
     DSPOPCTemplate ''IFX9'' 0x0279 0xffff 1 0 [] False True False True False,
     DSPOPCTemplate ''IFXA'' 0x027a 0xffff 1 0 [] False True False True False,
     DSPOPCTemplate ''IFXB'' 0x027b 0xffff 1 0 [] False True False True False,
     DSPOPCTemplate ''IFLNZ'' 0x027c 0xffff 1 0 [] False True False True False,
     DSPOPCTemplate ''IFLZ'' 0x027d 0xffff 1 0 [] False True False True False,
     DSPOPCTemplate ''IFO'' 0x027e 0xffff 1 0 [] False True False True False,
     DSPOPCTemplate ''IF'' 0x027f 0xffff 1 0 [] False True True True False]"

definition s_opcodes_jmp :: "DSPOPCTemplate list" where
  "s_opcodes_jmp = [
     DSPOPCTemplate ''JGE'' 0x0290 0xffff 2 1 [Param P_ADDR_I 2 1 0 0xffff] False True False True False,
     DSPOPCTemplate ''JL'' 0x0291 0xffff 2 1 [Param P_ADDR_I 2 1 0 0xffff] False True False True False,
     DSPOPCTemplate ''JG'' 0x0292 0xffff 2 1 [Param P_ADDR_I 2 1 0 0xffff] False True False True False,
     DSPOPCTemplate ''JLE'' 0x0293 0xffff 2 1 [Param P_ADDR_I 2 1 0 0xffff] False True False True False,
     DSPOPCTemplate ''JNZ'' 0x0294 0xffff 2 1 [Param P_ADDR_I 2 1 0 0xffff] False True False True False,
     DSPOPCTemplate ''JZ'' 0x0295 0xffff 2 1 [Param P_ADDR_I 2 1 0 0xffff] False True False True False,
     DSPOPCTemplate ''JNC'' 0x0296 0xffff 2 1 [Param P_ADDR_I 2 1 0 0xffff] False True False True False,
     DSPOPCTemplate ''JC'' 0x0297 0xffff 2 1 [Param P_ADDR_I 2 1 0 0xffff] False True False True False,
     DSPOPCTemplate ''JMPX8'' 0x0298 0xffff 2 1 [Param P_ADDR_I 2 1 0 0xffff] False True False True False,
     DSPOPCTemplate ''JMPX9'' 0x0299 0xffff 2 1 [Param P_ADDR_I 2 1 0 0xffff] False True False True False,
     DSPOPCTemplate ''JMPXA'' 0x029a 0xffff 2 1 [Param P_ADDR_I 2 1 0 0xffff] False True False True False,
     DSPOPCTemplate ''JMPXB'' 0x029b 0xffff 2 1 [Param P_ADDR_I 2 1 0 0xffff] False True False True False,
     DSPOPCTemplate ''JLNZ'' 0x029c 0xffff 2 1 [Param P_ADDR_I 2 1 0 0xffff] False True False True False,
     DSPOPCTemplate ''JLZ'' 0x029d 0xffff 2 1 [Param P_ADDR_I 2 1 0 0xffff] False True False True False,
     DSPOPCTemplate ''JO'' 0x029e 0xffff 2 1 [Param P_ADDR_I 2 1 0 0xffff] False True False True False,
     DSPOPCTemplate ''JMP'' 0x029f 0xffff 2 1 [Param P_ADDR_I 2 1 0 0xffff] False True True True False]"

definition s_opcodes_jmpr :: "DSPOPCTemplate list" where
  "s_opcodes_jmpr = [
     DSPOPCTemplate ''JRGE'' 0x1700 0xff1f 1 1 [Param P_REG 1 0 5 0x00e0] False True False False False,
     DSPOPCTemplate ''JRL'' 0x1701 0xff1f 1 1 [Param P_REG 1 0 5 0x00e0] False True False False False,
     DSPOPCTemplate ''JRG'' 0x1702 0xff1f 1 1 [Param P_REG 1 0 5 0x00e0] False True False False False,
     DSPOPCTemplate ''JRLE'' 0x1703 0xff1f 1 1 [Param P_REG 1 0 5 0x00e0] False True False False False,
     DSPOPCTemplate ''JRNZ'' 0x1704 0xff1f 1 1 [Param P_REG 1 0 5 0x00e0] False True False False False,
     DSPOPCTemplate ''JRZ'' 0x1705 0xff1f 1 1 [Param P_REG 1 0 5 0x00e0] False True False False False,
     DSPOPCTemplate ''JRNC'' 0x1706 0xff1f 1 1 [Param P_REG 1 0 5 0x00e0] False True False False False,
     DSPOPCTemplate ''JRC'' 0x1707 0xff1f 1 1 [Param P_REG 1 0 5 0x00e0] False True False False False,
     DSPOPCTemplate ''JMPRX8'' 0x1708 0xff1f 1 1 [Param P_REG 1 0 5 0x00e0] False True False False False,
     DSPOPCTemplate ''JMPRX9'' 0x1709 0xff1f 1 1 [Param P_REG 1 0 5 0x00e0] False True False False False,
     DSPOPCTemplate ''JMPRXA'' 0x170a 0xff1f 1 1 [Param P_REG 1 0 5 0x00e0] False True False False False,
     DSPOPCTemplate ''JMPRXB'' 0x170b 0xff1f 1 1 [Param P_REG 1 0 5 0x00e0] False True False False False,
     DSPOPCTemplate ''JRLNZ'' 0x170c 0xff1f 1 1 [Param P_REG 1 0 5 0x00e0] False True False False False,
     DSPOPCTemplate ''JRLZ'' 0x170d 0xff1f 1 1 [Param P_REG 1 0 5 0x00e0] False True False False False,
     DSPOPCTemplate ''JRO'' 0x170e 0xff1f 1 1 [Param P_REG 1 0 5 0x00e0] False True False False False,
     DSPOPCTemplate ''JMPR'' 0x170f 0xff1f 1 1 [Param P_REG 1 0 5 0x00e0] False True True False False]"

definition s_opcodes_callr :: "DSPOPCTemplate list" where
  "s_opcodes_callr = [
     DSPOPCTemplate ''CALLRGE'' 0x1710 0xff1f 1 1 [Param P_REG 1 0 5 0x00e0] False True False True False,
     DSPOPCTemplate ''CALLRL'' 0x1711 0xff1f 1 1 [Param P_REG 1 0 5 0x00e0] False True False True False,
     DSPOPCTemplate ''CALLRG'' 0x1712 0xff1f 1 1 [Param P_REG 1 0 5 0x00e0] False True False True False,
     DSPOPCTemplate ''CALLRLE'' 0x1713 0xff1f 1 1 [Param P_REG 1 0 5 0x00e0] False True False True False,
     DSPOPCTemplate ''CALLRNZ'' 0x1714 0xff1f 1 1 [Param P_REG 1 0 5 0x00e0] False True False True False,
     DSPOPCTemplate ''CALLRZ'' 0x1715 0xff1f 1 1 [Param P_REG 1 0 5 0x00e0] False True False True False,
     DSPOPCTemplate ''CALLRNC'' 0x1716 0xff1f 1 1 [Param P_REG 1 0 5 0x00e0] False True False True False,
     DSPOPCTemplate ''CALLRC'' 0x1717 0xff1f 1 1 [Param P_REG 1 0 5 0x00e0] False True False True False,
     DSPOPCTemplate ''CALLRX8'' 0x1718 0xff1f 1 1 [Param P_REG 1 0 5 0x00e0] False True False True False,
     DSPOPCTemplate ''CALLRX9'' 0x1719 0xff1f 1 1 [Param P_REG 1 0 5 0x00e0] False True False True False,
     DSPOPCTemplate ''CALLRXA'' 0x171a 0xff1f 1 1 [Param P_REG 1 0 5 0x00e0] False True False True False,
     DSPOPCTemplate ''CALLRXB'' 0x171b 0xff1f 1 1 [Param P_REG 1 0 5 0x00e0] False True False True False,
     DSPOPCTemplate ''CALLRLNZ'' 0x171c 0xff1f 1 1 [Param P_REG 1 0 5 0x00e0] False True False True False,
     DSPOPCTemplate ''CALLRLZ'' 0x171d 0xff1f 1 1 [Param P_REG 1 0 5 0x00e0] False True False True False,
     DSPOPCTemplate ''CALLRO'' 0x171e 0xff1f 1 1 [Param P_REG 1 0 5 0x00e0] False True False True False,
     DSPOPCTemplate ''CALLR'' 0x171f 0xff1f 1 1 [Param P_REG 1 0 5 0x00e0] False True True True False]"

definition s_opcodes_imm :: "DSPOPCTemplate list" where
  "s_opcodes_imm = [
     DSPOPCTemplate ''SBCLR'' 0x1200 0xff00 1 1 [Param P_IMM 1 0 0 0x0007] False False False False False,
     DSPOPCTemplate ''SBSET'' 0x1300 0xff00 1 1 [Param P_IMM 1 0 0 0x0007] False False False False False,
     DSPOPCTemplate ''LSL'' 0x1400 0xfec0 1 2 [Param P_ACC 1 0 8 0x0100, Param P_IMM 1 0 0 0x003f] False False False False True,
     DSPOPCTemplate ''LSR'' 0x1440 0xfec0 1 2 [Param P_ACC 1 0 8 0x0100, Param P_IMM 1 0 0 0x003f] False False False False True,
     DSPOPCTemplate ''ASL'' 0x1480 0xfec0 1 2 [Param P_ACC 1 0 8 0x0100, Param P_IMM 1 0 0 0x003f] False False False False True,
     DSPOPCTemplate ''ASR'' 0x14c0 0xfec0 1 2 [Param P_ACC 1 0 8 0x0100, Param P_IMM 1 0 0 0x003f] False False False False True,
     DSPOPCTemplate ''LSRN'' 0x02ca 0xffff 1 0 [] False False False False True,
     DSPOPCTemplate ''ASRN'' 0x02cb 0xffff 1 0 [] False False False False True,
     DSPOPCTemplate ''LRI'' 0x0080 0xffe0 2 2 [Param P_REG 1 0 0 0x001f, Param P_IMM 2 1 0 0xffff] False False False True False,
     DSPOPCTemplate ''LR'' 0x00c0 0xffe0 2 2 [Param P_REG 1 0 0 0x001f, Param P_MEM 2 1 0 0xffff] False False False True False,
     DSPOPCTemplate ''SR'' 0x00e0 0xffe0 2 2 [Param P_MEM 2 1 0 0xffff, Param P_REG 1 0 0 0x001f] False False False True False,
     DSPOPCTemplate ''MRR'' 0x1c00 0xfc00 1 2 [Param P_REG 1 0 5 0x03e0, Param P_REG 1 0 0 0x001f] False False False False False,
     DSPOPCTemplate ''SI'' 0x1600 0xff00 2 2 [Param P_MEM 1 0 0 0x00ff, Param P_IMM 2 1 0 0xffff] False False False True False,
     DSPOPCTemplate ''ADDIS'' 0x0400 0xfe00 1 2 [Param P_ACCM 1 0 8 0x0100, Param P_IMM 1 0 0 0x00ff] False False False False True,
     DSPOPCTemplate ''CMPIS'' 0x0600 0xfe00 1 2 [Param P_ACCM 1 0 8 0x0100, Param P_IMM 1 0 0 0x00ff] False False False False True,
     DSPOPCTemplate ''LRIS'' 0x0800 0xf800 1 2 [Param P_REG18 1 0 8 0x0700, Param P_IMM 1 0 0 0x00ff] False False False False True,
     DSPOPCTemplate ''ADDI'' 0x0200 0xfeff 2 2 [Param P_ACCM 1 0 8 0x0100, Param P_IMM 2 1 0 0xffff] False False False True True,
     DSPOPCTemplate ''XORI'' 0x0220 0xfeff 2 2 [Param P_ACCM 1 0 8 0x0100, Param P_IMM 2 1 0 0xffff] False False False True True,
     DSPOPCTemplate ''ANDI'' 0x0240 0xfeff 2 2 [Param P_ACCM 1 0 8 0x0100, Param P_IMM 2 1 0 0xffff] False False False True True,
     DSPOPCTemplate ''ORI'' 0x0260 0xfeff 2 2 [Param P_ACCM 1 0 8 0x0100, Param P_IMM 2 1 0 0xffff] False False False True True,
     DSPOPCTemplate ''CMPI'' 0x0280 0xfeff 2 2 [Param P_ACCM 1 0 8 0x0100, Param P_IMM 2 1 0 0xffff] False False False True True,
     DSPOPCTemplate ''ANDF'' 0x02a0 0xfeff 2 2 [Param P_ACCM 1 0 8 0x0100, Param P_IMM 2 1 0 0xffff] False False False True True,
     DSPOPCTemplate ''ANDCF'' 0x02c0 0xfeff 2 2 [Param P_ACCM 1 0 8 0x0100, Param P_IMM 2 1 0 0xffff] False False False True True,
     DSPOPCTemplate ''ILRR'' 0x0210 0xfefc 1 2 [Param P_ACCM 1 0 8 0x0100, Param P_PRG 1 0 0 0x0003] False False False False False,
     DSPOPCTemplate ''ILRRD'' 0x0214 0xfefc 1 2 [Param P_ACCM 1 0 8 0x0100, Param P_PRG 1 0 0 0x0003] False False False False False,
     DSPOPCTemplate ''ILRRI'' 0x0218 0xfefc 1 2 [Param P_ACCM 1 0 8 0x0100, Param P_PRG 1 0 0 0x0003] False False False False False,
     DSPOPCTemplate ''ILRRN'' 0x021c 0xfefc 1 2 [Param P_ACCM 1 0 8 0x0100, Param P_PRG 1 0 0 0x0003] False False False False False]"

definition s_opcodes_loop :: "DSPOPCTemplate list" where
  "s_opcodes_loop = [
     DSPOPCTemplate ''LOOP'' 0x0040 0xffe0 1 1 [Param P_REG 1 0 0 0x001f] False True True True False,
     DSPOPCTemplate ''BLOOP'' 0x0060 0xffe0 2 2 [Param P_REG 1 0 0 0x001f, Param P_ADDR_I 2 1 0 0xffff] False True True True False,
     DSPOPCTemplate ''LOOPI'' 0x1000 0xff00 1 1 [Param P_IMM 1 0 0 0x00ff] False True True True False,
     DSPOPCTemplate ''BLOOPI'' 0x1100 0xff00 2 2 [Param P_IMM 1 0 0 0x00ff, Param P_ADDR_I 2 1 0 0xffff] False True True True False,
     DSPOPCTemplate ''LRR'' 0x1800 0xff80 1 2 [Param P_REG 1 0 0 0x001f, Param P_PRG 1 0 5 0x0060] False False False False False,
     DSPOPCTemplate ''LRRD'' 0x1880 0xff80 1 2 [Param P_REG 1 0 0 0x001f, Param P_PRG 1 0 5 0x0060] False False False False False,
     DSPOPCTemplate ''LRRI'' 0x1900 0xff80 1 2 [Param P_REG 1 0 0 0x001f, Param P_PRG 1 0 5 0x0060] False False False False False,
     DSPOPCTemplate ''LRRN'' 0x1980 0xff80 1 2 [Param P_REG 1 0 0 0x001f, Param P_PRG 1 0 5 0x0060] False False False False False,
     DSPOPCTemplate ''SRR'' 0x1a00 0xff80 1 2 [Param P_PRG 1 0 5 0x0060, Param P_REG 1 0 0 0x001f] False False False False False,
     DSPOPCTemplate ''SRRD'' 0x1a80 0xff80 1 2 [Param P_PRG 1 0 5 0x0060, Param P_REG 1 0 0 0x001f] False False False False False,
     DSPOPCTemplate ''SRRI'' 0x1b00 0xff80 1 2 [Param P_PRG 1 0 5 0x0060, Param P_REG 1 0 0 0x001f] False False False False False,
     DSPOPCTemplate ''SRRN'' 0x1b80 0xff80 1 2 [Param P_PRG 1 0 5 0x0060, Param P_REG 1 0 0 0x001f] False False False False False]"

definition s_opcodes_lrs :: "DSPOPCTemplate list" where
  "s_opcodes_lrs = [
     DSPOPCTemplate ''LRS'' 0x2000 0xf800 1 2 [Param P_REG18 1 0 8 0x0700, Param P_MEM 1 0 0 0x00ff] False False False False False,
     DSPOPCTemplate ''SRSH'' 0x2800 0xfe00 1 2 [Param P_MEM 1 0 0 0x00ff, Param P_ACCH 1 0 8 0x0100] False False False False False,
     DSPOPCTemplate ''SRS'' 0x2c00 0xfc00 1 2 [Param P_MEM 1 0 0 0x00ff, Param P_REG1C 1 0 8 0x0300] False False False False False,
     DSPOPCTemplate ''XORR'' 0x3000 0xfc80 1 2 [Param P_ACCM 1 0 8 0x0100, Param P_REG1A 1 0 9 0x0200] True False False False True,
     DSPOPCTemplate ''ANDR'' 0x3400 0xfc80 1 2 [Param P_ACCM 1 0 8 0x0100, Param P_REG1A 1 0 9 0x0200] True False False False True,
     DSPOPCTemplate ''ORR'' 0x3800 0xfc80 1 2 [Param P_ACCM 1 0 8 0x0100, Param P_REG1A 1 0 9 0x0200] True False False False True,
     DSPOPCTemplate ''ANDC'' 0x3c00 0xfe80 1 2 [Param P_ACCM 1 0 8 0x0100, Param P_ACCM_D 1 0 8 0x0100] True False False False True,
     DSPOPCTemplate ''ORC'' 0x3e00 0xfe80 1 2 [Param P_ACCM 1 0 8 0x0100, Param P_ACCM_D 1 0 8 0x0100] True False False False True,
     DSPOPCTemplate ''XORC'' 0x3080 0xfe80 1 2 [Param P_ACCM 1 0 8 0x0100, Param P_ACCM_D 1 0 8 0x0100] True False False False True,
     DSPOPCTemplate ''NOT'' 0x3280 0xfe80 1 1 [Param P_ACCM 1 0 8 0x0100] True False False False True,
     DSPOPCTemplate ''LSRNRX'' 0x3480 0xfc80 1 2 [Param P_ACC 1 0 8 0x0100, Param P_REG1A 1 0 9 0x0200] True False False False True,
     DSPOPCTemplate ''ASRNRX'' 0x3880 0xfc80 1 2 [Param P_ACC 1 0 8 0x0100, Param P_REG1A 1 0 9 0x0200] True False False False True,
     DSPOPCTemplate ''LSRNR'' 0x3c80 0xfe80 1 2 [Param P_ACC 1 0 8 0x0100, Param P_ACCM_D 1 0 8 0x0100] True False False False True,
     DSPOPCTemplate ''ASRNR'' 0x3e80 0xfe80 1 2 [Param P_ACC 1 0 8 0x0100, Param P_ACCM_D 1 0 8 0x0100] True False False False True]"

definition s_opcodes_add :: "DSPOPCTemplate list" where
  "s_opcodes_add = [
     DSPOPCTemplate ''ADDR'' 0x4000 0xf800 1 2 [Param P_ACC 1 0 8 0x0100, Param P_REG18 1 0 9 0x0600] True False False False True,
     DSPOPCTemplate ''ADDAX'' 0x4800 0xfc00 1 2 [Param P_ACC 1 0 8 0x0100, Param P_AX 1 0 9 0x0200] True False False False True,
     DSPOPCTemplate ''ADD'' 0x4c00 0xfe00 1 2 [Param P_ACC 1 0 8 0x0100, Param P_ACC_D 1 0 8 0x0100] True False False False True,
     DSPOPCTemplate ''ADDP'' 0x4e00 0xfe00 1 1 [Param P_ACC 1 0 8 0x0100] True False False False True,
     DSPOPCTemplate ''SUBR'' 0x5000 0xf800 1 2 [Param P_ACC 1 0 8 0x0100, Param P_REG18 1 0 9 0x0600] True False False False True,
     DSPOPCTemplate ''SUBAX'' 0x5800 0xfc00 1 2 [Param P_ACC 1 0 8 0x0100, Param P_AX 1 0 9 0x0200] True False False False True,
     DSPOPCTemplate ''SUB'' 0x5c00 0xfe00 1 2 [Param P_ACC 1 0 8 0x0100, Param P_ACC_D 1 0 8 0x0100] True False False False True,
     DSPOPCTemplate ''SUBP'' 0x5e00 0xfe00 1 1 [Param P_ACC 1 0 8 0x0100] True False False False True,
     DSPOPCTemplate ''MOVR'' 0x6000 0xf800 1 2 [Param P_ACC 1 0 8 0x0100, Param P_REG18 1 0 9 0x0600] True False False False True,
     DSPOPCTemplate ''MOVAX'' 0x6800 0xfc00 1 2 [Param P_ACC 1 0 8 0x0100, Param P_AX 1 0 9 0x0200] True False False False True,
     DSPOPCTemplate ''MOV'' 0x6c00 0xfe00 1 2 [Param P_ACC 1 0 8 0x0100, Param P_ACC_D 1 0 8 0x0100] True False False False True,
     DSPOPCTemplate ''MOVP'' 0x6e00 0xfe00 1 1 [Param P_ACC 1 0 8 0x0100] True False False False True]"

definition s_opcodes_acc :: "DSPOPCTemplate list" where
  "s_opcodes_acc = [
     DSPOPCTemplate ''ADDAXL'' 0x7000 0xfc00 1 2 [Param P_ACC 1 0 8 0x0100, Param P_REG18 1 0 9 0x0200] True False False False True,
     DSPOPCTemplate ''INCM'' 0x7400 0xfe00 1 1 [Param P_ACCM 1 0 8 0x0100] True False False False True,
     DSPOPCTemplate ''INC'' 0x7600 0xfe00 1 1 [Param P_ACC 1 0 8 0x0100] True False False False True,
     DSPOPCTemplate ''DECM'' 0x7800 0xfe00 1 1 [Param P_ACCM 1 0 8 0x0100] True False False False True,
     DSPOPCTemplate ''DEC'' 0x7a00 0xfe00 1 1 [Param P_ACC 1 0 8 0x0100] True False False False True,
     DSPOPCTemplate ''NEG'' 0x7c00 0xfe00 1 1 [Param P_ACC 1 0 8 0x0100] True False False False True,
     DSPOPCTemplate ''MOVNP'' 0x7e00 0xfe00 1 1 [Param P_ACC 1 0 8 0x0100] True False False False True]"

definition s_opcodes_ctl :: "DSPOPCTemplate list" where
  "s_opcodes_ctl = [
     DSPOPCTemplate ''NX'' 0x8000 0xf700 1 0 [] True False False False False,
     DSPOPCTemplate ''CLR'' 0x8100 0xf700 1 1 [Param P_ACC 1 0 11 0x0800] True False False False True,
     DSPOPCTemplate ''CMP'' 0x8200 0xff00 1 0 [] True False False False True,
     DSPOPCTemplate ''MULAXH'' 0x8300 0xff00 1 0 [] True False False False True,
     DSPOPCTemplate ''CLRP'' 0x8400 0xff00 1 0 [] True False False False True,
     DSPOPCTemplate ''TSTPROD'' 0x8500 0xff00 1 0 [] True False False False True,
     DSPOPCTemplate ''TSTAXH'' 0x8600 0xfe00 1 1 [Param P_REG1A 1 0 8 0x0100] True False False False True,
     DSPOPCTemplate ''M2'' 0x8a00 0xff00 1 0 [] True False False False False,
     DSPOPCTemplate ''M0'' 0x8b00 0xff00 1 0 [] True False False False False,
     DSPOPCTemplate ''CLR15'' 0x8c00 0xff00 1 0 [] True False False False False,
     DSPOPCTemplate ''SET15'' 0x8d00 0xff00 1 0 [] True False False False False,
     DSPOPCTemplate ''SET16'' 0x8e00 0xff00 1 0 [] True False False False False,
     DSPOPCTemplate ''SET40'' 0x8f00 0xff00 1 0 [] True False False False False]"

definition s_opcodes_mul :: "DSPOPCTemplate list" where
  "s_opcodes_mul = [
     DSPOPCTemplate ''MUL'' 0x9000 0xf700 1 2 [Param P_REG18 1 0 11 0x0800, Param P_REG1A 1 0 11 0x0800] True False False False True,
     DSPOPCTemplate ''ASR16'' 0x9100 0xf700 1 1 [Param P_ACC 1 0 11 0x0800] True False False False True,
     DSPOPCTemplate ''MULMVZ'' 0x9200 0xf600 1 3 [Param P_REG18 1 0 11 0x0800, Param P_REG1A 1 0 11 0x0800, Param P_ACC 1 0 8 0x0100] True False False False True,
     DSPOPCTemplate ''MULAC'' 0x9400 0xf600 1 3 [Param P_REG18 1 0 11 0x0800, Param P_REG1A 1 0 11 0x0800, Param P_ACC 1 0 8 0x0100] True False False False True,
     DSPOPCTemplate ''MULMV'' 0x9600 0xf600 1 3 [Param P_REG18 1 0 11 0x0800, Param P_REG1A 1 0 11 0x0800, Param P_ACC 1 0 8 0x0100] True False False False True,
     DSPOPCTemplate ''MULX'' 0xa000 0xe700 1 2 [Param P_REGM18 1 0 11 0x1000, Param P_REGM19 1 0 10 0x0800] True False False False True,
     DSPOPCTemplate ''ABS'' 0xa100 0xf700 1 1 [Param P_ACC 1 0 11 0x0800] True False False False True,
     DSPOPCTemplate ''MULXMVZ'' 0xa200 0xe600 1 3 [Param P_REGM18 1 0 11 0x1000, Param P_REGM19 1 0 10 0x0800, Param P_ACC 1 0 8 0x0100] True False False False True,
     DSPOPCTemplate ''MULXAC'' 0xa400 0xe600 1 3 [Param P_REGM18 1 0 11 0x1000, Param P_REGM19 1 0 10 0x0800, Param P_ACC 1 0 8 0x0100] True False False False True,
     DSPOPCTemplate ''MULXMV'' 0xa600 0xe600 1 3 [Param P_REGM18 1 0 11 0x1000, Param P_REGM19 1 0 10 0x0800, Param P_ACC 1 0 8 0x0100] True False False False True,
     DSPOPCTemplate ''TST'' 0xb100 0xf700 1 1 [Param P_ACC 1 0 11 0x0800] True False False False True]"

definition s_opcodes_mulc :: "DSPOPCTemplate list" where
  "s_opcodes_mulc = [
     DSPOPCTemplate ''MULC'' 0xc000 0xe700 1 2 [Param P_ACCM 1 0 12 0x1000, Param P_REG1A 1 0 11 0x0800] True False False False True,
     DSPOPCTemplate ''CMPAXH'' 0xc100 0xe700 1 2 [Param P_ACC 1 0 11 0x0800, Param P_REG1A 1 0 12 0x1000] True False False False True,
     DSPOPCTemplate ''MULCMVZ'' 0xc200 0xe600 1 3 [Param P_ACCM 1 0 12 0x1000, Param P_REG1A 1 0 11 0x0800, Param P_ACC 1 0 8 0x0100] True False False False True,
     DSPOPCTemplate ''MULCAC'' 0xc400 0xe600 1 3 [Param P_ACCM 1 0 12 0x1000, Param P_REG1A 1 0 11 0x0800, Param P_ACC 1 0 8 0x0100] True False False False True,
     DSPOPCTemplate ''MULCMV'' 0xc600 0xe600 1 3 [Param P_ACCM 1 0 12 0x1000, Param P_REG1A 1 0 11 0x0800, Param P_ACC 1 0 8 0x0100] True False False False True,
     DSPOPCTemplate ''MADDX'' 0xe000 0xfc00 1 2 [Param P_REGM18 1 0 8 0x0200, Param P_REGM19 1 0 7 0x0100] True False False False True,
     DSPOPCTemplate ''MSUBX'' 0xe400 0xfc00 1 2 [Param P_REGM18 1 0 8 0x0200, Param P_REGM19 1 0 7 0x0100] True False False False True,
     DSPOPCTemplate ''MADDC'' 0xe800 0xfc00 1 2 [Param P_ACCM 1 0 9 0x0200, Param P_REG19 1 0 7 0x0100] True False False False True,
     DSPOPCTemplate ''MSUBC'' 0xec00 0xfc00 1 2 [Param P_ACCM 1 0 9 0x0200, Param P_REG19 1 0 7 0x0100] True False False False True]"

definition s_opcodes_shift :: "DSPOPCTemplate list" where
  "s_opcodes_shift = [
     DSPOPCTemplate ''LSL16'' 0xf000 0xfe00 1 1 [Param P_ACC 1 0 8 0x0100] True False False False True,
     DSPOPCTemplate ''MADD'' 0xf200 0xfe00 1 2 [Param P_REG18 1 0 8 0x0100, Param P_REG1A 1 0 8 0x0100] True False False False True,
     DSPOPCTemplate ''LSR16'' 0xf400 0xfe00 1 1 [Param P_ACC 1 0 8 0x0100] True False False False True,
     DSPOPCTemplate ''MSUB'' 0xf600 0xfe00 1 2 [Param P_REG18 1 0 8 0x0100, Param P_REG1A 1 0 8 0x0100] True False False False True,
     DSPOPCTemplate ''ADDPAXZ'' 0xf800 0xfc00 1 2 [Param P_ACC 1 0 9 0x0200, Param P_AX 1 0 8 0x0100] True False False False True,
     DSPOPCTemplate ''CLRL'' 0xfc00 0xfe00 1 1 [Param P_ACCL 1 0 11 0x0800] True False False False True,
     DSPOPCTemplate ''MOVPZ'' 0xfe00 0xfe00 1 1 [Param P_ACC 1 0 8 0x0100] True False False False True]"

definition s_opcodes :: "DSPOPCTemplate list" where
  "s_opcodes =
     s_opcodes_basic @ s_opcodes_ret @ s_opcodes_rti @ s_opcodes_call @ s_opcodes_if @ s_opcodes_jmp @ s_opcodes_jmpr @ s_opcodes_callr @ s_opcodes_imm @ s_opcodes_loop @ s_opcodes_lrs @ s_opcodes_add @ s_opcodes_acc @ s_opcodes_ctl @ s_opcodes_mul @ s_opcodes_mulc @ s_opcodes_shift"

definition cw :: DSPOPCTemplate where
  "cw = DSPOPCTemplate ''CW'' 0x0000 0x0000 1 1 [Param P_VAL 2 0 0 0xffff] False False False False False"

definition s_opcodes_ext :: "DSPOPCTemplate list" where
  "s_opcodes_ext = [
     DSPOPCTemplate ''XXX'' 0x0000 0x00fc 1 1 [Param P_VAL 1 0 0 0x00ff] False False False False False,
     DSPOPCTemplate ''DR'' 0x0004 0x00fc 1 1 [Param P_REG 1 0 0 0x0003] False False False False False,
     DSPOPCTemplate ''IR'' 0x0008 0x00fc 1 1 [Param P_REG 1 0 0 0x0003] False False False False False,
     DSPOPCTemplate ''NR'' 0x000c 0x00fc 1 1 [Param P_REG 1 0 0 0x0003] False False False False False,
     DSPOPCTemplate ''MV'' 0x0010 0x00f0 1 2 [Param P_REG18 1 0 2 0x000c, Param P_REG1C 1 0 0 0x0003] False False False False False,
     DSPOPCTemplate ''S'' 0x0020 0x00e4 1 2 [Param P_PRG 1 0 0 0x0003, Param P_REG1C 1 0 3 0x0018] False False False False False,
     DSPOPCTemplate ''SN'' 0x0024 0x00e4 1 2 [Param P_PRG 1 0 0 0x0003, Param P_REG1C 1 0 3 0x0018] False False False False False,
     DSPOPCTemplate ''L'' 0x0040 0x00c4 1 2 [Param P_REG18 1 0 3 0x0038, Param P_PRG 1 0 0 0x0003] False False False False False,
     DSPOPCTemplate ''LN'' 0x0044 0x00c4 1 2 [Param P_REG18 1 0 3 0x0038, Param P_PRG 1 0 0 0x0003] False False False False False,
     DSPOPCTemplate ''LS'' 0x0080 0x00ce 1 2 [Param P_REG18 1 0 4 0x0030, Param P_ACCM 1 0 0 0x0001] False False False False False,
     DSPOPCTemplate ''SL'' 0x0082 0x00ce 1 2 [Param P_ACCM 1 0 0 0x0001, Param P_REG18 1 0 4 0x0030] False False False False False,
     DSPOPCTemplate ''LSN'' 0x0084 0x00ce 1 2 [Param P_REG18 1 0 4 0x0030, Param P_ACCM 1 0 0 0x0001] False False False False False,
     DSPOPCTemplate ''SLN'' 0x0086 0x00ce 1 2 [Param P_ACCM 1 0 0 0x0001, Param P_REG18 1 0 4 0x0030] False False False False False,
     DSPOPCTemplate ''LSM'' 0x0088 0x00ce 1 2 [Param P_REG18 1 0 4 0x0030, Param P_ACCM 1 0 0 0x0001] False False False False False,
     DSPOPCTemplate ''SLM'' 0x008a 0x00ce 1 2 [Param P_ACCM 1 0 0 0x0001, Param P_REG18 1 0 4 0x0030] False False False False False,
     DSPOPCTemplate ''LSNM'' 0x008c 0x00ce 1 2 [Param P_REG18 1 0 4 0x0030, Param P_ACCM 1 0 0 0x0001] False False False False False,
     DSPOPCTemplate ''SLNM'' 0x008e 0x00ce 1 2 [Param P_ACCM 1 0 0 0x0001, Param P_REG18 1 0 4 0x0030] False False False False False,
     DSPOPCTemplate ''LDAX'' 0x00c3 0x00cf 1 2 [Param P_AX 1 0 4 0x0010, Param P_PRG 1 0 5 0x0020] False False False False False,
     DSPOPCTemplate ''LDAXN'' 0x00c7 0x00cf 1 2 [Param P_AX 1 0 4 0x0010, Param P_PRG 1 0 5 0x0020] False False False False False,
     DSPOPCTemplate ''LDAXM'' 0x00cb 0x00cf 1 2 [Param P_AX 1 0 4 0x0010, Param P_PRG 1 0 5 0x0020] False False False False False,
     DSPOPCTemplate ''LDAXNM'' 0x00cf 0x00cf 1 2 [Param P_AX 1 0 4 0x0010, Param P_PRG 1 0 5 0x0020] False False False False False,
     DSPOPCTemplate ''LD'' 0x00c0 0x00cc 1 3 [Param P_REGM18 1 0 4 0x0020, Param P_REGM19 1 0 3 0x0010, Param P_PRG 1 0 0 0x0003] False False False False False,
     DSPOPCTemplate ''LDN'' 0x00c4 0x00cc 1 3 [Param P_REGM18 1 0 4 0x0020, Param P_REGM19 1 0 3 0x0010, Param P_PRG 1 0 0 0x0003] False False False False False,
     DSPOPCTemplate ''LDM'' 0x00c8 0x00cc 1 3 [Param P_REGM18 1 0 4 0x0020, Param P_REGM19 1 0 3 0x0010, Param P_PRG 1 0 0 0x0003] False False False False False,
     DSPOPCTemplate ''LDNM'' 0x00cc 0x00cc 1 3 [Param P_REGM18 1 0 4 0x0020, Param P_REGM19 1 0 3 0x0010, Param P_PRG 1 0 0 0x0003] False False False False False]"

section \<open>Look-up\<close>

definition FindByOpcode :: "u16 \<Rightarrow> DSPOPCTemplate list \<Rightarrow> DSPOPCTemplate option" where
  "FindByOpcode inst data = find (\<lambda>info. inst AND opcode_mask info = opcode info) data"

definition FindOpInfoByOpcode :: "u16 \<Rightarrow> DSPOPCTemplate option" where
  "FindOpInfoByOpcode inst = FindByOpcode inst s_opcodes"

definition FindExtOpInfoByOpcode :: "u16 \<Rightarrow> DSPOPCTemplate option" where
  "FindExtOpInfoByOpcode inst = FindByOpcode inst s_opcodes_ext"

definition FindOpInfoByName :: "string \<Rightarrow> DSPOPCTemplate option" where
  "FindOpInfoByName nm = find (\<lambda>info. op_name info = nm) s_opcodes"

definition FindExtOpInfoByName :: "string \<Rightarrow> DSPOPCTemplate option" where
  "FindExtOpInfoByName nm = find (\<lambda>info. op_name info = nm) s_opcodes_ext"

text \<open>
  The two tables as \<open>InitInstructionTable\<close> leaves them.  Every slot is visited once, so the
  branches that report a slot already in use are not reached.
\<close>

definition s_op_table :: "u16 \<Rightarrow> DSPOPCTemplate" where
  "s_op_table i = (case FindByOpcode i s_opcodes of None \<Rightarrow> cw | Some info \<Rightarrow> info)"

definition s_ext_op_table :: "u16 \<Rightarrow> DSPOPCTemplate" where
  "s_ext_op_table i = (case FindByOpcode i s_opcodes_ext of None \<Rightarrow> cw | Some info \<Rightarrow> info)"

definition GetOpTemplate :: "u16 \<Rightarrow> DSPOPCTemplate" where
  "GetOpTemplate inst = s_op_table inst"

definition GetExtOpTemplate :: "u16 \<Rightarrow> DSPOPCTemplate" where
  "GetExtOpTemplate inst =
     (let has_seven_bit_extension = (drop_bit 12 inst = 0x3) in
      if has_seven_bit_extension then s_ext_op_table (inst AND 0x7f)
      else s_ext_op_table (inst AND 0xff))"

section \<open>The tables do not overlap\<close>

lemma s_opcodes_masks: "masks_ok opcode_mask opcode s_opcodes"
  by code_simp

lemma s_opcodes_one_match: "at_most_one 16 (unlabelled (patterns opcode_mask opcode s_opcodes))"
  by code_simp

interpretation optab: opcode_table opcode_mask opcode s_opcodes
  by unfold_locales (fact s_opcodes_masks s_opcodes_one_match)+

end
