(* ===== verification/Dsp_Analyzer.thy ===== *)
theory Dsp_Analyzer
  imports Dsp_Tables
begin

text \<open>
  Instruction memory (the first half of Source/Core/Core/DSP/DSPMemoryMap.cpp) and the static
  analyser of Source/Core/Core/DSP/DSPAnalyzer.cpp, which marks the starts of instructions, the
  ends of hardware loops and the wait loops.  The analyser walks memory by the sizes of the
  templates; the loop is a partial function, and the lemmas show that it returns on both of the
  ranges \<open>Analyze\<close> gives it.
\<close>

unbundle bit_operations_syntax

section \<open>Instruction memory\<close>

definition ReadIMEM :: "'a SDSP_scheme \<Rightarrow> u16 \<Rightarrow> u16" where
  "ReadIMEM s address =
     (if drop_bit 12 address = 0 then iram s (unat (address AND DSP_IRAM_MASK))
      else if drop_bit 12 address = 8 then irom s (unat (address AND DSP_IROM_MASK))
      else 0)"

definition PeekInstruction :: "'a SDSP_scheme \<Rightarrow> u16" where
  "PeekInstruction s = ReadIMEM s (pc s)"

definition FetchInstruction :: "'a SDSP_scheme \<Rightarrow> u16 \<times> 'a SDSP_scheme" where
  "FetchInstruction s = (let opc = PeekInstruction s in (opc, s\<lparr>pc := pc s + 1\<rparr>))"

definition SkipInstruction :: "'a SDSP_scheme \<Rightarrow> 'a SDSP_scheme" where
  "SkipInstruction s = s\<lparr>pc := pc s + op_size (GetOpTemplate (PeekInstruction s))\<rparr>"

section \<open>Flags\<close>

type_synonym code_flags = "u16 \<Rightarrow> u8"

abbreviation CODE_NONE :: u8 where "CODE_NONE \<equiv> 0"
abbreviation CODE_START_OF_INST :: u8 where "CODE_START_OF_INST \<equiv> 1"
abbreviation CODE_IDLE_SKIP :: u8 where "CODE_IDLE_SKIP \<equiv> 2"
abbreviation CODE_LOOP_START :: u8 where "CODE_LOOP_START \<equiv> 4"
abbreviation CODE_LOOP_END :: u8 where "CODE_LOOP_END \<equiv> 8"
abbreviation CODE_UPDATE_SR :: u8 where "CODE_UPDATE_SR \<equiv> 16"
abbreviation CODE_CHECK_EXC :: u8 where "CODE_CHECK_EXC \<equiv> 32"

definition IsStartOfInstruction :: "code_flags \<Rightarrow> u16 \<Rightarrow> bool" where
  "IsStartOfInstruction flags address \<longleftrightarrow> flags address AND CODE_START_OF_INST \<noteq> 0"

definition IsIdleSkip :: "code_flags \<Rightarrow> u16 \<Rightarrow> bool" where
  "IsIdleSkip flags address \<longleftrightarrow> flags address AND CODE_IDLE_SKIP \<noteq> 0"

definition IsLoopStart :: "code_flags \<Rightarrow> u16 \<Rightarrow> bool" where
  "IsLoopStart flags address \<longleftrightarrow> flags address AND CODE_LOOP_START \<noteq> 0"

definition IsLoopEnd :: "code_flags \<Rightarrow> u16 \<Rightarrow> bool" where
  "IsLoopEnd flags address \<longleftrightarrow> flags address AND CODE_LOOP_END \<noteq> 0"

text \<open>\<open>DISABLE_UPDATE_SR_ANALYSIS\<close> is defined.\<close>

definition IsUpdateSR :: "code_flags \<Rightarrow> u16 \<Rightarrow> bool" where
  "IsUpdateSR flags address = True"

definition IsCheckExceptions :: "code_flags \<Rightarrow> u16 \<Rightarrow> bool" where
  "IsCheckExceptions flags address \<longleftrightarrow> flags address AND CODE_CHECK_EXC \<noteq> 0"

definition mark :: "u16 \<Rightarrow> u8 \<Rightarrow> code_flags \<Rightarrow> code_flags" where
  "mark a f flags = flags(a := flags a OR f)"

section \<open>Starts of instructions\<close>

text \<open>Opcodes of the templates that may raise an exception, besides the extended ones.\<close>

definition may_raise :: "u16 list" where
  "may_raise = [0x00c0, 0x00e0, 0x1600, 0x1800, 0x1880, 0x1900, 0x1980, 0x1a00, 0x1a80, 0x1b00,
                0x1b80, 0x2000, 0x2800, 0x2c00]"

definition mark_instruction :: "(u16 \<Rightarrow> u16) \<Rightarrow> u16 \<Rightarrow> code_flags \<Rightarrow> code_flags" where
  "mark_instruction imem addr flags =
     (let inst = imem addr;
          opc = GetOpTemplate inst;
          flags = mark addr CODE_START_OF_INST flags;
          flags =
            (if inst AND 0xffe0 = 0x0060 \<or> inst AND 0xff00 = 0x1100 then
               let loop_end = imem (addr + 1);
                   flags = mark addr CODE_LOOP_START flags
               in mark loop_end CODE_LOOP_END flags
             else if inst AND 0xffe0 = 0x0040 \<or> inst AND 0xff00 = 0x1000 then
               let flags = mark addr CODE_LOOP_START flags
               in mark (addr + 1) CODE_LOOP_END flags
             else flags)
      in if opcode opc \<in> set may_raise \<or> extended opc
         then mark (addr + op_size opc) CODE_CHECK_EXC flags else flags)"

partial_function (option) FindInstructionStarts ::
    "(u16 \<Rightarrow> u16) \<Rightarrow> u16 \<Rightarrow> u16 \<Rightarrow> code_flags \<Rightarrow> code_flags option" where
  [code]: "FindInstructionStarts imem addr end_addr flags =
     (if addr < end_addr
      then FindInstructionStarts imem (addr + op_size (GetOpTemplate (imem addr))) end_addr
             (mark_instruction imem addr flags)
      else Some flags)"

section \<open>Idle skips\<close>

definition idle_skip_sigs :: "u16 list list" where
  "idle_skip_sigs =
    [[0x26fc, 0x02c0, 0x8000, 0x029d, 0xFFFF, 0, 0],
     [0x27fc, 0x03c0, 0x8000, 0x029d, 0xFFFF, 0, 0],
     [0x26fe, 0x02c0, 0x8000, 0x029c, 0xFFFF, 0, 0],
     [0x27fe, 0x03c0, 0x8000, 0x029c, 0xFFFF, 0, 0],
     [0x26fc, 0x02a0, 0x8000, 0x029c, 0xFFFF, 0, 0],
     [0x27fc, 0x03a0, 0x8000, 0x029c, 0xFFFF, 0, 0],
     [0x00de, 0xFFFE, 0x02c0, 0x8000, 0x029c, 0xFFFF, 0],
     [0x00da, 0x0352, 0x8600, 0x0295, 0xFFFF, 0, 0]]"

text \<open>
  The innermost loop: \<open>i\<close> counts signature words; a zero word makes the signature found even when
  the comparison that follows it leaves the loop.
\<close>

fun match_sig :: "(u16 \<Rightarrow> u16) \<Rightarrow> u16 \<Rightarrow> u16 list \<Rightarrow> bool \<Rightarrow> bool" where
  "match_sig imem a [] found = found"
| "match_sig imem a (w # ws) found =
     (let found = (if w = 0 then True else found) in
      if w = 0xFFFF then match_sig imem (a + 1) ws found
      else if w \<noteq> imem a then found
      else match_sig imem (a + 1) ws found)"

function skip_loop :: "(u16 \<Rightarrow> u16) \<Rightarrow> u16 list \<Rightarrow> u16 \<Rightarrow> u16 \<Rightarrow> code_flags \<Rightarrow> code_flags" where
  "skip_loop imem ws addr end_addr flags =
     (if addr < end_addr
      then skip_loop imem ws (addr + 1) end_addr
             (if match_sig imem addr ws False then mark addr CODE_IDLE_SKIP flags else flags)
      else flags)"
  by pat_completeness auto

termination
proof (relation "measure (\<lambda>(imem, ws, addr, end_addr, flags). unat end_addr - unat addr)")
  fix imem and ws :: "u16 list" and addr end_addr :: u16 and flags :: code_flags
  assume "addr < end_addr"
  then have "unat addr < unat end_addr" by (simp add: word_less_nat_alt)
  moreover from this have "unat (addr + 1) = unat addr + 1"
    using unsigned_less [of end_addr, where 'a = nat] by (simp add: unat_add_lem [THEN iffD1])
  ultimately show "((imem, ws, addr + 1, end_addr,
        if match_sig imem addr ws False then mark addr CODE_IDLE_SKIP flags else flags),
      imem, ws, addr, end_addr, flags)
     \<in> measure (\<lambda>(imem, ws, addr, end_addr, flags). unat end_addr - unat addr)"
    by simp
qed simp

declare skip_loop.simps [simp del]

definition FindIdleSkips :: "(u16 \<Rightarrow> u16) \<Rightarrow> u16 \<Rightarrow> u16 \<Rightarrow> code_flags \<Rightarrow> code_flags" where
  "FindIdleSkips imem start_addr end_addr flags =
     fold (\<lambda>ws. skip_loop imem ws start_addr end_addr) idle_skip_sigs flags"

section \<open>The analyser\<close>

definition AnalyzeRange :: "(u16 \<Rightarrow> u16) \<Rightarrow> u16 \<Rightarrow> u16 \<Rightarrow> code_flags \<Rightarrow> code_flags option" where
  "AnalyzeRange imem start_addr end_addr flags =
     (case FindInstructionStarts imem start_addr end_addr flags of
        None \<Rightarrow> None
      | Some flags \<Rightarrow> Some (FindIdleSkips imem start_addr end_addr flags))"

definition Analyze :: "'a SDSP_scheme \<Rightarrow> code_flags option" where
  "Analyze s =
     (let flags = (\<lambda>_. 0) in
      case AnalyzeRange (ReadIMEM s) 0x0000 0x1000 flags of
        None \<Rightarrow> None
      | Some flags \<Rightarrow> AnalyzeRange (ReadIMEM s) 0x8000 0x9000 flags)"

section \<open>The analyser returns\<close>

lemma op_size_s_opcodes: "list_all (\<lambda>t. op_size t = 1 \<or> op_size t = 2) s_opcodes"
  by code_simp

lemma op_size_cases: "op_size (GetOpTemplate i) = 1 \<or> op_size (GetOpTemplate i) = 2"
proof (cases "FindByOpcode i s_opcodes")
  case None
  then show ?thesis by (simp add: GetOpTemplate_def s_op_table_def cw_def)
next
  case (Some t)
  then have "t \<in> set s_opcodes" by (auto simp: FindByOpcode_def find_Some_iff)
  with op_size_s_opcodes Some show ?thesis
    by (auto simp: GetOpTemplate_def s_op_table_def list_all_iff)
qed

lemma unat_add_op_size:
  assumes "addr < end_addr" and "end_addr < 0xffff"
  shows "unat addr < unat (addr + op_size (GetOpTemplate i))"
proof -
  have "unat addr < 0xfffe"
    using assms by (simp add: word_less_nat_alt)
  moreover have "unat (op_size (GetOpTemplate i)) = 1 \<or> unat (op_size (GetOpTemplate i)) = 2"
    using op_size_cases [of i] by auto
  ultimately show ?thesis by (auto simp: unat_add_lem [THEN iffD1])
qed

lemma FindInstructionStarts_returns:
  "end_addr < 0xffff \<Longrightarrow> \<exists>flags'. FindInstructionStarts imem addr end_addr flags = Some flags'"
proof (induction "unat end_addr - unat addr" arbitrary: addr flags rule: less_induct)
  case less
  show ?case
  proof (cases "addr < end_addr")
    case True
    have "unat addr < unat end_addr" using True by (simp add: word_less_nat_alt)
    then have "unat end_addr - unat (addr + op_size (GetOpTemplate (imem addr)))
        < unat end_addr - unat addr"
      using unat_add_op_size [OF True less.prems, of "imem addr"] by linarith
    from less.hyps [OF this less.prems] show ?thesis
      using True by (subst FindInstructionStarts.simps) simp
  next
    case False
    then show ?thesis by (subst FindInstructionStarts.simps) simp
  qed
qed

lemma AnalyzeRange_returns:
  "end_addr < 0xffff \<Longrightarrow> \<exists>flags'. AnalyzeRange imem start_addr end_addr flags = Some flags'"
  using FindInstructionStarts_returns [of end_addr imem start_addr flags]
  by (auto simp: AnalyzeRange_def)

lemma Analyze_returns: "\<exists>flags. Analyze s = Some flags"
proof -
  obtain f where "AnalyzeRange (ReadIMEM s) 0 0x1000 (\<lambda>_. 0) = Some f"
    using AnalyzeRange_returns [of "0x1000" "ReadIMEM s" 0 "\<lambda>_. 0"] by auto
  moreover obtain g where "AnalyzeRange (ReadIMEM s) 0x8000 0x9000 f = Some g"
    using AnalyzeRange_returns [of "0x9000" "ReadIMEM s" "0x8000" f] by auto
  ultimately show ?thesis by (simp add: Analyze_def)
qed

end
