(* ===== verification/Dsp_HWInterface.thy ===== *)
theory Dsp_HWInterface
  imports Dsp_Analyzer
begin

text \<open>
  The hardware registers of the DSP (Source/Core/Core/DSP/DSPHWInterface.cpp), the functions of
  Source/Core/Core/HW/DSPLLE/DSPHost.cpp that work on the DSP's state, and data memory (the rest of
  Source/Core/Core/DSP/DSPMemoryMap.cpp): mailboxes, DMA, the window to the accelerator.  Reads
  return the new state because a read pops a mailbox or moves the accelerator.
\<close>

unbundle bit_operations_syntax

section \<open>Register numbers\<close>

abbreviation DSP_COEF_A1_0 :: nat where "DSP_COEF_A1_0 \<equiv> 0xa0"
abbreviation DSP_DSCR :: u16 where "DSP_DSCR \<equiv> 0xc9"
abbreviation DSP_DSPA :: u16 where "DSP_DSPA \<equiv> 0xcd"
abbreviation DSP_DSBL :: u16 where "DSP_DSBL \<equiv> 0xcb"
abbreviation DSP_DSMAH :: u16 where "DSP_DSMAH \<equiv> 0xce"
abbreviation DSP_DSMAL :: u16 where "DSP_DSMAL \<equiv> 0xcf"
abbreviation DSP_FORMAT :: u16 where "DSP_FORMAT \<equiv> 0xd1"
abbreviation DSP_ACDRAW :: u16 where "DSP_ACDRAW \<equiv> 0xd3"
abbreviation DSP_ACSAH :: u16 where "DSP_ACSAH \<equiv> 0xd4"
abbreviation DSP_ACSAL :: u16 where "DSP_ACSAL \<equiv> 0xd5"
abbreviation DSP_ACEAH :: u16 where "DSP_ACEAH \<equiv> 0xd6"
abbreviation DSP_ACEAL :: u16 where "DSP_ACEAL \<equiv> 0xd7"
abbreviation DSP_ACCAH :: u16 where "DSP_ACCAH \<equiv> 0xd8"
abbreviation DSP_ACCAL :: u16 where "DSP_ACCAL \<equiv> 0xd9"
abbreviation DSP_PRED_SCALE :: u16 where "DSP_PRED_SCALE \<equiv> 0xda"
abbreviation DSP_YN1 :: u16 where "DSP_YN1 \<equiv> 0xdb"
abbreviation DSP_YN2 :: u16 where "DSP_YN2 \<equiv> 0xdc"
abbreviation DSP_ACDSAMP :: u16 where "DSP_ACDSAMP \<equiv> 0xdd"
abbreviation DSP_GAIN :: u16 where "DSP_GAIN \<equiv> 0xde"
abbreviation DSP_ACIN :: u16 where "DSP_ACIN \<equiv> 0xdf"
abbreviation DSP_AMDM :: u16 where "DSP_AMDM \<equiv> 0xef"
abbreviation DSP_DIRQ :: u16 where "DSP_DIRQ \<equiv> 0xfb"
abbreviation DSP_DMBH :: u16 where "DSP_DMBH \<equiv> 0xfc"
abbreviation DSP_DMBL :: u16 where "DSP_DMBL \<equiv> 0xfd"
abbreviation DSP_CMBH :: u16 where "DSP_CMBH \<equiv> 0xfe"
abbreviation DSP_CMBL :: u16 where "DSP_CMBL \<equiv> 0xff"

section \<open>Mailboxes\<close>

definition InitializeIFX :: "'a SDSP_scheme \<Rightarrow> 'a SDSP_scheme" where
  "InitializeIFX s =
     s\<lparr>m_ifx_regs := \<lambda>_. 0, m_mailbox := (m_mailbox s)(MailboxCPU := 0, MailboxDSP := 0)\<rparr>"

definition PeekMailbox :: "Mailbox \<Rightarrow> 'a SDSP_scheme \<Rightarrow> u32" where
  "PeekMailbox mailbox s = m_mailbox s mailbox"

definition ReadMailboxLow :: "Mailbox \<Rightarrow> 'a SDSP_scheme \<Rightarrow> u16 \<times> 'a SDSP_scheme" where
  "ReadMailboxLow mailbox s =
     (let val = m_mailbox s mailbox
      in (ucast val, s\<lparr>m_mailbox := (m_mailbox s)(mailbox := val AND NOT 0x80000000)\<rparr>))"

definition ReadMailboxHigh :: "Mailbox \<Rightarrow> 'a SDSP_scheme \<Rightarrow> u16" where
  "ReadMailboxHigh mailbox s = ucast (drop_bit 16 (PeekMailbox mailbox s))"

definition WriteMailboxLow :: "Mailbox \<Rightarrow> u16 \<Rightarrow> 'a SDSP_scheme \<Rightarrow> 'a SDSP_scheme" where
  "WriteMailboxLow mailbox val s =
     (let old_value = m_mailbox s mailbox;
          new_value = (old_value AND NOT 0xffff) OR ucast val
      in s\<lparr>m_mailbox := (m_mailbox s)(mailbox := new_value OR 0x80000000)\<rparr>)"

definition WriteMailboxHigh :: "Mailbox \<Rightarrow> u16 \<Rightarrow> 'a SDSP_scheme \<Rightarrow> 'a SDSP_scheme" where
  "WriteMailboxHigh mailbox val s =
     (let old_value = m_mailbox s mailbox;
          new_value = (old_value AND 0xffff) OR push_bit 16 (ucast val)
      in s\<lparr>m_mailbox := (m_mailbox s)(mailbox := new_value AND NOT 0x80000000)\<rparr>)"

section \<open>DMA\<close>

definition SetIRAMCRC :: "u32 \<Rightarrow> 'a SDSP_scheme \<Rightarrow> 'a SDSP_scheme" where
  "SetIRAMCRC crc s = s\<lparr>m_iram_crc := crc\<rparr>"

text \<open>The analysis of the new code replaces the flags.\<close>

definition analyze_code :: "'a SDSP_scheme \<Rightarrow> 'a SDSP_scheme result" where
  "analyze_code s = (case Analyze s of None \<Rightarrow> Inl Diverges | Some flags \<Rightarrow> Inr (s\<lparr>m_code_flags := flags\<rparr>))"

text \<open>The bytes to hash; reading any of them through \<open>nullptr\<close> fails.\<close>

definition code_bytes :: "Host \<Rightarrow> u32 \<Rightarrow> nat \<Rightarrow> u8 list result" where
  "code_bytes h addr sz =
     (case GetPointerForRange h addr sz of
        None \<Rightarrow> if sz = 0 then Inr [] else Inl NullPointer
      | Some p \<Rightarrow> Inr (map (mem_byte h p) [0..<sz]))"

definition CodeLoaded :: "u32 \<Rightarrow> nat \<Rightarrow> 'a SDSP_scheme \<Rightarrow> 'a SDSP_scheme result" where
  "CodeLoaded addr sz s =
     bindE (code_bytes (host s) addr sz) (\<lambda>bytes. analyze_code (SetIRAMCRC (HashEctor bytes) s))"

text \<open>Stores of consecutive halfwords into a memory of 4096 halfwords.\<close>

definition store_words :: "nat \<Rightarrow> u16 list \<Rightarrow> (nat \<Rightarrow> u16) \<Rightarrow> nat \<Rightarrow> u16" where
  "store_words base ws mem = (\<lambda>i. if base \<le> i \<and> i < base + length ws then ws ! (i - base) else mem i)"

definition DMAToDSP :: "Host \<Rightarrow> nat \<Rightarrow> u32 \<Rightarrow> nat \<Rightarrow> (nat \<Rightarrow> u16) \<Rightarrow> (nat \<Rightarrow> u16) result" where
  "DMAToDSP h base addr sz mem =
     (case CopyFromEmuSwapped h addr sz of
        None \<Rightarrow> Inr mem
      | Some ws \<Rightarrow> if ws \<noteq> [] \<and> base + length ws > 0x1000 then Inl OutOfBounds
                   else Inr (store_words base ws mem))"

text \<open>Halfwords are read from the source only when the destination range is valid.\<close>

definition DMAFromDSP :: "nat \<Rightarrow> u32 \<Rightarrow> nat \<Rightarrow> (nat \<Rightarrow> u16) \<Rightarrow> Host \<Rightarrow> Host result" where
  "DMAFromDSP base addr sz mem h =
     (if GetPointerForRange h addr sz \<noteq> None \<and> sz div 2 \<noteq> 0 \<and> base + sz div 2 > 0x1000
      then Inl OutOfBounds
      else Inr (CopyToEmuSwapped addr (map (\<lambda>i. mem (base + i)) [0..<sz div 2]) sz h))"

definition IDMAIn :: "u16 \<Rightarrow> u32 \<Rightarrow> u16 \<Rightarrow> 'a SDSP_scheme \<Rightarrow> 'a SDSP_scheme result" where
  "IDMAIn dsp_addr addr sz s =
     bindE (DMAToDSP (host s) (unat dsp_addr div 2) addr (unat sz) (iram s))
       (\<lambda>mem. CodeLoaded addr (unat sz) (s\<lparr>iram := mem\<rparr>))"

definition IDMAOut :: "u16 \<Rightarrow> u32 \<Rightarrow> u16 \<Rightarrow> 'a SDSP_scheme \<Rightarrow> 'a SDSP_scheme result" where
  "IDMAOut dsp_addr addr sz s = Inr s"

definition DDMAIn :: "u16 \<Rightarrow> u32 \<Rightarrow> u16 \<Rightarrow> 'a SDSP_scheme \<Rightarrow> 'a SDSP_scheme result" where
  "DDMAIn dsp_addr addr sz s =
     bindE (DMAToDSP (host s) (unat dsp_addr div 2) addr (unat sz) (dram s))
       (\<lambda>mem. Inr (s\<lparr>dram := mem\<rparr>))"

definition DDMAOut :: "u16 \<Rightarrow> u32 \<Rightarrow> u16 \<Rightarrow> 'a SDSP_scheme \<Rightarrow> 'a SDSP_scheme result" where
  "DDMAOut dsp_addr addr sz s =
     bindE (DMAFromDSP (unat dsp_addr div 2) addr (unat sz) (dram s) (host s))
       (\<lambda>h. Inr (s\<lparr>host := h\<rparr>))"

text \<open>The capture logger (\<open>LogDMA\<close>, \<open>LogIFXRead\<close>, \<open>LogIFXWrite\<close>) is left out.\<close>

definition ifx :: "'a SDSP_scheme \<Rightarrow> u16 \<Rightarrow> u16" where
  "ifx s reg = m_ifx_regs s (unat reg)"

definition set_ifx :: "u16 \<Rightarrow> u16 \<Rightarrow> 'a SDSP_scheme \<Rightarrow> 'a SDSP_scheme" where
  "set_ifx reg val s = s\<lparr>m_ifx_regs := (m_ifx_regs s)(unat reg := val)\<rparr>"

definition DoDMA :: "'a SDSP_scheme \<Rightarrow> 'a SDSP_scheme result" where
  "DoDMA s =
     (let addr = push_bit 16 (ucast (ifx s DSP_DSMAH)) OR ucast (ifx s DSP_DSMAL) :: u32;
          ctl = ifx s DSP_DSCR;
          dsp_addr = ifx s DSP_DSPA * 2;
          len = ifx s DSP_DSBL
      in if len > 0x4000 then Inl ProcessExit
         else if ctl AND 3 = 1 then DDMAOut dsp_addr addr len s
         else if ctl AND 3 = 0 then DDMAIn dsp_addr addr len s
         else if ctl AND 3 = 3 then IDMAOut dsp_addr addr len s
         else IDMAIn dsp_addr addr len s)"

section \<open>The register window\<close>

abbreviation upd_accel :: "(Accelerator \<Rightarrow> Accelerator) \<Rightarrow> 'a SDSP_scheme \<Rightarrow> 'a SDSP_scheme" where
  "upd_accel \<equiv> m_accelerator_update"

definition with_high :: "u16 \<Rightarrow> u32 \<Rightarrow> u32" where
  "with_high val old = push_bit 16 (ucast val) OR ucast (ucast old :: u16)"

definition with_low :: "u16 \<Rightarrow> u32 \<Rightarrow> u32" where
  "with_low val old = push_bit 16 (ucast (ucast (drop_bit 16 old) :: u16)) OR ucast val"

definition write_raw :: "u16 \<Rightarrow> 'a SDSP_scheme \<Rightarrow> 'a SDSP_scheme" where
  "write_raw val s =
     (let (a, h, ev) = WriteRaw (\<lambda>addr b. WriteHostMemory b addr) val (m_accelerator s) (host s)
      in raise_events ev (s\<lparr>m_accelerator := a, host := h\<rparr>))"

definition WriteIFX :: "u16 \<Rightarrow> u16 \<Rightarrow> 'a SDSP_scheme \<Rightarrow> 'a SDSP_scheme result" where
  "WriteIFX address val s =
     (let a = address AND 0xff in
      if a = DSP_DIRQ then
        if val AND 1 \<noteq> 0 then Inr (s\<lparr>host := InterruptRequest (host s)\<rparr>) else Inr s
      else if a = DSP_DMBH then Inr (WriteMailboxHigh MailboxDSP val s)
      else if a = DSP_DMBL then Inr (WriteMailboxLow MailboxDSP val s)
      else if a = DSP_CMBH then Inr (WriteMailboxHigh MailboxCPU val s)
      else if a = DSP_CMBL then Inr (WriteMailboxLow MailboxCPU val s)
      else if a = DSP_DSBL then
        let s = set_ifx DSP_DSBL val s;
            s = set_ifx DSP_DSCR (ifx s DSP_DSCR OR 4) s
        in bindE (if ifx s DSP_AMDM = 0 then DoDMA s else Inr s)
             (\<lambda>s. let s = set_ifx DSP_DSCR (ifx s DSP_DSCR AND NOT 4) s
                  in Inr (set_ifx DSP_DSBL 0 s))
      else if a = DSP_DSPA \<or> a = DSP_DSMAH \<or> a = DSP_DSMAL \<or> a = DSP_DSCR then Inr (set_ifx a val s)
      else if a = DSP_ACSAH then
        Inr (upd_accel (\<lambda>c. SetStartAddress (with_high val (m_start_address c)) c) s)
      else if a = DSP_ACSAL then
        Inr (upd_accel (\<lambda>c. SetStartAddress (with_low val (m_start_address c)) c) s)
      else if a = DSP_ACEAH then
        Inr (upd_accel (\<lambda>c. SetEndAddress (with_high val (m_end_address c)) c) s)
      else if a = DSP_ACEAL then
        Inr (upd_accel (\<lambda>c. SetEndAddress (with_low val (m_end_address c)) c) s)
      else if a = DSP_ACCAH then
        Inr (upd_accel (\<lambda>c. SetCurrentAddress (with_high val (m_current_address c)) c) s)
      else if a = DSP_ACCAL then
        Inr (upd_accel (\<lambda>c. SetCurrentAddress (with_low val (m_current_address c)) c) s)
      else if a = DSP_FORMAT then Inr (upd_accel (SetSampleFormat val) s)
      else if a = DSP_GAIN then Inr (upd_accel (SetGain val) s)
      else if a = DSP_YN1 then Inr (upd_accel (SetYn1 val) s)
      else if a = DSP_YN2 then Inr (upd_accel (SetYn2 val) s)
      else if a = DSP_PRED_SCALE then Inr (upd_accel (SetPredScale val) s)
      else if a = DSP_ACDRAW then Inr (write_raw val s)
      else if a = DSP_ACIN then Inr (upd_accel (SetInput val) s)
      else Inr (set_ifx a val s))"

definition read_accel ::
    "(Accelerator \<Rightarrow> u16 \<times> Accelerator \<times> accel_event list) \<Rightarrow> 'a SDSP_scheme \<Rightarrow> u16 \<times> 'a SDSP_scheme" where
  "read_accel f s = (let (v, a, ev) = f (m_accelerator s) in (v, raise_events ev (s\<lparr>m_accelerator := a\<rparr>)))"

definition ReadIFXImpl :: "u16 \<Rightarrow> 'a SDSP_scheme \<Rightarrow> u16 \<times> 'a SDSP_scheme" where
  "ReadIFXImpl address s =
     (let a = address AND 0xff; c = m_accelerator s in
      if a = DSP_DMBH then (ReadMailboxHigh MailboxDSP s, s)
      else if a = DSP_DMBL then ReadMailboxLow MailboxDSP s
      else if a = DSP_CMBH then (ReadMailboxHigh MailboxCPU s, s)
      else if a = DSP_CMBL then ReadMailboxLow MailboxCPU s
      else if a = DSP_DSCR then (ifx s a, s)
      else if a = DSP_ACSAH then (ucast (drop_bit 16 (m_start_address c)), s)
      else if a = DSP_ACSAL then (ucast (m_start_address c), s)
      else if a = DSP_ACEAH then (ucast (drop_bit 16 (m_end_address c)), s)
      else if a = DSP_ACEAL then (ucast (m_end_address c), s)
      else if a = DSP_ACCAH then (ucast (drop_bit 16 (m_current_address c)), s)
      else if a = DSP_ACCAL then (ucast (m_current_address c), s)
      else if a = DSP_FORMAT then (m_sample_format c, s)
      else if a = DSP_GAIN then (m_gain c, s)
      else if a = DSP_YN1 then (m_yn1 c, s)
      else if a = DSP_YN2 then (m_yn2 c, s)
      else if a = DSP_PRED_SCALE then (m_pred_scale c, s)
      else if a = DSP_ACDSAMP then
        read_accel (ReadSample (ReadHostMemory (host s)) (\<lambda>i. m_ifx_regs s (DSP_COEF_A1_0 + i))) s
      else if a = DSP_ACDRAW then read_accel (ReadRaw (ReadHostMemory (host s))) s
      else if a = DSP_ACIN then (m_input c, s)
      else (ifx s a, s))"

definition ReadIFX :: "u16 \<Rightarrow> 'a SDSP_scheme \<Rightarrow> u16 \<times> 'a SDSP_scheme" where
  "ReadIFX address s = ReadIFXImpl address s"

section \<open>Data memory\<close>

definition ReadDMEM :: "u16 \<Rightarrow> 'a SDSP_scheme \<Rightarrow> u16 \<times> 'a SDSP_scheme" where
  "ReadDMEM address s =
     (let page = drop_bit 12 address in
      if page = 0x0 then (dram s (unat (address AND DSP_DRAM_MASK)), s)
      else if page = 0x1 then (coef s (unat (address AND DSP_COEF_MASK)), s)
      else if page = 0xf then ReadIFX address s
      else (0, s))"

definition WriteDMEM :: "u16 \<Rightarrow> u16 \<Rightarrow> 'a SDSP_scheme \<Rightarrow> 'a SDSP_scheme result" where
  "WriteDMEM address val s =
     (let page = drop_bit 12 address in
      if page = 0x0 then
        Inr (s\<lparr>dram := (dram s)(unat (address AND DSP_DRAM_MASK) := val)\<rparr>)
      else if page = 0xf then WriteIFX address val s
      else Inr s)"

end
