(* ===== verification/Dsp_Stacks.thy ===== *)
theory Dsp_Stacks
  imports Dsp_State
begin

text \<open>
  The four hardware stacks of the DSP (Source/Core/Core/DSP/DSPStacks.cpp): a register that holds
  the top and a ring of 32 slots below it.  The interface is the locale \<open>hw_stack\<close>: a bounded
  stack that forgets its oldest element when it is full.  The model of \<open>StoreStack\<close> and \<open>PopStack\<close>
  provides it for every stack; the call, exception and loop instructions use it.
\<close>

unbundle bit_operations_syntax

section \<open>The operations\<close>

definition StoreStack :: "StackRegister \<Rightarrow> u16 \<Rightarrow> 'a SDSP_scheme \<Rightarrow> 'a SDSP_scheme" where
  "StoreStack stack_reg val s =
     (let i = stack_index stack_reg;
          p = (reg_stack_ptrs s i + 1) AND DSP_STACK_MASK;
          s = s\<lparr>reg_stack_ptrs := (reg_stack_ptrs s)(i := p),
                reg_stacks := (reg_stacks s)(i := (reg_stacks s i)(unat p := st (regs s) i))\<rparr>
      in set_st i val s)"

definition PopStack :: "StackRegister \<Rightarrow> 'a SDSP_scheme \<Rightarrow> u16 \<times> 'a SDSP_scheme" where
  "PopStack stack_reg s =
     (let i = stack_index stack_reg;
          val = st (regs s) i;
          s = set_st i (reg_stacks s i (unat (reg_stack_ptrs s i))) s;
          s = s\<lparr>reg_stack_ptrs := (reg_stack_ptrs s)(i := (reg_stack_ptrs s i - 1) AND DSP_STACK_MASK)\<rparr>
      in (val, s))"

section \<open>Bounded stacks\<close>

locale hw_stack =
  fixes push :: "'v \<Rightarrow> 's \<Rightarrow> 's"
    and pop :: "'s \<Rightarrow> 'v \<times> 's"
    and view :: "'s \<Rightarrow> 'v list"
    and depth :: nat
    and inv :: "'s \<Rightarrow> bool"
  assumes view_push: "inv s \<Longrightarrow> view (push v s) = v # butlast (view s)"
    and pop_top: "inv s \<Longrightarrow> fst (pop s) = hd (view s)"
    and view_pop: "inv s \<Longrightarrow> butlast (view (snd (pop s))) = tl (view s)"
    and view_length: "length (view s) = depth"
    and depth_pos: "0 < depth"
    and inv_push: "inv s \<Longrightarrow> inv (push v s)"
    and inv_pop: "inv s \<Longrightarrow> inv (snd (pop s))"
begin

lemma pop_push: "inv s \<Longrightarrow> fst (pop (push v s)) = v"
  by (simp add: pop_top inv_push view_push)

lemma view_pop_push: "inv s \<Longrightarrow> butlast (view (snd (pop (push v s)))) = butlast (view s)"
  by (simp add: view_pop inv_push view_push)

lemma inv_pushes: "inv s \<Longrightarrow> inv (fold push vs s)"
  by (induction vs arbitrary: s) (auto simp: inv_push)

lemma view_pushes:
  "inv s \<Longrightarrow> length vs \<le> depth \<Longrightarrow> view (fold push vs s) = rev vs @ take (depth - length vs) (view s)"
proof (induction vs arbitrary: s rule: rev_induct)
  case Nil
  then show ?case using view_length [of s] by simp
next
  case (snoc v vs)
  then have "view (fold push vs s) = rev vs @ take (depth - length vs) (view s)" by simp
  moreover have "take (depth - length vs) (view s) \<noteq> []"
    using snoc.prems view_length [of s] depth_pos by auto
  moreover have "butlast (take (depth - length vs) (view s)) = take (depth - Suc (length vs)) (view s)"
    using view_length [of s] by (simp add: butlast_take)
  ultimately show ?case
    using snoc.prems by (simp add: view_push inv_pushes butlast_append)
qed

fun pops :: "nat \<Rightarrow> 's \<Rightarrow> 'v list" where
  "pops 0 s = []"
| "pops (Suc n) s = fst (pop s) # pops n (snd (pop s))"

lemma pops_view: "inv s \<Longrightarrow> n \<le> depth \<Longrightarrow> take m xs = take m (view s) \<Longrightarrow> n \<le> m \<Longrightarrow> m \<le> length xs
    \<Longrightarrow> m \<le> depth \<Longrightarrow> pops n s = take n xs"
proof (induction n arbitrary: s xs m)
  case 0
  then show ?case by simp
next
  case (Suc n)
  have ne: "view s \<noteq> []" using view_length [of s] depth_pos by auto
  obtain x xs' where xs: "xs = x # xs'" using Suc.prems by (cases xs) auto
  obtain m' where m: "m = Suc m'" using Suc.prems by (cases m) auto
  have hd: "x = hd (view s)" and tl: "take m' xs' = take m' (tl (view s))"
    using Suc.prems(3) ne unfolding xs m by (cases "view s"; simp)+
  have "take m' xs' = take m' (butlast (view (snd (pop s))))"
    using tl Suc.prems(1) by (simp add: view_pop)
  also have "\<dots> = take m' (view (snd (pop s)))"
    using view_length [of "snd (pop s)"] Suc.prems(6) unfolding m
    by (simp add: butlast_conv_take min_absorb1)
  finally have "pops n (snd (pop s)) = take n xs'"
    using Suc.prems unfolding xs m
    by (intro Suc.IH [where m = m']) (auto simp: inv_pop)
  then show ?case using hd Suc.prems(1) by (simp add: xs pop_top)
qed

lemma pops_pushes: "inv s \<Longrightarrow> length vs \<le> depth \<Longrightarrow> pops (length vs) (fold push vs s) = rev vs"
  using pops_view [of "fold push vs s" "length vs" "length vs" "rev vs"]
  by (simp add: inv_pushes view_pushes)

end

section \<open>The hardware stacks\<close>

definition stacks_ok :: "'a SDSP_scheme \<Rightarrow> bool" where
  "stacks_ok s \<longleftrightarrow> (\<forall>i. reg_stack_ptrs s i < 32)"

definition ring_slot :: "u8 \<Rightarrow> nat \<Rightarrow> nat" where
  "ring_slot p j = unat ((p - of_nat j) AND DSP_STACK_MASK)"

text \<open>What a stack holds, newest first: the register and the 32 slots from the pointer down.\<close>

definition stack_view :: "StackRegister \<Rightarrow> 'a SDSP_scheme \<Rightarrow> u16 list" where
  "stack_view k s =
     st (regs s) (stack_index k)
       # map (\<lambda>j. reg_stacks s (stack_index k) (ring_slot (reg_stack_ptrs s (stack_index k)) j)) [0..<32]"

lemma and_31_less: "x AND DSP_STACK_MASK < 32"
  using word_and_le1 [of x "DSP_STACK_MASK"] by (simp add: word_le_nat_alt word_less_nat_alt)

lemma and_31_mod: "unat (x AND DSP_STACK_MASK) = unat x mod 32"
proof -
  have "(0x1f :: u8) = mask 5" by (simp add: mask_eq_exp_minus_1)
  then have "unat (x AND DSP_STACK_MASK) = unat (take_bit 5 x)" by (simp add: take_bit_eq_mask)
  also have "\<dots> = unat x mod 32"
    unfolding unsigned_take_bit_eq by (simp add: take_bit_eq_mod)
  finally show ?thesis .
qed

lemma and_31_id: "x < 32 \<Longrightarrow> x AND DSP_STACK_MASK = x"
  by (simp add: word_unat_eq_iff and_31_mod word_less_nat_alt)

lemma mod_256_mod_32: "(x mod 256) mod 32 = (x mod 32 :: int)"
  by (simp add: mod_mod_cancel)

lemma ring_slot_mod: "int (ring_slot p j) = (uint p - int j) mod 32"
proof -
  have "int (ring_slot p j) = uint (p - of_nat j) mod 32"
    unfolding ring_slot_def and_31_mod by (simp add: zmod_int)
  also have "uint (p - of_nat j) = (uint p - int j mod 256) mod 256"
    by (simp add: uint_word_ariths unsigned_of_nat take_bit_eq_mod zmod_int)
  also have "\<dots> = (uint p - int j) mod 256"
    by (rule mod_diff_right_eq)
  finally show ?thesis by (simp add: mod_256_mod_32)
qed

lemma uint_and_31: "uint (x AND DSP_STACK_MASK) = uint x mod 32"
  by (simp only: uint_nat and_31_mod zmod_int) simp

lemma uint_inc_31: "uint ((p + 1) AND DSP_STACK_MASK) = (uint p + 1) mod 32"
  by (simp only: uint_and_31) (simp add: uint_word_ariths mod_256_mod_32)

lemma uint_dec_31: "uint ((p - 1) AND DSP_STACK_MASK) = (uint p - 1) mod 32"
  by (simp only: uint_and_31) (simp add: uint_word_ariths mod_256_mod_32)

lemma ring_slot_Suc: "ring_slot ((p + 1) AND DSP_STACK_MASK) (Suc j) = ring_slot p j"
proof -
  have "int (ring_slot ((p + 1) AND DSP_STACK_MASK) (Suc j)) = int (ring_slot p j)"
    unfolding ring_slot_mod uint_inc_31 by (simp add: mod_diff_left_eq)
  then show ?thesis by simp
qed

lemma ring_slot_0: "p < 32 \<Longrightarrow> ring_slot p 0 = unat p"
  by (simp add: ring_slot_def and_31_id)

lemma ring_slot_less: "ring_slot p j < 32"
  unfolding ring_slot_def and_31_mod by simp

lemma ring_slot_eq_iff:
  assumes "i < 32" and "j < 32"
  shows "ring_slot p i = ring_slot p j \<longleftrightarrow> i = j"
proof
  assume "ring_slot p i = ring_slot p j"
  then have "(uint p - int i) mod 32 = (uint p - int j) mod 32"
    using ring_slot_mod [of p i] ring_slot_mod [of p j] by simp
  then have "32 dvd int j - int i" by (simp add: mod_eq_dvd_iff)
  then obtain q where q: "int j - int i = 32 * q" by (elim dvdE)
  with assms have "- 1 < q" "q < 1" by linarith+
  with q show "i = j" by simp
qed simp


lemma stack_index_less: "stack_index k < 4"
  by (cases k) (simp_all add: stack_index_def)

lemma stack_index_inject [simp]: "stack_index k = stack_index k' \<longleftrightarrow> k = k'"
  by (cases k; cases k') (simp_all add: stack_index_def)

text \<open>The view splits into the register, the slots and the oldest slot.\<close>

lemma length_stack_view [simp]: "length (stack_view k s) = 33"
  by (simp add: stack_view_def)

lemma butlast_map_upt: "butlast (map f [0..<Suc n]) = map f [0..<n]"
  by (simp add: butlast_append)

lemma stack_view_StoreStack:
  assumes "stacks_ok s"
  shows "stack_view k (StoreStack k v s) = v # butlast (stack_view k s)"
proof -
  let ?i = "stack_index k"
  let ?p = "reg_stack_ptrs s ?i"
  let ?p' = "(?p + 1) AND DSP_STACK_MASK"
  let ?m = "(reg_stacks s ?i)(unat ?p' := st (regs s) ?i)"
  have p': "?p' < 32" by (rule and_31_less)
  have slot0: "ring_slot ?p' 0 = unat ?p'" by (rule ring_slot_0 [OF p'])
  have other: "ring_slot ?p j \<noteq> unat ?p'" if "j < 31" for j
    using ring_slot_eq_iff [of "Suc j" 0 ?p'] that slot0 by (simp add: ring_slot_Suc)
  have "map (\<lambda>j. ?m (ring_slot ?p' j)) [0..<32] =
      ?m (ring_slot ?p' 0) # map (\<lambda>j. ?m (ring_slot ?p' (Suc j))) [0..<31]"
    using map_upt_Suc [of "\<lambda>j. ?m (ring_slot ?p' j)" 31] by (simp only: numeral_eq_Suc pred_numeral_simps BitM.simps eval_nat_numeral) 
  also have "\<dots> = st (regs s) ?i # map (\<lambda>j. reg_stacks s ?i (ring_slot ?p j)) [0..<31]"
    using other by (simp add: slot0 ring_slot_Suc)
  finally show ?thesis
    using butlast_map_upt [of "\<lambda>j. reg_stacks s ?i (ring_slot ?p j)" 31]
    by (simp add: stack_view_def StoreStack_def Let_def)
qed


lemma stack_view_PopStack:
  assumes "stacks_ok s"
  shows "butlast (stack_view k (snd (PopStack k s))) = tl (stack_view k s)"
proof -
  let ?i = "stack_index k"
  let ?p = "reg_stack_ptrs s ?i"
  let ?q = "(?p - 1) AND DSP_STACK_MASK"
  have p: "?p < 32" using assms by (simp add: stacks_ok_def)
  have q: "(?q + 1) AND DSP_STACK_MASK = ?p"
  proof -
    have "uint ((?q + 1) AND DSP_STACK_MASK) = uint ?p mod 32"
      unfolding uint_inc_31 uint_dec_31 by (simp add: mod_add_left_eq)
    also have "\<dots> = uint ?p"
      using p by (simp add: word_less_def)
    finally show ?thesis by (simp only: word_uint_eq_iff)
  qed
  have slot: "ring_slot ?p (Suc j) = ring_slot ?q j" for j
    using ring_slot_Suc [of ?q j] by (simp only: q)
  have "map (\<lambda>j. reg_stacks s ?i (ring_slot ?p j)) [0..<32] =
      reg_stacks s ?i (unat ?p) # map (\<lambda>j. reg_stacks s ?i (ring_slot ?q j)) [0..<31]"
    using map_upt_Suc [of "\<lambda>j. reg_stacks s ?i (ring_slot ?p j)" 31]
    by (simp add: slot ring_slot_0 p)
  then show ?thesis
    using butlast_map_upt [of "\<lambda>j. reg_stacks s ?i (ring_slot ?q j)" 31]
    by (simp add: stack_view_def PopStack_def Let_def)
qed


lemma stacks_ok_StoreStack [simp]: "stacks_ok s \<Longrightarrow> stacks_ok (StoreStack k v s)"
  using and_31_less by (auto simp: stacks_ok_def StoreStack_def Let_def)

lemma stacks_ok_PopStack [simp]: "stacks_ok s \<Longrightarrow> stacks_ok (snd (PopStack k s))"
  using and_31_less by (auto simp: stacks_ok_def PopStack_def Let_def)

interpretation hw: hw_stack "StoreStack k" "PopStack k" "stack_view k" 33 stacks_ok for k
proof
  fix s :: "'a SDSP_scheme" and v
  assume ok: "stacks_ok s"
  show "stack_view k (StoreStack k v s) = v # butlast (stack_view k s)"
    by (rule stack_view_StoreStack [OF ok])
  show "fst (PopStack k s) = hd (stack_view k s)"
    by (simp add: PopStack_def stack_view_def Let_def)
  show "butlast (stack_view k (snd (PopStack k s))) = tl (stack_view k s)"
    by (rule stack_view_PopStack [OF ok])
  show "stacks_ok (StoreStack k v s)" "stacks_ok (snd (PopStack k s))" using ok by simp_all
qed simp_all

text \<open>The stacks are independent, and nothing but the stack registers changes.\<close>

lemma stack_view_StoreStack_other:
  "k \<noteq> k' \<Longrightarrow> stack_view k (StoreStack k' v s) = stack_view k s"
  by (simp add: stack_view_def StoreStack_def Let_def)

lemma stack_view_PopStack_other:
  "k \<noteq> k' \<Longrightarrow> stack_view k (snd (PopStack k' s)) = stack_view k s"
  by (simp add: stack_view_def PopStack_def Let_def)

text \<open>Popping what was just pushed restores the register, the pointer and the visible slots.\<close>

lemma PopStack_StoreStack:
  assumes "stacks_ok s"
  shows "fst (PopStack k (StoreStack k v s)) = v"
    and "st (regs (snd (PopStack k (StoreStack k v s)))) = st (regs s)"
    and "reg_stack_ptrs (snd (PopStack k (StoreStack k v s))) = reg_stack_ptrs s"
proof -
  let ?i = "stack_index k"
  let ?p = "reg_stack_ptrs s ?i"
  have p: "?p < 32" using assms by (simp add: stacks_ok_def)
  have "uint ((((?p + 1) AND DSP_STACK_MASK) - 1) AND DSP_STACK_MASK) = uint ?p mod 32"
    unfolding uint_inc_31 uint_dec_31 by (simp add: mod_diff_left_eq)
  also have "\<dots> = uint ?p" using p by (simp add: word_less_def)
  finally have q: "(((?p + 1) AND DSP_STACK_MASK) - 1) AND DSP_STACK_MASK = ?p" by (simp only: word_uint_eq_iff)
  show "fst (PopStack k (StoreStack k v s)) = v"
    by (rule hw.pop_push [OF assms])
  show "st (regs (snd (PopStack k (StoreStack k v s)))) = st (regs s)"
    by (simp add: PopStack_def StoreStack_def Let_def)
  show "reg_stack_ptrs (snd (PopStack k (StoreStack k v s))) = reg_stack_ptrs s"
    using q by (simp add: PopStack_def StoreStack_def Let_def)
qed

end
