(* ===== verification/Dsp_CCUtil.thy ===== *)
theory Dsp_CCUtil
  imports Prelude
begin

text \<open>
  The helpers of Source/Core/Core/DSP/Interpreter/DSPIntUtil.h and DSPIntCCUtil.h: sign extension
  and rounding of a 40-bit accumulator value, and the carry, overflow and range tests from which
  the status register is computed.  The lemmas relate each test on 64-bit words to the arithmetic
  of the 40-bit values it stands for.
\<close>

unbundle bit_operations_syntax

section \<open>The helpers\<close>

definition dsp_convert_long_acc :: "s64 \<Rightarrow> s64" where
  "dsp_convert_long_acc val = signed_drop_bit 24 (push_bit 24 val)"

definition dsp_round_long_acc :: "s64 \<Rightarrow> s64" where
  "dsp_round_long_acc val =
     (if val AND 0x10000 \<noteq> 0 then (val + 0x8000) AND NOT 0xffff
      else (val + 0x7fff) AND NOT 0xffff)"

definition isCarryAdd :: "u64 \<Rightarrow> u64 \<Rightarrow> bool" where
  "isCarryAdd val result \<longleftrightarrow> val > result"

definition isCarrySubtract :: "u64 \<Rightarrow> u64 \<Rightarrow> bool" where
  "isCarrySubtract val result \<longleftrightarrow> val \<ge> result"

definition isOverflow :: "s64 \<Rightarrow> s64 \<Rightarrow> s64 \<Rightarrow> bool" where
  "isOverflow val1 val2 res \<longleftrightarrow> ((val1 XOR res) AND (val2 XOR res)) <s 0"

definition isOverS32 :: "s64 \<Rightarrow> bool" where
  "isOverS32 acc \<longleftrightarrow> acc \<noteq> scast (ucast acc :: s32)"

lemma dsp_convert_long_acc_sext40 [simp]: "dsp_convert_long_acc v = sext40 v"
  by (simp add: dsp_convert_long_acc_def sext40_def)

section \<open>Sums and differences modulo 2 to the 40\<close>

lemma signed_take_bit_39_cases:
  fixes x :: int
  assumes "- (2 ^ 40) \<le> x" and "x < 2 ^ 40"
  shows "signed_take_bit 39 x =
    (if x \<ge> 2 ^ 39 then x - 2 ^ 40 else if x < - (2 ^ 39) then x + 2 ^ 40 else x)"
proof -
  have eq: "signed_take_bit 39 x = (x + 2 ^ 39) mod 2 ^ 40 - 2 ^ 39"
    by (simp add: signed_take_bit_eq_take_bit_shift take_bit_eq_mod)
  consider "x \<ge> 2 ^ 39" | "x < - (2 ^ 39)" | "- (2 ^ 39) \<le> x" "x < 2 ^ 39" by linarith
  then show ?thesis
  proof cases
    case 1
    have "(x + 2 ^ 39) mod 2 ^ 40 = (x + 2 ^ 39 - 2 ^ 40) mod 2 ^ 40"
      by (metis minus_mod_self2)
    with 1 assms eq show ?thesis by (simp add: mod_pos_pos_trivial)
  next
    case 2
    have "(x + 2 ^ 39) mod 2 ^ 40 = (x + 2 ^ 39 + 2 ^ 40) mod 2 ^ 40"
      by (metis mod_add_self2)
    with 2 assms eq show ?thesis by (simp add: mod_pos_pos_trivial)
  next
    case 3
    with eq show ?thesis by (simp add: mod_pos_pos_trivial)
  qed
qed

lemma sint_sext40_add: "sint (sext40 (a + b)) = signed_take_bit 39 (sint a + sint b)"
  by (simp add: sint_sext40 signed_take_bit_add sint_word_ariths)

lemma sint_sext40_sub: "sint (sext40 (a - b)) = signed_take_bit 39 (sint a - sint b)"
  by (simp add: sint_sext40 sint_word_ariths)

lemma mod_add_once: "- m \<le> x \<Longrightarrow> x < 0 \<Longrightarrow> x mod m = x + (m :: int)"
  using mod_pos_pos_trivial [of "x + m" m] by simp

lemma uint_is40: "is40 v \<Longrightarrow> uint v = (if sint v < 0 then sint v + 2 ^ 64 else sint v)"
proof -
  assume "is40 v"
  then have r: "- (2 ^ 39) \<le> sint v" "sint v < 2 ^ 39" by (auto simp: is40_iff_range)
  have eq: "uint v = sint v mod 2 ^ 64" by (simp add: uint_sint take_bit_eq_mod)
  show ?thesis
  proof (cases "sint v < 0")
    case True
    have "sint v mod 2 ^ 64 = sint v + 2 ^ 64" using r True by (intro mod_add_once) auto
    with True eq show ?thesis by simp
  next
    case False
    have "sint v mod 2 ^ 64 = sint v" using r False by (intro mod_pos_pos_trivial) auto
    with False eq show ?thesis by simp
  qed
qed

lemma u40_is40: "is40 v \<Longrightarrow> int (u40 v) = (if sint v < 0 then sint v + 2 ^ 40 else sint v)"
proof -
  assume v: "is40 v"
  then have r: "- (2 ^ 39) \<le> sint v" "sint v < 2 ^ 39" by (auto simp: is40_iff_range)
  have u: "int (u40 v) = uint v mod 2 ^ 40" by (simp add: u40_def zmod_int)
  show ?thesis
  proof (cases "sint v < 0")
    case True
    have "(sint v + 2 ^ 64) mod 2 ^ 40 = (sint v + 2 ^ 40 * 2 ^ 24) mod 2 ^ 40" by simp
    also have "\<dots> = sint v mod 2 ^ 40" by (rule mod_mult_self2)
    also have "\<dots> = sint v + 2 ^ 40" using r True by (intro mod_add_once) auto
    finally show ?thesis using u uint_is40 [OF v] True by simp
  next
    case False
    with u uint_is40 [OF v] r show ?thesis by (simp add: mod_pos_pos_trivial)
  qed
qed

lemma sint_eq_0_iff: "sint v = 0 \<longleftrightarrow> v = (0 :: s64)"
  by (auto intro: signed_word_eqI [where 'a = int])

text \<open>
  The carry of an addition is the carry out of bit 39, that of a subtraction is the absence of a
  borrow; the overflow test finds exactly the sums and differences that leave the signed
  40-bit range.
\<close>

lemma isCarryAdd_correct:
  assumes a: "is40 a" and b: "is40 b"
  shows "isCarryAdd a (sext40 (a + b)) \<longleftrightarrow> 2 ^ 40 \<le> u40 a + u40 b"
proof -
  have ra: "- (2 ^ 39) \<le> sint a" "sint a < 2 ^ 39" and rb: "- (2 ^ 39) \<le> sint b" "sint b < 2 ^ 39"
    using a b by (auto simp: is40_iff_range)
  have s: "sint (sext40 (a + b)) =
      (if sint a + sint b \<ge> 2 ^ 39 then sint a + sint b - 2 ^ 40
       else if sint a + sint b < - (2 ^ 39) then sint a + sint b + 2 ^ 40 else sint a + sint b)"
    using ra rb by (simp only: sint_sext40_add) (rule signed_take_bit_39_cases; simp)
  have "2 ^ 40 \<le> u40 a + u40 b \<longleftrightarrow> 2 ^ 40 \<le> int (u40 a) + int (u40 b)"
    using of_nat_le_iff [where 'a = int, of "2 ^ 40" "u40 a + u40 b"] by simp
  then show ?thesis
    unfolding isCarryAdd_def word_less_def
    using s ra rb uint_is40 [OF a] uint_is40 [OF is40_sext40 [of "a + b"]]
      u40_is40 [OF a] u40_is40 [OF b]
    by (simp split: if_splits)
qed

lemma isCarrySubtract_correct:
  assumes a: "is40 a" and b: "is40 b"
  shows "isCarrySubtract a (sext40 (a - b)) \<longleftrightarrow> u40 b \<le> u40 a"
proof -
  have ra: "- (2 ^ 39) \<le> sint a" "sint a < 2 ^ 39" and rb: "- (2 ^ 39) \<le> sint b" "sint b < 2 ^ 39"
    using a b by (auto simp: is40_iff_range)
  have s: "sint (sext40 (a - b)) =
      (if sint a - sint b \<ge> 2 ^ 39 then sint a - sint b - 2 ^ 40
       else if sint a - sint b < - (2 ^ 39) then sint a - sint b + 2 ^ 40 else sint a - sint b)"
    using ra rb by (simp only: sint_sext40_sub) (rule signed_take_bit_39_cases; simp)
  have "u40 b \<le> u40 a \<longleftrightarrow> int (u40 b) \<le> int (u40 a)" by linarith
  then show ?thesis
    unfolding isCarrySubtract_def word_le_def
    using s ra rb uint_is40 [OF a] uint_is40 [OF is40_sext40 [of "a - b"]]
      u40_is40 [OF a] u40_is40 [OF b]
    by (simp split: if_splits)
qed

lemma isOverflow_sint:
  "isOverflow a b r \<longleftrightarrow> (sint a < 0 \<longleftrightarrow> sint r \<ge> 0) \<and> (sint b < 0 \<longleftrightarrow> sint r \<ge> 0)"
proof -
  have sign: "sint v < 0 \<longleftrightarrow> bit v 63" for v :: s64
    using bit_last_iff [of v] by simp
  show ?thesis
    unfolding isOverflow_def word_sless_alt sint_0 not_less [symmetric] sign
    by (auto simp: bit_simps)
qed

lemma isOverflow_add_correct:
  assumes a: "is40 a" and b: "is40 b"
  shows "isOverflow a b (sext40 (a + b)) \<longleftrightarrow>
    sint a + sint b < - (2 ^ 39) \<or> 2 ^ 39 \<le> sint a + sint b"
proof -
  have ra: "- (2 ^ 39) \<le> sint a" "sint a < 2 ^ 39" and rb: "- (2 ^ 39) \<le> sint b" "sint b < 2 ^ 39"
    using a b by (auto simp: is40_iff_range)
  have s: "sint (sext40 (a + b)) =
      (if sint a + sint b \<ge> 2 ^ 39 then sint a + sint b - 2 ^ 40
       else if sint a + sint b < - (2 ^ 39) then sint a + sint b + 2 ^ 40 else sint a + sint b)"
    using ra rb by (simp only: sint_sext40_add) (rule signed_take_bit_39_cases; simp)
  then show ?thesis unfolding isOverflow_sint using ra rb by (simp split: if_splits) linarith
qed

lemma sint_uminus_is40: "is40 b \<Longrightarrow> sint (- b) = - sint b"
proof -
  assume "is40 b"
  then have r: "- (2 ^ 39) \<le> sint b" "sint b < 2 ^ 39" by (auto simp: is40_iff_range)
  have "sint (- b) = signed_take_bit 63 (- sint b)" by (simp add: sint_word_ariths)
  also have "\<dots> = - sint b" using r by (intro signed_take_bit_int_eq_self) auto
  finally show ?thesis .
qed

lemma isOverflow_sub_correct:
  assumes a: "is40 a" and b: "is40 b"
  shows "isOverflow a (- b) (sext40 (a - b)) \<longleftrightarrow>
    sint a - sint b < - (2 ^ 39) \<or> 2 ^ 39 \<le> sint a - sint b"
proof -
  have ra: "- (2 ^ 39) \<le> sint a" "sint a < 2 ^ 39" and rb: "- (2 ^ 39) \<le> sint b" "sint b < 2 ^ 39"
    using a b by (auto simp: is40_iff_range)
  have s: "sint (sext40 (a - b)) =
      (if sint a - sint b \<ge> 2 ^ 39 then sint a - sint b - 2 ^ 40
       else if sint a - sint b < - (2 ^ 39) then sint a - sint b + 2 ^ 40 else sint a - sint b)"
    using ra rb by (simp only: sint_sext40_sub) (rule signed_take_bit_39_cases; simp)
  then show ?thesis unfolding isOverflow_sint sint_uminus_is40 [OF b] using ra rb
    by (simp split: if_splits) linarith
qed

lemma isOverS32_correct: "isOverS32 v \<longleftrightarrow> sint v < - (2 ^ 31) \<or> 2 ^ 31 \<le> sint v"
proof -
  have "sint (scast (ucast v :: s32) :: s64) = signed_take_bit 31 (sint v)"
    by (rule bit_eqI) (auto simp: bit_simps min_def)
  then have "isOverS32 v \<longleftrightarrow> sint v \<noteq> signed_take_bit 31 (sint v)"
    by (auto simp: isOverS32_def intro: signed_word_eqI [where 'a = int])
  also have "\<dots> \<longleftrightarrow> sint v < - (2 ^ 31) \<or> 2 ^ 31 \<le> sint v"
    using signed_take_bit_int_eq_self_iff [of 31 "sint v"] by auto
  finally show ?thesis .
qed

end
