(* ===== verification/Dsp_Interp_Base.thy ===== *)
theory Dsp_Interp_Base
  imports Dsp_HWInterface Dsp_Stacks Dsp_CCUtil
begin

text \<open>
  The helpers of the interpreter (Source/Core/Core/DSP/Interpreter/DSPInterpreter.cpp): conditions,
  address registers, access to accumulators and products, multiplication, the status register, and
  the access to registers by number with the write-back log of extended opcodes.  Functions that
  only read state take it as their last argument; functions that change it return it.
\<close>

unbundle bit_operations_syntax

text \<open>The field of an opcode at a bit offset, under a mask.\<close>

definition fld :: "u16 \<Rightarrow> nat \<Rightarrow> u16 \<Rightarrow> nat" where
  "fld opc n m = unat (drop_bit n opc AND m)"

section \<open>Conditions\<close>

definition CheckCondition :: "'a SDSP_scheme \<Rightarrow> u8 \<Rightarrow> bool" where
  "CheckCondition s condition =
     (let IsCarry = IsSRFlagSet s SR_CARRY;
          IsOverflow = IsSRFlagSet s SR_OVERFLOW;
          IsOverS32 = IsSRFlagSet s SR_OVER_S32;
          IsLess = (IsSRFlagSet s SR_OVERFLOW \<noteq> IsSRFlagSet s SR_SIGN);
          IsZero = IsSRFlagSet s SR_ARITH_ZERO;
          IsLogicZero = IsSRFlagSet s SR_LOGIC_ZERO;
          IsConditionB = ((\<not> (IsSRFlagSet s SR_OVER_S32 \<or> IsSRFlagSet s SR_TOP2BITS)) \<or>
                          IsSRFlagSet s SR_ARITH_ZERO);
          c = condition AND 0xf
      in if c = 0xf then True
         else if c = 0x0 then \<not> IsLess
         else if c = 0x1 then IsLess
         else if c = 0x2 then \<not> IsLess \<and> \<not> IsZero
         else if c = 0x3 then IsLess \<or> IsZero
         else if c = 0x4 then \<not> IsZero
         else if c = 0x5 then IsZero
         else if c = 0x6 then \<not> IsCarry
         else if c = 0x7 then IsCarry
         else if c = 0x8 then \<not> IsOverS32
         else if c = 0x9 then IsOverS32
         else if c = 0xa then \<not> IsConditionB
         else if c = 0xb then IsConditionB
         else if c = 0xc then \<not> IsLogicZero
         else if c = 0xd then IsLogicZero
         else if c = 0xe then IsOverflow
         else True)"

section \<open>Address registers\<close>

definition IncrementAddressRegister :: "nat \<Rightarrow> 'a SDSP_scheme \<Rightarrow> u16" where
  "IncrementAddressRegister reg s =
     (let a = ucast (ar (regs s) reg) :: u32;
          w = ucast (wr (regs s) reg) :: u32;
          nar = a + 1;
          nar = (if nar XOR a > push_bit 1 (w OR 1) then nar - (w + 1) else nar)
      in ucast nar)"

definition DecrementAddressRegister :: "nat \<Rightarrow> 'a SDSP_scheme \<Rightarrow> u16" where
  "DecrementAddressRegister reg s =
     (let a = ucast (ar (regs s) reg) :: u32;
          w = ucast (wr (regs s) reg) :: u32;
          nar = a + w;
          nar = (if (nar XOR a) AND push_bit 1 (w OR 1) > w then nar - (w + 1) else nar)
      in ucast nar)"

definition IncreaseAddressRegister :: "nat \<Rightarrow> s16 \<Rightarrow> 'a SDSP_scheme \<Rightarrow> u16" where
  "IncreaseAddressRegister reg ixv s =
     (let a = ucast (ar (regs s) reg) :: u32;
          w = ucast (wr (regs s) reg) :: u32;
          x = scast ixv :: s32;
          mx = push_bit 1 (w OR 1);
          nar = a + x;
          dar = (nar XOR a XOR x) AND mx;
          nar = (if 0 \<le>s x
                 then if dar > w then nar - (w + 1) else nar
                 else if ((nar + w + 1) XOR nar) AND dar \<le> w then nar + (w + 1) else nar)
      in ucast nar)"

definition DecreaseAddressRegister :: "nat \<Rightarrow> s16 \<Rightarrow> 'a SDSP_scheme \<Rightarrow> u16" where
  "DecreaseAddressRegister reg ixv s =
     (let a = ucast (ar (regs s) reg) :: u32;
          w = ucast (wr (regs s) reg) :: u32;
          x = scast ixv :: s32;
          mx = push_bit 1 (w OR 1);
          nar = a - x;
          dar = (nar XOR a XOR NOT x) AND mx;
          nar = (if x > 0xFFFF8000
                 then if dar > w then nar - (w + 1) else nar
                 else if ((nar + w + 1) XOR nar) AND dar \<le> w then nar + (w + 1) else nar)
      in ucast nar)"

section \<open>Accumulators and products\<close>

definition GetLongACX :: "nat \<Rightarrow> 'a SDSP_scheme \<Rightarrow> s32" where
  "GetLongACX reg s = push_bit 16 (ucast (ax_h (ax (regs s) reg))) OR ucast (ax_l (ax (regs s) reg))"

definition GetAXLow :: "nat \<Rightarrow> 'a SDSP_scheme \<Rightarrow> s16" where
  "GetAXLow reg s = ax_l (ax (regs s) reg)"

definition GetAXHigh :: "nat \<Rightarrow> 'a SDSP_scheme \<Rightarrow> s16" where
  "GetAXHigh reg s = ax_h (ax (regs s) reg)"

definition GetLongAcc :: "nat \<Rightarrow> 'a SDSP_scheme \<Rightarrow> s64" where
  "GetLongAcc reg s = ac (regs s) reg"

definition SetLongAcc :: "nat \<Rightarrow> s64 \<Rightarrow> 'a SDSP_scheme \<Rightarrow> 'a SDSP_scheme" where
  "SetLongAcc reg val s = upd_ac reg (\<lambda>_. signed_drop_bit (64 - 40) (push_bit (64 - 40) val)) s"

definition GetAccLow :: "nat \<Rightarrow> 'a SDSP_scheme \<Rightarrow> s16" where
  "GetAccLow reg s = ac_l (ac (regs s) reg)"

definition GetAccMid :: "nat \<Rightarrow> 'a SDSP_scheme \<Rightarrow> s16" where
  "GetAccMid reg s = ac_m (ac (regs s) reg)"

definition GetAccHigh :: "nat \<Rightarrow> 'a SDSP_scheme \<Rightarrow> s16" where
  "GetAccHigh reg s = ucast (ac_h (ac (regs s) reg))"

definition GetLongProduct :: "'a SDSP_scheme \<Rightarrow> s64" where
  "GetLongProduct s =
     (let p = prod (regs s);
          val = push_bit 32 (scast (ucast (prod_h p) :: u8)) :: s64;
          low_prod = ucast (prod_m p) :: s64;
          low_prod = low_prod + ucast (prod_m2 p);
          low_prod = push_bit 16 low_prod;
          low_prod = low_prod OR ucast (prod_l p)
      in val + low_prod)"

definition GetLongProductRounded :: "'a SDSP_scheme \<Rightarrow> s64" where
  "GetLongProductRounded s =
     (let p = GetLongProduct s
      in if p AND 0x10000 \<noteq> 0 then (p + 0x8000) AND NOT 0xffff
         else (p + 0x7fff) AND NOT 0xffff)"

definition SetLongProduct :: "s64 \<Rightarrow> 'a SDSP_scheme \<Rightarrow> 'a SDSP_scheme" where
  "SetLongProduct val s = set_prod (val AND 0x000000FFFFFFFFFF) s"

section \<open>Multiplication\<close>

definition GetMultiplyProduct :: "u16 \<Rightarrow> u16 \<Rightarrow> u8 \<Rightarrow> 'a SDSP_scheme \<Rightarrow> s64" where
  "GetMultiplyProduct a b sign s =
     (let p = (if sign = 1 \<and> IsSRFlagSet s SR_MUL_UNSIGNED
               then ucast (ucast a * ucast b :: u32)
               else if sign = 2 \<and> IsSRFlagSet s SR_MUL_UNSIGNED
               then scast (ucast a * scast b :: s32)
               else scast (scast a * scast b :: s32)) :: s64
      in if \<not> IsSRFlagSet s SR_MUL_MODIFY then push_bit 1 p else p)"

definition Multiply :: "u16 \<Rightarrow> u16 \<Rightarrow> u8 \<Rightarrow> 'a SDSP_scheme \<Rightarrow> s64" where
  "Multiply a b sign s = GetMultiplyProduct a b sign s"

definition MultiplyAdd :: "u16 \<Rightarrow> u16 \<Rightarrow> u8 \<Rightarrow> 'a SDSP_scheme \<Rightarrow> s64" where
  "MultiplyAdd a b sign s = GetLongProduct s + GetMultiplyProduct a b sign s"

definition MultiplySub :: "u16 \<Rightarrow> u16 \<Rightarrow> u8 \<Rightarrow> 'a SDSP_scheme \<Rightarrow> s64" where
  "MultiplySub a b sign s = GetLongProduct s - GetMultiplyProduct a b sign s"

definition MultiplyMulX :: "nat \<Rightarrow> nat \<Rightarrow> u16 \<Rightarrow> u16 \<Rightarrow> 'a SDSP_scheme \<Rightarrow> s64" where
  "MultiplyMulX axh0 axh1 val1 val2 s =
     (if axh0 = 0 \<and> axh1 = 0 then Multiply val1 val2 1 s
      else if axh0 = 0 \<and> axh1 = 1 then Multiply val1 val2 2 s
      else if axh0 = 1 \<and> axh1 = 0 then Multiply val2 val1 2 s
      else Multiply val1 val2 0 s)"

section \<open>The status register\<close>

definition UpdateSR16 :: "s16 \<Rightarrow> bool \<Rightarrow> bool \<Rightarrow> bool \<Rightarrow> 'a SDSP_scheme \<Rightarrow> 'a SDSP_scheme" where
  "UpdateSR16 val carry overflow over_s32 s =
     (let f = sr (regs s) AND NOT SR_CMP_MASK;
          f = (if carry then f OR SR_CARRY else f);
          f = (if overflow then f OR SR_OVERFLOW OR SR_OVERFLOW_STICKY else f);
          f = (if val = 0 then f OR SR_ARITH_ZERO else f);
          f = (if val <s 0 then f OR SR_SIGN else f);
          f = (if over_s32 then f OR SR_OVER_S32 else f);
          f = (if drop_bit 14 val = 0 \<or> drop_bit 14 val = 3 then f OR SR_TOP2BITS else f)
      in set_sr f s)"

definition IsProperlySignExtended :: "u64 \<Rightarrow> bool" where
  "IsProperlySignExtended val =
     (let topbits = val AND 0xffffff8000000000
      in topbits = 0 \<or> 0xffffff8000000000 = topbits)"

definition UpdateSR64 :: "s64 \<Rightarrow> bool \<Rightarrow> bool \<Rightarrow> 'a SDSP_scheme \<Rightarrow> 'a SDSP_scheme" where
  "UpdateSR64 val carry overflow s =
     (let f = sr (regs s) AND NOT SR_CMP_MASK;
          f = (if carry then f OR SR_CARRY else f);
          f = (if overflow then f OR SR_OVERFLOW OR SR_OVERFLOW_STICKY else f);
          f = (if val = 0 then f OR SR_ARITH_ZERO else f);
          f = (if val <s 0 then f OR SR_SIGN else f);
          f = (if isOverS32 val then f OR SR_OVER_S32 else f);
          f = (if val AND 0xc0000000 = 0 \<or> val AND 0xc0000000 = 0xc0000000
               then f OR SR_TOP2BITS else f)
      in set_sr f s)"

definition UpdateSR64Add :: "s64 \<Rightarrow> s64 \<Rightarrow> s64 \<Rightarrow> 'a SDSP_scheme \<Rightarrow> 'a SDSP_scheme" where
  "UpdateSR64Add val1 val2 result s =
     UpdateSR64 result (isCarryAdd val1 result) (isOverflow val1 val2 result) s"

definition UpdateSR64Sub :: "s64 \<Rightarrow> s64 \<Rightarrow> s64 \<Rightarrow> 'a SDSP_scheme \<Rightarrow> 'a SDSP_scheme" where
  "UpdateSR64Sub val1 val2 result s =
     UpdateSR64 result (isCarrySubtract val1 result) (isOverflow val1 (- val2) result) s"

definition UpdateSRLogicZero :: "bool \<Rightarrow> 'a SDSP_scheme \<Rightarrow> 'a SDSP_scheme" where
  "UpdateSRLogicZero val s =
     (if val then set_sr (sr (regs s) OR SR_LOGIC_ZERO) s
      else set_sr (sr (regs s) AND NOT SR_LOGIC_ZERO) s)"

section \<open>Registers by number\<close>

definition read_acm :: "nat \<Rightarrow> 'a SDSP_scheme \<Rightarrow> u16" where
  "read_acm i s =
     (if IsSRFlagSet s SR_40_MODE_BIT
      then let acc = GetLongAcc i s in
           if acc \<noteq> scast (ucast acc :: s32) then if 0 <s acc then 0x7fff else 0x8000
           else ac_m (ac (regs s) i)
      else ac_m (ac (regs s) i))"

definition OpReadRegister :: "int \<Rightarrow> 'a SDSP_scheme \<Rightarrow> u16 \<times> 'a SDSP_scheme" where
  "OpReadRegister regno s =
     (let reg = regno AND 0x1f; r = regs s in
      if DSP_REG_ST0 \<le> reg \<and> reg \<le> DSP_REG_ST3 then
        PopStack (StackRegister_of (reg - DSP_REG_ST0)) s
      else if DSP_REG_AR0 \<le> reg \<and> reg \<le> DSP_REG_AR3 then (ar r (nat (reg - DSP_REG_AR0)), s)
      else if DSP_REG_IX0 \<le> reg \<and> reg \<le> DSP_REG_IX3 then (ix r (nat (reg - DSP_REG_IX0)), s)
      else if DSP_REG_WR0 \<le> reg \<and> reg \<le> DSP_REG_WR3 then (wr r (nat (reg - DSP_REG_WR0)), s)
      else if DSP_REG_ACH0 \<le> reg \<and> reg \<le> DSP_REG_ACH1 then
        (ucast (ac_h (ac r (nat (reg - DSP_REG_ACH0)))), s)
      else if reg = DSP_REG_CR then (cr r, s)
      else if reg = DSP_REG_SR then (sr r, s)
      else if reg = DSP_REG_PRODL then (prod_l (prod r), s)
      else if reg = DSP_REG_PRODM then (prod_m (prod r), s)
      else if reg = DSP_REG_PRODH then (prod_h (prod r), s)
      else if reg = DSP_REG_PRODM2 then (prod_m2 (prod r), s)
      else if DSP_REG_AXL0 \<le> reg \<and> reg \<le> DSP_REG_AXL1 then (ax_l (ax r (nat (reg - DSP_REG_AXL0))), s)
      else if DSP_REG_AXH0 \<le> reg \<and> reg \<le> DSP_REG_AXH1 then (ax_h (ax r (nat (reg - DSP_REG_AXH0))), s)
      else if DSP_REG_ACL0 \<le> reg \<and> reg \<le> DSP_REG_ACL1 then (ac_l (ac r (nat (reg - DSP_REG_ACL0))), s)
      else if DSP_REG_ACM0 \<le> reg \<and> reg \<le> DSP_REG_ACM1 then (read_acm (nat (reg - DSP_REG_ACM0)) s, s)
      else (0, s))"

definition OpWriteRegister :: "int \<Rightarrow> u16 \<Rightarrow> 'a SDSP_scheme \<Rightarrow> 'a SDSP_scheme" where
  "OpWriteRegister regno val s =
     (let reg = regno AND 0x1f in
      if DSP_REG_ACH0 \<le> reg \<and> reg \<le> DSP_REG_ACH1 then
        upd_ac (nat (reg - DSP_REG_ACH0)) (put_ac_h (scast (ucast val :: u8))) s
      else if DSP_REG_ST0 \<le> reg \<and> reg \<le> DSP_REG_ST3 then
        StoreStack (StackRegister_of (reg - DSP_REG_ST0)) val s
      else if DSP_REG_AR0 \<le> reg \<and> reg \<le> DSP_REG_AR3 then set_ar (nat (reg - DSP_REG_AR0)) val s
      else if DSP_REG_IX0 \<le> reg \<and> reg \<le> DSP_REG_IX3 then set_ix (nat (reg - DSP_REG_IX0)) val s
      else if DSP_REG_WR0 \<le> reg \<and> reg \<le> DSP_REG_WR3 then set_wr (nat (reg - DSP_REG_WR0)) val s
      else if reg = DSP_REG_CR then set_cr (val AND 0x00ff) s
      else if reg = DSP_REG_SR then set_sr (val AND NOT SR_100) s
      else if reg = DSP_REG_PRODL then upd_prod (put16 0 val) s
      else if reg = DSP_REG_PRODM then upd_prod (put16 16 val) s
      else if reg = DSP_REG_PRODH then upd_prod (put16 32 (val AND 0x00ff)) s
      else if reg = DSP_REG_PRODM2 then upd_prod (put16 48 val) s
      else if DSP_REG_AXL0 \<le> reg \<and> reg \<le> DSP_REG_AXL1 then
        upd_ax (nat (reg - DSP_REG_AXL0)) (put16 0 val) s
      else if DSP_REG_AXH0 \<le> reg \<and> reg \<le> DSP_REG_AXH1 then
        upd_ax (nat (reg - DSP_REG_AXH0)) (put16 16 val) s
      else if DSP_REG_ACL0 \<le> reg \<and> reg \<le> DSP_REG_ACL1 then
        upd_ac (nat (reg - DSP_REG_ACL0)) (put16 0 val) s
      else if DSP_REG_ACM0 \<le> reg \<and> reg \<le> DSP_REG_ACM1 then
        upd_ac (nat (reg - DSP_REG_ACM0)) (put16 16 val) s
      else s)"

definition ConditionalExtendAccum :: "int \<Rightarrow> 'a SDSP_scheme \<Rightarrow> 'a SDSP_scheme" where
  "ConditionalExtendAccum reg s =
     (if reg \<noteq> DSP_REG_ACM0 \<and> reg \<noteq> DSP_REG_ACM1 then s
      else if \<not> IsSRFlagSet s SR_40_MODE_BIT then s
      else let i = nat (reg - DSP_REG_ACM0);
               val = ac_m (ac (regs s) i);
               s = upd_ac i (put_ac_h (if val AND 0x8000 \<noteq> 0 then 0xFFFFFFFF else 0x0000)) s
           in upd_ac i (put16 0 0) s)"

section \<open>The write-back log\<close>

text \<open>
  The log has five entries; the register number -1 ends it.  \<open>ApplyWriteBackLog\<close> counts up to the
  end mark; \<open>n\<close> entries are left from index \<open>i\<close>, and reading past them is out of bounds.
\<close>

fun apply_log :: "nat \<Rightarrow> nat \<Rightarrow> 'a Interpreter_scheme \<Rightarrow> 'a Interpreter_scheme result" where
  "apply_log 0 i s = Inl OutOfBounds"
| "apply_log (Suc n) i s =
     (if m_write_back_log_idx s i = -1 then Inr s
      else let s = OpWriteRegister (m_write_back_log_idx s i) (m_write_back_log s i) s
           in apply_log n (Suc i) (s\<lparr>m_write_back_log_idx := (m_write_back_log_idx s)(i := -1)\<rparr>))"

definition ApplyWriteBackLog :: "'a Interpreter_scheme \<Rightarrow> 'a Interpreter_scheme result" where
  "ApplyWriteBackLog s = apply_log 5 0 s"

text \<open>\<open>PRECISE_BACKLOG\<close> is not defined: \<open>ZeroWriteBackLog\<close> does nothing.\<close>

definition ZeroWriteBackLog :: "'s \<Rightarrow> 's" where
  "ZeroWriteBackLog s = s"

definition ZeroWriteBackLogPreserveAcc :: "nat \<Rightarrow> 's \<Rightarrow> 's" where
  "ZeroWriteBackLogPreserveAcc acc s = s"

definition WriteToBackLog :: "nat \<Rightarrow> int \<Rightarrow> u16 \<Rightarrow> 'a Interpreter_scheme \<Rightarrow> 'a Interpreter_scheme" where
  "WriteToBackLog i idx val s =
     s\<lparr>m_write_back_log := (m_write_back_log s)(i := val),
       m_write_back_log_idx := (m_write_back_log_idx s)(i := idx)\<rparr>"

end
