(* ===== verification/Dsp_IntArithmetic.thy ===== *)
theory Dsp_IntArithmetic
  imports Dsp_Interp_Base
begin

text \<open>
  The arithmetic instructions (Source/Core/Core/DSP/Interpreter/DSPIntArithmetic.cpp): clearing and
  testing, comparisons, bitwise logic on the middle accumulator, addition and subtraction, moves
  and shifts.  \<open>UpdateSR64 v False False\<close> is a call with the default arguments.
\<close>

unbundle bit_operations_syntax

section \<open>Shared pieces\<close>

text \<open>The \<open>switch\<close> over \<open>$axS.l\<close> and \<open>$axS.h\<close> of \<open>addr\<close>, \<open>subr\<close> and \<open>movr\<close>; \<open>i\<close> is \<open>sreg - DSP_REG_AXL0\<close>.\<close>

definition ax_switch :: "nat \<Rightarrow> 'a SDSP_scheme \<Rightarrow> s64" where
  "ax_switch i s =
     (if i = 0 \<or> i = 1 then scast (ax_l (ax (regs s) i))
      else if i = 2 \<or> i = 3 then scast (ax_h (ax (regs s) (i - 2)))
      else 0)"

text \<open>The shift amount of the variable shifts: the low seven bits of a register, signed.\<close>

definition shift7 :: "u16 \<Rightarrow> int" where
  "shift7 a =
     (if a AND 0x3f = 0 then 0
      else if a AND 0x40 \<noteq> 0 then - 0x40 + uint (a AND 0x3f)
      else uint (a AND 0x3f))"

text \<open>The shift amount of \<open>lsr\<close> and \<open>asr\<close>.\<close>

definition shift_imm :: "u16 \<Rightarrow> nat" where
  "shift_imm opc = (if opc AND 0x3f = 0 then 0 else 0x40 - unat (opc AND 0x3f))"

abbreviation ACC_MASK :: u64 where "ACC_MASK \<equiv> 0x000000FFFFFFFFFF"

section \<open>Clear, test and compare\<close>

definition clr :: "u16 \<Rightarrow> 'a SDSP_scheme \<Rightarrow> 'a SDSP_scheme" where
  "clr opc s =
     (let reg = fld opc 11 0x1;
          s = SetLongAcc reg 0 s;
          s = UpdateSR64 0 False False s
      in ZeroWriteBackLog s)"

definition clrl :: "u16 \<Rightarrow> 'a SDSP_scheme \<Rightarrow> 'a SDSP_scheme" where
  "clrl opc s =
     (let reg = fld opc 8 0x1;
          acc = dsp_round_long_acc (GetLongAcc reg s);
          s = ZeroWriteBackLog s;
          s = SetLongAcc reg acc s
      in UpdateSR64 acc False False s)"

definition andcf :: "u16 \<Rightarrow> 'a SDSP_scheme \<Rightarrow> 'a SDSP_scheme" where
  "andcf opc s =
     (let reg = fld opc 8 0x1;
          (imm, s) = FetchInstruction s;
          val = GetAccMid reg s
      in UpdateSRLogicZero (val AND imm = imm) s)"

definition andf :: "u16 \<Rightarrow> 'a SDSP_scheme \<Rightarrow> 'a SDSP_scheme" where
  "andf opc s =
     (let reg = fld opc 8 0x1;
          (imm, s) = FetchInstruction s;
          val = GetAccMid reg s
      in UpdateSRLogicZero (val AND imm = 0) s)"

definition tst :: "u16 \<Rightarrow> 'a SDSP_scheme \<Rightarrow> 'a SDSP_scheme" where
  "tst opc s =
     (let reg = fld opc 11 0x1;
          acc = GetLongAcc reg s;
          s = UpdateSR64 acc False False s
      in ZeroWriteBackLog s)"

definition tstaxh :: "u16 \<Rightarrow> 'a SDSP_scheme \<Rightarrow> 'a SDSP_scheme" where
  "tstaxh opc s =
     (let reg = fld opc 8 0x1;
          val = GetAXHigh reg s;
          s = UpdateSR16 val False False False s
      in ZeroWriteBackLog s)"

definition cmp :: "u16 \<Rightarrow> 'a SDSP_scheme \<Rightarrow> 'a SDSP_scheme" where
  "cmp opc s =
     (let acc0 = GetLongAcc 0 s;
          acc1 = GetLongAcc 1 s;
          res = dsp_convert_long_acc (acc0 - acc1);
          s = UpdateSR64Sub acc0 acc1 res s
      in ZeroWriteBackLog s)"

definition cmpaxh :: "u16 \<Rightarrow> 'a SDSP_scheme \<Rightarrow> 'a SDSP_scheme" where
  "cmpaxh opc s =
     (let rreg = fld opc 12 0x1;
          sreg = fld opc 11 0x1;
          acc = GetLongAcc sreg s;
          a = scast (GetAXHigh rreg s);
          a = push_bit 16 a;
          res = dsp_convert_long_acc (acc - a);
          s = UpdateSR64Sub acc a res s
      in ZeroWriteBackLog s)"

definition cmpi :: "u16 \<Rightarrow> 'a SDSP_scheme \<Rightarrow> 'a SDSP_scheme" where
  "cmpi opc s =
     (let reg = fld opc 8 0x1;
          val = GetLongAcc reg s;
          (w, s) = FetchInstruction s;
          imm = push_bit 16 (scast w);
          res = dsp_convert_long_acc (val - imm)
      in UpdateSR64Sub val imm res s)"

definition cmpis :: "u16 \<Rightarrow> 'a SDSP_scheme \<Rightarrow> 'a SDSP_scheme" where
  "cmpis opc s =
     (let areg = fld opc 8 0x1;
          acc = GetLongAcc areg s;
          imm = push_bit 16 (scast (ucast opc :: u8));
          res = dsp_convert_long_acc (acc - imm)
      in UpdateSR64Sub acc imm res s)"

section \<open>Bitwise logic on the middle accumulator\<close>

definition xorr :: "u16 \<Rightarrow> 'a SDSP_scheme \<Rightarrow> 'a SDSP_scheme" where
  "xorr opc s =
     (let dreg = fld opc 8 0x1;
          sreg = fld opc 9 0x1;
          accm = ac_m (ac (regs s) dreg) XOR ax_h (ax (regs s) sreg);
          s = ZeroWriteBackLogPreserveAcc dreg s;
          s = upd_ac dreg (put16 16 accm) s
      in UpdateSR16 accm False False (isOverS32 (GetLongAcc dreg s)) s)"

definition andr :: "u16 \<Rightarrow> 'a SDSP_scheme \<Rightarrow> 'a SDSP_scheme" where
  "andr opc s =
     (let dreg = fld opc 8 0x1;
          sreg = fld opc 9 0x1;
          accm = ac_m (ac (regs s) dreg) AND ax_h (ax (regs s) sreg);
          s = ZeroWriteBackLogPreserveAcc dreg s;
          s = upd_ac dreg (put16 16 accm) s
      in UpdateSR16 accm False False (isOverS32 (GetLongAcc dreg s)) s)"

definition orr :: "u16 \<Rightarrow> 'a SDSP_scheme \<Rightarrow> 'a SDSP_scheme" where
  "orr opc s =
     (let dreg = fld opc 8 0x1;
          sreg = fld opc 9 0x1;
          accm = ac_m (ac (regs s) dreg) OR ax_h (ax (regs s) sreg);
          s = ZeroWriteBackLogPreserveAcc dreg s;
          s = upd_ac dreg (put16 16 accm) s
      in UpdateSR16 accm False False (isOverS32 (GetLongAcc dreg s)) s)"

definition andc :: "u16 \<Rightarrow> 'a SDSP_scheme \<Rightarrow> 'a SDSP_scheme" where
  "andc opc s =
     (let dreg = fld opc 8 0x1;
          accm = ac_m (ac (regs s) dreg) AND ac_m (ac (regs s) (1 - dreg));
          s = ZeroWriteBackLogPreserveAcc dreg s;
          s = upd_ac dreg (put16 16 accm) s
      in UpdateSR16 accm False False (isOverS32 (GetLongAcc dreg s)) s)"

definition orc :: "u16 \<Rightarrow> 'a SDSP_scheme \<Rightarrow> 'a SDSP_scheme" where
  "orc opc s =
     (let dreg = fld opc 8 0x1;
          accm = ac_m (ac (regs s) dreg) OR ac_m (ac (regs s) (1 - dreg));
          s = ZeroWriteBackLogPreserveAcc dreg s;
          s = upd_ac dreg (put16 16 accm) s
      in UpdateSR16 accm False False (isOverS32 (GetLongAcc dreg s)) s)"

definition xorc :: "u16 \<Rightarrow> 'a SDSP_scheme \<Rightarrow> 'a SDSP_scheme" where
  "xorc opc s =
     (let dreg = fld opc 8 0x1;
          accm = ac_m (ac (regs s) dreg) XOR ac_m (ac (regs s) (1 - dreg));
          s = ZeroWriteBackLogPreserveAcc dreg s;
          s = upd_ac dreg (put16 16 accm) s
      in UpdateSR16 accm False False (isOverS32 (GetLongAcc dreg s)) s)"

definition notc :: "u16 \<Rightarrow> 'a SDSP_scheme \<Rightarrow> 'a SDSP_scheme" where
  "notc opc s =
     (let dreg = fld opc 8 0x1;
          accm = ac_m (ac (regs s) dreg) XOR 0xffff;
          s = ZeroWriteBackLogPreserveAcc dreg s;
          s = upd_ac dreg (put16 16 accm) s
      in UpdateSR16 accm False False (isOverS32 (GetLongAcc dreg s)) s)"

definition xori :: "u16 \<Rightarrow> 'a SDSP_scheme \<Rightarrow> 'a SDSP_scheme" where
  "xori opc s =
     (let reg = fld opc 8 0x1;
          (imm, s) = FetchInstruction s;
          s = upd_ac reg (put16 16 (ac_m (ac (regs s) reg) XOR imm)) s
      in UpdateSR16 (ac_m (ac (regs s) reg)) False False (isOverS32 (GetLongAcc reg s)) s)"

definition andi :: "u16 \<Rightarrow> 'a SDSP_scheme \<Rightarrow> 'a SDSP_scheme" where
  "andi opc s =
     (let reg = fld opc 8 0x1;
          (imm, s) = FetchInstruction s;
          s = upd_ac reg (put16 16 (ac_m (ac (regs s) reg) AND imm)) s
      in UpdateSR16 (ac_m (ac (regs s) reg)) False False (isOverS32 (GetLongAcc reg s)) s)"

definition ori :: "u16 \<Rightarrow> 'a SDSP_scheme \<Rightarrow> 'a SDSP_scheme" where
  "ori opc s =
     (let reg = fld opc 8 0x1;
          (imm, s) = FetchInstruction s;
          s = upd_ac reg (put16 16 (ac_m (ac (regs s) reg) OR imm)) s
      in UpdateSR16 (ac_m (ac (regs s) reg)) False False (isOverS32 (GetLongAcc reg s)) s)"

section \<open>Addition\<close>

definition addr :: "u16 \<Rightarrow> 'a SDSP_scheme \<Rightarrow> 'a SDSP_scheme" where
  "addr opc s =
     (let dreg = fld opc 8 0x1;
          sreg = fld opc 9 0x3;
          acc = GetLongAcc dreg s;
          a = push_bit 16 (ax_switch sreg s);
          res = acc + a;
          s = ZeroWriteBackLog s;
          s = SetLongAcc dreg res s
      in UpdateSR64Add acc a (GetLongAcc dreg s) s)"

definition addax :: "u16 \<Rightarrow> 'a SDSP_scheme \<Rightarrow> 'a SDSP_scheme" where
  "addax opc s =
     (let dreg = fld opc 8 0x1;
          sreg = fld opc 9 0x1;
          acc = GetLongAcc dreg s;
          a = scast (GetLongACX sreg s);
          res = acc + a;
          s = ZeroWriteBackLog s;
          s = SetLongAcc dreg res s
      in UpdateSR64Add acc a (GetLongAcc dreg s) s)"

definition add :: "u16 \<Rightarrow> 'a SDSP_scheme \<Rightarrow> 'a SDSP_scheme" where
  "add opc s =
     (let dreg = fld opc 8 0x1;
          acc = GetLongAcc dreg s;
          a = GetLongAcc (1 - dreg) s;
          res = acc + a;
          s = ZeroWriteBackLog s;
          s = SetLongAcc dreg res s
      in UpdateSR64Add acc a (GetLongAcc dreg s) s)"

definition addp :: "u16 \<Rightarrow> 'a SDSP_scheme \<Rightarrow> 'a SDSP_scheme" where
  "addp opc s =
     (let dreg = fld opc 8 0x1;
          acc = GetLongAcc dreg s;
          a = GetLongProduct s;
          res = acc + a;
          s = ZeroWriteBackLog s;
          s = SetLongAcc dreg res s
      in UpdateSR64Add acc a (GetLongAcc dreg s) s)"

definition addaxl :: "u16 \<Rightarrow> 'a SDSP_scheme \<Rightarrow> 'a SDSP_scheme" where
  "addaxl opc s =
     (let dreg = fld opc 8 0x1;
          sreg = fld opc 9 0x1;
          acc = GetLongAcc dreg s;
          a = ucast (GetAXLow sreg s);
          res = acc + a;
          s = ZeroWriteBackLog s;
          s = SetLongAcc dreg res s
      in UpdateSR64Add acc a (GetLongAcc dreg s) s)"

definition addi :: "u16 \<Rightarrow> 'a SDSP_scheme \<Rightarrow> 'a SDSP_scheme" where
  "addi opc s =
     (let areg = fld opc 8 0x1;
          acc = GetLongAcc areg s;
          (w, s) = FetchInstruction s;
          a = push_bit 16 (scast w);
          res = acc + a;
          s = SetLongAcc areg res s
      in UpdateSR64Add acc a (GetLongAcc areg s) s)"

definition addis :: "u16 \<Rightarrow> 'a SDSP_scheme \<Rightarrow> 'a SDSP_scheme" where
  "addis opc s =
     (let dreg = fld opc 8 0x1;
          acc = GetLongAcc dreg s;
          a = push_bit 16 (scast (ucast opc :: u8));
          res = acc + a;
          s = SetLongAcc dreg res s
      in UpdateSR64Add acc a (GetLongAcc dreg s) s)"

definition incm :: "u16 \<Rightarrow> 'a SDSP_scheme \<Rightarrow> 'a SDSP_scheme" where
  "incm opc s =
     (let dreg = fld opc 8 0x1;
          acc = GetLongAcc dreg s;
          a = 0x10000;
          res = acc + a;
          s = ZeroWriteBackLog s;
          s = SetLongAcc dreg res s
      in UpdateSR64Add acc a (GetLongAcc dreg s) s)"

definition inc :: "u16 \<Rightarrow> 'a SDSP_scheme \<Rightarrow> 'a SDSP_scheme" where
  "inc opc s =
     (let dreg = fld opc 8 0x1;
          acc = GetLongAcc dreg s;
          a = 1;
          res = acc + a;
          s = ZeroWriteBackLog s;
          s = SetLongAcc dreg res s
      in UpdateSR64Add acc a (GetLongAcc dreg s) s)"

section \<open>Subtraction\<close>

definition subr :: "u16 \<Rightarrow> 'a SDSP_scheme \<Rightarrow> 'a SDSP_scheme" where
  "subr opc s =
     (let dreg = fld opc 8 0x1;
          sreg = fld opc 9 0x3;
          acc = GetLongAcc dreg s;
          a = push_bit 16 (ax_switch sreg s);
          res = acc - a;
          s = ZeroWriteBackLog s;
          s = SetLongAcc dreg res s
      in UpdateSR64Sub acc a (GetLongAcc dreg s) s)"

definition subax :: "u16 \<Rightarrow> 'a SDSP_scheme \<Rightarrow> 'a SDSP_scheme" where
  "subax opc s =
     (let dreg = fld opc 8 0x1;
          sreg = fld opc 9 0x1;
          acc = GetLongAcc dreg s;
          a = scast (GetLongACX sreg s);
          res = acc - a;
          s = ZeroWriteBackLog s;
          s = SetLongAcc dreg res s
      in UpdateSR64Sub acc a (GetLongAcc dreg s) s)"

definition sub :: "u16 \<Rightarrow> 'a SDSP_scheme \<Rightarrow> 'a SDSP_scheme" where
  "sub opc s =
     (let dreg = fld opc 8 0x1;
          acc = GetLongAcc dreg s;
          a = GetLongAcc (1 - dreg) s;
          res = acc - a;
          s = ZeroWriteBackLog s;
          s = SetLongAcc dreg res s
      in UpdateSR64Sub acc a (GetLongAcc dreg s) s)"

definition subp :: "u16 \<Rightarrow> 'a SDSP_scheme \<Rightarrow> 'a SDSP_scheme" where
  "subp opc s =
     (let dreg = fld opc 8 0x1;
          acc = GetLongAcc dreg s;
          a = GetLongProduct s;
          res = acc - a;
          s = ZeroWriteBackLog s;
          s = SetLongAcc dreg res s
      in UpdateSR64Sub acc a (GetLongAcc dreg s) s)"

definition decm :: "u16 \<Rightarrow> 'a SDSP_scheme \<Rightarrow> 'a SDSP_scheme" where
  "decm opc s =
     (let dreg = fld opc 8 0x1;
          acc = GetLongAcc dreg s;
          a = 0x10000;
          res = acc - a;
          s = ZeroWriteBackLog s;
          s = SetLongAcc dreg res s
      in UpdateSR64Sub acc a (GetLongAcc dreg s) s)"

definition dec :: "u16 \<Rightarrow> 'a SDSP_scheme \<Rightarrow> 'a SDSP_scheme" where
  "dec opc s =
     (let dreg = fld opc 8 0x1;
          acc = GetLongAcc dreg s;
          a = 1;
          res = acc - a;
          s = ZeroWriteBackLog s;
          s = SetLongAcc dreg res s
      in UpdateSR64Sub acc a (GetLongAcc dreg s) s)"

definition neg :: "u16 \<Rightarrow> 'a SDSP_scheme \<Rightarrow> 'a SDSP_scheme" where
  "neg opc s =
     (let dreg = fld opc 8 0x1;
          acc = GetLongAcc dreg s;
          res = 0 - acc;
          s = ZeroWriteBackLog s;
          s = SetLongAcc dreg res s
      in UpdateSR64Sub 0 acc (GetLongAcc dreg s) s)"

definition abs_op :: "u16 \<Rightarrow> 'a SDSP_scheme \<Rightarrow> 'a SDSP_scheme" where
  "abs_op opc s =
     (let dreg = fld opc 11 0x1;
          acc = GetLongAcc dreg s;
          acc = (if acc <s 0 then 0 - acc else acc);
          s = ZeroWriteBackLog s;
          s = SetLongAcc dreg acc s
      in UpdateSR64 (GetLongAcc dreg s) False False s)"

section \<open>Moves\<close>

definition movr :: "u16 \<Rightarrow> 'a SDSP_scheme \<Rightarrow> 'a SDSP_scheme" where
  "movr opc s =
     (let areg = fld opc 8 0x1;
          sreg = fld opc 9 0x3;
          a = push_bit 16 (ax_switch sreg s);
          s = ZeroWriteBackLog s;
          s = SetLongAcc areg a s
      in UpdateSR64 a False False s)"

definition movax :: "u16 \<Rightarrow> 'a SDSP_scheme \<Rightarrow> 'a SDSP_scheme" where
  "movax opc s =
     (let dreg = fld opc 8 0x1;
          sreg = fld opc 9 0x1;
          acx = scast (GetLongACX sreg s);
          s = ZeroWriteBackLog s;
          s = SetLongAcc dreg acx s
      in UpdateSR64 acx False False s)"

definition mov :: "u16 \<Rightarrow> 'a SDSP_scheme \<Rightarrow> 'a SDSP_scheme" where
  "mov opc s =
     (let dreg = fld opc 8 0x1;
          acc = GetLongAcc (1 - dreg) s;
          s = ZeroWriteBackLog s;
          s = SetLongAcc dreg acc s
      in UpdateSR64 acc False False s)"

section \<open>Shifts\<close>

definition lsl16 :: "u16 \<Rightarrow> 'a SDSP_scheme \<Rightarrow> 'a SDSP_scheme" where
  "lsl16 opc s =
     (let areg = fld opc 8 0x1;
          acc = GetLongAcc areg s;
          acc = push_bit 16 acc;
          s = ZeroWriteBackLog s;
          s = SetLongAcc areg acc s
      in UpdateSR64 (GetLongAcc areg s) False False s)"

definition lsr16 :: "u16 \<Rightarrow> 'a SDSP_scheme \<Rightarrow> 'a SDSP_scheme" where
  "lsr16 opc s =
     (let areg = fld opc 8 0x1;
          acc = GetLongAcc areg s;
          acc = acc AND ACC_MASK;
          acc = drop_bit 16 acc;
          s = ZeroWriteBackLog s;
          s = SetLongAcc areg acc s
      in UpdateSR64 (GetLongAcc areg s) False False s)"

definition asr16 :: "u16 \<Rightarrow> 'a SDSP_scheme \<Rightarrow> 'a SDSP_scheme" where
  "asr16 opc s =
     (let areg = fld opc 11 0x1;
          acc = GetLongAcc areg s;
          acc = signed_drop_bit 16 acc;
          s = ZeroWriteBackLog s;
          s = SetLongAcc areg acc s
      in UpdateSR64 (GetLongAcc areg s) False False s)"

definition lsl :: "u16 \<Rightarrow> 'a SDSP_scheme \<Rightarrow> 'a SDSP_scheme" where
  "lsl opc s =
     (let rreg = fld opc 8 0x01;
          shift = unat (opc AND 0x3f);
          acc = GetLongAcc rreg s;
          acc = push_bit shift acc;
          s = SetLongAcc rreg acc s
      in UpdateSR64 (GetLongAcc rreg s) False False s)"

definition lsr :: "u16 \<Rightarrow> 'a SDSP_scheme \<Rightarrow> 'a SDSP_scheme" where
  "lsr opc s =
     (let rreg = fld opc 8 0x01;
          shift = shift_imm opc;
          acc = GetLongAcc rreg s;
          acc = acc AND ACC_MASK;
          acc = drop_bit shift acc;
          s = SetLongAcc rreg acc s
      in UpdateSR64 (GetLongAcc rreg s) False False s)"

definition asl :: "u16 \<Rightarrow> 'a SDSP_scheme \<Rightarrow> 'a SDSP_scheme" where
  "asl opc s =
     (let rreg = fld opc 8 0x01;
          shift = unat (opc AND 0x3f);
          acc = GetLongAcc rreg s;
          acc = push_bit shift acc;
          s = SetLongAcc rreg acc s
      in UpdateSR64 (GetLongAcc rreg s) False False s)"

definition asr :: "u16 \<Rightarrow> 'a SDSP_scheme \<Rightarrow> 'a SDSP_scheme" where
  "asr opc s =
     (let dreg = fld opc 8 0x01;
          shift = shift_imm opc;
          acc = GetLongAcc dreg s;
          acc = signed_drop_bit shift acc;
          s = SetLongAcc dreg acc s
      in UpdateSR64 (GetLongAcc dreg s) False False s)"

definition lsrn :: "u16 \<Rightarrow> 'a SDSP_scheme \<Rightarrow> 'a SDSP_scheme" where
  "lsrn opc s =
     (let shift = shift7 (GetAccMid 1 s);
          acc = GetLongAcc 0 s;
          acc = acc AND ACC_MASK;
          acc = (if shift > 0 then drop_bit (nat shift) acc
                 else if shift < 0 then push_bit (nat (- shift)) acc
                 else acc);
          s = SetLongAcc 0 acc s
      in UpdateSR64 (GetLongAcc 0 s) False False s)"

definition asrn :: "u16 \<Rightarrow> 'a SDSP_scheme \<Rightarrow> 'a SDSP_scheme" where
  "asrn opc s =
     (let shift = shift7 (GetAccMid 1 s);
          acc = GetLongAcc 0 s;
          acc = (if shift > 0 then signed_drop_bit (nat shift) acc
                 else if shift < 0 then push_bit (nat (- shift)) acc
                 else acc);
          s = SetLongAcc 0 acc s
      in UpdateSR64 (GetLongAcc 0 s) False False s)"

definition lsrnrx :: "u16 \<Rightarrow> 'a SDSP_scheme \<Rightarrow> 'a SDSP_scheme" where
  "lsrnrx opc s =
     (let dreg = fld opc 8 0x1;
          sreg = fld opc 9 0x1;
          shift = shift7 (ax_h (ax (regs s) sreg));
          acc = GetLongAcc dreg s;
          acc = acc AND ACC_MASK;
          acc = (if shift > 0 then push_bit (nat shift) acc
                 else if shift < 0 then drop_bit (nat (- shift)) acc
                 else acc);
          s = ZeroWriteBackLog s;
          s = SetLongAcc dreg acc s
      in UpdateSR64 (GetLongAcc dreg s) False False s)"

definition asrnrx :: "u16 \<Rightarrow> 'a SDSP_scheme \<Rightarrow> 'a SDSP_scheme" where
  "asrnrx opc s =
     (let dreg = fld opc 8 0x1;
          sreg = fld opc 9 0x1;
          shift = shift7 (ax_h (ax (regs s) sreg));
          acc = GetLongAcc dreg s;
          acc = (if shift > 0 then push_bit (nat shift) acc
                 else if shift < 0 then signed_drop_bit (nat (- shift)) acc
                 else acc);
          s = ZeroWriteBackLog s;
          s = SetLongAcc dreg acc s
      in UpdateSR64 (GetLongAcc dreg s) False False s)"

definition lsrnr :: "u16 \<Rightarrow> 'a SDSP_scheme \<Rightarrow> 'a SDSP_scheme" where
  "lsrnr opc s =
     (let dreg = fld opc 8 0x1;
          shift = shift7 (GetAccMid (1 - dreg) s);
          acc = GetLongAcc dreg s;
          acc = acc AND ACC_MASK;
          acc = (if shift > 0 then push_bit (nat shift) acc
                 else if shift < 0 then drop_bit (nat (- shift)) acc
                 else acc);
          s = ZeroWriteBackLog s;
          s = SetLongAcc dreg acc s
      in UpdateSR64 (GetLongAcc dreg s) False False s)"

definition asrnr :: "u16 \<Rightarrow> 'a SDSP_scheme \<Rightarrow> 'a SDSP_scheme" where
  "asrnr opc s =
     (let dreg = fld opc 8 0x1;
          shift = shift7 (GetAccMid (1 - dreg) s);
          acc = GetLongAcc dreg s;
          acc = (if shift > 0 then push_bit (nat shift) acc
                 else if shift < 0 then signed_drop_bit (nat (- shift)) acc
                 else acc);
          s = ZeroWriteBackLog s;
          s = SetLongAcc dreg acc s
      in UpdateSR64 (GetLongAcc dreg s) False False s)"

end
