(* ===== verification/Dsp_IntMultiplier.thy ===== *)
theory Dsp_IntMultiplier
  imports Dsp_Interp_Base
begin

text \<open>
  The multiply instructions (Source/Core/Core/DSP/Interpreter/DSPIntMultiplier.cpp): moving and
  testing the product register, and multiplications that replace it or accumulate into it.
\<close>

unbundle bit_operations_syntax

section \<open>The product register\<close>

text \<open>The operand of \<open>mulx\<close> and its relatives: low or high part of \<open>$ax0\<close> or \<open>$ax1\<close>.\<close>

definition ax_part :: "nat \<Rightarrow> nat \<Rightarrow> 'a SDSP_scheme \<Rightarrow> u16" where
  "ax_part part i s = (if part = 0 then GetAXLow i s else GetAXHigh i s)"

definition clrp :: "u16 \<Rightarrow> 'a SDSP_scheme \<Rightarrow> 'a SDSP_scheme" where
  "clrp opc s =
     (let s = ZeroWriteBackLog s;
          s = upd_prod (put16 0 0x0000) s;
          s = upd_prod (put16 16 0xfff0) s;
          s = upd_prod (put16 32 0x00ff) s
      in upd_prod (put16 48 0x0010) s)"

definition tstprod :: "u16 \<Rightarrow> 'a SDSP_scheme \<Rightarrow> 'a SDSP_scheme" where
  "tstprod opc s =
     (let p = GetLongProduct s;
          s = UpdateSR64 p False False s
      in ZeroWriteBackLog s)"

definition movp :: "u16 \<Rightarrow> 'a SDSP_scheme \<Rightarrow> 'a SDSP_scheme" where
  "movp opc s =
     (let dreg = fld opc 8 0x1;
          acc = GetLongProduct s;
          s = ZeroWriteBackLog s;
          s = SetLongAcc dreg acc s
      in UpdateSR64 acc False False s)"

definition movnp :: "u16 \<Rightarrow> 'a SDSP_scheme \<Rightarrow> 'a SDSP_scheme" where
  "movnp opc s =
     (let dreg = fld opc 8 0x1;
          acc = - GetLongProduct s;
          s = ZeroWriteBackLog s;
          s = SetLongAcc dreg acc s
      in UpdateSR64 acc False False s)"

definition movpz :: "u16 \<Rightarrow> 'a SDSP_scheme \<Rightarrow> 'a SDSP_scheme" where
  "movpz opc s =
     (let dreg = fld opc 8 0x1;
          acc = GetLongProductRounded s;
          s = ZeroWriteBackLog s;
          s = SetLongAcc dreg acc s
      in UpdateSR64 acc False False s)"

definition addpaxz :: "u16 \<Rightarrow> 'a SDSP_scheme \<Rightarrow> 'a SDSP_scheme" where
  "addpaxz opc s =
     (let dreg = fld opc 8 0x1;
          sreg = fld opc 9 0x1;
          oldprod = GetLongProduct s;
          p = GetLongProductRounded s;
          a = scast (GetLongACX sreg s) :: s64;
          res = p + (a AND NOT 0xffff);
          s = ZeroWriteBackLog s;
          s = SetLongAcc dreg res s;
          res = GetLongAcc dreg s
      in UpdateSR64 res (isCarryAdd oldprod res) False s)"

section \<open>Multiplications that replace the product\<close>

definition mulaxh :: "u16 \<Rightarrow> 'a SDSP_scheme \<Rightarrow> 'a SDSP_scheme" where
  "mulaxh opc s =
     (let val = GetAXHigh 0 s;
          p = Multiply val val 0 s;
          s = ZeroWriteBackLog s
      in SetLongProduct p s)"

definition mul :: "u16 \<Rightarrow> 'a SDSP_scheme \<Rightarrow> 'a SDSP_scheme" where
  "mul opc s =
     (let sreg = fld opc 11 0x1;
          axl = GetAXLow sreg s;
          axh = GetAXHigh sreg s;
          p = Multiply axh axl 0 s;
          s = ZeroWriteBackLog s
      in SetLongProduct p s)"

definition mulac :: "u16 \<Rightarrow> 'a SDSP_scheme \<Rightarrow> 'a SDSP_scheme" where
  "mulac opc s =
     (let rreg = fld opc 8 0x1;
          sreg = fld opc 11 0x1;
          acc = GetLongAcc rreg s + GetLongProduct s;
          axl = GetAXLow sreg s;
          axh = GetAXHigh sreg s;
          p = Multiply axl axh 0 s;
          s = ZeroWriteBackLog s;
          s = SetLongProduct p s;
          s = SetLongAcc rreg acc s
      in UpdateSR64 (GetLongAcc rreg s) False False s)"

definition mulmv :: "u16 \<Rightarrow> 'a SDSP_scheme \<Rightarrow> 'a SDSP_scheme" where
  "mulmv opc s =
     (let rreg = fld opc 8 0x1;
          sreg = fld opc 11 0x1;
          acc = GetLongProduct s;
          axl = GetAXLow sreg s;
          axh = GetAXHigh sreg s;
          p = Multiply axl axh 0 s;
          s = ZeroWriteBackLog s;
          s = SetLongProduct p s;
          s = SetLongAcc rreg acc s
      in UpdateSR64 (GetLongAcc rreg s) False False s)"

definition mulmvz :: "u16 \<Rightarrow> 'a SDSP_scheme \<Rightarrow> 'a SDSP_scheme" where
  "mulmvz opc s =
     (let rreg = fld opc 8 0x1;
          sreg = fld opc 11 0x1;
          acc = GetLongProductRounded s;
          axl = GetAXLow sreg s;
          axh = GetAXHigh sreg s;
          p = Multiply axl axh 0 s;
          s = ZeroWriteBackLog s;
          s = SetLongProduct p s;
          s = SetLongAcc rreg acc s
      in UpdateSR64 (GetLongAcc rreg s) False False s)"

definition mulx :: "u16 \<Rightarrow> 'a SDSP_scheme \<Rightarrow> 'a SDSP_scheme" where
  "mulx opc s =
     (let treg = fld opc 11 0x1;
          sreg = fld opc 12 0x1;
          val1 = ax_part sreg 0 s;
          val2 = ax_part treg 1 s;
          p = MultiplyMulX sreg treg val1 val2 s;
          s = ZeroWriteBackLog s
      in SetLongProduct p s)"

definition mulxac :: "u16 \<Rightarrow> 'a SDSP_scheme \<Rightarrow> 'a SDSP_scheme" where
  "mulxac opc s =
     (let rreg = fld opc 8 0x1;
          treg = fld opc 11 0x1;
          sreg = fld opc 12 0x1;
          acc = GetLongAcc rreg s + GetLongProduct s;
          val1 = ax_part sreg 0 s;
          val2 = ax_part treg 1 s;
          p = MultiplyMulX sreg treg val1 val2 s;
          s = ZeroWriteBackLog s;
          s = SetLongProduct p s;
          s = SetLongAcc rreg acc s
      in UpdateSR64 (GetLongAcc rreg s) False False s)"

definition mulxmv :: "u16 \<Rightarrow> 'a SDSP_scheme \<Rightarrow> 'a SDSP_scheme" where
  "mulxmv opc s =
     (let rreg = fld opc 8 0x1;
          treg = fld opc 11 0x1;
          sreg = fld opc 12 0x1;
          acc = GetLongProduct s;
          val1 = ax_part sreg 0 s;
          val2 = ax_part treg 1 s;
          p = MultiplyMulX sreg treg val1 val2 s;
          s = ZeroWriteBackLog s;
          s = SetLongProduct p s;
          s = SetLongAcc rreg acc s
      in UpdateSR64 (GetLongAcc rreg s) False False s)"

definition mulxmvz :: "u16 \<Rightarrow> 'a SDSP_scheme \<Rightarrow> 'a SDSP_scheme" where
  "mulxmvz opc s =
     (let rreg = fld opc 8 0x1;
          treg = fld opc 11 0x1;
          sreg = fld opc 12 0x1;
          acc = GetLongProductRounded s;
          val1 = ax_part sreg 0 s;
          val2 = ax_part treg 1 s;
          p = MultiplyMulX sreg treg val1 val2 s;
          s = ZeroWriteBackLog s;
          s = SetLongProduct p s;
          s = SetLongAcc rreg acc s
      in UpdateSR64 (GetLongAcc rreg s) False False s)"

definition mulc :: "u16 \<Rightarrow> 'a SDSP_scheme \<Rightarrow> 'a SDSP_scheme" where
  "mulc opc s =
     (let treg = fld opc 11 0x1;
          sreg = fld opc 12 0x1;
          accm = GetAccMid sreg s;
          axh = GetAXHigh treg s;
          p = Multiply accm axh 0 s;
          s = ZeroWriteBackLog s
      in SetLongProduct p s)"

definition mulcac :: "u16 \<Rightarrow> 'a SDSP_scheme \<Rightarrow> 'a SDSP_scheme" where
  "mulcac opc s =
     (let rreg = fld opc 8 0x1;
          treg = fld opc 11 0x1;
          sreg = fld opc 12 0x1;
          acc = GetLongAcc rreg s + GetLongProduct s;
          accm = GetAccMid sreg s;
          axh = GetAXHigh treg s;
          p = Multiply accm axh 0 s;
          s = ZeroWriteBackLog s;
          s = SetLongProduct p s;
          s = SetLongAcc rreg acc s
      in UpdateSR64 (GetLongAcc rreg s) False False s)"

definition mulcmv :: "u16 \<Rightarrow> 'a SDSP_scheme \<Rightarrow> 'a SDSP_scheme" where
  "mulcmv opc s =
     (let rreg = fld opc 8 0x1;
          treg = fld opc 11 0x1;
          sreg = fld opc 12 0x1;
          acc = GetLongProduct s;
          accm = GetAccMid sreg s;
          axh = GetAXHigh treg s;
          p = Multiply accm axh 0 s;
          s = ZeroWriteBackLog s;
          s = SetLongProduct p s;
          s = SetLongAcc rreg acc s
      in UpdateSR64 (GetLongAcc rreg s) False False s)"

definition mulcmvz :: "u16 \<Rightarrow> 'a SDSP_scheme \<Rightarrow> 'a SDSP_scheme" where
  "mulcmvz opc s =
     (let rreg = fld opc 8 0x1;
          treg = fld opc 11 0x1;
          sreg = fld opc 12 0x1;
          acc = GetLongProductRounded s;
          accm = GetAccMid sreg s;
          axh = GetAXHigh treg s;
          p = Multiply accm axh 0 s;
          s = ZeroWriteBackLog s;
          s = SetLongProduct p s;
          s = SetLongAcc rreg acc s
      in UpdateSR64 (GetLongAcc rreg s) False False s)"

section \<open>Multiplications that accumulate\<close>

definition maddx :: "u16 \<Rightarrow> 'a SDSP_scheme \<Rightarrow> 'a SDSP_scheme" where
  "maddx opc s =
     (let treg = fld opc 8 0x1;
          sreg = fld opc 9 0x1;
          val1 = ax_part sreg 0 s;
          val2 = ax_part treg 1 s;
          p = MultiplyAdd val1 val2 0 s;
          s = ZeroWriteBackLog s
      in SetLongProduct p s)"

definition msubx :: "u16 \<Rightarrow> 'a SDSP_scheme \<Rightarrow> 'a SDSP_scheme" where
  "msubx opc s =
     (let treg = fld opc 8 0x1;
          sreg = fld opc 9 0x1;
          val1 = ax_part sreg 0 s;
          val2 = ax_part treg 1 s;
          p = MultiplySub val1 val2 0 s;
          s = ZeroWriteBackLog s
      in SetLongProduct p s)"

definition maddc :: "u16 \<Rightarrow> 'a SDSP_scheme \<Rightarrow> 'a SDSP_scheme" where
  "maddc opc s =
     (let treg = fld opc 8 0x1;
          sreg = fld opc 9 0x1;
          accm = GetAccMid sreg s;
          axh = GetAXHigh treg s;
          p = MultiplyAdd accm axh 0 s;
          s = ZeroWriteBackLog s
      in SetLongProduct p s)"

definition msubc :: "u16 \<Rightarrow> 'a SDSP_scheme \<Rightarrow> 'a SDSP_scheme" where
  "msubc opc s =
     (let treg = fld opc 8 0x1;
          sreg = fld opc 9 0x1;
          accm = GetAccMid sreg s;
          axh = GetAXHigh treg s;
          p = MultiplySub accm axh 0 s;
          s = ZeroWriteBackLog s
      in SetLongProduct p s)"

definition madd :: "u16 \<Rightarrow> 'a SDSP_scheme \<Rightarrow> 'a SDSP_scheme" where
  "madd opc s =
     (let sreg = fld opc 8 0x1;
          axl = GetAXLow sreg s;
          axh = GetAXHigh sreg s;
          p = MultiplyAdd axl axh 0 s;
          s = ZeroWriteBackLog s
      in SetLongProduct p s)"

definition msub :: "u16 \<Rightarrow> 'a SDSP_scheme \<Rightarrow> 'a SDSP_scheme" where
  "msub opc s =
     (let sreg = fld opc 8 0x1;
          axl = GetAXLow sreg s;
          axh = GetAXHigh sreg s;
          p = MultiplySub axl axh 0 s;
          s = ZeroWriteBackLog s
      in SetLongProduct p s)"

end
