(* ===== verification/Dsp_IntBranch.thy ===== *)
theory Dsp_IntBranch
  imports Dsp_Interp_Base
begin

text \<open>
  Branches, returns and hardware loops (Source/Core/Core/DSP/Interpreter/DSPIntBranch.cpp).  An
  instruction is a function of the opcode word and the state after the word was fetched.
\<close>

unbundle bit_operations_syntax

section \<open>Calls, jumps and returns\<close>

definition call :: "u16 \<Rightarrow> 'a SDSP_scheme \<Rightarrow> 'a SDSP_scheme" where
  "call opc s =
     (let (dest, s) = FetchInstruction s
      in if CheckCondition s (ucast (opc AND 0xf))
         then let s = StoreStack Call (pc s) s in s\<lparr>pc := dest\<rparr>
         else s)"

definition callr :: "u16 \<Rightarrow> 'a SDSP_scheme \<Rightarrow> 'a SDSP_scheme" where
  "callr opc s =
     (if \<not> CheckCondition s (ucast (opc AND 0xf)) then s
      else let reg = fld opc 5 0x7;
               (addr, s) = OpReadRegister (int reg) s;
               s = StoreStack Call (pc s) s
           in s\<lparr>pc := addr\<rparr>)"

definition ifcc :: "u16 \<Rightarrow> 'a SDSP_scheme \<Rightarrow> 'a SDSP_scheme" where
  "ifcc opc s = (if CheckCondition s (ucast (opc AND 0xf)) then s else SkipInstruction s)"

definition jcc :: "u16 \<Rightarrow> 'a SDSP_scheme \<Rightarrow> 'a SDSP_scheme" where
  "jcc opc s =
     (let (dest, s) = FetchInstruction s
      in if CheckCondition s (ucast (opc AND 0xf)) then s\<lparr>pc := dest\<rparr> else s)"

definition jmprcc :: "u16 \<Rightarrow> 'a SDSP_scheme \<Rightarrow> 'a SDSP_scheme" where
  "jmprcc opc s =
     (if \<not> CheckCondition s (ucast (opc AND 0xf)) then s
      else let reg = fld opc 5 0x7;
               (addr, s) = OpReadRegister (int reg) s
           in s\<lparr>pc := addr\<rparr>)"

definition ret :: "u16 \<Rightarrow> 'a SDSP_scheme \<Rightarrow> 'a SDSP_scheme" where
  "ret opc s =
     (if \<not> CheckCondition s (ucast (opc AND 0xf)) then s
      else let (addr, s) = PopStack Call s in s\<lparr>pc := addr\<rparr>)"

definition rti :: "u16 \<Rightarrow> 'a SDSP_scheme \<Rightarrow> 'a SDSP_scheme" where
  "rti opc s =
     (if \<not> CheckCondition s (ucast (opc AND 0xf)) then s
      else let (flags, s) = PopStack Data s;
               s = set_sr flags s;
               (addr, s) = PopStack Call s
           in s\<lparr>pc := addr\<rparr>)"

definition halt :: "u16 \<Rightarrow> 'a SDSP_scheme \<Rightarrow> 'a SDSP_scheme" where
  "halt opc s = s\<lparr>control_reg := control_reg s OR CR_HALT, pc := pc s - 1\<rparr>"

section \<open>Hardware loops\<close>

definition HandleLoop :: "'a SDSP_scheme \<Rightarrow> 'a SDSP_scheme" where
  "HandleLoop s =
     (let rCallAddress = st (regs s) 0;
          rLoopAddress = st (regs s) 2;
          rLoopCounter = st (regs s) 3
      in if rLoopAddress > 0 \<and> rLoopCounter > 0 then
           if uint (pc s) - 1 = uint rLoopAddress then
             let s = set_st 3 (rLoopCounter - 1) s
             in if rLoopCounter - 1 > 0 then s\<lparr>pc := rCallAddress\<rparr>
                else let s = snd (PopStack Call s);
                         s = snd (PopStack LoopAddress s)
                     in snd (PopStack LoopCounter s)
           else s
         else s)"

text \<open>The end of the four loop instructions that is taken when the counter is not zero.\<close>

definition push_loop :: "u16 \<Rightarrow> u16 \<Rightarrow> 'a SDSP_scheme \<Rightarrow> 'a SDSP_scheme" where
  "push_loop loop_pc cnt s =
     (let s = StoreStack Call (pc s) s;
          s = StoreStack LoopAddress loop_pc s
      in StoreStack LoopCounter cnt s)"

definition loop :: "u16 \<Rightarrow> 'a SDSP_scheme \<Rightarrow> 'a SDSP_scheme" where
  "loop opc s =
     (let reg = uint (opc AND 0x1f);
          (cnt, s) = OpReadRegister reg s;
          loop_pc = pc s
      in if cnt \<noteq> 0 then push_loop loop_pc cnt s else SkipInstruction s)"

definition loopi :: "u16 \<Rightarrow> 'a SDSP_scheme \<Rightarrow> 'a SDSP_scheme" where
  "loopi opc s =
     (let cnt = opc AND 0xff;
          loop_pc = pc s
      in if cnt \<noteq> 0 then push_loop loop_pc cnt s else SkipInstruction s)"

definition bloop :: "u16 \<Rightarrow> 'a SDSP_scheme \<Rightarrow> 'a SDSP_scheme" where
  "bloop opc s =
     (let reg = uint (opc AND 0x1f);
          (cnt, s) = OpReadRegister reg s;
          (loop_pc, s) = FetchInstruction s
      in if cnt \<noteq> 0 then push_loop loop_pc cnt s
         else SkipInstruction (s\<lparr>pc := loop_pc\<rparr>))"

definition bloopi :: "u16 \<Rightarrow> 'a SDSP_scheme \<Rightarrow> 'a SDSP_scheme" where
  "bloopi opc s =
     (let cnt = opc AND 0xff;
          (loop_pc, s) = FetchInstruction s
      in if cnt \<noteq> 0 then push_loop loop_pc cnt s
         else SkipInstruction (s\<lparr>pc := loop_pc\<rparr>))"

end
