(* ===== verification/Dsp_IntMisc.thy ===== *)
theory Dsp_IntMisc
  imports Dsp_Interp_Base
begin

text \<open>
  Moves between registers, immediates, address register steps and flag bits
  (Source/Core/Core/DSP/Interpreter/DSPIntMisc.cpp, and \<open>nop\<close> of DSPInterpreter.cpp), and the loads
  and stores (DSPIntLoadStore.cpp).  A store may reach a hardware register and fail there.
\<close>

unbundle bit_operations_syntax

section \<open>Moves and immediates\<close>

definition nop :: "u16 \<Rightarrow> 'a SDSP_scheme \<Rightarrow> 'a SDSP_scheme" where
  "nop opc s = s"

definition mrr :: "u16 \<Rightarrow> 'a SDSP_scheme \<Rightarrow> 'a SDSP_scheme" where
  "mrr opc s =
     (let sreg = int (fld opc 0 0x1f);
          dreg = int (fld opc 5 0x1f);
          (val, s) = OpReadRegister sreg s;
          s = OpWriteRegister dreg val s
      in ConditionalExtendAccum dreg s)"

definition lri :: "u16 \<Rightarrow> 'a SDSP_scheme \<Rightarrow> 'a SDSP_scheme" where
  "lri opc s =
     (let reg = int (fld opc 0 0x1f);
          (imm, s) = FetchInstruction s;
          s = OpWriteRegister reg imm s
      in ConditionalExtendAccum reg s)"

definition lris :: "u16 \<Rightarrow> 'a SDSP_scheme \<Rightarrow> 'a SDSP_scheme" where
  "lris opc s =
     (let reg = int (fld opc 8 0x7) + DSP_REG_AXL0;
          imm = scast (ucast opc :: u8);
          s = OpWriteRegister reg imm s
      in ConditionalExtendAccum reg s)"

definition nx :: "u16 \<Rightarrow> 'a SDSP_scheme \<Rightarrow> 'a SDSP_scheme" where
  "nx opc s = ZeroWriteBackLog s"

section \<open>Address registers\<close>

definition dar :: "u16 \<Rightarrow> 'a SDSP_scheme \<Rightarrow> 'a SDSP_scheme" where
  "dar opc s = (let index = fld opc 0 3 in set_ar index (DecrementAddressRegister index s) s)"

definition iar :: "u16 \<Rightarrow> 'a SDSP_scheme \<Rightarrow> 'a SDSP_scheme" where
  "iar opc s = (let index = fld opc 0 3 in set_ar index (IncrementAddressRegister index s) s)"

definition subarn :: "u16 \<Rightarrow> 'a SDSP_scheme \<Rightarrow> 'a SDSP_scheme" where
  "subarn opc s =
     (let dreg = fld opc 0 0x3 in set_ar dreg (DecreaseAddressRegister dreg (ix (regs s) dreg) s) s)"

definition addarn :: "u16 \<Rightarrow> 'a SDSP_scheme \<Rightarrow> 'a SDSP_scheme" where
  "addarn opc s =
     (let dreg = fld opc 0 0x3; sreg = fld opc 2 0x3
      in set_ar dreg (IncreaseAddressRegister dreg (ix (regs s) sreg) s) s)"

section \<open>Flag bits\<close>

definition sbclr :: "u16 \<Rightarrow> 'a SDSP_scheme \<Rightarrow> 'a SDSP_scheme" where
  "sbclr opc s =
     (let bit = fld opc 0 0x7 + 6 in set_sr (sr (regs s) AND NOT (push_bit bit 1)) s)"

definition sbset :: "u16 \<Rightarrow> 'a SDSP_scheme \<Rightarrow> 'a SDSP_scheme" where
  "sbset opc s =
     (let bit = fld opc 0 0x7 + 6 in set_sr (sr (regs s) OR push_bit bit 1) s)"

definition srbith :: "u16 \<Rightarrow> 'a SDSP_scheme \<Rightarrow> 'a SDSP_scheme" where
  "srbith opc s =
     (let s = ZeroWriteBackLog s; k = fld opc 8 0x7; w = sr (regs s) in
      if k = 2 then set_sr (w AND NOT SR_MUL_MODIFY) s
      else if k = 3 then set_sr (w OR SR_MUL_MODIFY) s
      else if k = 4 then set_sr (w AND NOT SR_MUL_UNSIGNED) s
      else if k = 5 then set_sr (w OR SR_MUL_UNSIGNED) s
      else if k = 6 then set_sr (w AND NOT SR_40_MODE_BIT) s
      else if k = 7 then set_sr (w OR SR_40_MODE_BIT) s
      else s)"

section \<open>Loads and stores with an immediate address\<close>

text \<open>The address \<open>CR[0-7] | M\<close>.\<close>

definition cr_addr :: "u16 \<Rightarrow> 'a SDSP_scheme \<Rightarrow> u16" where
  "cr_addr opc s = push_bit 8 (cr (regs s)) OR (opc AND 0xff)"

definition srsh :: "u16 \<Rightarrow> 'a SDSP_scheme \<Rightarrow> 'a SDSP_scheme result" where
  "srsh opc s =
     (let reg = int (fld opc 8 0x1) + DSP_REG_ACH0;
          addr = cr_addr opc s;
          (val, s) = OpReadRegister reg s
      in WriteDMEM addr val s)"

definition srs :: "u16 \<Rightarrow> 'a SDSP_scheme \<Rightarrow> 'a SDSP_scheme result" where
  "srs opc s =
     (let reg = int (fld opc 8 0x3) + DSP_REG_ACL0;
          addr = cr_addr opc s;
          (val, s) = OpReadRegister reg s
      in WriteDMEM addr val s)"

definition lrs :: "u16 \<Rightarrow> 'a SDSP_scheme \<Rightarrow> 'a SDSP_scheme" where
  "lrs opc s =
     (let reg = int (fld opc 8 0x7) + 0x18;
          addr = cr_addr opc s;
          (val, s) = ReadDMEM addr s;
          s = OpWriteRegister reg val s
      in ConditionalExtendAccum reg s)"

definition lr :: "u16 \<Rightarrow> 'a SDSP_scheme \<Rightarrow> 'a SDSP_scheme" where
  "lr opc s =
     (let reg = int (fld opc 0 0x1f);
          (addr, s) = FetchInstruction s;
          (val, s) = ReadDMEM addr s;
          s = OpWriteRegister reg val s
      in ConditionalExtendAccum reg s)"

definition sr_op :: "u16 \<Rightarrow> 'a SDSP_scheme \<Rightarrow> 'a SDSP_scheme result" where
  "sr_op opc s =
     (let reg = int (fld opc 0 0x1f);
          (addr, s) = FetchInstruction s;
          (val, s) = OpReadRegister reg s
      in WriteDMEM addr val s)"

definition si :: "u16 \<Rightarrow> 'a SDSP_scheme \<Rightarrow> 'a SDSP_scheme result" where
  "si opc s =
     (let addr = scast (ucast opc :: u8);
          (imm, s) = FetchInstruction s
      in WriteDMEM addr imm s)"

section \<open>Loads and stores through an address register\<close>

text \<open>What the four loads and the four stores share before the address register is stepped.\<close>

definition load_ar :: "nat \<Rightarrow> int \<Rightarrow> 'a SDSP_scheme \<Rightarrow> 'a SDSP_scheme" where
  "load_ar sreg dreg s =
     (let (addr, s) = OpReadRegister (int sreg) s;
          (val, s) = ReadDMEM addr s;
          s = OpWriteRegister dreg val s
      in ConditionalExtendAccum dreg s)"

definition store_ar :: "nat \<Rightarrow> int \<Rightarrow> 'a SDSP_scheme \<Rightarrow> 'a SDSP_scheme result" where
  "store_ar dreg sreg s =
     (let addr = ar (regs s) dreg;
          (val, s) = OpReadRegister sreg s
      in WriteDMEM addr val s)"

definition load_imem :: "nat \<Rightarrow> nat \<Rightarrow> 'a SDSP_scheme \<Rightarrow> 'a SDSP_scheme" where
  "load_imem reg d s =
     (let s = upd_ac d (put16 16 (ReadIMEM s (ar (regs s) reg))) s
      in ConditionalExtendAccum (DSP_REG_ACM0 + int d) s)"

definition lrr :: "u16 \<Rightarrow> 'a SDSP_scheme \<Rightarrow> 'a SDSP_scheme" where
  "lrr opc s =
     (let sreg = fld opc 5 0x3; dreg = int (fld opc 0 0x1f)
      in load_ar sreg dreg s)"

definition lrrd :: "u16 \<Rightarrow> 'a SDSP_scheme \<Rightarrow> 'a SDSP_scheme" where
  "lrrd opc s =
     (let sreg = fld opc 5 0x3; dreg = int (fld opc 0 0x1f)
      in let s = load_ar sreg dreg s
         in set_ar sreg (DecrementAddressRegister sreg s) s)"

definition lrri :: "u16 \<Rightarrow> 'a SDSP_scheme \<Rightarrow> 'a SDSP_scheme" where
  "lrri opc s =
     (let sreg = fld opc 5 0x3; dreg = int (fld opc 0 0x1f)
      in let s = load_ar sreg dreg s
         in set_ar sreg (IncrementAddressRegister sreg s) s)"

definition lrrn :: "u16 \<Rightarrow> 'a SDSP_scheme \<Rightarrow> 'a SDSP_scheme" where
  "lrrn opc s =
     (let sreg = fld opc 5 0x3; dreg = int (fld opc 0 0x1f)
      in let s = load_ar sreg dreg s
         in set_ar sreg (IncreaseAddressRegister sreg (ix (regs s) sreg) s) s)"

definition srr :: "u16 \<Rightarrow> 'a SDSP_scheme \<Rightarrow> 'a SDSP_scheme result" where
  "srr opc s =
     (let dreg = fld opc 5 0x3; sreg = int (fld opc 0 0x1f)
      in store_ar dreg sreg s)"

definition srrd :: "u16 \<Rightarrow> 'a SDSP_scheme \<Rightarrow> 'a SDSP_scheme result" where
  "srrd opc s =
     (let dreg = fld opc 5 0x3; sreg = int (fld opc 0 0x1f)
      in bindE (store_ar dreg sreg s)
           (\<lambda>s. Inr (set_ar dreg (DecrementAddressRegister dreg s) s)))"

definition srri :: "u16 \<Rightarrow> 'a SDSP_scheme \<Rightarrow> 'a SDSP_scheme result" where
  "srri opc s =
     (let dreg = fld opc 5 0x3; sreg = int (fld opc 0 0x1f)
      in bindE (store_ar dreg sreg s)
           (\<lambda>s. Inr (set_ar dreg (IncrementAddressRegister dreg s) s)))"

definition srrn :: "u16 \<Rightarrow> 'a SDSP_scheme \<Rightarrow> 'a SDSP_scheme result" where
  "srrn opc s =
     (let dreg = fld opc 5 0x3; sreg = int (fld opc 0 0x1f)
      in bindE (store_ar dreg sreg s)
           (\<lambda>s. Inr (set_ar dreg (IncreaseAddressRegister dreg (ix (regs s) dreg) s) s)))"

definition ilrr :: "u16 \<Rightarrow> 'a SDSP_scheme \<Rightarrow> 'a SDSP_scheme" where
  "ilrr opc s =
     (let reg = fld opc 0 0x3; d = fld opc 8 1
      in load_imem reg d s)"

definition ilrrd :: "u16 \<Rightarrow> 'a SDSP_scheme \<Rightarrow> 'a SDSP_scheme" where
  "ilrrd opc s =
     (let reg = fld opc 0 0x3; d = fld opc 8 1
      in let s = load_imem reg d s
         in set_ar reg (DecrementAddressRegister reg s) s)"

definition ilrri :: "u16 \<Rightarrow> 'a SDSP_scheme \<Rightarrow> 'a SDSP_scheme" where
  "ilrri opc s =
     (let reg = fld opc 0 0x3; d = fld opc 8 1
      in let s = load_imem reg d s
         in set_ar reg (IncrementAddressRegister reg s) s)"

definition ilrrn :: "u16 \<Rightarrow> 'a SDSP_scheme \<Rightarrow> 'a SDSP_scheme" where
  "ilrrn opc s =
     (let reg = fld opc 0 0x3; d = fld opc 8 1
      in let s = load_imem reg d s
         in set_ar reg (IncreaseAddressRegister reg (ix (regs s) reg) s) s)"

end
