(* ===== verification/Dsp_IntExtOps.thy ===== *)
theory Dsp_IntExtOps
  imports Dsp_Interp_Base
begin

text \<open>
  The extended opcodes (Source/Core/Core/DSP/Interpreter/DSPIntExtOps.cpp).  They run before the
  main opcode and put their register writes into the write-back log; their stores to data memory
  happen at once.
\<close>

unbundle bit_operations_syntax

definition IsSameMemArea :: "u16 \<Rightarrow> u16 \<Rightarrow> bool" where
  "IsSameMemArea a b \<longleftrightarrow> drop_bit 10 a = drop_bit 10 b"

section \<open>Steps, moves, single loads and stores\<close>

definition nop_ext :: "u16 \<Rightarrow> 'a Interpreter_scheme \<Rightarrow> 'a Interpreter_scheme" where
  "nop_ext opc s =
     s"

definition dr :: "u16 \<Rightarrow> 'a Interpreter_scheme \<Rightarrow> 'a Interpreter_scheme" where
  "dr opc s =
     (let reg = fld opc 0 0x3
      in WriteToBackLog 0 (int reg) (DecrementAddressRegister reg s) s)"

definition ir :: "u16 \<Rightarrow> 'a Interpreter_scheme \<Rightarrow> 'a Interpreter_scheme" where
  "ir opc s =
     (let reg = fld opc 0 0x3
      in WriteToBackLog 0 (int reg) (IncrementAddressRegister reg s) s)"

definition nr :: "u16 \<Rightarrow> 'a Interpreter_scheme \<Rightarrow> 'a Interpreter_scheme" where
  "nr opc s =
     (let reg = fld opc 0 0x3
      in WriteToBackLog 0 (int reg) (IncreaseAddressRegister reg (ix (regs s) reg) s) s)"

definition mv :: "u16 \<Rightarrow> 'a Interpreter_scheme \<Rightarrow> 'a Interpreter_scheme" where
  "mv opc s =
     (let sreg = int (fld opc 0 0x3) + DSP_REG_ACL0;
          dreg = int (fld opc 2 0x3);
          (val, s) = OpReadRegister sreg s
      in WriteToBackLog 0 (dreg + DSP_REG_AXL0) val s)"

definition s_ext :: "u16 \<Rightarrow> 'a Interpreter_scheme \<Rightarrow> 'a Interpreter_scheme result" where
  "s_ext opc s =
     (let dreg = fld opc 0 0x3;
          sreg = int (fld opc 3 0x3) + DSP_REG_ACL0;
          (val, s) = OpReadRegister sreg s
      in bindE (WriteDMEM (ar (regs s) dreg) val s)
           (\<lambda>s. Inr (WriteToBackLog 0 (int dreg) (IncrementAddressRegister dreg s) s)))"

definition sn :: "u16 \<Rightarrow> 'a Interpreter_scheme \<Rightarrow> 'a Interpreter_scheme result" where
  "sn opc s =
     (let dreg = fld opc 0 0x3;
          sreg = int (fld opc 3 0x3) + DSP_REG_ACL0;
          (val, s) = OpReadRegister sreg s
      in bindE (WriteDMEM (ar (regs s) dreg) val s)
           (\<lambda>s. Inr (WriteToBackLog 0 (int dreg) (IncreaseAddressRegister dreg (ix (regs s) dreg) s) s)))"

definition l_ext :: "u16 \<Rightarrow> 'a Interpreter_scheme \<Rightarrow> 'a Interpreter_scheme" where
  "l_ext opc s =
     (let sreg = fld opc 0 0x3;
          dreg = int (fld opc 3 0x7) + DSP_REG_AXL0
      in if dreg \<ge> DSP_REG_ACM0 \<and> IsSRFlagSet s SR_40_MODE_BIT
         then let (val, s) = ReadDMEM (ar (regs s) sreg) s;
                  s = WriteToBackLog 0 (dreg - DSP_REG_ACM0 + DSP_REG_ACH0)
                        (if val AND 0x8000 \<noteq> 0 then 0xFFFF else 0x0000) s;
                  s = WriteToBackLog 1 dreg val s;
                  s = WriteToBackLog 2 (dreg - DSP_REG_ACM0 + DSP_REG_ACL0) 0 s
              in WriteToBackLog 3 (int sreg) (IncrementAddressRegister sreg s) s
         else let (val, s) = ReadDMEM (ar (regs s) sreg) s;
                  s = WriteToBackLog 0 dreg val s
              in WriteToBackLog 1 (int sreg) (IncrementAddressRegister sreg s) s)"

definition ln :: "u16 \<Rightarrow> 'a Interpreter_scheme \<Rightarrow> 'a Interpreter_scheme" where
  "ln opc s =
     (let sreg = fld opc 0 0x3;
          dreg = int (fld opc 3 0x7) + DSP_REG_AXL0
      in if dreg \<ge> DSP_REG_ACM0 \<and> IsSRFlagSet s SR_40_MODE_BIT
         then let (val, s) = ReadDMEM (ar (regs s) sreg) s;
                  s = WriteToBackLog 0 (dreg - DSP_REG_ACM0 + DSP_REG_ACH0)
                        (if val AND 0x8000 \<noteq> 0 then 0xFFFF else 0x0000) s;
                  s = WriteToBackLog 1 dreg val s;
                  s = WriteToBackLog 2 (dreg - DSP_REG_ACM0 + DSP_REG_ACL0) 0 s
              in WriteToBackLog 3 (int sreg) (IncreaseAddressRegister sreg (ix (regs s) sreg) s) s
         else let (val, s) = ReadDMEM (ar (regs s) sreg) s;
                  s = WriteToBackLog 0 dreg val s
              in WriteToBackLog 1 (int sreg) (IncreaseAddressRegister sreg (ix (regs s) sreg) s) s)"

section \<open>Parallel load and store\<close>

definition ls :: "u16 \<Rightarrow> 'a Interpreter_scheme \<Rightarrow> 'a Interpreter_scheme result" where
  "ls opc s =
     (let sreg = int (fld opc 0 0x1) + DSP_REG_ACM0;
          dreg = int (fld opc 4 0x3) + DSP_REG_AXL0;
          (val, s) = OpReadRegister sreg s
      in bindE (WriteDMEM (ar (regs s) 3) val s)
           (\<lambda>s. let (val, s) = ReadDMEM (ar (regs s) 0) s;
                    s = WriteToBackLog 0 dreg val s;
                    s = WriteToBackLog 1 DSP_REG_AR3 (IncrementAddressRegister 3 s) s
                in Inr (WriteToBackLog 2 DSP_REG_AR0 (IncrementAddressRegister 0 s) s)))"

definition lsn :: "u16 \<Rightarrow> 'a Interpreter_scheme \<Rightarrow> 'a Interpreter_scheme result" where
  "lsn opc s =
     (let sreg = int (fld opc 0 0x1) + DSP_REG_ACM0;
          dreg = int (fld opc 4 0x3) + DSP_REG_AXL0;
          (val, s) = OpReadRegister sreg s
      in bindE (WriteDMEM (ar (regs s) 3) val s)
           (\<lambda>s. let (val, s) = ReadDMEM (ar (regs s) 0) s;
                    s = WriteToBackLog 0 dreg val s;
                    s = WriteToBackLog 1 DSP_REG_AR3 (IncrementAddressRegister 3 s) s
                in Inr (WriteToBackLog 2 DSP_REG_AR0 (IncreaseAddressRegister 0 (ix (regs s) 0) s) s)))"

definition lsm :: "u16 \<Rightarrow> 'a Interpreter_scheme \<Rightarrow> 'a Interpreter_scheme result" where
  "lsm opc s =
     (let sreg = int (fld opc 0 0x1) + DSP_REG_ACM0;
          dreg = int (fld opc 4 0x3) + DSP_REG_AXL0;
          (val, s) = OpReadRegister sreg s
      in bindE (WriteDMEM (ar (regs s) 3) val s)
           (\<lambda>s. let (val, s) = ReadDMEM (ar (regs s) 0) s;
                    s = WriteToBackLog 0 dreg val s;
                    s = WriteToBackLog 1 DSP_REG_AR3 (IncreaseAddressRegister 3 (ix (regs s) 3) s) s
                in Inr (WriteToBackLog 2 DSP_REG_AR0 (IncrementAddressRegister 0 s) s)))"

definition lsnm :: "u16 \<Rightarrow> 'a Interpreter_scheme \<Rightarrow> 'a Interpreter_scheme result" where
  "lsnm opc s =
     (let sreg = int (fld opc 0 0x1) + DSP_REG_ACM0;
          dreg = int (fld opc 4 0x3) + DSP_REG_AXL0;
          (val, s) = OpReadRegister sreg s
      in bindE (WriteDMEM (ar (regs s) 3) val s)
           (\<lambda>s. let (val, s) = ReadDMEM (ar (regs s) 0) s;
                    s = WriteToBackLog 0 dreg val s;
                    s = WriteToBackLog 1 DSP_REG_AR3 (IncreaseAddressRegister 3 (ix (regs s) 3) s) s
                in Inr (WriteToBackLog 2 DSP_REG_AR0 (IncreaseAddressRegister 0 (ix (regs s) 0) s) s)))"

definition sl :: "u16 \<Rightarrow> 'a Interpreter_scheme \<Rightarrow> 'a Interpreter_scheme result" where
  "sl opc s =
     (let sreg = int (fld opc 0 0x1) + DSP_REG_ACM0;
          dreg = int (fld opc 4 0x3) + DSP_REG_AXL0;
          (val, s) = OpReadRegister sreg s
      in bindE (WriteDMEM (ar (regs s) 0) val s)
           (\<lambda>s. let (val, s) = ReadDMEM (ar (regs s) 3) s;
                    s = WriteToBackLog 0 dreg val s;
                    s = WriteToBackLog 1 DSP_REG_AR3 (IncrementAddressRegister 3 s) s
                in Inr (WriteToBackLog 2 DSP_REG_AR0 (IncrementAddressRegister 0 s) s)))"

definition sln :: "u16 \<Rightarrow> 'a Interpreter_scheme \<Rightarrow> 'a Interpreter_scheme result" where
  "sln opc s =
     (let sreg = int (fld opc 0 0x1) + DSP_REG_ACM0;
          dreg = int (fld opc 4 0x3) + DSP_REG_AXL0;
          (val, s) = OpReadRegister sreg s
      in bindE (WriteDMEM (ar (regs s) 0) val s)
           (\<lambda>s. let (val, s) = ReadDMEM (ar (regs s) 3) s;
                    s = WriteToBackLog 0 dreg val s;
                    s = WriteToBackLog 1 DSP_REG_AR3 (IncrementAddressRegister 3 s) s
                in Inr (WriteToBackLog 2 DSP_REG_AR0 (IncreaseAddressRegister 0 (ix (regs s) 0) s) s)))"

definition slm :: "u16 \<Rightarrow> 'a Interpreter_scheme \<Rightarrow> 'a Interpreter_scheme result" where
  "slm opc s =
     (let sreg = int (fld opc 0 0x1) + DSP_REG_ACM0;
          dreg = int (fld opc 4 0x3) + DSP_REG_AXL0;
          (val, s) = OpReadRegister sreg s
      in bindE (WriteDMEM (ar (regs s) 0) val s)
           (\<lambda>s. let (val, s) = ReadDMEM (ar (regs s) 3) s;
                    s = WriteToBackLog 0 dreg val s;
                    s = WriteToBackLog 1 DSP_REG_AR3 (IncreaseAddressRegister 3 (ix (regs s) 3) s) s
                in Inr (WriteToBackLog 2 DSP_REG_AR0 (IncrementAddressRegister 0 s) s)))"

definition slnm :: "u16 \<Rightarrow> 'a Interpreter_scheme \<Rightarrow> 'a Interpreter_scheme result" where
  "slnm opc s =
     (let sreg = int (fld opc 0 0x1) + DSP_REG_ACM0;
          dreg = int (fld opc 4 0x3) + DSP_REG_AXL0;
          (val, s) = OpReadRegister sreg s
      in bindE (WriteDMEM (ar (regs s) 0) val s)
           (\<lambda>s. let (val, s) = ReadDMEM (ar (regs s) 3) s;
                    s = WriteToBackLog 0 dreg val s;
                    s = WriteToBackLog 1 DSP_REG_AR3 (IncreaseAddressRegister 3 (ix (regs s) 3) s) s
                in Inr (WriteToBackLog 2 DSP_REG_AR0 (IncreaseAddressRegister 0 (ix (regs s) 0) s) s)))"

section \<open>Double loads\<close>

definition ld :: "u16 \<Rightarrow> 'a Interpreter_scheme \<Rightarrow> 'a Interpreter_scheme" where
  "ld opc s =
     (let dreg = int (fld opc 5 0x1);
          rreg = int (fld opc 4 0x1);
          sreg = fld opc 0 0x3;
          (val, s) = ReadDMEM (ar (regs s) sreg) s;
          s = WriteToBackLog 0 (push_bit 1 dreg + DSP_REG_AXL0) val s;
          (val, s) = (if IsSameMemArea (ar (regs s) sreg) (ar (regs s) 3)
                      then ReadDMEM (ar (regs s) sreg) s
                      else ReadDMEM (ar (regs s) 3) s);
          s = WriteToBackLog 1 (push_bit 1 rreg + DSP_REG_AXL1) val s;
          s = WriteToBackLog 2 (int sreg) (IncrementAddressRegister sreg s) s
      in WriteToBackLog 3 DSP_REG_AR3 (IncrementAddressRegister 3 s) s)"

definition ldax :: "u16 \<Rightarrow> 'a Interpreter_scheme \<Rightarrow> 'a Interpreter_scheme" where
  "ldax opc s =
     (let sreg = fld opc 5 0x1;
          rreg = int (fld opc 4 0x1);
          (val, s) = ReadDMEM (ar (regs s) sreg) s;
          s = WriteToBackLog 0 (rreg + DSP_REG_AXH0) val s;
          (val, s) = (if IsSameMemArea (ar (regs s) sreg) (ar (regs s) 3)
                      then ReadDMEM (ar (regs s) sreg) s
                      else ReadDMEM (ar (regs s) 3) s);
          s = WriteToBackLog 1 (rreg + DSP_REG_AXL0) val s;
          s = WriteToBackLog 2 (int sreg) (IncrementAddressRegister sreg s) s
      in WriteToBackLog 3 DSP_REG_AR3 (IncrementAddressRegister 3 s) s)"

definition ldn :: "u16 \<Rightarrow> 'a Interpreter_scheme \<Rightarrow> 'a Interpreter_scheme" where
  "ldn opc s =
     (let dreg = int (fld opc 5 0x1);
          rreg = int (fld opc 4 0x1);
          sreg = fld opc 0 0x3;
          (val, s) = ReadDMEM (ar (regs s) sreg) s;
          s = WriteToBackLog 0 (push_bit 1 dreg + DSP_REG_AXL0) val s;
          (val, s) = (if IsSameMemArea (ar (regs s) sreg) (ar (regs s) 3)
                      then ReadDMEM (ar (regs s) sreg) s
                      else ReadDMEM (ar (regs s) 3) s);
          s = WriteToBackLog 1 (push_bit 1 rreg + DSP_REG_AXL1) val s;
          s = WriteToBackLog 2 (int sreg) (IncreaseAddressRegister sreg (ix (regs s) sreg) s) s
      in WriteToBackLog 3 DSP_REG_AR3 (IncrementAddressRegister 3 s) s)"

definition ldaxn :: "u16 \<Rightarrow> 'a Interpreter_scheme \<Rightarrow> 'a Interpreter_scheme" where
  "ldaxn opc s =
     (let sreg = fld opc 5 0x1;
          rreg = int (fld opc 4 0x1);
          (val, s) = ReadDMEM (ar (regs s) sreg) s;
          s = WriteToBackLog 0 (rreg + DSP_REG_AXH0) val s;
          (val, s) = (if IsSameMemArea (ar (regs s) sreg) (ar (regs s) 3)
                      then ReadDMEM (ar (regs s) sreg) s
                      else ReadDMEM (ar (regs s) 3) s);
          s = WriteToBackLog 1 (rreg + DSP_REG_AXL0) val s;
          s = WriteToBackLog 2 (int sreg) (IncreaseAddressRegister sreg (ix (regs s) sreg) s) s
      in WriteToBackLog 3 DSP_REG_AR3 (IncrementAddressRegister 3 s) s)"

definition ldm :: "u16 \<Rightarrow> 'a Interpreter_scheme \<Rightarrow> 'a Interpreter_scheme" where
  "ldm opc s =
     (let dreg = int (fld opc 5 0x1);
          rreg = int (fld opc 4 0x1);
          sreg = fld opc 0 0x3;
          (val, s) = ReadDMEM (ar (regs s) sreg) s;
          s = WriteToBackLog 0 (push_bit 1 dreg + DSP_REG_AXL0) val s;
          (val, s) = (if IsSameMemArea (ar (regs s) sreg) (ar (regs s) 3)
                      then ReadDMEM (ar (regs s) sreg) s
                      else ReadDMEM (ar (regs s) 3) s);
          s = WriteToBackLog 1 (push_bit 1 rreg + DSP_REG_AXL1) val s;
          s = WriteToBackLog 2 (int sreg) (IncrementAddressRegister sreg s) s
      in WriteToBackLog 3 DSP_REG_AR3 (IncreaseAddressRegister 3 (ix (regs s) 3) s) s)"

definition ldaxm :: "u16 \<Rightarrow> 'a Interpreter_scheme \<Rightarrow> 'a Interpreter_scheme" where
  "ldaxm opc s =
     (let sreg = fld opc 5 0x1;
          rreg = int (fld opc 4 0x1);
          (val, s) = ReadDMEM (ar (regs s) sreg) s;
          s = WriteToBackLog 0 (rreg + DSP_REG_AXH0) val s;
          (val, s) = (if IsSameMemArea (ar (regs s) sreg) (ar (regs s) 3)
                      then ReadDMEM (ar (regs s) sreg) s
                      else ReadDMEM (ar (regs s) 3) s);
          s = WriteToBackLog 1 (rreg + DSP_REG_AXL0) val s;
          s = WriteToBackLog 2 (int sreg) (IncrementAddressRegister sreg s) s
      in WriteToBackLog 3 DSP_REG_AR3 (IncreaseAddressRegister 3 (ix (regs s) 3) s) s)"

definition ldnm :: "u16 \<Rightarrow> 'a Interpreter_scheme \<Rightarrow> 'a Interpreter_scheme" where
  "ldnm opc s =
     (let dreg = int (fld opc 5 0x1);
          rreg = int (fld opc 4 0x1);
          sreg = fld opc 0 0x3;
          (val, s) = ReadDMEM (ar (regs s) sreg) s;
          s = WriteToBackLog 0 (push_bit 1 dreg + DSP_REG_AXL0) val s;
          (val, s) = (if IsSameMemArea (ar (regs s) sreg) (ar (regs s) 3)
                      then ReadDMEM (ar (regs s) sreg) s
                      else ReadDMEM (ar (regs s) 3) s);
          s = WriteToBackLog 1 (push_bit 1 rreg + DSP_REG_AXL1) val s;
          s = WriteToBackLog 2 (int sreg) (IncreaseAddressRegister sreg (ix (regs s) sreg) s) s
      in WriteToBackLog 3 DSP_REG_AR3 (IncreaseAddressRegister 3 (ix (regs s) 3) s) s)"

definition ldaxnm :: "u16 \<Rightarrow> 'a Interpreter_scheme \<Rightarrow> 'a Interpreter_scheme" where
  "ldaxnm opc s =
     (let sreg = fld opc 5 0x1;
          rreg = int (fld opc 4 0x1);
          (val, s) = ReadDMEM (ar (regs s) sreg) s;
          s = WriteToBackLog 0 (rreg + DSP_REG_AXH0) val s;
          (val, s) = (if IsSameMemArea (ar (regs s) sreg) (ar (regs s) 3)
                      then ReadDMEM (ar (regs s) sreg) s
                      else ReadDMEM (ar (regs s) 3) s);
          s = WriteToBackLog 1 (rreg + DSP_REG_AXL0) val s;
          s = WriteToBackLog 2 (int sreg) (IncreaseAddressRegister sreg (ix (regs s) sreg) s) s
      in WriteToBackLog 3 DSP_REG_AR3 (IncreaseAddressRegister 3 (ix (regs s) 3) s) s)"

end
