(* ===== verification/Dsp_IntTables.thy ===== *)
theory Dsp_IntTables
  imports Dsp_IntArithmetic Dsp_IntMultiplier Dsp_IntBranch Dsp_IntMisc Dsp_IntExtOps
begin

text \<open>
  The dispatch tables of the interpreter (Source/Core/Core/DSP/Interpreter/DSPIntTables.cpp).  The
  functions that cannot fail are wrapped by \<open>total\<close>.
\<close>

unbundle bit_operations_syntax

section \<open>The tables\<close>

type_synonym InterpreterFunction = "u16 \<Rightarrow> Interpreter \<Rightarrow> Interpreter result"

datatype InterpreterOpInfo =
  InterpreterOpInfo (i_opcode: u16) (i_opcode_mask: u16) (i_function: InterpreterFunction)

definition total :: "(u16 \<Rightarrow> Interpreter \<Rightarrow> Interpreter) \<Rightarrow> InterpreterFunction" where
  "total f = (\<lambda>opc s. Inr (f opc s))"

definition i_opcodes_control :: "InterpreterOpInfo list" where
  "i_opcodes_control = [
     InterpreterOpInfo 0x0000 0xfffc (total nop),
     InterpreterOpInfo 0x0004 0xfffc (total dar),
     InterpreterOpInfo 0x0008 0xfffc (total iar),
     InterpreterOpInfo 0x000c 0xfffc (total subarn),
     InterpreterOpInfo 0x0010 0xfff0 (total addarn),
     InterpreterOpInfo 0x0021 0xffff (total halt),
     InterpreterOpInfo 0x02d0 0xfff0 (total ret),
     InterpreterOpInfo 0x02f0 0xfff0 (total rti),
     InterpreterOpInfo 0x02b0 0xfff0 (total call),
     InterpreterOpInfo 0x0270 0xfff0 (total ifcc),
     InterpreterOpInfo 0x0290 0xfff0 (total jcc),
     InterpreterOpInfo 0x1700 0xff10 (total jmprcc),
     InterpreterOpInfo 0x1710 0xff10 (total callr)]"

definition i_opcodes_short :: "InterpreterOpInfo list" where
  "i_opcodes_short = [
     InterpreterOpInfo 0x1200 0xff00 (total sbclr),
     InterpreterOpInfo 0x1300 0xff00 (total sbset),
     InterpreterOpInfo 0x1400 0xfec0 (total lsl),
     InterpreterOpInfo 0x1440 0xfec0 (total lsr),
     InterpreterOpInfo 0x1480 0xfec0 (total asl),
     InterpreterOpInfo 0x14c0 0xfec0 (total asr),
     InterpreterOpInfo 0x02ca 0xffff (total lsrn),
     InterpreterOpInfo 0x02cb 0xffff (total asrn),
     InterpreterOpInfo 0x0080 0xffe0 (total lri),
     InterpreterOpInfo 0x00c0 0xffe0 (total lr),
     InterpreterOpInfo 0x00e0 0xffe0 sr_op,
     InterpreterOpInfo 0x1c00 0xfc00 (total mrr),
     InterpreterOpInfo 0x1600 0xff00 si,
     InterpreterOpInfo 0x0400 0xfe00 (total addis),
     InterpreterOpInfo 0x0600 0xfe00 (total cmpis),
     InterpreterOpInfo 0x0800 0xf800 (total lris),
     InterpreterOpInfo 0x0200 0xfeff (total addi),
     InterpreterOpInfo 0x0220 0xfeff (total xori),
     InterpreterOpInfo 0x0240 0xfeff (total andi),
     InterpreterOpInfo 0x0260 0xfeff (total ori),
     InterpreterOpInfo 0x0280 0xfeff (total cmpi),
     InterpreterOpInfo 0x02a0 0xfeff (total andf),
     InterpreterOpInfo 0x02c0 0xfeff (total andcf),
     InterpreterOpInfo 0x0210 0xfefc (total ilrr),
     InterpreterOpInfo 0x0214 0xfefc (total ilrrd),
     InterpreterOpInfo 0x0218 0xfefc (total ilrri),
     InterpreterOpInfo 0x021c 0xfefc (total ilrrn)]"

definition i_opcodes_mem :: "InterpreterOpInfo list" where
  "i_opcodes_mem = [
     InterpreterOpInfo 0x0040 0xffe0 (total loop),
     InterpreterOpInfo 0x0060 0xffe0 (total bloop),
     InterpreterOpInfo 0x1000 0xff00 (total loopi),
     InterpreterOpInfo 0x1100 0xff00 (total bloopi),
     InterpreterOpInfo 0x1800 0xff80 (total lrr),
     InterpreterOpInfo 0x1880 0xff80 (total lrrd),
     InterpreterOpInfo 0x1900 0xff80 (total lrri),
     InterpreterOpInfo 0x1980 0xff80 (total lrrn),
     InterpreterOpInfo 0x1a00 0xff80 srr,
     InterpreterOpInfo 0x1a80 0xff80 srrd,
     InterpreterOpInfo 0x1b00 0xff80 srri,
     InterpreterOpInfo 0x1b80 0xff80 srrn,
     InterpreterOpInfo 0x2000 0xf800 (total lrs),
     InterpreterOpInfo 0x2800 0xfe00 srsh,
     InterpreterOpInfo 0x2c00 0xfc00 srs]"

definition i_opcodes_logic :: "InterpreterOpInfo list" where
  "i_opcodes_logic = [
     InterpreterOpInfo 0x3000 0xfc80 (total xorr),
     InterpreterOpInfo 0x3400 0xfc80 (total andr),
     InterpreterOpInfo 0x3800 0xfc80 (total orr),
     InterpreterOpInfo 0x3c00 0xfe80 (total andc),
     InterpreterOpInfo 0x3e00 0xfe80 (total orc),
     InterpreterOpInfo 0x3080 0xfe80 (total xorc),
     InterpreterOpInfo 0x3280 0xfe80 (total notc),
     InterpreterOpInfo 0x3480 0xfc80 (total lsrnrx),
     InterpreterOpInfo 0x3880 0xfc80 (total asrnrx),
     InterpreterOpInfo 0x3c80 0xfe80 (total lsrnr),
     InterpreterOpInfo 0x3e80 0xfe80 (total asrnr)]"

definition i_opcodes_acc :: "InterpreterOpInfo list" where
  "i_opcodes_acc = [
     InterpreterOpInfo 0x4000 0xf800 (total addr),
     InterpreterOpInfo 0x4800 0xfc00 (total addax),
     InterpreterOpInfo 0x4c00 0xfe00 (total add),
     InterpreterOpInfo 0x4e00 0xfe00 (total addp),
     InterpreterOpInfo 0x5000 0xf800 (total subr),
     InterpreterOpInfo 0x5800 0xfc00 (total subax),
     InterpreterOpInfo 0x5c00 0xfe00 (total sub),
     InterpreterOpInfo 0x5e00 0xfe00 (total subp),
     InterpreterOpInfo 0x6000 0xf800 (total movr),
     InterpreterOpInfo 0x6800 0xfc00 (total movax),
     InterpreterOpInfo 0x6c00 0xfe00 (total mov),
     InterpreterOpInfo 0x6e00 0xfe00 (total movp),
     InterpreterOpInfo 0x7000 0xfc00 (total addaxl),
     InterpreterOpInfo 0x7400 0xfe00 (total incm),
     InterpreterOpInfo 0x7600 0xfe00 (total inc),
     InterpreterOpInfo 0x7800 0xfe00 (total decm),
     InterpreterOpInfo 0x7a00 0xfe00 (total dec),
     InterpreterOpInfo 0x7c00 0xfe00 (total neg),
     InterpreterOpInfo 0x7e00 0xfe00 (total movnp)]"

definition i_opcodes_flags :: "InterpreterOpInfo list" where
  "i_opcodes_flags = [
     InterpreterOpInfo 0x8000 0xf700 (total nx),
     InterpreterOpInfo 0x8100 0xf700 (total clr),
     InterpreterOpInfo 0x8200 0xff00 (total cmp),
     InterpreterOpInfo 0x8300 0xff00 (total mulaxh),
     InterpreterOpInfo 0x8400 0xff00 (total clrp),
     InterpreterOpInfo 0x8500 0xff00 (total tstprod),
     InterpreterOpInfo 0x8600 0xfe00 (total tstaxh),
     InterpreterOpInfo 0x8a00 0xff00 (total srbith),
     InterpreterOpInfo 0x8b00 0xff00 (total srbith),
     InterpreterOpInfo 0x8c00 0xff00 (total srbith),
     InterpreterOpInfo 0x8d00 0xff00 (total srbith),
     InterpreterOpInfo 0x8e00 0xff00 (total srbith),
     InterpreterOpInfo 0x8f00 0xff00 (total srbith)]"

definition i_opcodes_mul :: "InterpreterOpInfo list" where
  "i_opcodes_mul = [
     InterpreterOpInfo 0x9000 0xf700 (total mul),
     InterpreterOpInfo 0x9100 0xf700 (total asr16),
     InterpreterOpInfo 0x9200 0xf600 (total mulmvz),
     InterpreterOpInfo 0x9400 0xf600 (total mulac),
     InterpreterOpInfo 0x9600 0xf600 (total mulmv),
     InterpreterOpInfo 0xa000 0xe700 (total mulx),
     InterpreterOpInfo 0xa100 0xf700 (total abs_op),
     InterpreterOpInfo 0xa200 0xe600 (total mulxmvz),
     InterpreterOpInfo 0xa400 0xe600 (total mulxac),
     InterpreterOpInfo 0xa600 0xe600 (total mulxmv),
     InterpreterOpInfo 0xb100 0xf700 (total tst),
     InterpreterOpInfo 0xc000 0xe700 (total mulc),
     InterpreterOpInfo 0xc100 0xe700 (total cmpaxh),
     InterpreterOpInfo 0xc200 0xe600 (total mulcmvz),
     InterpreterOpInfo 0xc400 0xe600 (total mulcac),
     InterpreterOpInfo 0xc600 0xe600 (total mulcmv),
     InterpreterOpInfo 0xe000 0xfc00 (total maddx),
     InterpreterOpInfo 0xe400 0xfc00 (total msubx),
     InterpreterOpInfo 0xe800 0xfc00 (total maddc),
     InterpreterOpInfo 0xec00 0xfc00 (total msubc),
     InterpreterOpInfo 0xf000 0xfe00 (total lsl16),
     InterpreterOpInfo 0xf200 0xfe00 (total madd),
     InterpreterOpInfo 0xf400 0xfe00 (total lsr16),
     InterpreterOpInfo 0xf600 0xfe00 (total msub),
     InterpreterOpInfo 0xf800 0xfc00 (total addpaxz),
     InterpreterOpInfo 0xfc00 0xfe00 (total clrl),
     InterpreterOpInfo 0xfe00 0xfe00 (total movpz)]"

definition i_opcodes :: "InterpreterOpInfo list" where
  "i_opcodes =
     i_opcodes_control @ i_opcodes_short @ i_opcodes_mem @ i_opcodes_logic @ i_opcodes_acc @ i_opcodes_flags @ i_opcodes_mul"

definition i_opcodes_ext :: "InterpreterOpInfo list" where
  "i_opcodes_ext = [
     InterpreterOpInfo 0x0000 0x00fc (total nop_ext),
     InterpreterOpInfo 0x0004 0x00fc (total dr),
     InterpreterOpInfo 0x0008 0x00fc (total ir),
     InterpreterOpInfo 0x000c 0x00fc (total nr),
     InterpreterOpInfo 0x0010 0x00f0 (total mv),
     InterpreterOpInfo 0x0020 0x00e4 s_ext,
     InterpreterOpInfo 0x0024 0x00e4 sn,
     InterpreterOpInfo 0x0040 0x00c4 (total l_ext),
     InterpreterOpInfo 0x0044 0x00c4 (total ln),
     InterpreterOpInfo 0x0080 0x00ce ls,
     InterpreterOpInfo 0x0082 0x00ce sl,
     InterpreterOpInfo 0x0084 0x00ce lsn,
     InterpreterOpInfo 0x0086 0x00ce sln,
     InterpreterOpInfo 0x0088 0x00ce lsm,
     InterpreterOpInfo 0x008a 0x00ce slm,
     InterpreterOpInfo 0x008c 0x00ce lsnm,
     InterpreterOpInfo 0x008e 0x00ce slnm,
     InterpreterOpInfo 0x00c3 0x00cf (total ldax),
     InterpreterOpInfo 0x00c7 0x00cf (total ldaxn),
     InterpreterOpInfo 0x00cb 0x00cf (total ldaxm),
     InterpreterOpInfo 0x00cf 0x00cf (total ldaxnm),
     InterpreterOpInfo 0x00c0 0x00cc (total ld),
     InterpreterOpInfo 0x00c4 0x00cc (total ldn),
     InterpreterOpInfo 0x00c8 0x00cc (total ldm),
     InterpreterOpInfo 0x00cc 0x00cc (total ldnm)]"

section \<open>Look-up\<close>

definition FindFunction :: "u16 \<Rightarrow> InterpreterOpInfo list \<Rightarrow> InterpreterOpInfo option" where
  "FindFunction inst data = find (\<lambda>info. inst AND i_opcode_mask info = i_opcode info) data"

text \<open>The tables as \<open>InitInstructionTables\<close> leaves them.\<close>

definition i_op_table :: "u16 \<Rightarrow> InterpreterFunction" where
  "i_op_table i = (case FindFunction i i_opcodes of None \<Rightarrow> total nop | Some info \<Rightarrow> i_function info)"

definition i_ext_op_table :: "u16 \<Rightarrow> InterpreterFunction" where
  "i_ext_op_table i =
     (case FindFunction i i_opcodes_ext of None \<Rightarrow> total nop | Some info \<Rightarrow> i_function info)"

definition GetOp :: "u16 \<Rightarrow> InterpreterFunction" where
  "GetOp inst = i_op_table inst"

definition GetExtOp :: "u16 \<Rightarrow> InterpreterFunction" where
  "GetExtOp inst =
     (let has_seven_bit_extension = (drop_bit 12 inst = 0x3) in
      if has_seven_bit_extension then i_ext_op_table (inst AND 0x7f)
      else i_ext_op_table (inst AND 0xff))"

end
