(* ===== verification/Dsp_Core.thy ===== *)
theory Dsp_Core
  imports Dsp_HWInterface Dsp_Stacks
begin

text \<open>
  The functions of \<open>SDSP\<close> that are not tied to one instruction (Source/Core/Core/DSP/DSPCore.cpp):
  initialisation, reset, exceptions, and the access to registers from outside the interpreter.
\<close>

unbundle bit_operations_syntax

section \<open>Initialisation\<close>

definition known_roms :: "(u32 \<times> u32) list" where
  "known_roms =
    [(0x66f334fe, 0xf3b93527), (0x9c8f593c, 0x10000001), (0xd9907f71, 0xb019c2fb),
     (0xd9907f71, 0xdb6880c1), (0x3aa4a793, 0xa4a575f5), (0x128ea7a2, 0xa4a575f5),
     (0xe789b5a5, 0xa4a575f5)]"

text \<open>
  \<open>hash mem n\<close> is \<open>adler32_z\<close> of zlib on the first \<open>n\<close> bytes of a memory; \<open>stop_bad\<close> and \<open>stop_old\<close>
  are the user's answers to the two questions.  The loop keeps the last matching index.
\<close>

definition rom_index :: "u32 \<Rightarrow> u32 \<Rightarrow> int" where
  "rom_index hash_irom hash_drom =
     fold (\<lambda>i idx. if hash_irom = fst (known_roms ! i) \<and> hash_drom = snd (known_roms ! i)
                   then int i else idx) [0..<length known_roms] (- 1)"

definition VerifyRoms ::
    "((nat \<Rightarrow> u16) \<Rightarrow> nat \<Rightarrow> u32) \<Rightarrow> bool \<Rightarrow> bool \<Rightarrow> 'a SDSP_scheme \<Rightarrow> bool" where
  "VerifyRoms hash stop_bad stop_old s =
     (let hash_irom = hash (irom s) 0x2000;
          hash_drom = hash (coef s) 0x1000;
          rom_idx = rom_index hash_irom hash_drom
      in if rom_idx < 0 \<and> stop_bad then False
         else if rom_idx \<ge> 1 \<and> rom_idx \<le> 5 \<and> stop_old then False
         else True)"

definition zero_regs :: DSP_Regs where
  "zero_regs = \<lparr>ar = \<lambda>_. 0, ix = \<lambda>_. 0, wr = \<lambda>_. 0, st = \<lambda>_. 0, cr = 0, sr = 0, prod = 0,
     ax = \<lambda>_. 0, ac = \<lambda>_. 0\<rparr>"

definition SDSP_Initialize ::
    "((nat \<Rightarrow> u16) \<Rightarrow> nat \<Rightarrow> u32) \<Rightarrow> bool \<Rightarrow> bool \<Rightarrow> (nat \<Rightarrow> u16) \<Rightarrow> (nat \<Rightarrow> u16)
      \<Rightarrow> 'a SDSP_scheme \<Rightarrow> bool \<times> 'a SDSP_scheme" where
  "SDSP_Initialize hash stop_bad stop_old irom_contents coef_contents s =
     (let s = s\<lparr>m_step_counter := 0, m_accelerator := init_accelerator\<rparr>;
          s = s\<lparr>irom := irom_contents, coef := coef_contents\<rparr>
      in if \<not> VerifyRoms hash stop_bad stop_old s then (False, s)
         else
           let s = s\<lparr>regs := zero_regs, reg_stack_ptrs := \<lambda>_. 0, reg_stacks := \<lambda>_ _. 0\<rparr>;
               s = s\<lparr>iram := \<lambda>_. 0x0021, dram := \<lambda>_. 0\<rparr>;
               s = regs_update (wr_update (\<lambda>_ _. 0xffff)) s;
               s = SetSRFlag SR_INT_ENABLE s;
               s = SetSRFlag SR_EXT_INT_ENABLE s;
               s = s\<lparr>control_reg := CR_INIT OR CR_HALT\<rparr>
           in (True, InitializeIFX s))"

definition SDSP_Reset :: "'a SDSP_scheme \<Rightarrow> 'a SDSP_scheme" where
  "SDSP_Reset s =
     (let s = s\<lparr>pc := DSP_RESET_VECTOR\<rparr> in regs_update (wr_update (\<lambda>_ _. 0xffff)) s)"

section \<open>Exceptions\<close>

definition SetExternalInterrupt :: "bool \<Rightarrow> 'a SDSP_scheme \<Rightarrow> 'a SDSP_scheme" where
  "SetExternalInterrupt val s = s\<lparr>external_interrupt_waiting := val\<rparr>"

definition CheckExternalInterrupt :: "'a SDSP_scheme \<Rightarrow> 'a SDSP_scheme" where
  "CheckExternalInterrupt s =
     (if \<not> IsSRFlagSet s SR_EXT_INT_ENABLE then s
      else let s = SetException ExternalInterrupt s
           in s\<lparr>control_reg := control_reg s AND NOT CR_EXTERNAL_INT\<rparr>)"

text \<open>The body of the loop of \<open>CheckExceptions\<close> that enters the handler of exception \<open>i\<close>.\<close>

definition enter_exception :: "nat \<Rightarrow> 'a SDSP_scheme \<Rightarrow> 'a SDSP_scheme" where
  "enter_exception i s =
     (let s = StoreStack Call (pc s) s;
          s = StoreStack Data (sr (regs s)) s;
          s = s\<lparr>pc := of_nat (i * 2), exceptions := exceptions s AND NOT (push_bit i 1)\<rparr>
      in if i = 7 then set_sr (sr (regs s) AND NOT SR_EXT_INT_ENABLE) s
         else set_sr (sr (regs s) AND NOT SR_INT_ENABLE) s)"

fun check_exceptions :: "nat \<Rightarrow> 'a SDSP_scheme \<Rightarrow> bool \<times> 'a SDSP_scheme" where
  "check_exceptions 0 s = (False, s)"
| "check_exceptions (Suc n) s =
     (let i = Suc n in
      if exceptions s AND push_bit i 1 \<noteq> 0 then
        if IsSRFlagSet s SR_INT_ENABLE \<or> i = exception_code ExternalInterrupt
        then (True, enter_exception i s)
        else check_exceptions n s
      else check_exceptions n s)"

definition CheckExceptions :: "'a SDSP_scheme \<Rightarrow> bool \<times> 'a SDSP_scheme" where
  "CheckExceptions s = (if exceptions s = 0 then (False, s) else check_exceptions 7 s)"

section \<open>Registers from outside\<close>

definition ReadRegister :: "int \<Rightarrow> 'a SDSP_scheme \<Rightarrow> u16" where
  "ReadRegister reg s =
     (let r = regs s in
      if DSP_REG_AR0 \<le> reg \<and> reg \<le> DSP_REG_AR3 then ar r (nat (reg - DSP_REG_AR0))
      else if DSP_REG_IX0 \<le> reg \<and> reg \<le> DSP_REG_IX3 then ix r (nat (reg - DSP_REG_IX0))
      else if DSP_REG_WR0 \<le> reg \<and> reg \<le> DSP_REG_WR3 then wr r (nat (reg - DSP_REG_WR0))
      else if DSP_REG_ST0 \<le> reg \<and> reg \<le> DSP_REG_ST3 then st r (nat (reg - DSP_REG_ST0))
      else if DSP_REG_ACH0 \<le> reg \<and> reg \<le> DSP_REG_ACH1 then
        ucast (ac_h (ac r (nat (reg - DSP_REG_ACH0))))
      else if reg = DSP_REG_CR then cr r
      else if reg = DSP_REG_SR then sr r
      else if reg = DSP_REG_PRODL then prod_l (prod r)
      else if reg = DSP_REG_PRODM then prod_m (prod r)
      else if reg = DSP_REG_PRODH then prod_h (prod r)
      else if reg = DSP_REG_PRODM2 then prod_m2 (prod r)
      else if DSP_REG_AXL0 \<le> reg \<and> reg \<le> DSP_REG_AXL1 then ax_l (ax r (nat (reg - DSP_REG_AXL0)))
      else if DSP_REG_AXH0 \<le> reg \<and> reg \<le> DSP_REG_AXH1 then ax_h (ax r (nat (reg - DSP_REG_AXH0)))
      else if DSP_REG_ACL0 \<le> reg \<and> reg \<le> DSP_REG_ACL1 then ac_l (ac r (nat (reg - DSP_REG_ACL0)))
      else if DSP_REG_ACM0 \<le> reg \<and> reg \<le> DSP_REG_ACM1 then ac_m (ac r (nat (reg - DSP_REG_ACM0)))
      else 0)"

definition WriteRegister :: "int \<Rightarrow> u16 \<Rightarrow> 'a SDSP_scheme \<Rightarrow> 'a SDSP_scheme" where
  "WriteRegister reg val s =
     (if DSP_REG_AR0 \<le> reg \<and> reg \<le> DSP_REG_AR3 then set_ar (nat (reg - DSP_REG_AR0)) val s
      else if DSP_REG_IX0 \<le> reg \<and> reg \<le> DSP_REG_IX3 then set_ix (nat (reg - DSP_REG_IX0)) val s
      else if DSP_REG_WR0 \<le> reg \<and> reg \<le> DSP_REG_WR3 then set_wr (nat (reg - DSP_REG_WR0)) val s
      else if DSP_REG_ST0 \<le> reg \<and> reg \<le> DSP_REG_ST3 then set_st (nat (reg - DSP_REG_ST0)) val s
      else if DSP_REG_ACH0 \<le> reg \<and> reg \<le> DSP_REG_ACH1 then
        upd_ac (nat (reg - DSP_REG_ACH0)) (put_ac_h (ucast val)) s
      else if reg = DSP_REG_CR then set_cr val s
      else if reg = DSP_REG_SR then set_sr val s
      else if reg = DSP_REG_PRODL then upd_prod (put16 0 val) s
      else if reg = DSP_REG_PRODM then upd_prod (put16 16 val) s
      else if reg = DSP_REG_PRODH then upd_prod (put16 32 val) s
      else if reg = DSP_REG_PRODM2 then upd_prod (put16 48 val) s
      else if DSP_REG_AXL0 \<le> reg \<and> reg \<le> DSP_REG_AXL1 then
        upd_ax (nat (reg - DSP_REG_AXL0)) (put16 0 val) s
      else if DSP_REG_AXH0 \<le> reg \<and> reg \<le> DSP_REG_AXH1 then
        upd_ax (nat (reg - DSP_REG_AXH0)) (put16 16 val) s
      else if DSP_REG_ACL0 \<le> reg \<and> reg \<le> DSP_REG_ACL1 then
        upd_ac (nat (reg - DSP_REG_ACL0)) (put16 0 val) s
      else if DSP_REG_ACM0 \<le> reg \<and> reg \<le> DSP_REG_ACM1 then
        upd_ac (nat (reg - DSP_REG_ACM0)) (put16 16 val) s
      else s)"

end
