(* ===== verification/Dsp_Interpreter.thy ===== *)
theory Dsp_Interpreter
  imports Dsp_IntTables Dsp_Core
begin

text \<open>
  The interpreter loop (Source/Core/Core/DSP/Interpreter/DSPInterpreter.cpp), the control register
  shared with the CPU, and the object that owns both (class \<open>DSPCore\<close> of DSPCore.cpp, without the
  recompiler).  The three run functions count cycles down; they are total functions here, which is
  the statement that the loops \<open>while (true)\<close> of the code always return.
\<close>

unbundle bit_operations_syntax

section \<open>One instruction\<close>

definition ExecuteInstruction :: "u16 \<Rightarrow> Interpreter \<Rightarrow> Interpreter result" where
  "ExecuteInstruction inst s =
     (let opcode_template = GetOpTemplate inst in
      bindE (if extended opcode_template then GetExtOp inst inst s else Inr s)
        (\<lambda>s. bindE (GetOp inst inst s)
          (\<lambda>s. if extended opcode_template then ApplyWriteBackLog s else Inr s)))"

definition Step :: "Interpreter \<Rightarrow> Interpreter result" where
  "Step s =
     (let s = snd (CheckExceptions s);
          s = s\<lparr>m_step_counter := m_step_counter s + 1\<rparr>;
          (opc, s) = FetchInstruction s
      in bindE (ExecuteInstruction opc s)
           (\<lambda>s. if IsLoopEnd (m_code_flags s) (pc s - 1) then Inr (HandleLoop s) else Inr s))"

section \<open>Running\<close>

definition halted :: "'a SDSP_scheme \<Rightarrow> bool" where
  "halted s \<longleftrightarrow> control_reg s AND CR_HALT \<noteq> 0"

text \<open>Thread mode; every iteration first accepts an external interrupt that is waiting.\<close>

definition accept_interrupt :: "'a SDSP_scheme \<Rightarrow> 'a SDSP_scheme" where
  "accept_interrupt s =
     (let waiting = external_interrupt_waiting s;
          s = s\<lparr>external_interrupt_waiting := False\<rparr>
      in if waiting then CheckExternalInterrupt s else s)"

function RunCyclesThread :: "int \<Rightarrow> Interpreter \<Rightarrow> (int \<times> Interpreter) result" where
  "RunCyclesThread cycles s =
     (if halted s then Inr (0, s)
      else case Step (accept_interrupt s) of
             Inl e \<Rightarrow> Inl e
           | Inr s \<Rightarrow> if cycles - 1 \<le> 0 then Inr (0, s) else RunCyclesThread (cycles - 1) s)"
  by pat_completeness auto
termination by (relation "measure (\<lambda>(cycles, s). nat cycles)") auto

declare RunCyclesThread.simps [simp del]

text \<open>
  Time-sliced mode: eight cycles without idle skipping, then rounds of eight cycles with idle
  skipping and 200 cycles without it.  The phases are the three \<open>for\<close> loops.
\<close>

datatype phase = Startup | IdleCheck | Free

fun phase_limit :: "phase \<Rightarrow> nat" where
  "phase_limit Startup = 8"
| "phase_limit IdleCheck = 8"
| "phase_limit Free = 200"

fun next_phase :: "phase \<Rightarrow> phase" where
  "next_phase Startup = IdleCheck"
| "next_phase IdleCheck = Free"
| "next_phase Free = IdleCheck"

lemma phase_limit_pos [simp]: "0 < phase_limit ph"
  by (cases ph) auto

function run_phase :: "phase \<Rightarrow> nat \<Rightarrow> int \<Rightarrow> Interpreter \<Rightarrow> (int \<times> Interpreter) result" where
  "run_phase ph i cycles s =
     (if i \<ge> phase_limit ph then run_phase (next_phase ph) 0 cycles s
      else if ph \<noteq> Free \<and> halted s then Inr (0, s)
      else if ph = IdleCheck \<and> IsIdleSkip (m_code_flags s) (pc s) then Inr (0, s)
      else case Step s of
             Inl e \<Rightarrow> Inl e
           | Inr s \<Rightarrow> if cycles - 1 \<le> 0 then Inr (0, s) else run_phase ph (i + 1) (cycles - 1) s)"
  by pat_completeness auto
termination
  by (relation "measure (\<lambda>(ph, i, cycles, s). 2 * nat cycles + (if i \<ge> phase_limit ph then 1 else 0))")
    auto

declare run_phase.simps [simp del]

definition RunCycles :: "int \<Rightarrow> Interpreter \<Rightarrow> (int \<times> Interpreter) result" where
  "RunCycles cycles s = run_phase Startup 0 cycles s"

text \<open>
  The debug variant stops at a breakpoint, with the cycles that are left; the flag says that it
  asked for the state \<open>Stepping\<close>.
\<close>

function run_phase_debug ::
    "(u16 \<Rightarrow> bool) \<Rightarrow> phase \<Rightarrow> nat \<Rightarrow> int \<Rightarrow> Interpreter \<Rightarrow> (int \<times> bool \<times> Interpreter) result" where
  "run_phase_debug bp ph i cycles s =
     (if i \<ge> phase_limit ph then run_phase_debug bp (next_phase ph) 0 cycles s
      else if ph \<noteq> Free \<and> halted s then Inr (0, False, s)
      else if bp (pc s) then Inr (cycles, True, s)
      else if ph = IdleCheck \<and> IsIdleSkip (m_code_flags s) (pc s) then Inr (0, False, s)
      else case Step s of
             Inl e \<Rightarrow> Inl e
           | Inr s \<Rightarrow> if cycles - 1 \<le> 0 then Inr (0, False, s)
                      else run_phase_debug bp ph (i + 1) (cycles - 1) s)"
  by pat_completeness auto
termination
  by (relation "measure (\<lambda>(bp, ph, i, cycles, s). 2 * nat cycles + (if i \<ge> phase_limit ph then 1 else 0))")
    auto

declare run_phase_debug.simps [simp del]

definition RunCyclesDebug ::
    "(u16 \<Rightarrow> bool) \<Rightarrow> int \<Rightarrow> Interpreter \<Rightarrow> (int \<times> bool \<times> Interpreter) result" where
  "RunCyclesDebug bp cycles s = run_phase_debug bp Startup 0 cycles s"

section \<open>The control register\<close>

definition DSPCore_Reset :: "'a SDSP_scheme \<Rightarrow> 'a SDSP_scheme result" where
  "DSPCore_Reset s = analyze_code (SDSP_Reset s)"

text \<open>\<open>now\<close> is the time base (\<open>GetFakeTimeBase\<close>).\<close>

definition WriteControlRegister :: "u64 \<Rightarrow> u16 \<Rightarrow> 'a SDSP_scheme \<Rightarrow> 'a SDSP_scheme result" where
  "WriteControlRegister now val s =
     bindE (if val AND CR_RESET \<noteq> 0 then DSPCore_Reset s else Inr s)
       (\<lambda>s. let val = (if val AND CR_RESET \<noteq> 0 then val AND NOT CR_RESET else val)
             in if control_reg s AND CR_INIT \<noteq> 0 \<and> val AND CR_INIT = 0
                then bindE (DMAToDSP (host s) 0 0x81000000 0x1000 (iram s))
                       (\<lambda>mem. bindE (CodeLoaded 0x81000000 0x1000 (s\<lparr>pc := 0, iram := mem\<rparr>))
                         (\<lambda>s. let val = val AND NOT CR_INIT; val = val OR CR_INIT_CODE
                              in Inr (s\<lparr>control_reg_init_code_clear_time := now + 130,
                                        control_reg := val\<rparr>)))
                else Inr (s\<lparr>control_reg := val\<rparr>))"

definition ReadControlRegister :: "u64 \<Rightarrow> 'a SDSP_scheme \<Rightarrow> u16 \<times> 'a SDSP_scheme" where
  "ReadControlRegister now s =
     (let s = (if control_reg s AND CR_INIT_CODE \<noteq> 0
               then if now \<ge> control_reg_init_code_clear_time s
                    then s\<lparr>control_reg := control_reg s AND NOT CR_INIT_CODE\<rparr>
                    else s\<lparr>host := (host s)\<lparr>host_events := host_events (host s) @ [ForceExceptionCheck 50]\<rparr>\<rparr>
               else s)
      in (control_reg s, s))"

section \<open>The core object\<close>

datatype State = Stopped | Running | Stepping

type_synonym breakpoints = "u16 \<Rightarrow> u8"

definition IsAddressBreakPoint :: "breakpoints \<Rightarrow> u16 \<Rightarrow> bool" where
  "IsAddressBreakPoint b a \<longleftrightarrow> b a \<noteq> 0"

definition AddBreakPoint :: "u16 \<Rightarrow> bool \<Rightarrow> breakpoints \<Rightarrow> bool \<times> breakpoints" where
  "AddBreakPoint a temp b = (if b a \<noteq> 0 then (False, b) else (True, b(a := if temp then 2 else 1)))"

definition RemoveBreakPoint :: "u16 \<Rightarrow> breakpoints \<Rightarrow> bool \<times> breakpoints" where
  "RemoveBreakPoint a b = (b a \<noteq> 0, b(a := 0))"

definition ClearBreakPoints :: "breakpoints \<Rightarrow> breakpoints" where
  "ClearBreakPoints b = (\<lambda>_. 0)"

record DSPCore =
  m_dsp :: Interpreter
  m_core_state :: State
  m_init_hax :: bool

definition Core_Initialize ::
    "((nat \<Rightarrow> u16) \<Rightarrow> nat \<Rightarrow> u32) \<Rightarrow> bool \<Rightarrow> bool \<Rightarrow> (nat \<Rightarrow> u16) \<Rightarrow> (nat \<Rightarrow> u16)
      \<Rightarrow> DSPCore \<Rightarrow> bool \<times> DSPCore" where
  "Core_Initialize hash stop_bad stop_old irom_contents coef_contents c =
     (let (ok, d) = SDSP_Initialize hash stop_bad stop_old irom_contents coef_contents (m_dsp c);
          c = c\<lparr>m_dsp := d\<rparr>
      in if \<not> ok then (False, c) else (True, c\<lparr>m_init_hax := False, m_core_state := Running\<rparr>))"

definition Core_Shutdown :: "DSPCore \<Rightarrow> DSPCore" where
  "Core_Shutdown c = (if m_core_state c = Stopped then c else c\<lparr>m_core_state := Stopped\<rparr>)"

definition SetState :: "State \<Rightarrow> DSPCore \<Rightarrow> DSPCore" where
  "SetState new_state c = c\<lparr>m_core_state := new_state\<rparr>"

text \<open>
  \<open>DSPCore::RunCycles\<close> in a release build and without the recompiler.  No other thread changes
  \<open>m_core_state\<close> during the call; \<open>steps\<close> is the number of step events that arrive.  Waiting for an
  event that never comes, and the loop of the state \<open>Stopped\<close>, are the value \<open>None\<close>.
\<close>

partial_function (option) Core_RunCycles ::
    "nat \<Rightarrow> int \<Rightarrow> DSPCore \<Rightarrow> (int \<times> DSPCore) result option" where
  [code]: "Core_RunCycles steps cycles c =
     (if cycles > 0
      then case m_core_state c of
             Running \<Rightarrow> (case RunCycles cycles (m_dsp c) of
                 Inl e \<Rightarrow> Some (Inl e)
               | Inr (n, d) \<Rightarrow> Core_RunCycles steps n (c\<lparr>m_dsp := d\<rparr>))
           | Stepping \<Rightarrow> (case steps of 0 \<Rightarrow> None
               | Suc k \<Rightarrow> (case Step (m_dsp c) of
                   Inl e \<Rightarrow> Some (Inl e)
                 | Inr d \<Rightarrow> Core_RunCycles k (cycles - 1) (c\<lparr>m_dsp := d\<rparr>)))
           | Stopped \<Rightarrow> Core_RunCycles steps cycles c
      else Some (Inr (cycles, c)))"

end
