(* ===== verification/Dsp_Decode_Facts.thy ===== *)
theory Dsp_Decode_Facts
  imports Dsp_Interpreter
begin

text \<open>
  The two decoders against each other: the template table of DSPTables.cpp, from which the analyser
  takes instruction sizes, and the dispatch table of DSPIntTables.cpp.  They cover the same opcode
  words; the dispatch table has no overlapping entries either; and the number of words an
  instruction of the interpreter consumes is the size in its template.
\<close>

unbundle bit_operations_syntax

section \<open>The dispatch table as patterns\<close>

text \<open>
  The entries of the dispatch table without their functions: opcode, mask, and how far the function
  moves the program counter (\<open>None\<close> for branches and loops).
\<close>

datatype decode_row = Row (row_opcode: u16) (row_mask: u16) (row_words: "u16 option")

definition i_rows :: "decode_row list" where
  "i_rows = [     Row 0x0000 0xfffc (Some 0),
     Row 0x0004 0xfffc (Some 0),
     Row 0x0008 0xfffc (Some 0),
     Row 0x000c 0xfffc (Some 0),
     Row 0x0010 0xfff0 (Some 0),
     Row 0x0021 0xffff None,
     Row 0x02d0 0xfff0 None,
     Row 0x02f0 0xfff0 None,
     Row 0x02b0 0xfff0 None,
     Row 0x0270 0xfff0 None,
     Row 0x0290 0xfff0 None,
     Row 0x1700 0xff10 None,
     Row 0x1710 0xff10 None,
     Row 0x1200 0xff00 (Some 0),
     Row 0x1300 0xff00 (Some 0),
     Row 0x1400 0xfec0 (Some 0),
     Row 0x1440 0xfec0 (Some 0),
     Row 0x1480 0xfec0 (Some 0),
     Row 0x14c0 0xfec0 (Some 0),
     Row 0x02ca 0xffff (Some 0),
     Row 0x02cb 0xffff (Some 0),
     Row 0x0080 0xffe0 (Some 1),
     Row 0x00c0 0xffe0 (Some 1),
     Row 0x00e0 0xffe0 (Some 1),
     Row 0x1c00 0xfc00 (Some 0),
     Row 0x1600 0xff00 (Some 1),
     Row 0x0400 0xfe00 (Some 0),
     Row 0x0600 0xfe00 (Some 0),
     Row 0x0800 0xf800 (Some 0),
     Row 0x0200 0xfeff (Some 1),
     Row 0x0220 0xfeff (Some 1),
     Row 0x0240 0xfeff (Some 1),
     Row 0x0260 0xfeff (Some 1),
     Row 0x0280 0xfeff (Some 1),
     Row 0x02a0 0xfeff (Some 1),
     Row 0x02c0 0xfeff (Some 1),
     Row 0x0210 0xfefc (Some 0),
     Row 0x0214 0xfefc (Some 0),
     Row 0x0218 0xfefc (Some 0),
     Row 0x021c 0xfefc (Some 0),
     Row 0x0040 0xffe0 None,
     Row 0x0060 0xffe0 None,
     Row 0x1000 0xff00 None,
     Row 0x1100 0xff00 None,
     Row 0x1800 0xff80 (Some 0),
     Row 0x1880 0xff80 (Some 0),
     Row 0x1900 0xff80 (Some 0),
     Row 0x1980 0xff80 (Some 0),
     Row 0x1a00 0xff80 (Some 0),
     Row 0x1a80 0xff80 (Some 0),
     Row 0x1b00 0xff80 (Some 0),
     Row 0x1b80 0xff80 (Some 0),
     Row 0x2000 0xf800 (Some 0),
     Row 0x2800 0xfe00 (Some 0),
     Row 0x2c00 0xfc00 (Some 0),
     Row 0x3000 0xfc80 (Some 0),
     Row 0x3400 0xfc80 (Some 0),
     Row 0x3800 0xfc80 (Some 0),
     Row 0x3c00 0xfe80 (Some 0),
     Row 0x3e00 0xfe80 (Some 0),
     Row 0x3080 0xfe80 (Some 0),
     Row 0x3280 0xfe80 (Some 0),
     Row 0x3480 0xfc80 (Some 0),
     Row 0x3880 0xfc80 (Some 0),
     Row 0x3c80 0xfe80 (Some 0),
     Row 0x3e80 0xfe80 (Some 0),
     Row 0x4000 0xf800 (Some 0),
     Row 0x4800 0xfc00 (Some 0),
     Row 0x4c00 0xfe00 (Some 0),
     Row 0x4e00 0xfe00 (Some 0),
     Row 0x5000 0xf800 (Some 0),
     Row 0x5800 0xfc00 (Some 0),
     Row 0x5c00 0xfe00 (Some 0),
     Row 0x5e00 0xfe00 (Some 0),
     Row 0x6000 0xf800 (Some 0),
     Row 0x6800 0xfc00 (Some 0),
     Row 0x6c00 0xfe00 (Some 0),
     Row 0x6e00 0xfe00 (Some 0),
     Row 0x7000 0xfc00 (Some 0),
     Row 0x7400 0xfe00 (Some 0),
     Row 0x7600 0xfe00 (Some 0),
     Row 0x7800 0xfe00 (Some 0),
     Row 0x7a00 0xfe00 (Some 0),
     Row 0x7c00 0xfe00 (Some 0),
     Row 0x7e00 0xfe00 (Some 0),
     Row 0x8000 0xf700 (Some 0),
     Row 0x8100 0xf700 (Some 0),
     Row 0x8200 0xff00 (Some 0),
     Row 0x8300 0xff00 (Some 0),
     Row 0x8400 0xff00 (Some 0),
     Row 0x8500 0xff00 (Some 0),
     Row 0x8600 0xfe00 (Some 0),
     Row 0x8a00 0xff00 (Some 0),
     Row 0x8b00 0xff00 (Some 0),
     Row 0x8c00 0xff00 (Some 0),
     Row 0x8d00 0xff00 (Some 0),
     Row 0x8e00 0xff00 (Some 0),
     Row 0x8f00 0xff00 (Some 0),
     Row 0x9000 0xf700 (Some 0),
     Row 0x9100 0xf700 (Some 0),
     Row 0x9200 0xf600 (Some 0),
     Row 0x9400 0xf600 (Some 0),
     Row 0x9600 0xf600 (Some 0),
     Row 0xa000 0xe700 (Some 0),
     Row 0xa100 0xf700 (Some 0),
     Row 0xa200 0xe600 (Some 0),
     Row 0xa400 0xe600 (Some 0),
     Row 0xa600 0xe600 (Some 0),
     Row 0xb100 0xf700 (Some 0),
     Row 0xc000 0xe700 (Some 0),
     Row 0xc100 0xe700 (Some 0),
     Row 0xc200 0xe600 (Some 0),
     Row 0xc400 0xe600 (Some 0),
     Row 0xc600 0xe600 (Some 0),
     Row 0xe000 0xfc00 (Some 0),
     Row 0xe400 0xfc00 (Some 0),
     Row 0xe800 0xfc00 (Some 0),
     Row 0xec00 0xfc00 (Some 0),
     Row 0xf000 0xfe00 (Some 0),
     Row 0xf200 0xfe00 (Some 0),
     Row 0xf400 0xfe00 (Some 0),
     Row 0xf600 0xfe00 (Some 0),
     Row 0xf800 0xfc00 (Some 0),
     Row 0xfc00 0xfe00 (Some 0),
     Row 0xfe00 0xfe00 (Some 0)]"

lemma i_rows_masks: "masks_ok row_mask row_opcode i_rows"
  by code_simp

lemma i_rows_one_match: "at_most_one 16 (unlabelled (patterns row_mask row_opcode i_rows))"
  by code_simp

interpretation itab: opcode_table row_mask row_opcode i_rows
  by unfold_locales (fact i_rows_masks i_rows_one_match)+

section \<open>How far instructions move the program counter\<close>

definition advances :: "u16 \<Rightarrow> InterpreterFunction \<Rightarrow> bool" where
  "advances n f \<longleftrightarrow> (\<forall>opc s. okE (\<lambda>r. pc r = pc s + n) (f opc s))"

lemma pc_raise_events [simp]: "pc (raise_events ev s) = pc s"
  unfolding raise_events_def by (induction ev arbitrary: s) (simp_all add: SetException_def)

lemma pc_stacks [simp]: "pc (StoreStack k v s) = pc s" "pc (snd (PopStack k s)) = pc s"
  by (simp_all add: StoreStack_def PopStack_def Let_def)

lemma pc_ReadDMEM [simp]: "pc (snd (ReadDMEM a s)) = pc s"
  by (simp add: ReadDMEM_def ReadIFX_def ReadIFXImpl_def Let_def ReadMailboxLow_def read_accel_def case_prod_beta)

lemma pc_analyze_code: "okE (\<lambda>r. pc r = pc s) (analyze_code s)"
  by (auto simp: analyze_code_def split: option.split)

lemma pc_bindE: "okE (\<lambda>x. okE (\<lambda>r. pc r = n) (f x)) m \<Longrightarrow> okE (\<lambda>r. pc r = n) (bindE m f)"
  by (rule okE_bindE)

lemma pc_CodeLoaded: "okE (\<lambda>r. pc r = pc s) (CodeLoaded adr sz s)"
proof (cases "code_bytes (host s) adr sz")
  case (Inr b)
  then show ?thesis
    using pc_analyze_code [of "s\<lparr>m_iram_crc := HashEctor b\<rparr>"] by (simp add: CodeLoaded_def SetIRAMCRC_def)
qed (simp add: CodeLoaded_def)

lemma pc_DoDMA: "okE (\<lambda>r. pc r = pc s) (DoDMA s)"
proof -
  have "okE (\<lambda>r. pc r = pc s) (IDMAIn d a l s)" for d a l
    using pc_CodeLoaded [of "s\<lparr>iram := mem\<rparr>" a "unat l" for mem]
    unfolding IDMAIn_def by (cases "DMAToDSP (host s) (unat d div 2) a (unat l) (iram s)") simp_all
  moreover have "okE (\<lambda>r. pc r = pc s) (DDMAIn d a l s)" for d a l
    unfolding DDMAIn_def by (cases "DMAToDSP (host s) (unat d div 2) a (unat l) (dram s)") simp_all
  moreover have "okE (\<lambda>r. pc r = pc s) (DDMAOut d a l s)" for d a l
    unfolding DDMAOut_def by (cases "DMAFromDSP (unat d div 2) a (unat l) (dram s) (host s)") simp_all
  ultimately show ?thesis by (simp add: DoDMA_def Let_def IDMAOut_def)
qed

lemma pc_WriteDMEM: "okE (\<lambda>r. pc r = pc s) (WriteDMEM a v s)"
proof -
  have dma: "okE (\<lambda>r. pc r = pc s) (bindE (DoDMA t) (\<lambda>r. Inr (set_ifx i x (set_ifx j (y r) r))))"
    if "pc t = pc s" for t i x j and y :: "'a SDSP_scheme \<Rightarrow> u16"
    using pc_DoDMA [of t] that by (cases "DoDMA t") (simp_all add: set_ifx_def)
  show ?thesis
    by (auto simp: WriteDMEM_def WriteIFX_def Let_def set_ifx_def [of DSP_DSBL v] write_raw_def
        case_prod_beta WriteMailboxHigh_def WriteMailboxLow_def intro!: dma)
       (simp_all add: set_ifx_def)
qed

lemma pc_OpReadRegister [simp]: "pc (snd (OpReadRegister r s)) = pc s"
  by (simp add: OpReadRegister_def Let_def)

lemma pc_OpWriteRegister [simp]: "pc (OpWriteRegister r v s) = pc s"
  by (simp add: OpWriteRegister_def Let_def)

lemma pc_helpers [simp]:
  "pc (ConditionalExtendAccum r s) = pc s" "pc (SetLongAcc d a s) = pc s" "pc (SetLongProduct p s) = pc s"
  "pc (UpdateSR16 v c ov o32 s) = pc s" "pc (UpdateSR64 a c ov s) = pc s"
  "pc (UpdateSR64Add a b c' s) = pc s" "pc (UpdateSR64Sub a b c' s) = pc s" "pc (UpdateSRLogicZero z s) = pc s"
  "pc (snd (FetchInstruction s)) = pc s + 1" "pc (load_ar i r s) = pc s" "pc (load_imem i j s) = pc s"
  "ZeroWriteBackLog s = s" "ZeroWriteBackLogPreserveAcc d s = s"
  by (simp_all add: ConditionalExtendAccum_def SetLongAcc_def SetLongProduct_def UpdateSR16_def
      UpdateSR64_def UpdateSR64Add_def UpdateSR64Sub_def UpdateSRLogicZero_def FetchInstruction_def
      load_ar_def load_imem_def ZeroWriteBackLog_def ZeroWriteBackLogPreserveAcc_def Let_def case_prod_beta)

lemma advances_total: "(\<And>opc s. pc (f opc s) = pc s + n) \<Longrightarrow> advances n (total f)"
  by (simp add: advances_def total_def)

lemma pc_WriteDMEM_eq: "pc s = n \<Longrightarrow> okE (\<lambda>r. pc r = n) (WriteDMEM a v s)"
  using pc_WriteDMEM by blast

lemma pc_store_ar: "okE (\<lambda>r. pc r = pc s) (store_ar i r s)"
  by (simp add: store_ar_def Let_def case_prod_beta pc_WriteDMEM_eq)

lemma pc_store_ar_bind: "okE (\<lambda>r. pc r = pc s) (bindE (store_ar i r s) (\<lambda>s. Inr (set_ar d (x s) s)))"
  using pc_store_ar [of s i r] by (cases "store_ar i r s") simp_all

lemmas pc_simps = Let_def case_prod_beta pc_WriteDMEM_eq pc_store_ar pc_store_ar_bind advances_def

lemma advances_total_1:
  "advances 0 (total nop)"
  "advances 0 (total dar)"
  "advances 0 (total iar)"
  "advances 0 (total subarn)"
  "advances 0 (total addarn)"
  "advances 0 (total sbclr)"
  "advances 0 (total sbset)"
  "advances 0 (total lsl)"
  "advances 0 (total lsr)"
  "advances 0 (total asl)"
  "advances 0 (total asr)"
  "advances 0 (total lsrn)"
  "advances 0 (total asrn)"
  "advances 1 (total lri)"
  "advances 1 (total lr)"
  "advances 0 (total mrr)"
  "advances 0 (total addis)"
  "advances 0 (total cmpis)"
  "advances 0 (total lris)"
  "advances 1 (total addi)"
  by (rule advances_total; simp add: pc_simps nop_def dar_def iar_def subarn_def addarn_def
      sbclr_def sbset_def lsl_def lsr_def asl_def asr_def lsrn_def asrn_def lri_def lr_def mrr_def
      addis_def cmpis_def lris_def addi_def)+

lemma advances_total_2:
  "advances 1 (total xori)"
  "advances 1 (total andi)"
  "advances 1 (total ori)"
  "advances 1 (total cmpi)"
  "advances 1 (total andf)"
  "advances 1 (total andcf)"
  "advances 0 (total ilrr)"
  "advances 0 (total ilrrd)"
  "advances 0 (total ilrri)"
  "advances 0 (total ilrrn)"
  "advances 0 (total lrr)"
  "advances 0 (total lrrd)"
  "advances 0 (total lrri)"
  "advances 0 (total lrrn)"
  "advances 0 (total lrs)"
  "advances 0 (total xorr)"
  "advances 0 (total andr)"
  "advances 0 (total orr)"
  "advances 0 (total andc)"
  "advances 0 (total orc)"
  by (rule advances_total; simp add: pc_simps xori_def andi_def ori_def cmpi_def andf_def
      andcf_def ilrr_def ilrrd_def ilrri_def ilrrn_def lrr_def lrrd_def lrri_def lrrn_def lrs_def
      xorr_def andr_def orr_def andc_def orc_def)+

lemma advances_total_3:
  "advances 0 (total xorc)"
  "advances 0 (total notc)"
  "advances 0 (total lsrnrx)"
  "advances 0 (total asrnrx)"
  "advances 0 (total lsrnr)"
  "advances 0 (total asrnr)"
  "advances 0 (total addr)"
  "advances 0 (total addax)"
  "advances 0 (total add)"
  "advances 0 (total addp)"
  "advances 0 (total subr)"
  "advances 0 (total subax)"
  "advances 0 (total sub)"
  "advances 0 (total subp)"
  "advances 0 (total movr)"
  "advances 0 (total movax)"
  "advances 0 (total mov)"
  "advances 0 (total movp)"
  "advances 0 (total addaxl)"
  "advances 0 (total incm)"
  by (rule advances_total; simp add: pc_simps xorc_def notc_def lsrnrx_def asrnrx_def lsrnr_def
      asrnr_def addr_def addax_def add_def addp_def subr_def subax_def sub_def subp_def movr_def
      movax_def mov_def movp_def addaxl_def incm_def)+

lemma advances_total_4:
  "advances 0 (total inc)"
  "advances 0 (total decm)"
  "advances 0 (total dec)"
  "advances 0 (total neg)"
  "advances 0 (total movnp)"
  "advances 0 (total nx)"
  "advances 0 (total clr)"
  "advances 0 (total cmp)"
  "advances 0 (total mulaxh)"
  "advances 0 (total clrp)"
  "advances 0 (total tstprod)"
  "advances 0 (total tstaxh)"
  "advances 0 (total srbith)"
  "advances 0 (total mul)"
  "advances 0 (total asr16)"
  "advances 0 (total mulmvz)"
  "advances 0 (total mulac)"
  "advances 0 (total mulmv)"
  "advances 0 (total mulx)"
  "advances 0 (total abs_op)"
  by (rule advances_total; simp add: pc_simps inc_def decm_def dec_def neg_def movnp_def nx_def
      clr_def cmp_def mulaxh_def clrp_def tstprod_def tstaxh_def srbith_def mul_def asr16_def
      mulmvz_def mulac_def mulmv_def mulx_def abs_op_def)+

lemma advances_total_5:
  "advances 0 (total mulxmvz)"
  "advances 0 (total mulxac)"
  "advances 0 (total mulxmv)"
  "advances 0 (total tst)"
  "advances 0 (total mulc)"
  "advances 0 (total cmpaxh)"
  "advances 0 (total mulcmvz)"
  "advances 0 (total mulcac)"
  "advances 0 (total mulcmv)"
  "advances 0 (total maddx)"
  "advances 0 (total msubx)"
  "advances 0 (total maddc)"
  "advances 0 (total msubc)"
  "advances 0 (total lsl16)"
  "advances 0 (total madd)"
  "advances 0 (total lsr16)"
  "advances 0 (total msub)"
  "advances 0 (total addpaxz)"
  "advances 0 (total clrl)"
  "advances 0 (total movpz)"
  by (rule advances_total; simp add: pc_simps mulxmvz_def mulxac_def mulxmv_def tst_def mulc_def
      cmpaxh_def mulcmvz_def mulcac_def mulcmv_def maddx_def msubx_def maddc_def msubc_def
      lsl16_def madd_def lsr16_def msub_def addpaxz_def clrl_def movpz_def)+

lemma advances_part:
  "advances 1 sr_op"
  "advances 1 si"
  "advances 0 srr"
  "advances 0 srrd"
  "advances 0 srri"
  "advances 0 srrn"
  "advances 0 srsh"
  "advances 0 srs"
  by (simp_all add: pc_simps sr_op_def si_def srr_def srrd_def srri_def srrn_def srsh_def srs_def)

lemmas advances = advances_part advances_total_1 advances_total_2 advances_total_3 advances_total_4 advances_total_5

section \<open>The rows describe the table\<close>

definition row_ok :: "InterpreterOpInfo \<Rightarrow> decode_row \<Rightarrow> bool" where
  "row_ok e r \<longleftrightarrow> i_opcode e = row_opcode r \<and> i_opcode_mask e = row_mask r \<and>
     (case row_words r of None \<Rightarrow> True | Some n \<Rightarrow> advances n (i_function e))"

lemma rows_ok: "list_all2 row_ok i_opcodes i_rows"
  by (simp add: i_opcodes_def i_opcodes_control_def i_opcodes_short_def i_opcodes_mem_def
      i_opcodes_logic_def i_opcodes_acc_def i_opcodes_flags_def i_opcodes_mul_def i_rows_def
      row_ok_def advances)

section \<open>Agreement\<close>

text \<open>
  Both tables with small labels: \<open>None\<close> for a branch, else whether the instruction has two words.
\<close>

definition labelled :: "('e \<Rightarrow> 'l) \<Rightarrow> ('e \<times> pattern) list \<Rightarrow> ('l \<times> pattern) list" where
  "labelled g xs = map (\<lambda>x. (g (fst x), snd x)) xs"

lemma hits_labelled: "hits (labelled g xs) bs = map g (hits xs bs)"
  unfolding labelled_def hits_def by (induction xs) auto

definition template_label :: "DSPOPCTemplate \<Rightarrow> bool option" where
  "template_label t = (if branch t then None else Some (op_size t = 2))"

definition row_label :: "decode_row \<Rightarrow> bool option" where
  "row_label r = (case row_words r of None \<Rightarrow> None | Some n \<Rightarrow> Some (n = 1))"

lemma tables_related:
  "related (\<lambda>a b. a = b) 16 (labelled template_label (patterns opcode_mask opcode s_opcodes))
     (labelled row_label (patterns row_mask row_opcode i_rows))"
  by code_simp

lemma row_words_01: "list_all (\<lambda>r. row_words r = None \<or> row_words r = Some 0 \<or> row_words r = Some 1) i_rows"
  by code_simp

lemma templates_covered:
  "covered 16 (unlabelled (patterns opcode_mask opcode s_opcodes)) (unlabelled (patterns row_mask row_opcode i_rows))"
  by code_simp

lemma rows_covered:
  "covered 16 (unlabelled (patterns row_mask row_opcode i_rows)) (unlabelled (patterns opcode_mask opcode s_opcodes))"
  by code_simp

text \<open>The rows and templates that match an opcode word.\<close>

abbreviation matching_rows :: "u16 \<Rightarrow> decode_row list" where
  "matching_rows w \<equiv> filter (\<lambda>r. w AND row_mask r = row_opcode r) i_rows"

abbreviation matching_templates :: "u16 \<Rightarrow> DSPOPCTemplate list" where
  "matching_templates w \<equiv> filter (\<lambda>t. w AND opcode_mask t = opcode t) s_opcodes"

lemma labels_agree:
  assumes "t \<in> set (matching_templates w)" and "r \<in> set (matching_rows w)"
  shows "template_label t = row_label r"
proof -
  have "template_label t \<in> set (hits (labelled template_label (patterns opcode_mask opcode s_opcodes)) (bits_of w))"
    using assms(1) by (simp add: hits_labelled hits_patterns [OF s_opcodes_masks])
  moreover have "row_label r \<in> set (hits (labelled row_label (patterns row_mask row_opcode i_rows)) (bits_of w))"
    using assms(2) by (simp add: hits_labelled hits_patterns [OF i_rows_masks])
  ultimately show ?thesis
    using related_hits [of "\<lambda>a b. a = b" "bits_of w"] tables_related by simp
qed

lemma unlabelled_lengths: "\<forall>y\<in>set (unlabelled (patterns m c es)). length (snd y) = 16"
  by (auto simp: unlabelled_def patterns_def)

lemma same_coverage: "matching_templates w = [] \<longleftrightarrow> matching_rows w = []"
proof -
  have t: "hits (unlabelled (patterns opcode_mask opcode s_opcodes)) (bits_of w) = [] \<longleftrightarrow> matching_templates w = []"
    using length_hits_unlabelled [of "patterns opcode_mask opcode s_opcodes" "bits_of w"]
    by (simp add: hits_patterns [OF s_opcodes_masks] flip: length_0_conv)
  have r: "hits (unlabelled (patterns row_mask row_opcode i_rows)) (bits_of w) = [] \<longleftrightarrow> matching_rows w = []"
    using length_hits_unlabelled [of "patterns row_mask row_opcode i_rows" "bits_of w"]
    by (simp add: hits_patterns [OF i_rows_masks] flip: length_0_conv)
  show ?thesis
    using covered_hits [of "bits_of w", OF _ _ , unfolded length_bits_of, OF templates_covered unlabelled_lengths]
      covered_hits [of "bits_of w", unfolded length_bits_of, OF rows_covered unlabelled_lengths] t r by blast
qed

text \<open>A function found in the dispatch table does what the row says.\<close>

lemma FindFunction_row:
  assumes "list_all2 row_ok es rs"
  shows "FindFunction w es = None \<longleftrightarrow> filter (\<lambda>r. w AND row_mask r = row_opcode r) rs = []"
    and "FindFunction w es = Some e \<Longrightarrow> \<exists>r\<in>set rs. w AND row_mask r = row_opcode r \<and> row_ok e r"
  using assms unfolding FindFunction_def
  by (induction es rs rule: list_all2_induct) (auto simp: row_ok_def split: if_splits)

lemma GetOp_advances:
  assumes "\<not> branch (GetOpTemplate w)"
  shows "advances (op_size (GetOpTemplate w) - 1) (GetOp w)"
proof (cases "matching_templates w = []")
  case True
  then have "FindByOpcode w s_opcodes = None"
    by (auto simp: FindByOpcode_def find_None_iff filter_empty_conv)
  moreover have "FindFunction w i_opcodes = None"
    using True same_coverage FindFunction_row(1) [OF rows_ok] by blast
  ultimately show ?thesis
    by (simp add: GetOpTemplate_def s_op_table_def cw_def GetOp_def i_op_table_def advances)
next
  case False
  then obtain t where t: "FindByOpcode w s_opcodes = Some t" and tin: "t \<in> set (matching_templates w)"
    using optab.lookup_iff [of w]
    by (cases "FindByOpcode w s_opcodes")
      (auto simp: FindByOpcode_def optab.lookup_def find_None_iff filter_empty_conv)
  then have tmpl: "GetOpTemplate w = t" by (simp add: GetOpTemplate_def s_op_table_def)
  from False have "FindFunction w i_opcodes \<noteq> None"
    using same_coverage FindFunction_row(1) [OF rows_ok] by blast
  then obtain e where e: "FindFunction w i_opcodes = Some e" by blast
  from FindFunction_row(2) [OF rows_ok this] obtain r
    where r: "r \<in> set i_rows" "w AND row_mask r = row_opcode r" "row_ok e r" by blast
  then have "template_label t = row_label r" by (intro labels_agree [OF tin]) simp
  then obtain n where n: "row_words r = Some n" "n = 1 \<longleftrightarrow> op_size t = 2"
    using assms tmpl by (auto simp: template_label_def row_label_def split: option.splits)
  have "n = 0 \<or> n = 1" using row_words_01 r(1) n(1) by (force simp: list_all_iff)
  moreover have "op_size t = 1 \<or> op_size t = 2" using op_size_cases [of w] tmpl by simp
  ultimately have "op_size t - 1 = n" using n(2) by auto
  then show ?thesis
    using r(3) n(1) by (simp add: tmpl GetOp_def i_op_table_def e row_ok_def)
qed

end
