(* ===== verification/Dsp_Invariant.thy ===== *)
theory Dsp_Invariant
  imports Dsp_Interpreter
begin

text \<open>
  What every instruction keeps.  The locale \<open>dsp_inv\<close> takes a predicate on the interpreter state and
  the ways in which instructions change it (assignments to registers with an index in range, stack
  operations, accesses to data memory) and shows once that every entry of the dispatch table keeps
  it; \<open>dsp_inv_log\<close> adds the write-back log and covers the extended opcodes, whole instructions,
  steps and runs.  Several predicates of the development are interpretations.
\<close>

unbundle bit_operations_syntax

section \<open>Fields of an opcode\<close>

lemma fld_1_less [simp]: "fld opc n 1 < 2"
  unfolding fld_def by (rule unat_and_1_less)

lemma fld_1_cases: "fld opc n 1 = 0 \<or> fld opc n 1 = 1"
  unfolding fld_def by (rule unat_and_1_cases)

lemma fld_3_less [simp]: "fld opc n 3 < 4"
  unfolding fld_def by (rule unat_and_3_less)

lemma fld_7_less [simp]: "fld opc n 7 < 8"
  unfolding fld_def by (rule unat_and_7_less)

lemma fld_31_less [simp]: "fld opc n 0x1f < 32"
  unfolding fld_def by (rule unat_and_31_less)

lemma one_minus_less_2 [simp]: "1 - (n::nat) < 2" "Suc 0 - n < 2"
  by simp_all

section \<open>Bits that register writes keep\<close>

lemma prod_h_40: "prod_h (v AND 0xFFFFFFFFFF) \<le> 0xff"
proof -
  have m: "(0xFFFFFFFFFF :: u64) = mask 40" "(0xff :: u16) = mask 8"
    by (simp_all add: mask_eq_exp_minus_1)
  have "prod_h (v AND mask 40) = prod_h v AND mask 8"
    by (rule bit_word_eqI) (auto simp: union_bits bit_simps)
  then show ?thesis unfolding m by (simp add: word_and_le1)
qed

lemma word_and_le_mask: "(v AND 0xff :: u16) \<le> 0xff"
  by (rule word_and_le1)

lemma is40_bitD: "is40 v \<Longrightarrow> 39 \<le> n \<Longrightarrow> n < 64 \<Longrightarrow> bit v n = bit v 39"
  unfolding is40_iff_bits by blast

lemma is40_put16 [simp]: "off + 16 \<le> 39 \<Longrightarrow> is40 v \<Longrightarrow> is40 (put16 off x v)"
proof -
  assume off: "off + 16 \<le> 39" and v: "is40 v"
  have same: "bit (put16 off x v) n = bit v n" if "39 \<le> n" "n < 64" for n
    using that off by (simp add: union_bits)
  show "is40 (put16 off x v)"
    unfolding is40_iff_bits
  proof (intro allI impI)
    fix n :: nat assume n: "39 \<le> n" "n < 64"
    from same [OF n] same [of 39] is40_bitD [OF v n] show "bit (put16 off x v) n = bit (put16 off x v) 39" by simp
  qed
qed

lemma is40_put_ac_h_u8 [simp]: "is40 (put_ac_h (scast (b :: u8)) v)"
proof -
  have "bit (scast b :: u32) n = bit b 7" if "7 \<le> n" "n < 32" for n
    using that by (cases "n = 7") (auto simp: bit_simps)
  then show ?thesis by (simp add: is40_iff_bits union_bits)
qed

lemma is40_put_ac_h_0 [simp]: "is40 (put_ac_h 0 v)" "is40 (put_ac_h 0xFFFFFFFF v)"
proof -
  have m: "(0xFFFFFFFF :: u32) = mask 32" by (simp add: mask_eq_exp_minus_1)
  show "is40 (put_ac_h 0 v)" by (simp add: is40_iff_bits union_bits)
  show "is40 (put_ac_h 0xFFFFFFFF v)"
    unfolding m by (auto simp: is40_iff_bits union_bits bit_simps)
qed

section \<open>The interface of an invariant\<close>

locale dsp_inv =
  fixes I :: "Interpreter \<Rightarrow> bool"
  assumes I_pc: "I s \<Longrightarrow> I (s\<lparr>pc := v\<rparr>)"
    and I_control_reg: "I s \<Longrightarrow> I (s\<lparr>control_reg := w\<rparr>)"
    and I_exceptions: "I s \<Longrightarrow> I (s\<lparr>exceptions := e\<rparr>)"
    and I_interrupt: "I s \<Longrightarrow> I (s\<lparr>external_interrupt_waiting := b\<rparr>)"
    and I_counter: "I s \<Longrightarrow> I (s\<lparr>m_step_counter := n\<rparr>)"
    and I_sr: "I s \<Longrightarrow> I (set_sr v s)"
    and I_cr: "I s \<Longrightarrow> v \<le> 0xff \<Longrightarrow> I (set_cr v s)"
    and I_ar: "I s \<Longrightarrow> i < 4 \<Longrightarrow> I (set_ar i v s)"
    and I_ix: "I s \<Longrightarrow> i < 4 \<Longrightarrow> I (set_ix i v s)"
    and I_wr: "I s \<Longrightarrow> i < 4 \<Longrightarrow> I (set_wr i v s)"
    and I_st: "I s \<Longrightarrow> i < 4 \<Longrightarrow> I (set_st i v s)"
    and I_ax: "I s \<Longrightarrow> i < 2 \<Longrightarrow> I (upd_ax i g s)"
    and I_ac: "I s \<Longrightarrow> i < 2 \<Longrightarrow> (\<And>x. is40 x \<Longrightarrow> is40 (h x)) \<Longrightarrow> I (upd_ac i h s)"
    and I_prod: "I s \<Longrightarrow> (\<And>x. prod_h x \<le> 0xff \<Longrightarrow> prod_h (h x) \<le> 0xff) \<Longrightarrow> I (upd_prod h s)"
    and I_push: "I s \<Longrightarrow> I (StoreStack k v s)"
    and I_pop: "I s \<Longrightarrow> I (snd (PopStack k s))"
    and I_read: "I s \<Longrightarrow> I (snd (ReadDMEM a s))"
    and I_write: "I s \<Longrightarrow> okE I (WriteDMEM a v s)"
begin

lemma I_if: "(b \<Longrightarrow> I x) \<Longrightarrow> (\<not> b \<Longrightarrow> I y) \<Longrightarrow> I (if b then x else y)"
  by simp

lemmas I_simple [simp] =
  I_pc I_control_reg I_exceptions I_interrupt I_counter I_sr I_ar I_ix I_wr I_st I_ax I_push I_pop I_read

lemma I_Fetch [simp]: "I s \<Longrightarrow> I (snd (FetchInstruction s))"
  by (simp add: FetchInstruction_def Let_def)

lemma I_Skip [simp]: "I s \<Longrightarrow> I (SkipInstruction s)"
  by (simp add: SkipInstruction_def)

lemma I_SetLongAcc [simp]: "I s \<Longrightarrow> i < 2 \<Longrightarrow> I (SetLongAcc i v s)"
  unfolding SetLongAcc_def by (rule I_ac) (simp_all flip: sext40_def)

lemma I_SetLongProduct [simp]: "I s \<Longrightarrow> I (SetLongProduct v s)"
  unfolding SetLongProduct_def by (rule I_prod) (simp_all add: prod_h_40)

lemma I_UpdateSR [simp]:
  "I s \<Longrightarrow> I (UpdateSR16 v16 c ov o32 s)"
  "I s \<Longrightarrow> I (UpdateSR64 v c ov s)"
  "I s \<Longrightarrow> I (UpdateSR64Add a b v s)"
  "I s \<Longrightarrow> I (UpdateSR64Sub a b v s)"
  "I s \<Longrightarrow> I (UpdateSRLogicZero q s)"
  by (simp_all add: UpdateSR16_def UpdateSR64_def UpdateSR64Add_def UpdateSR64Sub_def
      UpdateSRLogicZero_def Let_def)

lemma I_OpRead [simp]: "I s \<Longrightarrow> I (snd (OpReadRegister reg s))"
  by (simp add: OpReadRegister_def Let_def)

lemma I_OpWrite [simp]: "I s \<Longrightarrow> I (OpWriteRegister reg v s)"
proof -
  have le: "reg AND 0x1f \<le> 0x1f" by simp
  show "I s \<Longrightarrow> ?thesis"
    unfolding OpWriteRegister_def Let_def
    using le by (auto simp: I_cr word_and_le_mask nat_less_iff intro!: I_ac I_prod)
qed

lemma I_Extend [simp]: "I s \<Longrightarrow> I (ConditionalExtendAccum reg s)"
proof -
  assume s: "I s"
  have "nat (reg - DSP_REG_ACM0) < 2" if "reg = DSP_REG_ACM0 \<or> reg = DSP_REG_ACM1"
    using that by auto
  moreover have "I (upd_ac i (put16 0 0) (upd_ac i (put_ac_h (if b then 0xFFFFFFFF else 0)) s))"
    if "i < 2" for i b
    by (intro I_ac s that) auto
  ultimately show "I (ConditionalExtendAccum reg s)"
    unfolding ConditionalExtendAccum_def Let_def by (intro I_if s) blast+
qed

lemma I_accept [simp]: "I s \<Longrightarrow> I (accept_interrupt s)"
  by (simp add: accept_interrupt_def CheckExternalInterrupt_def SetException_def Let_def)

lemma I_enter [simp]: "I s \<Longrightarrow> I (enter_exception i s)"
  by (simp add: enter_exception_def Let_def)

lemma I_check_exceptions: "I s \<Longrightarrow> I (snd (check_exceptions n s))"
  by (induction n) (simp_all add: Let_def)

lemma I_CheckExceptions [simp]: "I s \<Longrightarrow> I (snd (CheckExceptions s))"
  by (simp add: CheckExceptions_def I_check_exceptions)

lemma I_HandleLoop [simp]: "I s \<Longrightarrow> I (HandleLoop s)"
  by (simp add: HandleLoop_def Let_def)

text \<open>Every instruction.\<close>

lemma I_IntMisc [simp]:
  "I s \<Longrightarrow> I (nop opc s)"
  "I s \<Longrightarrow> I (dar opc s)"
  "I s \<Longrightarrow> I (iar opc s)"
  "I s \<Longrightarrow> I (subarn opc s)"
  "I s \<Longrightarrow> I (addarn opc s)"
  "I s \<Longrightarrow> I (sbclr opc s)"
  "I s \<Longrightarrow> I (sbset opc s)"
  "I s \<Longrightarrow> I (lri opc s)"
  "I s \<Longrightarrow> I (lr opc s)"
  "I s \<Longrightarrow> I (mrr opc s)"
  "I s \<Longrightarrow> I (lris opc s)"
  "I s \<Longrightarrow> I (ilrr opc s)"
  "I s \<Longrightarrow> I (ilrrd opc s)"
  "I s \<Longrightarrow> I (ilrri opc s)"
  "I s \<Longrightarrow> I (ilrrn opc s)"
  "I s \<Longrightarrow> I (lrr opc s)"
  "I s \<Longrightarrow> I (lrrd opc s)"
  "I s \<Longrightarrow> I (lrri opc s)"
  "I s \<Longrightarrow> I (lrrn opc s)"
  "I s \<Longrightarrow> I (lrs opc s)"
  "I s \<Longrightarrow> I (nx opc s)"
  "I s \<Longrightarrow> I (srbith opc s)"
  by (simp_all add: nop_def dar_def iar_def subarn_def addarn_def sbclr_def sbset_def lri_def
      lr_def mrr_def lris_def ilrr_def ilrrd_def ilrri_def ilrrn_def lrr_def lrrd_def lrri_def
      lrrn_def lrs_def nx_def srbith_def Let_def case_prod_beta ZeroWriteBackLog_def
      ZeroWriteBackLogPreserveAcc_def load_ar_def load_imem_def I_ac)

lemma I_IntBranch [simp]:
  "I s \<Longrightarrow> I (halt opc s)"
  "I s \<Longrightarrow> I (ret opc s)"
  "I s \<Longrightarrow> I (rti opc s)"
  "I s \<Longrightarrow> I (call opc s)"
  "I s \<Longrightarrow> I (ifcc opc s)"
  "I s \<Longrightarrow> I (jcc opc s)"
  "I s \<Longrightarrow> I (jmprcc opc s)"
  "I s \<Longrightarrow> I (callr opc s)"
  "I s \<Longrightarrow> I (loop opc s)"
  "I s \<Longrightarrow> I (bloop opc s)"
  "I s \<Longrightarrow> I (loopi opc s)"
  "I s \<Longrightarrow> I (bloopi opc s)"
  by (simp_all add: halt_def ret_def rti_def call_def ifcc_def jcc_def jmprcc_def callr_def
      loop_def bloop_def loopi_def bloopi_def Let_def case_prod_beta push_loop_def)

lemma I_IntArithmetic [simp]:
  "I s \<Longrightarrow> I (lsl opc s)"
  "I s \<Longrightarrow> I (lsr opc s)"
  "I s \<Longrightarrow> I (asl opc s)"
  "I s \<Longrightarrow> I (asr opc s)"
  "I s \<Longrightarrow> I (lsrn opc s)"
  "I s \<Longrightarrow> I (asrn opc s)"
  "I s \<Longrightarrow> I (addis opc s)"
  "I s \<Longrightarrow> I (cmpis opc s)"
  "I s \<Longrightarrow> I (addi opc s)"
  "I s \<Longrightarrow> I (xori opc s)"
  "I s \<Longrightarrow> I (andi opc s)"
  "I s \<Longrightarrow> I (ori opc s)"
  "I s \<Longrightarrow> I (cmpi opc s)"
  "I s \<Longrightarrow> I (andf opc s)"
  "I s \<Longrightarrow> I (andcf opc s)"
  "I s \<Longrightarrow> I (xorr opc s)"
  "I s \<Longrightarrow> I (andr opc s)"
  "I s \<Longrightarrow> I (orr opc s)"
  "I s \<Longrightarrow> I (andc opc s)"
  "I s \<Longrightarrow> I (orc opc s)"
  "I s \<Longrightarrow> I (xorc opc s)"
  "I s \<Longrightarrow> I (notc opc s)"
  "I s \<Longrightarrow> I (lsrnrx opc s)"
  "I s \<Longrightarrow> I (asrnrx opc s)"
  "I s \<Longrightarrow> I (lsrnr opc s)"
  "I s \<Longrightarrow> I (asrnr opc s)"
  "I s \<Longrightarrow> I (addr opc s)"
  "I s \<Longrightarrow> I (addax opc s)"
  "I s \<Longrightarrow> I (add opc s)"
  "I s \<Longrightarrow> I (addp opc s)"
  "I s \<Longrightarrow> I (subr opc s)"
  "I s \<Longrightarrow> I (subax opc s)"
  "I s \<Longrightarrow> I (sub opc s)"
  "I s \<Longrightarrow> I (subp opc s)"
  "I s \<Longrightarrow> I (movr opc s)"
  "I s \<Longrightarrow> I (movax opc s)"
  "I s \<Longrightarrow> I (mov opc s)"
  "I s \<Longrightarrow> I (addaxl opc s)"
  "I s \<Longrightarrow> I (incm opc s)"
  "I s \<Longrightarrow> I (inc opc s)"
  "I s \<Longrightarrow> I (decm opc s)"
  "I s \<Longrightarrow> I (dec opc s)"
  "I s \<Longrightarrow> I (neg opc s)"
  "I s \<Longrightarrow> I (clr opc s)"
  "I s \<Longrightarrow> I (cmp opc s)"
  "I s \<Longrightarrow> I (tstaxh opc s)"
  "I s \<Longrightarrow> I (asr16 opc s)"
  "I s \<Longrightarrow> I (abs_op opc s)"
  "I s \<Longrightarrow> I (tst opc s)"
  "I s \<Longrightarrow> I (cmpaxh opc s)"
  "I s \<Longrightarrow> I (lsl16 opc s)"
  "I s \<Longrightarrow> I (lsr16 opc s)"
  "I s \<Longrightarrow> I (clrl opc s)"
  by (simp_all add: lsl_def lsr_def asl_def asr_def lsrn_def asrn_def addis_def cmpis_def
      addi_def xori_def andi_def ori_def cmpi_def andf_def andcf_def xorr_def andr_def orr_def
      andc_def orc_def xorc_def notc_def lsrnrx_def asrnrx_def lsrnr_def asrnr_def addr_def
      addax_def add_def addp_def subr_def subax_def sub_def subp_def movr_def movax_def mov_def
      addaxl_def incm_def inc_def decm_def dec_def neg_def clr_def cmp_def tstaxh_def asr16_def
      abs_op_def tst_def cmpaxh_def lsl16_def lsr16_def clrl_def Let_def case_prod_beta
      ZeroWriteBackLog_def ZeroWriteBackLogPreserveAcc_def I_ac)

lemma I_IntMultiplier [simp]:
  "I s \<Longrightarrow> I (movp opc s)"
  "I s \<Longrightarrow> I (movnp opc s)"
  "I s \<Longrightarrow> I (mulaxh opc s)"
  "I s \<Longrightarrow> I (tstprod opc s)"
  "I s \<Longrightarrow> I (mul opc s)"
  "I s \<Longrightarrow> I (mulmvz opc s)"
  "I s \<Longrightarrow> I (mulac opc s)"
  "I s \<Longrightarrow> I (mulmv opc s)"
  "I s \<Longrightarrow> I (mulx opc s)"
  "I s \<Longrightarrow> I (mulxmvz opc s)"
  "I s \<Longrightarrow> I (mulxac opc s)"
  "I s \<Longrightarrow> I (mulxmv opc s)"
  "I s \<Longrightarrow> I (mulc opc s)"
  "I s \<Longrightarrow> I (mulcmvz opc s)"
  "I s \<Longrightarrow> I (mulcac opc s)"
  "I s \<Longrightarrow> I (mulcmv opc s)"
  "I s \<Longrightarrow> I (maddx opc s)"
  "I s \<Longrightarrow> I (msubx opc s)"
  "I s \<Longrightarrow> I (maddc opc s)"
  "I s \<Longrightarrow> I (msubc opc s)"
  "I s \<Longrightarrow> I (madd opc s)"
  "I s \<Longrightarrow> I (msub opc s)"
  "I s \<Longrightarrow> I (addpaxz opc s)"
  "I s \<Longrightarrow> I (movpz opc s)"
  by (simp_all add: movp_def movnp_def mulaxh_def tstprod_def mul_def mulmvz_def mulac_def
      mulmv_def mulx_def mulxmvz_def mulxac_def mulxmv_def mulc_def mulcmvz_def mulcac_def
      mulcmv_def maddx_def msubx_def maddc_def msubc_def madd_def msub_def addpaxz_def movpz_def
      Let_def case_prod_beta ZeroWriteBackLog_def ZeroWriteBackLogPreserveAcc_def)


lemma I_clrp [simp]: "I s \<Longrightarrow> I (clrp opc s)"
  unfolding clrp_def Let_def ZeroWriteBackLog_def by (intro I_prod) simp_all

lemma I_write_bind:
  "I s \<Longrightarrow> (\<And>s'. I s' \<Longrightarrow> okE Q (f s')) \<Longrightarrow> okE Q (bindE (WriteDMEM a v s) f)"
  using I_write [of s a v] by (cases "WriteDMEM a v s") auto

lemma I_stores [simp]:
  "I s \<Longrightarrow> okE I (sr_op opc s)"
  "I s \<Longrightarrow> okE I (si opc s)"
  "I s \<Longrightarrow> okE I (srr opc s)"
  "I s \<Longrightarrow> okE I (srrd opc s)"
  "I s \<Longrightarrow> okE I (srri opc s)"
  "I s \<Longrightarrow> okE I (srrn opc s)"
  "I s \<Longrightarrow> okE I (srsh opc s)"
  "I s \<Longrightarrow> okE I (srs opc s)"
  by (simp_all add: sr_op_def si_def srr_def srrd_def srri_def srrn_def srsh_def srs_def Let_def
      case_prod_beta store_ar_def I_write I_write_bind)

text \<open>Every entry of the main table, hence every function the table holds.\<close>

lemma I_i_opcodes: "\<forall>e\<in>set i_opcodes. \<forall>opc s. I s \<longrightarrow> okE I (i_function e opc s)"
  by (simp add: i_opcodes_def i_opcodes_control_def i_opcodes_short_def i_opcodes_mem_def
      i_opcodes_logic_def i_opcodes_acc_def i_opcodes_flags_def i_opcodes_mul_def total_def)

lemma I_GetOp: "I s \<Longrightarrow> okE I (GetOp inst opc s)"
proof -
  assume s: "I s"
  show ?thesis
  proof (cases "FindFunction inst i_opcodes")
    case None
    with s show ?thesis by (simp add: GetOp_def i_op_table_def total_def)
  next
    case (Some e)
    then have "e \<in> set i_opcodes" by (auto simp: FindFunction_def find_Some_iff)
    with I_i_opcodes s Some show ?thesis by (simp add: GetOp_def i_op_table_def)
  qed
qed

end

section \<open>Invariants of the whole interpreter\<close>

locale dsp_inv_log = dsp_inv +
  assumes I_log: "I s \<Longrightarrow> i < 5 \<Longrightarrow> I (WriteToBackLog i idx v s)"
    and I_log_idx: "I s \<Longrightarrow> I (s\<lparr>m_write_back_log_idx := f\<rparr>)"
begin

lemmas I_log_simps [simp] = I_log I_log_idx

lemma I_ext [simp]:
  "I s \<Longrightarrow> I (nop_ext opc s)"
  "I s \<Longrightarrow> I (dr opc s)"
  "I s \<Longrightarrow> I (ir opc s)"
  "I s \<Longrightarrow> I (nr opc s)"
  "I s \<Longrightarrow> I (mv opc s)"
  "I s \<Longrightarrow> I (l_ext opc s)"
  "I s \<Longrightarrow> I (ln opc s)"
  "I s \<Longrightarrow> I (ldax opc s)"
  "I s \<Longrightarrow> I (ldaxn opc s)"
  "I s \<Longrightarrow> I (ldaxm opc s)"
  "I s \<Longrightarrow> I (ldaxnm opc s)"
  "I s \<Longrightarrow> I (ld opc s)"
  "I s \<Longrightarrow> I (ldn opc s)"
  "I s \<Longrightarrow> I (ldm opc s)"
  "I s \<Longrightarrow> I (ldnm opc s)"
  by (simp_all add: nop_ext_def dr_def ir_def nr_def mv_def l_ext_def ln_def ldax_def ldaxn_def
      ldaxm_def ldaxnm_def ld_def ldn_def ldm_def ldnm_def Let_def case_prod_beta)

lemma I_ext_stores [simp]:
  "I s \<Longrightarrow> okE I (s_ext opc s)"
  "I s \<Longrightarrow> okE I (sn opc s)"
  "I s \<Longrightarrow> okE I (ls opc s)"
  "I s \<Longrightarrow> okE I (sl opc s)"
  "I s \<Longrightarrow> okE I (lsn opc s)"
  "I s \<Longrightarrow> okE I (sln opc s)"
  "I s \<Longrightarrow> okE I (lsm opc s)"
  "I s \<Longrightarrow> okE I (slm opc s)"
  "I s \<Longrightarrow> okE I (lsnm opc s)"
  "I s \<Longrightarrow> okE I (slnm opc s)"
  by (simp_all add: s_ext_def sn_def ls_def sl_def lsn_def sln_def lsm_def slm_def lsnm_def
      slnm_def Let_def case_prod_beta I_write_bind)

lemma I_i_opcodes_ext: "\<forall>e\<in>set i_opcodes_ext. \<forall>opc s. I s \<longrightarrow> okE I (i_function e opc s)"
  by (simp add: i_opcodes_ext_def total_def)

lemma I_ext_table: "I s \<Longrightarrow> okE I (i_ext_op_table i opc s)"
proof (cases "FindFunction i i_opcodes_ext")
  case (Some e)
  assume s: "I s"
  from Some have "e \<in> set i_opcodes_ext" by (auto simp: FindFunction_def find_Some_iff)
  with I_i_opcodes_ext s Some show ?thesis by (simp add: i_ext_op_table_def)
qed (simp add: i_ext_op_table_def total_def)

lemma I_GetExtOp: "I s \<Longrightarrow> okE I (GetExtOp inst opc s)"
  by (simp add: GetExtOp_def I_ext_table Let_def)

lemma I_apply_log: "I s \<Longrightarrow> okE I (apply_log n i s)"
  by (induction n i s rule: apply_log.induct) (simp_all add: Let_def)

lemma I_bind: "okE I m \<Longrightarrow> (\<And>s'. I s' \<Longrightarrow> okE Q (f s')) \<Longrightarrow> okE Q (bindE m f)"
  by (cases m) auto

lemma I_ExecuteInstruction: "I s \<Longrightarrow> okE I (ExecuteInstruction inst s)"
  unfolding ExecuteInstruction_def Let_def ApplyWriteBackLog_def
  by (auto intro!: I_bind I_GetExtOp I_GetOp I_apply_log)

lemma I_Step: "I s \<Longrightarrow> okE I (Step s)"
  unfolding Step_def Let_def case_prod_beta
  by (rule I_bind [OF I_ExecuteInstruction]) auto

lemma I_run_phase: "I s \<Longrightarrow> okE (\<lambda>r. I (snd r)) (run_phase ph i cycles s)"
proof (induction ph i cycles s rule: run_phase.induct)
  case (1 ph i cycles s)
  have "okE I (Step s)" using "1.prems" by (rule I_Step)
  then show ?case
    using "1.prems" "1.IH" by (subst run_phase.simps) (auto split: sum.split)
qed

lemma I_RunCycles: "I s \<Longrightarrow> okE (\<lambda>r. I (snd r)) (RunCycles cycles s)"
  unfolding RunCycles_def by (rule I_run_phase)

lemma I_RunCyclesThread: "I s \<Longrightarrow> okE (\<lambda>r. I (snd r)) (RunCyclesThread cycles s)"
proof (induction cycles s rule: RunCyclesThread.induct)
  case (1 cycles s)
  have "okE I (Step (accept_interrupt s))" using "1.prems" by (simp add: I_Step)
  then show ?case
    using "1.prems" "1.IH" by (subst RunCyclesThread.simps) (auto split: sum.split)
qed

end

end
