(* ===== verification/Dsp_Log.thy ===== *)
theory Dsp_Log
  imports Dsp_Invariant
begin

text \<open>
  The write-back log.  Main opcodes leave it alone (an interpretation of \<open>dsp_inv\<close>), an extended
  opcode fills a prefix of at most four of its five entries, and applying it reads up to the end
  mark and leaves it empty: the loop of \<open>ApplyWriteBackLog\<close> stays inside the array.
\<close>

unbundle bit_operations_syntax

definition log_empty :: "'a Interpreter_scheme \<Rightarrow> bool" where
  "log_empty s \<longleftrightarrow> (\<forall>i<5. m_write_back_log_idx s i = -1)"

text \<open>The entries in use come first, and the last entry is never used.\<close>

definition log_ok :: "'a Interpreter_scheme \<Rightarrow> bool" where
  "log_ok s \<longleftrightarrow> (let f = m_write_back_log_idx s in
     f 4 = -1 \<and> (f 2 = -1 \<longrightarrow> f 3 = -1) \<and> (f 1 = -1 \<longrightarrow> f 2 = -1) \<and> (f 0 = -1 \<longrightarrow> f 1 = -1))"

lemma all_less_5: "(\<forall>i<(5::nat). P i) \<longleftrightarrow> P 0 \<and> P 1 \<and> P 2 \<and> P 3 \<and> P 4"
  by (auto simp: numeral_eq_Suc less_Suc_eq)

lemma log_empty_ok: "log_empty s \<Longrightarrow> log_ok s"
  by (simp add: log_empty_def log_ok_def)

section \<open>Main opcodes do not touch the log\<close>

lemma idx_ReadDMEM: "m_write_back_log_idx (snd (ReadDMEM a s)) = m_write_back_log_idx s"
proof -
  have "m_write_back_log_idx (raise_events ev s) = m_write_back_log_idx s" for ev and s :: "'a Interpreter_scheme"
    unfolding raise_events_def by (induction ev arbitrary: s) (simp_all add: SetException_def)
  then show ?thesis
    unfolding ReadDMEM_def ReadIFX_def ReadIFXImpl_def Let_def
    by (simp add: ReadMailboxLow_def Let_def read_accel_def case_prod_beta)
qed

definition same_idx :: "(nat \<Rightarrow> int) \<Rightarrow> 'a Interpreter_scheme \<Rightarrow> bool" where
  "same_idx L s \<longleftrightarrow> m_write_back_log_idx s = L"

lemma same_idx_raise: "same_idx L (raise_events ev s) = same_idx L s"
  unfolding raise_events_def by (induction ev arbitrary: s) (simp_all add: SetException_def same_idx_def)

lemma same_idx_updates [simp]:
  "same_idx L (s\<lparr>m_ifx_regs := f\<rparr>) = same_idx L s" "same_idx L (s\<lparr>host := h\<rparr>) = same_idx L s"
  "same_idx L (s\<lparr>iram := m\<rparr>) = same_idx L s" "same_idx L (s\<lparr>dram := m\<rparr>) = same_idx L s"
  "same_idx L (s\<lparr>m_mailbox := b\<rparr>) = same_idx L s" "same_idx L (upd_accel g s) = same_idx L s"
  "same_idx L (s\<lparr>m_iram_crc := crc\<rparr>) = same_idx L s" "same_idx L (s\<lparr>m_code_flags := fl\<rparr>) = same_idx L s"
  by (simp_all add: same_idx_def)

lemma same_idx_CodeLoaded: "same_idx L s \<Longrightarrow> okE (same_idx L) (CodeLoaded adr sz s)"
  unfolding CodeLoaded_def analyze_code_def SetIRAMCRC_def
  by (cases "code_bytes (host s) adr sz") (auto split: option.split)

lemma okE_chain: "okE P m \<Longrightarrow> (\<And>x. P x \<Longrightarrow> okE Q (f x)) \<Longrightarrow> okE Q (bindE m f)"
  by (cases m) auto

lemma okE_bind_weaken: "(\<And>x. okE Q (f x)) \<Longrightarrow> okE Q (bindE m f)"
  by (cases m) auto

lemma same_idx_DoDMA: "same_idx L s \<Longrightarrow> okE (same_idx L) (DoDMA s)"
  unfolding DoDMA_def Let_def DDMAOut_def DDMAIn_def IDMAOut_def IDMAIn_def
  by (auto intro!: okE_bind_weaken same_idx_CodeLoaded)

lemma same_idx_WriteDMEM: "same_idx L s \<Longrightarrow> okE (same_idx L) (WriteDMEM a v s)"
proof -
  assume s: "same_idx L s"
  have dsbl: "okE (same_idx L) (bindE (DoDMA s') f)"
    if "same_idx L s'" "\<And>x. same_idx L x \<Longrightarrow> okE (same_idx L) (f x)"
    for s' :: "'a Interpreter_scheme" and f
    using same_idx_DoDMA [OF that(1)] that by (cases "DoDMA s'") auto
  show ?thesis
    unfolding WriteDMEM_def WriteIFX_def Let_def WriteMailboxLow_def WriteMailboxHigh_def set_ifx_def
      write_raw_def case_prod_beta
    using s by (auto simp: same_idx_raise intro!: dsbl)
qed

interpretation idx: dsp_inv "same_idx L" for L
  by unfold_locales
    (simp_all add: same_idx_WriteDMEM,
     simp_all add: same_idx_def idx_ReadDMEM StoreStack_def PopStack_def Let_def)

section \<open>Extended opcodes fill a prefix\<close>

lemma idx_OpRead [simp]: "m_write_back_log_idx (snd (OpReadRegister r s)) = m_write_back_log_idx s"
  by (simp add: OpReadRegister_def PopStack_def Let_def)

lemma idx_WriteDMEM_bind:
  "(\<And>s'. m_write_back_log_idx s' = m_write_back_log_idx s \<Longrightarrow> okE Q (f s'))
    \<Longrightarrow> okE Q (bindE (WriteDMEM a v s) f)"
  using same_idx_WriteDMEM [of "m_write_back_log_idx s" s a v]
  by (cases "WriteDMEM a v s") (auto simp: same_idx_def)

lemma log_empty_idx: "log_empty s \<Longrightarrow> i < 5 \<Longrightarrow> m_write_back_log_idx s i = -1"
  by (simp add: log_empty_def)

lemmas log_simps = log_ok_def WriteToBackLog_def idx_ReadDMEM log_empty_idx idx_WriteDMEM_bind
  Let_def case_prod_beta

lemma log_ext [simp]:
  "log_empty s \<Longrightarrow> log_ok (nop_ext opc s)"
  "log_empty s \<Longrightarrow> log_ok (dr opc s)"
  "log_empty s \<Longrightarrow> log_ok (ir opc s)"
  "log_empty s \<Longrightarrow> log_ok (nr opc s)"
  "log_empty s \<Longrightarrow> log_ok (mv opc s)"
  "log_empty s \<Longrightarrow> log_ok (l_ext opc s)"
  "log_empty s \<Longrightarrow> log_ok (ln opc s)"
  "log_empty s \<Longrightarrow> log_ok (ldax opc s)"
  "log_empty s \<Longrightarrow> log_ok (ldaxn opc s)"
  "log_empty s \<Longrightarrow> log_ok (ldaxm opc s)"
  "log_empty s \<Longrightarrow> log_ok (ldaxnm opc s)"
  "log_empty s \<Longrightarrow> log_ok (ld opc s)"
  "log_empty s \<Longrightarrow> log_ok (ldn opc s)"
  "log_empty s \<Longrightarrow> log_ok (ldm opc s)"
  "log_empty s \<Longrightarrow> log_ok (ldnm opc s)"
  by (simp_all add: nop_ext_def dr_def ir_def nr_def mv_def l_ext_def ln_def ldax_def ldaxn_def
      ldaxm_def ldaxnm_def ld_def ldn_def ldm_def ldnm_def log_simps)

lemma log_ext_stores [simp]:
  "log_empty s \<Longrightarrow> okE log_ok (s_ext opc s)"
  "log_empty s \<Longrightarrow> okE log_ok (sn opc s)"
  "log_empty s \<Longrightarrow> okE log_ok (ls opc s)"
  "log_empty s \<Longrightarrow> okE log_ok (sl opc s)"
  "log_empty s \<Longrightarrow> okE log_ok (lsn opc s)"
  "log_empty s \<Longrightarrow> okE log_ok (sln opc s)"
  "log_empty s \<Longrightarrow> okE log_ok (lsm opc s)"
  "log_empty s \<Longrightarrow> okE log_ok (slm opc s)"
  "log_empty s \<Longrightarrow> okE log_ok (lsnm opc s)"
  "log_empty s \<Longrightarrow> okE log_ok (slnm opc s)"
  by (simp_all add: s_ext_def sn_def ls_def sl_def lsn_def sln_def lsm_def slm_def lsnm_def
      slnm_def log_simps)

lemma log_i_opcodes_ext:
  "\<forall>e\<in>set i_opcodes_ext. \<forall>opc s. log_empty s \<longrightarrow> okE log_ok (i_function e opc s)"
  by (simp add: i_opcodes_ext_def total_def)

lemma log_GetExtOp: "log_empty s \<Longrightarrow> okE log_ok (GetExtOp inst opc s)"
proof -
  assume s: "log_empty s"
  have "okE log_ok (i_ext_op_table i opc s)" for i
  proof (cases "FindFunction i i_opcodes_ext")
    case None
    with s show ?thesis by (simp add: i_ext_op_table_def total_def nop_def log_empty_ok)
  next
    case (Some e)
    then have "e \<in> set i_opcodes_ext" by (auto simp: FindFunction_def find_Some_iff)
    with log_i_opcodes_ext s Some show ?thesis by (simp add: i_ext_op_table_def)
  qed
  then show ?thesis by (simp add: GetExtOp_def Let_def)
qed

section \<open>Applying the log\<close>

lemma idx_OpWrite [simp]: "m_write_back_log_idx (OpWriteRegister r v s) = m_write_back_log_idx s"
  using idx.I_OpWrite [of "m_write_back_log_idx s"]
  by (simp add: OpWriteRegister_def StoreStack_def Let_def)

definition apply_entry :: "nat \<Rightarrow> 'a Interpreter_scheme \<Rightarrow> 'a Interpreter_scheme" where
  "apply_entry i s =
     (OpWriteRegister (m_write_back_log_idx s i) (m_write_back_log s i) s)
       \<lparr>m_write_back_log_idx := (m_write_back_log_idx s)(i := -1)\<rparr>"

lemma idx_apply_entry [simp]:
  "m_write_back_log_idx (apply_entry i s) = (m_write_back_log_idx s)(i := -1)"
  by (simp add: apply_entry_def)

lemma apply_log_Suc:
  "apply_log (Suc n) i s =
     (if m_write_back_log_idx s i = -1 then Inr s else apply_log n (Suc i) (apply_entry i s))"
  by (simp add: Let_def apply_entry_def)

lemma ApplyWriteBackLog_returns:
  assumes "log_ok s" shows "\<exists>s'. ApplyWriteBackLog s = Inr s' \<and> log_empty s'"
proof -
  define a b c d e :: nat where "a = 0" and "b = 1" and "c = 2" and "d = 3" and "e = 4"
  have dist: "a \<noteq> b" "a \<noteq> c" "a \<noteq> d" "a \<noteq> e" "b \<noteq> c" "b \<noteq> d" "b \<noteq> e" "c \<noteq> d" "c \<noteq> e" "d \<noteq> e"
    by (simp_all add: a_def b_def c_def d_def e_def)
  have next_idx: "Suc a = b" "Suc b = c" "Suc c = d" "Suc d = e"
    by (simp_all add: a_def b_def c_def d_def e_def)
  have start: "ApplyWriteBackLog s = apply_log (Suc e) a s" and
    empty: "log_empty t \<longleftrightarrow> m_write_back_log_idx t a = -1 \<and> m_write_back_log_idx t b = -1 \<and>
      m_write_back_log_idx t c = -1 \<and> m_write_back_log_idx t d = -1 \<and> m_write_back_log_idx t e = -1"
    for t :: "'a Interpreter_scheme"
    by (simp_all add: ApplyWriteBackLog_def log_empty_def all_less_5 a_def b_def c_def d_def e_def)
  have count: "e = Suc d" "d = Suc c" "c = Suc b" "b = Suc a" using next_idx by simp_all
  have step: "apply_log (Suc n) i t =
     (if m_write_back_log_idx t i = -1 then Inr t else apply_log n (Suc i) (apply_entry i t))"
    for n i and t :: "'a Interpreter_scheme" by (rule apply_log_Suc)
  have unfolded: "ApplyWriteBackLog s =
    (if m_write_back_log_idx s a = -1 then Inr s else let s = apply_entry a s in
     if m_write_back_log_idx s b = -1 then Inr s else let s = apply_entry b s in
     if m_write_back_log_idx s c = -1 then Inr s else let s = apply_entry c s in
     if m_write_back_log_idx s d = -1 then Inr s else let s = apply_entry d s in
     if m_write_back_log_idx s e = -1 then Inr s else Inl OutOfBounds)"
    unfolding start Let_def
    by (subst step, subst next_idx(1), subst count(1), subst step, subst next_idx(2),
        subst count(2), subst step, subst next_idx(3), subst count(3), subst step,
        subst next_idx(4), subst count(4), subst step) (simp add: a_def)
  show ?thesis
    using assms dist unfolding unfolded empty log_ok_def
    by (simp add: Let_def next_idx flip: a_def b_def c_def d_def e_def)
qed

section \<open>Whole instructions\<close>

lemma idx_GetOp: "okE (\<lambda>s'. m_write_back_log_idx s' = m_write_back_log_idx s) (GetOp inst opc s)"
  using idx.I_GetOp [of "m_write_back_log_idx s" s inst opc] by (simp add: same_idx_def [abs_def])

lemma log_ExecuteInstruction: "log_empty s \<Longrightarrow> okE log_empty (ExecuteInstruction inst s)"
proof -
  assume s: "log_empty s"
  have m1: "okE log_ok (GetOp inst inst s')" if "log_ok s'" for s'
    using idx_GetOp [of s' inst inst] that by (cases "GetOp inst inst s'") (auto simp: log_ok_def)
  have m2: "okE log_empty (GetOp inst inst s)"
    using idx_GetOp [of s inst inst] s by (cases "GetOp inst inst s") (auto simp: log_empty_def)
  have ap: "okE log_empty (ApplyWriteBackLog s')" if "log_ok s'" for s' :: Interpreter
    using ApplyWriteBackLog_returns [OF that] by auto
  show ?thesis
  proof (cases "extended (GetOpTemplate inst)")
    case True
    then show ?thesis
      using log_GetExtOp [OF s, of inst inst] m1 ap unfolding ExecuteInstruction_def Let_def
      by (cases "GetExtOp inst inst s") (auto intro!: okE_chain)
  qed (use m2 in \<open>simp add: ExecuteInstruction_def\<close>)
qed

end
