(* ===== verification/Dsp_Wf.thy ===== *)
theory Dsp_Wf
  imports Dsp_Invariant
begin

text \<open>
  Two invariants of the interpreter, as interpretations of \<open>dsp_inv_log\<close>: the representation
  invariant of the registers (\<open>wf_dsp\<close>: accumulators sign-extended from bit 39, eight-bit registers
  and stack pointers in range, accelerator addresses masked), and memory safety (\<open>in_bounds\<close>: no
  array of the state or of the host changes outside the bounds it has in the code, and the ROMs
  never change).
\<close>

unbundle bit_operations_syntax

section \<open>The representation invariant\<close>

definition wf_accel :: "Accelerator \<Rightarrow> bool" where
  "wf_accel a \<longleftrightarrow> m_start_address a \<le> 0x3fffffff \<and> m_end_address a \<le> 0x3fffffff \<and>
     m_pred_scale a \<le> 0xff"

definition wf_dsp :: "'a SDSP_scheme \<Rightarrow> bool" where
  "wf_dsp s \<longleftrightarrow> (\<forall>i. is40 (ac (regs s) i)) \<and> prod_h (prod (regs s)) \<le> 0xff \<and>
     cr (regs s) \<le> 0xff \<and> stacks_ok s \<and> wf_accel (m_accelerator s)"

lemma ucast_u8_le: "(ucast (b :: u8) :: u16) \<le> 0xff"
proof -
  have "unat b \<le> 255" using unsigned_less [of b, where 'a = nat] by simp
  then show ?thesis by (simp add: word_le_nat_alt unsigned_ucast_eq take_bit_nat_eq_self)
qed

lemma and_7f_le: "(v AND 0x7f :: u16) \<le> 0xff"
  using word_and_le1 [of v "0x7f"] by (simp add: word_le_nat_alt)

lemma wf_accel_setters [simp]:
  "wf_accel a \<Longrightarrow> wf_accel (SetStartAddress v a)"
  "wf_accel a \<Longrightarrow> wf_accel (SetEndAddress v a)"
  "wf_accel a \<Longrightarrow> wf_accel (SetCurrentAddress v a)"
  "wf_accel a \<Longrightarrow> wf_accel (SetSampleFormat f a)"
  "wf_accel a \<Longrightarrow> wf_accel (SetGain f a)"
  "wf_accel a \<Longrightarrow> wf_accel (SetYn1 f a)"
  "wf_accel a \<Longrightarrow> wf_accel (SetYn2 f a)"
  "wf_accel a \<Longrightarrow> wf_accel (SetPredScale f a)"
  "wf_accel a \<Longrightarrow> wf_accel (SetInput f a)"
  by (simp_all add: wf_accel_def SetStartAddress_def SetEndAddress_def SetCurrentAddress_def
      SetSampleFormat_def SetGain_def SetYn1_def SetYn2_def SetPredScale_def SetInput_def
      word_and_le1 and_7f_le)

lemma wf_accel_ReadRaw [simp]: "wf_accel a \<Longrightarrow> wf_accel (fst (snd (ReadRaw rd a)))"
  by (simp add: ReadRaw_def Let_def case_prod_beta)

lemma wf_accel_WriteRaw [simp]: "wf_accel a \<Longrightarrow> wf_accel (fst (WriteRaw w v a h))"
  by (simp add: WriteRaw_def Let_def wf_accel_def)

lemma wf_accel_adpcm_step [simp]: "wf_accel a \<Longrightarrow> wf_accel (fst (adpcm_step rd v a))"
  by (simp add: adpcm_step_def Let_def wf_accel_def ucast_u8_le)

lemma wf_accel_pcm_step [simp]: "wf_accel a \<Longrightarrow> wf_accel (fst (pcm_step v a))"
  by (simp add: pcm_step_def Let_def wf_accel_def)

lemma wf_accel_current [simp]:
  "wf_accel (a\<lparr>m_current_address := c\<rparr>) = wf_accel a"
  "wf_accel (a\<lparr>m_reads_stopped := b\<rparr>) = wf_accel a"
  by (simp_all add: wf_accel_def)

lemma wf_accel_ReadSample [simp]: "wf_accel a \<Longrightarrow> wf_accel (fst (snd (ReadSample rd cs a)))"
  by (simp add: ReadSample_def Let_def case_prod_beta)

text \<open>Changes outside the registers the invariant speaks of.\<close>

lemma stacks_ok_cong: "reg_stack_ptrs s = reg_stack_ptrs t \<Longrightarrow> stacks_ok s = stacks_ok t"
  by (simp add: stacks_ok_def)

lemma wf_dsp_frame:
  "regs s' = regs s \<Longrightarrow> reg_stack_ptrs s' = reg_stack_ptrs s \<Longrightarrow> m_accelerator s' = m_accelerator s
    \<Longrightarrow> wf_dsp s' = wf_dsp s"
  by (simp add: wf_dsp_def stacks_ok_def)

lemma raise_events_frame [simp]:
  "regs (raise_events ev s) = regs s"
  "reg_stack_ptrs (raise_events ev s) = reg_stack_ptrs s"
  "m_accelerator (raise_events ev s) = m_accelerator s"
  "host (raise_events ev s) = host s"
  "iram (raise_events ev s) = iram s" "dram (raise_events ev s) = dram s"
  "irom (raise_events ev s) = irom s" "coef (raise_events ev s) = coef s"
  "reg_stacks (raise_events ev s) = reg_stacks s" "m_ifx_regs (raise_events ev s) = m_ifx_regs s"
  "m_mailbox (raise_events ev s) = m_mailbox s" "pc (raise_events ev s) = pc s"
  unfolding raise_events_def by (induction ev arbitrary: s) (simp_all add: SetException_def)

lemma wf_dsp_accel:
  "wf_dsp s \<Longrightarrow> wf_accel a \<Longrightarrow> wf_dsp (raise_events ev (s\<lparr>m_accelerator := a, host := h\<rparr>))"
  "wf_dsp s \<Longrightarrow> wf_accel a \<Longrightarrow> wf_dsp (raise_events ev (s\<lparr>m_accelerator := a\<rparr>))"
  by (simp_all add: wf_dsp_def stacks_ok_def)

lemma wf_dsp_upd_accel:
  "wf_dsp s \<Longrightarrow> (\<And>a. wf_accel a \<Longrightarrow> wf_accel (g a)) \<Longrightarrow> wf_dsp (upd_accel g s)"
  by (simp add: wf_dsp_def stacks_ok_def)

lemma wf_dsp_ReadDMEM: "wf_dsp s \<Longrightarrow> wf_dsp (snd (ReadDMEM a s))"
  unfolding ReadDMEM_def ReadIFX_def ReadIFXImpl_def Let_def
  by (simp add: ReadMailboxLow_def Let_def read_accel_def case_prod_beta wf_dsp_accel,
      simp add: wf_dsp_def stacks_ok_def)

lemma wf_dsp_simps [simp]:
  "wf_dsp (s\<lparr>pc := v\<rparr>) = wf_dsp s" "wf_dsp (s\<lparr>control_reg := v\<rparr>) = wf_dsp s"
  "wf_dsp (s\<lparr>exceptions := e\<rparr>) = wf_dsp s" "wf_dsp (s\<lparr>external_interrupt_waiting := b\<rparr>) = wf_dsp s"
  "wf_dsp (s\<lparr>m_step_counter := n\<rparr>) = wf_dsp s" "wf_dsp (s\<lparr>iram := m\<rparr>) = wf_dsp s"
  "wf_dsp (s\<lparr>dram := m\<rparr>) = wf_dsp s" "wf_dsp (s\<lparr>m_iram_crc := crc\<rparr>) = wf_dsp s"
  "wf_dsp (s\<lparr>m_code_flags := fl\<rparr>) = wf_dsp s" "wf_dsp (s\<lparr>host := h\<rparr>) = wf_dsp s"
  "wf_dsp (s\<lparr>m_ifx_regs := f\<rparr>) = wf_dsp s" "wf_dsp (s\<lparr>m_mailbox := mb\<rparr>) = wf_dsp s"
  "wf_dsp (set_sr v s) = wf_dsp s"
  by (simp_all add: wf_dsp_def stacks_ok_def)

lemma wf_dsp_CodeLoaded: "wf_dsp s \<Longrightarrow> okE wf_dsp (CodeLoaded adr sz s)"
  unfolding CodeLoaded_def analyze_code_def SetIRAMCRC_def
  by (cases "code_bytes (host s) adr sz") (auto split: option.split)

lemma okE_bindE_any: "(\<And>x. okE P (f x)) \<Longrightarrow> okE P (bindE m f)"
  by (cases m) auto

lemma wf_dsp_DoDMA: "wf_dsp s \<Longrightarrow> okE wf_dsp (DoDMA s)"
  unfolding DoDMA_def Let_def DDMAOut_def DDMAIn_def IDMAOut_def IDMAIn_def
  by (auto intro!: okE_bindE_any wf_dsp_CodeLoaded)

lemma wf_dsp_WriteIFX: "wf_dsp s \<Longrightarrow> okE wf_dsp (WriteIFX a v s)"
proof -
  assume wf: "wf_dsp s"
  have dsbl: "okE wf_dsp (bindE (DoDMA s') f)"
    if "wf_dsp s'" "\<And>x. wf_dsp x \<Longrightarrow> okE wf_dsp (f x)" for s' f
    using wf_dsp_DoDMA [OF that(1)] that by (cases "DoDMA s'") auto
  have raw: "wf_dsp (write_raw v s)"
    unfolding write_raw_def Let_def case_prod_beta
    by (rule wf_dsp_accel(1) [OF wf wf_accel_WriteRaw]) (use wf in \<open>simp add: wf_dsp_def\<close>)
  show ?thesis
    unfolding WriteIFX_def Let_def WriteMailboxLow_def WriteMailboxHigh_def set_ifx_def
    using wf raw by (auto intro!: dsbl wf_dsp_upd_accel)
qed

lemma wf_dsp_WriteDMEM: "wf_dsp s \<Longrightarrow> okE wf_dsp (WriteDMEM a v s)"
  by (simp add: WriteDMEM_def Let_def wf_dsp_WriteIFX)

lemma wf_dsp_StoreStack: "wf_dsp s \<Longrightarrow> wf_dsp (StoreStack k v s)"
  using stacks_ok_StoreStack [of s k v] by (simp add: wf_dsp_def) (simp add: StoreStack_def Let_def)

lemma wf_dsp_PopStack: "wf_dsp s \<Longrightarrow> wf_dsp (snd (PopStack k s))"
  using stacks_ok_PopStack [of s k] by (simp add: wf_dsp_def) (simp add: PopStack_def Let_def)

lemma stacks_ok_regs [simp]: "stacks_ok (regs_update f s) = stacks_ok s"
  by (simp add: stacks_ok_def)

interpretation wf: dsp_inv_log wf_dsp
  by unfold_locales
    (simp_all add: wf_dsp_StoreStack wf_dsp_PopStack wf_dsp_ReadDMEM wf_dsp_WriteDMEM,
     simp_all add: wf_dsp_def WriteToBackLog_def, simp_all add: stacks_ok_def)

section \<open>Memory safety\<close>

text \<open>
  \<open>host_ok\<close>: EXRAM is allocated up to \<open>m_exram_mask\<close>, which covers the size the console reports
  (Memmap.cpp makes the mask the next power of two minus one), and the ARAM of a Wii is EXRAM.  The other definitions say that two hosts agree outside
  their memories, and two states outside the arrays of the code.
\<close>

definition host_ok :: "Host \<Rightarrow> bool" where
  "host_ok h \<longleftrightarrow>
     (\<forall>a. a AND 0x0fffffff < m_exram_size_real h \<longrightarrow> a AND m_exram_mask h \<le> m_exram_size_real h) \<and>
     unat (m_exram_size_real h) \<le> unat (m_exram_mask h) + 1 \<and>
     (aram_wii_mode h \<longrightarrow> aram_mask h = m_exram_mask h)"

definition host_in_bounds :: "Host \<Rightarrow> Host \<Rightarrow> bool" where
  "host_in_bounds h0 h \<longleftrightarrow>
     m_ram_size_real h = m_ram_size_real h0 \<and> m_ram_mask h = m_ram_mask h0 \<and>
     has_exram h = has_exram h0 \<and> m_exram_size_real h = m_exram_size_real h0 \<and>
     m_exram_mask h = m_exram_mask h0 \<and> aram_mask h = aram_mask h0 \<and>
     aram_size h = aram_size h0 \<and> aram_wii_mode h = aram_wii_mode h0 \<and>
     (\<forall>i\<ge>unat (m_ram_size_real h0). m_ram h i = m_ram h0 i) \<and>
     (\<forall>i>unat (m_exram_mask h0). m_exram h i = m_exram h0 i) \<and>
     (\<forall>a. a AND aram_mask h0 \<noteq> a \<longrightarrow> aram_ptr h a = aram_ptr h0 a)"

definition regs_in_bounds :: "DSP_Regs \<Rightarrow> DSP_Regs \<Rightarrow> bool" where
  "regs_in_bounds r0 r \<longleftrightarrow>
     (\<forall>i\<ge>4. ar r i = ar r0 i \<and> ix r i = ix r0 i \<and> wr r i = wr r0 i \<and> st r i = st r0 i) \<and>
     (\<forall>i\<ge>2. ax r i = ax r0 i \<and> ac r i = ac r0 i)"

definition in_bounds :: "'a SDSP_scheme \<Rightarrow> 'b SDSP_scheme \<Rightarrow> bool" where
  "in_bounds s0 s \<longleftrightarrow>
     regs_in_bounds (regs s0) (regs s) \<and> host_in_bounds (host s0) (host s) \<and>
     (\<forall>i\<ge>4. reg_stack_ptrs s i = reg_stack_ptrs s0 i) \<and>
     (\<forall>i j. i \<ge> 4 \<or> j \<ge> 32 \<longrightarrow> reg_stacks s i j = reg_stacks s0 i j) \<and>
     (\<forall>i\<ge>0x1000. iram s i = iram s0 i \<and> dram s i = dram s0 i) \<and>
     (\<forall>i\<ge>256. m_ifx_regs s i = m_ifx_regs s0 i) \<and>
     irom s = irom s0 \<and> coef s = coef s0"

definition memory_safe :: "'a SDSP_scheme \<Rightarrow> 'b SDSP_scheme \<Rightarrow> bool" where
  "memory_safe s0 s \<longleftrightarrow> host_ok (host s0) \<and> in_bounds s0 s"

text \<open>Stores to main memory stay inside the region that was checked.\<close>

lemma host_in_bounds_store_byte:
  assumes "host_in_bounds h0 h" and "fst p = RAM \<Longrightarrow> snd p + i < unat (m_ram_size_real h0)"
    and "fst p = EXRAM \<Longrightarrow> snd p + i \<le> unat (m_exram_mask h0)"
  shows "host_in_bounds h0 (store_byte p i b h)"
  using assms by (auto simp: host_in_bounds_def store_byte_def split: prod.split region.split)

lemma host_in_bounds_store_swapped:
  assumes "host_in_bounds h0 h"
    and "fst p = RAM \<Longrightarrow> snd p + 2 * (i + length ws) \<le> unat (m_ram_size_real h0)"
    and "fst p = EXRAM \<Longrightarrow> snd p + 2 * (i + length ws) \<le> unat (m_exram_mask h0) + 1"
  shows "host_in_bounds h0 (store_swapped p i ws h)"
  using assms
proof (induction p i ws h rule: store_swapped.induct)
  case (2 p i w ws h)
  show ?case
    unfolding store_swapped.simps
    by (rule "2.IH"; (intro host_in_bounds_store_byte)?) (use "2.prems" in auto)
qed simp

lemma GetPointerForRange_bounds:
  assumes "GetPointerForRange h a sz = Some p" and "host_ok h"
  shows "fst p = RAM \<Longrightarrow> snd p + sz \<le> unat (m_ram_size_real h)"
    and "fst p = EXRAM \<Longrightarrow> snd p + sz \<le> unat (m_exram_size_real h)"
proof -
  let ?a = "a AND 0x3FFFFFFF"
  have mask: "?a AND 0x0fffffff < m_exram_size_real h \<Longrightarrow> ?a AND m_exram_mask h \<le> m_exram_size_real h"
    using assms(2) unfolding host_ok_def by blast
  show "fst p = RAM \<Longrightarrow> snd p + sz \<le> unat (m_ram_size_real h)"
    using assms(1)
    by (auto simp: GetPointerForRange_def GetSpanForAddress_def Let_def unat_sub
        word_less_nat_alt word_le_nat_alt split: option.splits if_splits)
  show "fst p = EXRAM \<Longrightarrow> snd p + sz \<le> unat (m_exram_size_real h)"
    using assms(1) mask unfolding GetPointerForRange_def GetSpanForAddress_def Let_def
    by (auto simp: unat_sub word_le_nat_alt not_less split: option.splits if_splits)
qed

lemma host_in_bounds_CopyTo:
  assumes "host_in_bounds h0 h" and "host_ok h0" and "length data = sz div 2"
  shows "host_in_bounds h0 (CopyToEmuSwapped a data sz h)"
proof (cases "GetPointerForRange h a sz")
  case None
  with assms(1) show ?thesis by (simp add: CopyToEmuSwapped_def)
next
  case (Some p)
  have ok: "host_ok h" using assms(1,2) by (simp add: host_in_bounds_def host_ok_def)
  have size: "m_ram_size_real h = m_ram_size_real h0" "m_exram_size_real h = m_exram_size_real h0"
    using assms(1) by (simp_all add: host_in_bounds_def)
  have "2 * (sz div 2) \<le> sz" by simp
  moreover have "unat (m_exram_size_real h0) \<le> unat (m_exram_mask h0) + 1"
    using assms(2) by (simp add: host_ok_def)
  ultimately have
    "fst p = RAM \<Longrightarrow> snd p + 2 * (sz div 2) \<le> unat (m_ram_size_real h0)"
    "fst p = EXRAM \<Longrightarrow> snd p + 2 * (sz div 2) \<le> unat (m_exram_mask h0) + 1"
    using GetPointerForRange_bounds [OF Some ok] size by fastforce+
  then show ?thesis
    using assms(1,3) Some by (simp add: CopyToEmuSwapped_def host_in_bounds_store_swapped)
qed

lemma host_in_bounds_store_aram:
  assumes "host_in_bounds h0 h" and "host_ok h0"
  shows "host_in_bounds h0 (store_aram (a AND aram_mask h) b h)"
proof -
  have "unat (a AND aram_mask h0) \<le> unat (aram_mask h0)" by (rule unat_and_le)
  then show ?thesis
    using assms by (auto simp: host_in_bounds_def host_ok_def store_aram_def word_and_idem_mask)
qed

lemma host_in_bounds_WriteARAM:
  "host_in_bounds h0 h \<Longrightarrow> host_ok h0 \<Longrightarrow> host_in_bounds h0 (WriteHostMemory b a h)"
  by (simp add: WriteHostMemory_def WriteARAM_def host_in_bounds_store_aram)

text \<open>The accesses of the code, one by one.\<close>

lemma memory_safe_simps [simp]:
  "memory_safe s0 (s\<lparr>pc := v\<rparr>) = memory_safe s0 s"
  "memory_safe s0 (s\<lparr>control_reg := v\<rparr>) = memory_safe s0 s"
  "memory_safe s0 (s\<lparr>exceptions := e\<rparr>) = memory_safe s0 s"
  "memory_safe s0 (s\<lparr>external_interrupt_waiting := b\<rparr>) = memory_safe s0 s"
  "memory_safe s0 (s\<lparr>m_step_counter := n\<rparr>) = memory_safe s0 s"
  "memory_safe s0 (s\<lparr>m_iram_crc := crc\<rparr>) = memory_safe s0 s"
  "memory_safe s0 (s\<lparr>m_code_flags := fl\<rparr>) = memory_safe s0 s"
  "memory_safe s0 (s\<lparr>m_mailbox := mb\<rparr>) = memory_safe s0 s"
  "memory_safe s0 (s\<lparr>m_accelerator := a\<rparr>) = memory_safe s0 s"
  "memory_safe s0 (upd_accel g s) = memory_safe s0 s"
  "memory_safe s0 (raise_events ev s) = memory_safe s0 s"
  by (simp_all add: memory_safe_def in_bounds_def)

lemma memory_safe_host:
  "memory_safe s0 s \<Longrightarrow> host_in_bounds (host s0) h \<Longrightarrow> memory_safe s0 (s\<lparr>host := h\<rparr>)"
  by (simp add: memory_safe_def in_bounds_def)

lemma memory_safe_hostD: "memory_safe s0 s \<Longrightarrow> host_in_bounds (host s0) (host s)"
  by (simp add: memory_safe_def in_bounds_def)

lemma memory_safe_set_ifx:
  "memory_safe s0 s \<Longrightarrow> unat a < 256 \<Longrightarrow> memory_safe s0 (set_ifx a v s)"
  by (auto simp: memory_safe_def in_bounds_def set_ifx_def)

lemma store_words_outside:
  "ws = [] \<or> base + length ws \<le> 0x1000 \<Longrightarrow> 0x1000 \<le> i \<Longrightarrow> store_words base ws mem i = mem i"
  by (auto simp: store_words_def)

lemma DMAToDSP_outside:
  "okE (\<lambda>mem'. \<forall>i\<ge>0x1000. mem' i = mem i) (DMAToDSP h base a sz mem)"
  by (auto simp: DMAToDSP_def store_words_outside split: option.split)

lemma memory_safe_mem:
  "memory_safe s0 s \<Longrightarrow> \<forall>i\<ge>0x1000. m i = iram s i \<Longrightarrow> memory_safe s0 (s\<lparr>iram := m\<rparr>)"
  "memory_safe s0 s \<Longrightarrow> \<forall>i\<ge>0x1000. m i = dram s i \<Longrightarrow> memory_safe s0 (s\<lparr>dram := m\<rparr>)"
  by (simp_all add: memory_safe_def in_bounds_def)

lemma memory_safe_CodeLoaded: "memory_safe s0 s \<Longrightarrow> okE (memory_safe s0) (CodeLoaded adr sz s)"
  unfolding CodeLoaded_def analyze_code_def SetIRAMCRC_def
  by (cases "code_bytes (host s) adr sz") (auto split: option.split)

lemma okE_bind2: "okE P m \<Longrightarrow> (\<And>x. P x \<Longrightarrow> okE Q (f x)) \<Longrightarrow> okE Q (bindE m f)"
  by (cases m) auto

lemma memory_safe_DoDMA:
  assumes "memory_safe s0 s" shows "okE (memory_safe s0) (DoDMA s)"
proof -
  have out: "okE (memory_safe s0) (DDMAOut d a l s)" for d a l
    using assms unfolding DDMAOut_def DMAFromDSP_def memory_safe_def [of s0 s]
    by (auto intro!: memory_safe_host [OF assms] host_in_bounds_CopyTo memory_safe_hostD [OF assms])
  have din: "okE (memory_safe s0) (DDMAIn d a l s)" for d a l
    unfolding DDMAIn_def
    by (rule okE_bind2 [OF DMAToDSP_outside]) (simp add: memory_safe_mem assms)
  have iin: "okE (memory_safe s0) (IDMAIn d a l s)" for d a l
    unfolding IDMAIn_def
    by (rule okE_bind2 [OF DMAToDSP_outside])
      (simp add: memory_safe_mem assms memory_safe_CodeLoaded)
  show ?thesis
    unfolding DoDMA_def Let_def IDMAOut_def using assms out din iin by simp
qed

lemma memory_safe_write_raw: "memory_safe s0 s \<Longrightarrow> memory_safe s0 (write_raw v s)"
proof -
  assume s: "memory_safe s0 s"
  then have "host_in_bounds (host s0)
      (fst (snd (WriteRaw (\<lambda>adr b. WriteHostMemory b adr) v (m_accelerator s) (host s))))"
    by (simp add: WriteRaw_def Let_def host_in_bounds_WriteARAM memory_safe_hostD memory_safe_def)
  with s show ?thesis
    unfolding write_raw_def Let_def case_prod_beta by (simp add: memory_safe_host)
qed

lemma unat_and_255_less: "unat (a AND (0xff :: u16)) < 256"
  using unat_and_le [of a "0xff"] by simp

lemma memory_safe_WriteIFX: "memory_safe s0 s \<Longrightarrow> okE (memory_safe s0) (WriteIFX a v s)"
proof -
  assume s: "memory_safe s0 s"
  have dsbl: "okE (memory_safe s0) (bindE (DoDMA s') f)"
    if "memory_safe s0 s'" "\<And>x. memory_safe s0 x \<Longrightarrow> okE (memory_safe s0) (f x)" for s' f
    using memory_safe_DoDMA [OF that(1)] that by (cases "DoDMA s'") auto
  have irq: "memory_safe s0 (s\<lparr>host := InterruptRequest (host s)\<rparr>)"
    using memory_safe_hostD [OF s]
    by (intro memory_safe_host s) (simp add: InterruptRequest_def host_in_bounds_def)
  note ifx = memory_safe_set_ifx [OF _ unat_and_255_less]
  show ?thesis
    unfolding WriteIFX_def Let_def WriteMailboxLow_def WriteMailboxHigh_def
    using s irq memory_safe_write_raw [OF s]
    by (auto intro!: dsbl ifx memory_safe_set_ifx)
qed

lemma memory_safe_WriteDMEM: "memory_safe s0 s \<Longrightarrow> okE (memory_safe s0) (WriteDMEM a v s)"
proof -
  assume s: "memory_safe s0 s"
  have "unat (a AND DSP_DRAM_MASK) < 0x1000"
    using unat_and_le [of a DSP_DRAM_MASK] by simp
  then have "memory_safe s0 (s\<lparr>dram := (dram s)(unat (a AND DSP_DRAM_MASK) := v)\<rparr>)"
    by (intro memory_safe_mem s) simp
  with s show ?thesis by (simp add: WriteDMEM_def Let_def memory_safe_WriteIFX)
qed

lemma memory_safe_ReadDMEM: "memory_safe s0 s \<Longrightarrow> memory_safe s0 (snd (ReadDMEM a s))"
  unfolding ReadDMEM_def ReadIFX_def ReadIFXImpl_def Let_def
  by (simp add: ReadMailboxLow_def Let_def read_accel_def case_prod_beta)

lemma memory_safe_stacks:
  "memory_safe s0 s \<Longrightarrow> memory_safe s0 (StoreStack k v s)"
  "memory_safe s0 s \<Longrightarrow> memory_safe s0 (snd (PopStack k s))"
proof -
  have [simp]: "\<not> 32 \<le> unat (x AND DSP_STACK_MASK)" for x
    using and_31_less [of x] by (simp add: word_less_nat_alt)
  show "memory_safe s0 s \<Longrightarrow> memory_safe s0 (StoreStack k v s)"
    "memory_safe s0 s \<Longrightarrow> memory_safe s0 (snd (PopStack k s))"
    using stack_index_less [of k]
    by (auto simp: memory_safe_def in_bounds_def regs_in_bounds_def StoreStack_def PopStack_def Let_def)
qed

interpretation safe: dsp_inv_log "memory_safe s0" for s0 :: "'a SDSP_scheme"
  by unfold_locales
    (simp_all add: memory_safe_stacks memory_safe_ReadDMEM memory_safe_WriteDMEM,
     simp_all add: memory_safe_def in_bounds_def regs_in_bounds_def WriteToBackLog_def)

end
