(* ===== verification/Dsp_HW_Facts.thy ===== *)
theory Dsp_HW_Facts
  imports Dsp_Wf
begin

text \<open>
  The hardware interface: the mailbox protocol between CPU and DSP, reading back what was written
  to the accelerator's address registers, the byte order of DMA, when DMA fails, and what the
  accelerator does at the end of its buffer.
\<close>

unbundle bit_operations_syntax

section \<open>Mailboxes\<close>

text \<open>
  A mailbox as the two sides use it: the sender writes the high half, then the low half, and only
  then is the mail valid; the receiver reads the high half, and reading the low half takes the
  mail out.
\<close>

locale mailbox_port =
  fixes write_high write_low :: "u16 \<Rightarrow> 's \<Rightarrow> 's"
    and read_high :: "'s \<Rightarrow> u16"
    and read_low :: "'s \<Rightarrow> u16 \<times> 's"
    and contents :: "'s \<Rightarrow> u32"
  assumes write_high_bits:
      "bit (contents (write_high v s)) n \<longleftrightarrow> (if n < 16 then bit (contents s) n else n < 31 \<and> bit v (n - 16))"
    and write_low_bits:
      "bit (contents (write_low v s)) n \<longleftrightarrow> (if n < 16 then bit v n else n = 31 \<or> bit (contents s) n)"
    and read_high_bits: "bit (read_high s) n \<longleftrightarrow> n < 16 \<and> bit (contents s) (16 + n)"
    and read_low_bits: "bit (fst (read_low s)) n \<longleftrightarrow> n < 16 \<and> bit (contents s) n"
    and read_low_takes: "bit (contents (snd (read_low s))) n \<longleftrightarrow> n \<noteq> 31 \<and> bit (contents s) n"
begin

definition has_mail :: "'s \<Rightarrow> bool" where
  "has_mail s \<longleftrightarrow> bit (contents s) 31"

lemma half_written: "\<not> has_mail (write_high hi s)"
  by (simp add: has_mail_def write_high_bits)

lemma sent: "has_mail (write_low lo s)"
  by (simp add: has_mail_def write_low_bits)

lemma received_high: "read_high (write_low lo (write_high hi s)) = hi OR 0x8000"
proof (rule bit_word_eqI)
  fix n assume "n < LENGTH(16)"
  moreover have "bit (0x8000 :: u16) n \<longleftrightarrow> n = 15"
    using bit_exp_iff [where 'a = "16 word", of 15 n] by auto
  ultimately show "bit (read_high (write_low lo (write_high hi s))) n = bit (hi OR 0x8000) n"
    by (auto simp: read_high_bits write_low_bits write_high_bits bit_or_iff)
qed

lemma received_low: "fst (read_low (write_low lo s)) = lo"
  by (rule bit_word_eqI) (simp add: read_low_bits write_low_bits)

lemma taken: "\<not> has_mail (snd (read_low s))"
  by (simp add: has_mail_def read_low_takes)

end

lemma bit_high_half: "bit (0x80000000 :: u32) n \<longleftrightarrow> n = 31"
  using bit_exp_iff [where 'a = "32 word", of 31 n] by auto

lemma bit_low_half: "bit (0xffff :: u32) n \<longleftrightarrow> n < 16"
proof -
  have "(0xffff :: u32) = mask 16" by (simp add: mask_eq_exp_minus_1)
  then show ?thesis by (simp only: bit_mask_iff) auto
qed


lemma Peek_mailbox_ops:
  "PeekMailbox m (WriteMailboxHigh m v s) =
     ((PeekMailbox m s AND 0xffff) OR push_bit 16 (ucast v)) AND NOT 0x80000000"
  "PeekMailbox m (WriteMailboxLow m v s) = ((PeekMailbox m s AND NOT 0xffff) OR ucast v) OR 0x80000000"
  "PeekMailbox m (snd (ReadMailboxLow m s)) = PeekMailbox m s AND NOT 0x80000000"
  "ReadMailboxHigh m s = ucast (drop_bit 16 (PeekMailbox m s))"
  "fst (ReadMailboxLow m s) = ucast (PeekMailbox m s)"
  unfolding PeekMailbox_def WriteMailboxHigh_def WriteMailboxLow_def ReadMailboxLow_def
    ReadMailboxHigh_def Let_def by simp_all

lemmas mailbox_bits = bit_or_iff bit_and_iff bit_not_iff bit_push_bit_iff bit_drop_bit_eq bit_ucast_iff
  bit_high_half bit_low_half o_apply

interpretation mbox: mailbox_port "WriteMailboxHigh m" "WriteMailboxLow m" "ReadMailboxHigh m"
  "ReadMailboxLow m" "PeekMailbox m" for m
  by unfold_locales (unfold Peek_mailbox_ops mailbox_bits, auto dest: bit_imp_le_length)

lemma mailboxes_independent:
  "m \<noteq> m' \<Longrightarrow> PeekMailbox m (WriteMailboxHigh m' v s) = PeekMailbox m s"
  "m \<noteq> m' \<Longrightarrow> PeekMailbox m (WriteMailboxLow m' v s) = PeekMailbox m s"
  "m \<noteq> m' \<Longrightarrow> PeekMailbox m (snd (ReadMailboxLow m' s)) = PeekMailbox m s"
  by (simp_all add: PeekMailbox_def WriteMailboxHigh_def WriteMailboxLow_def ReadMailboxLow_def Let_def)

section \<open>The accelerator's registers through the window\<close>

text \<open>Writing both halves of an address register, in the order the microcode does.\<close>

definition write_pair :: "u16 \<Rightarrow> u16 \<Rightarrow> u16 \<Rightarrow> u16 \<Rightarrow> 'a SDSP_scheme \<Rightarrow> 'a SDSP_scheme result" where
  "write_pair high_reg hi low_reg lo s = bindE (WriteIFX high_reg hi s) (WriteIFX low_reg lo)"

lemma bit_masks_u32:
  "bit START_END_ADDRESS_MASK n \<longleftrightarrow> n < 30" "bit CURRENT_ADDRESS_MASK n \<longleftrightarrow> n < 30 \<or> n = 31"
proof -
  have m: "START_END_ADDRESS_MASK = mask 30" by (simp add: mask_eq_exp_minus_1)
  show "bit START_END_ADDRESS_MASK n \<longleftrightarrow> n < 30" unfolding m by (auto simp: bit_mask_iff)
  have "CURRENT_ADDRESS_MASK = START_END_ADDRESS_MASK OR 0x80000000" by simp
  then show "bit CURRENT_ADDRESS_MASK n \<longleftrightarrow> n < 30 \<or> n = 31"
    by (simp only: bit_or_iff bit_high_half) (simp add: m bit_mask_iff, auto)
qed

lemma bit_mask_u16: "bit (0x3fff :: u16) n \<longleftrightarrow> n < 14" "bit (0xbfff :: u16) n \<longleftrightarrow> n < 14 \<or> n = 15"
proof -
  have m: "(0x3fff :: u16) = mask 14" by (simp add: mask_eq_exp_minus_1)
  have h: "bit (0x8000 :: u16) n \<longleftrightarrow> n = 15" using bit_exp_iff [where 'a = "16 word", of 15 n] by auto
  show "bit (0x3fff :: u16) n \<longleftrightarrow> n < 14" unfolding m by (auto simp: bit_mask_iff)
  have "(0xbfff :: u16) = 0x3fff OR 0x8000" by simp
  then show "bit (0xbfff :: u16) n \<longleftrightarrow> n < 14 \<or> n = 15"
    by (simp only: bit_or_iff h) (simp add: m bit_mask_iff, auto)
qed

lemma halves_masked:
  "ucast (drop_bit 16 (with_low lo (with_high hi old AND START_END_ADDRESS_MASK) AND START_END_ADDRESS_MASK)) = hi AND (0x3fff :: u16)"
  "ucast (with_low lo (with_high hi old AND START_END_ADDRESS_MASK) AND START_END_ADDRESS_MASK) = (lo :: u16)"
  "ucast (drop_bit 16 (with_low lo (with_high hi old AND CURRENT_ADDRESS_MASK) AND CURRENT_ADDRESS_MASK)) = hi AND (0xbfff :: u16)"
  "ucast (with_low lo (with_high hi old AND CURRENT_ADDRESS_MASK) AND CURRENT_ADDRESS_MASK) = (lo :: u16)"
  unfolding with_low_def with_high_def
  by (rule bit_word_eqI; simp only: bit_ucast_iff bit_drop_bit_eq bit_and_iff bit_or_iff bit_push_bit_iff
      bit_masks_u32 bit_mask_u16 o_apply; force dest: bit_imp_le_length)+

lemma accel_pairs:
  "write_pair DSP_ACSAH hi DSP_ACSAL lo s = Inr (upd_accel (\<lambda>c. SetStartAddress (with_low lo
     (with_high hi (m_start_address c) AND START_END_ADDRESS_MASK)) c) s)"
  "write_pair DSP_ACEAH hi DSP_ACEAL lo s = Inr (upd_accel (\<lambda>c. SetEndAddress (with_low lo
     (with_high hi (m_end_address c) AND START_END_ADDRESS_MASK)) c) s)"
  "write_pair DSP_ACCAH hi DSP_ACCAL lo s = Inr (upd_accel (\<lambda>c. SetCurrentAddress (with_low lo
     (with_high hi (m_current_address c) AND CURRENT_ADDRESS_MASK)) c) s)"
  by (simp_all add: write_pair_def WriteIFX_def Let_def SetStartAddress_def SetEndAddress_def
      SetCurrentAddress_def o_def)

lemma accel_updates:
  "m_accelerator (upd_accel g s) = g (m_accelerator s)"
  "m_start_address (SetStartAddress v c) = v AND START_END_ADDRESS_MASK"
  "m_end_address (SetEndAddress v c) = v AND START_END_ADDRESS_MASK"
  "m_current_address (SetCurrentAddress v c) = v AND CURRENT_ADDRESS_MASK"
  by (simp_all add: SetStartAddress_def SetEndAddress_def SetCurrentAddress_def)

lemma ReadIFX_accel:
  "ReadIFX DSP_ACSAH s = (ucast (drop_bit 16 (m_start_address (m_accelerator s))), s)"
  "ReadIFX DSP_ACSAL s = (ucast (m_start_address (m_accelerator s)), s)"
  "ReadIFX DSP_ACEAH s = (ucast (drop_bit 16 (m_end_address (m_accelerator s))), s)"
  "ReadIFX DSP_ACEAL s = (ucast (m_end_address (m_accelerator s)), s)"
  "ReadIFX DSP_ACCAH s = (ucast (drop_bit 16 (m_current_address (m_accelerator s))), s)"
  "ReadIFX DSP_ACCAL s = (ucast (m_current_address (m_accelerator s)), s)"
  unfolding ReadIFX_def ReadIFXImpl_def Let_def by simp_all

section \<open>DMA\<close>

text \<open>What \<open>CopyToEmuSwapped\<close> stores, \<open>CopyFromEmuSwapped\<close> reads back.\<close>

lemma mem_byte_store_byte:
  "mem_byte (store_byte p i b h) p j = (if i = j then b else mem_byte h p j)"
  by (cases p; cases "fst p") (auto simp: store_byte_def)

lemma mem_byte_store_swapped_below:
  "j < 2 * i \<Longrightarrow> mem_byte (store_swapped p i ws h) p j = mem_byte h p j"
  by (induction p i ws h rule: store_swapped.induct) (auto simp: mem_byte_store_byte)

lemma mem_byte_store_swapped:
  "k < length ws \<Longrightarrow>
     mem_byte (store_swapped p i ws h) p (2 * (i + k)) = ucast (swap16 (ws ! k)) \<and>
     mem_byte (store_swapped p i ws h) p (2 * (i + k) + 1) = ucast (drop_bit 8 (swap16 (ws ! k)))"
proof (induction ws arbitrary: i k h)
  case (Cons w ws)
  show ?case
  proof (cases k)
    case 0
    then show ?thesis by (simp add: mem_byte_store_swapped_below mem_byte_store_byte)
  next
    case (Suc l)
    then show ?thesis using Cons.IH [of l "Suc i"] Cons.prems by simp
  qed
qed simp

lemma load_le16_parts: "load_le16 (ucast w) (ucast (drop_bit 8 w)) = w"
  by (rule bit_word_eqI) (auto simp: load_le16_def bit_simps)

lemma store_swapped_frame:
  "m_ram_size_real (store_swapped p i ws h) = m_ram_size_real h"
  "has_exram (store_swapped p i ws h) = has_exram h"
  "m_exram_size_real (store_swapped p i ws h) = m_exram_size_real h"
  "m_exram_mask (store_swapped p i ws h) = m_exram_mask h"
  by (induction p i ws h rule: store_swapped.induct)
    (auto simp: store_byte_def split: prod.split region.split)

lemma GetPointerForRange_store_swapped:
  "GetPointerForRange (store_swapped p i ws h) = GetPointerForRange h"
  by (intro ext) (simp add: GetPointerForRange_def GetSpanForAddress_def Let_def store_swapped_frame)

lemma CopyFrom_CopyTo:
  assumes "GetPointerForRange h a sz = Some p" and "length ws = sz div 2"
  shows "CopyFromEmuSwapped (CopyToEmuSwapped a ws sz h) a sz = Some ws"
proof -
  let ?h = "store_swapped p 0 ws h"
  have w: "swap16 (load_le16 (mem_byte ?h p (2 * i)) (mem_byte ?h p (2 * i + 1))) = ws ! i"
    if "i < sz div 2" for i
    using mem_byte_store_swapped [of i ws p 0 h] that assms(2) by (simp add: load_le16_parts del: swap16_load_le16)
  have "map (\<lambda>i. swap16 (load_le16 (mem_byte ?h p (2 * i)) (mem_byte ?h p (2 * i + 1)))) [0..<sz div 2] = ws"
    using w assms(2) by (intro nth_equalityI) (simp_all del: swap16_load_le16)
  then show ?thesis
    using assms by (simp add: CopyToEmuSwapped_def CopyFromEmuSwapped_def GetPointerForRange_store_swapped)
qed

text \<open>A transfer to the DSP reads main memory as big-endian halfwords.\<close>

definition big_endian :: "Host \<Rightarrow> ptr \<Rightarrow> nat \<Rightarrow> u16" where
  "big_endian h p i = push_bit 8 (ucast (mem_byte h p (2 * i))) OR ucast (mem_byte h p (2 * i + 1))"

lemma DMAToDSP_words:
  assumes "GetPointerForRange h adr sz = Some p" and "base + sz div 2 \<le> 0x1000"
  shows "DMAToDSP h base adr sz mem =
    Inr (\<lambda>i. if base \<le> i \<and> i < base + sz div 2 then big_endian h p (i - base) else mem i)"
  using assms
  by (auto simp: DMAToDSP_def CopyFromEmuSwapped_def store_words_def big_endian_def swap16_load_le16 fun_eq_iff)

text \<open>
  When a DMA fails, from the registers that describe it: a length above \<open>0x4000\<close> ends the process;
  a transfer with a valid CPU address that does not fit into the 4096 words of DSP memory runs out
  of bounds; loading code from an invalid CPU address hashes bytes through a null pointer.
\<close>

definition dma_error :: "'a SDSP_scheme \<Rightarrow> dsp_error option" where
  "dma_error s =
     (let adr = push_bit 16 (ucast (ifx s DSP_DSMAH)) OR ucast (ifx s DSP_DSMAL) :: u32;
          dir = ifx s DSP_DSCR AND 3; len = unat (ifx s DSP_DSBL);
          valid = (GetPointerForRange (host s) adr len \<noteq> None);
          fits = (len < 2 \<or> unat (ifx s DSP_DSPA * 2) div 2 + len div 2 \<le> 0x1000)
      in if len > 0x4000 then Some ProcessExit
         else if dir = 3 then None
         else if valid then if fits then None else Some OutOfBounds
         else if dir = 2 \<and> len \<noteq> 0 then Some NullPointer else None)"

definition error_of :: "'b result \<Rightarrow> dsp_error option" where
  "error_of r = (case r of Inl e \<Rightarrow> Some e | Inr _ \<Rightarrow> None)"

lemma error_of_simps [simp]: "error_of (Inl e) = Some e" "error_of (Inr x) = None"
  by (simp_all add: error_of_def)

lemma error_of_bindE: "(\<And>x. error_of (f x) = e) \<Longrightarrow>
    error_of (bindE m f) = (case error_of m of Some e' \<Rightarrow> Some e' | None \<Rightarrow> e)"
  by (cases m) auto

lemma DMAToDSP_error:
  "error_of (DMAToDSP h base adr sz mem) =
     (if GetPointerForRange h adr sz \<noteq> None \<and> \<not> (sz < 2 \<or> base + sz div 2 \<le> 0x1000)
      then Some OutOfBounds else None)"
  by (auto simp: DMAToDSP_def CopyFromEmuSwapped_def split: option.split)

lemma DMAFromDSP_error:
  "error_of (DMAFromDSP base adr sz mem h) =
     (if GetPointerForRange h adr sz \<noteq> None \<and> \<not> (sz < 2 \<or> base + sz div 2 \<le> 0x1000)
      then Some OutOfBounds else None)"
  by (auto simp: DMAFromDSP_def)

lemma analyze_code_returns: "\<exists>flags. analyze_code s = Inr (s\<lparr>m_code_flags := flags\<rparr>)"
  using Analyze_returns [of s] by (auto simp: analyze_code_def)

lemma analyze_code_error [simp]: "error_of (analyze_code s) = None"
  using analyze_code_returns [of s] by auto

lemma CodeLoaded_error:
  "error_of (CodeLoaded adr sz s) =
     (if GetPointerForRange (host s) adr sz = None \<and> sz \<noteq> 0 then Some NullPointer else None)"
  unfolding CodeLoaded_def
  by (subst error_of_bindE [where e = None]) (auto simp: code_bytes_def split: option.split)

lemma DoDMA_error: "error_of (DoDMA s) = dma_error s"
proof -
  let ?h = "host s" and ?a = "push_bit 16 (ucast (ifx s DSP_DSMAH)) OR ucast (ifx s DSP_DSMAL) :: u32"
    and ?l = "ifx s DSP_DSBL" and ?d = "ifx s DSP_DSPA * 2"
  let ?valid = "GetPointerForRange ?h ?a (unat ?l) \<noteq> None"
  let ?fits = "unat ?l < 2 \<or> unat ?d div 2 + unat ?l div 2 \<le> 0x1000"
  have out: "error_of (DDMAOut ?d ?a ?l s) = (if ?valid \<and> \<not> ?fits then Some OutOfBounds else None)"
    unfolding DDMAOut_def by (subst error_of_bindE [where e = None]) (auto simp: DMAFromDSP_error)
  have din: "error_of (DDMAIn ?d ?a ?l s) = (if ?valid \<and> \<not> ?fits then Some OutOfBounds else None)"
    unfolding DDMAIn_def by (subst error_of_bindE [where e = None]) (auto simp: DMAToDSP_error)
  have iin: "error_of (IDMAIn ?d ?a ?l s) = (if ?valid \<and> \<not> ?fits then Some OutOfBounds
      else if \<not> ?valid \<and> unat ?l \<noteq> 0 then Some NullPointer else None)"
    unfolding IDMAIn_def
    by (subst error_of_bindE [where e = "if \<not> ?valid \<and> unat ?l \<noteq> 0 then Some NullPointer else None"])
      (auto simp: CodeLoaded_error DMAToDSP_error)
  have long: "?l > 0x4000 \<longleftrightarrow> unat ?l > 0x4000" by (simp add: word_less_nat_alt)
  have dirs: "c AND 3 = 0 \<or> c AND 3 = 1 \<or> c AND 3 = 2 \<or> c AND 3 = 3" for c :: u16
    using unat_and_3_less [of c] by (simp add: word_unat_eq_iff) linarith
  show ?thesis
    unfolding DoDMA_def dma_error_def Let_def long using out din iin dirs [of "ifx s DSP_DSCR"]
    by (elim disjE) (simp_all add: IDMAOut_def)
qed

end
