(* ===== verification/Dsp_Run_Facts.thy ===== *)
theory Dsp_Run_Facts
  imports Dsp_HW_Facts
begin

text \<open>
  Running the interpreter: a time slice is a sequence of single steps that ends with the slice, at
  a halt or at an idle loop; when \<open>DSPCore::RunCycles\<close> comes back and when it does not; and the
  control register.  The last section is about the accelerator as a ring of samples.
\<close>

unbundle bit_operations_syntax

section \<open>Time slices\<close>

fun step_n :: "nat \<Rightarrow> Interpreter \<Rightarrow> Interpreter result" where
  "step_n 0 s = Inr s"
| "step_n (Suc n) s = bindE (Step s) (step_n n)"

text \<open>\<open>n\<close> steps were made of a slice of \<open>c\<close> cycles, and \<open>r\<close> is where it stopped.\<close>

definition slice :: "int \<Rightarrow> nat \<Rightarrow> Interpreter \<Rightarrow> Interpreter \<Rightarrow> bool" where
  "slice c n s r \<longleftrightarrow> step_n n s = Inr r \<and> n \<le> nat (max 1 c) \<and>
     (n = nat (max 1 c) \<or> halted r \<or> IsIdleSkip (m_code_flags r) (pc r))"

lemma slice_Suc: "Step s = Inr t \<Longrightarrow> 1 < c \<Longrightarrow> slice (c - 1) n t r \<Longrightarrow> slice c (Suc n) s r"
  by (auto simp: slice_def max_def)

lemma run_phase_slice:
  "run_phase ph i c s = Inr (k, r) \<Longrightarrow> k = 0 \<and> (\<exists>n. slice c n s r)"
proof (induction ph i c s rule: run_phase.induct)
  case (1 ph i c s)
  note eq = "1.prems" [unfolded run_phase.simps [of ph i c s]]
  show ?case
  proof (cases "phase_limit ph \<le> i")
    case True
    with eq "1.IH"(1) show ?thesis by simp
  next
    case False
    note lim = this
    show ?thesis
    proof (cases "ph \<noteq> Free \<and> halted s \<or> ph = IdleCheck \<and> IsIdleSkip (m_code_flags s) (pc s)")
      case True
      with eq lim have "k = 0" "r = s" "halted s \<or> IsIdleSkip (m_code_flags s) (pc s)"
        by (auto split: if_splits)
      then show ?thesis by (auto simp: slice_def intro!: exI [of _ 0])
    next
      case False
      show ?thesis
      proof (cases "Step s")
        case (Inl e)
        with eq lim False show ?thesis by (auto split: if_splits)
      next
        case (Inr t)
        show ?thesis
        proof (cases "c - 1 \<le> 0")
          case True
          with eq lim False Inr have "k = 0" "r = t" by (auto split: if_splits)
          with True Inr show ?thesis by (auto simp: slice_def max_def intro!: exI [of _ 1])
        next
          case c: False
          with eq lim False Inr have "run_phase ph (i + 1) (c - 1) t = Inr (k, r)"
            by (auto split: if_splits)
          with "1.IH"(2) lim False Inr c have "k = 0 \<and> (\<exists>n. slice (c - 1) n t r)" by blast
          with slice_Suc [OF Inr, of c] c show ?thesis by auto
        qed
      qed
    qed
  qed
qed

lemma RunCycles_slice: "RunCycles c s = Inr (k, r) \<Longrightarrow> k = 0 \<and> (\<exists>n. slice c n s r)"
  unfolding RunCycles_def by (rule run_phase_slice)

section \<open>The core object\<close>

lemma Core_RunCycles_Running:
  assumes "m_core_state c = Running"
  shows "Core_RunCycles steps cycles c =
    Some (if 0 < cycles then (case RunCycles cycles (m_dsp c) of Inl e \<Rightarrow> Inl e
            | Inr (n, d) \<Rightarrow> Inr (0, c\<lparr>m_dsp := d\<rparr>)) else Inr (cycles, c))"
proof (cases "0 < cycles")
  case True
  show ?thesis
  proof (cases "RunCycles cycles (m_dsp c)")
    case (Inl e)
    with True assms show ?thesis by (subst Core_RunCycles.simps) simp
  next
    case (Inr p)
    obtain n d where p: "p = (n, d)" by (cases p)
    have "n = 0" using RunCycles_slice Inr p by blast
    with True assms Inr p show ?thesis
      by (subst Core_RunCycles.simps) (simp, subst Core_RunCycles.simps, simp)
  qed
next
  case False
  then show ?thesis by (subst Core_RunCycles.simps) simp
qed

lemma Core_RunCycles_Stopped:
  assumes "m_core_state c = Stopped" and "0 < cycles"
  shows "Core_RunCycles steps cycles c = None"
proof (rule ccontr)
  assume "Core_RunCycles steps cycles c \<noteq> None"
  then obtain y where "Core_RunCycles steps cycles c = Some y" by blast
  then have "\<not> (m_core_state c = Stopped \<and> 0 < cycles)"
    by (rule Core_RunCycles.raw_induct [rotated]) (auto split: if_splits State.splits)
  with assms show False by blast
qed

text \<open>Single-stepping comes back when an event arrives for every cycle asked for.\<close>

lemma Core_RunCycles_Stepping:
  "m_core_state c = Stepping \<Longrightarrow> nat cycles \<le> steps \<Longrightarrow> \<exists>r. Core_RunCycles steps cycles c = Some r"
proof (induction steps arbitrary: cycles c)
  case 0
  then show ?case by (subst Core_RunCycles.simps) simp
next
  case (Suc steps)
  show ?case
  proof (cases "Step (m_dsp c)")
    case (Inl e)
    with Suc.prems show ?thesis by (subst Core_RunCycles.simps) simp
  next
    case (Inr d)
    with Suc.prems Suc.IH [of "c\<lparr>m_dsp := d\<rparr>" "cycles - 1"] show ?thesis
      by (subst Core_RunCycles.simps) auto
  qed
qed

section \<open>The control register\<close>

lemma DSPCore_Reset_returns:
  "\<exists>flags. DSPCore_Reset s = Inr ((SDSP_Reset s)\<lparr>m_code_flags := flags\<rparr>)"
  using analyze_code_returns [of "SDSP_Reset s"] by (simp add: DSPCore_Reset_def)

lemma WriteControl_reset:
  assumes "val AND CR_RESET \<noteq> 0" and "\<not> (control_reg s AND CR_INIT \<noteq> 0 \<and> val AND CR_INIT = 0)"
  shows "\<exists>flags. WriteControlRegister now val s =
    Inr ((SDSP_Reset s)\<lparr>m_code_flags := flags, control_reg := val AND NOT CR_RESET\<rparr>)"
proof -
  obtain flags where r: "DSPCore_Reset s = Inr ((SDSP_Reset s)\<lparr>m_code_flags := flags\<rparr>)"
    using DSPCore_Reset_returns by blast
  define v where "v = val AND NOT CR_RESET"
  have "v AND CR_INIT = val AND CR_INIT"
    unfolding v_def and.assoc by simp
  with assms have "\<not> (control_reg s AND CR_INIT \<noteq> 0 \<and> v AND CR_INIT = 0)" by simp
  then have e: "\<not> (control_reg ((SDSP_Reset s)\<lparr>m_code_flags := flags\<rparr>) AND CR_INIT \<noteq> 0 \<and> v AND CR_INIT = 0)"
    by (simp only: SDSP_Reset_def Let_def) simp
  show ?thesis
    unfolding WriteControlRegister_def v_def [symmetric] Let_def r if_P [OF assms(1)] bindE.simps if_not_P [OF e]
    by blast
qed

lemma WriteControl_plain:
  "val AND CR_RESET = 0 \<Longrightarrow> \<not> (control_reg s AND CR_INIT \<noteq> 0 \<and> val AND CR_INIT = 0) \<Longrightarrow>
     WriteControlRegister now val s = Inr (s\<lparr>control_reg := val\<rparr>)"
  by (auto simp: WriteControlRegister_def Let_def)

text \<open>The falling edge of \<open>CR_INIT\<close> loads 4096 bytes of code from the start of the audio memory.\<close>

lemma audio_memory_pointer:
  assumes "0x01001000 \<le> m_ram_size_real h"
  shows "GetPointerForRange h 0x81000000 0x1000 = Some (RAM, 0x1000000)"
proof -
  have "unat (0x01001000 :: u32) \<le> unat (m_ram_size_real h)"
    using assms by (simp only: word_le_nat_alt)
  then have n: "0x01001000 \<le> unat (m_ram_size_real h)" by simp
  then have lt: "(0x1000000 :: u32) < m_ram_size_real h" by (simp add: word_less_nat_alt)
  have "unat (m_ram_size_real h - 0x1000000) = unat (m_ram_size_real h) - 0x1000000"
    using lt by (subst unat_sub) (auto simp: word_le_nat_alt word_less_nat_alt)
  with n lt show ?thesis by (simp add: GetPointerForRange_def GetSpanForAddress_def Let_def)
qed

lemma WriteControl_init:
  assumes "val AND CR_RESET = 0" and "control_reg s AND CR_INIT \<noteq> 0" and "val AND CR_INIT = 0"
    and "0x01001000 \<le> m_ram_size_real (host s)"
  shows "\<exists>r. WriteControlRegister now val s = Inr r \<and> pc r = 0 \<and>
    control_reg r = val OR CR_INIT_CODE \<and> control_reg_init_code_clear_time r = now + 130 \<and>
    iram r = (\<lambda>i. if i < 0x800 then big_endian (host s) (RAM, 0x1000000) i else iram s i)"
proof -
  note p = audio_memory_pointer [OF assms(4)]
  let ?mem = "\<lambda>i. if i < 0x800 then big_endian (host s) (RAM, 0x1000000) i else iram s i"
  have d: "DMAToDSP (host s) 0 0x81000000 0x1000 (iram s) = Inr ?mem"
    using DMAToDSP_words [OF p, of 0 "iram s"] by (simp cong: if_cong)
  let ?t = "s\<lparr>pc := 0, iram := ?mem\<rparr>"
  obtain bytes where "code_bytes (host s) 0x81000000 0x1000 = Inr bytes"
    by (simp only: code_bytes_def p option.case)
  then obtain u where u: "CodeLoaded 0x81000000 0x1000 ?t = Inr u" and
    fr: "iram u = iram ?t" "pc u = pc ?t" "control_reg u = control_reg s"
    using analyze_code_returns [of "SetIRAMCRC (HashEctor bytes) ?t"]
    by (auto simp: CodeLoaded_def SetIRAMCRC_def)
  have v: "val AND NOT CR_INIT = val"
  proof (rule bit_word_eqI)
    fix n assume "n < LENGTH(16)"
    moreover have "\<not> bit (val AND CR_INIT) n" using assms(3) by simp
    ultimately show "bit (val AND NOT CR_INIT) n = bit val n"
      by (simp only: bit_and_iff bit_not_iff) auto
  qed
  show ?thesis
    unfolding WriteControlRegister_def Let_def using assms(1-3) d u fr v
    by (simp del: bit_not_iff_eq)
qed

lemma ReadControl_clears:
  "control_reg s AND CR_INIT_CODE \<noteq> 0 \<Longrightarrow> fst (ReadControlRegister now s) =
     (if control_reg_init_code_clear_time s \<le> now then control_reg s AND NOT CR_INIT_CODE else control_reg s)"
  by (simp add: ReadControlRegister_def Let_def)

end
