(* ===== verification/Dsp_Samples.thy ===== *)
theory Dsp_Samples
  imports Dsp_Decode_Facts Dsp_Log Dsp_Run_Facts
begin

text \<open>
  Concrete states at which the properties are exercised: a DSP with empty memories and registers in
  front of a console with 24 MiB of memory, and what a few instructions decode to.
\<close>

definition sample_host :: Host where
  "sample_host = \<lparr>aram_wii_mode = False, aram_ptr = \<lambda>_. 0, aram_size = 0x1000000, aram_mask = 0xffffff, m_ram = \<lambda>_. 0,
     m_ram_size_real = 0x1800000, m_ram_mask = 0x1ffffff, has_exram = False, m_exram = \<lambda>_. 0,
     m_exram_size_real = 0, m_exram_mask = 0, host_events = []\<rparr>"

definition sample_regs :: DSP_Regs where
  "sample_regs = \<lparr>ar = \<lambda>_. 0, ix = \<lambda>_. 0, wr = \<lambda>_. 0xffff, st = \<lambda>_. 0, cr = 0, sr = 0, prod = 0,
     ax = \<lambda>_. 0, ac = \<lambda>_. 0\<rparr>"

definition sample_dsp :: Interpreter where
  "sample_dsp = \<lparr>regs = sample_regs, pc = 0x10, control_reg = 0, control_reg_init_code_clear_time = 0,
     reg_stack_ptrs = \<lambda>_. 0, exceptions = 0, external_interrupt_waiting = False,
     reg_stacks = \<lambda>_ _. 0, iram = \<lambda>_. 0, dram = \<lambda>_. 0, irom = \<lambda>_. 0, coef = \<lambda>_. 0, m_iram_crc = 0,
     m_step_counter = 0, m_ifx_regs = \<lambda>_. 0, m_accelerator = init_accelerator,
     m_mailbox = \<lambda>_. 0, m_code_flags = \<lambda>_. 0, host = sample_host,
     m_write_back_log = \<lambda>_. 0, m_write_back_log_idx = \<lambda>_. -1\<rparr>"

lemmas sample_simps = sample_dsp_def sample_regs_def sample_host_def

lemma sample_stacks_ok [simp]: "stacks_ok sample_dsp"
  by (simp add: stacks_ok_def sample_simps)

lemma sample_wf [simp]: "wf_dsp sample_dsp"
  by (simp add: wf_dsp_def sample_simps stacks_ok_def wf_accel_def init_accelerator_def get16_def)

lemma sample_host_ok [simp]: "host_ok sample_host" "host_ok (host sample_dsp)"
  by (simp_all add: host_ok_def sample_simps)

lemma sample_log_empty [simp]: "log_empty sample_dsp"
  by (simp add: log_empty_def sample_simps)

text \<open>Decoding single words.\<close>

lemma template_nop: "GetOpTemplate 0 = DSPOPCTemplate ''NOP'' 0 0xfffc 1 0 [] False False False False False"
  by code_simp

lemma template_lri: "op_size (GetOpTemplate 0x0080) = 2" "\<not> branch (GetOpTemplate 0x0080)"
  by code_simp+

lemma op_nop: "GetOp 0 = total nop"
  by (simp add: GetOp_def i_op_table_def FindFunction_def i_opcodes_def i_opcodes_control_def)

lemma op_lri: "GetOp 0x0080 = total lri"
  by (simp add: GetOp_def i_op_table_def FindFunction_def i_opcodes_def i_opcodes_control_def i_opcodes_short_def)

lemma ext_op_nop: "GetExtOp 0 = total nop_ext"
  by (simp add: GetExtOp_def i_ext_op_table_def FindFunction_def i_opcodes_ext_def)

lemma Step_sample:
  "Step sample_dsp = Inr (sample_dsp\<lparr>m_step_counter := 1, pc := 0x11\<rparr>)"
proof -
  have "CheckExceptions sample_dsp = (False, sample_dsp)" by (simp add: CheckExceptions_def sample_simps)
  moreover have "ReadIMEM s 0x10 = 0" if "iram s = (\<lambda>_. 0)" for s :: Interpreter
    using that by (simp add: ReadIMEM_def)
  ultimately show ?thesis
    by (simp add: Step_def Let_def FetchInstruction_def PeekInstruction_def ExecuteInstruction_def
        template_nop op_nop total_def nop_def IsLoopEnd_def sample_simps)
qed

lemma RunCycles_sample: "RunCycles 1 sample_dsp = Inr (0, sample_dsp\<lparr>m_step_counter := 1, pc := 0x11\<rparr>)"
proof -
  have "\<not> halted sample_dsp" by (simp add: halted_def sample_simps)
  then show ?thesis
    unfolding RunCycles_def by (subst run_phase.simps) (simp add: Step_sample)
qed

end
