(* ===== verification/Dsp_Control_Facts.thy ===== *)
theory Dsp_Control_Facts
  imports Dsp_Wf Dsp_Flags
begin

text \<open>
  Control flow: which exception \<open>CheckExceptions\<close> enters, and that \<open>rti\<close> comes back from it; that
  \<open>ret\<close> comes back from \<open>call\<close>; and that a hardware loop runs its body as often as its counter
  says and then leaves the stacks as they were.
\<close>

unbundle bit_operations_syntax

section \<open>Exceptions\<close>

text \<open>The exceptions that are pending and not masked; only the external interrupt ignores the mask.\<close>

definition ready_exceptions :: "'a SDSP_scheme \<Rightarrow> nat set" where
  "ready_exceptions s =
     {i \<in> {1..7}. bit (exceptions s) i \<and> (IsSRFlagSet s SR_INT_ENABLE \<or> i = exception_code ExternalInterrupt)}"

lemma and_push_bit_1: "(x :: 'a::len word) AND push_bit i 1 \<noteq> 0 \<longleftrightarrow> bit x i"
  by (simp add: bit_iff_and_push_bit_not_eq_0)

lemma check_exceptions_step:
  "n < 7 \<Longrightarrow> check_exceptions (Suc n) s =
     (if Suc n \<in> ready_exceptions s then (True, enter_exception (Suc n) s) else check_exceptions n s)"
  unfolding check_exceptions.simps Let_def and_push_bit_1 by (auto simp: ready_exceptions_def)

lemma check_exceptions_Max:
  "n \<le> 7 \<Longrightarrow> check_exceptions n s =
     (let P = {i \<in> ready_exceptions s. i \<le> n} in if P = {} then (False, s) else (True, enter_exception (Max P) s))"
proof (induction n)
  case 0
  have "{i \<in> ready_exceptions s. i \<le> 0} = {}" by (auto simp: ready_exceptions_def)
  then show ?case by simp
next
  case (Suc n)
  let ?P = "\<lambda>n. {i \<in> ready_exceptions s. i \<le> n}"
  show ?case
  proof (cases "Suc n \<in> ready_exceptions s")
    case True
    then have "Suc n \<in> ?P (Suc n)" by simp
    then have "?P (Suc n) \<noteq> {}" "Max (?P (Suc n)) = Suc n" by (blast, intro Max_eqI) auto
    with True Suc.prems show ?thesis by (simp only: check_exceptions_step Let_def) simp
  next
    case False
    then have "?P (Suc n) = ?P n" by (auto simp: le_Suc_eq)
    with False Suc show ?thesis by (simp add: check_exceptions_step del: check_exceptions.simps)
  qed
qed

lemma CheckExceptions_Max:
  "CheckExceptions s =
     (if ready_exceptions s = {} then (False, s)
      else (True, enter_exception (Max (ready_exceptions s)) s))"
proof (cases "exceptions s = 0")
  case True
  then have "ready_exceptions s = {}" by (simp add: ready_exceptions_def)
  with True show ?thesis by (simp add: CheckExceptions_def)
next
  case False
  have "{i \<in> ready_exceptions s. i \<le> 7} = ready_exceptions s" by (auto simp: ready_exceptions_def)
  with False check_exceptions_Max [of 7 s] show ?thesis
    by (simp only: CheckExceptions_def Let_def if_False order.refl)
qed

section \<open>Coming back\<close>

text \<open>What a caller sees of the stacks: everything but the oldest slot.\<close>

definition same_stacks :: "'a SDSP_scheme \<Rightarrow> 'b SDSP_scheme \<Rightarrow> bool" where
  "same_stacks s r \<longleftrightarrow> st (regs r) = st (regs s) \<and> reg_stack_ptrs r = reg_stack_ptrs s \<and>
     (\<forall>k. butlast (stack_view k r) = butlast (stack_view k s))"

lemma stack_view_cong:
  "st (regs s) = st (regs t) \<Longrightarrow> reg_stacks s = reg_stacks t \<Longrightarrow> reg_stack_ptrs s = reg_stack_ptrs t
    \<Longrightarrow> stack_view k s = stack_view k t"
  by (simp add: stack_view_def)

lemma CheckCondition_always [simp]: "CheckCondition s 0xf"
  by (simp add: CheckCondition_def Let_def)

text \<open>Frames of the stack operations.\<close>

lemma stack_frames [simp]:
  "pc (StoreStack k v s) = pc s" "sr (regs (StoreStack k v s)) = sr (regs s)"
  "pc (snd (PopStack k s)) = pc s" "sr (regs (snd (PopStack k s))) = sr (regs s)"
  "exceptions (StoreStack k v s) = exceptions s" "exceptions (snd (PopStack k s)) = exceptions s"
  by (simp_all add: StoreStack_def PopStack_def Let_def)

lemma same_stacks_cong:
  "st (regs s') = st (regs s) \<Longrightarrow> reg_stacks s' = reg_stacks s \<Longrightarrow> reg_stack_ptrs s' = reg_stack_ptrs s
    \<Longrightarrow> same_stacks s s'"
  by (simp add: same_stacks_def stack_view_def)

text \<open>The slot the next push overwrites is the one that is not seen.\<close>

abbreviation push_slot :: "StackRegister \<Rightarrow> 'a SDSP_scheme \<Rightarrow> nat" where
  "push_slot k s \<equiv> unat ((reg_stack_ptrs s (stack_index k) + 1) AND DSP_STACK_MASK)"

lemma ring_slot_not_next:
  assumes "j < 31" shows "ring_slot p j \<noteq> unat ((p + 1) AND DSP_STACK_MASK)"
proof -
  let ?q = "(p + 1) AND DSP_STACK_MASK"
  have "ring_slot ?q 0 = unat ?q" by (rule ring_slot_0 [OF and_31_less])
  moreover have "ring_slot ?q (Suc j) \<noteq> ring_slot ?q 0"
    using ring_slot_eq_iff [of "Suc j" 0 ?q] assms by simp
  ultimately show ?thesis by (simp add: ring_slot_Suc)
qed

lemma butlast_stack_view:
  "butlast (stack_view k t) = st (regs t) (stack_index k) #
     map (\<lambda>j. reg_stacks t (stack_index k) (ring_slot (reg_stack_ptrs t (stack_index k)) j)) [0..<31]"
  using butlast_map_upt [of "\<lambda>j. reg_stacks t (stack_index k) (ring_slot (reg_stack_ptrs t (stack_index k)) j)" 31]
  by (simp add: stack_view_def)

lemma same_stacksI:
  assumes "st (regs r) = st (regs s)" and "reg_stack_ptrs r = reg_stack_ptrs s"
    and slots: "\<And>k j. j \<noteq> push_slot k s \<Longrightarrow> reg_stacks r (stack_index k) j = reg_stacks s (stack_index k) j"
  shows "same_stacks s r"
  using assms(1,2) slots ring_slot_not_next
  by (auto simp: same_stacks_def butlast_stack_view map_eq_conv)

lemma ptr_inc_dec: "p < 32 \<Longrightarrow> (((p + 1) AND DSP_STACK_MASK) - 1) AND DSP_STACK_MASK = p"
proof -
  assume p: "p < 32"
  have "uint ((((p + 1) AND DSP_STACK_MASK) - 1) AND DSP_STACK_MASK) = uint p mod 32"
    unfolding uint_inc_31 uint_dec_31 by (simp add: mod_diff_left_eq)
  also have "\<dots> = uint p" using p by (simp add: word_less_def)
  finally show ?thesis by (simp only: word_uint_eq_iff)
qed

lemma stacks_okD [simp]: "stacks_ok s \<Longrightarrow> reg_stack_ptrs s i < 32"
  by (simp add: stacks_ok_def)

text \<open>Returning from an exception.\<close>

lemma rti_enter_exception:
  assumes "stacks_ok s" and "i \<le> 7"
  defines "r \<equiv> rti 0x02ff (enter_exception i s)"
  shows "pc r = pc s" "sr (regs r) = sr (regs s)" "same_stacks s r"
    "exceptions r = exceptions s AND NOT (push_bit i 1)" "pc (enter_exception i s) = of_nat (2 * i)"
    "\<not> bit (sr (regs (enter_exception i s))) (if i = 7 then 11 else 9)"
proof -
  have cond: "CheckCondition t (ucast ((0x02ff :: u16) AND 0xf))" for t :: "'a SDSP_scheme" by simp
  note r = r_def rti_def cond enter_exception_def Let_def case_prod_beta if_False not_True_eq_False
  show "pc r = pc s" unfolding r by (simp add: StoreStack_def PopStack_def Let_def stack_index_def)
  show "sr (regs r) = sr (regs s)"
    unfolding r by (simp add: StoreStack_def PopStack_def Let_def stack_index_def)
  show "exceptions r = exceptions s AND NOT (push_bit i 1)"
    unfolding r by simp
  show "pc (enter_exception i s) = of_nat (2 * i)"
    by (simp add: enter_exception_def Let_def mult.commute)
  show "same_stacks s r"
    by (rule same_stacksI) (auto simp: r StoreStack_def PopStack_def stack_index_def
        ptr_inc_dec assms(1) fun_eq_iff)
  show "\<not> bit (sr (regs (enter_exception i s))) (if i = 7 then 11 else 9)"
    by (simp add: enter_exception_def Let_def bit_simps bit_numeral_rec)
qed

text \<open>Returning from a call.\<close>

lemma CheckCondition_pc [simp]: "CheckCondition (s\<lparr>pc := v\<rparr>) c = CheckCondition s c"
  by (simp add: CheckCondition_def IsSRFlagSet_def Let_def)

lemma call_taken:
  assumes "CheckCondition s (ucast (opc AND 0xf))"
  shows "call opc s = (StoreStack Call (pc s + 1) (s\<lparr>pc := pc s + 1\<rparr>))\<lparr>pc := ReadIMEM s (pc s)\<rparr>"
  using assms by (simp add: call_def FetchInstruction_def PeekInstruction_def Let_def)

lemma ret_call:
  assumes "stacks_ok s" and "CheckCondition s (ucast (opc AND 0xf))"
  defines "r \<equiv> ret 0x02df (call opc s)"
  shows "pc (call opc s) = ReadIMEM s (pc s)" "pc r = pc s + 1" "same_stacks s r" "sr (regs r) = sr (regs s)"
proof -
  have "CheckCondition t (ucast ((0x02df :: u16) AND 0xf))" for t :: "'a SDSP_scheme" by simp
  note r = r_def ret_def this call_taken [OF assms(2)] Let_def case_prod_beta if_False not_True_eq_False
  show "pc (call opc s) = ReadIMEM s (pc s)" unfolding r by simp
  show "pc r = pc s + 1" "sr (regs r) = sr (regs s)"
    unfolding r by (simp_all add: StoreStack_def PopStack_def Let_def stack_index_def)
  show "same_stacks s r"
    by (rule same_stacksI)
      (auto simp: r StoreStack_def PopStack_def stack_index_def ptr_inc_dec assms(1) fun_eq_iff)
qed

section \<open>Hardware loops\<close>

text \<open>A loop body that does not touch the stacks and comes to the end address \<open>fin\<close>.\<close>

definition loop_frame :: "'a SDSP_scheme \<Rightarrow> 'b SDSP_scheme \<Rightarrow> bool" where
  "loop_frame s r \<longleftrightarrow> st (regs r) = st (regs s) \<and> reg_stacks r = reg_stacks s \<and>
     reg_stack_ptrs r = reg_stack_ptrs s"

definition loop_body :: "u16 \<Rightarrow> u16 \<Rightarrow> ('a SDSP_scheme \<Rightarrow> 'a SDSP_scheme) \<Rightarrow> bool" where
  "loop_body start fin body \<longleftrightarrow>
     (\<forall>s. pc s = start \<longrightarrow> loop_frame s (body s) \<and> pc (body s) = fin + 1)"

text \<open>The state inside a loop that was entered in \<open>s\<close>, with \<open>c\<close> iterations to go.\<close>

definition in_loop :: "u16 \<Rightarrow> u16 \<Rightarrow> 'a SDSP_scheme \<Rightarrow> 'a SDSP_scheme \<Rightarrow> bool" where
  "in_loop fin c s r \<longleftrightarrow> loop_frame (push_loop fin c s) r"

lemma loop_end_pc: "fin \<noteq> 0xffff \<Longrightarrow> uint (fin + 1) - 1 = uint (fin :: u16)"
proof -
  assume "fin \<noteq> 0xffff"
  then have "uint fin \<noteq> uint (0xffff :: u16)" by (metis word_uint_eq_iff)
  then have "uint fin + 1 < 2 ^ 16" using uint_bounded [of fin] by simp
  then show ?thesis by (simp add: uint_word_ariths mod_pos_pos_trivial)
qed

lemma in_loop_st:
  assumes "in_loop fin c s r"
  shows "st (regs r) 0 = pc s" "st (regs r) 2 = fin" "st (regs r) 3 = c"
  using assms
  by (simp_all add: in_loop_def loop_frame_def push_loop_def StoreStack_def Let_def stack_index_def)

lemma HandleLoop_again:
  assumes l: "in_loop fin c s r" and p: "pc r = fin + 1" "0 < fin" "fin \<noteq> 0xffff" "1 < c"
  shows "pc (HandleLoop r) = pc s" "in_loop fin (c - 1) s (HandleLoop r)"
proof -
  have c: "0 < c" "0 < c - 1" using p(4) by (auto simp: word_gt_0)
  have h: "HandleLoop r = (set_st 3 (c - 1) r)\<lparr>pc := pc s\<rparr>"
    using c p by (simp add: HandleLoop_def Let_def in_loop_st [OF l] loop_end_pc)
  show "pc (HandleLoop r) = pc s" by (simp add: h)
  show "in_loop fin (c - 1) s (HandleLoop r)"
    using l unfolding h
    by (simp add: in_loop_def loop_frame_def push_loop_def StoreStack_def Let_def stack_index_def fun_eq_iff)
qed

lemma HandleLoop_last:
  assumes ok: "stacks_ok s" and l: "in_loop fin 1 s r" and p: "pc r = fin + 1" "0 < fin" "fin \<noteq> 0xffff"
  shows "pc (HandleLoop r) = fin + 1" "same_stacks s (HandleLoop r)"
proof -
  have h: "HandleLoop r = snd (PopStack LoopCounter (snd (PopStack LoopAddress (snd (PopStack Call (set_st 3 0 r))))))"
    using p by (simp add: HandleLoop_def Let_def in_loop_st [OF l] loop_end_pc)
  show "pc (HandleLoop r) = fin + 1" using p by (simp add: h)
  have "loop_frame (push_loop fin 1 s) r" using l by (simp add: in_loop_def)
  then show "same_stacks s (HandleLoop r)"
    unfolding h loop_frame_def
    by (intro same_stacksI) (auto simp: push_loop_def StoreStack_def PopStack_def Let_def
        stack_index_def ptr_inc_dec ok fun_eq_iff)
qed

lemma in_loop_body:
  "loop_body (pc s) fin body \<Longrightarrow> in_loop fin c s r \<Longrightarrow> pc r = pc s \<Longrightarrow>
     in_loop fin c s (body r) \<and> pc (body r) = fin + 1"
  by (auto simp: loop_body_def in_loop_def loop_frame_def)

lemma loop_iterations:
  assumes body: "loop_body (pc s) fin body" and fin: "0 < fin" "fin \<noteq> 0xffff" and k: "k < unat n"
  shows "in_loop fin (n - of_nat k) s (((\<lambda>r. HandleLoop (body r)) ^^ k) (push_loop fin n s)) \<and>
    pc (((\<lambda>r. HandleLoop (body r)) ^^ k) (push_loop fin n s)) = pc s"
  using k
proof (induction k)
  case 0
  then show ?case by (simp add: in_loop_def loop_frame_def push_loop_def)
next
  case (Suc k)
  let ?r = "((\<lambda>r. HandleLoop (body r)) ^^ k) (push_loop fin n s)"
  have r: "in_loop fin (n - of_nat k) s (body ?r)" "pc (body ?r) = fin + 1"
    using Suc in_loop_body [OF body, of "n - of_nat k" ?r] by simp_all
  have "unat (of_nat k :: u16) = k"
    using Suc.prems unsigned_less [of n, where 'a = nat] by (simp add: unsigned_of_nat take_bit_nat_eq_self)
  then have "unat (n - of_nat k) = unat n - k"
    using Suc.prems by (subst unat_sub) (auto simp: word_le_nat_alt)
  then have "1 < n - of_nat k" using Suc.prems by (simp add: word_less_nat_alt)
  from HandleLoop_again [OF r fin this] show ?case by (simp add: diff_diff_eq add.commute)
qed

text \<open>
  A loop of count \<open>n\<close> runs its body \<open>n\<close> times: after every run but the last the body starts
  again, after the last one execution goes on behind the loop with the stacks of before.
\<close>

lemma unat_of_nat_self: "of_nat (unat w) = (w :: 'a::len word)"
  by simp

lemma loop_finishes:
  assumes body: "loop_body (pc s) fin body" and fin: "0 < fin" "fin \<noteq> 0xffff" and n: "n \<noteq> 0"
    and ok: "stacks_ok s"
  shows "pc (((\<lambda>r. HandleLoop (body r)) ^^ unat n) (push_loop fin n s)) = fin + 1"
    "same_stacks s (((\<lambda>r. HandleLoop (body r)) ^^ unat n) (push_loop fin n s))"
proof -
  have pos: "0 < unat n" using n by (simp add: unat_gt_0)
  then obtain k where k: "unat n = Suc k" by (cases "unat n") auto
  have "k < unat n" using k by simp
  note it = loop_iterations [OF body fin this]
  have "n - of_nat k = 1"
    using k by (metis add_diff_cancel_right' add.commute of_nat_Suc unat_of_nat_self)
  with it have it1: "in_loop fin 1 s (((\<lambda>r. HandleLoop (body r)) ^^ k) (push_loop fin n s))"
    and pc: "pc (((\<lambda>r. HandleLoop (body r)) ^^ k) (push_loop fin n s)) = pc s" by simp_all
  note b = in_loop_body [OF body it1 pc]
  show "pc (((\<lambda>r. HandleLoop (body r)) ^^ unat n) (push_loop fin n s)) = fin + 1"
    "same_stacks s (((\<lambda>r. HandleLoop (body r)) ^^ unat n) (push_loop fin n s))"
    unfolding k using HandleLoop_last [OF ok _ _ fin] b by simp_all
qed

end
