(* ===== verification/Dsp_Arith_Facts.thy ===== *)
theory Dsp_Arith_Facts
  imports Dsp_Flags Dsp_IntArithmetic Dsp_IntMultiplier Dsp_Wf
begin

text \<open>
  Functional correctness of the arithmetic instructions.  \<open>sum_flags\<close> and \<open>diff_flags\<close> say, in
  integer arithmetic on the signed and unsigned 40-bit values of the operands, what every flag and
  condition code means after an addition or a subtraction; the theorems show it for every
  instruction of the two families, and for the comparisons.
\<close>

unbundle bit_operations_syntax

section \<open>The exact results\<close>

definition sum_flags :: "int \<Rightarrow> int \<Rightarrow> 'a SDSP_scheme \<Rightarrow> bool" where
  "sum_flags x y s \<longleftrightarrow> (let r = signed_take_bit 39 (x + y) in
     (IsSRFlagSet s SR_CARRY \<longleftrightarrow> 2 ^ 40 \<le> x mod 2 ^ 40 + y mod 2 ^ 40) \<and>
     (IsSRFlagSet s SR_OVERFLOW \<longleftrightarrow> x + y < - (2 ^ 39) \<or> 2 ^ 39 \<le> x + y) \<and>
     (IsSRFlagSet s SR_ARITH_ZERO \<longleftrightarrow> r = 0) \<and> (IsSRFlagSet s SR_SIGN \<longleftrightarrow> r < 0) \<and>
     (IsSRFlagSet s SR_OVER_S32 \<longleftrightarrow> r < - (2 ^ 31) \<or> 2 ^ 31 \<le> r) \<and>
     (CheckCondition s 0x1 \<longleftrightarrow> x + y < 0) \<and> (CheckCondition s 0x0 \<longleftrightarrow> 0 \<le> x + y))"

definition diff_flags :: "int \<Rightarrow> int \<Rightarrow> 'a SDSP_scheme \<Rightarrow> bool" where
  "diff_flags x y s \<longleftrightarrow>
     (CheckCondition s 0x0 \<longleftrightarrow> y \<le> x) \<and> (CheckCondition s 0x1 \<longleftrightarrow> x < y) \<and>
     (CheckCondition s 0x2 \<longleftrightarrow> y < x) \<and> (CheckCondition s 0x3 \<longleftrightarrow> x \<le> y) \<and>
     (CheckCondition s 0x4 \<longleftrightarrow> x \<noteq> y) \<and> (CheckCondition s 0x5 \<longleftrightarrow> x = y) \<and>
     (CheckCondition s 0x6 \<longleftrightarrow> x mod 2 ^ 40 < y mod 2 ^ 40) \<and>
     (CheckCondition s 0x7 \<longleftrightarrow> y mod 2 ^ 40 \<le> x mod 2 ^ 40) \<and>
     (CheckCondition s 0xe \<longleftrightarrow> x - y < - (2 ^ 39) \<or> 2 ^ 39 \<le> x - y) \<and>
     (CheckCondition s 0x9 \<longleftrightarrow> (let r = signed_take_bit 39 (x - y) in r < - (2 ^ 31) \<or> 2 ^ 31 \<le> r))"

lemma int_u40: "int (u40 v) = sint v mod 2 ^ 40"
proof -
  have "int (u40 v) = (sint v mod 2 ^ 64) mod 2 ^ 40"
    by (simp add: u40_def zmod_int uint_sint take_bit_eq_mod)
  also have "\<dots> = sint v mod 2 ^ 40" by (rule mod_mod_cancel) simp
  finally show ?thesis .
qed

lemma u40_compare:
  "u40 a \<le> u40 b \<longleftrightarrow> sint a mod 2 ^ 40 \<le> sint b mod 2 ^ 40"
  "2 ^ 40 \<le> u40 a + u40 b \<longleftrightarrow> 2 ^ 40 \<le> sint a mod 2 ^ 40 + sint b mod 2 ^ 40"
proof -
  show "u40 a \<le> u40 b \<longleftrightarrow> sint a mod 2 ^ 40 \<le> sint b mod 2 ^ 40"
    unfolding int_u40 [symmetric] by simp
  show "2 ^ 40 \<le> u40 a + u40 b \<longleftrightarrow> 2 ^ 40 \<le> sint a mod 2 ^ 40 + sint b mod 2 ^ 40"
    unfolding int_u40 [symmetric] of_nat_add [symmetric]
    using of_nat_le_iff [where 'a = int, of "2 ^ 40" "u40 a + u40 b"] by simp
qed

lemma CheckCondition_simps:
  "CheckCondition s 0x0 \<longleftrightarrow> IsSRFlagSet s SR_OVERFLOW = IsSRFlagSet s SR_SIGN"
  "CheckCondition s 0x1 \<longleftrightarrow> IsSRFlagSet s SR_OVERFLOW \<noteq> IsSRFlagSet s SR_SIGN"
  "CheckCondition s 0x2 \<longleftrightarrow> IsSRFlagSet s SR_OVERFLOW = IsSRFlagSet s SR_SIGN \<and> \<not> IsSRFlagSet s SR_ARITH_ZERO"
  "CheckCondition s 0x3 \<longleftrightarrow> IsSRFlagSet s SR_OVERFLOW \<noteq> IsSRFlagSet s SR_SIGN \<or> IsSRFlagSet s SR_ARITH_ZERO"
  "CheckCondition s 0x4 \<longleftrightarrow> \<not> IsSRFlagSet s SR_ARITH_ZERO"
  "CheckCondition s 0x5 \<longleftrightarrow> IsSRFlagSet s SR_ARITH_ZERO"
  "CheckCondition s 0x6 \<longleftrightarrow> \<not> IsSRFlagSet s SR_CARRY"
  "CheckCondition s 0x7 \<longleftrightarrow> IsSRFlagSet s SR_CARRY"
  "CheckCondition s 0x9 \<longleftrightarrow> IsSRFlagSet s SR_OVER_S32"
  "CheckCondition s 0xe \<longleftrightarrow> IsSRFlagSet s SR_OVERFLOW"
  "CheckCondition s 0xf"
  by (simp_all add: CheckCondition_def Let_def)

lemma sum_range:
  assumes "is40 a" and "is40 b"
  shows "- (2 ^ 40) \<le> sint a + sint b" "sint a + sint b < 2 ^ 40"
    "- (2 ^ 40) < sint a - sint b" "sint a - sint b < 2 ^ 40"
  using assms by (auto simp: is40_iff_range)

lemma sless_0: "v <s 0 \<longleftrightarrow> sint (v :: s64) < 0"
  by (simp add: word_sless_alt)

lemma sext40_0_iff: "sext40 v = 0 \<longleftrightarrow> signed_take_bit 39 (sint v) = 0"
  by (simp flip: sint_sext40 add: sint_eq_0_iff)

lemma sint_eq_iff: "sint a = sint b \<longleftrightarrow> a = (b :: s64)"
  by (auto intro: signed_word_eqI [where 'a = int])

lemma UpdateSR64Add_flags:
  assumes a: "is40 a" and b: "is40 b"
  shows "sum_flags (sint a) (sint b) (UpdateSR64Add a b (sext40 (a + b)) s)"
proof -
  note r = signed_take_bit_39_cases [OF sum_range(1,2) [OF a b]]
  have z: "sext40 (a + b) = 0 \<longleftrightarrow> signed_take_bit 39 (sint a + sint b) = 0"
    by (simp flip: sint_sext40_add add: sint_eq_0_iff)
  show ?thesis
    unfolding sum_flags_def CheckCondition_simps UpdateSR64Add_def UpdateSR64_flags Let_def
      isCarryAdd_correct [OF a b] isOverflow_add_correct [OF a b] isOverS32_correct sless_0
      sint_sext40_add z u40_compare
    using sum_range(1,2) [OF a b] by (auto simp: r)
qed

lemma UpdateSR64Sub_flags:
  assumes a: "is40 a" and b: "is40 b"
  shows "diff_flags (sint a) (sint b) (UpdateSR64Sub a b (sext40 (a - b)) s)"
proof -
  have "- (2 ^ 40) \<le> sint a - sint b" using sum_range(3) [OF a b] by simp
  note r = signed_take_bit_39_cases [OF this sum_range(4) [OF a b]]
  have "signed_take_bit 39 (sint a - sint b) = 0 \<longleftrightarrow> sint a = sint b"
    using sum_range(3,4) [OF a b] by (auto simp: r)
  then have z: "sext40 (a - b) = 0 \<longleftrightarrow> sint a = sint b"
    by (simp flip: sint_sext40_sub add: sint_eq_0_iff)
  show ?thesis
    unfolding diff_flags_def CheckCondition_simps UpdateSR64Sub_def UpdateSR64_flags Let_def
      isCarrySubtract_correct [OF a b] isOverflow_sub_correct [OF a b] isOverS32_correct sless_0
      sint_sext40_sub z u40_compare
    using sum_range(3,4) [OF a b] by (auto simp: r)
qed

section \<open>Operands\<close>

lemma part_bounds:
  "- (2 ^ 31) \<le> sint (w :: u32)" "sint (w :: u32) < 2 ^ 31"
  "- (2 ^ 15) \<le> sint (h :: u16)" "sint (h :: u16) < 2 ^ 15"
  "- (2 ^ 7) \<le> sint (q :: u8)" "sint (q :: u8) < 2 ^ 7"
  "0 \<le> uint (h :: u16)" "uint (h :: u16) < 2 ^ 16"
  using sint_ge [of w] sint_lt [of w] sint_ge [of h] sint_lt [of h] sint_ge [of q] sint_lt [of q]
    uint_bounded [of h] by simp_all

lemma is40_scast32 [simp]: "is40 (scast (w :: u32))"
  unfolding is40_iff_bits by (auto simp: bit_simps min_def)

lemma is40_high16 [simp]: "is40 (push_bit 16 (scast (h :: u16)))"
  unfolding is40_iff_bits by (auto simp: bit_simps min_def)

lemma is40_high8 [simp]: "is40 (push_bit 16 (scast (q :: u8)))"
  unfolding is40_iff_bits by (auto simp: bit_simps min_def)

lemma is40_low16 [simp]: "is40 (ucast (l :: u16))"
  unfolding is40_iff_bits by (auto simp: bit_simps min_def dest: bit_imp_le_length)

lemma is40_small [simp]: "is40 1" "is40 0x10000"
  by (simp_all add: is40_iff_range)

lemma sint_operands:
  "sint (scast (w :: u32) :: s64) = sint w"
  "sint (push_bit 16 (scast (h :: u16)) :: s64) = sint h * 2 ^ 16"
  "sint (push_bit 16 (scast (q :: u8)) :: s64) = sint q * 2 ^ 16"
  "sint (ucast (l :: u16) :: s64) = uint l"
  unfolding push_bit_eq_mult [of 16 "sint _", symmetric]
  by (rule bit_eqI; auto simp: bit_simps min_def dest: bit_imp_le_length)+

section \<open>Addition\<close>

definition adds :: "nat \<Rightarrow> int \<Rightarrow> 'a SDSP_scheme \<Rightarrow> 'a SDSP_scheme \<Rightarrow> bool" where
  "adds d y s r \<longleftrightarrow>
     sint (ac (regs r) d) = signed_take_bit 39 (sint (ac (regs s) d) + y) \<and>
     (\<forall>i. i \<noteq> d \<longrightarrow> ac (regs r) i = ac (regs s) i) \<and> sum_flags (sint (ac (regs s) d)) y r"

definition subtracts :: "nat \<Rightarrow> int \<Rightarrow> 'a SDSP_scheme \<Rightarrow> 'a SDSP_scheme \<Rightarrow> bool" where
  "subtracts d y s r \<longleftrightarrow>
     sint (ac (regs r) d) = signed_take_bit 39 (sint (ac (regs s) d) - y) \<and>
     (\<forall>i. i \<noteq> d \<longrightarrow> ac (regs r) i = ac (regs s) i) \<and> diff_flags (sint (ac (regs s) d)) y r"

definition compares :: "nat \<Rightarrow> int \<Rightarrow> 'a SDSP_scheme \<Rightarrow> 'a SDSP_scheme \<Rightarrow> bool" where
  "compares d y s r \<longleftrightarrow> ac (regs r) = ac (regs s) \<and> diff_flags (sint (ac (regs s) d)) y r"

lemma regs_UpdateSR64 [simp]:
  "ac (regs (UpdateSR64 v c ov s)) = ac (regs s)"
  "ac (regs (UpdateSR64Add x y v s)) = ac (regs s)"
  "ac (regs (UpdateSR64Sub x y v s)) = ac (regs s)"
  by (simp_all add: UpdateSR64_def UpdateSR64Add_def UpdateSR64Sub_def Let_def)

lemma GetLongAcc_SetLongAcc [simp]: "GetLongAcc d (SetLongAcc d v s) = sext40 v"
  by (simp add: GetLongAcc_def SetLongAcc_def sext40_def)

lemma SetLongAcc_other: "i \<noteq> d \<Longrightarrow> ac (regs (SetLongAcc d v s)) i = ac (regs s) i"
  by (simp add: SetLongAcc_def)

lemma SetLongAcc_same: "ac (regs (SetLongAcc d v s)) d = sext40 v"
  by (simp add: SetLongAcc_def sext40_def)

lemma adds_step:
  assumes "ac (regs s') = ac (regs s)" and "is40 (ac (regs s) d)" and "is40 a" and "y = sint a"
  shows "adds d y s (UpdateSR64Add (ac (regs s) d) a (sext40 (ac (regs s) d + a))
           (SetLongAcc d (ac (regs s) d + a) s'))"
  using assms
  by (simp add: adds_def SetLongAcc_other SetLongAcc_same sint_sext40_add UpdateSR64Add_flags)

lemma subtracts_step:
  assumes "ac (regs s') = ac (regs s)" and "is40 (ac (regs s) d)" and "is40 a" and "y = sint a"
  shows "subtracts d y s (UpdateSR64Sub (ac (regs s) d) a (sext40 (ac (regs s) d - a))
           (SetLongAcc d (ac (regs s) d - a) s'))"
  using assms
  by (simp add: subtracts_def SetLongAcc_other SetLongAcc_same sint_sext40_sub UpdateSR64Sub_flags)

lemma compares_step:
  assumes "ac (regs s') = ac (regs s)" and "is40 (ac (regs s) d)" and "is40 a" and "y = sint a"
  shows "compares d y s (UpdateSR64Sub (ac (regs s) d) a (sext40 (ac (regs s) d - a)) s')"
  using assms by (simp add: compares_def UpdateSR64Sub_flags)

text \<open>The signed value of the part of \<open>$ax\<close> that the two bits \<open>SS\<close> name.\<close>

definition ax_value :: "nat \<Rightarrow> 'a SDSP_scheme \<Rightarrow> int" where
  "ax_value i s = sint (if i < 2 then ax_l (ax (regs s) i) else ax_h (ax (regs s) (i - 2)))"

lemma ax_switch_part:
  "i < 4 \<Longrightarrow> ax_switch i s = scast (if i < 2 then ax_l (ax (regs s) i) else ax_h (ax (regs s) (i - 2)))"
  unfolding ax_switch_def by auto

lemma ax_switch_operand:
  assumes "i < 4"
  shows "is40 (push_bit 16 (ax_switch i s))"
    and "ax_value i s * 2 ^ 16 = sint (push_bit 16 (ax_switch i s))"
  unfolding ax_switch_part [OF assms] ax_value_def sint_operands by (rule is40_high16, rule refl)

text \<open>The additions, each with the number it adds to \<open>$acD\<close>.\<close>

definition additions :: "((u16 \<Rightarrow> 'a SDSP_scheme \<Rightarrow> 'a SDSP_scheme) \<times> (u16 \<Rightarrow> 'a SDSP_scheme \<Rightarrow> int)) set" where
  "additions =
    {(addr, \<lambda>opc s. ax_value (fld opc 9 3) s * 2 ^ 16),
     (addax, \<lambda>opc s. sint (GetLongACX (fld opc 9 1) s)),
     (add, \<lambda>opc s. sint (ac (regs s) (1 - fld opc 8 1))),
     (addaxl, \<lambda>opc s. uint (GetAXLow (fld opc 9 1) s)),
     (addi, \<lambda>opc s. sint (PeekInstruction s) * 2 ^ 16),
     (addis, \<lambda>opc s. sint (ucast opc :: u8) * 2 ^ 16),
     (incm, \<lambda>opc s. 2 ^ 16), (inc, \<lambda>opc s. 1)}"

definition subtractions :: "((u16 \<Rightarrow> 'a SDSP_scheme \<Rightarrow> 'a SDSP_scheme) \<times> (u16 \<Rightarrow> 'a SDSP_scheme \<Rightarrow> int)) set" where
  "subtractions =
    {(subr, \<lambda>opc s. ax_value (fld opc 9 3) s * 2 ^ 16),
     (subax, \<lambda>opc s. sint (GetLongACX (fld opc 9 1) s)),
     (sub, \<lambda>opc s. sint (ac (regs s) (1 - fld opc 8 1))),
     (decm, \<lambda>opc s. 2 ^ 16), (dec, \<lambda>opc s. 1)}"

lemma wf_is40: "wf_dsp s \<Longrightarrow> is40 (ac (regs s) i)"
  by (simp add: wf_dsp_def)

lemma FetchInstruction_simps [simp]:
  "fst (FetchInstruction s) = PeekInstruction s"
  "regs (snd (FetchInstruction s)) = regs s"
  by (simp_all add: FetchInstruction_def Let_def)

lemmas arith_unfold = Let_def ZeroWriteBackLog_def GetLongAcc_SetLongAcc case_prod_beta

lemma additions_adds:
  assumes "(f, y) \<in> additions" and wf: "wf_dsp s"
  shows "adds (fld opc 8 1) (y opc s) s (f opc s)"
proof -
  note step = adds_step [OF _ wf_is40 [OF wf]] adds_step [OF refl wf_is40 [OF wf]]
  have "adds (fld opc 8 1) (ax_value (fld opc 9 3) s * 2 ^ 16) s (addr opc s)"
    unfolding addr_def arith_unfold GetLongAcc_def [of _ s]
    by (rule step(2)) (rule ax_switch_operand, rule fld_3_less)+
  moreover have "adds (fld opc 8 1) (sint (GetLongACX (fld opc 9 1) s)) s (addax opc s)"
    unfolding addax_def arith_unfold GetLongAcc_def [of _ s]
    by (rule step(2)) (simp_all only: sint_operands is40_scast32)
  moreover have "adds (fld opc 8 1) (sint (ac (regs s) (1 - fld opc 8 1))) s (add opc s)"
    unfolding add_def arith_unfold GetLongAcc_def [of _ s] by (rule step(2) [OF wf_is40 [OF wf] refl])
  moreover have "adds (fld opc 8 1) (uint (GetAXLow (fld opc 9 1) s)) s (addaxl opc s)"
    unfolding addaxl_def arith_unfold GetLongAcc_def [of _ s]
    by (rule step(2)) (simp_all only: sint_operands is40_low16)
  moreover have "adds (fld opc 8 1) (sint (PeekInstruction s) * 2 ^ 16) s (addi opc s)"
    unfolding addi_def arith_unfold GetLongAcc_def [of _ s]
    by (rule step(1)) (simp_all only: sint_operands is40_high16 FetchInstruction_simps)
  moreover have "adds (fld opc 8 1) (sint (ucast opc :: u8) * 2 ^ 16) s (addis opc s)"
    unfolding addis_def arith_unfold GetLongAcc_def [of _ s]
    by (rule step(2)) (simp_all only: sint_operands is40_high8)
  moreover have "adds (fld opc 8 1) (2 ^ 16) s (incm opc s)"
    unfolding incm_def arith_unfold GetLongAcc_def [of _ s] by (rule step(2)) simp_all
  moreover have "adds (fld opc 8 1) 1 s (inc opc s)"
    unfolding inc_def arith_unfold GetLongAcc_def [of _ s] by (rule step(2)) simp_all
  ultimately show ?thesis using assms(1) unfolding additions_def by auto
qed

section \<open>Subtraction and comparison\<close>

lemma subtractions_subtract:
  assumes "(f, y) \<in> subtractions" and wf: "wf_dsp s"
  shows "subtracts (fld opc 8 1) (y opc s) s (f opc s)"
proof -
  note step = subtracts_step [OF refl wf_is40 [OF wf]]
  have "subtracts (fld opc 8 1) (ax_value (fld opc 9 3) s * 2 ^ 16) s (subr opc s)"
    unfolding subr_def arith_unfold GetLongAcc_def [of _ s]
    by (rule step) (rule ax_switch_operand, rule fld_3_less)+
  moreover have "subtracts (fld opc 8 1) (sint (GetLongACX (fld opc 9 1) s)) s (subax opc s)"
    unfolding subax_def arith_unfold GetLongAcc_def [of _ s]
    by (rule step) (simp_all only: sint_operands is40_scast32)
  moreover have "subtracts (fld opc 8 1) (sint (ac (regs s) (1 - fld opc 8 1))) s (sub opc s)"
    unfolding sub_def arith_unfold GetLongAcc_def [of _ s] by (rule step [OF wf_is40 [OF wf] refl])
  moreover have "subtracts (fld opc 8 1) (2 ^ 16) s (decm opc s)"
    unfolding decm_def arith_unfold GetLongAcc_def [of _ s] by (rule step) simp_all
  moreover have "subtracts (fld opc 8 1) 1 s (dec opc s)"
    unfolding dec_def arith_unfold GetLongAcc_def [of _ s] by (rule step) simp_all
  ultimately show ?thesis using assms(1) unfolding subtractions_def by auto
qed

text \<open>The comparisons, each with the accumulator it reads and the number it compares with.\<close>

definition comparisons ::
    "((u16 \<Rightarrow> 'a SDSP_scheme \<Rightarrow> 'a SDSP_scheme) \<times> (u16 \<Rightarrow> nat) \<times> (u16 \<Rightarrow> 'a SDSP_scheme \<Rightarrow> int)) set" where
  "comparisons =
    {(cmp, \<lambda>opc. 0, \<lambda>opc s. sint (ac (regs s) 1)),
     (cmpaxh, \<lambda>opc. fld opc 11 1, \<lambda>opc s. sint (GetAXHigh (fld opc 12 1) s) * 2 ^ 16),
     (cmpi, \<lambda>opc. fld opc 8 1, \<lambda>opc s. sint (PeekInstruction s) * 2 ^ 16),
     (cmpis, \<lambda>opc. fld opc 8 1, \<lambda>opc s. sint (ucast opc :: u8) * 2 ^ 16)}"

lemma comparisons_compare:
  assumes "(f, d, y) \<in> comparisons" and wf: "wf_dsp s"
  shows "compares (d opc) (y opc s) s (f opc s)"
proof -
  note step = compares_step [OF _ wf_is40 [OF wf]]
  note unf = arith_unfold GetLongAcc_def [of _ s] dsp_convert_long_acc_sext40
  have "compares 0 (sint (ac (regs s) 1)) s (cmp opc s)"
    unfolding cmp_def unf by (rule step [OF refl wf_is40 [OF wf] refl])
  moreover have "compares (fld opc 11 1) (sint (GetAXHigh (fld opc 12 1) s) * 2 ^ 16) s (cmpaxh opc s)"
    unfolding cmpaxh_def unf by (rule step [OF refl]) (simp_all only: sint_operands is40_high16)
  moreover have "compares (fld opc 8 1) (sint (PeekInstruction s) * 2 ^ 16) s (cmpi opc s)"
    unfolding cmpi_def unf
    by (rule step) (simp_all only: sint_operands is40_high16 FetchInstruction_simps)
  moreover have "compares (fld opc 8 1) (sint (ucast opc :: u8) * 2 ^ 16) s (cmpis opc s)"
    unfolding cmpis_def unf by (rule step [OF refl]) (simp_all only: sint_operands is40_high8)
  ultimately show ?thesis using assms(1) unfolding comparisons_def by auto
qed

section \<open>Negation\<close>

definition negates :: "nat \<Rightarrow> 'a SDSP_scheme \<Rightarrow> 'a SDSP_scheme \<Rightarrow> bool" where
  "negates d s r \<longleftrightarrow>
     sint (ac (regs r) d) = signed_take_bit 39 (- sint (ac (regs s) d)) \<and>
     (\<forall>i. i \<noteq> d \<longrightarrow> ac (regs r) i = ac (regs s) i) \<and> diff_flags 0 (sint (ac (regs s) d)) r"

lemma neg_negates: "wf_dsp s \<Longrightarrow> negates (fld opc 8 1) s (neg opc s)"
proof -
  assume wf: "wf_dsp s"
  let ?a = "ac (regs s) (fld opc 8 1)"
  have "diff_flags (sint (0 :: s64)) (sint ?a)
      (UpdateSR64Sub 0 ?a (sext40 (0 - ?a)) (SetLongAcc (fld opc 8 1) (0 - ?a) s))"
    by (rule UpdateSR64Sub_flags [OF is40_0 wf_is40 [OF wf]])
  moreover have "sint (sext40 (0 - ?a)) = signed_take_bit 39 (- sint ?a)"
    using sint_sext40_sub [of 0 ?a] by simp
  ultimately show ?thesis
    unfolding neg_def arith_unfold GetLongAcc_def [of _ s] negates_def
    by (simp add: SetLongAcc_other SetLongAcc_same)
qed

section \<open>Products\<close>

lemma GetLongProduct_bits:
  assumes bits: "\<And>n. bit p n \<longleftrightarrow> bit v n \<and> n < 40"
  shows "(push_bit 32 (scast (ucast (prod_h p) :: u8)) :: s64)
      + (push_bit 16 (ucast (prod_m p) + ucast (prod_m2 p)) OR ucast (prod_l p)) = sext40 v"
proof -
  have h: "bit (ucast (prod_h p) :: u8) n \<longleftrightarrow> n < 8 \<and> bit v (32 + n)" for n
    by (auto simp: bit_ucast_iff union_bits bits)
  have m2: "(ucast (prod_m2 p) :: s64) = 0"
    by (rule bit_word_eqI) (auto simp: bit_ucast_iff union_bits bits)
  have "(push_bit 32 (scast (ucast (prod_h p) :: u8)) :: s64)
      + (push_bit 16 (ucast (prod_m p)) OR ucast (prod_l p))
    = push_bit 32 (scast (ucast (prod_h p) :: u8)) OR (push_bit 16 (ucast (prod_m p)) OR ucast (prod_l p))"
    by (rule disjunctive_add) (auto simp: bit_simps h union_bits bits)
  also have "\<dots> = sext40 v"
  proof (rule bit_word_eqI)
    fix n assume n: "n < LENGTH(64)"
    consider "n < 16" | "16 \<le> n" "n < 32" | "32 \<le> n" "n < 39" | "n = 39" | "40 \<le> n" by linarith
    then show "bit (push_bit 32 (scast (ucast (prod_h p) :: u8)) OR
        (push_bit 16 (ucast (prod_m p)) OR ucast (prod_l p)) :: s64) n = bit (sext40 v) n"
      using n by cases (auto simp: bit_simps bit_sext40 h union_bits bits min_def)
  qed
  finally show ?thesis by (simp only: m2 add_0_right)
qed

lemma GetLongProduct_SetLongProduct:
  "GetLongProduct (SetLongProduct v s) = sext40 v"
proof -
  have "bit (v AND 0xFFFFFFFFFF) n \<longleftrightarrow> bit v n \<and> n < 40" for n
  proof -
    have m: "(0xFFFFFFFFFF :: u64) = mask 40" by (simp add: mask_eq_exp_minus_1)
    show ?thesis unfolding m by (auto simp: bit_simps)
  qed
  from GetLongProduct_bits [OF this] show ?thesis
    by (simp only: GetLongProduct_def SetLongProduct_def Let_def) simp
qed

end
