(* ===== verification/Dsp_Product_Facts.thy ===== *)
theory Dsp_Product_Facts
  imports Dsp_Arith_Facts
begin

text \<open>
  Functional correctness of the multiply instructions, in integer arithmetic: the product that is
  stored is the exact product of the operands, doubled unless \<open>SR_MUL_MODIFY\<close> is set; low halves
  of \<open>$ax0\<close> and \<open>$ax1\<close> count as unsigned in unsigned mode; the accumulating forms add or subtract
  it modulo 40 bits; adding the product to an accumulator obeys the rules of the other additions.
\<close>

unbundle bit_operations_syntax

section \<open>The exact product\<close>

definition factor :: "'a SDSP_scheme \<Rightarrow> int" where
  "factor s = (if IsSRFlagSet s SR_MUL_MODIFY then 1 else 2)"

definition mul_value :: "u16 \<Rightarrow> u16 \<Rightarrow> u8 \<Rightarrow> 'a SDSP_scheme \<Rightarrow> int" where
  "mul_value a b sign s =
     factor s *
     (if sign = 1 \<and> IsSRFlagSet s SR_MUL_UNSIGNED then uint a * uint b
      else if sign = 2 \<and> IsSRFlagSet s SR_MUL_UNSIGNED then uint a * sint b
      else sint a * sint b)"

lemma prod_bound: "\<bar>x\<bar> \<le> m \<Longrightarrow> \<bar>y\<bar> \<le> k \<Longrightarrow> \<bar>x * y\<bar> \<le> m * (k :: int)"
  unfolding abs_mult by (rule mult_mono) auto

lemma half_bounds:
  "\<bar>sint (h :: u16)\<bar> \<le> 2 ^ 15" "\<bar>uint (h :: u16)\<bar> \<le> 2 ^ 16 - 1"
  using part_bounds(3,4,7,8) [of h] by auto

lemma sint_mult_32:
  fixes x y :: s32
  assumes "\<bar>sint x * sint y\<bar> < 2 ^ 31"
  shows "sint (x * y) = sint x * sint y"
proof -
  have "sint (x * y) = signed_take_bit 31 (sint x * sint y)" by (simp add: sint_word_ariths)
  also have "\<dots> = sint x * sint y" using assms by (intro signed_take_bit_int_eq_self) auto
  finally show ?thesis .
qed

lemma uint_mult_32: "uint (ucast (a :: u16) * ucast (b :: u16) :: u32) = uint a * uint b"
proof -
  have "uint (ucast a * ucast b :: u32) = uint a * uint b mod 2 ^ 32"
    by (simp add: uint_word_ariths unsigned_ucast_eq take_bit_eq_mod mod_mult_eq)
  also have "\<dots> = uint a * uint b"
    using prod_bound [OF half_bounds(2) half_bounds(2), of a b] by (intro mod_pos_pos_trivial) auto
  finally show ?thesis .
qed

lemma sint_scast_s32: "sint (scast (h :: u16) :: s32) = sint h"
  by (rule bit_eqI) (auto simp: bit_simps min_def)

lemma sint_ucast_s32: "sint (ucast (h :: u16) :: s32) = uint h"
  by (rule bit_eqI) (auto simp: bit_simps min_def dest: bit_imp_le_length)

lemma sint_scast_s64: "sint (scast (w :: s32) :: s64) = sint w"
  by (rule bit_eqI) (auto simp: bit_simps min_def)

lemma sint_ucast_s64: "sint (ucast (w :: u32) :: s64) = uint w"
  by (rule bit_eqI) (auto simp: bit_simps min_def dest: bit_imp_le_length)

lemma sint_double:
  "\<bar>sint (v :: s64)\<bar> < 2 ^ 62 \<Longrightarrow> sint (push_bit 1 v) = 2 * sint v"
proof -
  assume v: "\<bar>sint v\<bar> < 2 ^ 62"
  have "sint (v + v) = signed_take_bit 63 (sint v + sint v)" by (simp add: sint_word_ariths)
  also have "\<dots> = 2 * sint v" using v by (subst signed_take_bit_int_eq_self) auto
  finally show ?thesis by (simp add: push_bit_eq_mult mult.commute)
qed

lemma GetMultiplyProduct_value:
  "sint (GetMultiplyProduct a b sign s) = mul_value a b sign s"
  "\<bar>mul_value a b sign s\<bar> < 2 ^ 39"
proof -
  define x where "x = (if sign = 1 \<and> IsSRFlagSet s SR_MUL_UNSIGNED then uint a * uint b
      else if sign = 2 \<and> IsSRFlagSet s SR_MUL_UNSIGNED then uint a * sint b
      else sint a * sint b)"
  have b1: "\<bar>uint a * uint b\<bar> < 2 ^ 32" "\<bar>uint a * sint b\<bar> < 2 ^ 31" "\<bar>sint a * sint b\<bar> < 2 ^ 31"
    using prod_bound [OF half_bounds(2) half_bounds(2), of a b]
      prod_bound [OF half_bounds(2) half_bounds(1), of a b]
      prod_bound [OF half_bounds(1) half_bounds(1), of a b] by auto
  then have bx: "\<bar>x\<bar> < 2 ^ 32" unfolding x_def by auto
  have s1: "sint (ucast (ucast a * ucast b :: u32) :: s64) = uint a * uint b"
    unfolding sint_ucast_s64 by (rule uint_mult_32)
  have s2: "sint (scast (ucast a * scast b :: s32) :: s64) = uint a * sint b"
    unfolding sint_scast_s64
    by (subst sint_mult_32) (simp_all only: sint_ucast_s32 sint_scast_s32 b1)
  have s3: "sint (scast (scast a * scast b :: s32) :: s64) = sint a * sint b"
    unfolding sint_scast_s64
    by (subst sint_mult_32) (simp_all only: sint_scast_s32 b1)
  define p :: s64 where "p = (if sign = 1 \<and> IsSRFlagSet s SR_MUL_UNSIGNED
               then ucast (ucast a * ucast b :: u32)
               else if sign = 2 \<and> IsSRFlagSet s SR_MUL_UNSIGNED
               then scast (ucast a * scast b :: s32)
               else scast (scast a * scast b :: s32))"
  have p: "sint p = x" unfolding p_def x_def by (auto simp only: s1 s2 s3 split: if_splits)
  have "sint (push_bit 1 p) = 2 * x" using sint_double [of p] bx unfolding p by simp
  then show "sint (GetMultiplyProduct a b sign s) = mul_value a b sign s"
    unfolding GetMultiplyProduct_def Let_def mul_value_def factor_def p_def [symmetric] x_def [symmetric]
    using p by simp
  show "\<bar>mul_value a b sign s\<bar> < 2 ^ 39"
    unfolding mul_value_def factor_def x_def [symmetric] using bx by (auto simp: abs_mult)
qed

lemma is40_GetMultiplyProduct [simp]: "is40 (GetMultiplyProduct a b sign s)"
  unfolding is40_iff_range GetMultiplyProduct_value(1)
  using GetMultiplyProduct_value(2) [of a b sign s] by auto

section \<open>The instructions\<close>

text \<open>
  Reading a product back: \<open>Multiply\<close> exactly, \<open>MultiplyAdd\<close> and \<open>MultiplySub\<close> modulo 40 bits.
\<close>

lemma stored_product:
  "sint (GetLongProduct (SetLongProduct (Multiply a b sign s) t)) = mul_value a b sign s"
  "sint (GetLongProduct (SetLongProduct (MultiplyAdd a b sign s) t)) =
     signed_take_bit 39 (sint (GetLongProduct s) + mul_value a b sign s)"
  "sint (GetLongProduct (SetLongProduct (MultiplySub a b sign s) t)) =
     signed_take_bit 39 (sint (GetLongProduct s) - mul_value a b sign s)"
  by (simp_all add: GetLongProduct_SetLongProduct sext40_id sint_sext40_add sint_sext40_sub
      GetMultiplyProduct_value(1) Multiply_def MultiplyAdd_def MultiplySub_def)

text \<open>The value of half of \<open>$ax0\<close> or \<open>$ax1\<close> in \<open>mulx\<close>: low halves are unsigned in unsigned mode.\<close>

definition mulx_value :: "nat \<Rightarrow> u16 \<Rightarrow> 'a SDSP_scheme \<Rightarrow> int" where
  "mulx_value part h s = (if part = 0 \<and> IsSRFlagSet s SR_MUL_UNSIGNED then uint h else sint h)"

lemma MultiplyMulX_value:
  assumes "i < 2" "j < 2"
  shows "sint (GetLongProduct (SetLongProduct (MultiplyMulX i j a b s) t)) =
    factor s * (mulx_value i a s * mulx_value j b s)"
proof -
  consider "i = 0" "j = 0" | "i = 0" "j = 1" | "i = 1" "j = 0" | "i = 1" "j = 1"
    using assms by linarith
  then show ?thesis
    by cases (auto simp: MultiplyMulX_def stored_product mul_value_def mulx_value_def)
qed

lemma ax_part_value:
  "i < 2 \<Longrightarrow> ax_part i j s = (if i = 0 then ax_l (ax (regs s) j) else ax_h (ax (regs s) j))"
  by (simp add: ax_part_def GetAXLow_def GetAXHigh_def)

lemma GetLongProduct_frame [simp]:
  "GetLongProduct (SetLongAcc d v s) = GetLongProduct s"
  "GetLongProduct (UpdateSR64 v c ov s) = GetLongProduct s"
  by (simp_all add: GetLongProduct_def SetLongAcc_def UpdateSR64_def Let_def)

text \<open>
  The instructions that only change the product, each with the value it stores, in terms of the
  product before.
\<close>

definition multiplications :: "((u16 \<Rightarrow> 'a SDSP_scheme \<Rightarrow> 'a SDSP_scheme) \<times> (u16 \<Rightarrow> 'a SDSP_scheme \<Rightarrow> int)) set" where
  "multiplications =
    {(mulaxh, \<lambda>opc s. factor s * (sint (GetAXHigh 0 s) * sint (GetAXHigh 0 s))),
     (mul, \<lambda>opc s. factor s * (sint (GetAXHigh (fld opc 11 1) s) * sint (GetAXLow (fld opc 11 1) s))),
     (mulc, \<lambda>opc s. factor s * (sint (GetAccMid (fld opc 12 1) s) * sint (GetAXHigh (fld opc 11 1) s))),
     (mulx, \<lambda>opc s. factor s * (mulx_value (fld opc 12 1) (ax_part (fld opc 12 1) 0 s) s *
                                  mulx_value (fld opc 11 1) (ax_part (fld opc 11 1) 1 s) s)),
     (madd, \<lambda>opc s. sint (GetLongProduct s) +
        factor s * (sint (GetAXLow (fld opc 8 1) s) * sint (GetAXHigh (fld opc 8 1) s))),
     (msub, \<lambda>opc s. sint (GetLongProduct s) -
        factor s * (sint (GetAXLow (fld opc 8 1) s) * sint (GetAXHigh (fld opc 8 1) s))),
     (maddc, \<lambda>opc s. sint (GetLongProduct s) +
        factor s * (sint (GetAccMid (fld opc 9 1) s) * sint (GetAXHigh (fld opc 8 1) s))),
     (msubc, \<lambda>opc s. sint (GetLongProduct s) -
        factor s * (sint (GetAccMid (fld opc 9 1) s) * sint (GetAXHigh (fld opc 8 1) s))),
     (maddx, \<lambda>opc s. sint (GetLongProduct s) +
        factor s * (sint (ax_part (fld opc 9 1) 0 s) * sint (ax_part (fld opc 8 1) 1 s))),
     (msubx, \<lambda>opc s. sint (GetLongProduct s) -
        factor s * (sint (ax_part (fld opc 9 1) 0 s) * sint (ax_part (fld opc 8 1) 1 s)))}"

definition multiplies :: "int \<Rightarrow> 'a SDSP_scheme \<Rightarrow> 'a SDSP_scheme \<Rightarrow> bool" where
  "multiplies y s r \<longleftrightarrow>
     sint (GetLongProduct r) = signed_take_bit 39 y \<and> r = set_prod (prod (regs r)) s"

lemma mul_value_self:
  "signed_take_bit 39 (mul_value a b sign s) = mul_value a b sign s"
  using GetMultiplyProduct_value(2) [of a b sign s] by (intro signed_take_bit_int_eq_self) auto

lemma set_prod_SetLongProduct: "SetLongProduct v s = set_prod (prod (regs (SetLongProduct v s))) s"
  by (simp add: SetLongProduct_def)

lemma mul_value_0: "mul_value a b 0 s = factor s * (sint a * sint b)"
  by (simp add: mul_value_def)

lemma multiplies_step:
  "y = mul_value a b sign s \<Longrightarrow> multiplies y s (SetLongProduct (Multiply a b sign s) s)"
  "y = sint (GetLongProduct s) + mul_value a b sign s \<Longrightarrow>
     multiplies y s (SetLongProduct (MultiplyAdd a b sign s) s)"
  "y = sint (GetLongProduct s) - mul_value a b sign s \<Longrightarrow>
     multiplies y s (SetLongProduct (MultiplySub a b sign s) s)"
  unfolding multiplies_def
  by (simp_all only: stored_product mul_value_self set_prod_SetLongProduct [symmetric] simp_thms)

lemma multiplies_mulx:
  assumes "i < 2" "j < 2"
  shows "multiplies (factor s * (mulx_value i a s * mulx_value j b s)) s
           (SetLongProduct (MultiplyMulX i j a b s) s)"
proof -
  have "\<exists>a' b' sign. MultiplyMulX i j a b s = Multiply a' b' sign s"
    unfolding MultiplyMulX_def by (auto split: if_splits)
  then obtain a' b' sign where m: "MultiplyMulX i j a b s = Multiply a' b' sign s" by blast
  have "factor s * (mulx_value i a s * mulx_value j b s) = mul_value a' b' sign s"
    using MultiplyMulX_value [OF assms, of a b s s] unfolding m stored_product by simp
  then show ?thesis unfolding m by (rule multiplies_step)
qed

lemma multiplications_multiply:
  assumes "(f, y) \<in> multiplications"
  shows "multiplies (y opc s) s (f opc s)"
  using assms
  unfolding multiplications_def
  by (auto simp only: insert_iff empty_iff prod.inject mulaxh_def mul_def mulc_def mulx_def madd_def
      msub_def maddc_def msubc_def maddx_def msubx_def Let_def ZeroWriteBackLog_def
      intro!: multiplies_step multiplies_mulx mul_value_0 [symmetric] fld_1_less
        arg_cong2 [where f = plus] arg_cong2 [where f = minus])

text \<open>Adding the product to an accumulator, and subtracting it.\<close>

lemma addp_adds:
  "wf_dsp s \<Longrightarrow> is40 (GetLongProduct s) \<Longrightarrow> adds (fld opc 8 1) (sint (GetLongProduct s)) s (addp opc s)"
  unfolding addp_def arith_unfold GetLongAcc_def [of _ s] by (rule adds_step [OF refl wf_is40 _ refl])

lemma subp_subtracts:
  "wf_dsp s \<Longrightarrow> is40 (GetLongProduct s) \<Longrightarrow>
     subtracts (fld opc 8 1) (sint (GetLongProduct s)) s (subp opc s)"
  unfolding subp_def arith_unfold GetLongAcc_def [of _ s]
  by (rule subtracts_step [OF refl wf_is40 _ refl])

end
