(* ===== verification/Dsp_Register_Facts.thy ===== *)
theory Dsp_Register_Facts
  imports Dsp_Product_Facts
begin

text \<open>
  Reading and writing registers by number in 40-bit mode: the middle part of an accumulator is
  read saturated and written with sign extension.  The last lemma evaluates \<open>clrl\<close> where rounding
  leaves the 40-bit range: the stored accumulator is negative and the sign flag says it is not.
\<close>

unbundle bit_operations_syntax

section \<open>Saturated reads\<close>

lemma sint_ac_m: "sint (ac_m v) = signed_take_bit 15 (sint v div 2 ^ 16)"
proof -
  have "sint v div 2 ^ 16 = drop_bit 16 (sint v)" by (simp add: drop_bit_eq_div)
  then show ?thesis by (simp only:) (rule bit_eqI, auto simp: bit_simps union_bits min_def)
qed

lemma read_acm_saturates:
  assumes "IsSRFlagSet s SR_40_MODE_BIT" and "is40 (ac (regs s) i)"
  shows "sint (read_acm i s) = max (- (2 ^ 15)) (min (2 ^ 15 - 1) (sint (ac (regs s) i) div 2 ^ 16))"
proof -
  let ?v = "ac (regs s) i"
  have over: "?v \<noteq> scast (ucast ?v :: s32) \<longleftrightarrow> sint ?v < - (2 ^ 31) \<or> 2 ^ 31 \<le> sint ?v"
    using isOverS32_correct [of ?v] by (simp add: isOverS32_def)
  have pos: "0 <s ?v \<longleftrightarrow> 0 < sint ?v" by (simp add: word_sless_alt)
  show ?thesis
  proof (cases "?v \<noteq> scast (ucast ?v :: s32)")
    case True
    have "read_acm i s = (if 0 < sint ?v then 0x7fff else 0x8000)"
      using assms(1) True by (simp add: read_acm_def GetLongAcc_def Let_def pos)
    moreover have "sint (0x7fff :: u16) = 2 ^ 15 - 1" "sint (0x8000 :: u16) = - (2 ^ 15)" by simp_all
    ultimately show ?thesis using True over by auto
  next
    case False
    then have r: "- (2 ^ 31) \<le> sint ?v" "sint ?v < 2 ^ 31" using over by auto
    then have d: "- (2 ^ 15) \<le> sint ?v div 2 ^ 16" "sint ?v div 2 ^ 16 < 2 ^ 15" by auto
    have "read_acm i s = ac_m ?v" using False by (simp add: read_acm_def GetLongAcc_def Let_def)
    moreover have "signed_take_bit 15 (sint ?v div 2 ^ 16) = sint ?v div 2 ^ 16"
      using d by (intro signed_take_bit_int_eq_self) auto
    ultimately show ?thesis using d sint_ac_m [of ?v] by simp
  qed
qed

section \<open>Writes with sign extension\<close>

lemma extended_acm:
  "put16 0 0 (put_ac_h (if h AND 0x8000 \<noteq> 0 then 0xFFFFFFFF else 0) (put16 16 h v)) = push_bit 16 (scast (h :: u16))"
proof -
  have sign: "h AND 0x8000 \<noteq> 0 \<longleftrightarrow> bit h 15"
    using bit_iff_and_push_bit_not_eq_0 [of h 15] by simp
  have ones: "bit (0xFFFFFFFF :: u32) n \<longleftrightarrow> n < 32" for n
  proof -
    have "(0xFFFFFFFF :: u32) = mask 32" by (simp add: mask_eq_exp_minus_1)
    then show ?thesis by (simp only: bit_mask_iff) auto
  qed
  have high: "bit (if bit h 15 then 0xFFFFFFFF else 0 :: u32) n \<longleftrightarrow> bit h 15 \<and> n < 32" for n
    by (cases "bit h 15") (simp_all only: ones if_True if_False bit_0_eq, simp_all)
  show ?thesis
    unfolding sign
  proof (rule bit_word_eqI)
    fix n assume "n < LENGTH(64)"
    then show "bit (put16 0 0 (put_ac_h (if bit h 15 then 0xFFFFFFFF else 0) (put16 16 h v))) n =
        bit (push_bit 16 (scast h) :: u64) n"
      by (cases "n = 31") (auto simp: union_bits high bit_simps min_def not_less)
  qed
qed

text \<open>What \<open>mrr\<close>, \<open>lri\<close> and the loads do with the middle part of accumulator \<open>i\<close>.\<close>

lemma write_acm_extends:
  fixes val :: u16
  assumes "i < 2" and "IsSRFlagSet s SR_40_MODE_BIT"
  defines "r \<equiv> ConditionalExtendAccum (DSP_REG_ACM0 + int i) (OpWriteRegister (DSP_REG_ACM0 + int i) val s)"
  shows "sint (ac (regs r) i) = sint val * 2 ^ 16" and "\<And>j. j \<noteq> i \<Longrightarrow> ac (regs r) j = ac (regs s) j"
proof -
  have i: "i = 0 \<or> i = 1" using assms(1) by auto
  have w: "OpWriteRegister (DSP_REG_ACM0 + int i) val s = upd_ac i (put16 16 val) s"
    using i by (elim disjE) (simp_all add: OpWriteRegister_def Let_def)
  have f: "IsSRFlagSet (upd_ac i (put16 16 val) s) SR_40_MODE_BIT"
    using assms(2) by (simp add: IsSRFlagSet_def)
  have "ac (regs r) i = put16 0 0 (put_ac_h (if val AND 0x8000 \<noteq> 0 then 0xFFFFFFFF else 0) (put16 16 val (ac (regs s) i)))"
    unfolding r_def w using i f by (elim disjE) (simp_all add: ConditionalExtendAccum_def Let_def)
  then show "sint (ac (regs r) i) = sint val * 2 ^ 16"
    unfolding extended_acm by (simp only: sint_operands)
  show "ac (regs r) j = ac (regs s) j" if "j \<noteq> i" for j
    unfolding r_def w using i f that by (elim disjE) (simp_all add: ConditionalExtendAccum_def Let_def)
qed

section \<open>Rounding out of the 40-bit range\<close>

lemma clrl_sign:
  assumes "ac (regs s) 0 = 0x7fffffffff"
  shows "sint (ac (regs (clrl 0xfc00 s)) 0) < 0" and "\<not> IsSRFlagSet (clrl 0xfc00 s) SR_SIGN"
    and "is40 (ac (regs s) 0)"
proof -
  have r: "dsp_round_long_acc 0x7fffffffff = 0x8000000000" by (simp add: dsp_round_long_acc_def)
  have f: "fld 0xfc00 8 1 = 0" by (simp add: fld_def)
  have s: "sint (0x8000000000 :: s64) = 2 ^ 39" "sint (0x7fffffffff :: s64) = 2 ^ 39 - 1" by simp_all
  have "sint (sext40 0x8000000000) = signed_take_bit 39 (2 ^ 39)" by (simp only: sint_sext40 s)
  also have "\<dots> = - (2 ^ 39)" by (simp add: signed_take_bit_eq_take_bit_shift take_bit_eq_mod)
  finally have neg: "sint (sext40 0x8000000000) < 0" by simp
  note d = clrl_def Let_def f GetLongAcc_def [of _ s] assms r ZeroWriteBackLog_def
  show "sint (ac (regs (clrl 0xfc00 s)) 0) < 0"
    unfolding d by (simp only: regs_UpdateSR64 SetLongAcc_same neg)
  show "\<not> IsSRFlagSet (clrl 0xfc00 s) SR_SIGN"
    unfolding d by (simp only: UpdateSR64_flags sless_0 s) simp
  show "is40 (ac (regs s) 0)" unfolding assms is40_iff_range s by simp
qed

end
