(* ===== verification/Dsp_Address_Facts.thy ===== *)
theory Dsp_Address_Facts
  imports Dsp_Interp_Base
begin

text \<open>
  The address registers as positions in a ring.  A register \<open>$arN\<close> with wrap register \<open>$wrN = w\<close>
  addresses a circular buffer of \<open>w + 1\<close> words that ends at the top of a block of \<open>2 ^ k\<close> words,
  where \<open>k\<close> is the bit length of \<open>w OR 1\<close>.  The branch-free updates of the code, which find
  overflow and underflow from carries, are shown to add to the position modulo \<open>w + 1\<close>.
\<close>

unbundle bit_operations_syntax

section \<open>Bit lengths and rings\<close>

fun bit_length :: "nat \<Rightarrow> nat" where
  "bit_length n = (if n = 0 then 0 else Suc (bit_length (n div 2)))"

declare bit_length.simps [simp del]

lemma bit_length_bounds: "0 < n \<Longrightarrow> n < 2 ^ bit_length n \<and> 2 ^ bit_length n \<le> 2 * n"
proof (induction n rule: bit_length.induct)
  case (1 n)
  show ?case
  proof (cases "n div 2 = 0")
    case True
    with 1 show ?thesis by (simp add: bit_length.simps [of n] bit_length.simps [of 0])
  next
    case False
    with 1 have "n div 2 < 2 ^ bit_length (n div 2)" "2 ^ bit_length (n div 2) \<le> 2 * (n div 2)"
      by auto
    with 1 show ?thesis by (subst (1 2) bit_length.simps) auto
  qed
qed

definition ring_bits :: "u16 \<Rightarrow> nat" where
  "ring_bits w = bit_length (unat (w OR 1))"

definition ring_start :: "u16 \<Rightarrow> int" where
  "ring_start w = 2 ^ ring_bits w - 1 - uint w"

definition in_ring :: "u16 \<Rightarrow> u16 \<Rightarrow> bool" where
  "in_ring w a \<longleftrightarrow> ring_start w \<le> uint a mod 2 ^ ring_bits w"

text \<open>The address \<open>i\<close> steps further in the ring.\<close>

definition ring_add :: "u16 \<Rightarrow> u16 \<Rightarrow> int \<Rightarrow> int" where
  "ring_add w a i =
     (let b = uint a mod 2 ^ ring_bits w
      in uint a - b + ring_start w + (b - ring_start w + i) mod (uint w + 1))"

lemma unat_or_1: "unat (w OR 1 :: u16) = (if even (unat w) then unat w + 1 else unat w)"
  unfolding unsigned_or_eq by (simp add: or_Suc_0_eq)

lemma ring_bits_bounds:
  "uint w < 2 ^ ring_bits w" "2 ^ ring_bits w \<le> 2 * uint (w OR 1)" "uint (w OR 1) < 2 ^ ring_bits w"
  "0 < ring_bits w" "ring_bits w \<le> 16"
proof -
  have pos: "0 < unat (w OR 1)" by (auto simp: unat_or_1 intro: gr0I)
  note b = bit_length_bounds [OF this, folded ring_bits_def]
  have i: "int (unat (w OR 1)) < int (2 ^ ring_bits w)" "int (2 ^ ring_bits w) \<le> int (2 * unat (w OR 1))"
    using b by (simp_all only: of_nat_less_iff of_nat_le_iff)
  then show or: "uint (w OR 1) < 2 ^ ring_bits w" "2 ^ ring_bits w \<le> 2 * uint (w OR 1)" by simp_all
  have "unat w \<le> unat (w OR 1)" by (simp add: unat_or_1)
  then have "uint w \<le> uint (w OR 1)" by (simp only: uint_nat of_nat_le_iff)
  with or show "uint w < 2 ^ ring_bits w" by linarith
  show "0 < ring_bits w" using b pos by (auto intro: gr0I)
  have "(2 :: nat) ^ ring_bits w < 2 ^ 17"
    using b unsigned_less [of "w OR 1", where 'a = nat] by simp
  then have "ring_bits w < 17" by (rule power_less_imp_less_exp [rotated]) simp
  then show "ring_bits w \<le> 16" by simp
qed

lemma ring_start_nonneg: "0 \<le> ring_start w"
  using ring_bits_bounds(1) [of w] by (simp add: ring_start_def)

section \<open>Carries\<close>

lemma bit_add_int:
  "bit (x + y) n \<longleftrightarrow> (bit x n \<noteq> bit y n) \<noteq> (2 ^ n \<le> x mod 2 ^ n + y mod 2 ^ (n :: nat))" for x y :: int
proof -
  define u v where "u = x mod 2 ^ n" and "v = y mod 2 ^ n"
  have r: "0 \<le> u" "u < 2 ^ n" "0 \<le> v" "v < 2 ^ n" by (simp_all add: u_def v_def)
  have "x + y = (x div 2 ^ n + y div 2 ^ n) * 2 ^ n + (u + v)"
    unfolding u_def v_def by (simp add: algebra_simps)
  then have "(x + y) div 2 ^ n = x div 2 ^ n + y div 2 ^ n + (u + v) div 2 ^ n" by simp
  moreover have "(u + v) div 2 ^ n = (if 2 ^ n \<le> u + v then 1 else 0)"
    using r div_pos_pos_trivial [of "u + v" "2 ^ n"] div_pos_pos_trivial [of "u + v - 2 ^ n" "2 ^ n"]
      div_add_self2 [of "2 ^ n" "u + v - 2 ^ n"] by auto
  ultimately show ?thesis unfolding bit_iff_odd u_def [symmetric] v_def [symmetric] by auto
qed

text \<open>The 32-bit values of the code as images of integers.\<close>

definition w32 :: "int \<Rightarrow> u32" where
  "w32 z = word_of_int z"

lemma w32_simps:
  "w32 x + w32 y = w32 (x + y)" "w32 x - w32 y = w32 (x - y)" "1 = w32 1"
  "(ucast (a :: u16) :: u32) = w32 (uint a)" "(scast (h :: s16) :: s32) = w32 (sint h)"
  by (simp_all only: w32_def ucast_eq scast_eq of_int_add of_int_diff of_int_1)

lemma bit_w32: "bit (w32 z) n \<longleftrightarrow> n < 32 \<and> bit z n"
  by (simp add: w32_def bit_word_of_int_iff)

lemma truncate: "uint (ucast (w32 z) :: u16) = z mod 2 ^ 16"
proof -
  have "(ucast (w32 z) :: u16) = word_of_int z"
    by (rule bit_word_eqI) (auto simp: bit_simps bit_w32 bit_word_of_int_iff)
  then show ?thesis by (simp only: uint_word_of_int) simp
qed

text \<open>Bit \<open>k\<close> of a word under the mask \<open>(w OR 1) << 1\<close> decides whether it exceeds \<open>w\<close>.\<close>

lemma and_le_right: "d AND m \<le> (m :: nat)"
  using AND_upper2 [of "int m" "int d"] by (simp flip: of_nat_and_eq)

lemma masked_less_nat:
  fixes d m w :: nat
  assumes "m < 2 ^ Suc k" "2 ^ k \<le> m" "m - 2 ^ k \<le> w" "w < 2 ^ k"
  shows "w < d AND m \<longleftrightarrow> bit d k"
proof
  have "m div 2 ^ k = 1"
    using assms(1,2) by (intro div_nat_eqI) auto
  then have m: "bit m k" by (simp add: bit_iff_odd)
  show "w < d AND m" if "bit d k"
  proof -
    from that m have "bit (d AND m) k" by (simp add: bit_and_iff)
    from bit_exp_le [OF this] assms(4) show ?thesis by linarith
  qed
  show "bit d k" if "w < d AND m"
  proof (rule ccontr)
    assume "\<not> bit d k"
    moreover have "\<not> bit m n" if "k < n" for n
    proof -
      have "(2 :: nat) ^ Suc k \<le> 2 ^ n" using that by (intro power_increasing) auto
      with assms(1) show ?thesis using bit_exp_le [of m n] by linarith
    qed
    ultimately have "d AND m = d AND take_bit k m"
      by (intro bit_eqI) (auto simp: bit_simps, metis linorder_neqE_nat)
    also have "\<dots> \<le> take_bit k m" by (rule and_le_right)
    also have "take_bit k m = m - 2 ^ k"
      using assms(1,2) by (simp add: take_bit_eq_mod mod_if)
    finally show False using that assms(3) by linarith
  qed
qed

definition wrap_mask :: "u16 \<Rightarrow> u32" where
  "wrap_mask w = push_bit 1 (ucast w OR 1)"

lemma unat_wrap_mask: "unat (wrap_mask w) = 2 * unat (w OR 1)"
proof -
  have "(ucast w OR 1 :: u32) = ucast (w OR 1)" by (rule bit_word_eqI) (auto simp: bit_simps)
  then have "wrap_mask w = of_nat (2 * unat (w OR 1))"
    unfolding wrap_mask_def by (simp add: push_bit_eq_mult mult.commute)
  moreover have "2 * unat (w OR 1) < 2 ^ 32"
    using unsigned_less [of "w OR 1", where 'a = nat] by simp
  ultimately show ?thesis by (simp only: unsigned_of_nat) (simp add: take_bit_nat_eq_self)
qed

lemma ring_bits_nat:
  "unat w < 2 ^ ring_bits w" "2 ^ ring_bits w \<le> 2 * unat (w OR 1)" "2 * unat (w OR 1) < 2 ^ Suc (ring_bits w)"
  "2 * unat (w OR 1) - 2 ^ ring_bits w \<le> unat w"
proof -
  have "int (unat w) < int (2 ^ ring_bits w)" "int (2 ^ ring_bits w) \<le> int (2 * unat (w OR 1))"
    "int (unat (w OR 1)) < int (2 ^ ring_bits w)"
    using ring_bits_bounds(1,2,3) [of w] by simp_all
  then show w: "unat w < 2 ^ ring_bits w" and "2 ^ ring_bits w \<le> 2 * unat (w OR 1)"
    and o: "2 * unat (w OR 1) < 2 ^ Suc (ring_bits w)"
    unfolding of_nat_less_iff of_nat_le_iff by simp_all
  have "even (2 ^ ring_bits w :: nat)" using ring_bits_bounds(4) [of w] by simp
  with w have ev: "even (unat w) \<Longrightarrow> unat w + 2 \<le> 2 ^ ring_bits w" by presburger
  show "2 * unat (w OR 1) - 2 ^ ring_bits w \<le> unat w"
  proof (cases "even (unat w)")
    case True
    with ev show ?thesis unfolding unat_or_1 by simp
  next
    case False
    with w show ?thesis unfolding unat_or_1 by simp
  qed
qed

lemma masked_less:
  "ucast w < D AND wrap_mask w \<longleftrightarrow> bit D (ring_bits w)" for D :: u32
proof -
  have "unat w < 2 ^ 32" using unsigned_less [of w, where 'a = nat] by simp
  then have "unat (ucast w :: u32) = unat w" by (simp add: unsigned_ucast_eq take_bit_nat_eq_self)
  then show ?thesis
    unfolding word_less_nat_alt unsigned_and_eq unat_wrap_mask
    using masked_less_nat [OF ring_bits_nat(3,2,4,1), of w "unat D"] ring_bits_bounds(5) [of w]
    by (simp add: bit_unsigned_iff)
qed

lemma carry_add:
  assumes "n < 32"
  shows "bit (w32 (x + y) XOR w32 x XOR w32 y ) n \<longleftrightarrow>
    2 ^ n \<le> x mod 2 ^ n + y mod 2 ^ n"
  using assms bit_add_int [of x y n] by (auto simp: bit_xor_iff bit_w32)

lemma carry_sub:
  assumes "n < 32"
  shows "bit (w32 (x - y) XOR w32 x XOR NOT (w32 y) ) n \<longleftrightarrow>
    y mod 2 ^ n \<le> x mod 2 ^ n"
proof -
  have "2 ^ n \<le> (x - y) mod 2 ^ n + y mod 2 ^ n \<longleftrightarrow> x mod 2 ^ n < y mod 2 ^ n"
  proof -
    define u v where "u = x mod 2 ^ n" and "v = y mod 2 ^ n"
    have r: "0 \<le> u" "u < 2 ^ n" "0 \<le> v" "v < 2 ^ n" by (simp_all add: u_def v_def)
    have "(x - y) mod 2 ^ n = (u - v) mod 2 ^ n" unfolding u_def v_def by (simp add: mod_diff_eq)
    also have "\<dots> = (if v \<le> u then u - v else u - v + 2 ^ n)"
      using r mod_pos_pos_trivial [of "u - v" "2 ^ n"] mod_pos_pos_trivial [of "u - v + 2 ^ n" "2 ^ n"]
      by auto
    finally show ?thesis unfolding u_def [symmetric] v_def [symmetric] using r by auto
  qed
  then show ?thesis
    using assms bit_add_int [of "x - y" y n] by (auto simp: bit_xor_iff bit_not_iff bit_w32)
qed

lemma dvd_succ_iff: "2 ^ n dvd x + 1 \<longleftrightarrow> 2 ^ n \<le> x mod 2 ^ n + (1 :: int)"
proof -
  define u where "u = x mod 2 ^ n"
  have u: "0 \<le> u" "u < 2 ^ n" by (simp_all add: u_def)
  have "2 ^ n dvd x + 1 \<longleftrightarrow> (u + 1) mod 2 ^ n = 0"
    unfolding u_def dvd_eq_mod_eq_0 by (simp add: mod_add_left_eq)
  also have "\<dots> \<longleftrightarrow> 2 ^ n \<le> u + 1"
    using u mod_pos_pos_trivial [of "u + 1" "2 ^ n"] by (cases "u + 1 = 2 ^ n") auto
  finally show ?thesis unfolding u_def .
qed

lemma bit_succ_xor: "n < 32 \<Longrightarrow> bit (w32 (x + 1) XOR w32 x ) n \<longleftrightarrow> 2 ^ n dvd x + 1"
proof -
  assume n: "n < 32"
  show ?thesis
  proof (cases n)
    case 0
    then show ?thesis using bit_add_int [of x 1 0] by (auto simp: bit_xor_iff bit_w32)
  next
    case (Suc m)
    then have "(1 :: int) mod 2 ^ n = 1" by (intro mod_pos_pos_trivial) (auto intro: one_less_power simp del: power_Suc)
    moreover have "\<not> bit (1 :: int) n" using Suc by (simp add: bit_1_iff)
    ultimately show ?thesis
      using n bit_add_int [of x 1 n] dvd_succ_iff [of n x] by (auto simp: bit_xor_iff bit_w32)
  qed
qed

lemma succ_wraps:
  "wrap_mask w < (w32 (x + 1) XOR w32 x) \<longleftrightarrow> 2 ^ ring_bits w dvd x + 1"
proof -
  let ?k = "ring_bits w" let ?D = "w32 (x + 1) XOR w32 x :: u32"
  have k: "?k < 32" using ring_bits_bounds(5) [of w] by simp
  have d: "bit (unat ?D) n \<longleftrightarrow> n < 32 \<and> 2 ^ n dvd x + 1" for n
    using bit_succ_xor [of n x] by (cases "n < 32") (auto simp: bit_unsigned_iff dest: bit_imp_le_length)
  have "2 * unat (w OR 1) < unat ?D \<longleftrightarrow> 2 ^ ?k dvd x + 1"
  proof
    assume dvd: "2 ^ ?k dvd x + 1"
    have "take_bit (Suc ?k) (unat ?D) = mask (Suc ?k)"
    proof (rule bit_eqI)
      fix n
      have "2 ^ n dvd x + 1" if "n \<le> ?k"
        using dvd le_imp_power_dvd [OF that, of 2] by (rule dvd_trans [rotated])
      then show "bit (take_bit (Suc ?k) (unat ?D)) n = bit (mask (Suc ?k) :: nat) n"
        using k by (auto simp: bit_take_bit_iff bit_mask_iff d less_Suc_eq_le)
    qed
    then have "(2 :: nat) ^ Suc ?k - 1 \<le> unat ?D"
      using take_bit_nat_less_eq_self [of "Suc ?k" "unat ?D"] by (simp add: mask_eq_exp_minus_1)
    moreover have "even ((2 :: nat) ^ Suc ?k)" by simp
    ultimately show "2 * unat (w OR 1) < unat ?D" using ring_bits_nat(3) [of w] by presburger
  next
    assume less: "2 * unat (w OR 1) < unat ?D"
    show "2 ^ ?k dvd x + 1"
    proof (rule ccontr)
      assume n: "\<not> 2 ^ ?k dvd x + 1"
      have "take_bit ?k (unat ?D) = unat ?D"
      proof (rule bit_eqI)
        fix n
        have "\<not> 2 ^ n dvd x + 1" if "?k \<le> n"
          using n le_imp_power_dvd [OF that, of "2 :: int"] dvd_trans by blast
        then show "bit (take_bit ?k (unat ?D)) n = bit (unat ?D) n"
          by (cases "?k \<le> n") (auto simp: bit_take_bit_iff d not_le)
      qed
      then have "unat ?D < 2 ^ ?k" by (metis take_bit_nat_less_exp)
      with less ring_bits_nat(2) [of w] show False by linarith
    qed
  qed
  then show ?thesis unfolding word_less_nat_alt unat_wrap_mask .
qed

section \<open>The updates in closed form\<close>

lemma Increment_closed:
  "uint (IncrementAddressRegister r s) =
     (if 2 ^ ring_bits (wr (regs s) r) dvd uint (ar (regs s) r) + 1
      then uint (ar (regs s) r) - uint (wr (regs s) r) else uint (ar (regs s) r) + 1) mod 2 ^ 16"
  unfolding IncrementAddressRegister_def Let_def wrap_mask_def [symmetric]
  unfolding w32_simps succ_wraps by (simp add: truncate)

lemma ring_carry_add:
  "w32 (uint w) < (w32 (x + y) XOR w32 x XOR w32 y) AND wrap_mask w \<longleftrightarrow>
     2 ^ ring_bits w \<le> x mod 2 ^ ring_bits w + y mod 2 ^ ring_bits w"
  unfolding w32_simps(4) [symmetric] masked_less
  using ring_bits_bounds(5) [of w] by (intro carry_add) simp

lemma ring_carry_sub:
  "w32 (uint w) < (w32 (x - y) XOR w32 x XOR NOT (w32 y)) AND wrap_mask w \<longleftrightarrow>
     y mod 2 ^ ring_bits w \<le> x mod 2 ^ ring_bits w"
  unfolding w32_simps(4) [symmetric] masked_less
  using ring_bits_bounds(5) [of w] by (intro carry_sub) simp

lemma not_bit_wr: "\<not> bit (uint w) (ring_bits w)"
  using ring_bits_bounds(1) [of w] by (simp add: bit_iff_odd div_pos_pos_trivial)

lemma ring_flip:
  "w32 (uint w) < (w32 (x + uint w) XOR w32 x) AND wrap_mask w \<longleftrightarrow>
     2 ^ ring_bits w \<le> x mod 2 ^ ring_bits w + uint w"
proof -
  have "uint w mod 2 ^ ring_bits w = uint w"
    using ring_bits_bounds(1) [of w] by (simp add: mod_pos_pos_trivial)
  then show ?thesis
    unfolding w32_simps(4) [symmetric] masked_less
    using ring_bits_bounds(5) [of w] carry_add [of "ring_bits w" x "uint w"] not_bit_wr [of w]
    by (simp add: bit_xor_iff bit_w32)
qed

lemma Decrement_closed:
  "uint (DecrementAddressRegister r s) =
     (let a = uint (ar (regs s) r); w = uint (wr (regs s) r); m = 2 ^ ring_bits (wr (regs s) r)
      in (if m \<le> a mod m + w then a - 1 else a + w) mod 2 ^ 16)"
  unfolding DecrementAddressRegister_def Let_def wrap_mask_def [symmetric]
  unfolding w32_simps ring_flip by (simp add: truncate)

text \<open>
  One circular step of the closed forms: \<open>b\<close> is the offset in the block of \<open>m\<close> words, the ring
  starts at \<open>m - 1 - w\<close>.
\<close>

lemma ring_mod:
  fixes b w m i :: int
  assumes "m - 1 - w \<le> b" "b < m" "\<bar>i\<bar> \<le> w"
  shows "m - 1 - w + (b - (m - 1 - w) + i) mod (w + 1) =
    (if m \<le> b + i then b + i - (w + 1) else if b + i < m - 1 - w then b + i + (w + 1) else b + i)"
proof -
  define p where "p = b - (m - 1 - w)"
  have p: "0 \<le> p" "p \<le> w" using assms by (auto simp: p_def)
  have "(p + i) mod (w + 1) =
      (if w < p + i then p + i - (w + 1) else if p + i < 0 then p + i + (w + 1) else p + i)"
    using p assms(3) mod_pos_pos_trivial [of "p + i - (w + 1)" "w + 1"]
      mod_pos_pos_trivial [of "p + i + (w + 1)" "w + 1"] mod_pos_pos_trivial [of "p + i" "w + 1"]
    by auto
  then show ?thesis unfolding p_def by (auto split: if_splits)
qed

lemma ring_add_cases:
  assumes "in_ring w a" "\<bar>i\<bar> \<le> uint w"
  defines "m \<equiv> 2 ^ ring_bits w" and "b \<equiv> uint a mod 2 ^ ring_bits w"
  shows "ring_add w a i = (if m \<le> b + i then uint a + i - (uint w + 1)
     else if b + i < ring_start w then uint a + i + (uint w + 1) else uint a + i)"
proof -
  have "b < m" by (simp add: b_def m_def)
  moreover have "ring_start w = m - 1 - uint w" by (simp add: ring_start_def m_def)
  moreover have "ring_start w \<le> b" using assms(1) by (simp add: in_ring_def b_def)
  ultimately show ?thesis
    using ring_mod [of m "uint w" b i] assms(2)
    unfolding ring_add_def Let_def b_def [symmetric] by (auto split: if_splits)
qed

lemma ring_add_range:
  "0 \<le> ring_add w a i" "ring_add w a i < 2 ^ 16"
  "ring_add w a i mod 2 ^ ring_bits w = ring_start w + (uint a mod 2 ^ ring_bits w - ring_start w + i) mod (uint w + 1)"
proof -
  define m b q where "m = (2 :: int) ^ ring_bits w" and "b = uint a mod m" and "q = uint a div m"
  define y where "y = ring_start w + (b - ring_start w + i) mod (uint w + 1)"
  have "0 \<le> (b - ring_start w + i) mod (uint w + 1)" "(b - ring_start w + i) mod (uint w + 1) < uint w + 1"
    using pos_mod_bound [of "uint w + 1" "b - ring_start w + i"]
      pos_mod_sign [of "uint w + 1" "b - ring_start w + i"] uint_ge_0 [of w] by linarith+
  then have y: "0 \<le> y" "y < m"
    using ring_start_nonneg [of w] by (simp_all add: y_def) (simp add: ring_start_def m_def)
  have a: "uint a = q * m + b" by (simp add: q_def b_def)
  from a have "uint a - b = q * m" by simp
  then have r: "ring_add w a i = q * m + y"
    unfolding ring_add_def Let_def m_def [symmetric] b_def [symmetric] y_def by simp
  have pos: "0 < m" by (simp add: m_def)
  have "0 \<le> q" using pos by (simp add: q_def pos_imp_zdiv_nonneg_iff)
  with r y pos show "0 \<le> ring_add w a i" by simp
  have 16: "(2 :: int) ^ 16 = 2 ^ (16 - ring_bits w) * m"
    unfolding m_def power_add [symmetric] using ring_bits_bounds(5) [of w] by simp
  have "0 \<le> b" by (simp add: b_def m_def)
  then have "q * m < 2 ^ (16 - ring_bits w) * m"
    using uint_bounded [of a] a unfolding 16 [symmetric] by simp
  then have "q < 2 ^ (16 - ring_bits w)" using pos by simp
  then have "(q + 1) * m \<le> 2 ^ (16 - ring_bits w) * m"
    using pos by (intro mult_right_mono) simp_all
  with y have "q * m + y < 2 ^ (16 - ring_bits w) * m" by (simp add: algebra_simps)
  then show "ring_add w a i < 2 ^ 16" unfolding r 16 .
  show "ring_add w a i mod 2 ^ ring_bits w = ring_start w + (uint a mod 2 ^ ring_bits w - ring_start w + i) mod (uint w + 1)"
    unfolding r m_def [symmetric] b_def [symmetric] y_def [symmetric] using y by (simp add: mod_pos_pos_trivial)
qed

text \<open>Steps compose.\<close>

lemma ring_add_add:
  assumes "uint a' = ring_add w a i"
  shows "ring_add w a' j = ring_add w a (i + j)"
proof -
  define b where "b = uint a mod 2 ^ ring_bits w"
  have b': "uint a' mod 2 ^ ring_bits w = ring_start w + (b - ring_start w + i) mod (uint w + 1)"
    unfolding assms b_def by (rule ring_add_range)
  have "uint a' - uint a' mod 2 ^ ring_bits w = uint a - b"
    unfolding b' unfolding assms ring_add_def Let_def b_def by simp
  then show ?thesis
    unfolding ring_add_def [of w a'] Let_def b'
    unfolding ring_add_def Let_def b_def [symmetric] by (simp add: mod_add_left_eq add.assoc)
qed

lemma ring_add_0: "in_ring w a \<Longrightarrow> ring_add w a 0 = uint a"
proof -
  assume "in_ring w a"
  moreover have "uint a mod 2 ^ ring_bits w < 2 ^ ring_bits w" by simp
  ultimately have "(uint a mod 2 ^ ring_bits w - ring_start w) mod (uint w + 1) =
      uint a mod 2 ^ ring_bits w - ring_start w"
    unfolding in_ring_def ring_start_def by (intro mod_pos_pos_trivial) linarith+
  then show ?thesis unfolding ring_add_def Let_def by simp
qed

lemma in_ring_ring_add: "uint a' = ring_add w a i \<Longrightarrow> in_ring w a'"
  unfolding in_ring_def using ring_add_range(3) [of w a i]
  by (simp add: add_nonneg_pos)

section \<open>The updates are ring steps\<close>

abbreviation valid_ar :: "nat \<Rightarrow> 'a SDSP_scheme \<Rightarrow> bool" where
  "valid_ar r s \<equiv> in_ring (wr (regs s) r) (ar (regs s) r)"

abbreviation ar_step :: "nat \<Rightarrow> int \<Rightarrow> 'a SDSP_scheme \<Rightarrow> int" where
  "ar_step r i s \<equiv> ring_add (wr (regs s) r) (ar (regs s) r) i"

lemma reduce_mod: "ring_add w a i = z \<Longrightarrow> z mod 2 ^ 16 = ring_add w a i"
  using ring_add_range(1,2) [of w a i] by (simp add: mod_pos_pos_trivial)

lemma ring_add_single:
  assumes "in_ring w a" "uint w = 0"
  shows "ring_add w a i = uint a" "2 ^ ring_bits w \<le> uint a mod 2 ^ ring_bits w + 1"
    "uint a mod 2 ^ ring_bits w < 2 ^ ring_bits w"
  using assms by (simp_all add: ring_add_def Let_def in_ring_def ring_start_def)
    (smt (verit) pos_mod_bound zero_less_power)

lemma Increment_step:
  assumes "valid_ar r s" shows "uint (IncrementAddressRegister r s) = ar_step r 1 s"
proof (cases "uint (wr (regs s) r) = 0")
  case True
  then show ?thesis
    using ring_add_single(1,2) [OF assms True] reduce_mod [OF ring_add_single(1) [OF assms True]]
    unfolding Increment_closed dvd_succ_iff by simp
next
  case False
  then have "\<bar>1\<bar> \<le> uint (wr (regs s) r)" using uint_ge_0 [of "wr (regs s) r"] by linarith
  note c = ring_add_cases [OF assms this]
  have "ring_start (wr (regs s) r) \<le> uint (ar (regs s) r) mod 2 ^ ring_bits (wr (regs s) r)"
    using assms by (simp add: in_ring_def)
  then show ?thesis
    unfolding Increment_closed dvd_succ_iff by (intro reduce_mod) (simp add: c)
qed

lemma decrement_cases:
  fixes b m w x :: int
  assumes "b < m" "0 \<le> w"
  shows "(if m \<le> b + w then x - 1 else x + w) = (if m \<le> b + - 1 then x + - 1 - (w + 1)
    else if b + - 1 < m - 1 - w then x + - 1 + (w + 1) else x + - 1)"
  using assms by auto

lemma Decrement_step:
  assumes "valid_ar r s" shows "uint (DecrementAddressRegister r s) = ar_step r (- 1) s"
proof (cases "uint (wr (regs s) r) = 0")
  case True
  have "\<not> 2 ^ ring_bits (wr (regs s) r) \<le> uint (ar (regs s) r) mod 2 ^ ring_bits (wr (regs s) r)"
    by (simp add: not_le)
  then show ?thesis
    using ring_add_single(1) [OF assms True] reduce_mod [OF ring_add_single(1) [OF assms True]]
    unfolding Decrement_closed Let_def True by simp
next
  case False
  then have "\<bar>- 1\<bar> \<le> uint (wr (regs s) r)" using uint_ge_0 [of "wr (regs s) r"] by linarith
  note c = ring_add_cases [OF assms this]
  show ?thesis
    unfolding Decrement_closed Let_def
    by (intro reduce_mod, unfold c ring_start_def, rule decrement_cases [symmetric]) simp_all
qed

text \<open>Steps by a signed index register, for indices no longer than the ring.\<close>

lemma index_mod:
  "0 \<le> i \<Longrightarrow> i \<le> uint w \<Longrightarrow> i mod 2 ^ ring_bits w = i"
  "i < 0 \<Longrightarrow> - uint w \<le> i \<Longrightarrow> i mod 2 ^ ring_bits w = i + 2 ^ ring_bits w"
proof -
  note b = ring_bits_bounds(1) [of w]
  show "0 \<le> i \<Longrightarrow> i \<le> uint w \<Longrightarrow> i mod 2 ^ ring_bits w = i"
    using b by (intro mod_pos_pos_trivial) linarith+
  show "i < 0 \<Longrightarrow> - uint w \<le> i \<Longrightarrow> i mod 2 ^ ring_bits w = i + 2 ^ ring_bits w"
    using b by (intro mod_add_once) linarith+
qed

lemma offset_mod:
  fixes b m :: int
  assumes "0 \<le> b" "b < m" "- m \<le> i" "i < 0"
  shows "(b + i) mod m = (if b + i < 0 then b + i + m else b + i)"
  using assms mod_pos_pos_trivial [of "b + i" m] mod_pos_pos_trivial [of "b + i + m" m] by auto

text \<open>The second test of the code: adding the ring length again carries out of the block.\<close>

lemma ring_flip_length:
  "bit (w32 (x + (uint w + 1)) XOR w32 x) (ring_bits w) \<longleftrightarrow>
     2 ^ ring_bits w \<le> x mod 2 ^ ring_bits w + uint w + 1"
proof -
  define k where "k = ring_bits w"
  have k: "k < 32" using ring_bits_bounds(5) [of w] by (simp add: k_def)
  have w: "uint w < 2 ^ k" by (simp add: k_def ring_bits_bounds)
  have flip: "bit (w32 (x + y) XOR w32 x) k \<longleftrightarrow> bit y k \<noteq> (2 ^ k \<le> x mod 2 ^ k + y mod 2 ^ k)" for y
    using k carry_add [of k x y] by (auto simp: bit_xor_iff bit_w32)
  show ?thesis
  proof (cases "uint w + 1 = 2 ^ k")
    case True
    then show ?thesis
      unfolding k_def [symmetric] flip True add.assoc by (simp add: bit_exp_iff not_le)
  next
    case False
    with w have "uint w + 1 < 2 ^ k" by simp
    then have "(uint w + 1) mod 2 ^ k = uint w + 1" "\<not> bit (uint w + 1) k"
      by (simp_all add: bit_iff_odd div_pos_pos_trivial mod_pos_pos_trivial)
    then show ?thesis unfolding k_def [symmetric] flip add.assoc by simp
  qed
qed

lemma underflow_test:
  "((w32 (x + (uint w + 1)) XOR w32 x) AND (D AND wrap_mask w)) \<le> w32 (uint w) \<longleftrightarrow>
     \<not> (2 ^ ring_bits w \<le> x mod 2 ^ ring_bits w + uint w + 1 \<and> bit D (ring_bits w))"
  using masked_less [of w "(w32 (x + (uint w + 1)) XOR w32 x) AND D"]
  unfolding not_less [symmetric, of _ "w32 (uint w)"] w32_simps(4) and.assoc bit_and_iff ring_flip_length
  by simp

lemma sless_w32: "0 \<le>s (scast (i :: s16) :: s32) \<longleftrightarrow> 0 \<le> sint i"
proof -
  have "sint (scast i :: s32) = sint i" by (rule bit_eqI) (auto simp: bit_simps min_def)
  then show ?thesis by (simp add: word_sle_eq)
qed

lemma Increase_closed:
  "uint (IncreaseAddressRegister r ixv s) =
     (let a = uint (ar (regs s) r); w = uint (wr (regs s) r); m = 2 ^ ring_bits (wr (regs s) r); i = sint ixv
      in (if 0 \<le> i then (if m \<le> a mod m + i mod m then a + i - (w + 1) else a + i)
          else if \<not> (m \<le> (a + i) mod m + w + 1 \<and> m \<le> a mod m + i mod m) then a + i + (w + 1)
          else a + i) mod 2 ^ 16)"
proof -
  have assoc: "w32 x + w32 y + 1 = w32 (x + (y + 1))" for x y by (simp only: w32_simps add.assoc)
  have carry: "bit (w32 (x + y) XOR w32 x XOR w32 y) (ring_bits w) \<longleftrightarrow>
      2 ^ ring_bits w \<le> x mod 2 ^ ring_bits w + y mod 2 ^ ring_bits w" for x y w
    using ring_bits_bounds(5) [of w] by (intro carry_add) simp
  show ?thesis
    unfolding IncreaseAddressRegister_def Let_def wrap_mask_def [symmetric] sless_w32
    unfolding w32_simps(4,5) w32_simps(1) [of "uint (ar (regs s) r)" "sint ixv"] assoc
      underflow_test ring_carry_add carry
    by (simp add: w32_simps truncate)
qed

lemma increase_cases:
  fixes b m w x :: int
  assumes "0 \<le> b" "b < m" "w < m" "m - 1 - w \<le> b" "\<bar>i\<bar> \<le> w" "x mod m = b"
  shows "(if 0 \<le> i then (if m \<le> b + i mod m then x + i - (w + 1) else x + i)
     else if \<not> (m \<le> (x + i) mod m + w + 1 \<and> m \<le> b + i mod m) then x + i + (w + 1) else x + i) =
    (if m \<le> b + i then x + i - (w + 1) else if b + i < m - 1 - w then x + i + (w + 1) else x + i)"
proof (cases "0 \<le> i")
  case True
  then have "i mod m = i" using assms by (intro mod_pos_pos_trivial) auto
  with True assms show ?thesis by auto
next
  case False
  then have i: "i mod m = i + m" using assms by (intro mod_add_once) auto
  have "(x + i) mod m = (b + i) mod m" using assms(6) by (metis mod_add_left_eq)
  also have "\<dots> = (if b + i < 0 then b + i + m else b + i)"
    using False assms by (intro offset_mod) auto
  finally show ?thesis using False i assms by auto
qed

lemma Increase_step:
  assumes "valid_ar r s" and "\<bar>sint ixv\<bar> \<le> uint (wr (regs s) r)"
  shows "uint (IncreaseAddressRegister r ixv s) = ar_step r (sint ixv) s"
  unfolding Increase_closed Let_def
  by (intro reduce_mod, unfold ring_add_cases [OF assms] ring_start_def, rule increase_cases [symmetric])
    (use assms ring_bits_bounds(1) in \<open>simp_all add: in_ring_def ring_start_def\<close>)

text \<open>
  \<open>DecreaseAddressRegister\<close> treats every negative index but \<open>0x8000\<close> as a step forward.
\<close>

lemma forward_test: "(0xFFFF8000 :: u32) < scast (i :: s16) \<longleftrightarrow> sint i < 0 \<and> - (2 ^ 15) < sint i"
proof -
  have r: "- (2 ^ 15) \<le> sint i" "sint i < 2 ^ 15" using sint_ge [of i] sint_lt [of i] by simp_all
  have u: "uint (scast i :: u32) = sint i mod 2 ^ 32"
    unfolding scast_eq uint_word_of_int by simp
  show ?thesis
  proof (cases "sint i < 0")
    case True
    have "sint i mod 2 ^ 32 = sint i + 2 ^ 32" using True r by (intro mod_add_once) auto
    with True u show ?thesis by (auto simp: word_less_def)
  next
    case False
    have "sint i mod 2 ^ 32 = sint i" using False r by (intro mod_pos_pos_trivial) auto
    with False u r show ?thesis by (simp add: word_less_def)
  qed
qed

lemma Decrease_closed:
  "uint (DecreaseAddressRegister r ixv s) =
     (let a = uint (ar (regs s) r); w = uint (wr (regs s) r); m = 2 ^ ring_bits (wr (regs s) r); i = sint ixv
      in (if i < 0 \<and> - (2 ^ 15) < i then (if i mod m \<le> a mod m then a - i - (w + 1) else a - i)
          else if \<not> (m \<le> (a - i) mod m + w + 1 \<and> i mod m \<le> a mod m) then a - i + (w + 1)
          else a - i) mod 2 ^ 16)"
proof -
  have assoc: "w32 x + w32 y + 1 = w32 (x + (y + 1))" for x y by (simp only: w32_simps add.assoc)
  have carry: "bit (w32 (x - y) XOR w32 x XOR NOT (w32 y)) (ring_bits w) \<longleftrightarrow>
      y mod 2 ^ ring_bits w \<le> x mod 2 ^ ring_bits w" for x y w
    using ring_bits_bounds(5) [of w] by (intro carry_sub) simp
  show ?thesis
    unfolding DecreaseAddressRegister_def Let_def wrap_mask_def [symmetric] forward_test
    unfolding w32_simps(4,5) w32_simps(2) [of "uint (ar (regs s) r)" "sint ixv"] assoc
      underflow_test ring_carry_sub carry
    by (simp add: w32_simps truncate)
qed

lemma decrease_cases:
  fixes b m w x :: int
  assumes "0 \<le> b" "b < m" "w < m" "m - 1 - w \<le> b" "\<bar>i\<bar> \<le> w" "x mod m = b" "- l < i"
  shows "(if i < 0 \<and> - l < i then (if i mod m \<le> b then x - i - (w + 1) else x - i)
     else if \<not> (m \<le> (x - i) mod m + w + 1 \<and> i mod m \<le> b) then x - i + (w + 1) else x - i) =
    (if m \<le> b + - i then x + - i - (w + 1)
     else if b + - i < m - 1 - w then x + - i + (w + 1) else x + - i)"
proof (cases "i < 0")
  case True
  then have "i mod m = i + m" using assms by (intro mod_add_once) auto
  with True assms show ?thesis by auto
next
  case False
  then have i: "i mod m = i" using assms by (intro mod_pos_pos_trivial) auto
  have "(x - i) mod m = (b + - i) mod m" using assms(6) by (metis mod_diff_left_eq diff_conv_add_uminus)
  also have "\<dots> = (if b + - i < 0 then b + - i + m else b + - i)"
  proof (cases "i = 0")
    case True
    with assms(1,2) show ?thesis by (simp add: mod_pos_pos_trivial)
  next
    case False
    with \<open>\<not> i < 0\<close> assms show ?thesis by (intro offset_mod) auto
  qed
  finally show ?thesis using False i assms by auto
qed

lemma Decrease_step:
  assumes "valid_ar r s" and "\<bar>sint ixv\<bar> \<le> uint (wr (regs s) r)" and "- (2 ^ 15) < sint ixv"
  shows "uint (DecreaseAddressRegister r ixv s) = ar_step r (- sint ixv) s"
proof -
  have "\<bar>- sint ixv\<bar> \<le> uint (wr (regs s) r)" using assms(2) by simp
  from ring_add_cases [OF assms(1) this] show ?thesis
    unfolding Decrease_closed Let_def
    by (intro reduce_mod, unfold ring_start_def, elim ssubst, intro decrease_cases [symmetric])
      (use assms ring_bits_bounds(1) in \<open>simp_all add: in_ring_def ring_start_def\<close>)
qed

end
