(* ===== verification/Dsp_Accel_Facts.thy ===== *)
theory Dsp_Accel_Facts
  imports Dsp_Wf
begin

text \<open>
  The accelerator as a ring of samples: raw reads walk from the start address to the end address,
  raise one exception and start over; a processed read that reaches the end stops further reads
  until \<open>YN2\<close> is written; decoded ADPCM samples stay in the range they are clamped to.
\<close>

unbundle bit_operations_syntax

section \<open>Address masks\<close>

lemma bit_CURRENT_ADDRESS_MASK: "n < 30 \<Longrightarrow> bit CURRENT_ADDRESS_MASK n"
proof -
  assume n: "n < 30"
  have "CURRENT_ADDRESS_MASK = mask 30 OR 0x80000000" by (simp add: mask_eq_exp_minus_1)
  with n show ?thesis by (simp only: bit_or_iff bit_mask_iff) simp
qed

lemma current_mask_id: "x \<le> 0x3fffffff \<Longrightarrow> x AND CURRENT_ADDRESS_MASK = x"
proof (rule bit_word_eqI)
  fix n assume x: "x \<le> 0x3fffffff"
  have "n < 30" if "bit x n"
  proof -
    have "2 ^ n \<le> unat x" using that bit_exp_le [of "unat x" n] by (simp add: bit_unsigned_iff)
    also have "\<dots> < 2 ^ 30" using x by (simp add: word_le_nat_alt)
    finally show ?thesis by (rule power_less_imp_less_exp [rotated]) simp
  qed
  then show "bit (x AND CURRENT_ADDRESS_MASK) n = bit x n"
    using bit_CURRENT_ADDRESS_MASK [of n] by (auto simp: bit_and_iff)
qed

section \<open>Raw reads\<close>

definition raw_read :: "(u32 \<Rightarrow> u8) \<Rightarrow> Accelerator \<times> accel_event list \<Rightarrow> Accelerator \<times> accel_event list" where
  "raw_read rd p = (let (v, a, ev) = ReadRaw rd (fst p) in (a, snd p @ ev))"

definition valid_format :: "Accelerator \<Rightarrow> bool" where
  "valid_format a \<longleftrightarrow> SampleFormat_size (m_sample_format a) \<noteq> SizeInvalid"

lemma ReadRaw_step:
  assumes "valid_format a" and "wf_accel a" and "m_current_address a \<le> m_end_address a"
    and "m_start_address a \<le> m_end_address a"
  shows "snd (ReadRaw rd a) =
    (if m_current_address a = m_end_address a
     then (a\<lparr>m_current_address := m_start_address a\<rparr>, [OnRawReadEndException])
     else (a\<lparr>m_current_address := m_current_address a + 1\<rparr>, []))"
proof -
  have e: "m_end_address a \<le> 0x3fffffff" using assms(2) by (simp add: wf_accel_def)
  have "m_current_address a \<noteq> m_end_address a \<Longrightarrow> m_current_address a + 1 \<le> m_end_address a"
    using assms(3) by (intro inc_le) simp
  with e have "m_current_address a \<noteq> m_end_address a \<Longrightarrow> m_current_address a + 1 \<le> 0x3fffffff"
    by (meson order.trans)
  moreover have "m_start_address a \<le> 0x3fffffff" using assms(4) e by (rule order.trans)
  ultimately show ?thesis
    using assms(1) by (simp add: ReadRaw_def Let_def SetCurrentAddress_def valid_format_def current_mask_id)
qed

text \<open>After \<open>n\<close> reads from the start of a ring of \<open>len\<close> samples.\<close>

lemma raw_reads_ring:
  fixes a :: Accelerator
  defines "len \<equiv> unat (m_end_address a) - unat (m_start_address a) + 1"
  assumes fmt: "valid_format a" and wf: "wf_accel a" and ord: "m_start_address a \<le> m_end_address a"
    and cur: "m_current_address a = m_start_address a"
  shows "(raw_read rd ^^ n) (a, []) =
    (a\<lparr>m_current_address := m_start_address a + of_nat (n mod len)\<rparr>, replicate (n div len) OnRawReadEndException)"
proof (induction n)
  case 0
  have "a\<lparr>m_current_address := m_start_address a\<rparr> = a" using cur by (cases a) simp
  then show ?case by simp
next
  case (Suc n)
  let ?k = "n mod len" and ?s = "m_start_address a" and ?e = "m_end_address a"
  have len: "0 < len" by (simp add: len_def)
  then have k: "?k < len" by simp
  have se: "unat ?s \<le> unat ?e" using ord by (simp add: word_le_nat_alt)
  have sum: "unat ?e + 1 = unat ?s + len" using se by (simp add: len_def)
  have cur': "unat (?s + of_nat ?k) = unat ?s + ?k"
  proof -
    have "unat ?s + ?k \<le> unat ?e" using k sum by linarith
    then have lt: "unat ?s + ?k < 2 ^ 32" using unsigned_less [of ?e, where 'a = nat] by simp
    have "?s + of_nat ?k = of_nat (unat ?s + ?k)" by simp
    then show ?thesis using lt by (simp only: unsigned_of_nat) (simp add: take_bit_nat_eq_self)
  qed
  let ?a = "a\<lparr>m_current_address := ?s + of_nat ?k\<rparr>"
  have le: "?s + of_nat ?k \<le> ?e"
    using k sum unfolding word_le_nat_alt cur' by linarith
  have eq: "?s + of_nat ?k = ?e \<longleftrightarrow> Suc ?k = len"
    using k sum unfolding word_unat_eq_iff cur' by linarith
  have step: "snd (ReadRaw rd ?a) = (if Suc ?k = len then (a\<lparr>m_current_address := ?s\<rparr>, [OnRawReadEndException])
      else (a\<lparr>m_current_address := ?s + of_nat (Suc ?k)\<rparr>, []))"
    using ReadRaw_step [of ?a rd] fmt wf ord le eq by (simp add: valid_format_def add.assoc add.commute)
  have divmod: "Suc n mod len = (if Suc ?k = len then 0 else Suc ?k)"
    "Suc n div len = (if Suc ?k = len then Suc (n div len) else n div len)"
    by (simp_all add: mod_Suc div_Suc)
  have "(raw_read rd ^^ Suc n) (a, []) = raw_read rd (?a, replicate (n div len) OnRawReadEndException)"
    by (simp add: Suc)
  also have "\<dots> = (fst (snd (ReadRaw rd ?a)),
      replicate (n div len) OnRawReadEndException @ snd (snd (ReadRaw rd ?a)))"
    by (simp add: raw_read_def case_prod_beta)
  finally show ?case unfolding divmod step by (simp add: replicate_append_same)
qed

section \<open>Processed reads\<close>

lemma ReadSample_stopped: "m_reads_stopped a \<Longrightarrow> ReadSample rd cs a = (0, a, [])"
  by (simp add: ReadSample_def)

lemma adpcm_step_start [simp]: "m_start_address (fst (adpcm_step rd v a)) = m_start_address a"
  by (simp add: adpcm_step_def Let_def)

lemma pcm_step_start [simp]: "m_start_address (fst (pcm_step v a)) = m_start_address a"
  by (simp add: pcm_step_def Let_def)

lemma step_stopped [simp]:
  "m_reads_stopped (fst (adpcm_step rd v a)) = m_reads_stopped a"
  "m_reads_stopped (fst (pcm_step v a)) = m_reads_stopped a"
  by (simp_all add: adpcm_step_def pcm_step_def Let_def)

text \<open>A processed read either goes on, or ends at the start address with reads stopped.\<close>

lemma ReadSample_end:
  assumes "wf_accel a" and "\<not> m_reads_stopped a" and "ReadSample rd cs a = (v, a', ev)"
  shows "(ev = [] \<and> \<not> m_reads_stopped a') \<or>
    (ev = [OnSampleReadEndException] \<and> m_reads_stopped a' \<and> m_current_address a' = m_start_address a)"
proof -
  have start: "m_start_address a AND CURRENT_ADDRESS_MASK = m_start_address a"
    using assms(1) by (intro current_mask_id) (simp add: wf_accel_def)
  show ?thesis
    using assms(2,3) unfolding ReadSample_def Let_def SetCurrentAddress_def case_prod_beta
    by (auto simp: start split: if_splits)
qed

lemma clamp_range: "- 0x7fff \<le> sint (clamp_s16 v) \<and> sint (clamp_s16 v) \<le> 0x7fff"
  by (auto simp: clamp_s16_def word_sless_alt not_less)

lemma sint_ucast_s16:
  assumes "- 0x8000 \<le> sint (w :: s32)" "sint w \<le> 0x7fff"
  shows "sint (ucast w :: s16) = sint w"
proof -
  have "sint (ucast w :: s16) = signed_take_bit 15 (sint w)"
    by (rule bit_eqI) (auto simp: bit_simps min_def)
  also have "\<dots> = sint w" using assms by (intro signed_take_bit_int_eq_self) auto
  finally show ?thesis .
qed

lemma adpcm_range:
  "- 0x7fff \<le> sint (adpcm_value raw c1 c2 a) \<and> sint (adpcm_value raw c1 c2 a) \<le> 0x7fff"
proof -
  have "- 0x7fff \<le> sint (ucast (clamp_s16 v) :: s16) \<and> sint (ucast (clamp_s16 v) :: s16) \<le> 0x7fff" for v
    using clamp_range [of v] by (subst (1 2) sint_ucast_s16) auto
  then show ?thesis unfolding adpcm_value_def Let_def by blast
qed

end
