(* ===== verification/Dsp_Analyzer_Facts.thy ===== *)
theory Dsp_Analyzer_Facts
  imports Dsp_Interpreter
begin

text \<open>
  What the analyser finds: the addresses marked as starts of instructions are those a linear sweep
  over the two code memories visits, and the end of every hardware loop the sweep meets is marked,
  which is what \<open>Step\<close> relies on to call \<open>HandleLoop\<close>.
\<close>

unbundle bit_operations_syntax

section \<open>The linear sweep\<close>

text \<open>\<open>sweep imem e a b\<close>: a sweep that starts at \<open>a\<close> and ends before \<open>e\<close> comes to \<open>b\<close>.\<close>

inductive sweep :: "(u16 \<Rightarrow> u16) \<Rightarrow> u16 \<Rightarrow> u16 \<Rightarrow> u16 \<Rightarrow> bool" for imem e where
  here: "a < e \<Longrightarrow> sweep imem e a a"
| there: "a < e \<Longrightarrow> sweep imem e (a + op_size (GetOpTemplate (imem a))) b \<Longrightarrow> sweep imem e a b"

inductive_cases sweepE: "sweep imem e a b"

lemma sweep_unfold:
  "sweep imem e a b \<longleftrightarrow> a < e \<and> (b = a \<or> sweep imem e (a + op_size (GetOpTemplate (imem a))) b)"
  by (auto intro: sweep.intros elim: sweepE)

section \<open>Marks\<close>

lemma mark_apply: "mark a f flags b = (if b = a then flags a OR f else flags b)"
  by (simp add: mark_def)

lemma bit_exp_u8: "bit (2 ^ k :: u8) n \<longleftrightarrow> n = k \<and> k < 8"
  by (auto simp: bit_exp_iff)

lemma bit_marks:
  "bit CODE_START_OF_INST n \<longleftrightarrow> n = 0" "bit CODE_IDLE_SKIP n \<longleftrightarrow> n = 1" "bit CODE_LOOP_START n \<longleftrightarrow> n = 2"
  "bit CODE_LOOP_END n \<longleftrightarrow> n = 3" "bit CODE_CHECK_EXC n \<longleftrightarrow> n = 5"
  using bit_exp_u8 [of 0 n] bit_exp_u8 [of 1 n] bit_exp_u8 [of 2 n] bit_exp_u8 [of 3 n]
    bit_exp_u8 [of 5 n] by simp_all

lemma IsStart_bit: "IsStartOfInstruction flags a \<longleftrightarrow> bit (flags a) 0"
  using bit_iff_and_push_bit_not_eq_0 [of "flags a" 0] by (simp add: IsStartOfInstruction_def)

lemma IsLoopEnd_bit: "IsLoopEnd flags a \<longleftrightarrow> bit (flags a) 3"
  using bit_iff_and_push_bit_not_eq_0 [of "flags a" 3] by (simp add: IsLoopEnd_def)

lemma bit_mark: "bit (mark a f flags b) n \<longleftrightarrow> bit (flags b) n \<or> (b = a \<and> bit f n)"
  by (auto simp: mark_apply bit_or_iff)

text \<open>The end of a loop instruction at \<open>a\<close>, if there is one.\<close>

definition loop_end_of :: "(u16 \<Rightarrow> u16) \<Rightarrow> u16 \<Rightarrow> u16 option" where
  "loop_end_of imem a =
     (let inst = imem a in
      if inst AND 0xffe0 = 0x0060 \<or> inst AND 0xff00 = 0x1100 then Some (imem (a + 1))
      else if inst AND 0xffe0 = 0x0040 \<or> inst AND 0xff00 = 0x1000 then Some (a + 1)
      else None)"

lemma mark_instruction_start: "bit (mark_instruction imem a flags b) 0 \<longleftrightarrow> bit (flags b) 0 \<or> b = a"
  unfolding mark_instruction_def Let_def by (auto simp: bit_mark bit_marks)

lemma mark_instruction_end:
  "bit (mark_instruction imem a flags b) 3 \<longleftrightarrow> bit (flags b) 3 \<or> loop_end_of imem a = Some b"
  unfolding mark_instruction_def Let_def loop_end_of_def by (auto simp: bit_mark bit_marks)

lemma FindInstructionStarts_bits:
  assumes "FindInstructionStarts imem a e flags = Some flags'"
  shows "(\<forall>b. bit (flags' b) 0 \<longleftrightarrow> bit (flags b) 0 \<or> sweep imem e a b) \<and>
    (\<forall>b. bit (flags' b) 3 \<longleftrightarrow> bit (flags b) 3 \<or> (\<exists>c. sweep imem e a c \<and> loop_end_of imem c = Some b))"
proof (rule FindInstructionStarts.raw_induct [OF _ assms])
  fix f imem a e flags flags'
  assume IH: "\<And>imem a e flags flags'. f imem a e flags = Some flags' \<Longrightarrow>
      (\<forall>b. bit (flags' b) 0 \<longleftrightarrow> bit (flags b) 0 \<or> sweep imem e a b) \<and>
      (\<forall>b. bit (flags' b) 3 \<longleftrightarrow> bit (flags b) 3 \<or> (\<exists>c. sweep imem e a c \<and> loop_end_of imem c = Some b))"
    and eq: "(if a < e then f imem (a + op_size (GetOpTemplate (imem a))) e (mark_instruction imem a flags)
      else Some flags) = Some flags'"
  show "(\<forall>b. bit (flags' b) 0 \<longleftrightarrow> bit (flags b) 0 \<or> sweep imem e a b) \<and>
    (\<forall>b. bit (flags' b) 3 \<longleftrightarrow> bit (flags b) 3 \<or> (\<exists>c. sweep imem e a c \<and> loop_end_of imem c = Some b))"
  proof (cases "a < e")
    case True
    with eq have "f imem (a + op_size (GetOpTemplate (imem a))) e (mark_instruction imem a flags) = Some flags'"
      by simp
    from IH [OF this] True show ?thesis
      unfolding mark_instruction_start mark_instruction_end by (subst (1 2) sweep_unfold) auto
  next
    case False
    with eq show ?thesis by (subst (1 2) sweep_unfold) simp
  qed
qed

text \<open>Looking for idle loops changes no other mark.\<close>

lemma idle_mark_bits: "n \<noteq> 1 \<Longrightarrow> bit (mark a CODE_IDLE_SKIP flags b) n = bit (flags b) n"
  by (simp only: bit_mark bit_marks) simp

lemma skip_loop_bits: "n \<noteq> 1 \<Longrightarrow> bit (skip_loop imem ws a e flags b) n = bit (flags b) n"
proof (induction imem ws a e flags rule: skip_loop.induct)
  case (1 imem ws a e flags)
  then show ?case by (subst skip_loop.simps) (simp add: idle_mark_bits)
qed

lemma FindIdleSkips_bits: "n \<noteq> 1 \<Longrightarrow> bit (FindIdleSkips imem a e flags b) n = bit (flags b) n"
proof -
  assume n: "n \<noteq> 1"
  have "bit (fold (\<lambda>ws. skip_loop imem ws a e) sigs flags b) n = bit (flags b) n" for sigs
    using n by (induction sigs arbitrary: flags) (simp_all add: skip_loop_bits)
  then show ?thesis by (simp add: FindIdleSkips_def)
qed

lemma AnalyzeRange_bits:
  assumes "AnalyzeRange imem a e flags = Some flags'"
  shows "bit (flags' b) 0 \<longleftrightarrow> bit (flags b) 0 \<or> sweep imem e a b"
    and "bit (flags' b) 3 \<longleftrightarrow> bit (flags b) 3 \<or> (\<exists>c. sweep imem e a c \<and> loop_end_of imem c = Some b)"
  using assms FindInstructionStarts_bits [of imem a e flags]
  by (auto simp: AnalyzeRange_def FindIdleSkips_bits split: option.splits)

definition swept :: "'a SDSP_scheme \<Rightarrow> u16 \<Rightarrow> bool" where
  "swept s a \<longleftrightarrow> sweep (ReadIMEM s) 0x1000 0 a \<or> sweep (ReadIMEM s) 0x9000 0x8000 a"

lemma Analyze_bits:
  assumes "Analyze s = Some flags"
  shows "IsStartOfInstruction flags a \<longleftrightarrow> swept s a"
    and "IsLoopEnd flags a \<longleftrightarrow> (\<exists>c. swept s c \<and> loop_end_of (ReadIMEM s) c = Some a)"
proof -
  obtain f where f: "AnalyzeRange (ReadIMEM s) 0x0000 0x1000 (\<lambda>_. 0) = Some f"
    "AnalyzeRange (ReadIMEM s) 0x8000 0x9000 f = Some flags"
    using assms by (auto simp: Analyze_def Let_def split: option.splits)
  show "IsStartOfInstruction flags a \<longleftrightarrow> swept s a"
    by (simp add: IsStart_bit AnalyzeRange_bits(1) [OF f(2)] AnalyzeRange_bits(1) [OF f(1)] swept_def)
  show "IsLoopEnd flags a \<longleftrightarrow> (\<exists>c. swept s c \<and> loop_end_of (ReadIMEM s) c = Some a)"
    unfolding IsLoopEnd_bit AnalyzeRange_bits(2) [OF f(2)] AnalyzeRange_bits(2) [OF f(1)] swept_def by auto
qed

end
