(* ===== verification/Dsp_LLE.thy ===== *)
theory Dsp_LLE
  imports Dsp_Interpreter
begin

text \<open>
  The front end of the DSP emulator (Source/Core/Core/HW/DSPLLE/DSPLLE.cpp): loading the ROMs,
  start-up, the control register and the mailboxes as the CPU sees them, and the cycles the CPU
  grants.  Without the recompiler \<open>Initialize\<close> never starts a DSP thread, so \<open>m_is_dsp_on_thread\<close>
  is the branch of the code and \<open>DSP_Update\<close> in thread mode, which hands its cycles to the other
  thread and waits for it, does not come back here; the theory Dsp_Thread has that protocol.
\<close>

unbundle bit_operations_syntax

section \<open>Operations that may not come back\<close>

type_synonym 'a outcome = "'a result option"

definition bindO :: "'a outcome \<Rightarrow> ('a \<Rightarrow> 'b outcome) \<Rightarrow> 'b outcome" where
  "bindO m f = (case m of None \<Rightarrow> None | Some (Inl e) \<Rightarrow> Some (Inl e) | Some (Inr x) \<Rightarrow> f x)"

lemma bindO_simps [simp]:
  "bindO None f = None" "bindO (Some (Inl e)) f = Some (Inl e)" "bindO (Some (Inr x)) f = f x"
  by (simp_all add: bindO_def)

lemma bindO_eq_Inr_iff: "bindO m f = Some (Inr y) \<longleftrightarrow> (\<exists>x. m = Some (Inr x) \<and> f x = Some (Inr y))"
  by (auto simp: bindO_def split: option.splits sum.splits)

text \<open>A postcondition of an operation that may fail or not come back.\<close>

definition okO :: "('a \<Rightarrow> bool) \<Rightarrow> 'a outcome \<Rightarrow> bool" where
  "okO P m \<longleftrightarrow> (\<forall>x. m = Some (Inr x) \<longrightarrow> P x)"

lemma okO_simps [simp]: "okO P None" "okO P (Some m) = okE P m"
  by (simp_all add: okO_def okE_iff)

lemma okO_bindO [okE_intros]: "okO (\<lambda>x. okO P (f x)) m \<Longrightarrow> okO P (bindO m f)"
  by (auto simp: okO_def bindO_eq_Inr_iff)

lemma okO_mono: "okO P m \<Longrightarrow> (\<And>x. P x \<Longrightarrow> Q x) \<Longrightarrow> okO Q m"
  by (simp add: okO_def)

lemma okO_if [okE_intros]: "(b \<Longrightarrow> okO P x) \<Longrightarrow> (\<not> b \<Longrightarrow> okO P y) \<Longrightarrow> okO P (if b then x else y)"
  by simp

section \<open>The ROM files\<close>

text \<open>\<open>read\<close> is the file system: the bytes of a file, or \<open>None\<close> when it cannot be read.\<close>

definition LoadDSPRom :: "(string \<Rightarrow> u8 list option) \<Rightarrow> string \<Rightarrow> nat \<Rightarrow> (nat \<Rightarrow> u16) option" where
  "LoadDSPRom read filename size_in_bytes =
     (case read filename of
        None \<Rightarrow> None
      | Some bytes \<Rightarrow>
          if length bytes \<noteq> size_in_bytes then None
          else Some (\<lambda>i. if i < size_in_bytes div 2
                         then swap16 (load_le16 (bytes ! (2 * i)) (bytes ! (2 * i + 1))) else 0))"

definition FillDSPInitOptions ::
    "(string \<Rightarrow> bool) \<Rightarrow> (string \<Rightarrow> u8 list option) \<Rightarrow> string \<Rightarrow> string
      \<Rightarrow> ((nat \<Rightarrow> u16) \<times> (nat \<Rightarrow> u16)) option" where
  "FillDSPInitOptions exists read user_dir sys_dir =
     (let irom_file = user_dir @ ''dsp_rom.bin'';
          coef_file = user_dir @ ''dsp_coef.bin'';
          irom_file = (if \<not> exists irom_file then sys_dir @ ''dsp_rom.bin'' else irom_file);
          coef_file = (if \<not> exists coef_file then sys_dir @ ''dsp_coef.bin'' else coef_file)
      in case LoadDSPRom read irom_file 0x2000 of
           None \<Rightarrow> None
         | Some irom_contents \<Rightarrow>
             (case LoadDSPRom read coef_file 0x1000 of
                None \<Rightarrow> None
              | Some coef_contents \<Rightarrow> Some (irom_contents, coef_contents)))"

section \<open>State and start-up\<close>

record DSPLLE =
  m_dsp_core :: DSPCore
  m_is_dsp_on_thread :: bool
  m_request_disable_thread :: bool
  m_wii :: bool
  wants_determinism :: bool

abbreviation upd_dsp :: "(Interpreter \<Rightarrow> Interpreter) \<Rightarrow> DSPLLE \<Rightarrow> DSPLLE" where
  "upd_dsp f \<equiv> m_dsp_core_update (m_dsp_update f)"

abbreviation the_dsp :: "DSPLLE \<Rightarrow> Interpreter" where
  "the_dsp l \<equiv> m_dsp (m_dsp_core l)"

text \<open>
  \<open>is_jit\<close> is \<open>IsJITCreated\<close>.  The template table that \<open>InitInstructionTable\<close> fills is a constant of
  the model, so its place in the order of the calls is not visible here.
\<close>

definition LLE_Initialize ::
    "((nat \<Rightarrow> u16) \<Rightarrow> nat \<Rightarrow> u32) \<Rightarrow> bool \<Rightarrow> bool \<Rightarrow> bool \<Rightarrow> ((nat \<Rightarrow> u16) \<times> (nat \<Rightarrow> u16)) option
      \<Rightarrow> bool \<Rightarrow> bool \<Rightarrow> DSPLLE \<Rightarrow> (bool \<times> DSPLLE) result" where
  "LLE_Initialize hash stop_bad stop_old is_jit opts wii dsp_thread l =
     (let l = l\<lparr>m_request_disable_thread := False\<rparr> in
      case opts of
        None \<Rightarrow> Inr (False, l)
      | Some (irom_contents, coef_contents) \<Rightarrow>
          let (ok, c) = Core_Initialize hash stop_bad stop_old irom_contents coef_contents (m_dsp_core l);
              l = l\<lparr>m_dsp_core := c\<rparr>
          in if \<not> ok then Inr (False, l)
             else
               let dsp_thread = (if wants_determinism l \<or> \<not> is_jit then False else dsp_thread);
                   l = l\<lparr>m_wii := wii, m_is_dsp_on_thread := dsp_thread\<rparr>
               in bindE (DSPCore_Reset (the_dsp l)) (\<lambda>d. Inr (True, upd_dsp (\<lambda>_. d) l)))"

definition LLE_Shutdown :: "DSPLLE \<Rightarrow> DSPLLE" where
  "LLE_Shutdown l = m_dsp_core_update Core_Shutdown l"

section \<open>Control register and mailboxes\<close>

definition DSP_ReadControlRegister :: "u64 \<Rightarrow> DSPLLE \<Rightarrow> u16 \<times> DSPLLE" where
  "DSP_ReadControlRegister now l =
     (let (v, d) = ReadControlRegister now (the_dsp l) in (v, upd_dsp (\<lambda>_. d) l))"

definition DSP_WriteControlRegister :: "u64 \<Rightarrow> u16 \<Rightarrow> DSPLLE \<Rightarrow> (u16 \<times> DSPLLE) result" where
  "DSP_WriteControlRegister now val l =
     bindE (WriteControlRegister now val (the_dsp l))
       (\<lambda>d. let l = upd_dsp (\<lambda>_. d) l;
                l = (if val AND CR_EXTERNAL_INT \<noteq> 0
                     then if m_is_dsp_on_thread l
                          then upd_dsp (SetExternalInterrupt True) (l\<lparr>m_request_disable_thread := True\<rparr>)
                          else upd_dsp (\<lambda>d. snd (CheckExceptions (CheckExternalInterrupt d))) l
                     else l)
            in Inr (DSP_ReadControlRegister now l))"

definition mailbox_of :: "bool \<Rightarrow> Mailbox" where
  "mailbox_of cpu_mailbox = (if cpu_mailbox then MailboxCPU else MailboxDSP)"

definition DSP_ReadMailBoxHigh :: "bool \<Rightarrow> DSPLLE \<Rightarrow> u16" where
  "DSP_ReadMailBoxHigh cpu_mailbox l = ReadMailboxHigh (mailbox_of cpu_mailbox) (the_dsp l)"

definition DSP_ReadMailBoxLow :: "bool \<Rightarrow> DSPLLE \<Rightarrow> u16 \<times> DSPLLE" where
  "DSP_ReadMailBoxLow cpu_mailbox l =
     (let (v, d) = ReadMailboxLow (mailbox_of cpu_mailbox) (the_dsp l) in (v, upd_dsp (\<lambda>_. d) l))"

definition DSP_WriteMailBoxHigh :: "bool \<Rightarrow> u16 \<Rightarrow> DSPLLE \<Rightarrow> DSPLLE" where
  "DSP_WriteMailBoxHigh cpu_mailbox val l =
     (if cpu_mailbox then upd_dsp (WriteMailboxHigh MailboxCPU val) l else l)"

definition DSP_WriteMailBoxLow :: "bool \<Rightarrow> u16 \<Rightarrow> DSPLLE \<Rightarrow> DSPLLE" where
  "DSP_WriteMailBoxLow cpu_mailbox val l =
     (if cpu_mailbox then upd_dsp (WriteMailboxLow MailboxCPU val) l else l)"

section \<open>Cycles\<close>

text \<open>
  C++ division of \<open>int\<close> rounds towards zero.  In thread mode the thread is stopped when asked for,
  and otherwise gets the cycles.
\<close>

definition cdiv :: "int \<Rightarrow> int \<Rightarrow> int" where
  "cdiv a b = sgn a * sgn b * (\<bar>a\<bar> div \<bar>b\<bar>)"

definition crem :: "int \<Rightarrow> int \<Rightarrow> int" where
  "crem a b = a - b * cdiv a b"

definition DSP_Update :: "nat \<Rightarrow> int \<Rightarrow> DSPLLE \<Rightarrow> DSPLLE outcome" where
  "DSP_Update steps cycles l =
     (let dsp_cycles = cdiv cycles 6 in
      if dsp_cycles \<le> 0 then Some (Inr l)
      else
        let l = (if m_is_dsp_on_thread l \<and> (m_request_disable_thread l \<or> wants_determinism l)
                 then l\<lparr>m_is_dsp_on_thread := False, m_request_disable_thread := False\<rparr> else l)
        in if \<not> m_is_dsp_on_thread l
           then bindO (Core_RunCycles steps dsp_cycles (m_dsp_core l))
                  (\<lambda>(n, c). Some (Inr (l\<lparr>m_dsp_core := c\<rparr>)))
           else None)"

abbreviation DSP_UpdateRate :: int where "DSP_UpdateRate \<equiv> 12600"

end
