(* ===== verification/Dsp_Manager.thy ===== *)
theory Dsp_Manager
  imports Dsp_LLE
begin

text \<open>
  The DSP interface of the console (Source/Core/Core/HW/DSP.cpp and DSP.h): the interrupt and
  control register at 0x500a, the mailbox registers, the DMA between main memory and ARAM, the audio
  DMA, and the time slices of the DSP; with the device on the high-speed port (Core/HW/HSP) that a
  DMA reaches behind the ARAM, and the access handlers of Core/HW/MMIO.cpp the registers use.

  Main memory and ARAM are the record \<open>Host\<close> inside the emulated DSP.  What the interface asks of
  CoreTiming and of the audio output is recorded in \<open>scheduled\<close>, oldest first; the interrupt line to
  the processor interface is \<open>int_cause_dsp\<close>.
\<close>

unbundle bit_operations_syntax

section \<open>Registers\<close>

abbreviation DSP_MAIL_TO_DSP_HI :: u16 where "DSP_MAIL_TO_DSP_HI \<equiv> 0x5000"
abbreviation DSP_MAIL_TO_DSP_LO :: u16 where "DSP_MAIL_TO_DSP_LO \<equiv> 0x5002"
abbreviation DSP_MAIL_FROM_DSP_HI :: u16 where "DSP_MAIL_FROM_DSP_HI \<equiv> 0x5004"
abbreviation DSP_MAIL_FROM_DSP_LO :: u16 where "DSP_MAIL_FROM_DSP_LO \<equiv> 0x5006"
abbreviation DSP_CONTROL :: u16 where "DSP_CONTROL \<equiv> 0x500a"
abbreviation AR_INFO :: u16 where "AR_INFO \<equiv> 0x5012"
abbreviation AR_MODE :: u16 where "AR_MODE \<equiv> 0x5016"
abbreviation AR_REFRESH :: u16 where "AR_REFRESH \<equiv> 0x501a"
abbreviation AR_DMA_MMADDR_H :: u16 where "AR_DMA_MMADDR_H \<equiv> 0x5020"
abbreviation AR_DMA_MMADDR_L :: u16 where "AR_DMA_MMADDR_L \<equiv> 0x5022"
abbreviation AR_DMA_ARADDR_H :: u16 where "AR_DMA_ARADDR_H \<equiv> 0x5024"
abbreviation AR_DMA_ARADDR_L :: u16 where "AR_DMA_ARADDR_L \<equiv> 0x5026"
abbreviation AR_DMA_CNT_H :: u16 where "AR_DMA_CNT_H \<equiv> 0x5028"
abbreviation AR_DMA_CNT_L :: u16 where "AR_DMA_CNT_L \<equiv> 0x502a"
abbreviation AUDIO_DMA_START_HI :: u16 where "AUDIO_DMA_START_HI \<equiv> 0x5030"
abbreviation AUDIO_DMA_START_LO :: u16 where "AUDIO_DMA_START_LO \<equiv> 0x5032"
abbreviation AUDIO_DMA_CONTROL_LEN :: u16 where "AUDIO_DMA_CONTROL_LEN \<equiv> 0x5036"
abbreviation AUDIO_DMA_BLOCKS_LEFT :: u16 where "AUDIO_DMA_BLOCKS_LEFT \<equiv> 0x503a"

abbreviation INT_DSP :: u16 where "INT_DSP \<equiv> 0x80"
abbreviation INT_ARAM :: u16 where "INT_ARAM \<equiv> 0x20"
abbreviation INT_AID :: u16 where "INT_AID \<equiv> 0x08"
abbreviation DSP_CONTROL_MASK :: u16 where "DSP_CONTROL_MASK \<equiv> 0x0c07"

text \<open>Masks of the fields of \<open>UDSPControl\<close>, lowest first.\<close>

abbreviation CTL_DSPReset :: u16 where "CTL_DSPReset \<equiv> 0x0001"
abbreviation CTL_DSPAssertInt :: u16 where "CTL_DSPAssertInt \<equiv> 0x0002"
abbreviation CTL_DSPHalt :: u16 where "CTL_DSPHalt \<equiv> 0x0004"
abbreviation CTL_AID :: u16 where "CTL_AID \<equiv> 0x0008"
abbreviation CTL_AID_mask :: u16 where "CTL_AID_mask \<equiv> 0x0010"
abbreviation CTL_ARAM :: u16 where "CTL_ARAM \<equiv> 0x0020"
abbreviation CTL_ARAM_mask :: u16 where "CTL_ARAM_mask \<equiv> 0x0040"
abbreviation CTL_DSP :: u16 where "CTL_DSP \<equiv> 0x0080"
abbreviation CTL_DSP_mask :: u16 where "CTL_DSP_mask \<equiv> 0x0100"
abbreviation CTL_DMAState :: u16 where "CTL_DMAState \<equiv> 0x0200"
abbreviation CTL_DSPInitCode :: u16 where "CTL_DSPInitCode \<equiv> 0x0400"
abbreviation CTL_DSPInit :: u16 where "CTL_DSPInit \<equiv> 0x0800"
abbreviation CTL_pad :: u16 where "CTL_pad \<equiv> 0xf000"

section \<open>State\<close>

text \<open>The device on the high-speed port: none, or more ARAM with an address mask.\<close>

datatype hsp_device = HSP_Null | HSP_ARAMExpansion u32 "u32 \<Rightarrow> u8"

text \<open>Requests: an interrupt or the end of an ARAM DMA after some ticks; samples for the mixer.\<close>

datatype core_event = ScheduleInterrupt int u16 | ScheduleCompleteARAM int
  | SendAIBuffer "ptr option" | SendSilence

record DSPManager =
  m_dsp_control :: u16
  current_source_address :: u32
  remaining_blocks_count :: u16
  SourceAddress :: u32
  AudioDMAControl :: u16
  MMAddr :: u32
  ARAddr :: u32
  Cnt :: u32
  m_aram_info :: u16
  m_aram_mode :: u16
  m_aram_refresh :: u16
  m_dsp_slice :: int
  m_is_lle :: bool
  m_dsp_emulator :: DSPLLE
  m_hsp :: hsp_device
  int_cause_dsp :: bool
  scheduled :: "core_event list"

abbreviation the_host :: "DSPManager \<Rightarrow> Host" where
  "the_host d \<equiv> host (the_dsp (m_dsp_emulator d))"

abbreviation upd_host :: "(Host \<Rightarrow> Host) \<Rightarrow> DSPManager \<Rightarrow> DSPManager" where
  "upd_host f \<equiv> m_dsp_emulator_update (upd_dsp (host_update f))"

abbreviation schedule :: "core_event \<Rightarrow> DSPManager \<Rightarrow> DSPManager" where
  "schedule e \<equiv> scheduled_update (\<lambda>es. es @ [e])"

text \<open>The bit fields of \<open>UARAMCount\<close> and \<open>UAudioDMAControl\<close>.\<close>

definition Cnt_count :: "u32 \<Rightarrow> u32" where
  "Cnt_count c = c AND 0x7fffffff"

definition Cnt_dir :: "u32 \<Rightarrow> bool" where
  "Cnt_dir c = bit c 31"

definition Audio_NumBlocks :: "u16 \<Rightarrow> u16" where
  "Audio_NumBlocks c = c AND 0x7fff"

definition Audio_Enable :: "u16 \<Rightarrow> bool" where
  "Audio_Enable c = bit c 15"

section \<open>Start\<close>

text \<open>\<open>Reinit\<close>, after the emulator has been created; on a Wii the ARAM is EXRAM.\<close>

definition Reinit :: "bool \<Rightarrow> DSPManager \<Rightarrow> DSPManager" where
  "Reinit is_wii d =
     (let d = upd_host (\<lambda>h. if is_wii
                then h\<lparr>aram_wii_mode := True, aram_size := m_exram_size_real h, aram_mask := m_exram_mask h\<rparr>
                else h\<lparr>aram_wii_mode := False, aram_size := 0x01000000, aram_mask := 0x00ffffff,
                       aram_ptr := \<lambda>_. 0\<rparr>) d;
          d = d\<lparr>current_source_address := 0, remaining_blocks_count := 0, SourceAddress := 0,
                AudioDMAControl := 0, MMAddr := 0, ARAddr := 0, Cnt := 0\<rparr>;
          d = d\<lparr>m_dsp_control := CTL_DSPHalt\<rparr>
      in d\<lparr>m_aram_info := 0, m_aram_mode := 1, m_aram_refresh := 156\<rparr>)"

section \<open>Interrupts\<close>

definition UpdateInterrupts :: "DSPManager \<Rightarrow> DSPManager" where
  "UpdateInterrupts d =
     (let ints_set = drop_bit 1 (m_dsp_control d) AND m_dsp_control d AND (INT_DSP OR INT_ARAM OR INT_AID) \<noteq> 0
      in d\<lparr>int_cause_dsp := ints_set\<rparr>)"

definition GenerateDSPInterrupt :: "u16 \<Rightarrow> DSPManager \<Rightarrow> DSPManager" where
  "GenerateDSPInterrupt DSPIntType d =
     UpdateInterrupts
       (d\<lparr>m_dsp_control := m_dsp_control d OR (DSPIntType AND (INT_DSP OR INT_ARAM OR INT_AID))\<rparr>)"

definition CompleteARAM :: "DSPManager \<Rightarrow> DSPManager" where
  "CompleteARAM d = GenerateDSPInterrupt INT_ARAM (d\<lparr>m_dsp_control := m_dsp_control d AND NOT CTL_DMAState\<rparr>)"

section \<open>Time slices\<close>

definition manager_update :: "nat \<Rightarrow> int \<Rightarrow> DSPManager \<Rightarrow> DSPManager outcome" where
  "manager_update steps cycles d =
     bindO (DSP_Update steps cycles (m_dsp_emulator d)) (\<lambda>l. Some (Inr (d\<lparr>m_dsp_emulator := l\<rparr>)))"

definition UpdateDSPSlice :: "nat \<Rightarrow> int \<Rightarrow> DSPManager \<Rightarrow> DSPManager outcome" where
  "UpdateDSPSlice steps cycles d =
     (if m_is_lle d
      then bindO (manager_update steps (m_dsp_slice d) d)
             (\<lambda>d. let d = d\<lparr>m_dsp_slice := crem (m_dsp_slice d) 6\<rparr>
                  in Some (Inr (d\<lparr>m_dsp_slice := m_dsp_slice d + cycles\<rparr>)))
      else manager_update steps cycles d)"

abbreviation DSP_MAIL_SLICE :: int where "DSP_MAIL_SLICE \<equiv> 72"

text \<open>What a read of a high mailbox register does first.\<close>

definition mail_slice :: "nat \<Rightarrow> DSPManager \<Rightarrow> DSPManager outcome" where
  "mail_slice steps d =
     (if m_dsp_slice d > DSP_MAIL_SLICE \<and> m_is_lle d
      then bindO (manager_update steps DSP_MAIL_SLICE d)
             (\<lambda>d. Some (Inr (d\<lparr>m_dsp_slice := m_dsp_slice d - DSP_MAIL_SLICE\<rparr>)))
      else Some (Inr d))"

section \<open>Audio DMA\<close>

definition UpdateAudioDMA :: "DSPManager \<Rightarrow> DSPManager" where
  "UpdateAudioDMA d =
     (if Audio_Enable (AudioDMAControl d)
      then
        let d = schedule (SendAIBuffer (GetPointerForRange (the_host d) (current_source_address d) 32)) d;
            d = (if remaining_blocks_count d \<noteq> 0
                 then d\<lparr>remaining_blocks_count := remaining_blocks_count d - 1,
                        current_source_address := current_source_address d + 32\<rparr>
                 else d)
        in if remaining_blocks_count d = 0
           then GenerateDSPInterrupt INT_AID
                  (d\<lparr>current_source_address := SourceAddress d,
                     remaining_blocks_count := Audio_NumBlocks (AudioDMAControl d)\<rparr>)
           else d
      else schedule SendSilence d)"

section \<open>ARAM DMA\<close>

definition hsp_read :: "hsp_device \<Rightarrow> u32 \<Rightarrow> bytes8" where
  "hsp_read dev address =
     (case dev of HSP_Null \<Rightarrow> replicate 8 0
      | HSP_ARAMExpansion m p \<Rightarrow> swap64 (map (\<lambda>k. p ((address AND m) + of_nat k)) [0..<8]))"

definition hsp_write :: "u32 \<Rightarrow> bytes8 \<Rightarrow> hsp_device \<Rightarrow> hsp_device" where
  "hsp_write address v dev =
     (case dev of HSP_Null \<Rightarrow> HSP_Null
      | HSP_ARAMExpansion m p \<Rightarrow>
          HSP_ARAMExpansion m (fold (\<lambda>k q. q((address AND m) + of_nat k := swap64 v ! k)) [0..<8] p))"

text \<open>A 64-bit access to the ARAM at \<open>m_aram.ptr[i]\<close>.\<close>

definition load_aram :: "u32 \<Rightarrow> Host \<Rightarrow> bytes8" where
  "load_aram i h = map (\<lambda>k. aram_byte (i + of_nat k) h) [0..<8]"

definition store_aram8 :: "u32 \<Rightarrow> bytes8 \<Rightarrow> Host \<Rightarrow> Host" where
  "store_aram8 i v h = fold (\<lambda>k. store_aram (i + of_nat k) (v ! k)) [0..<8] h"

text \<open>The bodies of the four loops, before the addresses and the count are advanced.\<close>

definition aram_to_mram :: "DSPManager \<Rightarrow> DSPManager" where
  "aram_to_mram d =
     upd_host (\<lambda>h. Write_U64_Swap (load_aram (ARAddr d AND aram_mask h) h) (MMAddr d) h) d"

definition hsp_to_mram :: "DSPManager \<Rightarrow> DSPManager" where
  "hsp_to_mram d = upd_host (Write_U64 (hsp_read (m_hsp d) (ARAddr d)) (MMAddr d)) d"

definition mram_to_aram :: "DSPManager \<Rightarrow> DSPManager" where
  "mram_to_aram d =
     (let d = (if m_aram_info d AND 0xf = 4 \<and> ARAddr d < 0x400000
               then upd_host (\<lambda>h. store_aram8 ((ARAddr d + 0x400000) AND aram_mask h)
                                    (swap64 (Read_U64 h (MMAddr d))) h) d
               else d)
      in upd_host (\<lambda>h. store_aram8 (ARAddr d AND aram_mask h) (swap64 (Read_U64 h (MMAddr d))) h) d)"

definition mram_to_hsp :: "DSPManager \<Rightarrow> DSPManager" where
  "mram_to_hsp d = m_hsp_update (hsp_write (ARAddr d) (Read_U64 (the_host d) (MMAddr d))) d"

definition advance :: "DSPManager \<Rightarrow> DSPManager" where
  "advance d = d\<lparr>MMAddr := MMAddr d + 8, ARAddr := ARAddr d + 8,
     Cnt := (Cnt d AND 0x80000000) OR ((Cnt d - 8) AND 0x7fffffff)\<rparr>"

text \<open>\<open>while (m_aram_dma.Cnt.count)\<close>: the loop does not return when the count steps over zero.\<close>

partial_function (option) dma_loop :: "(DSPManager \<Rightarrow> DSPManager) \<Rightarrow> DSPManager \<Rightarrow> DSPManager option" where
  [code]: "dma_loop body d =
     (if Cnt_count (Cnt d) = 0 then Some d else dma_loop body (advance (body d)))"

text \<open>The lines before the loops; \<open>Cnt\<close> is not changed by them.\<close>

definition dma_start :: "DSPManager \<Rightarrow> DSPManager" where
  "dma_start d =
     (let d = d\<lparr>m_dsp_control := m_dsp_control d OR CTL_DMAState\<rparr>;
          ticksToTransfer = uint (Cnt_count (Cnt d)) div 32 * 246;
          d = schedule (ScheduleCompleteARAM ticksToTransfer) d
      in d\<lparr>ARAddr := ARAddr d AND 0x3ffffff, MMAddr := MMAddr d AND 0x3ffffff\<rparr>)"

definition Do_ARAM_DMA :: "DSPManager \<Rightarrow> DSPManager option" where
  "Do_ARAM_DMA d =
     (let d = dma_start d
      in if Cnt_dir (Cnt d)
         then if ARAddr d < aram_size (the_host d) then dma_loop aram_to_mram d
              else if \<not> aram_wii_mode (the_host d) then dma_loop hsp_to_mram d
              else Some d
         else if ARAddr d < aram_size (the_host d) then dma_loop mram_to_aram d
              else if \<not> aram_wii_mode (the_host d) then dma_loop mram_to_hsp d
              else Some d)"

section \<open>The control register\<close>

text \<open>Assignment of the bits of a field from another control word.\<close>

definition copy_field :: "u16 \<Rightarrow> u16 \<Rightarrow> u16 \<Rightarrow> u16" where
  "copy_field m src dst = (dst AND NOT m) OR (src AND m)"

definition read_control :: "u64 \<Rightarrow> DSPManager \<Rightarrow> u16 \<times> DSPManager" where
  "read_control now d =
     (let (v, l) = DSP_ReadControlRegister now (m_dsp_emulator d)
      in ((m_dsp_control d AND NOT DSP_CONTROL_MASK) OR (v AND DSP_CONTROL_MASK), d\<lparr>m_dsp_emulator := l\<rparr>))"

definition control_fields :: "u16 \<Rightarrow> u16 \<Rightarrow> u16" where
  "control_fields tmp c =
     (let c = copy_field CTL_DSPReset tmp c; c = copy_field CTL_DSPAssertInt tmp c;
          c = copy_field CTL_DSPHalt tmp c; c = copy_field CTL_DSPInitCode tmp c;
          c = copy_field CTL_DSPInit tmp c;
          c = copy_field CTL_AID_mask tmp c; c = copy_field CTL_ARAM_mask tmp c;
          c = copy_field CTL_DSP_mask tmp c;
          c = (if tmp AND CTL_AID \<noteq> 0 then c AND NOT CTL_AID else c);
          c = (if tmp AND CTL_ARAM \<noteq> 0 then c AND NOT CTL_ARAM else c);
          c = (if tmp AND CTL_DSP \<noteq> 0 then c AND NOT CTL_DSP else c)
      in copy_field CTL_pad tmp c)"

definition write_control :: "u64 \<Rightarrow> u16 \<Rightarrow> DSPManager \<Rightarrow> DSPManager result" where
  "write_control now val d =
     bindE (DSP_WriteControlRegister now val (m_dsp_emulator d))
       (\<lambda>(v, l). let d = d\<lparr>m_dsp_emulator := l\<rparr>;
                     tmp = (val AND NOT DSP_CONTROL_MASK) OR (v AND DSP_CONTROL_MASK);
                     d = (if val AND 1 \<noteq> 0 then d\<lparr>AudioDMAControl := 0\<rparr> else d);
                     d = d\<lparr>m_dsp_control := control_fields tmp (m_dsp_control d)\<rparr>
                 in Inr (UpdateInterrupts d))"

section \<open>Register accesses\<close>

definition HighPart :: "u32 \<Rightarrow> u16" where
  "HighPart v = ucast (drop_bit 16 v)"

definition LowPart :: "u32 \<Rightarrow> u16" where
  "LowPart v = ucast v"

definition write_audio_control :: "u16 \<Rightarrow> DSPManager \<Rightarrow> DSPManager" where
  "write_audio_control val d =
     (let already_enabled = Audio_Enable (AudioDMAControl d);
          d = d\<lparr>AudioDMAControl := val\<rparr>
      in if \<not> already_enabled \<and> Audio_Enable (AudioDMAControl d)
         then schedule (ScheduleInterrupt 200 INT_AID)
                (d\<lparr>current_source_address := SourceAddress d,
                   remaining_blocks_count := Audio_NumBlocks (AudioDMAControl d)\<rparr>)
         else d)"

definition mmio_read16 :: "nat \<Rightarrow> u64 \<Rightarrow> u16 \<Rightarrow> DSPManager \<Rightarrow> (u16 \<times> DSPManager) outcome" where
  "mmio_read16 steps now a d =
     (if a = DSP_MAIL_TO_DSP_HI then
        bindO (mail_slice steps d) (\<lambda>d. Some (Inr (DSP_ReadMailBoxHigh True (m_dsp_emulator d), d)))
      else if a = DSP_MAIL_TO_DSP_LO then
        (let (v, l) = DSP_ReadMailBoxLow True (m_dsp_emulator d) in Some (Inr (v, d\<lparr>m_dsp_emulator := l\<rparr>)))
      else if a = DSP_MAIL_FROM_DSP_HI then
        bindO (mail_slice steps d) (\<lambda>d. Some (Inr (DSP_ReadMailBoxHigh False (m_dsp_emulator d), d)))
      else if a = DSP_MAIL_FROM_DSP_LO then
        (let (v, l) = DSP_ReadMailBoxLow False (m_dsp_emulator d) in Some (Inr (v, d\<lparr>m_dsp_emulator := l\<rparr>)))
      else if a = DSP_CONTROL then Some (Inr (read_control now d))
      else if a = AR_INFO then Some (Inr (m_aram_info d, d))
      else if a = AR_MODE then Some (Inr (m_aram_mode d, d))
      else if a = AR_REFRESH then Some (Inr (m_aram_refresh d, d))
      else if a = AR_DMA_MMADDR_H then Some (Inr (HighPart (MMAddr d), d))
      else if a = AR_DMA_MMADDR_L then Some (Inr (LowPart (MMAddr d), d))
      else if a = AR_DMA_ARADDR_H then Some (Inr (HighPart (ARAddr d), d))
      else if a = AR_DMA_ARADDR_L then Some (Inr (LowPart (ARAddr d), d))
      else if a = AR_DMA_CNT_H then Some (Inr (HighPart (Cnt d), d))
      else if a = AR_DMA_CNT_L then Some (Inr (LowPart (Cnt d), d))
      else if a = AUDIO_DMA_START_HI then Some (Inr (HighPart (SourceAddress d), d))
      else if a = AUDIO_DMA_START_LO then Some (Inr (LowPart (SourceAddress d), d))
      else if a = AUDIO_DMA_CONTROL_LEN then Some (Inr (AudioDMAControl d, d))
      else if a = AUDIO_DMA_BLOCKS_LEFT then
        Some (Inr (if remaining_blocks_count d > 0 then remaining_blocks_count d - 1 else 0, d))
      else Some (Inr (0, d)))"

definition mmio_write16 :: "u64 \<Rightarrow> bool \<Rightarrow> u16 \<Rightarrow> u16 \<Rightarrow> DSPManager \<Rightarrow> DSPManager outcome" where
  "mmio_write16 now is_wii a val d =
     (if a = DSP_MAIL_TO_DSP_HI then
        Some (Inr (m_dsp_emulator_update (DSP_WriteMailBoxHigh True val) d))
      else if a = DSP_MAIL_TO_DSP_LO then
        Some (Inr (m_dsp_emulator_update (DSP_WriteMailBoxLow True val) d))
      else if a = DSP_CONTROL then Some (write_control now val d)
      else if a = AR_INFO then Some (Inr (d\<lparr>m_aram_info := val AND 0x007f\<rparr>))
      else if a = AR_REFRESH then Some (Inr (d\<lparr>m_aram_refresh := val AND 0x07ff\<rparr>))
      else if a = AR_DMA_MMADDR_H then Some (Inr (d\<lparr>MMAddr := with_high (val AND 0x03ff) (MMAddr d)\<rparr>))
      else if a = AR_DMA_MMADDR_L then Some (Inr (d\<lparr>MMAddr := with_low (val AND 0xffe0) (MMAddr d)\<rparr>))
      else if a = AR_DMA_ARADDR_H then Some (Inr (d\<lparr>ARAddr := with_high (val AND 0x03ff) (ARAddr d)\<rparr>))
      else if a = AR_DMA_ARADDR_L then Some (Inr (d\<lparr>ARAddr := with_low (val AND 0xffe0) (ARAddr d)\<rparr>))
      else if a = AR_DMA_CNT_H then
        Some (Inr (d\<lparr>Cnt := with_high (val AND (0x03ff OR 0x8000)) (Cnt d)\<rparr>))
      else if a = AR_DMA_CNT_L then
        map_option Inr (Do_ARAM_DMA (d\<lparr>Cnt := (Cnt d AND 0xffff0000) OR ucast (val AND 0xffe0)\<rparr>))
      else if a = AUDIO_DMA_START_HI then
        Some (Inr (d\<lparr>SourceAddress := with_high (val AND (if is_wii then 0x1fff else 0x03ff)) (SourceAddress d)\<rparr>))
      else if a = AUDIO_DMA_START_LO then
        Some (Inr (d\<lparr>SourceAddress := with_low (val AND 0xffe0) (SourceAddress d)\<rparr>))
      else if a = AUDIO_DMA_CONTROL_LEN then Some (Inr (write_audio_control val d))
      else Some (Inr d))"

text \<open>A 32-bit access is two 16-bit accesses, the high half first.\<close>

definition mmio_read32 :: "nat \<Rightarrow> u64 \<Rightarrow> u16 \<Rightarrow> DSPManager \<Rightarrow> (u32 \<times> DSPManager) outcome" where
  "mmio_read32 steps now a d =
     bindO (mmio_read16 steps now a d)
       (\<lambda>(hi, d). bindO (mmio_read16 steps now (a + 2) d)
         (\<lambda>(lo, d). Some (Inr (push_bit 16 (ucast hi) OR ucast lo, d))))"

definition mmio_write32 :: "u64 \<Rightarrow> bool \<Rightarrow> u16 \<Rightarrow> u32 \<Rightarrow> DSPManager \<Rightarrow> DSPManager outcome" where
  "mmio_write32 now is_wii a val d =
     bindO (mmio_write16 now is_wii a (ucast (drop_bit 16 val)) d)
       (mmio_write16 now is_wii (a + 2) (ucast val))"

end
