(* ===== verification/Dsp_Manager_Facts.thy ===== *)
theory Dsp_Manager_Facts
  imports Dsp_Manager Dsp_HW_Facts
begin

text \<open>
  Facts about the DSP interface: the bits of the control register, the invariant that ties the
  interrupt line to it, the ARAM DMA as a copy of bytes, and one round of the audio DMA.
\<close>

unbundle bit_operations_syntax

section \<open>Bits of a 16-bit register\<close>

lemma bit_power_u16: "bit (2 ^ k :: u16) n \<longleftrightarrow> n = k \<and> k < 16"
  by (auto simp: bit_exp_iff)

lemma single_bits_u16:
  "bit (0x0001 :: u16) n \<longleftrightarrow> n = 0" "bit (0x0002 :: u16) n \<longleftrightarrow> n = 1"
  "bit (0x0004 :: u16) n \<longleftrightarrow> n = 2" "bit (0x0008 :: u16) n \<longleftrightarrow> n = 3"
  "bit (0x0010 :: u16) n \<longleftrightarrow> n = 4" "bit (0x0020 :: u16) n \<longleftrightarrow> n = 5"
  "bit (0x0040 :: u16) n \<longleftrightarrow> n = 6" "bit (0x0080 :: u16) n \<longleftrightarrow> n = 7"
  "bit (0x0100 :: u16) n \<longleftrightarrow> n = 8" "bit (0x0200 :: u16) n \<longleftrightarrow> n = 9"
  "bit (0x0400 :: u16) n \<longleftrightarrow> n = 10" "bit (0x0800 :: u16) n \<longleftrightarrow> n = 11"
  using bit_power_u16 [of 0 n] bit_power_u16 [of 1 n] bit_power_u16 [of 2 n] bit_power_u16 [of 3 n]
    bit_power_u16 [of 4 n] bit_power_u16 [of 5 n] bit_power_u16 [of 6 n] bit_power_u16 [of 7 n]
    bit_power_u16 [of 8 n] bit_power_u16 [of 9 n] bit_power_u16 [of 10 n] bit_power_u16 [of 11 n]
  by simp_all

lemma single_bit_test:
  "x AND 0x0001 \<noteq> 0 \<longleftrightarrow> bit (x :: u16) 0" "x AND 0x0008 \<noteq> 0 \<longleftrightarrow> bit x 3"
  "x AND 0x0020 \<noteq> 0 \<longleftrightarrow> bit x 5" "x AND 0x0080 \<noteq> 0 \<longleftrightarrow> bit x 7"
  using bit_iff_and_push_bit_not_eq_0 [of x 0] bit_iff_and_push_bit_not_eq_0 [of x 3]
    bit_iff_and_push_bit_not_eq_0 [of x 5] bit_iff_and_push_bit_not_eq_0 [of x 7]
  by (simp_all add: push_bit_eq_mult)

lemma pad_bits: "bit (0xf000 :: u16) n \<longleftrightarrow> 12 \<le> n \<and> n < 16"
proof -
  have e: "(0xf000 :: u16) = push_bit 12 (mask 4)" by (simp add: mask_eq_exp_minus_1 push_bit_eq_mult)
  show ?thesis unfolding e by (auto simp: bit_simps)
qed

lemma control_mask_bits: "bit (0x0c07 :: u16) n \<longleftrightarrow> n < 3 \<or> n = 10 \<or> n = 11"
proof -
  have e: "(0x0c07 :: u16) = mask 3 OR push_bit 10 (mask 2)"
    by (simp add: mask_eq_exp_minus_1 push_bit_eq_mult)
  show ?thesis unfolding e by (auto simp: bit_simps)
qed

lemma interrupt_mask_bits: "bit (INT_DSP OR INT_ARAM OR INT_AID) n \<longleftrightarrow> n = 3 \<or> n = 5 \<or> n = 7"
  by (simp only: bit_or_iff single_bits_u16) blast

lemma bit_copy_field: "bit (copy_field m src dst) n \<longleftrightarrow> (if bit m n then bit src n else bit dst n)"
  by (auto simp: copy_field_def bit_simps dest: bit_imp_le_length)

section \<open>The control register\<close>

text \<open>
  Writing the control register: the interrupt bits are cleared by writing one, the DMA state is not
  touched, and every other bit takes the value written.
\<close>

lemma bit_clear_field: "bit (if b then c AND NOT m else c) n \<longleftrightarrow> bit (c :: u16) n \<and> \<not> (b \<and> bit m n)"
  by (auto simp: bit_simps dest: bit_imp_le_length)

lemma bit_control_fields:
  assumes "n < 16"
  shows "bit (control_fields tmp c) n \<longleftrightarrow>
    (if n = 3 \<or> n = 5 \<or> n = 7 then bit c n \<and> \<not> bit tmp n else if n = 9 then bit c 9 else bit tmp n)"
proof -
  let ?claim = "\<lambda>n. bit (control_fields tmp c) n \<longleftrightarrow>
    (if n = 3 \<or> n = 5 \<or> n = 7 then bit c n \<and> \<not> bit tmp n else if n = 9 then bit c 9 else bit tmp n)"
  have "list_all ?claim [0..<12]"
    unfolding control_fields_def Let_def single_bit_test
    unfolding bit_copy_field bit_clear_field pad_bits single_bits_u16
    by (simp add: upt_rec eval_nat_numeral)
  moreover have "?claim n" if "12 \<le> n"
    unfolding control_fields_def Let_def single_bit_test
    unfolding bit_copy_field bit_clear_field pad_bits single_bits_u16
    using that assms by simp
  ultimately show ?thesis by (cases "n < 12") (auto simp: list_all_iff)
qed

section \<open>The interrupt line\<close>

text \<open>An interrupt is pending when its bit is set and the mask bit to its left enables it.\<close>

definition pending :: "u16 \<Rightarrow> bool" where
  "pending c \<longleftrightarrow> bit c 3 \<and> bit c 4 \<or> bit c 5 \<and> bit c 6 \<or> bit c 7 \<and> bit c 8"

lemma word_ne_0_iff: "x \<noteq> 0 \<longleftrightarrow> (\<exists>n. bit (x :: 'a::len word) n)"
  by (metis bit_0_eq bit_eqI bot_apply bot_bool_def)

lemma UpdateInterrupts_line: "int_cause_dsp (UpdateInterrupts d) = pending (m_dsp_control d)"
  unfolding UpdateInterrupts_def Let_def word_ne_0_iff bit_and_iff interrupt_mask_bits bit_drop_bit_eq
  by (simp add: pending_def conj_disj_distribL ex_disj_distrib) blast

lemma UpdateInterrupts_same [simp]:
  "m_dsp_control (UpdateInterrupts d) = m_dsp_control d" "Cnt (UpdateInterrupts d) = Cnt d"
  "MMAddr (UpdateInterrupts d) = MMAddr d" "ARAddr (UpdateInterrupts d) = ARAddr d"
  "m_dsp_emulator (UpdateInterrupts d) = m_dsp_emulator d"
  "AudioDMAControl (UpdateInterrupts d) = AudioDMAControl d"
  "remaining_blocks_count (UpdateInterrupts d) = remaining_blocks_count d"
  "current_source_address (UpdateInterrupts d) = current_source_address d"
  "SourceAddress (UpdateInterrupts d) = SourceAddress d" "scheduled (UpdateInterrupts d) = scheduled d"
  by (simp_all add: UpdateInterrupts_def Let_def)

section \<open>The loop of the ARAM DMA\<close>

text \<open>
  A loop whose count is a multiple of eight returns after that many chunks; the bodies do not touch
  the count.
\<close>

abbreviation chunk :: "(DSPManager \<Rightarrow> DSPManager) \<Rightarrow> DSPManager \<Rightarrow> DSPManager" where
  "chunk body \<equiv> (\<lambda>d. advance (body d))"

lemma bit_count_mask: "bit (0x7fffffff :: u32) n \<longleftrightarrow> n < 31"
proof -
  have e: "(0x7fffffff :: u32) = mask 31" by (simp add: mask_eq_exp_minus_1)
  show ?thesis unfolding e by (auto simp: bit_simps)
qed

lemma Cnt_count_mask: "Cnt_count c = take_bit 31 c"
  unfolding Cnt_count_def
  by (rule bit_word_eqI) (simp only: bit_and_iff bit_count_mask bit_take_bit_iff, blast)

lemma Cnt_count_advance: "Cnt_count (Cnt (advance d)) = Cnt_count (Cnt d - 8)"
proof (rule bit_word_eqI)
  fix n
  have c: "Cnt (advance d) = (Cnt d AND 0x80000000) OR ((Cnt d - 8) AND 0x7fffffff)"
    by (simp add: advance_def)
  show "bit (Cnt_count (Cnt (advance d))) n = bit (Cnt_count (Cnt d - 8)) n"
    unfolding c Cnt_count_def bit_and_iff bit_or_iff bit_count_mask bit_high_half by auto
qed

lemma unat_Cnt_count_advance:
  assumes "Cnt_count (Cnt d) \<noteq> 0" and "8 dvd unat (Cnt_count (Cnt d))"
  shows "unat (Cnt_count (Cnt (advance d))) = unat (Cnt_count (Cnt d)) - 8"
proof -
  let ?c = "Cnt d"
  have pos: "8 \<le> unat (Cnt_count ?c)"
    using assms by (intro dvd_imp_le) (simp_all add: unat_gt_0)
  have le: "unat (take_bit 31 ?c) \<le> unat ?c" by (simp add: unsigned_take_bit_eq take_bit_nat_less_eq_self)
  with pos have ge: "8 \<le> unat ?c" by (simp add: Cnt_count_mask)
  then have "8 \<le> ?c" by (simp add: word_le_nat_alt)
  then have "unat (?c - 8) = unat ?c - 8" by (simp add: unat_sub)
  then have "unat (take_bit 31 (?c - 8)) = (unat ?c - 8) mod 2 ^ 31"
    unfolding unsigned_take_bit_eq unfolding take_bit_eq_mod by simp
  also have "\<dots> = unat ?c mod 2 ^ 31 - 8"
  proof -
    have m: "8 \<le> unat ?c mod 2 ^ 31" using pos unfolding Cnt_count_mask unsigned_take_bit_eq unfolding take_bit_eq_mod .
    have "unat ?c - 8 = unat ?c div 2 ^ 31 * 2 ^ 31 + (unat ?c mod 2 ^ 31 - 8)"
      using m div_mult_mod_eq [of "unat ?c" "2 ^ 31"] by arith
    then have "(unat ?c - 8) mod 2 ^ 31 = (unat ?c mod 2 ^ 31 - 8) mod 2 ^ 31"
      by (simp only: mod_mult_self3)
    also have "unat ?c mod 2 ^ 31 - 8 < 2 ^ 31"
      by (rule le_less_trans [OF diff_le_self]) simp
    then have "(unat ?c mod 2 ^ 31 - 8) mod 2 ^ 31 = unat ?c mod 2 ^ 31 - 8" by (rule mod_less)
    finally show ?thesis .
  qed
  finally show ?thesis
    unfolding Cnt_count_advance unfolding Cnt_count_mask unsigned_take_bit_eq unfolding take_bit_eq_mod .
qed

lemma dma_loop_returns:
  assumes "\<And>d. Cnt (body d) = Cnt d" and "8 dvd unat (Cnt_count (Cnt d))"
  shows "dma_loop body d = Some ((chunk body ^^ (unat (Cnt_count (Cnt d)) div 8)) d)"
  using assms(2)
proof (induction "unat (Cnt_count (Cnt d)) div 8" arbitrary: d)
  case 0
  then have "unat (Cnt_count (Cnt d)) = 0" by auto
  then have "Cnt_count (Cnt d) = 0" by (simp add: unat_eq_0)
  then show ?case by (subst dma_loop.simps) simp
next
  case (Suc n)
  then have ne: "Cnt_count (Cnt d) \<noteq> 0" by auto
  have c: "Cnt (body d) = Cnt d" by (rule assms(1))
  have u: "unat (Cnt_count (Cnt (advance (body d)))) = unat (Cnt_count (Cnt d)) - 8"
    using unat_Cnt_count_advance [of "body d"] ne Suc.prems by (simp add: c)
  have n: "n = unat (Cnt_count (Cnt (advance (body d)))) div 8"
    using Suc.hyps(2) u by simp
  have "8 dvd unat (Cnt_count (Cnt (advance (body d))))"
    using u Suc.prems by (simp add: dvd_diff_nat)
  from Suc.hyps(1) [OF n this]
  have "dma_loop body (advance (body d)) = Some ((chunk body ^^ n) (chunk body d))"
    by (simp add: n)
  then show ?case
    using ne Suc.hyps(2) [symmetric] by (subst dma_loop.simps) (simp add: funpow_Suc_right del: funpow.simps)
qed

lemma dma_loop_count: "dma_loop body d = Some e \<Longrightarrow> Cnt_count (Cnt e) = 0"
  by (rule dma_loop.raw_induct [of "\<lambda>body d e. Cnt_count (Cnt e) = 0" body d e])
    (auto split: if_splits)

lemma funpow_same: "(\<And>d. g (f d) = g d) \<Longrightarrow> g ((f ^^ n) d) = g d"
  by (induction n) simp_all

section \<open>Eight bytes of memory\<close>

lemma store_bytes_RAM:
  "store_bytes (RAM, off) i bs h =
     h\<lparr>m_ram := \<lambda>j. if off + i \<le> j \<and> j < off + i + length bs then bs ! (j - (off + i)) else m_ram h j\<rparr>"
proof (induction bs arbitrary: i h)
  case Nil
  then show ?case by (simp add: not_less [symmetric] cong: if_cong)
next
  case (Cons b bs)
  show ?case
    unfolding store_bytes.simps Cons.IH
    by (auto simp: store_byte_def nth_Cons' fun_eq_iff intro!: Host.equality)
qed

text \<open>Main memory below its real size and below the size of its address space.\<close>

definition in_ram :: "Host \<Rightarrow> u32 \<Rightarrow> nat \<Rightarrow> bool" where
  "in_ram h a n \<longleftrightarrow> unat a + n \<le> unat (m_ram_size_real h) \<and> m_ram_size_real h \<le> 0x4000000"

lemma and_low_mask: "unat (a :: u32) < 2 ^ 30 \<Longrightarrow> a AND 0x3FFFFFFF = a"
proof -
  assume a: "unat a < 2 ^ 30"
  have e: "(0x3FFFFFFF :: u32) = mask 30" by (simp add: mask_eq_exp_minus_1)
  have "unat (take_bit 30 a) = unat a" using a by (simp add: unsigned_take_bit_eq take_bit_nat_eq_self)
  then have "a AND mask 30 = a" by (simp only: word_unat_eq_iff take_bit_eq_mask)
  then show ?thesis unfolding e .
qed

lemma GetPointerForRange_ram:
  assumes "in_ram h a n" and "0 < n"
  shows "GetPointerForRange h a n = Some (RAM, unat a)"
proof -
  have u: "unat a + n \<le> unat (m_ram_size_real h)" "unat (m_ram_size_real h) \<le> 0x4000000"
    using assms(1) by (simp_all add: in_ram_def word_le_nat_alt)
  then have "a AND 0x3FFFFFFF = a" by (intro and_low_mask) simp
  moreover have "a < m_ram_size_real h" using u assms(2) by (simp add: word_less_nat_alt)
  moreover from this have "unat (m_ram_size_real h - a) = unat (m_ram_size_real h) - unat a"
    by (intro unat_sub) simp
  ultimately show ?thesis using u
    unfolding GetPointerForRange_def GetSpanForAddress_def Let_def by simp
qed

lemma Write_U64_Swap_ram:
  assumes "in_ram h a 8" and "length v = 8"
  shows "Write_U64_Swap v a h =
    h\<lparr>m_ram := \<lambda>j. if unat a \<le> j \<and> j < unat a + 8 then v ! (j - unat a) else m_ram h j\<rparr>"
proof -
  have "v \<noteq> []" using assms(2) by auto
  then show ?thesis
    using GetPointerForRange_ram [OF assms(1)] assms(2) store_bytes_RAM [of "unat a" 0 v h]
    by (simp add: Write_U64_Swap_def CopyToEmu_def cong: if_cong)
qed

lemma Read_U64_ram:
  "in_ram h a 8 \<Longrightarrow> swap64 (Read_U64 h a) = map (\<lambda>k. m_ram h (unat a + k)) [0..<8]"
  using GetPointerForRange_ram [of h a 8]
  by (simp add: Read_U64_def CopyFromEmu_def swap64_def Let_def)

section \<open>Copies between ARAM and main memory\<close>

definition aram_ok :: "Host \<Rightarrow> bool" where
  "aram_ok h \<longleftrightarrow> (\<forall>a. a < aram_size h \<longrightarrow> a AND aram_mask h = a)"

text \<open>Addresses of the bytes of a transfer that stays below the size of the ARAM.\<close>

definition in_aram :: "Host \<Rightarrow> u32 \<Rightarrow> nat \<Rightarrow> bool" where
  "in_aram h a n \<longleftrightarrow> unat a + n \<le> unat (aram_size h)"

lemma unat_add_of_nat:
  "unat (a :: u32) + k \<le> unat (b :: u32) \<Longrightarrow> unat (a + of_nat k) = unat a + k"
proof -
  assume le: "unat a + k \<le> unat b"
  moreover have "unat b < 2 ^ 32" using unsigned_less [of b, where 'a = nat] by simp
  ultimately have "unat a + k < 2 ^ 32" by linarith
  then have "unat (of_nat k :: u32) = k" "unat a + k < 2 ^ LENGTH(32)"
    by (simp_all add: unsigned_of_nat take_bit_nat_eq_self)
  then show ?thesis using unat_add_lem [of a "of_nat k"] by simp
qed

lemma in_ram_unat: "in_ram h a (k + n) \<Longrightarrow> unat (a + of_nat k) = unat a + k"
  using unat_add_of_nat [of a k "m_ram_size_real h"] by (simp add: in_ram_def)

lemma in_aram_unat: "in_aram h a (k + n) \<Longrightarrow> unat (a + of_nat k) = unat a + k"
  using unat_add_of_nat [of a k "aram_size h"] by (simp add: in_aram_def)

lemma in_ram_shift: "in_ram h a (k + n) \<Longrightarrow> in_ram h (a + of_nat k) n"
  using in_ram_unat [of h a k n] by (simp add: in_ram_def)

lemma in_aram_shift: "in_aram h a (k + n) \<Longrightarrow> in_aram h (a + of_nat k) n"
  using in_aram_unat [of h a k n] by (simp add: in_aram_def)

lemma in_aram_masked: "aram_ok h \<Longrightarrow> in_aram h a n \<Longrightarrow> 0 < n \<Longrightarrow> a AND aram_mask h = a"
  by (auto simp: aram_ok_def in_aram_def word_less_nat_alt)

lemma aram_byte_m_ram [simp]: "aram_byte i (h\<lparr>m_ram := m\<rparr>) = aram_byte i h"
  by (simp add: aram_byte_def)

text \<open>From ARAM to main memory.\<close>

definition ram_after :: "nat \<Rightarrow> u32 \<Rightarrow> u32 \<Rightarrow> Host \<Rightarrow> nat \<Rightarrow> u8" where
  "ram_after n mm aa h j =
     (if unat mm \<le> j \<and> j < unat mm + n then aram_byte (aa + of_nat (j - unat mm)) h else m_ram h j)"

lemma aram_to_mram_chunk:
  assumes "aram_ok (the_host d)" and "in_ram (the_host d) (MMAddr d) 8" and "in_aram (the_host d) (ARAddr d) 8"
  shows "the_host (chunk aram_to_mram d) =
    (the_host d)\<lparr>m_ram := ram_after 8 (MMAddr d) (ARAddr d) (the_host d)\<rparr>"
proof -
  have "ARAddr d AND aram_mask (the_host d) = ARAddr d"
    using assms(1,3) by (rule in_aram_masked) simp
  moreover have "(\<lambda>j. if unat (MMAddr d) \<le> j \<and> j < unat (MMAddr d) + 8
      then load_aram (ARAddr d) (the_host d) ! (j - unat (MMAddr d)) else m_ram (the_host d) j) =
    ram_after 8 (MMAddr d) (ARAddr d) (the_host d)"
    by (rule ext) (auto simp: ram_after_def load_aram_def)
  moreover have "length (load_aram (ARAddr d) (the_host d)) = 8" by (simp add: load_aram_def)
  ultimately show ?thesis
    using Write_U64_Swap_ram [OF assms(2), of "load_aram (ARAddr d) (the_host d)"]
    by (simp add: advance_def aram_to_mram_def)
qed

lemma chunks_addresses:
  assumes "\<And>d. MMAddr (body d) = MMAddr d" and "\<And>d. ARAddr (body d) = ARAddr d"
  shows "MMAddr ((chunk body ^^ n) d) = MMAddr d + of_nat (8 * n)"
    and "ARAddr ((chunk body ^^ n) d) = ARAddr d + of_nat (8 * n)"
  by (induction n) (simp_all add: advance_def assms algebra_simps)

lemma aram_to_mram_frame [simp]:
  "MMAddr (aram_to_mram d) = MMAddr d" "ARAddr (aram_to_mram d) = ARAddr d"
  "Cnt (aram_to_mram d) = Cnt d" "m_dsp_control (aram_to_mram d) = m_dsp_control d"
  "int_cause_dsp (aram_to_mram d) = int_cause_dsp d"
  by (simp_all add: aram_to_mram_def)

lemma aram_ok_m_ram [simp]: "aram_ok (h\<lparr>m_ram := m\<rparr>) = aram_ok h"
  "in_ram (h\<lparr>m_ram := m\<rparr>) = in_ram h" "in_aram (h\<lparr>m_ram := m\<rparr>) = in_aram h"
  by (simp_all add: aram_ok_def in_ram_def in_aram_def fun_eq_iff)

lemma ram_after_add:
  assumes "in_ram h mm (k + n)"
  shows "ram_after n (mm + of_nat k) (aa + of_nat k) (h\<lparr>m_ram := ram_after k mm aa h\<rparr>) =
    ram_after (k + n) mm aa h"
proof
  fix j
  have u: "unat (mm + of_nat k) = unat mm + k"
    by (rule in_ram_unat [OF assms])
  have "aa + of_nat k + of_nat (j - (unat mm + k)) = aa + of_nat (j - unat mm)" if "unat mm + k \<le> j"
  proof -
    have "k + (j - (unat mm + k)) = j - unat mm" using that by simp
    then have "of_nat k + of_nat (j - (unat mm + k)) = (of_nat (j - unat mm) :: u32)"
      by (metis of_nat_add)
    then show ?thesis by (simp only: add.assoc)
  qed
  then show "ram_after n (mm + of_nat k) (aa + of_nat k) (h\<lparr>m_ram := ram_after k mm aa h\<rparr>) j =
      ram_after (k + n) mm aa h j"
    unfolding ram_after_def u by auto
qed

lemma aram_to_mram_chunks:
  assumes "aram_ok (the_host d)" and "in_ram (the_host d) (MMAddr d) (8 * n)"
    and "in_aram (the_host d) (ARAddr d) (8 * n)"
  shows "the_host ((chunk aram_to_mram ^^ n) d) =
    (the_host d)\<lparr>m_ram := ram_after (8 * n) (MMAddr d) (ARAddr d) (the_host d)\<rparr>"
  using assms
proof (induction n)
  case 0
  have "ram_after 0 (MMAddr d) (ARAddr d) (the_host d) = m_ram (the_host d)"
    by (auto simp: ram_after_def fun_eq_iff)
  then show ?case by simp
next
  case (Suc n)
  let ?e = "(chunk aram_to_mram ^^ n) d"
  have r: "in_ram (the_host d) (MMAddr d) (8 * n + 8)" "in_aram (the_host d) (ARAddr d) (8 * n + 8)"
    using Suc.prems(2,3) by (simp_all add: add.commute)
  have ih: "the_host ?e = (the_host d)\<lparr>m_ram := ram_after (8 * n) (MMAddr d) (ARAddr d) (the_host d)\<rparr>"
    using r Suc.prems(1) by (intro Suc.IH) (simp_all add: in_ram_def in_aram_def)
  have a: "MMAddr ?e = MMAddr d + of_nat (8 * n)" "ARAddr ?e = ARAddr d + of_nat (8 * n)"
    by (rule chunks_addresses; simp)+
  have "the_host (chunk aram_to_mram ?e) =
      (the_host ?e)\<lparr>m_ram := ram_after 8 (MMAddr ?e) (ARAddr ?e) (the_host ?e)\<rparr>"
    by (rule aram_to_mram_chunk)
      (simp_all only: ih a aram_ok_m_ram Suc.prems(1) in_ram_shift [OF r(1)] in_aram_shift [OF r(2)])
  also have "\<dots> = (the_host d)\<lparr>m_ram := ram_after (8 * n + 8) (MMAddr d) (ARAddr d) (the_host d)\<rparr>"
    unfolding ih a ram_after_add [OF r(1)] by simp
  finally show ?case by (simp add: add.commute)
qed

text \<open>From main memory to ARAM: \<open>main_part\<close> is what these transfers leave alone.\<close>

definition main_part :: "Host \<Rightarrow> Host" where
  "main_part h = h\<lparr>aram_ptr := \<lambda>_. 0, m_exram := \<lambda>_. 0\<rparr>"

lemma main_part_eqD:
  "main_part h = main_part h' \<Longrightarrow> m_ram h = m_ram h' \<and> m_ram_size_real h = m_ram_size_real h' \<and>
     aram_size h = aram_size h' \<and> aram_mask h = aram_mask h' \<and> aram_wii_mode h = aram_wii_mode h'"
  by (cases h; cases h') (simp add: main_part_def)

lemma main_part_cong:
  assumes "main_part h = main_part h'"
  shows "aram_ok h = aram_ok h'" "in_ram h = in_ram h'" "in_aram h = in_aram h'"
  using main_part_eqD [OF assms] by (simp_all add: aram_ok_def in_ram_def in_aram_def fun_eq_iff)

lemma main_part_store_aram [simp]: "main_part (store_aram i b h) = main_part h"
  by (simp add: store_aram_def main_part_def)

lemma aram_byte_store_aram [simp]:
  "aram_byte j (store_aram i b h) = (if j = i then b else aram_byte j h)"
  by (auto simp: aram_byte_def store_aram_def word_unat_eq_iff)

lemma main_part_store_aram8 [simp]: "main_part (store_aram8 i v h) = main_part h"
proof -
  have "main_part (fold (\<lambda>k. store_aram (i + of_nat k) (v ! k)) ks h) = main_part h" for ks
    by (induction ks arbitrary: h) simp_all
  then show ?thesis by (simp add: store_aram8_def)
qed

lemma aram_byte_store_aram8:
  assumes "in_aram h i 8"
  shows "aram_byte j (store_aram8 i v h) =
    (if unat i \<le> unat j \<and> unat j < unat i + 8 then v ! (unat j - unat i) else aram_byte j h)"
proof -
  have "aram_byte j (fold (\<lambda>k. store_aram (i + of_nat k) (v ! k)) [0..<n] h) =
      (if unat i \<le> unat j \<and> unat j < unat i + n then v ! (unat j - unat i) else aram_byte j h)"
    if "n \<le> 8" for n
    using that
  proof (induction n)
    case 0
    then show ?case by auto
  next
    case (Suc n)
    have "unat (i + of_nat n) = unat i + n"
      using Suc.prems assms by (intro unat_add_of_nat [of _ _ "aram_size h"]) (simp add: in_aram_def)
    then have "j = i + of_nat n \<longleftrightarrow> unat j = unat i + n" by (metis word_unat_eq_iff)
    then show ?case using Suc.IH Suc.prems by (auto simp: less_Suc_eq)
  qed
  then show ?thesis by (simp only: store_aram8_def order_refl)
qed

definition aram_after :: "nat \<Rightarrow> u32 \<Rightarrow> u32 \<Rightarrow> Host \<Rightarrow> u32 \<Rightarrow> u8" where
  "aram_after n mm aa h j =
     (if unat aa \<le> unat j \<and> unat j < unat aa + n then m_ram h (unat mm + (unat j - unat aa))
      else aram_byte j h)"

lemma mram_to_aram_chunk:
  assumes "aram_ok (the_host d)" and "in_ram (the_host d) (MMAddr d) 8" and "in_aram (the_host d) (ARAddr d) 8"
    and "m_aram_info d AND 0xf \<noteq> 4"
  shows "aram_byte j (the_host (chunk mram_to_aram d)) =
      aram_after 8 (MMAddr d) (ARAddr d) (the_host d) j"
    and "main_part (the_host (chunk mram_to_aram d)) = main_part (the_host d)"
proof -
  have m: "ARAddr d AND aram_mask (the_host d) = ARAddr d"
    using assms(1,3) by (rule in_aram_masked) simp
  have h: "the_host (chunk mram_to_aram d) =
      store_aram8 (ARAddr d) (map (\<lambda>k. m_ram (the_host d) (unat (MMAddr d) + k)) [0..<8]) (the_host d)"
    using assms(4) by (simp add: advance_def mram_to_aram_def m Read_U64_ram [OF assms(2)])
  show "main_part (the_host (chunk mram_to_aram d)) = main_part (the_host d)"
    unfolding h by (rule main_part_store_aram8)
  show "aram_byte j (the_host (chunk mram_to_aram d)) =
      aram_after 8 (MMAddr d) (ARAddr d) (the_host d) j"
    unfolding h aram_byte_store_aram8 [OF assms(3)] aram_after_def by auto
qed

lemma mram_to_aram_frame [simp]:
  "MMAddr (mram_to_aram d) = MMAddr d" "ARAddr (mram_to_aram d) = ARAddr d"
  "Cnt (mram_to_aram d) = Cnt d" "m_dsp_control (mram_to_aram d) = m_dsp_control d"
  "int_cause_dsp (mram_to_aram d) = int_cause_dsp d" "m_aram_info (mram_to_aram d) = m_aram_info d"
  by (simp_all add: mram_to_aram_def Let_def)

lemma mram_to_aram_chunks:
  assumes "aram_ok (the_host d)" and "in_ram (the_host d) (MMAddr d) (8 * n)"
    and "in_aram (the_host d) (ARAddr d) (8 * n)" and "m_aram_info d AND 0xf \<noteq> 4"
  shows "main_part (the_host ((chunk mram_to_aram ^^ n) d)) = main_part (the_host d) \<and>
    (\<forall>j. aram_byte j (the_host ((chunk mram_to_aram ^^ n) d)) =
           aram_after (8 * n) (MMAddr d) (ARAddr d) (the_host d) j)"
  using assms
proof (induction n)
  case 0
  then show ?case by (auto simp: aram_after_def)
next
  case (Suc n)
  let ?e = "(chunk mram_to_aram ^^ n) d" and ?h = "the_host d"
  have r: "in_ram ?h (MMAddr d) (8 * n + 8)" "in_aram ?h (ARAddr d) (8 * n + 8)"
    using Suc.prems(2,3) by (simp_all add: add.commute)
  then have "in_ram ?h (MMAddr d) (8 * n)" "in_aram ?h (ARAddr d) (8 * n)"
    by (simp_all add: in_ram_def in_aram_def)
  from Suc.IH [OF Suc.prems(1) this Suc.prems(4)]
  have ih: "main_part (the_host ?e) = main_part ?h"
    "\<And>j. aram_byte j (the_host ?e) = aram_after (8 * n) (MMAddr d) (ARAddr d) ?h j" by blast+
  have a: "MMAddr ?e = MMAddr d + of_nat (8 * n)" "ARAddr ?e = ARAddr d + of_nat (8 * n)"
    by (rule chunks_addresses; simp)+
  have i: "m_aram_info ?e AND 0xf \<noteq> 4"
    using Suc.prems(4) funpow_same [of m_aram_info "chunk mram_to_aram" n d]
    by (simp add: advance_def)
  have u: "unat (MMAddr d + of_nat (8 * n)) = unat (MMAddr d) + 8 * n"
    "unat (ARAddr d + of_nat (8 * n)) = unat (ARAddr d) + 8 * n"
    by (rule in_ram_unat [OF r(1)], rule in_aram_unat [OF r(2)])
  note cong = main_part_cong [OF ih(1)]
  have c: "aram_ok (the_host ?e)" "in_ram (the_host ?e) (MMAddr ?e) 8" "in_aram (the_host ?e) (ARAddr ?e) 8"
    unfolding cong a by (rule Suc.prems(1), rule in_ram_shift [OF r(1)], rule in_aram_shift [OF r(2)])
  have m: "m_ram (the_host ?e) = m_ram ?h" using main_part_eqD [OF ih(1)] by blast
  have "aram_byte j (the_host (chunk mram_to_aram ?e)) =
      aram_after (8 * Suc n) (MMAddr d) (ARAddr d) ?h j" for j
    unfolding mram_to_aram_chunk(1) [OF c i] unfolding aram_after_def ih(2) a u m
    by (auto simp: aram_after_def)
  moreover have "main_part (the_host (chunk mram_to_aram ?e)) = main_part ?h"
    using mram_to_aram_chunk(2) [OF c i] ih(1) by simp
  ultimately show ?case by simp
qed

section \<open>The whole ARAM DMA\<close>

text \<open>A count whose low five bits are clear.\<close>

definition aligned32 :: "u32 \<Rightarrow> bool" where
  "aligned32 c \<longleftrightarrow> take_bit 5 c = 0"

lemma aligned32_bits: "aligned32 c \<longleftrightarrow> (\<forall>n<5. \<not> bit c n)"
proof
  assume "aligned32 c"
  then have "bit (take_bit 5 c) n = bit (0 :: u32) n" for n by (simp add: aligned32_def)
  then show "\<forall>n<5. \<not> bit c n" by (simp add: bit_take_bit_iff)
next
  assume "\<forall>n<5. \<not> bit c n"
  then have "take_bit 5 c = 0" by (intro bit_word_eqI) (simp add: bit_take_bit_iff)
  then show "aligned32 c" by (simp add: aligned32_def)
qed

lemma aligned32_dvd:
  assumes "aligned32 c"
  shows "8 dvd unat (Cnt_count c)"
proof -
  have "take_bit 3 (Cnt_count c) = 0"
    using assms by (intro bit_word_eqI) (simp add: bit_take_bit_iff Cnt_count_mask aligned32_bits)
  then have "unat (take_bit 3 (Cnt_count c)) = 0" by simp
  then have "unat (Cnt_count c) mod 8 = 0" unfolding unsigned_take_bit_eq unfolding take_bit_eq_mod by simp
  then show ?thesis by auto
qed

lemma aligned32_count_0: "Cnt_count c = 0 \<Longrightarrow> aligned32 c"
proof -
  assume "Cnt_count c = 0"
  then have "bit (take_bit 31 c) n = bit (0 :: u32) n" for n by (simp add: Cnt_count_mask)
  then show "aligned32 c" by (simp add: bit_take_bit_iff aligned32_bits)
qed

lemma mram_to_hsp_frame [simp]:
  "Cnt (mram_to_hsp d) = Cnt d" "m_dsp_control (mram_to_hsp d) = m_dsp_control d"
  "int_cause_dsp (mram_to_hsp d) = int_cause_dsp d"
  by (simp_all add: mram_to_hsp_def)

lemma hsp_to_mram_frame [simp]:
  "Cnt (hsp_to_mram d) = Cnt d" "m_dsp_control (hsp_to_mram d) = m_dsp_control d"
  "int_cause_dsp (hsp_to_mram d) = int_cause_dsp d"
  by (simp_all add: hsp_to_mram_def)

text \<open>What every loop leaves alone.\<close>

lemma dma_loop_frame:
  assumes "\<And>d. Cnt (body d) = Cnt d" and "\<And>d. m_dsp_control (body d) = m_dsp_control d"
    and "\<And>d. int_cause_dsp (body d) = int_cause_dsp d" and "aligned32 (Cnt d)"
  shows "\<exists>e. dma_loop body d = Some e \<and> Cnt_count (Cnt e) = 0 \<and>
    m_dsp_control e = m_dsp_control d \<and> int_cause_dsp e = int_cause_dsp d"
proof -
  let ?e = "(chunk body ^^ (unat (Cnt_count (Cnt d)) div 8)) d"
  have e: "dma_loop body d = Some ?e" by (rule dma_loop_returns [OF assms(1) aligned32_dvd [OF assms(4)]])
  then have "Cnt_count (Cnt ?e) = 0" by (rule dma_loop_count)
  moreover have "m_dsp_control ?e = m_dsp_control d"
    by (rule funpow_same) (simp add: advance_def assms(2))
  moreover have "int_cause_dsp ?e = int_cause_dsp d"
    by (rule funpow_same) (simp add: advance_def assms(3))
  ultimately show ?thesis using e by blast
qed

lemma dma_start_simps [simp]:
  "Cnt (dma_start d) = Cnt d" "m_dsp_control (dma_start d) = m_dsp_control d OR CTL_DMAState"
  "int_cause_dsp (dma_start d) = int_cause_dsp d" "the_host (dma_start d) = the_host d"
  "MMAddr (dma_start d) = MMAddr d AND 0x3ffffff" "ARAddr (dma_start d) = ARAddr d AND 0x3ffffff"
  "m_aram_info (dma_start d) = m_aram_info d"
  by (simp_all add: dma_start_def Let_def)

lemma Do_ARAM_DMA_cases:
  "Do_ARAM_DMA d = Some (dma_start d) \<or>
   (\<exists>body \<in> {aram_to_mram, hsp_to_mram, mram_to_aram, mram_to_hsp}. Do_ARAM_DMA d = dma_loop body (dma_start d))"
  unfolding Do_ARAM_DMA_def Let_def by auto

lemma Do_ARAM_DMA_frame:
  assumes "aligned32 (Cnt d)"
  shows "\<exists>e. Do_ARAM_DMA d = Some e \<and> aligned32 (Cnt e) \<and>
    m_dsp_control e = m_dsp_control d OR CTL_DMAState \<and> int_cause_dsp e = int_cause_dsp d"
proof -
  have loop: "\<exists>e. dma_loop body (dma_start d) = Some e \<and> Cnt_count (Cnt e) = 0 \<and>
      m_dsp_control e = m_dsp_control (dma_start d) \<and> int_cause_dsp e = int_cause_dsp (dma_start d)"
    if "body \<in> {aram_to_mram, hsp_to_mram, mram_to_aram, mram_to_hsp}" for body
    using that assms by (intro dma_loop_frame) auto
  from Do_ARAM_DMA_cases [of d] show ?thesis
  proof (elim disjE bexE)
    assume "Do_ARAM_DMA d = Some (dma_start d)"
    then show ?thesis using assms by simp
  next
    fix body
    assume "body \<in> {aram_to_mram, hsp_to_mram, mram_to_aram, mram_to_hsp}"
      and "Do_ARAM_DMA d = dma_loop body (dma_start d)"
    with loop [of body] show ?thesis using aligned32_count_0 by fastforce
  qed
qed

text \<open>The two directions between main memory and ARAM.\<close>

lemma unat_chunks: "aligned32 c \<Longrightarrow> 8 * (unat (Cnt_count c) div 8) = unat (Cnt_count c)"
  by (rule dvd_mult_div_cancel [OF aligned32_dvd])

lemma Do_ARAM_DMA_to_mram:
  fixes d :: DSPManager
  defines "n \<equiv> unat (Cnt_count (Cnt d))" and "mm \<equiv> MMAddr d AND 0x3ffffff"
    and "aa \<equiv> ARAddr d AND 0x3ffffff" and "h \<equiv> the_host d"
  assumes "aligned32 (Cnt d)" and "Cnt_dir (Cnt d)" and "aram_ok h" and "in_ram h mm n" and "in_aram h aa n"
    and "0 < n"
  shows "\<exists>e. Do_ARAM_DMA d = Some e \<and> the_host e = h\<lparr>m_ram := ram_after n mm aa h\<rparr>"
proof -
  have "aa < aram_size h" using assms(9,10) by (simp add: in_aram_def word_less_nat_alt)
  then have "Do_ARAM_DMA d = dma_loop aram_to_mram (dma_start d)"
    using assms(6) by (simp add: Do_ARAM_DMA_def aa_def h_def)
  also have "\<dots> = Some ((chunk aram_to_mram ^^ (n div 8)) (dma_start d))"
    using dma_loop_returns [of aram_to_mram "dma_start d"] aligned32_dvd [OF assms(5)] by (simp add: n_def)
  finally have r: "Do_ARAM_DMA d = Some ((chunk aram_to_mram ^^ (n div 8)) (dma_start d))" .
  have "8 * (n div 8) = n" unfolding n_def by (rule unat_chunks [OF assms(5)])
  then have "the_host ((chunk aram_to_mram ^^ (n div 8)) (dma_start d)) = h\<lparr>m_ram := ram_after n mm aa h\<rparr>"
    using aram_to_mram_chunks [of "dma_start d" "n div 8"] assms(7-9)
    by (simp add: mm_def aa_def h_def)
  with r show ?thesis by blast
qed

lemma Do_ARAM_DMA_to_aram:
  fixes d :: DSPManager
  defines "n \<equiv> unat (Cnt_count (Cnt d))" and "mm \<equiv> MMAddr d AND 0x3ffffff"
    and "aa \<equiv> ARAddr d AND 0x3ffffff" and "h \<equiv> the_host d"
  assumes "aligned32 (Cnt d)" and "\<not> Cnt_dir (Cnt d)" and "aram_ok h" and "in_ram h mm n" and "in_aram h aa n"
    and "0 < n" and "m_aram_info d AND 0xf \<noteq> 4"
  shows "\<exists>e. Do_ARAM_DMA d = Some e \<and> main_part (the_host e) = main_part h \<and>
    (\<forall>j. aram_byte j (the_host e) = aram_after n mm aa h j)"
proof -
  have "aa < aram_size h" using assms(9,10) by (simp add: in_aram_def word_less_nat_alt)
  then have "Do_ARAM_DMA d = dma_loop mram_to_aram (dma_start d)"
    using assms(6) by (simp add: Do_ARAM_DMA_def aa_def h_def)
  also have "\<dots> = Some ((chunk mram_to_aram ^^ (n div 8)) (dma_start d))"
    using dma_loop_returns [of mram_to_aram "dma_start d"] aligned32_dvd [OF assms(5)] by (simp add: n_def)
  finally have r: "Do_ARAM_DMA d = Some ((chunk mram_to_aram ^^ (n div 8)) (dma_start d))" .
  let ?e = "(chunk mram_to_aram ^^ (n div 8)) (dma_start d)"
  have n: "8 * (n div 8) = n" unfolding n_def by (rule unat_chunks [OF assms(5)])
  then have "main_part (the_host ?e) = main_part h \<and>
      (\<forall>j. aram_byte j (the_host ?e) = aram_after n mm aa h j)"
    using mram_to_aram_chunks [of "dma_start d" "n div 8"] assms(7-9,11)
    by (simp add: mm_def aa_def h_def)
  with r show ?thesis by blast
qed

section \<open>The invariant of the interface\<close>

text \<open>
  The interrupt line to the processor follows the control register, and the count of the ARAM DMA
  is a multiple of 32 bytes.
\<close>

definition interface_ok :: "DSPManager \<Rightarrow> bool" where
  "interface_ok d \<longleftrightarrow> int_cause_dsp d = pending (m_dsp_control d) \<and> aligned32 (Cnt d)"

text \<open>What happens to the interface: accesses by the CPU, and calls by other components.\<close>

inductive interface_step :: "DSPManager \<Rightarrow> DSPManager \<Rightarrow> bool" where
  time_slice: "UpdateDSPSlice steps cycles d = Some (Inr e) \<Longrightarrow> interface_step d e"
| cpu_read: "mmio_read16 steps now a d = Some (Inr (v, e)) \<Longrightarrow> interface_step d e"
| cpu_write: "mmio_write16 now is_wii a v d = Some (Inr e) \<Longrightarrow> interface_step d e"
| audio_dma: "interface_step d (UpdateAudioDMA d)"
| aram_done: "interface_step d (CompleteARAM d)"
| interrupt_request: "interface_step d (GenerateDSPInterrupt t d)"

inductive_cases interface_stepE: "interface_step d e"

lemma interface_ok_simps [simp]:
  "interface_ok (m_dsp_emulator_update f d) = interface_ok d"
  "interface_ok (m_dsp_slice_update g d) = interface_ok d"
  "interface_ok (AudioDMAControl_update a d) = interface_ok d"
  "interface_ok (remaining_blocks_count_update a d) = interface_ok d"
  "interface_ok (current_source_address_update b d) = interface_ok d"
  "interface_ok (SourceAddress_update b d) = interface_ok d"
  "interface_ok (MMAddr_update b d) = interface_ok d" "interface_ok (ARAddr_update b d) = interface_ok d"
  "interface_ok (m_aram_info_update a d) = interface_ok d"
  "interface_ok (m_aram_refresh_update a d) = interface_ok d"
  "interface_ok (scheduled_update es d) = interface_ok d"
  by (simp_all add: interface_ok_def)

lemma interface_ok_UpdateInterrupts: "aligned32 (Cnt d) \<Longrightarrow> interface_ok (UpdateInterrupts d)"
  by (simp add: interface_ok_def UpdateInterrupts_line)

lemma interface_ok_Generate: "aligned32 (Cnt d) \<Longrightarrow> interface_ok (GenerateDSPInterrupt t d)"
  unfolding GenerateDSPInterrupt_def by (rule interface_ok_UpdateInterrupts) simp

lemma interface_ok_aligned: "interface_ok d \<Longrightarrow> aligned32 (Cnt d)"
  by (simp add: interface_ok_def)

lemma okO_manager_update: "interface_ok d \<Longrightarrow> okO interface_ok (manager_update steps n d)"
  by (auto simp: manager_update_def okO_def bindO_eq_Inr_iff)

lemma okO_mail_slice: "interface_ok d \<Longrightarrow> okO interface_ok (mail_slice steps d)"
  unfolding mail_slice_def
  by (intro okE_intros okO_mono [OF okO_manager_update]) simp_all

lemma okO_UpdateDSPSlice: "interface_ok d \<Longrightarrow> okO interface_ok (UpdateDSPSlice steps n d)"
  unfolding UpdateDSPSlice_def
  by (intro okE_intros okO_manager_update okO_mono [OF okO_manager_update]) simp_all

lemma okO_mail_read:
  "interface_ok d \<Longrightarrow> okO (\<lambda>(v, e). interface_ok e) (bindO (mail_slice steps d) (\<lambda>d. Some (Inr (f d, d))))"
  by (intro okE_intros okO_mono [OF okO_mail_slice]) simp_all

lemma okO_read: "interface_ok d \<Longrightarrow> okO (\<lambda>(v, e). interface_ok e) (mmio_read16 steps now a d)"
  unfolding mmio_read16_def read_control_def
  by (intro okE_intros okO_mail_read) (simp_all add: case_prod_beta)

lemma aligned32_halves:
  "aligned32 (with_high v c) = aligned32 c" "aligned32 ((c AND 0xffff0000) OR ucast (v AND 0xffe0))"
proof -
  have m: "bit (0xffe0 :: u16) n \<longleftrightarrow> 5 \<le> n \<and> n < 16" for n
  proof -
    have e: "(0xffe0 :: u16) = push_bit 5 (mask 11)" by (simp add: mask_eq_exp_minus_1 push_bit_eq_mult)
    show ?thesis unfolding e by (auto simp: bit_simps)
  qed
  have h: "bit (0xffff0000 :: u32) n \<longleftrightarrow> 16 \<le> n \<and> n < 32" for n
  proof -
    have e: "(0xffff0000 :: u32) = push_bit 16 (mask 16)" by (simp add: mask_eq_exp_minus_1 push_bit_eq_mult)
    show ?thesis unfolding e by (auto simp: bit_simps)
  qed
  show "aligned32 (with_high v c) = aligned32 c"
    unfolding aligned32_bits with_high_def by (auto simp: bit_simps)
  show "aligned32 ((c AND 0xffff0000) OR ucast (v AND 0xffe0))"
    unfolding aligned32_bits bit_or_iff bit_and_iff h bit_ucast_iff m by auto
qed

lemma okE_write_control: "interface_ok d \<Longrightarrow> okE interface_ok (write_control now val d)"
  unfolding write_control_def Let_def case_prod_beta
  by (rule okE_bindE, cases "DSP_WriteControlRegister now val (m_dsp_emulator d)")
    (simp_all add: interface_ok_UpdateInterrupts interface_ok_aligned)

lemma pending_DMAState: "pending (c OR CTL_DMAState) = pending c"
  by (simp add: pending_def bit_or_iff single_bits_u16)

lemma interface_ok_Do_ARAM_DMA:
  assumes "aligned32 (Cnt d)" and "int_cause_dsp d = pending (m_dsp_control d)"
  shows "\<exists>e. Do_ARAM_DMA d = Some e \<and> interface_ok e"
  using Do_ARAM_DMA_frame [OF assms(1)] assms(2) by (auto simp: interface_ok_def pending_DMAState)

lemma write_Cnt_L:
  fixes val :: u16
  assumes "interface_ok d"
  shows "\<exists>e. Do_ARAM_DMA (d\<lparr>Cnt := (Cnt d AND 0xffff0000) OR ucast (val AND 0xffe0)\<rparr>) = Some e \<and> interface_ok e"
proof -
  have "\<exists>e. Do_ARAM_DMA (d\<lparr>Cnt := c\<rparr>) = Some e \<and> interface_ok e" if "aligned32 c" for c
  proof (rule interface_ok_Do_ARAM_DMA)
    show "aligned32 (Cnt (d\<lparr>Cnt := c\<rparr>))" using that by simp
    show "int_cause_dsp (d\<lparr>Cnt := c\<rparr>) = pending (m_dsp_control (d\<lparr>Cnt := c\<rparr>))"
      using assms by (simp add: interface_ok_def)
  qed
  from this [OF aligned32_halves(2)] show ?thesis .
qed

lemma interface_ok_Cnt_high: "interface_ok d \<Longrightarrow> interface_ok (d\<lparr>Cnt := with_high v (Cnt d)\<rparr>)"
  by (simp add: interface_ok_def aligned32_halves)

lemma interface_ok_audio_control: "interface_ok d \<Longrightarrow> interface_ok (write_audio_control val d)"
  by (simp add: write_audio_control_def Let_def)

lemma okO_write: "interface_ok d \<Longrightarrow> okO interface_ok (mmio_write16 now w a val d)"
  unfolding mmio_write16_def
  by (intro okE_intros)
    (use write_Cnt_L [of d val] in
      \<open>auto simp: okE_write_control interface_ok_Cnt_high interface_ok_audio_control\<close>)

lemma interface_ok_audio: "interface_ok d \<Longrightarrow> interface_ok (UpdateAudioDMA d)"
  unfolding UpdateAudioDMA_def Let_def
  by (auto intro!: interface_ok_Generate dest: interface_ok_aligned)

lemma interface_ok_CompleteARAM: "interface_ok d \<Longrightarrow> interface_ok (CompleteARAM d)"
  unfolding CompleteARAM_def by (rule interface_ok_Generate) (simp add: interface_ok_def)

lemma interface_ok_step: "interface_step d e \<Longrightarrow> interface_ok d \<Longrightarrow> interface_ok e"
proof (induction rule: interface_step.induct)
  case (time_slice steps cycles d e)
  then show ?case using okO_UpdateDSPSlice [of d steps cycles] by (simp add: okO_def)
next
  case (cpu_read steps now a d v e)
  then show ?case using okO_read [of d steps now a] by (simp add: okO_def)
next
  case (cpu_write now is_wii a v d e)
  then show ?case using okO_write [of d now is_wii a v] by (simp add: okO_def)
qed (simp_all add: interface_ok_audio interface_ok_CompleteARAM interface_ok_Generate interface_ok_aligned)

lemma interface_ok_reachable: "interface_step\<^sup>*\<^sup>* d e \<Longrightarrow> interface_ok d \<Longrightarrow> interface_ok e"
  by (induction rule: rtranclp_induct) (auto intro: interface_ok_step)

lemma interface_ok_Reinit: "\<not> int_cause_dsp d \<Longrightarrow> interface_ok (Reinit wii d)"
  by (simp add: Reinit_def Let_def interface_ok_def pending_def aligned32_def single_bits_u16)

end
