(* ===== verification/Dsp_Interface_Facts.thy ===== *)
theory Dsp_Interface_Facts
  imports Dsp_Manager_Facts
begin

text \<open>
  What the processor gets from the DSP interface: rounds of the audio DMA, acknowledging interrupts
  through the control register, mail in both directions, and register writes that come back.
\<close>

unbundle bit_operations_syntax

section \<open>One round of the audio DMA\<close>

text \<open>The sample blocks sent by the first \<open>k\<close> calls from address \<open>a\<close>.\<close>

definition blocks_sent :: "Host \<Rightarrow> u32 \<Rightarrow> nat \<Rightarrow> core_event list" where
  "blocks_sent h a k = map (\<lambda>i. SendAIBuffer (GetPointerForRange h (a + 32 * of_nat i) 32)) [0..<k]"

lemma blocks_sent_Suc:
  "blocks_sent h a (Suc k) = blocks_sent h a k @ [SendAIBuffer (GetPointerForRange h (a + 32 * of_nat k) 32)]"
  by (simp add: blocks_sent_def)

text \<open>The interface after \<open>k\<close> calls within a round.\<close>

definition within_round :: "nat \<Rightarrow> DSPManager \<Rightarrow> DSPManager" where
  "within_round k d =
     d\<lparr>remaining_blocks_count := remaining_blocks_count d - of_nat k,
       current_source_address := current_source_address d + 32 * of_nat k,
       scheduled := scheduled d @ blocks_sent (the_host d) (current_source_address d) k\<rparr>"

lemma minus_of_nat_ne_0:
  assumes "k < unat (r :: u16)"
  shows "r - of_nat k \<noteq> 0"
proof
  assume "r - of_nat k = 0"
  then have "unat r = unat (of_nat k :: u16)" by simp
  also have "\<dots> \<le> k" by (simp add: unsigned_of_nat take_bit_nat_less_eq_self)
  finally show False using assms by simp
qed

lemma UpdateAudioDMA_within:
  assumes "Audio_Enable (AudioDMAControl d)" and "Suc k < unat (remaining_blocks_count d)"
  shows "UpdateAudioDMA (within_round k d) = within_round (Suc k) d"
proof -
  have "remaining_blocks_count d - of_nat k \<noteq> 0"
    using assms(2) by (intro minus_of_nat_ne_0) simp
  moreover have "remaining_blocks_count d - of_nat k - 1 \<noteq> 0"
    using minus_of_nat_ne_0 [OF assms(2)] by (simp add: algebra_simps)
  ultimately show ?thesis
    using assms(1) by (simp add: UpdateAudioDMA_def within_round_def Let_def blocks_sent_Suc algebra_simps)
qed

lemma UpdateAudioDMA_rounds:
  "Audio_Enable (AudioDMAControl d) \<Longrightarrow> k < unat (remaining_blocks_count d) \<Longrightarrow>
    (UpdateAudioDMA ^^ k) d = within_round k d"
proof (induction k)
  case 0
  then show ?case by (simp add: within_round_def blocks_sent_def)
next
  case (Suc k)
  then show ?case using UpdateAudioDMA_within [of d k] by simp
qed

text \<open>The call that sends the last block reloads the address and the count and interrupts.\<close>

lemma UpdateAudioDMA_last:
  assumes "Audio_Enable (AudioDMAControl d)" and "0 < remaining_blocks_count d"
  shows "(UpdateAudioDMA ^^ unat (remaining_blocks_count d)) d =
    GenerateDSPInterrupt INT_AID
      (d\<lparr>current_source_address := SourceAddress d,
         remaining_blocks_count := Audio_NumBlocks (AudioDMAControl d),
         scheduled := scheduled d @
           blocks_sent (the_host d) (current_source_address d) (unat (remaining_blocks_count d))\<rparr>)"
proof -
  obtain k where k: "unat (remaining_blocks_count d) = Suc k"
    using assms(2) by (metis not0_implies_Suc unat_eq_zero word_neq_0_conv)
  then have r: "remaining_blocks_count d = of_nat (Suc k)" by (metis of_nat_unat ucast_id)
  have "(UpdateAudioDMA ^^ Suc k) d = UpdateAudioDMA (within_round k d)"
    using UpdateAudioDMA_rounds [OF assms(1), of k] k by simp
  also have "\<dots> = GenerateDSPInterrupt INT_AID
      (d\<lparr>current_source_address := SourceAddress d,
         remaining_blocks_count := Audio_NumBlocks (AudioDMAControl d),
         scheduled := scheduled d @ blocks_sent (the_host d) (current_source_address d) (Suc k)\<rparr>)"
    using assms(1) r
    by (cases d) (simp add: UpdateAudioDMA_def within_round_def Let_def blocks_sent_Suc algebra_simps)
  finally show ?thesis unfolding k .
qed

section \<open>Writing the control register\<close>

lemma control_word_bits:
  fixes val v :: u16
  shows "bit ((val AND NOT DSP_CONTROL_MASK) OR (v AND DSP_CONTROL_MASK)) n \<longleftrightarrow>
    n < 16 \<and> (if n < 3 \<or> n = 10 \<or> n = 11 then bit v n else bit val n)"
  unfolding bit_or_iff bit_and_iff bit_not_iff control_mask_bits
  by (auto dest: bit_imp_le_length)

lemma write_control_shape:
  assumes "write_control now val d = Inr e"
  obtains v l tmp where "DSP_WriteControlRegister now val (m_dsp_emulator d) = Inr (v, l)"
    and "m_dsp_emulator e = l" and "m_dsp_control e = control_fields tmp (m_dsp_control d)"
    and "\<And>n. bit tmp n \<longleftrightarrow> n < 16 \<and> (if n < 3 \<or> n = 10 \<or> n = 11 then bit v n else bit val n)"
    and "int_cause_dsp e = pending (m_dsp_control e)"
proof -
  from assms obtain v l where w: "DSP_WriteControlRegister now val (m_dsp_emulator d) = Inr (v, l)"
    by (cases "DSP_WriteControlRegister now val (m_dsp_emulator d)") (auto simp: write_control_def)
  let ?tmp = "(val AND NOT DSP_CONTROL_MASK) OR (v AND DSP_CONTROL_MASK)"
  show ?thesis
  proof (rule that [OF w])
    show "m_dsp_emulator e = l" "m_dsp_control e = control_fields ?tmp (m_dsp_control d)"
      "int_cause_dsp e = pending (m_dsp_control e)"
      using assms w by (auto simp: write_control_def Let_def UpdateInterrupts_line)
  qed (rule control_word_bits)
qed

text \<open>
  Interrupts are acknowledged by writing ones: the three interrupt bits are cleared exactly where
  the written value has a one, the state of the DMA stays, the enable bits take the written value.
\<close>

lemma write_control_acknowledges:
  assumes "write_control now val d = Inr e" and "n = 3 \<or> n = 5 \<or> n = 7"
  shows "(bit (m_dsp_control e) n \<longleftrightarrow> bit (m_dsp_control d) n \<and> \<not> bit val n) \<and>
    (bit (m_dsp_control e) (Suc n) \<longleftrightarrow> bit val (Suc n)) \<and>
    (bit (m_dsp_control e) 9 \<longleftrightarrow> bit (m_dsp_control d) 9) \<and>
    int_cause_dsp e = pending (m_dsp_control e)"
proof (rule write_control_shape [OF assms(1)])
  fix v l tmp
  assume c: "m_dsp_control e = control_fields tmp (m_dsp_control d)"
    and tmp: "\<And>n. bit tmp n \<longleftrightarrow> n < 16 \<and> (if n < 3 \<or> n = 10 \<or> n = 11 then bit v n else bit val n)"
    and line: "int_cause_dsp e = pending (m_dsp_control e)"
  have "n < 15" using assms(2) by auto
  then show ?thesis
    unfolding line c using assms(2) by (elim disjE) (simp_all add: bit_control_fields tmp)
qed

section \<open>Mail\<close>

text \<open>The processor's mailbox as the processor uses it: a second provider of the contract.\<close>

abbreviation cpu_mail :: "DSPLLE \<Rightarrow> u32" where
  "cpu_mail l \<equiv> PeekMailbox MailboxCPU (the_dsp l)"

lemma cpu_mail_writes [simp]:
  "cpu_mail (DSP_WriteMailBoxHigh True v l) = PeekMailbox MailboxCPU (WriteMailboxHigh MailboxCPU v (the_dsp l))"
  "cpu_mail (DSP_WriteMailBoxLow True v l) = PeekMailbox MailboxCPU (WriteMailboxLow MailboxCPU v (the_dsp l))"
  "DSP_ReadMailBoxHigh True l = ReadMailboxHigh MailboxCPU (the_dsp l)"
  "fst (DSP_ReadMailBoxLow True l) = fst (ReadMailboxLow MailboxCPU (the_dsp l))"
  "cpu_mail (snd (DSP_ReadMailBoxLow True l)) = PeekMailbox MailboxCPU (snd (ReadMailboxLow MailboxCPU (the_dsp l)))"
  by (simp_all add: DSP_WriteMailBoxHigh_def DSP_WriteMailBoxLow_def DSP_ReadMailBoxHigh_def
      DSP_ReadMailBoxLow_def mailbox_of_def case_prod_beta)

interpretation cpubox: mailbox_port "DSP_WriteMailBoxHigh True" "DSP_WriteMailBoxLow True"
  "DSP_ReadMailBoxHigh True" "DSP_ReadMailBoxLow True" cpu_mail
  by unfold_locales
    (simp_all only: cpu_mail_writes mbox.write_high_bits mbox.write_low_bits mbox.read_high_bits
      mbox.read_low_bits mbox.read_low_takes)

text \<open>A word the processor stores to its mailbox, as the DSP reads it.\<close>

lemma mmio_write_mail:
  "mmio_write32 now wii DSP_MAIL_TO_DSP_HI mail d =
     Some (Inr (m_dsp_emulator_update
       (DSP_WriteMailBoxLow True (ucast mail) \<circ> DSP_WriteMailBoxHigh True (ucast (drop_bit 16 mail))) d))"
  by (simp add: mmio_write32_def mmio_write16_def)

lemma the_dsp_write_mail:
  "the_dsp (DSP_WriteMailBoxLow True lo (DSP_WriteMailBoxHigh True hi l)) =
    WriteMailboxLow MailboxCPU lo (WriteMailboxHigh MailboxCPU hi (the_dsp l))"
  by (simp add: DSP_WriteMailBoxHigh_def DSP_WriteMailBoxLow_def)

lemma mail_to_dsp:
  assumes "mmio_write32 now wii DSP_MAIL_TO_DSP_HI mail d = Some (Inr e)"
  shows "ReadMailboxHigh MailboxCPU (the_dsp (m_dsp_emulator e)) = ucast (drop_bit 16 mail) OR 0x8000 \<and>
    fst (ReadMailboxLow MailboxCPU (the_dsp (m_dsp_emulator e))) = ucast mail \<and>
    \<not> bit (PeekMailbox MailboxCPU (snd (ReadMailboxLow MailboxCPU (the_dsp (m_dsp_emulator e))))) 31"
proof -
  have e: "the_dsp (m_dsp_emulator e) =
      WriteMailboxLow MailboxCPU (ucast mail) (WriteMailboxHigh MailboxCPU (ucast (drop_bit 16 mail))
        (the_dsp (m_dsp_emulator d)))"
    using assms unfolding mmio_write_mail by (auto simp: the_dsp_write_mail)
  show ?thesis unfolding e
    using mbox.received_high mbox.received_low mbox.taken unfolding mbox.has_mail_def by blast
qed

text \<open>Mail from the DSP, read by the processor while no time slice is due.\<close>

lemma mail_slice_none: "m_dsp_slice d \<le> DSP_MAIL_SLICE \<Longrightarrow> mail_slice steps d = Some (Inr d)"
  by (simp add: mail_slice_def)

lemma mmio_read_mail:
  assumes "m_dsp_slice d \<le> DSP_MAIL_SLICE"
  shows "mmio_read32 steps now DSP_MAIL_FROM_DSP_HI d =
    (let s = the_dsp (m_dsp_emulator d); (lo, s') = ReadMailboxLow MailboxDSP s
     in Some (Inr (push_bit 16 (ucast (ReadMailboxHigh MailboxDSP s)) OR ucast lo,
          m_dsp_emulator_update (upd_dsp (\<lambda>_. s')) d)))"
  by (simp add: mmio_read32_def mmio_read16_def mail_slice_none [OF assms] DSP_ReadMailBoxHigh_def
      DSP_ReadMailBoxLow_def mailbox_of_def case_prod_beta Let_def)

lemma mail_from_dsp:
  fixes hi lo :: u16
  assumes "m_dsp_slice d \<le> DSP_MAIL_SLICE"
    and "the_dsp (m_dsp_emulator d) = WriteMailboxLow MailboxDSP lo (WriteMailboxHigh MailboxDSP hi s)"
  shows "\<exists>e. mmio_read32 steps now DSP_MAIL_FROM_DSP_HI d =
      Some (Inr (push_bit 16 (ucast (hi OR 0x8000)) OR ucast lo, e)) \<and>
    \<not> bit (PeekMailbox MailboxDSP (the_dsp (m_dsp_emulator e))) 31"
proof -
  have "ReadMailboxHigh MailboxDSP (the_dsp (m_dsp_emulator d)) = hi OR 0x8000"
    and "fst (ReadMailboxLow MailboxDSP (the_dsp (m_dsp_emulator d))) = lo"
    and "\<not> bit (PeekMailbox MailboxDSP (snd (ReadMailboxLow MailboxDSP (the_dsp (m_dsp_emulator d))))) 31"
    unfolding assms(2) using mbox.received_high mbox.received_low mbox.taken
    unfolding mbox.has_mail_def by blast+
  then show ?thesis
    unfolding mmio_read_mail [OF assms(1)] by (simp add: Let_def case_prod_beta)
qed

section \<open>Register writes come back\<close>

lemma mmio_write16_returns:
  assumes "interface_ok d"
  shows "\<exists>r. mmio_write16 now wii a val d = Some r"
proof -
  obtain e where "Do_ARAM_DMA (d\<lparr>Cnt := (Cnt d AND 0xffff0000) OR ucast (val AND 0xffe0)\<rparr>) = Some e"
    using write_Cnt_L [OF assms, of val] by blast
  then show ?thesis by (simp add: mmio_write16_def)
qed

lemma reachable_write_returns:
  assumes "\<not> int_cause_dsp d0" and "interface_step\<^sup>*\<^sup>* (Reinit is_wii d0) d"
  shows "\<exists>r. mmio_write16 now wii a val d = Some r"
  by (intro mmio_write16_returns interface_ok_reachable [OF assms(2)] interface_ok_Reinit [OF assms(1)])

section \<open>A DMA through its registers\<close>

text \<open>The count register also holds the direction, in its top bit.\<close>

definition count_word :: "bool \<Rightarrow> u32 \<Rightarrow> u32" where
  "count_word dir n = (if dir then n OR 0x80000000 else n)"

text \<open>The stores a driver makes to copy \<open>n\<close> bytes; \<open>dir\<close> is set for ARAM to main memory.\<close>

definition dma_request :: "bool \<Rightarrow> u32 \<Rightarrow> u32 \<Rightarrow> u32 \<Rightarrow> (u16 \<times> u32) list" where
  "dma_request dir mm aa n =
     [(AR_DMA_MMADDR_H, mm), (AR_DMA_ARADDR_H, aa), (AR_DMA_CNT_H, count_word dir n)]"

fun mmio_writes32 :: "u64 \<Rightarrow> bool \<Rightarrow> (u16 \<times> u32) list \<Rightarrow> DSPManager \<Rightarrow> DSPManager outcome" where
  "mmio_writes32 now wii [] d = Some (Inr d)"
| "mmio_writes32 now wii ((a, v) # ws) d = bindO (mmio_write32 now wii a v d) (mmio_writes32 now wii ws)"

text \<open>The bits a register of an address or count keeps of what is written to its halves.\<close>

lemma bit_0xffe0: "bit (0xffe0 :: u16) n \<longleftrightarrow> 5 \<le> n \<and> n < 16"
proof -
  have e: "(0xffe0 :: u16) = push_bit 5 (mask 11)" by (simp add: mask_eq_exp_minus_1 push_bit_eq_mult)
  show ?thesis unfolding e by (auto simp: bit_simps)
qed

lemma bit_0x03ff: "bit (0x03ff :: u16) n \<longleftrightarrow> n < 10"
proof -
  have e: "(0x03ff :: u16) = mask 10" by (simp add: mask_eq_exp_minus_1)
  show ?thesis unfolding e by (auto simp: bit_simps)
qed

lemma bit_0x3ffffff: "bit (0x3ffffff :: u32) n \<longleftrightarrow> n < 26"
proof -
  have e: "(0x3ffffff :: u32) = mask 26" by (simp add: mask_eq_exp_minus_1)
  show ?thesis unfolding e by (auto simp: bit_simps)
qed

text \<open>A block address: 26 bits, a multiple of 32.\<close>

definition block_address :: "u32 \<Rightarrow> bool" where
  "block_address x \<longleftrightarrow> (\<forall>n. bit x n \<longrightarrow> 5 \<le> n \<and> n < 26)"

lemma address_halves:
  assumes "block_address x"
  shows "with_low (ucast x AND 0xffe0) (with_high (ucast (drop_bit 16 x) AND 0x03ff) old) = x"
proof (rule bit_word_eqI)
  fix n assume "n < LENGTH(32)"
  then show "bit (with_low (ucast x AND 0xffe0) (with_high (ucast (drop_bit 16 x) AND 0x03ff) old)) n = bit x n"
    unfolding with_low_def with_high_def bit_or_iff bit_and_iff bit_push_bit_iff bit_drop_bit_eq bit_ucast_iff
      bit_0xffe0 bit_0x03ff o_def
    using assms unfolding block_address_def by fastforce
qed

lemma block_address_masked: "block_address x \<Longrightarrow> x AND 0x3ffffff = x"
  by (rule bit_word_eqI) (auto simp only: bit_and_iff bit_0x3ffffff block_address_def)


lemma bit_count_word: "bit (count_word dir n) k \<longleftrightarrow> bit n k \<or> dir \<and> k = 31"
  by (simp only: count_word_def bit_or_iff bit_high_half split: if_split) simp

lemma bit_0x83ff: "bit (0x03ff OR 0x8000 :: u16) n \<longleftrightarrow> n < 10 \<or> n = 15"
proof -
  have "bit (0x8000 :: u16) n \<longleftrightarrow> n = 15" using bit_power_u16 [of 15 n] by simp
  then show ?thesis by (simp only: bit_or_iff bit_0x03ff)
qed

lemma bit_0xffff0000: "bit (0xffff0000 :: u32) n \<longleftrightarrow> 16 \<le> n \<and> n < 32"
proof -
  have e: "(0xffff0000 :: u32) = push_bit 16 (mask 16)" by (simp add: mask_eq_exp_minus_1 push_bit_eq_mult)
  show ?thesis unfolding e by (auto simp: bit_simps)
qed

lemma count_halves:
  fixes dir :: bool
  assumes "block_address n"
  defines "x \<equiv> count_word dir n"
  shows "(with_high (ucast (drop_bit 16 x) AND (0x03ff OR 0x8000)) old AND 0xffff0000) OR ucast ((ucast x :: u16) AND 0xffe0) = x"
proof (rule bit_word_eqI)
  have x: "bit x k \<Longrightarrow> 5 \<le> k \<and> k < 26 \<or> k = 31" for k
    using assms(1) by (auto simp: x_def bit_count_word block_address_def)
  fix k assume "k < LENGTH(32)"
  then show "bit ((with_high (ucast (drop_bit 16 x) AND (0x03ff OR 0x8000)) old AND 0xffff0000) OR
      ucast ((ucast x :: u16) AND 0xffe0)) k = bit x k"
    unfolding with_high_def bit_or_iff [of "_ AND _"] bit_and_iff bit_0xffff0000 bit_0xffe0 bit_ucast_iff
      bit_or_iff [of "push_bit _ _"] bit_push_bit_iff bit_0x83ff bit_drop_bit_eq o_def
    using x [of k] by (cases "k = 31") (auto simp: less_diff_conv)
qed

lemma count_word_fields:
  assumes "block_address n"
  shows "Cnt_count (count_word dir n) = n" "Cnt_dir (count_word dir n) = dir" "aligned32 (count_word dir n)"
proof -
  show "Cnt_count (count_word dir n) = n"
    unfolding Cnt_count_mask
    by (rule bit_word_eqI) (use assms in \<open>auto simp: bit_take_bit_iff bit_count_word block_address_def\<close>)
  show "Cnt_dir (count_word dir n) = dir"
    using assms by (auto simp: Cnt_dir_def bit_count_word block_address_def)
  show "aligned32 (count_word dir n)"
    using assms by (auto simp: aligned32_bits bit_count_word block_address_def)
qed

text \<open>The three stores run the DMA on exactly the addresses and the count they give.\<close>

lemma dma_request_runs:
  assumes "block_address mm" and "block_address aa" and "block_address n"
  shows "mmio_writes32 now wii (dma_request dir mm aa n) d =
    map_option Inr (Do_ARAM_DMA (d\<lparr>MMAddr := mm, ARAddr := aa, Cnt := count_word dir n\<rparr>))"
proof -
  have "mmio_write32 now wii AR_DMA_MMADDR_H mm d = Some (Inr (d\<lparr>MMAddr := mm\<rparr>))" for d
    using address_halves [OF assms(1)] by (simp add: mmio_write32_def mmio_write16_def)
  moreover have "mmio_write32 now wii AR_DMA_ARADDR_H aa d = Some (Inr (d\<lparr>ARAddr := aa\<rparr>))" for d
    using address_halves [OF assms(2)] by (simp add: mmio_write32_def mmio_write16_def)
  moreover have "mmio_write32 now wii AR_DMA_CNT_H (count_word dir n) d =
      map_option Inr (Do_ARAM_DMA (d\<lparr>Cnt := count_word dir n\<rparr>))" for d
    using count_halves [OF assms(3), of dir "Cnt d"] by (simp add: mmio_write32_def mmio_write16_def)
  ultimately show ?thesis
    by (cases "Do_ARAM_DMA (d\<lparr>MMAddr := mm, ARAddr := aa, Cnt := count_word dir n\<rparr>)")
      (simp_all add: dma_request_def)
qed

lemma dma_request_to_mram:
  fixes d :: DSPManager
  defines "h \<equiv> the_host d"
  assumes "block_address mm" and "block_address aa" and "block_address n" and "n \<noteq> 0" and "aram_ok h"
    and "in_ram h mm (unat n)" and "in_aram h aa (unat n)"
  shows "\<exists>e. mmio_writes32 now wii (dma_request True mm aa n) d = Some (Inr e) \<and>
    the_host e = h\<lparr>m_ram := ram_after (unat n) mm aa h\<rparr>"
proof -
  let ?d = "d\<lparr>MMAddr := mm, ARAddr := aa, Cnt := count_word True n\<rparr>"
  have "\<exists>e. Do_ARAM_DMA ?d = Some e \<and> the_host e = h\<lparr>m_ram := ram_after (unat n) mm aa h\<rparr>"
    using Do_ARAM_DMA_to_mram [of ?d] assms
    by (simp add: count_word_fields block_address_masked unat_gt_0)
  then show ?thesis using dma_request_runs [OF assms(2-4)] by force
qed

lemma dma_request_to_aram:
  fixes d :: DSPManager
  defines "h \<equiv> the_host d"
  assumes "block_address mm" and "block_address aa" and "block_address n" and "n \<noteq> 0" and "aram_ok h"
    and "in_ram h mm (unat n)" and "in_aram h aa (unat n)" and "m_aram_info d AND 0xf \<noteq> 4"
  shows "\<exists>e. mmio_writes32 now wii (dma_request False mm aa n) d = Some (Inr e) \<and>
    main_part (the_host e) = main_part h \<and> (\<forall>j. aram_byte j (the_host e) = aram_after (unat n) mm aa h j)"
proof -
  let ?d = "d\<lparr>MMAddr := mm, ARAddr := aa, Cnt := count_word False n\<rparr>"
  have "\<exists>e. Do_ARAM_DMA ?d = Some e \<and> main_part (the_host e) = main_part h \<and>
      (\<forall>j. aram_byte j (the_host e) = aram_after (unat n) mm aa h j)"
    using Do_ARAM_DMA_to_aram [of ?d] assms
    by (simp add: count_word_fields block_address_masked unat_gt_0)
  then show ?thesis using dma_request_runs [OF assms(2-4)] by force
qed

text \<open>Out to ARAM and back to another place in main memory.\<close>

lemma dma_request_round_trip:
  fixes d :: DSPManager
  defines "h \<equiv> the_host d"
  assumes "block_address mm" and "block_address mm'" and "block_address aa" and "block_address n" and "n \<noteq> 0"
    and "aram_ok h" and "in_ram h mm (unat n)" and "in_ram h mm' (unat n)" and "in_aram h aa (unat n)"
    and "m_aram_info d AND 0xf \<noteq> 4"
  shows "\<exists>e e'. mmio_writes32 now wii (dma_request False mm aa n) d = Some (Inr e) \<and>
    mmio_writes32 now' wii (dma_request True mm' aa n) e = Some (Inr e') \<and>
    (\<forall>j<unat n. m_ram (the_host e') (unat mm' + j) = m_ram h (unat mm + j))"
proof -
  obtain e where e: "mmio_writes32 now wii (dma_request False mm aa n) d = Some (Inr e)"
    and m: "main_part (the_host e) = main_part h"
    and b: "\<And>j. aram_byte j (the_host e) = aram_after (unat n) mm aa h j"
    using dma_request_to_aram [of mm aa n d now wii] assms by blast
  obtain e' where e': "mmio_writes32 now' wii (dma_request True mm' aa n) e = Some (Inr e')"
    and r: "the_host e' = (the_host e)\<lparr>m_ram := ram_after (unat n) mm' aa (the_host e)\<rparr>"
    using dma_request_to_mram [of mm' aa n e now' wii] assms main_part_cong [OF m] by auto
  have "m_ram (the_host e') (unat mm' + j) = m_ram h (unat mm + j)" if "j < unat n" for j
  proof -
    have "unat (aa + of_nat j) = unat aa + j"
      using in_aram_unat [of h aa j "unat n - j"] assms(10) that by (simp add: in_aram_def)
    then show ?thesis using that by (simp add: r ram_after_def b aram_after_def)
  qed
  with e e' show ?thesis by blast
qed

end
