(* ===== verification/Dsp_Event.thy ===== *)
theory Dsp_Event
  imports Prelude
begin

text \<open>
  The event the DSP thread and the CPU thread signal each other with (Source/Core/Common/Event.h
  over Flag.h): a flag, a mutex and a condition variable.  Any number of threads call \<open>Set\<close>, one
  thread calls \<open>Wait\<close>; each thread is a program counter and a step is one atomic operation of one
  thread.  A blocked thread may wake without a notification, as the standard allows.

  The event refines a single flag that \<open>Set\<close> sets and \<open>Wait\<close> clears, and no wake-up is lost: a
  thread asleep while the flag is set has a notification on its way.
\<close>

section \<open>Flags\<close>

text \<open>\<open>compare_exchange_strong\<close>: whether the flag changed, and the flag.\<close>

definition TestAndSet :: "bool \<Rightarrow> bool \<Rightarrow> bool \<times> bool" where
  "TestAndSet val m_val = (let expected = \<not> val in if m_val = expected then (True, val) else (False, m_val))"

definition TestAndClear :: "bool \<Rightarrow> bool \<times> bool" where
  "TestAndClear m_val = TestAndSet False m_val"

lemma TestAndSet_simps [simp]: "TestAndSet True f = (\<not> f, True)" "TestAndClear f = (f, False)"
  by (auto simp: TestAndSet_def TestAndClear_def)

section \<open>State\<close>

text \<open>Where a thread is in \<open>Set\<close>: outside, before the lock, holding the mutex, before the notification.\<close>

datatype set_pc = SetIdle | SetLock | SetUnlock | SetNotify

text \<open>
  Where the thread is in \<open>Wait\<close>: outside, before the lock, holding the mutex before the test, about
  to block, blocked, awake and about to lock again, and done with the mutex still held.
\<close>

datatype wait_pc = WaitIdle | WaitLock | WaitTest | WaitBlock | WaitBlocked | WaitWoken | WaitUnlock

datatype mutex_owner = Waiter | Setter nat

record Event =
  m_flag :: bool
  m_mutex :: "mutex_owner option"
  waiter :: wait_pc
  setters :: "nat \<Rightarrow> set_pc"

definition new_event :: Event where
  "new_event = \<lparr>m_flag = False, m_mutex = None, waiter = WaitIdle, setters = \<lambda>_. SetIdle\<rparr>"

section \<open>Steps\<close>

inductive event_step :: "Event \<Rightarrow> Event \<Rightarrow> bool" where
  set_changes:
    "setters e i = SetIdle \<Longrightarrow> TestAndSet True (m_flag e) = (True, f) \<Longrightarrow>
      event_step e (e\<lparr>m_flag := f, setters := (setters e)(i := SetLock)\<rparr>)"
| set_returns:
    "setters e i = SetIdle \<Longrightarrow> TestAndSet True (m_flag e) = (False, f) \<Longrightarrow> event_step e (e\<lparr>m_flag := f\<rparr>)"
| set_lock:
    "setters e i = SetLock \<Longrightarrow> m_mutex e = None \<Longrightarrow>
      event_step e (e\<lparr>m_mutex := Some (Setter i), setters := (setters e)(i := SetUnlock)\<rparr>)"
| set_unlock:
    "setters e i = SetUnlock \<Longrightarrow>
      event_step e (e\<lparr>m_mutex := None, setters := (setters e)(i := SetNotify)\<rparr>)"
| set_notify:
    "setters e i = SetNotify \<Longrightarrow>
      event_step e (e\<lparr>waiter := (if waiter e = WaitBlocked then WaitWoken else waiter e),
                      setters := (setters e)(i := SetIdle)\<rparr>)"
| wait_returns:
    "waiter e = WaitIdle \<Longrightarrow> TestAndClear (m_flag e) = (True, f) \<Longrightarrow> event_step e (e\<lparr>m_flag := f\<rparr>)"
| wait_starts:
    "waiter e = WaitIdle \<Longrightarrow> TestAndClear (m_flag e) = (False, f) \<Longrightarrow>
      event_step e (e\<lparr>m_flag := f, waiter := WaitLock\<rparr>)"
| wait_lock:
    "waiter e \<in> {WaitLock, WaitWoken} \<Longrightarrow> m_mutex e = None \<Longrightarrow>
      event_step e (e\<lparr>m_mutex := Some Waiter, waiter := WaitTest\<rparr>)"
| wait_test:
    "waiter e = WaitTest \<Longrightarrow> TestAndClear (m_flag e) = (b, f) \<Longrightarrow>
      event_step e (e\<lparr>m_flag := f, waiter := (if b then WaitUnlock else WaitBlock)\<rparr>)"
| wait_block:
    "waiter e = WaitBlock \<Longrightarrow> event_step e (e\<lparr>m_mutex := None, waiter := WaitBlocked\<rparr>)"
| wait_spurious:
    "waiter e = WaitBlocked \<Longrightarrow> event_step e (e\<lparr>waiter := WaitWoken\<rparr>)"
| wait_unlock:
    "waiter e = WaitUnlock \<Longrightarrow> event_step e (e\<lparr>m_mutex := None, waiter := WaitIdle\<rparr>)"

inductive_cases event_stepE: "event_step e e'"

section \<open>The abstract event\<close>

text \<open>\<open>Set\<close> and \<open>Wait\<close> as one step each on a flag; \<open>Wait\<close> is possible only when the flag is set.\<close>

inductive flag_step :: "bool \<Rightarrow> bool \<Rightarrow> bool" where
  flag_set: "flag_step f True"
| flag_take: "flag_step True False"

lemma event_refines_flag: "event_step e e' \<Longrightarrow> m_flag e' = m_flag e \<or> flag_step (m_flag e) (m_flag e')"
  by (induction rule: event_step.induct) (auto intro: flag_step.intros)

text \<open>A call of \<open>Wait\<close> comes to its end exactly by taking the flag.\<close>

lemma wait_takes_flag:
  "event_step e e' \<Longrightarrow> waiter e \<noteq> WaitUnlock \<Longrightarrow> waiter e' = WaitUnlock \<Longrightarrow> m_flag e \<and> \<not> m_flag e'"
  by (induction rule: event_step.induct) (auto split: if_splits)

section \<open>No lost wake-up\<close>

definition mutex_inv :: "Event \<Rightarrow> bool" where
  "mutex_inv e \<longleftrightarrow>
     (m_mutex e = Some Waiter \<longleftrightarrow> waiter e \<in> {WaitTest, WaitBlock, WaitUnlock}) \<and>
     (\<forall>i. m_mutex e = Some (Setter i) \<longleftrightarrow> setters e i = SetUnlock)"

definition wake_inv :: "Event \<Rightarrow> bool" where
  "wake_inv e \<longleftrightarrow>
     (m_flag e \<longrightarrow> waiter e = WaitBlock \<longrightarrow> (\<exists>i. setters e i = SetLock)) \<and>
     (m_flag e \<longrightarrow> waiter e = WaitBlocked \<longrightarrow> (\<exists>i. setters e i \<noteq> SetIdle))"

lemma mutex_inv_step: "event_step e e' \<Longrightarrow> mutex_inv e \<Longrightarrow> mutex_inv e'"
  unfolding mutex_inv_def
proof (induction rule: event_step.induct)
  case (set_unlock e i)
  then have "m_mutex e = Some (Setter i)" by simp
  with set_unlock show ?case by auto
qed (auto split: if_splits)

lemma wake_inv_step: "event_step e e' \<Longrightarrow> mutex_inv e \<Longrightarrow> wake_inv e \<Longrightarrow> wake_inv e'"
proof (induction rule: event_step.induct)
  case (set_lock e i)
  then show ?case unfolding wake_inv_def mutex_inv_def by auto
next
  case (set_unlock e i)
  then have "waiter e \<noteq> WaitBlock" unfolding mutex_inv_def by auto
  then show ?case unfolding wake_inv_def by auto
next
  case (set_notify e i)
  then have "\<exists>j. j \<noteq> i \<and> setters e j = SetLock" if "m_flag e" "waiter e = WaitBlock"
    using that unfolding wake_inv_def by (metis set_pc.distinct(9))
  then show ?case unfolding wake_inv_def by auto
next
  case (wait_block e)
  then have "\<exists>j. setters e j \<noteq> SetIdle" if "m_flag e"
    using that unfolding wake_inv_def by (metis set_pc.distinct(1))
  then show ?case unfolding wake_inv_def by auto
qed (auto simp: wake_inv_def)

definition event_inv :: "Event \<Rightarrow> bool" where
  "event_inv e \<longleftrightarrow> mutex_inv e \<and> wake_inv e"

lemma event_inv_new: "event_inv new_event"
  by (simp add: event_inv_def mutex_inv_def wake_inv_def new_event_def)

lemma event_inv_step: "event_step e e' \<Longrightarrow> event_inv e \<Longrightarrow> event_inv e'"
  unfolding event_inv_def by (blast intro: mutex_inv_step wake_inv_step)

lemma event_inv_reachable: "event_step\<^sup>*\<^sup>* new_event e \<Longrightarrow> event_inv e"
  by (induction rule: rtranclp_induct) (auto intro: event_inv_new event_inv_step)

section \<open>A set flag gets through\<close>

text \<open>The waiting thread can finish: the runs below use no spurious wake-up and no new \<open>Set\<close>.\<close>

definition wait_done :: "Event \<Rightarrow> bool" where
  "wait_done e \<longleftrightarrow> (\<exists>e'. event_step\<^sup>*\<^sup>* e e' \<and> waiter e' = WaitIdle)"

lemma wait_done_step: "event_step e e' \<Longrightarrow> wait_done e' \<Longrightarrow> wait_done e"
  unfolding wait_done_def by (meson converse_rtranclp_into_rtranclp)

lemma wait_done_unlock: "waiter e = WaitUnlock \<Longrightarrow> wait_done e"
  unfolding wait_done_def by (rule exI, rule conjI, rule r_into_rtranclp, erule wait_unlock) simp

lemma wait_done_test: "waiter e = WaitTest \<Longrightarrow> m_flag e \<Longrightarrow> wait_done e"
  by (rule wait_done_step [OF wait_test]) (auto intro: wait_done_unlock)

lemma wait_done_free:
  "waiter e \<in> {WaitLock, WaitWoken} \<Longrightarrow> m_mutex e = None \<Longrightarrow> m_flag e \<Longrightarrow> wait_done e"
  by (rule wait_done_step [OF wait_lock]) (auto intro: wait_done_test)

lemma wait_done_lock:
  assumes "event_inv e" and "waiter e \<in> {WaitLock, WaitWoken}" and "m_flag e"
  shows "wait_done e"
proof (cases "m_mutex e")
  case None
  with assms show ?thesis by (blast intro: wait_done_free)
next
  case (Some h)
  with assms obtain i where "setters e i = SetUnlock"
    by (cases h) (auto simp: event_inv_def mutex_inv_def)
  then show ?thesis
    by (rule wait_done_step [OF set_unlock]) (use assms in \<open>auto intro: wait_done_free\<close>)
qed

lemma wait_done_notify:
  assumes "event_inv e" and "waiter e = WaitBlocked" and "m_flag e" and "setters e i = SetNotify"
  shows "wait_done e"
proof (rule wait_done_step)
  show s: "event_step e (e\<lparr>waiter := (if waiter e = WaitBlocked then WaitWoken else waiter e),
      setters := (setters e)(i := SetIdle)\<rparr>)"
    using assms(4) by (rule set_notify)
  show "wait_done (e\<lparr>waiter := (if waiter e = WaitBlocked then WaitWoken else waiter e),
      setters := (setters e)(i := SetIdle)\<rparr>)"
    by (rule wait_done_lock [OF event_inv_step [OF s assms(1)]]) (simp_all add: assms(2,3))
qed

lemma wait_done_held:
  assumes "event_inv e" and "waiter e = WaitBlocked" and "m_flag e" and "setters e i = SetUnlock"
  shows "wait_done e"
proof (rule wait_done_step)
  show s: "event_step e (e\<lparr>m_mutex := None, setters := (setters e)(i := SetNotify)\<rparr>)"
    using assms(4) by (rule set_unlock)
  show "wait_done (e\<lparr>m_mutex := None, setters := (setters e)(i := SetNotify)\<rparr>)"
    by (rule wait_done_notify [OF event_inv_step [OF s assms(1)], of i]) (simp_all add: assms(2,3))
qed

lemma wait_done_asleep:
  assumes "event_inv e" and "waiter e = WaitBlocked" and "m_flag e"
  shows "wait_done e"
proof -
  from assms obtain i where i: "setters e i \<noteq> SetIdle" by (auto simp: event_inv_def wake_inv_def)
  show ?thesis
  proof (cases "setters e i")
    case SetLock
    show ?thesis
    proof (cases "m_mutex e")
      case None
      have s: "event_step e (e\<lparr>m_mutex := Some (Setter i), setters := (setters e)(i := SetUnlock)\<rparr>)"
        using SetLock None by (rule set_lock)
      show ?thesis
        by (rule wait_done_step [OF s], rule wait_done_held [OF event_inv_step [OF s assms(1)], of i])
          (simp_all add: assms(2,3))
    next
      case (Some h)
      with assms obtain j where "setters e j = SetUnlock" by (cases h) (auto simp: event_inv_def mutex_inv_def)
      with assms show ?thesis by (rule wait_done_held)
    qed
  qed (use assms i in \<open>auto intro: wait_done_held wait_done_notify\<close>)
qed

lemma wait_done_set:
  assumes "event_inv e" and "m_flag e"
  shows "wait_done e"
proof (cases "waiter e")
  case WaitIdle
  then show ?thesis unfolding wait_done_def by blast
next
  case WaitBlock
  have s: "event_step e (e\<lparr>m_mutex := None, waiter := WaitBlocked\<rparr>)" using WaitBlock by (rule wait_block)
  show ?thesis
    by (rule wait_done_step [OF s], rule wait_done_asleep [OF event_inv_step [OF s assms(1)]])
      (simp_all add: assms(2))
qed (use assms in \<open>auto intro: wait_done_unlock wait_done_test wait_done_lock wait_done_asleep\<close>)

lemma asleep_has_notifier:
  assumes "event_step\<^sup>*\<^sup>* new_event e" and "waiter e = WaitBlocked" and "m_flag e"
  shows "\<exists>i. setters e i \<noteq> SetIdle"
  using event_inv_reachable [OF assms(1)] assms(2,3) by (simp add: event_inv_def wake_inv_def)

end
