(* ===== verification/Dsp_Thread.thy ===== *)
theory Dsp_Thread
  imports Dsp_LLE Dsp_Event
begin

text \<open>
  The DSP on its own thread (Source/Core/Core/HW/DSPLLE/DSPLLE.cpp: \<open>DSPThread\<close>, \<open>DSP_Update\<close>,
  \<open>PauseAndLock\<close>, \<open>UnpauseAndUnlock\<close>, \<open>DSP_StopSoundStream\<close> and the destructor).  Two actors take
  turns in any order, one atomic operation per step: the DSP thread, and the thread that acts as the
  CPU, which is the emulation thread or, between \<open>PauseAndLock\<close> and \<open>UnpauseAndUnlock\<close>, the thread
  that has stopped it (Core.cpp calls them only after the CPU manager has parked the CPU thread).

  Events are flags (the theory Dsp_Event shows that this is what they are); cycles are run by the
  recompiler, so a run of the core is an action with its cycle count.
\<close>

section \<open>State\<close>

text \<open>Where \<open>DSPThread\<close> is; the loaded cycle count is a local variable.\<close>

datatype dsp_pc = D_While | D_Load | D_TryLock int | D_Run int | D_Store | D_Unlock
  | D_SetPpc | D_WaitDsp | D_Exited

text \<open>
  Where the CPU side is: outside; in \<open>DSP_Update\<close> before the wait, before the addition and before the
  signal; in \<open>DSP_StopSoundStream\<close>, on behalf of an update with its cycles or of the destructor; between
  \<open>PauseAndLock\<close> and \<open>UnpauseAndUnlock\<close>; in \<open>UnpauseAndUnlock\<close> before the wait; destroyed.
\<close>

datatype cpu_pc = C_Idle | C_WaitPpc int | C_Add int | C_SetDsp
  | C_StopClear "int option" | C_StopPpc "int option" | C_StopDsp "int option" | C_Join "int option"
  | C_Locking | C_Paused | C_UnpauseWait | C_Destroyed

datatype lock_holder = LockDSP | LockCPU

record Threads =
  t_on_thread :: bool
  t_request_disable :: bool
  t_determinism :: bool
  m_is_running :: bool
  m_cycle_count :: u32
  m_dsp_event :: bool
  m_ppc_event :: bool
  m_dsp_thread_mutex :: "lock_holder option"
  dsp_at :: dsp_pc
  cpu_at :: cpu_pc

text \<open>What a step does to the DSP core, and to the cycle account.\<close>

datatype action = Tau | Granted int | ThreadRuns int | RunsHere int | CoreShutdown | StateLoaded

text \<open>\<open>Initialize\<close> has just started the thread.\<close>

definition thread_started :: "bool \<Rightarrow> Threads" where
  "thread_started determinism =
     \<lparr>t_on_thread = True, t_request_disable = False, t_determinism = determinism, m_is_running = True,
      m_cycle_count = 0, m_dsp_event = False, m_ppc_event = False, m_dsp_thread_mutex = None,
      dsp_at = D_While, cpu_at = C_Idle\<rparr>"

section \<open>The DSP thread\<close>

text \<open>\<open>try_to_lock\<close> may fail even when the mutex is free.\<close>

inductive dsp_step :: "Threads \<Rightarrow> action \<Rightarrow> Threads \<Rightarrow> bool" where
  while_running: "dsp_at s = D_While \<Longrightarrow> m_is_running s \<Longrightarrow> dsp_step s Tau (s\<lparr>dsp_at := D_Load\<rparr>)"
| while_stopped: "dsp_at s = D_While \<Longrightarrow> \<not> m_is_running s \<Longrightarrow> dsp_step s Tau (s\<lparr>dsp_at := D_Exited\<rparr>)"
| load_cycles:
    "dsp_at s = D_Load \<Longrightarrow> cycles = sint (m_cycle_count s) \<Longrightarrow>
      dsp_step s Tau (s\<lparr>dsp_at := (if cycles > 0 then D_TryLock cycles else D_SetPpc)\<rparr>)"
| lock_taken:
    "dsp_at s = D_TryLock cycles \<Longrightarrow> m_dsp_thread_mutex s = None \<Longrightarrow>
      dsp_step s Tau (s\<lparr>dsp_at := D_Run cycles, m_dsp_thread_mutex := Some LockDSP\<rparr>)"
| lock_failed: "dsp_at s = D_TryLock cycles \<Longrightarrow> dsp_step s Tau (s\<lparr>dsp_at := D_SetPpc\<rparr>)"
| run_cycles: "dsp_at s = D_Run cycles \<Longrightarrow> dsp_step s (ThreadRuns cycles) (s\<lparr>dsp_at := D_Store\<rparr>)"
| store_zero: "dsp_at s = D_Store \<Longrightarrow> dsp_step s Tau (s\<lparr>dsp_at := D_Unlock, m_cycle_count := 0\<rparr>)"
| unlock: "dsp_at s = D_Unlock \<Longrightarrow> dsp_step s Tau (s\<lparr>dsp_at := D_While, m_dsp_thread_mutex := None\<rparr>)"
| set_ppc: "dsp_at s = D_SetPpc \<Longrightarrow> dsp_step s Tau (s\<lparr>dsp_at := D_WaitDsp, m_ppc_event := True\<rparr>)"
| wait_dsp: "dsp_at s = D_WaitDsp \<Longrightarrow> m_dsp_event s \<Longrightarrow> dsp_step s Tau (s\<lparr>dsp_at := D_While, m_dsp_event := False\<rparr>)"

inductive_cases dsp_stepE: "dsp_step s a t"

section \<open>The CPU side\<close>

inductive cpu_step :: "Threads \<Rightarrow> action \<Rightarrow> Threads \<Rightarrow> bool" where
  update_nothing: "cpu_at s = C_Idle \<Longrightarrow> cdiv cycles 6 \<le> 0 \<Longrightarrow> cpu_step s Tau s"
| update_stops:
    "cpu_at s = C_Idle \<Longrightarrow> cdiv cycles 6 > 0 \<Longrightarrow> t_on_thread s \<Longrightarrow> t_request_disable s \<or> t_determinism s \<Longrightarrow>
      cpu_step s Tau (s\<lparr>cpu_at := C_StopClear (Some (cdiv cycles 6))\<rparr>)"
| update_waits:
    "cpu_at s = C_Idle \<Longrightarrow> cdiv cycles 6 > 0 \<Longrightarrow> t_on_thread s \<Longrightarrow> \<not> (t_request_disable s \<or> t_determinism s) \<Longrightarrow>
      cpu_step s Tau (s\<lparr>cpu_at := C_WaitPpc (cdiv cycles 6)\<rparr>)"
| update_here:
    "cpu_at s = C_Idle \<Longrightarrow> cdiv cycles 6 > 0 \<Longrightarrow> \<not> t_on_thread s \<Longrightarrow> cpu_step s (RunsHere (cdiv cycles 6)) s"
| wait_ppc: "cpu_at s = C_WaitPpc n \<Longrightarrow> m_ppc_event s \<Longrightarrow> cpu_step s Tau (s\<lparr>cpu_at := C_Add n, m_ppc_event := False\<rparr>)"
| add_cycles:
    "cpu_at s = C_Add n \<Longrightarrow>
      cpu_step s (Granted n) (s\<lparr>cpu_at := C_SetDsp, m_cycle_count := m_cycle_count s + of_int n\<rparr>)"
| set_dsp: "cpu_at s = C_SetDsp \<Longrightarrow> cpu_step s Tau (s\<lparr>cpu_at := C_Idle, m_dsp_event := True\<rparr>)"
| external_interrupt: "cpu_at s = C_Idle \<Longrightarrow> t_on_thread s \<Longrightarrow> cpu_step s Tau (s\<lparr>t_request_disable := True\<rparr>)"
| pause: "cpu_at s = C_Idle \<Longrightarrow> cpu_step s Tau (s\<lparr>cpu_at := C_Locking\<rparr>)"
| pause_lock:
    "cpu_at s = C_Locking \<Longrightarrow> m_dsp_thread_mutex s = None \<Longrightarrow>
      cpu_step s Tau (s\<lparr>cpu_at := C_Paused, m_dsp_thread_mutex := Some LockCPU\<rparr>)"
| load_state: "cpu_at s = C_Paused \<Longrightarrow> cpu_step s StateLoaded (s\<lparr>m_cycle_count := v\<rparr>)"
| unpause:
    "cpu_at s = C_Paused \<Longrightarrow>
      cpu_step s Tau (s\<lparr>cpu_at := (if t_on_thread s then C_UnpauseWait else C_Idle), m_dsp_thread_mutex := None\<rparr>)"
| unpause_wait: "cpu_at s = C_UnpauseWait \<Longrightarrow> m_ppc_event s \<Longrightarrow> cpu_step s Tau (s\<lparr>cpu_at := C_SetDsp, m_ppc_event := False\<rparr>)"
| destroy:
    "cpu_at s = C_Idle \<Longrightarrow>
      cpu_step s CoreShutdown (s\<lparr>cpu_at := (if t_on_thread s then C_StopClear None else C_Destroyed)\<rparr>)"
| stop_clear: "cpu_at s = C_StopClear k \<Longrightarrow> cpu_step s Tau (s\<lparr>cpu_at := C_StopPpc k, m_is_running := False\<rparr>)"
| stop_ppc: "cpu_at s = C_StopPpc k \<Longrightarrow> cpu_step s Tau (s\<lparr>cpu_at := C_StopDsp k, m_ppc_event := True\<rparr>)"
| stop_dsp: "cpu_at s = C_StopDsp k \<Longrightarrow> cpu_step s Tau (s\<lparr>cpu_at := C_Join k, m_dsp_event := True\<rparr>)"
| join_update:
    "cpu_at s = C_Join (Some n) \<Longrightarrow> dsp_at s = D_Exited \<Longrightarrow>
      cpu_step s (RunsHere n) (s\<lparr>cpu_at := C_Idle, t_on_thread := False, t_request_disable := False\<rparr>)"
| join_destroy: "cpu_at s = C_Join None \<Longrightarrow> dsp_at s = D_Exited \<Longrightarrow> cpu_step s Tau (s\<lparr>cpu_at := C_Destroyed\<rparr>)"

inductive_cases cpu_stepE: "cpu_step s a t"

section \<open>Runs\<close>

text \<open>Every interleaving; the actions are oldest first.\<close>

inductive thread_run :: "Threads \<Rightarrow> action list \<Rightarrow> Threads \<Rightarrow> bool" where
  run_start: "thread_run s [] s"
| run_dsp: "thread_run s as t \<Longrightarrow> dsp_step t a u \<Longrightarrow> thread_run s (as @ [a]) u"
| run_cpu: "thread_run s as t \<Longrightarrow> cpu_step t a u \<Longrightarrow> thread_run s (as @ [a]) u"

fun granted :: "action \<Rightarrow> int" where
  "granted (Granted n) = n"
| "granted _ = 0"

fun executed :: "action \<Rightarrow> int" where
  "executed (ThreadRuns n) = n"
| "executed _ = 0"

section \<open>The token\<close>

text \<open>
  Exactly one of four places holds the right to act: the event for the CPU, the event for the DSP,
  the DSP thread while it is not waiting, the CPU between its wait and its signal.  The stop of the
  thread breaks the rule by setting both events.
\<close>

definition dsp_active :: "Threads \<Rightarrow> bool" where
  "dsp_active s \<longleftrightarrow> dsp_at s \<noteq> D_WaitDsp \<and> dsp_at s \<noteq> D_Exited"

definition cpu_active :: "Threads \<Rightarrow> bool" where
  "cpu_active s \<longleftrightarrow> cpu_at s = C_SetDsp \<or> (\<exists>n. cpu_at s = C_Add n)"

definition tokens :: "Threads \<Rightarrow> nat" where
  "tokens s = of_bool (m_ppc_event s) + of_bool (m_dsp_event s) + of_bool (dsp_active s) + of_bool (cpu_active s)"

definition stopping :: "Threads \<Rightarrow> bool" where
  "stopping s \<longleftrightarrow> (\<exists>k. cpu_at s = C_StopPpc k \<or> cpu_at s = C_StopDsp k \<or> cpu_at s = C_Join k)"

text \<open>The phases of the thread's life.\<close>

definition phase_inv :: "Threads \<Rightarrow> bool" where
  "phase_inv s \<longleftrightarrow>
     (m_is_running s \<longrightarrow> t_on_thread s \<and> tokens s = 1 \<and> dsp_at s \<noteq> D_Exited \<and> \<not> stopping s \<and> cpu_at s \<noteq> C_Destroyed) \<and>
     (\<not> m_is_running s \<longrightarrow>
        stopping s \<and> t_on_thread s \<and>
          (\<forall>k. cpu_at s = C_Join k \<longrightarrow> m_dsp_event s \<or> dsp_at s = D_While \<or> dsp_at s = D_Exited) \<or>
        \<not> t_on_thread s \<and> dsp_at s = D_Exited \<and> (cpu_at s = C_Idle \<or> cpu_at s = C_Locking \<or> cpu_at s = C_Paused \<or> cpu_at s = C_Destroyed) \<or>
        cpu_at s = C_Destroyed \<and> dsp_at s = D_Exited)"

definition lock_inv :: "Threads \<Rightarrow> bool" where
  "lock_inv s \<longleftrightarrow>
     (m_dsp_thread_mutex s = Some LockCPU \<longleftrightarrow> cpu_at s = C_Paused) \<and>
     (m_dsp_thread_mutex s = Some LockDSP \<longleftrightarrow> dsp_at s = D_Store \<or> dsp_at s = D_Unlock \<or> (\<exists>n. dsp_at s = D_Run n))"

lemma phase_inv_start: "phase_inv (thread_started determinism)"
  by (simp add: phase_inv_def thread_started_def tokens_def dsp_active_def cpu_active_def stopping_def)

lemma lock_inv_start: "lock_inv (thread_started determinism)"
  by (simp add: lock_inv_def thread_started_def)

lemma dsp_step_phase: "dsp_step s a t \<Longrightarrow> phase_inv s \<Longrightarrow> phase_inv t"
  by (induction rule: dsp_step.induct)
    (auto simp: phase_inv_def tokens_def dsp_active_def cpu_active_def stopping_def split: if_splits)

lemma cpu_step_phase: "cpu_step s a t \<Longrightarrow> phase_inv s \<Longrightarrow> phase_inv t"
  by (induction rule: cpu_step.induct)
    (auto simp: phase_inv_def tokens_def dsp_active_def cpu_active_def stopping_def split: if_splits)

lemma dsp_step_lock: "dsp_step s a t \<Longrightarrow> lock_inv s \<Longrightarrow> lock_inv t"
  by (induction rule: dsp_step.induct) (auto simp: lock_inv_def)

lemma cpu_step_lock: "cpu_step s a t \<Longrightarrow> lock_inv s \<Longrightarrow> lock_inv t"
  by (induction rule: cpu_step.induct) (auto simp: lock_inv_def)


text \<open>
  While the CPU adds cycles or signals, the DSP thread waits; so the count is still zero when the
  thread gives the mutex back.
\<close>

lemma cpu_turn:
  assumes "phase_inv s" and "cpu_active s"
  shows "dsp_at s = D_WaitDsp" and "\<not> m_ppc_event s" and "\<not> m_dsp_event s"
proof -
  have run: "m_is_running s" using assms
    unfolding phase_inv_def cpu_active_def stopping_def by auto
  then have t: "tokens s = 1" and "dsp_at s \<noteq> D_Exited"
    using assms(1) unfolding phase_inv_def by blast+
  moreover from t assms(2) have "\<not> dsp_active s" "\<not> m_ppc_event s" "\<not> m_dsp_event s"
    unfolding tokens_def by (auto simp: of_bool_def split: if_splits)
  ultimately show "dsp_at s = D_WaitDsp" "\<not> m_ppc_event s" "\<not> m_dsp_event s"
    unfolding dsp_active_def by blast+
qed

definition stored_inv :: "Threads \<Rightarrow> bool" where
  "stored_inv s \<longleftrightarrow> (dsp_at s = D_Unlock \<longrightarrow> m_cycle_count s = 0)"

lemma dsp_step_stored: "dsp_step s a t \<Longrightarrow> stored_inv s \<Longrightarrow> stored_inv t"
  by (induction rule: dsp_step.induct) (auto simp: stored_inv_def)

lemma cpu_step_stored:
  "cpu_step s a t \<Longrightarrow> phase_inv s \<Longrightarrow> lock_inv s \<Longrightarrow> stored_inv s \<Longrightarrow> stored_inv t"
proof (induction rule: cpu_step.induct)
  case (add_cycles s n)
  then have "dsp_at s = D_WaitDsp" by (intro cpu_turn(1)) (auto simp: cpu_active_def)
  then show ?case by (simp add: stored_inv_def)
qed (auto simp: stored_inv_def lock_inv_def)

definition thread_inv :: "Threads \<Rightarrow> bool" where
  "thread_inv s \<longleftrightarrow> phase_inv s \<and> lock_inv s \<and> stored_inv s"

lemma thread_inv_start: "thread_inv (thread_started determinism)"
  unfolding thread_inv_def
  by (simp add: phase_inv_start lock_inv_start) (simp add: stored_inv_def thread_started_def)

lemma thread_inv_run: "thread_run s as t \<Longrightarrow> thread_inv s \<Longrightarrow> thread_inv t"
  by (induction rule: thread_run.induct)
    (auto simp: thread_inv_def intro: dsp_step_phase cpu_step_phase dsp_step_lock cpu_step_lock
      dsp_step_stored cpu_step_stored)

lemma thread_inv_reachable: "thread_run (thread_started determinism) as s \<Longrightarrow> thread_inv s"
  by (erule thread_inv_run) (rule thread_inv_start)

lemma paused_core:
  assumes "thread_inv s" and "cpu_at s = C_Paused"
  shows "dsp_at s \<noteq> D_Run n" and "dsp_at s \<noteq> D_Store"
  using assms unfolding thread_inv_def lock_inv_def by auto

section \<open>The cycle account\<close>

text \<open>Cycles granted and not yet run: a run keeps its cycles in the count until the store.\<close>

definition outstanding :: "Threads \<Rightarrow> u32" where
  "outstanding s = (if dsp_at s = D_Store then 0 else m_cycle_count s)"

definition loaded_inv :: "Threads \<Rightarrow> bool" where
  "loaded_inv s \<longleftrightarrow>
     (\<forall>n. dsp_at s = D_TryLock n \<or> dsp_at s = D_Run n \<longrightarrow> n > 0 \<and> m_cycle_count s = of_int n)"

lemma of_int_sint_u32: "of_int (sint (w :: u32)) = w"
  by simp

lemma dsp_step_loaded: "dsp_step s a t \<Longrightarrow> loaded_inv s \<Longrightarrow> loaded_inv t"
  by (induction rule: dsp_step.induct) (auto simp: loaded_inv_def split: if_splits)

lemma cpu_step_loaded: "cpu_step s a t \<Longrightarrow> a \<noteq> StateLoaded \<Longrightarrow> thread_inv s \<Longrightarrow> loaded_inv s \<Longrightarrow> loaded_inv t"
proof (induction rule: cpu_step.induct)
  case (add_cycles s n)
  then have "dsp_at s = D_WaitDsp" by (intro cpu_turn(1)) (auto simp: cpu_active_def thread_inv_def)
  then show ?case by (simp add: loaded_inv_def)
qed (auto simp: loaded_inv_def)

lemma dsp_step_account:
  "dsp_step s a t \<Longrightarrow> loaded_inv s \<Longrightarrow> outstanding t + of_int (executed a) = outstanding s + of_int (granted a)"
  by (induction rule: dsp_step.induct) (auto simp: loaded_inv_def outstanding_def)

lemma cpu_step_account:
  "cpu_step s a t \<Longrightarrow> a \<noteq> StateLoaded \<Longrightarrow> thread_inv s \<Longrightarrow>
    outstanding t + of_int (executed a) = outstanding s + of_int (granted a)"
proof (induction rule: cpu_step.induct)
  case (add_cycles s n)
  then have "dsp_at s = D_WaitDsp" by (intro cpu_turn(1)) (auto simp: cpu_active_def thread_inv_def)
  then show ?case by (simp add: outstanding_def)
qed (auto simp: outstanding_def)

lemma account_step:
  assumes "outstanding t + of_int (sum_list (map executed as)) = outstanding s + of_int (sum_list (map granted as))"
    and "outstanding u + of_int (executed a) = outstanding t + of_int (granted a)"
  shows "outstanding u + of_int (sum_list (map executed (as @ [a]))) =
    outstanding s + of_int (sum_list (map granted (as @ [a])))"
proof -
  have "outstanding u + of_int (sum_list (map executed (as @ [a]))) =
      (outstanding u + of_int (executed a)) + of_int (sum_list (map executed as))" by simp
  also have "\<dots> = (outstanding t + of_int (sum_list (map executed as))) + of_int (granted a)"
    unfolding assms(2) by simp
  also have "\<dots> = outstanding s + of_int (sum_list (map granted (as @ [a])))" unfolding assms(1) by simp
  finally show ?thesis .
qed

lemma cycle_account:
  "thread_run s as t \<Longrightarrow> StateLoaded \<notin> set as \<Longrightarrow> thread_inv s \<Longrightarrow> loaded_inv s \<Longrightarrow>
    loaded_inv t \<and> outstanding t + of_int (sum_list (map executed as)) = outstanding s + of_int (sum_list (map granted as))"
proof (induction rule: thread_run.induct)
  case (run_start s)
  then show ?case by simp
next
  case (run_dsp s as t a u)
  then show ?case
    using dsp_step_loaded [of t a u] account_step [of t as s u a] dsp_step_account [of t a u] by simp
next
  case (run_cpu s as t a u)
  then show ?case
    using cpu_step_loaded [of t a u] account_step [of t as s u a] cpu_step_account [of t a u]
      thread_inv_run [of s as t] by auto
qed

lemma cycles_conserved:
  assumes "thread_run (thread_started determinism) as s" and "StateLoaded \<notin> set as"
  shows "(of_int (sum_list (map granted as)) :: u32) = of_int (sum_list (map executed as)) + outstanding s"
proof -
  have "loaded_inv (thread_started determinism)" "outstanding (thread_started determinism) = 0"
    "thread_inv (thread_started determinism)"
    by (rule thread_inv_start | simp add: loaded_inv_def outstanding_def thread_started_def)+
  then show ?thesis using cycle_account [OF assms(1,2)] by (simp add: add.commute)
qed

section \<open>Waiting ends\<close>

text \<open>
  Steps of the DSP thread while nothing has been signalled to the CPU, and how many of them are left:
  from its load to the end of a run and back to the signal there are at most eleven.
\<close>

definition unanswered :: "Threads \<Rightarrow> Threads \<Rightarrow> bool" where
  "unanswered s t \<longleftrightarrow> \<not> m_ppc_event s \<and> (\<exists>a. dsp_step s a t)"

definition due :: "Threads \<Rightarrow> nat" where
  "due s = (if sint (m_cycle_count s) > 0 then 6 else 0)"

definition dsp_rank :: "Threads \<Rightarrow> nat" where
  "dsp_rank s =
     (case dsp_at s of
        D_SetPpc \<Rightarrow> 1
      | D_Load \<Rightarrow> 2 + due s
      | D_While \<Rightarrow> 3 + due s
      | D_WaitDsp \<Rightarrow> 4 + due s
      | D_Unlock \<Rightarrow> 4
      | D_Store \<Rightarrow> 5
      | D_Run n \<Rightarrow> 6
      | D_TryLock n \<Rightarrow> 7
      | D_Exited \<Rightarrow> 0)"

lemma unanswered_rank:
  assumes "dsp_step s a t" and "\<not> m_ppc_event s" and "m_is_running s" and "stored_inv s"
  shows "m_ppc_event t \<or> dsp_rank t < dsp_rank s"
  using assms by (induction rule: dsp_step.induct) (auto simp: dsp_rank_def due_def stored_inv_def)

text \<open>The CPU waits for the event: in an update or when it lets go of the emulator.\<close>

definition cpu_waiting :: "Threads \<Rightarrow> bool" where
  "cpu_waiting s \<longleftrightarrow> cpu_at s = C_UnpauseWait \<or> (\<exists>n. cpu_at s = C_WaitPpc n)"

lemma dsp_step_cpu_at: "dsp_step s a t \<Longrightarrow> cpu_at t = cpu_at s \<and> m_is_running t = m_is_running s"
  by (induction rule: dsp_step.induct) simp_all

lemma cpu_waiting_enabled:
  assumes "thread_inv s" and "cpu_waiting s" and "\<not> m_ppc_event s"
  shows "\<exists>a t. dsp_step s a t"
proof -
  have run: "m_is_running s" using assms(1,2)
    unfolding thread_inv_def phase_inv_def cpu_waiting_def stopping_def by auto
  then have t: "tokens s = 1" and x: "dsp_at s \<noteq> D_Exited"
    using assms(1) unfolding thread_inv_def phase_inv_def by blast+
  moreover have "\<not> cpu_active s" using assms(2) by (auto simp: cpu_waiting_def cpu_active_def)
  ultimately have "dsp_at s = D_WaitDsp \<Longrightarrow> m_dsp_event s"
    using assms(3) by (simp add: tokens_def dsp_active_def of_bool_eq_1_iff flip: One_nat_def)
  with run x show ?thesis
    by (cases "dsp_at s") (blast intro: dsp_step.intros)+
qed

lemma unanswered_bound:
  "(unanswered ^^ k) s t \<Longrightarrow> thread_inv s \<Longrightarrow> cpu_waiting s \<Longrightarrow>
    thread_inv t \<and> cpu_waiting t \<and> (m_ppc_event t \<or> k + dsp_rank t \<le> dsp_rank s)"
proof (induction k arbitrary: t)
  case 0
  then show ?case by simp
next
  case (Suc k)
  then obtain u a where "(unanswered ^^ k) s u" and u: "\<not> m_ppc_event u" and a: "dsp_step u a t"
    unfolding unanswered_def by auto
  with Suc have ih: "thread_inv u" "cpu_waiting u" "k + dsp_rank u \<le> dsp_rank s" by blast+
  then have "m_is_running u" unfolding thread_inv_def phase_inv_def cpu_waiting_def stopping_def by auto
  then have "m_ppc_event t \<or> dsp_rank t < dsp_rank u"
    using unanswered_rank [OF a u] ih(1) by (simp add: thread_inv_def)
  moreover have "thread_inv t"
    using ih(1) a by (auto simp: thread_inv_def intro: dsp_step_phase dsp_step_lock dsp_step_stored)
  moreover have "cpu_waiting t" using ih(2) dsp_step_cpu_at [OF a] by (simp add: cpu_waiting_def)
  ultimately show ?case using ih(3) by auto
qed

lemma dsp_rank_le: "dsp_rank s \<le> 10"
  by (cases "dsp_at s") (simp_all add: dsp_rank_def due_def)

lemma cpu_wait_ends:
  assumes "thread_run (thread_started determinism) as s" and "cpu_waiting s" and "(unanswered ^^ k) s t"
  shows "k \<le> 11 \<and> (m_ppc_event t \<or> (\<exists>u. unanswered t u))"
proof
  note s = thread_inv_reachable [OF assms(1)]
  note b = unanswered_bound [OF assms(3) s assms(2)]
  then show "m_ppc_event t \<or> (\<exists>u. unanswered t u)"
    using cpu_waiting_enabled [of t] by (auto simp: unanswered_def)
  show "k \<le> 11"
  proof (cases k)
    case (Suc j)
    with assms(3) obtain u where "(unanswered ^^ j) s u" and "unanswered u t" by auto
    then have "j + dsp_rank u \<le> dsp_rank s"
      using unanswered_bound [OF _ s assms(2)] by (auto simp: unanswered_def)
    then show ?thesis using dsp_rank_le [of s] Suc by simp
  qed simp
qed


section \<open>Stopping the thread\<close>

text \<open>Steps of the DSP thread while the CPU side waits for it to end.\<close>

definition stop_rank :: "Threads \<Rightarrow> nat" where
  "stop_rank s =
     (case dsp_at s of
        D_Exited \<Rightarrow> 0
      | D_While \<Rightarrow> 1
      | D_WaitDsp \<Rightarrow> 2
      | D_Unlock \<Rightarrow> 2
      | D_SetPpc \<Rightarrow> 3
      | D_Store \<Rightarrow> 3
      | D_Run n \<Rightarrow> 4
      | D_TryLock n \<Rightarrow> 5
      | D_Load \<Rightarrow> 6)"

definition unfinished :: "Threads \<Rightarrow> Threads \<Rightarrow> bool" where
  "unfinished s t \<longleftrightarrow> (\<exists>a. dsp_step s a t)"

lemma unfinished_rank: "dsp_step s a t \<Longrightarrow> \<not> m_is_running s \<Longrightarrow> stop_rank t < stop_rank s"
  by (induction rule: dsp_step.induct) (auto simp: stop_rank_def)

lemma join_enabled:
  assumes "thread_inv s" and "cpu_at s = C_Join k" and "dsp_at s \<noteq> D_Exited"
  shows "\<exists>a t. dsp_step s a t"
proof -
  have "dsp_at s = D_WaitDsp \<Longrightarrow> m_dsp_event s"
    using assms unfolding thread_inv_def phase_inv_def stopping_def by auto
  with assms(3) show ?thesis by (cases "dsp_at s") (blast intro: dsp_step.intros)+
qed

lemma join_bound:
  "(unfinished ^^ n) s t \<Longrightarrow> thread_inv s \<Longrightarrow> cpu_at s = C_Join k \<Longrightarrow>
    thread_inv t \<and> cpu_at t = C_Join k \<and> n + stop_rank t \<le> stop_rank s"
proof (induction n arbitrary: t)
  case 0
  then show ?case by simp
next
  case (Suc n)
  then obtain u a where u: "(unfinished ^^ n) s u" and a: "dsp_step u a t"
    unfolding unfinished_def by auto
  have ih: "thread_inv u" "cpu_at u = C_Join k" "n + stop_rank u \<le> stop_rank s"
    using Suc.IH [OF u Suc.prems(2,3)] by blast+
  then have "\<not> m_is_running u" unfolding thread_inv_def phase_inv_def stopping_def by blast
  then have "stop_rank t < stop_rank u" using unfinished_rank [OF a] by blast
  moreover have "thread_inv t"
    using ih(1) a by (auto simp: thread_inv_def intro: dsp_step_phase dsp_step_lock dsp_step_stored)
  ultimately show ?case using ih(2,3) dsp_step_cpu_at [OF a] by simp
qed

lemma join_ends:
  assumes "thread_run (thread_started determinism) as s" and "cpu_at s = C_Join k" and "(unfinished ^^ n) s t"
  shows "n \<le> 6 \<and> (dsp_at t = D_Exited \<or> (\<exists>u. unfinished t u))"
proof -
  note b = join_bound [OF assms(3) thread_inv_reachable [OF assms(1)] assms(2)]
  have "stop_rank s \<le> 6" by (cases "dsp_at s") (simp_all add: stop_rank_def)
  then show ?thesis using b join_enabled [of t k] by (auto simp: unfinished_def)
qed

section \<open>What a stop loses\<close>

text \<open>
  Cycles granted just before the thread is stopped are never run: the CPU grants cycles, an external
  interrupt asks for the end of the thread, and the next update stops it before it has woken.
\<close>

lemma thread_run_Cons: "thread_run u as t \<Longrightarrow> dsp_step s a u \<or> cpu_step s a u \<Longrightarrow> thread_run s (a # as) t"
proof (induction rule: thread_run.induct)
  case (run_start u)
  then show ?case using thread_run.run_start [of s] thread_run.run_dsp thread_run.run_cpu by force
next
  case (run_dsp u as t b v)
  then show ?case using thread_run.run_dsp by force
next
  case (run_cpu u as t b v)
  then show ?case using thread_run.run_cpu by force
qed

definition can_end :: "(Threads \<Rightarrow> bool) \<Rightarrow> Threads \<Rightarrow> action list \<Rightarrow> bool" where
  "can_end P s as \<longleftrightarrow> (\<exists>t. thread_run s as t \<and> P t)"

lemma can_end_start: "P s \<Longrightarrow> can_end P s []"
  unfolding can_end_def using thread_run.run_start by blast

lemma can_end_dsp: "dsp_step s a u \<Longrightarrow> can_end P u as \<Longrightarrow> can_end P s (a # as)"
  unfolding can_end_def using thread_run_Cons by blast

lemma can_end_cpu: "cpu_step s a u \<Longrightarrow> can_end P u as \<Longrightarrow> can_end P s (a # as)"
  unfolding can_end_def using thread_run_Cons by blast

definition lost_cycles_actions :: "action list" where
  "lost_cycles_actions =
     [Tau, Tau, Tau, Tau, Tau, Granted 2100, Tau, Tau, Tau, Tau, Tau, Tau, Tau, Tau, RunsHere 2100]"

lemma stop_loses_cycles:
  "can_end (\<lambda>s. cpu_at s = C_Idle \<and> dsp_at s = D_Exited \<and> \<not> t_on_thread s \<and> m_cycle_count s = 2100)
    (thread_started False) lost_cycles_actions"
  unfolding lost_cycles_actions_def thread_started_def
  apply (rule can_end_dsp, rule while_running, simp, simp)
  apply (rule can_end_dsp, rule load_cycles, simp, rule refl)
  apply (rule can_end_dsp, rule set_ppc, simp)
  apply (rule can_end_cpu, rule update_waits [of _ 12600], simp, simp add: cdiv_def, simp, simp)
  apply (rule can_end_cpu, rule wait_ppc, simp, simp)
  apply (simp add: cdiv_def, rule can_end_cpu, rule add_cycles, simp)
  apply (rule can_end_cpu, rule set_dsp, simp)
  apply (rule can_end_cpu, rule external_interrupt, simp, simp)
  apply (rule can_end_cpu, rule update_stops [of _ 12600], simp, simp add: cdiv_def, simp, simp)
  apply (rule can_end_cpu, rule stop_clear, simp)
  apply (rule can_end_cpu, rule stop_ppc, simp)
  apply (rule can_end_cpu, rule stop_dsp, simp)
  apply (rule can_end_dsp, rule wait_dsp, simp, simp)
  apply (rule can_end_dsp, rule while_stopped, simp, simp)
  apply (simp add: cdiv_def, rule can_end_cpu, rule join_update, simp, simp)
  apply (rule can_end_start, simp)
  done


text \<open>
  Two more orders the code allows: the core is shut down while the thread is inside it, and the thread
  runs a cycle count it read before the state was loaded.
\<close>

definition shutdown_actions :: "action list" where
  "shutdown_actions = [Tau, Tau, Tau, Tau, Tau, Granted 2100, Tau, Tau, Tau, Tau, Tau, CoreShutdown]"

lemma shutdown_inside_run:
  "can_end (\<lambda>s. dsp_at s = D_Run 2100 \<and> cpu_at s = C_StopClear None) (thread_started False) shutdown_actions"
  unfolding shutdown_actions_def thread_started_def
  apply (rule can_end_dsp, rule while_running, simp, simp)
  apply (rule can_end_dsp, rule load_cycles, simp, rule refl)
  apply (rule can_end_dsp, rule set_ppc, simp)
  apply (rule can_end_cpu, rule update_waits [of _ 12600], simp, simp add: cdiv_def, simp, simp)
  apply (rule can_end_cpu, rule wait_ppc, simp, simp)
  apply (simp add: cdiv_def, rule can_end_cpu, rule add_cycles, simp)
  apply (rule can_end_cpu, rule set_dsp, simp)
  apply (rule can_end_dsp, rule wait_dsp, simp, simp)
  apply (rule can_end_dsp, rule while_running, simp, simp)
  apply (rule can_end_dsp, rule load_cycles, simp, rule refl)
  apply (rule can_end_dsp, rule lock_taken [of _ 2100], simp, simp)
  apply (rule can_end_cpu, rule destroy, simp)
  apply (rule can_end_start, simp)
  done

definition stale_actions :: "action list" where
  "stale_actions =
     [Tau, Tau, Tau, Tau, Tau, Granted 2100, Tau, Tau, Tau, Tau, Tau, Tau, StateLoaded, Tau, Tau, ThreadRuns 2100]"

lemma stale_count_after_load:
  "can_end (\<lambda>s. m_cycle_count s = 0 \<and> cpu_at s = C_UnpauseWait) (thread_started False) stale_actions"
  unfolding stale_actions_def thread_started_def
  apply (rule can_end_dsp, rule while_running, simp, simp)
  apply (rule can_end_dsp, rule load_cycles, simp, rule refl)
  apply (rule can_end_dsp, rule set_ppc, simp)
  apply (rule can_end_cpu, rule update_waits [of _ 12600], simp, simp add: cdiv_def, simp, simp)
  apply (rule can_end_cpu, rule wait_ppc, simp, simp)
  apply (simp add: cdiv_def, rule can_end_cpu, rule add_cycles, simp)
  apply (rule can_end_cpu, rule set_dsp, simp)
  apply (rule can_end_dsp, rule wait_dsp, simp, simp)
  apply (rule can_end_dsp, rule while_running, simp, simp)
  apply (rule can_end_dsp, rule load_cycles, simp, rule refl)
  apply (rule can_end_cpu, rule pause, simp)
  apply (rule can_end_cpu, rule pause_lock, simp, simp)
  apply (rule can_end_cpu, rule load_state [of _ 0], simp)
  apply (rule can_end_cpu, rule unpause, simp)
  apply (rule can_end_dsp, rule lock_taken [of _ 2100], simp, simp)
  apply (rule can_end_dsp, rule run_cycles, simp)
  apply (rule can_end_start, simp)
  done

end
