(* ===== verification/Dsp_Interface_Samples.thy ===== *)
theory Dsp_Interface_Samples
  imports Dsp_Interface_Facts Dsp_Thread Dsp_Samples
begin

text \<open>
  Concrete states of the DSP interface and of the two threads at which the properties are exercised.
\<close>

unbundle bit_operations_syntax

section \<open>The interface\<close>

definition sample_lle :: DSPLLE where
  "sample_lle = \<lparr>m_dsp_core = \<lparr>m_dsp = sample_dsp, m_core_state = Running, m_init_hax = False\<rparr>,
     m_is_dsp_on_thread = False, m_request_disable_thread = False, m_wii = False, wants_determinism = False\<rparr>"

definition sample_manager :: DSPManager where
  "sample_manager = \<lparr>m_dsp_control = 0, current_source_address = 0, remaining_blocks_count = 0, SourceAddress = 0,
     AudioDMAControl = 0, MMAddr = 0, ARAddr = 0, Cnt = 0, m_aram_info = 0, m_aram_mode = 1, m_aram_refresh = 156,
     m_dsp_slice = 0, m_is_lle = True, m_dsp_emulator = sample_lle, m_hsp = HSP_Null, int_cause_dsp = False,
     scheduled = []\<rparr>"

lemma sample_manager_simps [simp]:
  "host sample_dsp = sample_host" "the_host sample_manager = sample_host" "int_cause_dsp sample_manager = False"
  "m_dsp_slice sample_manager = 0" "m_aram_info sample_manager = 0"
  "m_dsp_emulator sample_manager = sample_lle" "the_dsp sample_lle = sample_dsp"
  "m_is_dsp_on_thread sample_lle = False"
  by (simp_all add: sample_manager_def sample_lle_def sample_dsp_def)

lemma block_addressI: "block_address (push_bit 5 (take_bit 21 y))"
  by (auto simp: block_address_def bit_push_bit_iff bit_take_bit_iff)

lemma sample_block_addresses: "block_address 0x40" "block_address 0x80" "block_address 0x20"
  using block_addressI [of 2] block_addressI [of 4] block_addressI [of 1]
  by (simp_all add: push_bit_eq_mult take_bit_eq_mod)

lemma sample_aram_ok: "aram_ok sample_host"
proof -
  have "a AND 0xffffff = a" if "a < 0x1000000" for a :: u32
  proof -
    have e: "(0xffffff :: u32) = mask 24" by (simp add: mask_eq_exp_minus_1)
    have "unat (take_bit 24 a) = unat a"
      using that by (simp add: unsigned_take_bit_eq take_bit_nat_eq_self word_less_nat_alt)
    then show ?thesis unfolding e by (simp only: word_unat_eq_iff take_bit_eq_mask)
  qed
  then show ?thesis by (simp add: aram_ok_def sample_host_def)
qed

lemma sample_in_ram: "n \<le> 0x100 \<Longrightarrow> unat a \<le> 0x100 \<Longrightarrow> in_ram sample_host a n"
  by (simp add: in_ram_def sample_host_def)

lemma sample_in_aram: "n \<le> 0x100 \<Longrightarrow> unat a \<le> 0x100 \<Longrightarrow> in_aram sample_host a n"
  by (simp add: in_aram_def sample_host_def)

lemma sample_write_control: "\<exists>e. write_control 0 0x18 (sample_manager\<lparr>m_dsp_control := 0x8\<rparr>) = Inr e"
proof -
  have "\<exists>r. DSP_WriteControlRegister 0 0x18 sample_lle = Inr r"
    by (simp add: DSP_WriteControlRegister_def WriteControlRegister_def sample_dsp_def)
  then show ?thesis by (auto simp: write_control_def Let_def)
qed

section \<open>The event\<close>

text \<open>The waiting thread has gone to sleep and another one has just set the flag.\<close>

definition sample_event :: Event where
  "sample_event = \<lparr>m_flag = True, m_mutex = None, waiter = WaitBlocked, setters = (\<lambda>_. SetIdle)(3 := SetLock)\<rparr>"

lemma sample_event_reachable: "event_step\<^sup>*\<^sup>* new_event sample_event"
  unfolding new_event_def sample_event_def
  apply (rule converse_rtranclp_into_rtranclp, rule wait_starts [where f = False], simp, simp)
  apply (rule converse_rtranclp_into_rtranclp, rule wait_lock, simp, simp)
  apply (rule converse_rtranclp_into_rtranclp, rule wait_test [where b = False and f = False], simp, simp)
  apply (rule converse_rtranclp_into_rtranclp, rule wait_block, simp)
  apply (rule converse_rtranclp_into_rtranclp, rule set_changes [where i = 3 and f = True], simp, simp)
  apply simp
  done

section \<open>The threads\<close>

lemma can_endD: "can_end P (thread_started d) as \<Longrightarrow> \<exists>s. thread_run (thread_started d) as s \<and> P s"
  by (simp add: can_end_def)

text \<open>The CPU is about to add cycles.\<close>

lemma sample_adding:
  "can_end (\<lambda>s. cpu_at s = C_Add 2100) (thread_started False) [Tau, Tau, Tau, Tau, Tau]"
  unfolding thread_started_def
  apply (rule can_end_dsp, rule while_running, simp, simp)
  apply (rule can_end_dsp, rule load_cycles, simp, rule refl)
  apply (rule can_end_dsp, rule set_ppc, simp)
  apply (rule can_end_cpu, rule update_waits [of _ 12600], simp, simp add: cdiv_def, simp, simp)
  apply (rule can_end_cpu, rule wait_ppc, simp, simp)
  apply (rule can_end_start, simp add: cdiv_def)
  done

text \<open>The CPU waits for its event; the destructor waits for the thread.\<close>

lemma sample_waiting:
  "thread_run (thread_started False) [Tau] ((thread_started False)\<lparr>cpu_at := C_WaitPpc 2100\<rparr>)"
proof -
  have "cpu_step (thread_started False) Tau ((thread_started False)\<lparr>cpu_at := C_WaitPpc 2100\<rparr>)"
    using update_waits [of "thread_started False" 12600] by (simp add: thread_started_def cdiv_def)
  then show ?thesis using run_cpu [OF run_start] by fastforce
qed

lemma sample_joining:
  "can_end (\<lambda>s. cpu_at s = C_Join None \<and> dsp_at s = D_While) (thread_started False) [CoreShutdown, Tau, Tau, Tau]"
  unfolding thread_started_def
  apply (rule can_end_cpu, rule destroy, simp)
  apply (rule can_end_cpu, rule stop_clear, simp)
  apply (rule can_end_cpu, rule stop_ppc, simp)
  apply (rule can_end_cpu, rule stop_dsp, simp)
  apply (rule can_end_start, simp)
  done

end
