(* ===== verification/Dsp_Corollaries.thy ===== *)
theory Dsp_Corollaries
  imports Dsp_Interface_Facts Dsp_Samples Dsp_Control_Facts Dsp_Register_Facts Dsp_Address_Facts
    Dsp_Accel_Facts Dsp_Analyzer_Facts
begin

text \<open>
  Further consequences of the component theories: instructions, registers and memory that behave as
  their documentation says, each in the words of the code.
\<close>

unbundle bit_operations_syntax

text \<open>
  No two templates match the same opcode word, so looking a word up gives the same template
  whatever the order of the table.
\<close>

lemma template_order_is_irrelevant:
  assumes "set es = set s_opcodes"
  shows "FindByOpcode w es = FindByOpcode w s_opcodes"
  using optab.lookup_perm [OF assms, of w] by (simp add: FindByOpcode_def optab.lookup_def)

text \<open>
  NEG leaves the negated accumulator reduced to 40 bits (the most negative value stays itself)
  and sets the condition codes as the comparison of zero with the old value.
\<close>

lemma negation_is_exact:
  assumes "wf_dsp s"
  shows "negates (fld opc 8 1) s (neg opc s)"
  by (rule neg_negates [OF assms])

text \<open>
  ADDP and SUBP obey the rules of the other additions and subtractions whenever the product, as
  its four parts add up, fits 40 bits.
\<close>

lemma adding_the_product_is_exact:
  assumes "wf_dsp s" and "is40 (GetLongProduct s)"
  shows "adds (fld opc 8 1) (sint (GetLongProduct s)) s (addp opc s) \<and>
    subtracts (fld opc 8 1) (sint (GetLongProduct s)) s (subp opc s)"
  by (rule conjI [OF addp_adds [OF assms] subp_subtracts [OF assms]])

text \<open>
  IAR followed by DAR restores an address register that lies in its ring, also across the end of
  the ring.
\<close>

lemma step_up_and_down:
  assumes "in_ring (wr (regs s) (fld opc 0 3)) (ar (regs s) (fld opc 0 3))"
  shows "ar (regs (dar opc (iar opc s))) (fld opc 0 3) = ar (regs s) (fld opc 0 3)"
proof -
  let ?r = "fld opc 0 3" let ?w = "wr (regs s) ?r"
  let ?t = "iar opc s"
  have t: "wr (regs ?t) ?r = ?w" "ar (regs ?t) ?r = IncrementAddressRegister ?r s"
    by (simp_all add: iar_def Let_def)
  have up: "uint (ar (regs ?t) ?r) = ring_add ?w (ar (regs s) ?r) 1"
    unfolding t by (rule Increment_step [OF assms])
  have "in_ring (wr (regs ?t) ?r) (ar (regs ?t) ?r)" unfolding t(1) by (rule in_ring_ring_add [OF up])
  from Decrement_step [OF this] have "uint (DecrementAddressRegister ?r ?t) = uint (ar (regs s) ?r)"
    unfolding t(1) ring_add_add [OF up] by (simp add: ring_add_0 [OF assms])
  then have "DecrementAddressRegister ?r ?t = ar (regs s) ?r" by (simp only: word_uint_eq_iff)
  then show ?thesis by (simp add: dar_def Let_def)
qed

text \<open>
  While the core is in the state Running, DSPCore::RunCycles always comes back: after one time
  slice, with the cycles used up, or with the error of the slice.
\<close>

lemma running_core_returns:
  assumes "m_core_state c = Running"
  shows "Core_RunCycles steps cycles c =
    Some (if 0 < cycles then (case RunCycles cycles (m_dsp c) of Inl e \<Rightarrow> Inl e
            | Inr (n, d) \<Rightarrow> Inr (0, c\<lparr>m_dsp := d\<rparr>)) else Inr (cycles, c))"
  by (rule Core_RunCycles_Running [OF assms])

text \<open>
  In the state Stepping DSPCore::RunCycles comes back once a step event has arrived for every
  cycle asked for.
\<close>

lemma stepping_core_returns:
  assumes "m_core_state c = Stepping" and "nat cycles \<le> steps"
  shows "\<exists>r. Core_RunCycles steps cycles c = Some r"
  by (rule Core_RunCycles_Stepping [OF assms])

text \<open>
  The start and current address of the accelerator, written in two halves through the register
  window, are read back with the bits the hardware does not have cleared: 30 bits for the start
  address, bit 30 for the current address.
\<close>

lemma accelerator_address_round_trip:
  "(\<exists>r. write_pair DSP_ACSAH hi DSP_ACSAL lo s = Inr r \<and>
      fst (ReadIFX DSP_ACSAH r) = hi AND 0x3fff \<and> fst (ReadIFX DSP_ACSAL r) = lo) \<and>
   (\<exists>r. write_pair DSP_ACEAH hi DSP_ACEAL lo s = Inr r \<and>
      fst (ReadIFX DSP_ACEAH r) = hi AND 0x3fff \<and> fst (ReadIFX DSP_ACEAL r) = lo) \<and>
   (\<exists>r. write_pair DSP_ACCAH hi DSP_ACCAL lo s = Inr r \<and>
      fst (ReadIFX DSP_ACCAH r) = hi AND 0xbfff \<and> fst (ReadIFX DSP_ACCAL r) = lo)"
  unfolding accel_pairs
  by (intro conjI, (rule exI, rule conjI, rule refl, simp only: ReadIFX_accel fst_conv accel_updates halves_masked simp_thms)+)

text \<open>
  Words copied to main memory and copied back from the same valid range are the same words: the
  two byte-swapping copies are inverse to each other.
\<close>

lemma dma_round_trip:
  assumes "GetPointerForRange h a sz = Some q" and "length ws = sz div 2"
  shows "CopyFromEmuSwapped (CopyToEmuSwapped a ws sz h) a sz = Some ws"
  by (rule CopyFrom_CopyTo [OF assms])

text \<open>
  In 40-bit mode reading the middle part of an accumulator gives its upper 24 bits saturated to
  the 16-bit range.
\<close>

lemma saturated_reads:
  assumes "IsSRFlagSet s SR_40_MODE_BIT" and "wf_dsp s"
  shows "sint (read_acm i s) = max (- (2 ^ 15)) (min (2 ^ 15 - 1) (sint (ac (regs s) i) div 2 ^ 16))"
  by (rule read_acm_saturates [OF assms(1)]) (use assms(2) in \<open>simp add: wf_dsp_def\<close>)

text \<open>
  CLRL computes the status flags from the rounded value before it is reduced to 40 bits: for the
  largest accumulator value the stored result is negative and the sign flag is clear.
\<close>

lemma clrl_sign_flag:
  assumes "ac (regs s) 0 = 0x7fffffffff"
  shows "sint (ac (regs (clrl 0xfc00 s)) 0) < 0 \<and> \<not> IsSRFlagSet (clrl 0xfc00 s) SR_SIGN"
  using clrl_sign [OF assms] by blast

text \<open>
  Reading the control register while initialisation code is announced clears the announcement
  exactly when its time has come.
\<close>

lemma init_code_flag_expires:
  assumes "control_reg s AND CR_INIT_CODE \<noteq> 0"
  shows "fst (ReadControlRegister now s) =
    (if control_reg_init_code_clear_time s \<le> now then control_reg s AND NOT CR_INIT_CODE else control_reg s)"
  by (rule ReadControl_clears [OF assms])

text \<open>
  In 40-bit mode writing the middle part of an accumulator, as the move and load instructions
  do, sets the whole accumulator to the signed value times 65536 and leaves the other one alone.
\<close>

lemma extending_writes:
  fixes val :: u16
  assumes "i < 2" and "IsSRFlagSet s SR_40_MODE_BIT"
  defines "r \<equiv> ConditionalExtendAccum (DSP_REG_ACM0 + int i) (OpWriteRegister (DSP_REG_ACM0 + int i) val s)"
  shows "sint (ac (regs r) i) = sint val * 2 ^ 16 \<and> (\<forall>j. j \<noteq> i \<longrightarrow> ac (regs r) j = ac (regs s) j)"
  unfolding r_def using write_acm_extends [OF assms(1,2), where val = val] by blast

text \<open>
  A value written to the product register is read back as its low 40 bits with sign, although
  the register is stored as four parts of which two are added on reading.
\<close>

lemma product_round_trip: "GetLongProduct (SetLongProduct v s) = sext40 v"
  by (rule GetLongProduct_SetLongProduct)

text \<open>
  A decoded ADPCM sample lies between -0x7fff and 0x7fff, whatever the coefficients, the history
  and the scale.
\<close>

lemma adpcm_samples_are_clamped:
  "- 0x7fff \<le> sint (adpcm_value raw c1 c2 a) \<and> sint (adpcm_value raw c1 c2 a) \<le> 0x7fff"
  using adpcm_range by blast

text \<open>
  In the state Stopped the loop of DSPCore::RunCycles has no case that uses cycles up: asked for
  any positive number of cycles it does not come back.
\<close>

lemma stopped_core_does_not_return:
  assumes "m_core_state c = Stopped" and "0 < cycles"
  shows "Core_RunCycles steps cycles c = None"
  by (rule Core_RunCycles_Stopped [OF assms])

text \<open>
  A DMA from ARAM to main memory, started by writing its three address and count registers,
  copies exactly the bytes asked for and changes nothing else in memory, when both ranges exist.
\<close>

lemma dma_copies_to_main_memory:
  assumes "block_address mm" and "block_address aa" and "block_address n" and "n \<noteq> 0" and "aram_ok (the_host d)"
    and "in_ram (the_host d) mm (unat n)" and "in_aram (the_host d) aa (unat n)"
  shows "\<exists>e. mmio_writes32 now wii (dma_request True mm aa n) d = Some (Inr e) \<and>
    the_host e = (the_host d)\<lparr>m_ram := ram_after (unat n) mm aa (the_host d)\<rparr>"
  using dma_request_to_mram [OF assms] .

text \<open>
  Raw reads of the accelerator go round the ring from start to end address: after n reads the
  current address is n modulo the length of the ring behind the start, and one exception was
  raised for every time round.
\<close>

lemma raw_reads_go_round:
  assumes "valid_format a" and "wf_accel a" and "m_start_address a \<le> m_end_address a"
    and "m_current_address a = m_start_address a"
  defines "len \<equiv> unat (m_end_address a) - unat (m_start_address a) + 1"
  shows "(raw_read rd ^^ n) (a, []) =
    (a\<lparr>m_current_address := m_start_address a + of_nat (n mod len)\<rparr>,
     replicate (n div len) OnRawReadEndException)"
  unfolding len_def by (rule raw_reads_ring [OF assms(1-4)])

text \<open>
  Writing CR_RESET, without a falling edge of CR_INIT, resets the DSP to the start of the
  instruction ROM, analyses the code again, always returns, and leaves the reset bit clear.
\<close>

lemma reset_starts_at_the_rom:
  assumes "val AND CR_RESET \<noteq> 0" and "\<not> (control_reg s AND CR_INIT \<noteq> 0 \<and> val AND CR_INIT = 0)"
  shows "\<exists>r. WriteControlRegister now val s = Inr r \<and> pc r = DSP_RESET_VECTOR \<and>
    wr (regs r) = (\<lambda>_. 0xffff) \<and> control_reg r = val AND NOT CR_RESET \<and> iram r = iram s"
  using WriteControl_reset [OF assms, of now] by (auto simp: SDSP_Reset_def Let_def)

text \<open>
  When no time slice is due, a 32-bit read of the mailbox registers gives the processor the mail
  the DSP has put there, with the top bit announcing it, and withdraws it.
\<close>

lemma mail_reaches_the_cpu:
  assumes "m_dsp_slice d \<le> DSP_MAIL_SLICE"
    and "the_dsp (m_dsp_emulator d) = WriteMailboxLow MailboxDSP lo (WriteMailboxHigh MailboxDSP hi s)"
  shows "\<exists>e. mmio_read32 steps now DSP_MAIL_FROM_DSP_HI d =
      Some (Inr (push_bit 16 (ucast (hi OR 0x8000)) OR ucast lo, e)) \<and>
    \<not> bit (PeekMailbox MailboxDSP (the_dsp (m_dsp_emulator e))) 31"
  by (rule mail_from_dsp [OF assms])

text \<open>
  A write to the control register clears an interrupt bit exactly where it has a one, takes over
  the enable bits, leaves the state of the DMA alone, and updates the interrupt line.
\<close>

lemma control_register_acknowledges:
  assumes "write_control now val d = Inr e" and "n = 3 \<or> n = 5 \<or> n = 7"
  shows "(bit (m_dsp_control e) n \<longleftrightarrow> bit (m_dsp_control d) n \<and> \<not> bit val n) \<and>
    (bit (m_dsp_control e) (Suc n) \<longleftrightarrow> bit val (Suc n)) \<and>
    (bit (m_dsp_control e) 9 \<longleftrightarrow> bit (m_dsp_control d) 9) \<and>
    int_cause_dsp e = pending (m_dsp_control e)"
  by (rule write_control_acknowledges [OF assms])

text \<open>
  The falling edge of CR_INIT loads the first 4096 bytes of the audio memory into instruction
  RAM as big-endian words, starts at address 0 and announces that initialisation code runs, for
  130 ticks.
\<close>

lemma init_loads_code:
  assumes "val AND CR_RESET = 0" and "control_reg s AND CR_INIT \<noteq> 0" and "val AND CR_INIT = 0"
    and "0x01001000 \<le> m_ram_size_real (host s)"
  shows "\<exists>r. WriteControlRegister now val s = Inr r \<and> pc r = 0 \<and>
    control_reg r = val OR CR_INIT_CODE \<and> control_reg_init_code_clear_time r = now + 130 \<and>
    iram r = (\<lambda>i. if i < 0x800 then big_endian (host s) (RAM, 0x1000000) i else iram s i)"
  by (rule WriteControl_init [OF assms])

text \<open>
  Mail is valid only when both halves are written: after the high half no mail is announced,
  after the low half it is, the receiver gets both halves (bit 15 of the high half announcing
  them), taking the low half withdraws the mail, and the other mailbox is not touched.
\<close>

lemma mailbox_transfer:
  defines "sent \<equiv> \<lambda>m hi lo s. WriteMailboxLow m lo (WriteMailboxHigh m hi s)"
  shows "\<not> bit (PeekMailbox m (WriteMailboxHigh m hi s)) 31 \<and>
    bit (PeekMailbox m (sent m hi lo s)) 31 \<and>
    ReadMailboxHigh m (sent m hi lo s) = hi OR 0x8000 \<and>
    fst (ReadMailboxLow m (sent m hi lo s)) = lo \<and>
    \<not> bit (PeekMailbox m (snd (ReadMailboxLow m (sent m hi lo s)))) 31 \<and>
    PeekMailbox (if m = MailboxCPU then MailboxDSP else MailboxCPU) (sent m hi lo s) =
      PeekMailbox (if m = MailboxCPU then MailboxDSP else MailboxCPU) s"
  unfolding sent_def
  by (intro conjI, (rule mbox.half_written [unfolded mbox.has_mail_def] mbox.sent [unfolded mbox.has_mail_def]
      mbox.received_high mbox.received_low mbox.taken [unfolded mbox.has_mail_def])+)
    (simp add: mailboxes_independent)

text \<open>
  Stepping an address register by one, up or down, is a step in a ring of wr + 1 words that ends
  at the top of an aligned block: the carry tests of the code find exactly the two ends of the
  ring.
\<close>

lemma single_steps_of_address_registers:
  assumes "in_ring (wr (regs s) r) (ar (regs s) r)"
  shows "uint (IncrementAddressRegister r s) = ring_add (wr (regs s) r) (ar (regs s) r) 1 \<and>
    uint (DecrementAddressRegister r s) = ring_add (wr (regs s) r) (ar (regs s) r) (- 1)"
  by (rule conjI [OF Increment_step [OF assms] Decrement_step [OF assms]])

end
