(* ===== verification/Dsp_Labels.thy ===== *)
theory Dsp_Labels
  imports Dsp_Tables
begin

text \<open>
  Names: the register and hardware-address names of Source/Core/Core/DSP/DSPTables.cpp, the label
  map of the assembler (Source/Core/Core/DSP/LabelMap.cpp), and numbers as the assembler and the
  disassembler print them.
\<close>

unbundle bit_operations_syntax

section \<open>Faults\<close>

text \<open>
  What ends a run of these tools other than by their own error messages: an access outside an array
  or string buffer, a null pointer, a division by zero, a loop or recursion that does not end.
\<close>

datatype asm_fault = BadIndex | NullDeref | DivideByZero | Unfinished

type_synonym 'a asm_result = "asm_fault + 'a"

section \<open>Numbers in text\<close>

text \<open>\<open>%d\<close>, \<open>{}\<close> and \<open>{:x}\<close>: digits of a number, the padded forms with leading zeros.\<close>

definition digit_char :: "nat \<Rightarrow> char" where
  "digit_char d = char_of (if d < 10 then 48 + d else 87 + d)"

fun digits :: "nat \<Rightarrow> nat \<Rightarrow> string" where
  "digits b n = (if b < 2 \<or> n < b then [digit_char n] else digits b (n div b) @ [digit_char (n mod b)])"

declare digits.simps [simp del]

definition show_hex_padded :: "nat \<Rightarrow> nat \<Rightarrow> string" where
  "show_hex_padded width n = (let s = digits 16 n in replicate (width - length s) (CHR ''0'') @ s)"

definition show_int :: "int \<Rightarrow> string" where
  "show_int i = (if i < 0 then CHR ''-'' # digits 10 (nat (- i)) else digits 10 (nat i))"

section \<open>Names of registers and hardware addresses\<close>

definition pdlabels :: "(u16 \<times> string) list" where
  "pdlabels = [
     (0xffa0, ''COEF_A1_0''), (0xffa1, ''COEF_A2_0''), (0xffa2, ''COEF_A1_1''), (0xffa3, ''COEF_A2_1''),
     (0xffa4, ''COEF_A1_2''), (0xffa5, ''COEF_A2_2''), (0xffa6, ''COEF_A1_3''), (0xffa7, ''COEF_A2_3''),
     (0xffa8, ''COEF_A1_4''), (0xffa9, ''COEF_A2_4''), (0xffaa, ''COEF_A1_5''), (0xffab, ''COEF_A2_5''),
     (0xffac, ''COEF_A1_6''), (0xffad, ''COEF_A2_6''), (0xffae, ''COEF_A1_7''), (0xffaf, ''COEF_A2_7''),
     (0xffb0, ''0xffb0''), (0xffb1, ''0xffb1''), (0xffb2, ''0xffb2''), (0xffb3, ''0xffb3''),
     (0xffb4, ''0xffb4''), (0xffb5, ''0xffb5''), (0xffb6, ''0xffb6''), (0xffb7, ''0xffb7''),
     (0xffb8, ''0xffb8''), (0xffb9, ''0xffb9''), (0xffba, ''0xffba''), (0xffbb, ''0xffbb''),
     (0xffbc, ''0xffbc''), (0xffbd, ''0xffbd''), (0xffbe, ''0xffbe''), (0xffbf, ''0xffbf''),
     (0xffc0, ''0xffc0''), (0xffc1, ''0xffc1''), (0xffc2, ''0xffc2''), (0xffc3, ''0xffc3''),
     (0xffc4, ''0xffc4''), (0xffc5, ''0xffc5''), (0xffc6, ''0xffc6''), (0xffc7, ''0xffc7''),
     (0xffc8, ''0xffc8''), (0xffc9, ''DSCR''), (0xffca, ''0xffca''), (0xffcb, ''DSBL''),
     (0xffcc, ''0xffcc''), (0xffcd, ''DSPA''), (0xffce, ''DSMAH''), (0xffcf, ''DSMAL''),
     (0xffd0, ''0xffd0''), (0xffd1, ''FORMAT''), (0xffd2, ''0xffd2''), (0xffd3, ''ACDRAW''),
     (0xffd4, ''ACSAH''), (0xffd5, ''ACSAL''), (0xffd6, ''ACEAH''), (0xffd7, ''ACEAL''),
     (0xffd8, ''ACCAH''), (0xffd9, ''ACCAL''), (0xffda, ''PRED_SCALE''), (0xffdb, ''YN1''),
     (0xffdc, ''YN2''), (0xffdd, ''ACDSAMP''), (0xffde, ''GAIN''), (0xffdf, ''ACIN''),
     (0xffe0, ''0xffe0''), (0xffe1, ''0xffe1''), (0xffe2, ''0xffe2''), (0xffe3, ''0xffe3''),
     (0xffe4, ''0xffe4''), (0xffe5, ''0xffe5''), (0xffe6, ''0xffe6''), (0xffe7, ''0xffe7''),
     (0xffe8, ''0xffe8''), (0xffe9, ''0xffe9''), (0xffea, ''0xffea''), (0xffeb, ''0xffeb''),
     (0xffec, ''0xffec''), (0xffed, ''0xffed''), (0xffee, ''0xffee''), (0xffef, ''AMDM''),
     (0xfff0, ''0xfff0''), (0xfff1, ''0xfff1''), (0xfff2, ''0xfff2''), (0xfff3, ''0xfff3''),
     (0xfff4, ''0xfff4''), (0xfff5, ''0xfff5''), (0xfff6, ''0xfff6''), (0xfff7, ''0xfff7''),
     (0xfff8, ''0xfff8''), (0xfff9, ''0xfff9''), (0xfffa, ''0xfffa''), (0xfffb, ''DIRQ''),
     (0xfffc, ''DMBH''), (0xfffd, ''DMBL''), (0xfffe, ''CMBH''), (0xffff, ''CMBL'')]"

definition regnames :: "(u16 \<times> string) list" where
  "regnames = [
     (0x00, ''AR0''), (0x01, ''AR1''), (0x02, ''AR2''), (0x03, ''AR3''),
     (0x04, ''IX0''), (0x05, ''IX1''), (0x06, ''IX2''), (0x07, ''IX3''),
     (0x08, ''WR0''), (0x09, ''WR1''), (0x0a, ''WR2''), (0x0b, ''WR3''),
     (0x0c, ''ST0''), (0x0d, ''ST1''), (0x0e, ''ST2''), (0x0f, ''ST3''),
     (0x10, ''AC0.H''), (0x11, ''AC1.H''), (0x12, ''CR''), (0x13, ''SR''),
     (0x14, ''PROD.L''), (0x15, ''PROD.M1''), (0x16, ''PROD.H''), (0x17, ''PROD.M2''),
     (0x18, ''AX0.L''), (0x19, ''AX1.L''), (0x1a, ''AX0.H''), (0x1b, ''AX1.H''),
     (0x1c, ''AC0.L''), (0x1d, ''AC1.L''), (0x1e, ''AC0.M''), (0x1f, ''AC1.M''),
     (0x20, ''ACC0''), (0x21, ''ACC1''), (0x22, ''AX0''), (0x23, ''AX1'')]"

definition pdname :: "u16 \<Rightarrow> string" where
  "pdname val =
     (case find (\<lambda>(addr, nm). addr = val) pdlabels of
        Some (addr, nm) \<Rightarrow> nm
      | None \<Rightarrow> ''0x'' @ show_hex_padded 4 (unat val))"

definition pdregname :: "u32 \<Rightarrow> string asm_result" where
  "pdregname val = (if unat val < length regnames then Inr (snd (regnames ! unat val)) else Inl BadIndex)"

section \<open>The label map\<close>

type_synonym LabelType = u32

abbreviation LABEL_VALUE :: LabelType where "LABEL_VALUE \<equiv> 4"
abbreviation LABEL_ANY :: LabelType where "LABEL_ANY \<equiv> 0xff"

datatype Label = Label (label_name: string) (label_addr: s32) (label_type: LabelType)

type_synonym LabelMap = "Label list"

definition GetLabelValue :: "string \<Rightarrow> LabelType \<Rightarrow> LabelMap \<Rightarrow> u16 option" where
  "GetLabelValue nm ty labels =
     map_option (\<lambda>l. ucast (label_addr l)) (find (\<lambda>l. nm = label_name l \<and> ty AND label_type l \<noteq> 0) labels)"

definition RegisterLabel :: "string \<Rightarrow> u16 \<Rightarrow> LabelType \<Rightarrow> LabelMap \<Rightarrow> bool \<times> LabelMap" where
  "RegisterLabel label lval ty labels =
     (case GetLabelValue label LABEL_ANY labels of
        Some old_value \<Rightarrow> if old_value \<noteq> lval then (False, labels) else (True, labels)
      | None \<Rightarrow> (True, labels @ [Label label (ucast lval) ty]))"

fun DeleteLabel :: "string \<Rightarrow> LabelMap \<Rightarrow> LabelMap" where
  "DeleteLabel label [] = []"
| "DeleteLabel label (l # ls) = (if label_name l = label then ls else l # DeleteLabel label ls)"

definition RegisterDefaults :: "LabelMap \<Rightarrow> LabelMap" where
  "RegisterDefaults labels =
     fold (\<lambda>(addr, nm) ls. snd (RegisterLabel nm addr LABEL_VALUE ls)) (regnames @ pdlabels) labels"

definition ClearLabels :: LabelMap where
  "ClearLabels = []"

section \<open>Look-up after registration\<close>

lemma find_append: "find P (xs @ ys) = (case find P xs of None \<Rightarrow> find P ys | Some x \<Rightarrow> Some x)"
  by (induction xs) auto

lemma ucast_16_32_16 [simp]: "(ucast (ucast (v :: u16) :: u32) :: u16) = v"
  by (rule bit_word_eqI) (simp add: bit_ucast_iff)

text \<open>A label that was accepted has its value; a refused one had another value before.\<close>

lemma RegisterLabel_lookup:
  "ty AND LABEL_ANY \<noteq> 0 \<Longrightarrow> RegisterLabel label lval ty labels = (ok, labels') \<Longrightarrow>
    GetLabelValue label LABEL_ANY labels' = (if ok then Some lval else GetLabelValue label LABEL_ANY labels) \<and>
    (ok \<longleftrightarrow> GetLabelValue label LABEL_ANY labels \<in> {None, Some lval})"
  by (auto simp: RegisterLabel_def GetLabelValue_def find_append and.commute split: option.splits if_splits)

lemma RegisterLabel_other:
  "nm \<noteq> label \<Longrightarrow> RegisterLabel label lval ty labels = (ok, labels') \<Longrightarrow>
    GetLabelValue nm ty' labels' = GetLabelValue nm ty' labels"
  by (auto simp: RegisterLabel_def GetLabelValue_def find_append split: option.splits if_splits)

end
