(* ===== verification/Dsp_Disassembler.thy ===== *)
theory Dsp_Disassembler
  imports Dsp_Labels
begin

text \<open>
  The disassembler (Source/Core/Core/DSP/DSPDisassembler.cpp): an instruction word with its operand
  word is printed by the template that matches it, an extended one with the template of its
  extension; and the loop over a code memory.
\<close>

unbundle bit_operations_syntax

section \<open>Settings\<close>

record AssemblerSettings =
  print_tabs :: bool
  show_hex :: bool
  show_pc :: bool
  settings_force :: bool
  decode_names :: bool
  decode_registers :: bool
  ext_separator :: char
  lower_case_ops :: bool

definition default_settings :: AssemblerSettings where
  "default_settings = \<lparr>print_tabs = False, show_hex = False, show_pc = False, settings_force = False,
     decode_names = True, decode_registers = True, ext_separator = CHR 0x27, lower_case_ops = True\<rparr>"

definition lower_char :: "char \<Rightarrow> char" where
  "lower_char c = (if 65 \<le> (of_char c :: nat) \<and> (of_char c :: nat) \<le> 90 then char_of (of_char c + 32 :: nat) else c)"

section \<open>Parameters\<close>

text \<open>The value of a parameter: the bits of its field, moved down, over the bits of the base register.\<close>

abbreviation P_REGS_MASK :: partype_t where "P_REGS_MASK \<equiv> 0x3f80"

definition param_bits :: "param2_t \<Rightarrow> u16 \<Rightarrow> u16 \<Rightarrow> u32" where
  "param_bits p op1 op2 =
     (let val = ucast (if param_loc p \<ge> 1 then op2 else op1) :: u32;
          val = val AND ucast (param_mask p)
      in if param_lshift p < 0 then push_bit (nat (- param_lshift p)) val
         else drop_bit (nat (param_lshift p)) val)"

definition plain_type :: "partype_t \<Rightarrow> partype_t" where
  "plain_type ty = (if ty AND 0xff = 0x10 then ty AND 0xff00 else ty)"

definition param_value :: "param2_t \<Rightarrow> u16 \<Rightarrow> u16 \<Rightarrow> u32 \<times> partype_t" where
  "param_value p op1 op2 =
     (let val = param_bits p op1 op2;
          ty = plain_type (param_type p)
      in if ty AND P_REG \<noteq> 0
         then ((if ty = P_ACC_D \<or> ty = P_ACCM_D
                then (NOT val AND 0x1) OR drop_bit 8 (ty AND P_REGS_MASK)
                else val OR drop_bit 8 (ty AND P_REGS_MASK)),
               ty AND NOT P_REGS_MASK)
         else (val, ty))"

definition show_param :: "AssemblerSettings \<Rightarrow> param2_t \<Rightarrow> u16 \<Rightarrow> u16 \<Rightarrow> string asm_result" where
  "show_param settings p op1 op2 =
     (let (val, ty) = param_value p op1 op2 in
      if ty = P_REG then
        if decode_registers settings then bindE (pdregname val) (\<lambda>nm. Inr (''$'' @ nm))
        else Inr (''$'' @ digits 10 (unat val))
      else if ty = P_PRG then
        if decode_registers settings then bindE (pdregname val) (\<lambda>nm. Inr (''@$'' @ nm))
        else Inr (''@$'' @ digits 10 (unat val))
      else if ty = P_VAL \<or> ty = P_ADDR_I \<or> ty = P_ADDR_D then
        Inr (if decode_names settings then pdname (ucast val) else ''0x'' @ show_hex_padded 4 (unat val))
      else if ty = P_IMM then
        Inr (if param_size p \<noteq> 2 then
               if param_mask p = 0x003f then
                 ''#'' @ show_int (if val AND 0x20 \<noteq> 0 then sint val - 64 else sint val)
               else ''#0x'' @ show_hex_padded 2 (unat val)
             else ''#0x'' @ show_hex_padded 4 (unat val))
      else if ty = P_MEM then
        (let val = (if param_size p \<noteq> 2 then ucast (scast (ucast val :: u8) :: u16) else val)
         in Inr (''@'' @ (if decode_names settings then pdname (ucast val) else ''0x'' @ show_hex_padded 4 (unat val))))
      else Inr [])"

fun show_params :: "AssemblerSettings \<Rightarrow> param2_t list \<Rightarrow> u16 \<Rightarrow> u16 \<Rightarrow> string list asm_result" where
  "show_params settings [] op1 op2 = Inr []"
| "show_params settings (p # ps) op1 op2 =
     bindE (show_param settings p op1 op2) (\<lambda>s. bindE (show_params settings ps op1 op2) (\<lambda>ss. Inr (s # ss)))"

fun comma_separated :: "string list \<Rightarrow> string" where
  "comma_separated [] = []"
| "comma_separated [s] = s"
| "comma_separated (s # ss) = s @ '', '' @ comma_separated ss"

definition DisassembleParameters ::
    "AssemblerSettings \<Rightarrow> DSPOPCTemplate \<Rightarrow> u16 \<Rightarrow> u16 \<Rightarrow> string asm_result" where
  "DisassembleParameters settings opc op1 op2 =
     bindE (show_params settings (op_params opc) op1 op2) (\<lambda>ss. Inr (comma_separated ss))"

section \<open>Instructions\<close>

definition main_template :: "u16 \<Rightarrow> DSPOPCTemplate" where
  "main_template op1 = (case FindOpInfoByOpcode op1 of None \<Rightarrow> cw | Some opc \<Rightarrow> opc)"

text \<open>The word to look the extension up with, when there is one.\<close>

definition extension_word :: "DSPOPCTemplate \<Rightarrow> u16 \<Rightarrow> u16 option" where
  "extension_word opc op1 =
     (if drop_bit 12 (opcode opc) = 0x3 \<and> op1 AND 0x007f \<noteq> 0 then Some (op1 AND 0x7f)
      else if drop_bit 12 (opcode opc) > 0x3 \<and> op1 AND 0x00ff \<noteq> 0 then Some op1
      else None)"

definition pad_right :: "nat \<Rightarrow> string \<Rightarrow> string" where
  "pad_right width s = s @ replicate (width - length s) (CHR '' '')"

definition show_name :: "AssemblerSettings \<Rightarrow> DSPOPCTemplate \<Rightarrow> DSPOPCTemplate option \<Rightarrow> string" where
  "show_name settings opc ext =
     (let opname = op_name opc;
          opname = (case ext of None \<Rightarrow> opname | Some x \<Rightarrow> opname @ [ext_separator settings] @ op_name x);
          opname = (if lower_case_ops settings then map lower_char opname else opname)
      in if print_tabs settings then opname @ [CHR 0x09] else pad_right 12 opname)"

text \<open>
  The printed operation and the size to advance by; a null pointer when the extension is unknown.
\<close>

definition show_operation ::
    "AssemblerSettings \<Rightarrow> DSPOPCTemplate \<Rightarrow> u16 \<Rightarrow> u16 \<Rightarrow> (string \<times> u16) asm_result" where
  "show_operation settings opc op1 op2 =
     (let unknown = (if opcode_mask opc = 0
                     then [CHR 0x09, CHR 0x09] @ ''; *** UNKNOWN OPCODE ***'' else [])
      in case extension_word opc op1 of
           None \<Rightarrow>
             bindE (if op_param_count opc > 0 then DisassembleParameters settings opc op1 op2 else Inr [])
               (\<lambda>ps. Inr (show_name settings opc None @ ps @ unknown, op_size opc))
         | Some w \<Rightarrow>
             (case FindExtOpInfoByOpcode w of
                None \<Rightarrow> Inl NullDeref
              | Some x \<Rightarrow>
                  bindE (if op_param_count opc > 0
                         then bindE (DisassembleParameters settings opc op1 op2) (\<lambda>ps. Inr (ps @ '' ''))
                         else Inr [])
                    (\<lambda>ps. bindE (if op_param_count x > 0 then DisassembleParameters settings x op1 op2 else Inr [])
                      (\<lambda>xs. Inr (show_name settings opc (Some x) @ ps @ '': '' @ xs @ unknown, op_size x)))))"

text \<open>
  \<open>DisassembleOpcode\<close>: success, the new program counter and the text.  Outside the memory the code
  increments its pointer to the program counter, not the program counter.
\<close>

definition DisassembleOpcode ::
    "AssemblerSettings \<Rightarrow> u16 list \<Rightarrow> u16 \<Rightarrow> (bool \<times> u16 \<times> string) asm_result" where
  "DisassembleOpcode settings binbuf pc0 =
     (let wrapped_pc = pc0 AND 0x7fff in
      if unat wrapped_pc \<ge> length binbuf then Inr (False, pc0, ''; outside memory'')
      else
        let op1 = binbuf ! unat wrapped_pc;
            opc = main_template op1;
            dest = (if show_pc settings then show_hex_padded 4 (unat wrapped_pc) @ '' '' else [])
        in if op_size opc = 2 \<and> unat wrapped_pc + 1 \<ge> length binbuf
           then Inr (False, pc0 + op_size opc,
                  dest @ (if show_hex settings then show_hex_padded 4 (unat op1) @ '' ???? '' else [])
                    @ ''; Insufficient data for large immediate'')
           else
             let op2 = (if op_size opc = 2 then binbuf ! (unat wrapped_pc + 1) else 0);
                 dest = dest @ (if show_hex settings
                   then show_hex_padded 4 (unat op1) @ '' '' @
                        (if op_size opc = 2 then show_hex_padded 4 (unat op2) @ '' '' else ''     '')
                   else [])
             in bindE (show_operation settings opc op1 op2) (\<lambda>(s, sz). Inr (True, pc0 + sz, dest @ s)))"

section \<open>Code memories\<close>

text \<open>The loop over the code, from \<open>pc0\<close>; it appends to \<open>text\<close> and may not end.\<close>

partial_function (option) disassemble_from ::
    "AssemblerSettings \<Rightarrow> u16 list \<Rightarrow> u16 \<Rightarrow> string \<Rightarrow> (bool \<times> string) asm_result option" where
  [code]: "disassemble_from settings code pc0 text =
     (if unat pc0 \<ge> length code then Some (Inr (True, text))
      else case DisassembleOpcode settings code pc0 of
             Inl e \<Rightarrow> Some (Inl e)
           | Inr r \<Rightarrow>
               if \<not> fst r then Some (Inr (False, text @ snd (snd r) @ [CHR 0x0a]))
               else disassemble_from settings code (fst (snd r)) (text @ snd (snd r) @ [CHR 0x0a]))"

definition Disassemble :: "AssemblerSettings \<Rightarrow> u16 list \<Rightarrow> string \<Rightarrow> (bool \<times> string) asm_result option" where
  "Disassemble settings code text =
     (if length code > 0xffff
      then Some (Inr (False, text @ ''; code too large for 16-bit addressing'' @ [CHR 0x0a]))
      else disassemble_from settings code 0 text)"

end
