(* ===== verification/Dsp_Assembler.thy ===== *)
theory Dsp_Assembler
  imports Dsp_Disassembler
begin

text \<open>
  The assembler (Source/Core/Core/DSP/DSPAssembler.cpp): numbers, labels and expressions, parameters,
  their check against the template, the words they build, and the two passes over the text.

  Text is a list of characters; the buffers of the code are C strings of 1024 bytes, which bounds
  lines and expressions.  \<open>strtok\<close> returns the token and what it would continue with.  \<open>s32\<close>
  arithmetic wraps.  The recursion of expressions, includes and lines takes fuel, and running out of
  it is \<open>Unfinished\<close>.
\<close>

unbundle bit_operations_syntax

section \<open>State\<close>

datatype AssemblerError = OK | UnknownOpcode | NotEnoughParameters | TooManyParameters
  | WrongParameter | ExpectedParamStr | ExpectedParamVal | ExpectedParamReg | ExpectedParamMem
  | ExpectedParamImm | IncorrectBinary | IncorrectHex | IncorrectDecimal | LabelAlreadyExists
  | UnknownLabel | NoMatchingBrackets | CantExtendOpcode | ExtensionParamsOnNonExtendableOpcode
  | WrongParameterExpectedAccumulator | InvalidRegister | NumberOutOfRange | PCOutOfRange

datatype segment_t = SEGMENT_CODE | SEGMENT_DATA | SEGMENT_OVERLAY

datatype OpcodeType = Primary | Extension

record DSPAssembler =
  m_force :: bool
  m_output_buffer :: "u16 list"
  m_include_dir :: string
  m_cur_addr :: u32
  m_total_size :: s32
  m_cur_pass :: nat
  m_labels :: LabelMap
  m_failed :: bool
  m_last_error :: AssemblerError
  m_aliases :: "(string \<times> string) list"
  m_cur_segment :: segment_t
  m_segment_addr :: "segment_t \<Rightarrow> u32"

record param_t =
  par_val :: u32
  par_type :: partype_t
  par_str :: "string option"

definition no_param :: param_t where
  "no_param = \<lparr>par_val = 0, par_type = P_NONE, par_str = None\<rparr>"

definition ShowError :: "AssemblerError \<Rightarrow> DSPAssembler \<Rightarrow> DSPAssembler" where
  "ShowError err a = a\<lparr>m_failed := (\<not> m_force a \<or> m_failed a), m_last_error := err\<rparr>"

section \<open>C strings\<close>

definition char_at :: "string \<Rightarrow> nat \<Rightarrow> char" where
  "char_at s i = (if i < length s then s ! i else CHR 0x00)"

fun skip_spaces :: "string \<Rightarrow> string" where
  "skip_spaces s = dropWhile (\<lambda>c. c = CHR '' '') s"

definition strtok :: "char list \<Rightarrow> string \<Rightarrow> (string \<times> string) option" where
  "strtok delims s =
     (let s = dropWhile (\<lambda>c. c \<in> set delims) s in
      if s = [] then None
      else Some (takeWhile (\<lambda>c. c \<notin> set delims) s, drop 1 (dropWhile (\<lambda>c. c \<notin> set delims) s)))"

text \<open>\<open>strstr\<close> with one character: what is before it and behind it.\<close>

definition split_at :: "char \<Rightarrow> string \<Rightarrow> (string \<times> string) option" where
  "split_at c s =
     (if c \<in> set s then Some (takeWhile (\<lambda>x. x \<noteq> c) s, drop 1 (dropWhile (\<lambda>x. x \<noteq> c) s)) else None)"

definition code_of :: "char \<Rightarrow> nat" where
  "code_of c = of_char c"

section \<open>Values\<close>

definition decimal_digit :: "char \<Rightarrow> u32 option" where
  "decimal_digit c = (if 48 \<le> code_of c \<and> code_of c \<le> 57 then Some (of_nat (code_of c - 48)) else None)"

definition hex_digit :: "char \<Rightarrow> u32 option" where
  "hex_digit c =
     (if 97 \<le> code_of c \<and> code_of c \<le> 102 then Some (of_nat (code_of c - 97 + 10))
      else if 65 \<le> code_of c \<and> code_of c \<le> 70 then Some (of_nat (code_of c - 65 + 10))
      else decimal_digit c)"

definition binary_digit :: "char \<Rightarrow> u32 option" where
  "binary_digit c = (if 48 \<le> code_of c \<and> code_of c \<le> 49 then Some (of_nat (code_of c - 48)) else None)"

text \<open>The loop over the digits; a wrong one is reported and only shifts the value.\<close>

fun parse_digits :: "u32 \<Rightarrow> (char \<Rightarrow> u32 option) \<Rightarrow> AssemblerError \<Rightarrow> string \<Rightarrow> s32 \<Rightarrow> DSPAssembler \<Rightarrow> s32 \<times> DSPAssembler" where
  "parse_digits base digit err [] val a = (val, a)"
| "parse_digits base digit err (c # cs) val a =
     (let val = val * base in
      case digit c of
        Some d \<Rightarrow> parse_digits base digit err cs (val + d) a
      | None \<Rightarrow> parse_digits base digit err cs val (ShowError err a))"

definition is_decimal :: "char \<Rightarrow> bool" where
  "is_decimal c \<longleftrightarrow> 48 \<le> code_of c \<and> code_of c \<le> 57"

definition ParseValue :: "string \<Rightarrow> DSPAssembler \<Rightarrow> s32 \<times> DSPAssembler" where
  "ParseValue str a =
     (let (negative, ptr) = (if char_at str 0 = CHR ''#'' then (True, drop 1 str) else (False, str));
          (negative, ptr) = (if char_at ptr 0 = CHR ''-'' then (True, drop 1 ptr) else (negative, ptr));
          signed = (\<lambda>(val, a). (if negative then - val else val, a))
      in if char_at ptr 0 = CHR ''0'' then
           if is_decimal (char_at ptr 1) then signed (parse_digits 10 decimal_digit IncorrectDecimal ptr 0 a)
           else if char_at ptr 1 = CHR ''X'' then signed (parse_digits 16 hex_digit IncorrectHex (drop 2 ptr) 0 a)
           else if char_at ptr 1 = CHR 0x27 then signed (parse_digits 2 binary_digit IncorrectBinary (drop 2 ptr) 0 a)
           else (0, a)
         else if is_decimal (char_at ptr 0) then signed (parse_digits 10 decimal_digit IncorrectDecimal ptr 0 a)
         else case GetLabelValue ptr LABEL_ANY (m_labels a) of
                Some value \<Rightarrow> (ucast value, a)
              | None \<Rightarrow> (0, if m_cur_pass a = 2 then ShowError UnknownLabel a else a))"

section \<open>Expressions\<close>

text \<open>
  \<open>FindBrackets\<close>: the text before the first opening parenthesis, inside, and behind the matching one;
  or no match, with the text cut at an opening parenthesis that was found and whether to complain.
  A closing parenthesis before the first opening one is collected with the text inside.
\<close>

datatype brackets = Brackets string string string | NoBrackets string bool

fun close_bracket :: "int \<Rightarrow> string \<Rightarrow> string \<Rightarrow> (string \<times> string) option" where
  "close_bracket count dst [] = None"
| "close_bracket count dst (c # cs) =
     (if c = CHR ''('' then close_bracket (count + 1) (dst @ [c]) cs
      else if c = CHR '')'' then
        if count - 1 = 0 then Some (dst, cs) else close_bracket (count - 1) (dst @ [c]) cs
      else close_bracket count (dst @ [c]) cs)"

definition FindBrackets :: "string \<Rightarrow> brackets" where
  "FindBrackets src =
     (case split_at (CHR ''('') src of
        None \<Rightarrow> NoBrackets src (CHR '')'' \<in> set src)
      | Some (front, behind) \<Rightarrow>
          (case close_bracket 1 (filter (\<lambda>c. c = CHR '')'') front) behind of
             Some (dst, rest) \<Rightarrow> Brackets front dst rest
           | None \<Rightarrow> NoBrackets front True))"

text \<open>A minus sign at the start or behind \<open>/\<close>, \<open>%\<close> or \<open>*\<close> becomes a number sign.\<close>

fun mark_signs :: "char option \<Rightarrow> string \<Rightarrow> string" where
  "mark_signs prev [] = []"
| "mark_signs prev (c # cs) =
     (let c = (if c = CHR ''-'' \<and> (case prev of None \<Rightarrow> True | Some p \<Rightarrow> p \<in> set ''/%*'') then CHR ''#'' else c)
      in c # mark_signs (Some c) cs)"

text \<open>
  The text between the loops is printed back after each operation.  No printed number has the sign
  the loop looks for, so every loop runs at most once.
\<close>

definition print_d :: "u32 \<Rightarrow> string" where
  "print_d val = show_int (sint val)"

fun ParseExpression :: "nat \<Rightarrow> string \<Rightarrow> DSPAssembler \<Rightarrow> (u32 \<times> DSPAssembler) asm_result"
  and subst_brackets :: "nat \<Rightarrow> string \<Rightarrow> DSPAssembler \<Rightarrow> (string \<times> DSPAssembler) asm_result"
  and binary_op :: "nat \<Rightarrow> char \<Rightarrow> (u32 \<Rightarrow> u32 \<Rightarrow> u32 asm_result) \<Rightarrow> string \<Rightarrow> DSPAssembler \<Rightarrow> (string \<times> DSPAssembler) asm_result"
where
  "ParseExpression 0 ptr a = Inl Unfinished"
| "ParseExpression (Suc k) ptr a =
     bindE (subst_brackets k ptr a) (\<lambda>(s, a).
     let d = mark_signs None (filter (\<lambda>c. c \<noteq> CHR '' '') s) in
     bindE (binary_op k (CHR ''+'') (\<lambda>x y. Inr (x + y)) d a) (\<lambda>(d, a).
     bindE (binary_op k (CHR ''-'')
              (\<lambda>x y. Inr (let val = x - y in if sint val < 0 then 0x10000 + (val AND 0xffff) else val)) d a) (\<lambda>(d, a).
     bindE (binary_op k (CHR ''*'') (\<lambda>x y. Inr (x * y)) d a) (\<lambda>(d, a).
     bindE (binary_op k (CHR ''/'') (\<lambda>x y. if y = 0 then Inl DivideByZero else Inr (x div y)) d a) (\<lambda>(d, a).
     bindE (binary_op k (CHR ''|'') (\<lambda>x y. Inr (x OR y)) d a) (\<lambda>(d, a).
     bindE (binary_op k (CHR ''&'') (\<lambda>x y. Inr (x AND y)) d a) (\<lambda>(d, a).
     Inr (ParseValue d a))))))))"
| "subst_brackets 0 s a = Inl Unfinished"
| "subst_brackets (Suc k) s a =
     (case FindBrackets s of
        NoBrackets s' complain \<Rightarrow> Inr (s', if complain then ShowError NoMatchingBrackets a else a)
      | Brackets front inner behind \<Rightarrow>
          bindE (ParseExpression k inner a) (\<lambda>(val, a).
            let s' = front @ print_d val @ behind in
            if length s' \<ge> 1024 then Inl BadIndex else subst_brackets k s' a))"
| "binary_op 0 c f d a = Inl Unfinished"
| "binary_op (Suc k) c f d a =
     (case split_at c d of
        None \<Rightarrow> Inr (d, a)
      | Some (left, right) \<Rightarrow>
          bindE (ParseExpression k left a) (\<lambda>(x, a).
          bindE (ParseExpression k right a) (\<lambda>(y, a).
          bindE (f x y) (\<lambda>val. Inr (print_d val, a)))))"

section \<open>Parameters\<close>

text \<open>One parameter and what \<open>strtok\<close> continues with, which a string parameter changes.\<close>

definition parse_param :: "nat \<Rightarrow> string \<Rightarrow> string \<Rightarrow> DSPAssembler \<Rightarrow> (param_t \<times> string \<times> DSPAssembler) asm_result" where
  "parse_param fuel tmpstr rest a =
     (let expr = (\<lambda>s ty. bindE (ParseExpression fuel s a)
                    (\<lambda>(v, a). Inr (\<lparr>par_val = v, par_type = ty, par_str = None\<rparr>, rest, a)))
      in if char_at tmpstr 0 = CHR 0x22 then
           (case strtok [CHR 0x22] tmpstr of
              None \<Rightarrow> Inr (\<lparr>par_val = 0, par_type = P_STR, par_str = None\<rparr>, [], a)
            | Some (s, rest') \<Rightarrow> Inr (\<lparr>par_val = 0, par_type = P_STR, par_str = Some s\<rparr>, rest', a))
         else if char_at tmpstr 0 = CHR ''#'' then expr (drop 1 tmpstr) P_IMM
         else if char_at tmpstr 0 = CHR ''@'' then
           if char_at tmpstr 1 = CHR ''$'' then expr (drop 2 tmpstr) P_PRG
           else expr (drop 1 tmpstr) P_MEM
         else if char_at tmpstr 0 = CHR ''$'' then expr (drop 1 tmpstr) P_REG
         else expr tmpstr P_VAL)"

fun parse_params :: "nat \<Rightarrow> nat \<Rightarrow> (string \<times> string) option \<Rightarrow> DSPAssembler \<Rightarrow> (param_t list \<times> DSPAssembler) asm_result" where
  "parse_params fuel 0 tok a = Inr ([], a)"
| "parse_params fuel (Suc n) None a = Inr ([], a)"
| "parse_params fuel (Suc n) (Some (tmpstr, rest)) a =
     (let tmpstr = skip_spaces tmpstr in
      if tmpstr = [] then Inr ([], a)
      else bindE (parse_param fuel tmpstr rest a) (\<lambda>(p, rest, a).
             bindE (parse_params fuel n (strtok '','' rest) a) (\<lambda>(ps, a). Inr (p # ps, a))))"

definition GetParams :: "nat \<Rightarrow> string \<Rightarrow> DSPAssembler \<Rightarrow> (param_t list \<times> DSPAssembler) asm_result" where
  "GetParams fuel parstr a = parse_params fuel 10 (strtok '','' (skip_spaces parstr)) a"

section \<open>Checking parameters\<close>

definition FindOpcode :: "string \<Rightarrow> nat \<Rightarrow> OpcodeType \<Rightarrow> DSPAssembler \<Rightarrow> DSPOPCTemplate option \<times> DSPAssembler" where
  "FindOpcode nm par_count ty a =
     (if char_at nm 0 = CHR ''C'' \<and> char_at nm 1 = CHR ''W'' then (Some cw, a)
      else
        let nm = (case map_of (m_aliases a) nm of Some nm' \<Rightarrow> nm' | None \<Rightarrow> nm)
        in case (if ty = Primary then FindOpInfoByName nm else FindExtOpInfoByName nm) of
             None \<Rightarrow> (None, ShowError UnknownOpcode a)
           | Some info \<Rightarrow>
               (Some info,
                if par_count < op_param_count info then ShowError NotEnoughParameters a
                else if par_count > op_param_count info then ShowError TooManyParameters a
                else a))"

text \<open>A mask of zero would shift for ever.\<close>

fun shift_mask :: "nat \<Rightarrow> u16 \<Rightarrow> u16 asm_result" where
  "shift_mask 0 msk = Inl Unfinished"
| "shift_mask (Suc n) msk = (if msk AND 1 \<noteq> 0 then Inr msk else shift_mask n (drop_bit 1 msk))"

definition get_mask_shifted_down :: "u16 \<Rightarrow> u16 asm_result" where
  "get_mask_shifted_down msk = shift_mask 16 msk"

text \<open>The array of a template has eight parameters; those it does not use are zero.\<close>

definition template_param :: "DSPOPCTemplate option \<Rightarrow> nat \<Rightarrow> param2_t asm_result" where
  "template_param opc i =
     (case opc of
        None \<Rightarrow> Inl NullDeref
      | Some opc \<Rightarrow>
          if i < length (op_params opc) then Inr (op_params opc ! i)
          else if i < 8 then Inr (Param P_NONE 0 0 0 0)
          else Inl BadIndex)"

text \<open>The errors for a register parameter, and for a number.\<close>

definition in_range :: "u32 \<Rightarrow> int \<Rightarrow> int \<Rightarrow> bool" where
  "in_range v lo hi \<longleftrightarrow> lo \<le> sint v \<and> sint v \<le> hi"

definition register_errors :: "param2_t \<Rightarrow> u32 \<Rightarrow> AssemblerError list asm_result" where
  "register_errors p v =
     (let ty = param_type p in
      if ty = P_REG18 \<or> ty = P_REG19 \<or> ty = P_REG1A \<or> ty = P_REG1C then
        (let value = uint (drop_bit 8 ty AND 0x1f) in
         if sint v < value then Inr [InvalidRegister]
         else bindE (get_mask_shifted_down (param_mask p))
                (\<lambda>m. Inr (if sint v > value + uint m then [InvalidRegister] else [])))
      else if ty = P_PRG then Inr (if in_range v 0x00 0x03 then [] else [InvalidRegister])
      else if ty = P_ACC then
        Inr (if in_range v 0x20 0x21 \<or> (0x1e \<le> v \<and> v \<le> 0x1f) \<or> (0x1c \<le> v \<and> v \<le> 0x1d) then []
             else [WrongParameterExpectedAccumulator])
      else if ty = P_ACCM then
        Inr (if in_range v 0x1e 0x1f \<or> (0x1c \<le> v \<and> v \<le> 0x1d) \<or> (0x20 \<le> v \<and> v \<le> 0x21) then []
             else [WrongParameterExpectedAccumulator])
      else if ty = P_ACCL then
        Inr (if in_range v 0x1c 0x1d \<or> (0x1e \<le> v \<and> v \<le> 0x1f) \<or> (0x20 \<le> v \<and> v \<le> 0x21) then []
             else [WrongParameterExpectedAccumulator])
      else Inr [])"

definition number_errors :: "param2_t \<Rightarrow> u32 \<Rightarrow> AssemblerError list asm_result" where
  "number_errors p v =
     bindE (get_mask_shifted_down (param_mask p)) (\<lambda>m.
       let value = uint m;
           valueu = 0xffff AND NOT (drop_bit 1 (ucast m)) :: u32;
           bad = [NumberOutOfRange]
       in Inr (if sint v < 0 then
                 if value = 7 then bad
                 else if param_type p = P_MEM then bad
                 else if sint v < - (value div 2 + 1) then bad else []
               else if value = 7 then if uint v > value then bad else []
               else if param_type p = P_MEM then
                 (let value = (if value < 256 then value div 2 else value)
                  in if uint v > value \<and> (v < valueu \<or> v > 0xffff) then bad else [])
               else
                 (let value = (if value < 128 then value div 2 else value)
                  in if uint v > value then bad else [])))"

definition type_errors :: "partype_t \<Rightarrow> AssemblerError list" where
  "type_errors ty =
     (let k = ty AND (P_REG OR 7)
      in (if k = P_REG then [ExpectedParamReg] else if k = P_MEM then [ExpectedParamMem]
          else if k = P_VAL then [ExpectedParamVal] else if k = P_IMM then [ExpectedParamImm] else [])
         @ [WrongParameter])"

text \<open>The errors for one parameter, and whether the loop goes on.\<close>

definition verify_param :: "param2_t \<Rightarrow> param_t \<Rightarrow> (AssemblerError list \<times> bool) asm_result" where
  "verify_param p par =
     (if param_type p \<noteq> par_type par \<or> par_type par AND P_REG \<noteq> 0 then
        if par_type par = P_VAL \<and> (param_type p = P_ADDR_I \<or> param_type p = P_ADDR_D) then Inr ([], True)
        else if param_type p AND P_REG \<noteq> 0 \<and> par_type par AND P_REG \<noteq> 0
        then bindE (register_errors p (par_val par)) (\<lambda>es. Inr (es, True))
        else Inr (type_errors (par_type par), False)
      else if param_type p AND 3 \<noteq> 0 \<and> par_type par AND 3 \<noteq> 0
      then bindE (number_errors p (par_val par)) (\<lambda>es. Inr (es, True))
      else Inr ([], True))"

fun VerifyParams :: "DSPOPCTemplate option \<Rightarrow> nat \<Rightarrow> param_t list \<Rightarrow> DSPAssembler \<Rightarrow> DSPAssembler asm_result" where
  "VerifyParams opc i [] a = Inr a"
| "VerifyParams opc i (par # pars) a =
     bindE (template_param opc i) (\<lambda>p.
     bindE (verify_param p par) (\<lambda>(errs, go_on).
       let a = fold ShowError errs a in if go_on then VerifyParams opc (Suc i) pars a else Inr a))"

section \<open>Building the words\<close>

definition or_word :: "u32 \<Rightarrow> u16 \<Rightarrow> u16 list \<Rightarrow> u16 list asm_result" where
  "or_word i v buf = (if unat i < length buf then Inr (buf[unat i := (buf ! unat i) OR v]) else Inl BadIndex)"

definition param_word :: "param2_t \<Rightarrow> u32 \<Rightarrow> u16" where
  "param_word p val =
     (let v16 = ucast val :: u16;
          v16 = (if param_lshift p > 0 then push_bit (nat (param_lshift p)) v16
                 else drop_bit (nat (- param_lshift p)) v16)
      in v16 AND param_mask p)"

fun build_params :: "DSPOPCTemplate \<Rightarrow> u32 \<Rightarrow> nat \<Rightarrow> param_t list \<Rightarrow> u16 list \<Rightarrow> u16 list asm_result" where
  "build_params opc addr i [] buf = Inr buf"
| "build_params opc addr i (par # pars) buf =
     bindE (template_param (Some opc) i) (\<lambda>p.
       bindE (if param_type p \<noteq> P_ACC_D \<and> param_type p \<noteq> P_ACCM_D
              then or_word (addr + of_nat (param_loc p)) (param_word p (par_val par)) buf else Inr buf)
         (build_params opc addr (Suc i) pars))"

definition BuildCode :: "DSPOPCTemplate \<Rightarrow> u32 \<Rightarrow> param_t list \<Rightarrow> u16 list \<Rightarrow> u16 list asm_result" where
  "BuildCode opc addr pars buf = bindE (or_word addr (opcode opc) buf) (build_params opc addr 0 pars)"

section \<open>Lines\<close>

text \<open>\<open>getline\<close> into a buffer of 1024 bytes: a longer line ends the loop over the lines.\<close>

definition getline :: "string \<Rightarrow> (string \<times> string) option" where
  "getline text =
     (let line = takeWhile (\<lambda>c. c \<noteq> CHR 0x0a) text in
      if text = [] \<or> length line > 1023 then None else Some (line, drop (Suc (length line)) text))"

definition to_upper :: "char \<Rightarrow> char" where
  "to_upper c = (if 97 \<le> code_of c \<and> code_of c \<le> 122 then char_of (code_of c - 32) else c)"

text \<open>
  Comments, tabs and upper case: one character and the next give the character to store, the comment
  mode and the case mode to go on with, and whether the next character is overwritten by a space.
\<close>

definition clean_char :: "bool \<Rightarrow> bool \<Rightarrow> char \<Rightarrow> char \<Rightarrow> char \<times> bool \<times> bool \<times> bool" where
  "clean_char disable upper c nextc =
     (let closes = (c = CHR ''*'' \<and> nextc = CHR ''/'' \<and> disable);
          disable = (if c = CHR ''/'' \<and> nextc = CHR ''*'' then \<not> disable else if closes then False else disable);
          c = (if c = CHR ''/'' \<and> nextc = CHR ''/'' then CHR 0x00 else if closes then CHR '' '' else c);
          c = (if disable \<and> code_of c > 32 then CHR '' '' else c);
          c = (if c \<in> {CHR 0x0d, CHR 0x0a, CHR '';''} then CHR 0x00 else c);
          c = (if c = CHR 0x09 then CHR '' '' else c);
          upper = (if c = CHR 0x22 then \<not> upper else upper)
      in (if upper then to_upper c else c, disable, upper, closes))"

definition blank_head :: "bool \<Rightarrow> string \<Rightarrow> string" where
  "blank_head closes cs = (case cs of [] \<Rightarrow> [] | n # ns \<Rightarrow> (if closes then CHR '' '' else n) # ns)"

lemma length_blank_head [simp]: "length (blank_head closes cs) = length cs"
  by (simp add: blank_head_def split: list.split)

text \<open>The cleaned line; the comment mode goes on to the next line.\<close>

function clean_line :: "bool \<Rightarrow> bool \<Rightarrow> string \<Rightarrow> string \<times> bool" where
  "clean_line disable upper [] = ([], disable)"
| "clean_line disable upper (c # cs) =
     (case clean_char disable upper c (char_at cs 0) of
        (c, disable, upper, closes) \<Rightarrow>
          if c = CHR 0x00 then ([], disable)
          else let (line, disable) = clean_line disable upper (blank_head closes cs) in (c # line, disable))"
  by pat_completeness auto

termination
  by (relation "measure (\<lambda>(disable, upper, cs). length cs)") simp_all

definition label_start :: "char \<Rightarrow> bool" where
  "label_start c \<longleftrightarrow> 65 \<le> code_of c \<and> code_of c \<le> 90 \<or> c = CHR ''_''"

definition label_char :: "char \<Rightarrow> bool" where
  "label_char c \<longleftrightarrow> is_decimal c \<or> label_start c"

text \<open>The label in front of a colon, when it is one, and the rest of the line.\<close>

definition split_label :: "string \<Rightarrow> string \<times> string" where
  "split_label line =
     (case split_at (CHR '':'') line of
        Some (label, behind) \<Rightarrow>
          if (label = [] \<or> label_start (hd label)) \<and> (\<forall>c\<in>set label. label_char c) then (label, behind)
          else ([], line)
      | None \<Rightarrow> ([], line))"

text \<open>Operation, extension, and the two groups of parameters.\<close>

definition split_operation ::
    "nat \<Rightarrow> string \<Rightarrow> DSPAssembler \<Rightarrow>
      (string option \<times> string option \<times> param_t list \<times> param_t list \<times> DSPAssembler) asm_result" where
  "split_operation fuel ptr a =
     (case strtok '' '' ptr of
        None \<Rightarrow> Inr (None, None, [], [], a)
      | Some (opname, rest) \<Rightarrow>
          let (opname, opname_ext) =
                (case split_at (CHR 0x27) opname of
                   None \<Rightarrow> (opname, None)
                 | Some (opc, ext) \<Rightarrow> (opc, if ext = [] then None else Some ext));
              (paramstr, paramstr_ext) =
                (if rest = [] then (None, None)
                 else case split_at (CHR '':'') rest of
                        None \<Rightarrow> (Some rest, None)
                      | Some (s, ext) \<Rightarrow> (Some s, Some ext));
              get = (\<lambda>s a. case s of None \<Rightarrow> Inr ([], a) | Some s \<Rightarrow> GetParams fuel s a)
          in bindE (get paramstr a) (\<lambda>(pars, a).
             bindE (get paramstr_ext a) (\<lambda>(pars_ext, a).
             Inr (Some opname, opname_ext, pars, pars_ext, a))))"

definition param0 :: "param_t list \<Rightarrow> param_t" where
  "param0 pars = (case pars of [] \<Rightarrow> no_param | p # ps \<Rightarrow> p)"

section \<open>Instructions and directives\<close>

definition emit :: "DSPOPCTemplate \<Rightarrow> param_t list \<Rightarrow> DSPOPCTemplate option \<Rightarrow> param_t list \<Rightarrow> DSPAssembler \<Rightarrow> DSPAssembler asm_result" where
  "emit opc pars opc_ext pars_ext a =
     (if unat (m_cur_addr a) < length (m_output_buffer a)
      then bindE (BuildCode opc (m_cur_addr a) pars ((m_output_buffer a)[unat (m_cur_addr a) := 0])) (\<lambda>buf.
           bindE (case opc_ext of None \<Rightarrow> Inr buf | Some x \<Rightarrow> BuildCode x (m_cur_addr a) pars_ext buf) (\<lambda>buf.
           Inr (a\<lparr>m_output_buffer := buf\<rparr>)))
      else Inl BadIndex)"

definition assemble_instruction ::
    "nat \<Rightarrow> string \<Rightarrow> string option \<Rightarrow> param_t list \<Rightarrow> param_t list \<Rightarrow> DSPAssembler \<Rightarrow> DSPAssembler asm_result" where
  "assemble_instruction pass opname opname_ext pars pars_ext a =
     (let (opc, a) = FindOpcode opname (length pars) Primary a;
          opc = (case opc of None \<Rightarrow> cw | Some opc \<Rightarrow> opc)
      in bindE (VerifyParams (Some opc) 0 pars a) (\<lambda>a.
         bindE (if extended opc
                then (case opname_ext of
                        Some ext \<Rightarrow>
                          let (x, a) = FindOpcode ext (length pars_ext) Extension a
                          in bindE (VerifyParams x 0 pars_ext a) (\<lambda>a. Inr (x, a))
                      | None \<Rightarrow>
                          Inr (None, if pars_ext \<noteq> [] then ShowError ExtensionParamsOnNonExtendableOpcode a else a))
                else let a = (if opname_ext \<noteq> None then ShowError CantExtendOpcode a else a);
                         a = (if pars_ext \<noteq> [] then ShowError ExtensionParamsOnNonExtendableOpcode a else a)
                     in Inr (None, a)) (\<lambda>(opc_ext, a).
         bindE (if pass = 2 then emit opc pars opc_ext pars_ext a else Inr a) (\<lambda>a.
         Inr (a\<lparr>m_cur_addr := m_cur_addr a + ucast (op_size opc),
               m_total_size := m_total_size a + ucast (op_size opc)\<rparr>)))))"

text \<open>The file to include, and the state.\<close>

definition string_param :: "param_t \<Rightarrow> string asm_result" where
  "string_param p = (case par_str p of None \<Rightarrow> Inl NullDeref | Some s \<Rightarrow> Inr s)"

definition process_operation ::
    "nat \<Rightarrow> string \<Rightarrow> string option \<Rightarrow> param_t list \<Rightarrow> param_t list \<Rightarrow> DSPAssembler
      \<Rightarrow> (string option \<times> DSPAssembler) asm_result" where
  "process_operation pass opname opname_ext pars pars_ext a =
     (let p0 = param0 pars in
      if opname = ''INCLUDE'' then
        if par_type p0 = P_STR
        then bindE (string_param p0) (\<lambda>s.
               Inr (Some (if m_include_dir a = [] then s else m_include_dir a @ ''/'' @ s), a))
        else Inr (None, ShowError ExpectedParamStr a)
      else if opname = ''INCDIR'' then
        if par_type p0 = P_STR then bindE (string_param p0) (\<lambda>s. Inr (None, a\<lparr>m_include_dir := s\<rparr>))
        else Inr (None, ShowError ExpectedParamStr a)
      else if opname = ''ORG'' then
        Inr (None, if par_type p0 = P_VAL
                   then a\<lparr>m_total_size := max (m_cur_addr a) (par_val p0), m_cur_addr := par_val p0\<rparr>
                   else ShowError ExpectedParamVal a)
      else if opname = ''WARNPC'' then
        Inr (None, if par_type p0 = P_VAL
                   then if m_cur_addr a > par_val p0 then ShowError PCOutOfRange a else a
                   else ShowError ExpectedParamVal a)
      else if opname = ''SEGMENT'' then
        if par_type p0 = P_STR
        then bindE (string_param p0) (\<lambda>s.
               let a = a\<lparr>m_segment_addr := (m_segment_addr a)(m_cur_segment a := m_cur_addr a)\<rparr>;
                   a = (if s = ''DATA'' then a\<lparr>m_cur_segment := SEGMENT_DATA\<rparr> else a);
                   a = (if s = ''CODE'' then a\<lparr>m_cur_segment := SEGMENT_CODE\<rparr> else a)
               in Inr (None, a\<lparr>m_cur_addr := m_segment_addr a (m_cur_segment a)\<rparr>))
        else Inr (None, ShowError ExpectedParamStr a)
      else bindE (assemble_instruction pass opname opname_ext pars pars_ext a) (\<lambda>a. Inr (None, a)))"

text \<open>A cleaned line: its label, then its operation.\<close>

definition register_line_label ::
    "nat \<Rightarrow> string \<Rightarrow> string option \<Rightarrow> param_t list \<Rightarrow> DSPAssembler \<Rightarrow> string option \<times> DSPAssembler" where
  "register_line_label pass label opname pars a =
     (if label = [] then (opname, a)
      else
        let (lval, opname) = (if opname = Some ''EQU'' then (par_val (param0 pars), None) else (m_cur_addr a, opname))
        in (opname,
            if pass = 1
            then let (ok, ls) = RegisterLabel label (ucast lval) LABEL_VALUE (m_labels a);
                     a = a\<lparr>m_labels := ls\<rparr>
                 in if ok then a else ShowError LabelAlreadyExists a
            else a))"

definition process_line :: "nat \<Rightarrow> nat \<Rightarrow> string \<Rightarrow> DSPAssembler \<Rightarrow> (string option \<times> DSPAssembler) asm_result" where
  "process_line fuel pass line a =
     (let (label, ptr) = split_label line in
      bindE (split_operation fuel ptr a) (\<lambda>(opname, opname_ext, pars, pars_ext, a).
        case register_line_label pass label opname pars a of
          (None, a) \<Rightarrow> Inr (None, a)
        | (Some opname, a) \<Rightarrow> process_operation pass opname opname_ext pars pars_ext a))"

section \<open>Passes\<close>

text \<open>\<open>files\<close> is what \<open>ReadFileToString\<close> leaves in the string: nothing when there is no file.\<close>

fun assemble_lines ::
    "nat \<Rightarrow> (string \<Rightarrow> string) \<Rightarrow> nat \<Rightarrow> bool \<Rightarrow> string \<Rightarrow> DSPAssembler \<Rightarrow> DSPAssembler asm_result" where
  "assemble_lines 0 files pass disable text a = Inl Unfinished"
| "assemble_lines (Suc k) files pass disable text a =
     (if m_failed a then Inr a
      else case getline text of
             None \<Rightarrow> Inr a
           | Some (line, text) \<Rightarrow>
               let (line, disable) = clean_line disable True line in
               bindE (process_line k pass line a) (\<lambda>(include, a).
               bindE (case include of
                        None \<Rightarrow> Inr a
                      | Some path \<Rightarrow> assemble_lines k files pass False (files path) (a\<lparr>m_cur_pass := pass\<rparr>)) (\<lambda>a.
               assemble_lines k files pass disable text a)))"

definition InitPass :: "nat \<Rightarrow> DSPAssembler \<Rightarrow> DSPAssembler" where
  "InitPass pass a =
     (let a = a\<lparr>m_failed := False\<rparr>;
          a = (if pass = 1
               then a\<lparr>m_labels := RegisterDefaults ClearLabels,
                      m_aliases := [(''S15'', ''SET15''), (''S16'', ''SET16''), (''S40'', ''SET40'')]\<rparr>
               else a)
      in a\<lparr>m_cur_addr := 0, m_total_size := 0, m_cur_segment := SEGMENT_CODE, m_segment_addr := (\<lambda>_. 0)\<rparr>)"

definition AssemblePass ::
    "nat \<Rightarrow> (string \<Rightarrow> string) \<Rightarrow> string \<Rightarrow> nat \<Rightarrow> DSPAssembler \<Rightarrow> (bool \<times> DSPAssembler) asm_result" where
  "AssemblePass fuel files text pass a =
     bindE (assemble_lines fuel files pass False text (a\<lparr>m_cur_pass := pass\<rparr>)) (\<lambda>a. Inr (\<not> m_failed a, a))"

definition resize :: "nat \<Rightarrow> u16 list \<Rightarrow> u16 list" where
  "resize n buf = take n buf @ replicate (n - length buf) 0"

text \<open>Success, the code, and the assembler.\<close>

definition Assemble :: "nat \<Rightarrow> (string \<Rightarrow> string) \<Rightarrow> string \<Rightarrow> DSPAssembler \<Rightarrow> (u16 list option \<times> DSPAssembler) asm_result" where
  "Assemble fuel files text a =
     bindE (AssemblePass fuel files text 1 (InitPass 1 a)) (\<lambda>(ok, a).
     if \<not> ok then Inr (None, a)
     else if sint (m_total_size a) \<le> 0 then Inr (None, a)
     else let a = a\<lparr>m_output_buffer := resize (unat (m_total_size a)) (m_output_buffer a)\<rparr> in
       bindE (AssemblePass fuel files text 2 (InitPass 2 a)) (\<lambda>(ok, a).
       if \<not> ok then Inr (None, a)
       else Inr (Some (m_output_buffer a), a\<lparr>m_output_buffer := [], m_last_error := OK\<rparr>)))"

definition new_assembler :: "bool \<Rightarrow> DSPAssembler" where
  "new_assembler force = \<lparr>m_force = force, m_output_buffer = [], m_include_dir = [], m_cur_addr = 0,
     m_total_size = 0, m_cur_pass = 0, m_labels = [], m_failed = False, m_last_error = OK, m_aliases = [],
     m_cur_segment = SEGMENT_CODE, m_segment_addr = (\<lambda>_. 0)\<rparr>"

end
