(* ===== verification/Dsp_CodeUtil.thy ===== *)
theory Dsp_CodeUtil
  imports Dsp_Assembler
begin

text \<open>
  The functions around the assembler and the disassembler (Source/Core/Core/DSP/DSPCodeUtil.cpp): one
  call for a text or a code, the comparison of two codes with its report, and codes as big-endian
  binary files.

  What the functions print is the text they return.  Files are a state of any type: \<open>read\<close> is
  \<open>File::ReadFileToString\<close> and \<open>write\<close> is \<open>File::WriteStringToFile\<close>, with success and the files after.
\<close>

unbundle bit_operations_syntax

section \<open>Text to code and back\<close>

text \<open>\<open>DSP::Assemble\<close>: the code when it succeeds.\<close>

definition DSP_Assemble :: "nat \<Rightarrow> (string \<Rightarrow> string) \<Rightarrow> string \<Rightarrow> bool \<Rightarrow> u16 list option asm_result" where
  "DSP_Assemble fuel files src force =
     bindE (Assemble fuel files src (new_assembler force)) (\<lambda>(code, a). Inr code)"

text \<open>\<open>DSP::Disassemble\<close>: success and the text appended to.\<close>

definition listing_settings :: "bool \<Rightarrow> AssemblerSettings" where
  "listing_settings line_numbers = default_settings\<lparr>show_hex := True, show_pc := line_numbers,
     ext_separator := CHR 0x27, decode_names := True, decode_registers := True\<rparr>"

definition DSP_Disassemble :: "u16 list \<Rightarrow> bool \<Rightarrow> string \<Rightarrow> (bool \<times> string) asm_result option" where
  "DSP_Disassemble code line_numbers dest =
     (if code = [] then Some (Inr (False, dest)) else Disassemble (listing_settings line_numbers) code dest)"

section \<open>Comparison\<close>

definition newline :: string where
  "newline = [CHR 0x0a]"

definition word_text :: "u16 \<Rightarrow> string" where
  "word_text w = show_hex_padded 4 (unat w)"

text \<open>One instruction as text, whether or not it could be disassembled.\<close>

definition line_at :: "u16 list \<Rightarrow> u16 \<Rightarrow> string asm_result" where
  "line_at code pc0 = bindE (DisassembleOpcode default_settings code pc0) (\<lambda>(ok, pc1, line). Inr line)"

text \<open>The second report on a difference: the word may be the operand of the instruction before it.\<close>

definition operand_report :: "u16 list \<Rightarrow> u16 list \<Rightarrow> u16 \<Rightarrow> string asm_result" where
  "operand_report code1 code2 i =
     (let n = unat i in
      if i \<ge> 1 \<and> code1 ! (n - 1) = code2 ! (n - 1) then
        (case FindOpInfoByOpcode (code1 ! (n - 1)) of
           None \<Rightarrow> Inr []
         | Some opc \<Rightarrow>
             if op_size opc = 2
             then bindE (line_at code1 (i - 1)) (\<lambda>line1.
                  bindE (line_at code2 (i - 1)) (\<lambda>line2.
                  Inr (''   (or '' @ word_text (i - 1) @ '' : '' @ word_text (code1 ! (n - 1)) @ '' '' @ word_text (code1 ! n)
                       @ '' vs '' @ word_text (code2 ! (n - 1)) @ '' '' @ word_text (code2 ! n) @ '' - '' @ line1
                       @ ''  vs  '' @ line2 @ '')'' @ newline)))
             else Inr [])
      else Inr [])"

text \<open>A difference at word \<open>i\<close>.\<close>

definition difference_report :: "u16 list \<Rightarrow> u16 list \<Rightarrow> u16 \<Rightarrow> string asm_result" where
  "difference_report code1 code2 i =
     bindE (line_at code1 i) (\<lambda>line1.
     bindE (line_at code2 i) (\<lambda>line2.
     bindE (operand_report code1 code2 i) (\<lambda>more.
     Inr (''!! '' @ word_text i @ '' : '' @ word_text (code1 ! unat i) @ '' vs '' @ word_text (code2 ! unat i)
          @ '' - '' @ line1 @ ''  vs  '' @ line2 @ newline @ more))))"

text \<open>The loop over the words both have: how many are equal, and the reports.\<close>

fun compare_words :: "u16 list \<Rightarrow> u16 list \<Rightarrow> nat list \<Rightarrow> u32 \<Rightarrow> string \<Rightarrow> (u32 \<times> string) asm_result" where
  "compare_words code1 code2 [] count_equal out = Inr (count_equal, out)"
| "compare_words code1 code2 (i # is) count_equal out =
     (if code1 ! i = code2 ! i then compare_words code1 code2 is (count_equal + 1) out
      else bindE (difference_report code1 code2 (of_nat i)) (\<lambda>s. compare_words code1 code2 is count_equal (out @ s)))"

text \<open>The loop over the words of the longer one; its 16-bit counter may never reach the end.\<close>

partial_function (option) extra_words :: "u16 list \<Rightarrow> u16 \<Rightarrow> string \<Rightarrow> string asm_result option" where
  [code]: "extra_words longest i out =
     (if unat i < length longest
      then (case line_at longest i of
              Inl e \<Rightarrow> Some (Inl e)
            | Inr line \<Rightarrow>
                extra_words longest (i + 1)
                  (out @ ''!! '' @ word_text i @ '' : '' @ word_text (longest ! unat i) @ '' - '' @ line @ newline))
      else Some (Inr out))"

definition size_report :: "u16 list \<Rightarrow> u16 list \<Rightarrow> string" where
  "size_report code1 code2 =
     (if length code1 \<noteq> length code2
      then ''Size difference! 1='' @ digits 10 (length code1) @ '' 2='' @ digits 10 (length code2) @ newline else [])"

text \<open>\<open>DSP::Compare\<close>: the answer and what it printed.\<close>

definition Compare :: "u16 list \<Rightarrow> u16 list \<Rightarrow> (bool \<times> string) asm_result option" where
  "Compare code1 code2 =
     (let min_size = of_nat (min (length code1) (length code2)) :: u16 in
      case compare_words code1 code2 [0..<unat min_size] 0 (size_report code1 code2) of
        Inl e \<Rightarrow> Some (Inl e)
      | Inr (count_equal, out) \<Rightarrow>
          (let finish = (\<lambda>out. Inr (length code1 = length code2 \<and> length code1 = unat count_equal,
                 out @ ''Equal instruction words: '' @ digits 10 (unat count_equal) @ '' / '' @ digits 10 (unat min_size) @ newline))
           in if length code2 \<noteq> length code1
              then map_option (\<lambda>m. bindE m finish)
                     (extra_words (if length code1 > length code2 then code1 else code2) min_size
                        (out @ ''Extra code words:'' @ newline))
              else Some (finish out)))"

section \<open>Binary files\<close>

definition CodeToBinaryStringBE :: "u16 list \<Rightarrow> string" where
  "CodeToBinaryStringBE code =
     concat (map (\<lambda>w. [char_of (unat (drop_bit 8 w)), char_of (unat (w AND 0xff))]) code)"

text \<open>The last byte of a string of odd length is left out.\<close>

fun BinaryStringBEToCode :: "string \<Rightarrow> u16 list" where
  "BinaryStringBEToCode (h # l # s) =
     (push_bit 8 (of_nat (of_char h)) OR of_nat (of_char l)) # BinaryStringBEToCode s"
| "BinaryStringBEToCode s = []"

definition LoadBinary :: "(string \<Rightarrow> 'fs \<Rightarrow> string option) \<Rightarrow> string \<Rightarrow> 'fs \<Rightarrow> u16 list option" where
  "LoadBinary read filename fs = map_option BinaryStringBEToCode (read filename fs)"

definition SaveBinary :: "(string \<Rightarrow> string \<Rightarrow> 'fs \<Rightarrow> bool \<times> 'fs) \<Rightarrow> u16 list \<Rightarrow> string \<Rightarrow> 'fs \<Rightarrow> bool \<times> 'fs" where
  "SaveBinary write code filename fs = write filename (CodeToBinaryStringBE code) fs"

text \<open>
  \<open>DumpDSPCode\<close>: a microcode in main memory, as bytes, to a binary file and a listing.  \<open>write_bytes\<close>
  is what the code calls to write the binary file, \<open>dir\<close> the directory for dumps.
\<close>

definition DumpDSPCode ::
    "string \<Rightarrow> (string \<Rightarrow> string \<Rightarrow> 'fs \<Rightarrow> bool \<times> 'fs) \<Rightarrow> (string \<Rightarrow> string \<Rightarrow> 'fs \<Rightarrow> bool \<times> 'fs)
      \<Rightarrow> string \<Rightarrow> u32 \<Rightarrow> 'fs \<Rightarrow> (bool \<times> 'fs) asm_result option" where
  "DumpDSPCode dir write_bytes write code_be crc fs =
     (let root_name = dir @ ''DSP_UC_'' @ map to_upper (show_hex_padded 8 (unat crc));
          (ok, fs) = write_bytes (root_name @ ''.bin'') code_be fs
      in if \<not> ok then Some (Inr (False, fs))
         else map_option (\<lambda>m. bindE m (\<lambda>(ok, listing).
                if \<not> ok then Inr (False, fs) else Inr (write (root_name @ ''.txt'') listing fs)))
              (DSP_Disassemble (BinaryStringBEToCode code_be) True []))"

section \<open>The round trip of the tests\<close>

text \<open>
  \<open>RoundTrippableDisassemble\<close> and \<open>RoundTrip\<close> of Source/UnitTests/Core/DSP/DSPAssemblyTest.cpp: a
  code is disassembled without addresses and hex words, assembled again, and compared.
\<close>

definition RoundTrippableDisassemble :: "u16 list \<Rightarrow> (bool \<times> string) asm_result option" where
  "RoundTrippableDisassemble code =
     Disassemble (default_settings\<lparr>ext_separator := CHR 0x27, decode_names := True, decode_registers := True,
       show_hex := False, show_pc := False\<rparr>) code []"

definition bind_tool :: "'a asm_result option \<Rightarrow> ('a \<Rightarrow> 'b asm_result option) \<Rightarrow> 'b asm_result option" where
  "bind_tool m f = (case m of None \<Rightarrow> None | Some (Inl e) \<Rightarrow> Some (Inl e) | Some (Inr x) \<Rightarrow> f x)"

definition RoundTrip :: "nat \<Rightarrow> (string \<Rightarrow> string) \<Rightarrow> u16 list \<Rightarrow> bool asm_result option" where
  "RoundTrip fuel files code1 =
     bind_tool (RoundTrippableDisassemble code1) (\<lambda>(ok, src).
     if \<not> ok then Some (Inr False)
     else bind_tool (Some (DSP_Assemble fuel files src False)) (\<lambda>code2.
          case code2 of
            None \<Rightarrow> Some (Inr False)
          | Some code2 \<Rightarrow> bind_tool (Compare code1 code2) (\<lambda>(equal, out). Some (Inr equal))))"

end
