(* ===== verification/Dsp_Build_Facts.thy ===== *)
theory Dsp_Build_Facts
  imports Dsp_Assembler
begin

text \<open>
  Disassembler against assembler, on instruction words: the parameters the disassembler prints are
  accepted by \<open>VerifyParams\<close>, and \<open>BuildCode\<close> gives back the bits of the word that the templates
  cover.  The tables enter through one check of the parameters that occur in them (\<open>param_ok\<close>).
\<close>

unbundle bit_operations_syntax

section \<open>The parameters in the tables\<close>

definition register_base :: "param2_t \<Rightarrow> u32" where
  "register_base p = drop_bit 8 (plain_type (param_type p) AND P_REGS_MASK)"

definition field_limit :: "param2_t \<Rightarrow> u32" where
  "field_limit p = drop_bit (nat (param_lshift p)) (ucast (param_mask p))"

abbreviation reversed :: "param2_t \<Rightarrow> bool" where
  "reversed p \<equiv> plain_type (param_type p) = P_ACC_D \<or> plain_type (param_type p) = P_ACCM_D"

definition field_ok :: "param2_t \<Rightarrow> bool" where
  "field_ok p \<longleftrightarrow> 0 \<le> param_lshift p \<and> param_lshift p < 16 \<and> param_loc p \<le> 1 \<and>
     push_bit (nat (param_lshift p)) (drop_bit (nat (param_lshift p)) (param_mask p)) = param_mask p"

text \<open>The range check of \<open>MADDC\<close> and \<open>MSUBC\<close> (\<open>P_REG19\<close>) only admits the lower register.\<close>

definition register_row_ok :: "param2_t \<Rightarrow> bool" where
  "register_row_ok p \<longleftrightarrow>
     register_base p AND field_limit p = 0 \<and> unat (register_base p) + unat (field_limit p) < 36 \<and>
     push_bit (nat (param_lshift p)) (ucast (register_base p)) AND param_mask p = 0 \<and>
     plain_type (param_type p) AND NOT P_REGS_MASK \<in> {P_REG, P_PRG} \<and> param_type p AND P_REG \<noteq> 0 \<and>
     (reversed p \<longrightarrow> field_limit p = 1) \<and>
     (if param_type p = P_REG19 then register_errors p (register_base p) = Inr []
      else list_all (\<lambda>v. register_errors p (of_nat v) = Inr [])
        [unat (register_base p) ..< Suc (unat (register_base p) + unat (field_limit p))])"

definition number_row_ok :: "param2_t \<Rightarrow> bool" where
  "number_row_ok p \<longleftrightarrow> param_lshift p = 0 \<and>
     (param_type p = P_IMM \<and> (if param_size p = 2 then param_mask p = 0xffff else param_mask p \<in> {0xff, 0x3f, 7}) \<or>
      param_type p = P_MEM \<and> (if param_size p = 2 then param_mask p = 0xffff else param_mask p = 0xff) \<or>
      param_type p \<in> {P_ADDR_I, P_ADDR_D} \<or> param_type p = P_VAL \<and> param_mask p \<in> {0xff, 0xffff})"

definition is_register :: "param2_t \<Rightarrow> bool" where
  "is_register p \<longleftrightarrow> plain_type (param_type p) AND P_REG \<noteq> 0"

definition param_ok :: "param2_t \<Rightarrow> bool" where
  "param_ok p \<longleftrightarrow> field_ok p \<and> (if is_register p then register_row_ok p else number_row_ok p)"

definition all_params :: "param2_t list" where
  "all_params = concat (map op_params (cw # s_opcodes @ s_opcodes_ext))"

definition param_rows :: "param2_t list" where
  "param_rows = [
     Param P_ACC 1 0 8 0x0100, Param P_ACC 1 0 9 0x0200, Param P_ACC 1 0 11 0x0800,
     Param P_ACCH 1 0 8 0x0100, Param P_ACCL 1 0 11 0x0800, Param P_ACCM 1 0 0 0x0001,
     Param P_ACCM 1 0 8 0x0100, Param P_ACCM 1 0 9 0x0200, Param P_ACCM 1 0 12 0x1000,
     Param P_ACCM_D 1 0 8 0x0100, Param P_ACC_D 1 0 8 0x0100, Param P_ADDR_I 2 1 0 0xffff,
     Param P_AX 1 0 4 0x0010, Param P_AX 1 0 8 0x0100, Param P_AX 1 0 9 0x0200,
     Param P_IMM 1 0 0 0x0007, Param P_IMM 1 0 0 0x003f, Param P_IMM 1 0 0 0x00ff,
     Param P_IMM 2 1 0 0xffff, Param P_MEM 1 0 0 0x00ff, Param P_MEM 2 1 0 0xffff,
     Param P_PRG 1 0 0 0x0003, Param P_PRG 1 0 5 0x0020, Param P_PRG 1 0 5 0x0060,
     Param P_REG 1 0 0 0x0003, Param P_REG 1 0 0 0x001f, Param P_REG 1 0 5 0x00e0,
     Param P_REG 1 0 5 0x03e0, Param P_REG04 1 0 2 0x000c, Param P_REG18 1 0 2 0x000c,
     Param P_REG18 1 0 4 0x0030, Param P_REG18 1 0 3 0x0038, Param P_REG18 1 0 8 0x0100,
     Param P_REG18 1 0 9 0x0200, Param P_REG18 1 0 9 0x0600, Param P_REG18 1 0 8 0x0700,
     Param P_REG18 1 0 11 0x0800, Param P_REG19 1 0 7 0x0100, Param P_REG1A 1 0 8 0x0100,
     Param P_REG1A 1 0 9 0x0200, Param P_REG1A 1 0 11 0x0800, Param P_REG1A 1 0 12 0x1000,
     Param P_REG1C 1 0 0 0x0003, Param P_REG1C 1 0 3 0x0018, Param P_REG1C 1 0 8 0x0300,
     Param P_REGM18 1 0 4 0x0020, Param P_REGM18 1 0 8 0x0200, Param P_REGM18 1 0 11 0x1000,
     Param P_REGM19 1 0 3 0x0010, Param P_REGM19 1 0 7 0x0100, Param P_REGM19 1 0 10 0x0800,
     Param P_VAL 1 0 0 0x00ff, Param P_VAL 2 0 0 0xffff]"

lemma param_rows_ok: "list_all param_ok param_rows"
  by code_simp

lemma param_oks: 
  "param_ok (Param P_ACC 1 0 8 0x0100)"
  "param_ok (Param P_ACC 1 0 9 0x0200)"
  "param_ok (Param P_ACC 1 0 11 0x0800)"
  "param_ok (Param P_ACCH 1 0 8 0x0100)"
  "param_ok (Param P_ACCL 1 0 11 0x0800)"
  "param_ok (Param P_ACCM 1 0 0 0x0001)"
  "param_ok (Param P_ACCM 1 0 8 0x0100)"
  "param_ok (Param P_ACCM 1 0 9 0x0200)"
  "param_ok (Param P_ACCM 1 0 12 0x1000)"
  "param_ok (Param P_ACCM_D 1 0 8 0x0100)"
  "param_ok (Param P_ACC_D 1 0 8 0x0100)"
  "param_ok (Param P_ADDR_I 2 1 0 0xffff)"
  "param_ok (Param P_AX 1 0 4 0x0010)"
  "param_ok (Param P_AX 1 0 8 0x0100)"
  "param_ok (Param P_AX 1 0 9 0x0200)"
  "param_ok (Param P_IMM 1 0 0 0x0007)"
  "param_ok (Param P_IMM 1 0 0 0x003f)"
  "param_ok (Param P_IMM 1 0 0 0x00ff)"
  "param_ok (Param P_IMM 2 1 0 0xffff)"
  "param_ok (Param P_MEM 1 0 0 0x00ff)"
  "param_ok (Param P_MEM 2 1 0 0xffff)"
  "param_ok (Param P_PRG 1 0 0 0x0003)"
  "param_ok (Param P_PRG 1 0 5 0x0020)"
  "param_ok (Param P_PRG 1 0 5 0x0060)"
  "param_ok (Param P_REG 1 0 0 0x0003)"
  "param_ok (Param P_REG 1 0 0 0x001f)"
  "param_ok (Param P_REG 1 0 5 0x00e0)"
  "param_ok (Param P_REG 1 0 5 0x03e0)"
  "param_ok (Param P_REG04 1 0 2 0x000c)"
  "param_ok (Param P_REG18 1 0 2 0x000c)"
  "param_ok (Param P_REG18 1 0 4 0x0030)"
  "param_ok (Param P_REG18 1 0 3 0x0038)"
  "param_ok (Param P_REG18 1 0 8 0x0100)"
  "param_ok (Param P_REG18 1 0 9 0x0200)"
  "param_ok (Param P_REG18 1 0 9 0x0600)"
  "param_ok (Param P_REG18 1 0 8 0x0700)"
  "param_ok (Param P_REG18 1 0 11 0x0800)"
  "param_ok (Param P_REG19 1 0 7 0x0100)"
  "param_ok (Param P_REG1A 1 0 8 0x0100)"
  "param_ok (Param P_REG1A 1 0 9 0x0200)"
  "param_ok (Param P_REG1A 1 0 11 0x0800)"
  "param_ok (Param P_REG1A 1 0 12 0x1000)"
  "param_ok (Param P_REG1C 1 0 0 0x0003)"
  "param_ok (Param P_REG1C 1 0 3 0x0018)"
  "param_ok (Param P_REG1C 1 0 8 0x0300)"
  "param_ok (Param P_REGM18 1 0 4 0x0020)"
  "param_ok (Param P_REGM18 1 0 8 0x0200)"
  "param_ok (Param P_REGM18 1 0 11 0x1000)"
  "param_ok (Param P_REGM19 1 0 3 0x0010)"
  "param_ok (Param P_REGM19 1 0 7 0x0100)"
  "param_ok (Param P_REGM19 1 0 10 0x0800)"
  "param_ok (Param P_VAL 1 0 0 0x00ff)"
  "param_ok (Param P_VAL 2 0 0 0xffff)"
  using param_rows_ok unfolding param_rows_def list.pred_inject by simp_all

lemma param_okI: "p \<in> set all_params \<Longrightarrow> param_ok p"
proof -
  have "list_all param_ok all_params"
    by (simp only: param_oks all_params_def append_Cons append_Nil cw_def list.map concat.simps list.pred_inject
      simp_thms list_all_append DSPOPCTemplate.sel
      s_opcodes_basic_def s_opcodes_ret_def s_opcodes_rti_def s_opcodes_call_def
      s_opcodes_if_def s_opcodes_jmp_def s_opcodes_jmpr_def s_opcodes_callr_def
      s_opcodes_imm_def s_opcodes_loop_def s_opcodes_lrs_def s_opcodes_add_def
      s_opcodes_acc_def s_opcodes_ctl_def s_opcodes_mul_def s_opcodes_mulc_def
      s_opcodes_shift_def s_opcodes_def s_opcodes_ext_def)
  then show "p \<in> set all_params \<Longrightarrow> param_ok p"
    by (simp add: list_all_iff)
qed

section \<open>What is printed, as the assembler reads it\<close>

definition field_word :: "param2_t \<Rightarrow> u16 \<Rightarrow> u16 \<Rightarrow> u16" where
  "field_word p op1 op2 = (if param_loc p \<ge> 1 then op2 else op1)"

definition printed_param :: "param2_t \<Rightarrow> u16 \<Rightarrow> u16 \<Rightarrow> param_t" where
  "printed_param p op1 op2 =
     (let (val, ty) = param_value p op1 op2 in
      if ty = P_REG \<or> ty = P_PRG then \<lparr>par_val = val, par_type = ty, par_str = None\<rparr>
      else if ty = P_IMM then
        \<lparr>par_val = (if param_size p \<noteq> 2 \<and> param_mask p = 0x3f \<and> val AND 0x20 \<noteq> 0 then val - 64 else val),
         par_type = P_IMM, par_str = None\<rparr>
      else if ty = P_MEM then
        \<lparr>par_val = (if param_size p \<noteq> 2 then ucast (scast (ucast val :: u8) :: u16) else val),
         par_type = P_MEM, par_str = None\<rparr>
      else \<lparr>par_val = val, par_type = P_VAL, par_str = None\<rparr>)"

lemma param_bits_field:
  "field_ok p \<Longrightarrow> param_bits p op1 op2 =
     drop_bit (nat (param_lshift p)) (ucast (field_word p op1 op2 AND param_mask p))"
  by (simp add: param_bits_def field_ok_def field_word_def Let_def unsigned_and_eq)

lemma param_bits_limit: "field_ok p \<Longrightarrow> param_bits p op1 op2 AND field_limit p = param_bits p op1 op2"
  by (auto simp: param_bits_field field_limit_def bit_simps intro!: bit_word_eqI)

text \<open>A register parameter: a value between the base register and the last one.\<close>

lemma disjoint_or_unat:
  fixes b l v :: u32
  assumes "b AND l = 0" "v AND l = v" "unat b + unat l < 36"
  shows "unat (v OR b) = unat b + unat v" and "unat v \<le> unat l"
proof -
  have "b AND v = b AND (v AND l)"
    using assms(2) by simp
  also have "\<dots> = (b AND l) AND v"
    by (simp only: and.assoc and.commute and.left_commute)
  finally have s: "v OR b = b + v"
    using assms(1) disjunctive_add_eq_or [of b v] by (simp add: or.commute)
  have "v AND l \<le> l"
    by (rule word_and_le1)
  then show l: "unat v \<le> unat l"
    using assms(2) by (simp add: word_le_nat_alt)
  show "unat (v OR b) = unat b + unat v"
    unfolding s using l assms(3) by (simp add: unat_word_ariths)
qed

lemma register_value:
  assumes "param_ok p" "is_register p" "(val, ty) = param_value p op1 op2"
  shows "val = (if reversed p then NOT (param_bits p op1 op2) AND 1 else param_bits p op1 op2) OR register_base p"
    and "ty \<in> {P_REG, P_PRG}"
  using assms by (auto simp: param_ok_def register_row_ok_def is_register_def param_value_def Let_def register_base_def)

lemma register_value_bounds:
  assumes "param_ok p" "is_register p" "(val, ty) = param_value p op1 op2"
  shows "unat (register_base p) \<le> unat val" "unat val \<le> unat (register_base p) + unat (field_limit p)" "unat val < 36"
proof -
  let ?v = "if reversed p then NOT (param_bits p op1 op2) AND 1 else param_bits p op1 op2"
  have f: "field_ok p" and b: "register_base p AND field_limit p = 0"
    "unat (register_base p) + unat (field_limit p) < 36" and d: "reversed p \<longrightarrow> field_limit p = 1"
    using assms(1, 2) by (auto simp: param_ok_def register_row_ok_def)
  have "?v AND field_limit p = ?v"
    using param_bits_limit [OF f] d by (simp add: and.assoc)
  note l = disjoint_or_unat [OF b(1) this b(2)]
  show "unat (register_base p) \<le> unat val" "unat val \<le> unat (register_base p) + unat (field_limit p)" "unat val < 36"
    using l b(2) unfolding register_value(1) [OF assms] by simp_all
qed

section \<open>Printed parameters are accepted\<close>

lemma printed_register_type: "param_ok p \<Longrightarrow> is_register p \<Longrightarrow>
    par_type (printed_param p op1 op2) \<in> {P_REG, P_PRG} \<and>
    par_val (printed_param p op1 op2) = fst (param_value p op1 op2)"
  using register_value(2) [of p _ _ op1 op2]
  by (fastforce simp: printed_param_def split: prod.split)

lemma registers_accepted:
  assumes "param_ok p" "is_register p" "param_type p = P_REG19 \<longrightarrow> field_word p op1 op2 AND param_mask p = 0"
  shows "verify_param p (printed_param p op1 op2) = Inr ([], True)"
proof -
  obtain val ty where v: "(val, ty) = param_value p op1 op2"
    by (metis surj_pair)
  note ok = assms(1, 2)
  have row: "register_row_ok p" and f: "field_ok p"
    using ok by (auto simp: param_ok_def)
  have "register_errors p val = Inr []"
  proof (cases "param_type p = P_REG19")
    case True
    then have "param_bits p op1 op2 = 0"
      using assms(3) f by (simp add: param_bits_field)
    moreover have "\<not> reversed p"
      using True by (simp add: plain_type_def)
    ultimately have "val = register_base p"
      using register_value(1) [OF ok v] by simp
    then show ?thesis
      using row True by (simp add: register_row_ok_def)
  next
    case False
    have "unat val \<in> set [unat (register_base p) ..< Suc (unat (register_base p) + unat (field_limit p))]"
      using register_value_bounds [OF ok v] by (auto simp del: upt_Suc)
    moreover have "list_all (\<lambda>v. register_errors p (of_nat v) = Inr [])
        [unat (register_base p) ..< Suc (unat (register_base p) + unat (field_limit p))]"
      using row False by (simp add: register_row_ok_def del: upt_Suc)
    ultimately have "register_errors p (of_nat (unat val)) = Inr []"
      unfolding list_all_iff by (rule bspec [rotated])
    then show ?thesis
      by simp
  qed
  moreover have "par_val (printed_param p op1 op2) = val" "par_type (printed_param p op1 op2) AND P_REG \<noteq> 0"
    "par_type (printed_param p op1 op2) \<noteq> P_VAL" "param_type p AND P_REG \<noteq> 0"
    using printed_register_type [OF ok, of op1 op2] row v [symmetric] by (auto simp: register_row_ok_def)
  ultimately show ?thesis
    by (simp add: verify_param_def)
qed

text \<open>Numbers: immediates, addresses and values.\<close>

lemma and_mask_le: "unat ((w :: u16) AND m) \<le> unat m"
  using word_and_le1 [of w m] by (simp add: word_le_nat_alt)

lemma number_bits:
  "param_ok p \<Longrightarrow> \<not> is_register p \<Longrightarrow> param_bits p op1 op2 = ucast (field_word p op1 op2 AND param_mask p)"
  by (auto simp: param_ok_def number_row_ok_def param_bits_field)

lemma number_value:
  assumes "param_ok p" "\<not> is_register p"
  shows "param_value p op1 op2 = (ucast (field_word p op1 op2 AND param_mask p), param_type p)"
proof -
  have "number_row_ok p"
    using assms by (simp add: param_ok_def)
  then have "plain_type (param_type p) = param_type p"
    by (auto simp: number_row_ok_def plain_type_def)
  with assms(2) show ?thesis
    by (simp add: param_value_def number_bits [OF assms] is_register_def Let_def)
qed

lemma get_mask_values:
  "get_mask_shifted_down 0xffff = Inr 0xffff" "get_mask_shifted_down 0xff = Inr 0xff"
  "get_mask_shifted_down 0x3f = Inr 0x3f" "get_mask_shifted_down 7 = Inr 7"
  by (simp_all add: get_mask_shifted_down_def eval_nat_numeral)

lemma sint_small: "uint (v :: u32) < 2 ^ 31 \<Longrightarrow> sint v = uint v"
  using order.trans [OF _ uint_ge_0, of "- (2 ^ 31)" v] by (simp add: sint_uint signed_take_bit_int_eq_self_iff)

lemma ucast_16_32:
  fixes v :: u16
  shows "uint (ucast v :: u32) = uint v" "sint (ucast v :: u32) = uint v" "\<not> 65535 < uint v"
  using uint_lt2p [of v] by (simp_all add: uint_up_ucast is_up sint_small)

lemma unat_ucast_16_32: "unat (ucast (v :: u16) :: u32) = unat v"
  unfolding unat_eq_nat_uint ucast_16_32 ..

lemma uint_and_le: "uint ((w :: u16) AND m) \<le> uint m"
  using word_and_le1 [of w m] by (simp add: word_le_def)

lemma numbers_in_range:
  fixes w :: u16
  shows "number_errors (Param P_IMM n l sh 0xffff) (ucast w) = Inr []"
    and "number_errors (Param P_IMM n l sh 0xff) (ucast (w AND 0xff)) = Inr []"
    and "number_errors (Param P_IMM n l sh 7) (ucast (w AND 7)) = Inr []"
    and "number_errors (Param P_MEM n l sh 0xffff) (ucast w) = Inr []"
    and "number_errors (Param P_VAL n l sh 0xff) (ucast (w AND 0xff)) = Inr []"
    and "number_errors (Param P_VAL n l sh 0xffff) (ucast w) = Inr []"
  subgoal by (simp add: number_errors_def get_mask_values ucast_16_32 Let_def)
  subgoal using uint_and_le [of w "0xff"] by (simp add: number_errors_def get_mask_values ucast_16_32 Let_def)
  subgoal using uint_and_le [of w 7] by (simp add: number_errors_def get_mask_values ucast_16_32 Let_def)
  subgoal by (simp add: number_errors_def get_mask_values ucast_16_32 Let_def)
  subgoal using uint_and_le [of w "0xff"] by (simp add: number_errors_def get_mask_values ucast_16_32 Let_def)
  subgoal by (simp add: number_errors_def get_mask_values ucast_16_32 Let_def)
  done

lemma sign_extended_address:
  fixes b :: u8
  shows "uint (scast b :: u16) \<le> 127 \<or> 0xff80 \<le> uint (scast b :: u16)"
proof -
  have "- 128 \<le> sint b" "sint b < 128"
    using sint_ge [of b] sint_lt [of b] by simp_all
  moreover have "uint (scast b :: u16) = sint b mod 65536"
    unfolding scast_eq uint_word_of_int by simp
  moreover have "sint b mod 65536 = sint b \<or> sint b mod 65536 = sint b + 65536"
    using calculation(1, 2) mod_pos_pos_trivial [of "sint b" 65536] mod_pos_pos_trivial [of "sint b + 65536" 65536]
    by fastforce
  moreover have "0 \<le> sint b mod 65536"
    by simp
  ultimately show ?thesis
    by linarith
qed

lemma short_addresses_in_range:
  "number_errors (Param P_MEM n l sh 0xff) (ucast (scast (b :: u8) :: u16)) = Inr []"
proof -
  have "uint (scast b :: u16) \<le> 127 \<or> (0xff80 :: u32) \<le> ucast (scast b :: u16)"
    using sign_extended_address [of b] by (simp add: word_le_def ucast_16_32)
  moreover have "(ucast (scast b :: u16) :: u32) \<le> 0xffff"
    using ucast_16_32(3) [of "scast b"] by (simp add: word_le_def ucast_16_32(1))
  ultimately show ?thesis
    by (auto simp: number_errors_def get_mask_values ucast_16_32 Let_def not_less [symmetric])
qed

definition shift_value :: "u32 \<Rightarrow> u32" where
  "shift_value v = (if v AND 0x20 \<noteq> 0 then v - 64 else v)"

lemma shift_amounts_in_range:
  "number_errors (Param P_IMM n l sh 0x3f) (shift_value (ucast (w AND 0x3f :: u16))) = Inr []"
proof -
  have e: "number_errors (Param P_IMM n l sh 0x3f) v = number_errors (Param P_IMM 0 0 0 0x3f) v" for v
    unfolding number_errors_def param2_t.sel ..
  have "list_all (\<lambda>k. number_errors (Param P_IMM 0 0 0 0x3f) (shift_value (of_nat k)) = Inr []) [0 ..< 64]"
    by code_simp
  moreover have "unat (w AND 0x3f) \<le> 63"
    using and_mask_le [of w "0x3f"] by simp
  then have "unat (ucast (w AND 0x3f :: u16) :: u32) \<in> set [0 ..< 64]"
    by (simp add: unat_ucast_16_32 del: upt_conv_Cons upt_Suc)
  ultimately have "number_errors (Param P_IMM 0 0 0 0x3f)
      (shift_value (of_nat (unat (ucast (w AND 0x3f :: u16) :: u32)))) = Inr []"
    unfolding list_all_iff by (rule bspec)
  then show ?thesis
    by (simp add: e)
qed

lemma ucast_16_32_8: "(ucast (ucast (v :: u16) :: u32) :: u8) = ucast v"
  by (rule bit_word_eqI) (simp add: bit_simps)

lemma printed_number:
  "param_ok p \<Longrightarrow> \<not> is_register p \<Longrightarrow> printed_param p op1 op2 =
     (let w = field_word p op1 op2 AND param_mask p in
      if param_type p = P_IMM then
        \<lparr>par_val = (if param_size p \<noteq> 2 \<and> param_mask p = 0x3f then shift_value (ucast w) else ucast w),
         par_type = P_IMM, par_str = None\<rparr>
      else if param_type p = P_MEM then
        \<lparr>par_val = ucast (if param_size p \<noteq> 2 then scast (ucast w :: u8) :: u16 else w), par_type = P_MEM, par_str = None\<rparr>
      else \<lparr>par_val = ucast w, par_type = P_VAL, par_str = None\<rparr>)"
  by (auto simp: printed_param_def number_value is_register_def plain_type_def shift_value_def Let_def
      ucast_16_32_8 param_ok_def number_row_ok_def)

lemma numbers_accepted:
  assumes "param_ok p" "\<not> is_register p"
  shows "verify_param p (printed_param p op1 op2) = Inr ([], True)"
proof -
  let ?w = "field_word p op1 op2" and ?v = "par_val (printed_param p op1 op2)"
  have row: "number_row_ok p"
    using assms by (simp add: param_ok_def)
  note pr = printed_number [OF assms, of op1 op2]
  have e: "number_errors p v = number_errors (Param (param_type p) 0 0 0 (param_mask p)) v" for v
    unfolding number_errors_def param2_t.sel ..
  consider "param_type p = P_IMM" "param_size p = 2" "param_mask p = 0xffff"
    | "param_type p = P_IMM" "param_size p \<noteq> 2" "param_mask p = 0xff"
    | "param_type p = P_IMM" "param_size p \<noteq> 2" "param_mask p = 0x3f"
    | "param_type p = P_IMM" "param_size p \<noteq> 2" "param_mask p = 7"
    | "param_type p = P_MEM" "param_size p = 2" "param_mask p = 0xffff"
    | "param_type p = P_MEM" "param_size p \<noteq> 2" "param_mask p = 0xff"
    | "param_type p \<in> {P_ADDR_I, P_ADDR_D}"
    | "param_type p = P_VAL" "param_mask p = 0xff"
    | "param_type p = P_VAL" "param_mask p = 0xffff"
    using row by (auto simp: number_row_ok_def split: if_splits)
  then have "param_type p \<in> {P_ADDR_I, P_ADDR_D} \<or>
      param_type p \<in> {P_IMM, P_MEM, P_VAL} \<and> number_errors p ?v = Inr []"
    by cases (simp_all add: pr e Let_def numbers_in_range short_addresses_in_range shift_amounts_in_range)
  then show ?thesis
    by (auto simp: verify_param_def pr Let_def)
qed

section \<open>Built words\<close>

lemma shifted_field:
  fixes x m :: u16
  assumes "push_bit s (drop_bit s m) = m"
  shows "push_bit s (ucast (drop_bit s (ucast (x AND m) :: u32))) AND m = x AND m"
proof (rule bit_word_eqI)
  fix n assume "n < LENGTH(16)"
  moreover have "bit m n \<longleftrightarrow> s \<le> n \<and> bit m n"
    using arg_cong [OF assms, of "\<lambda>w. bit w n"] by (auto simp: bit_simps)
  ultimately show "bit (push_bit s (ucast (drop_bit s (ucast (x AND m) :: u32))) AND m) n = bit (x AND m) n"
    by (auto simp: bit_simps)
qed

lemma param_word_field:
  "field_ok p \<Longrightarrow> param_word p val = push_bit (nat (param_lshift p)) (ucast val) AND param_mask p"
  by (auto simp: param_word_def field_ok_def Let_def)

lemma shift_value_bits: "(ucast (shift_value v) :: u16) AND 0x3f = ucast v AND 0x3f"
proof -
  have m: "(0x3f :: u16) = mask 6"
    by (simp add: mask_eq_exp_minus_1)
  have "uint (take_bit 6 (ucast (v - 64) :: u16)) = uint (take_bit 6 (ucast v :: u16))"
    unfolding unsigned_take_bit_eq unsigned_ucast_eq uint_word_ariths
    by (simp add: take_bit_eq_mod mod_mod_cancel)
  then have "(ucast (v - 64) :: u16) AND 0x3f = ucast v AND 0x3f"
    unfolding m take_bit_eq_mask [symmetric] word_uint_eq_iff .
  then show ?thesis
    by (simp add: shift_value_def)
qed

lemma sign_extended_bits: "(scast (ucast w :: u8) :: u16) AND 0xff = (w :: u16) AND 0xff"
proof -
  have m: "(0xff :: u16) = mask 8"
    by (simp add: mask_eq_exp_minus_1)
  show ?thesis
    unfolding m by (rule bit_word_eqI) (auto simp: bit_simps)
qed

text \<open>A parameter, printed and read, gives back the bits of its field.\<close>

lemma printed_bits:
  assumes "param_ok p" "\<not> reversed p"
  shows "param_word p (par_val (printed_param p op1 op2)) = field_word p op1 op2 AND param_mask p"
proof (cases "is_register p")
  case True
  obtain val ty where v: "(val, ty) = param_value p op1 op2"
    by (metis surj_pair)
  have f: "field_ok p" and b: "push_bit (nat (param_lshift p)) (ucast (register_base p)) AND param_mask p = 0"
    using assms(1) True by (auto simp: param_ok_def register_row_ok_def)
  have "par_val (printed_param p op1 op2) = param_bits p op1 op2 OR register_base p"
    using printed_register_type [OF assms(1) True, of op1 op2] register_value(1) [OF assms(1) True v] assms(2)
    by (simp add: v [symmetric])
  then have "param_word p (par_val (printed_param p op1 op2)) =
      push_bit (nat (param_lshift p)) (ucast (param_bits p op1 op2)) AND param_mask p"
    using b by (simp add: param_word_field [OF f] unsigned_or_eq push_bit_or and.commute [of _ "param_mask p"] bit.conj_disj_distrib)
  then show ?thesis
    using f by (simp add: param_bits_field shifted_field field_ok_def)
next
  case False
  have f: "field_ok p" and n: "number_row_ok p"
    using assms(1) False by (auto simp: param_ok_def)
  have "ucast (par_val (printed_param p op1 op2)) AND param_mask p = field_word p op1 op2 AND param_mask p"
    using n by (auto simp: printed_number [OF assms(1) False] number_row_ok_def Let_def shift_value_bits
        sign_extended_bits split: if_splits)
  then show ?thesis
    using n by (auto simp: param_word_field [OF f] number_row_ok_def)
qed

end
