(* ===== verification/Dsp_Template_Facts.thy ===== *)
theory Dsp_Template_Facts
  imports Dsp_Build_Facts
begin

text \<open>
  What the assembler and the disassembler rely on in the instruction tables: sizes, covered bits,
  names, and that every extension word has a template.
\<close>

unbundle bit_operations_syntax

section \<open>The templates\<close>

text \<open>The bits of the instruction word, or of the operand word, that the parameters give back.\<close>

fun field_bits :: "nat \<Rightarrow> param2_t list \<Rightarrow> u16" where
  "field_bits k [] = 0"
| "field_bits k (p # ps) =
     (if param_loc p = k \<and> param_type p \<noteq> P_ACC_D \<and> param_type p \<noteq> P_ACCM_D then param_mask p else 0) OR field_bits k ps"

definition template_ok :: "DSPOPCTemplate \<Rightarrow> bool" where
  "template_ok opc \<longleftrightarrow> op_param_count opc = length (op_params opc) \<and> opcode opc AND opcode_mask opc = opcode opc \<and>
     (op_size opc = 1 \<and> list_all (\<lambda>p. param_loc p = 0) (op_params opc) \<or>
      op_size opc = 2 \<and> field_bits 1 (op_params opc) = 0xffff) \<and>
     (extended opc \<longleftrightarrow> drop_bit 12 (opcode opc) \<ge> 3) \<and> (extended opc \<longrightarrow> op_size opc = 1)"

lemma main_templates_ok: "list_all template_ok (cw # s_opcodes)"
  by code_simp

lemma ext_templates_ok: "list_all (\<lambda>opc. template_ok opc \<and> op_size opc = 1) s_opcodes_ext"
  by code_simp

lemma ext_masks_ok: "masks_ok opcode_mask opcode s_opcodes_ext"
  by code_simp

lemma main_template_in: "main_template w \<in> set (cw # s_opcodes)"
  by (auto simp: main_template_def FindOpInfoByOpcode_def FindByOpcode_def find_Some_iff split: option.split)

lemma main_template_ok: "template_ok (main_template w)"
  using main_templates_ok main_template_in by (auto simp: list_all_iff simp del: set_simps)

lemma main_template_matches: "w AND opcode_mask (main_template w) = opcode (main_template w)"
  by (auto simp: main_template_def FindOpInfoByOpcode_def FindByOpcode_def find_Some_iff cw_def split: option.split)

section \<open>Every extension has a template\<close>

text \<open>The extension patterns leave the high byte open, so eight bits are to be covered.\<close>

abbreviation ext_patterns :: "(DSPOPCTemplate \<times> pattern) list" where
  "ext_patterns \<equiv> patterns opcode_mask opcode s_opcodes_ext"

lemma ext_patterns_low: "list_all (\<lambda>y. list_all (\<lambda>b. b = None) (take 8 (snd y))) ext_patterns"
  by code_simp

lemma ext_covered: "covered 8 [((), replicate 8 None)] (map (\<lambda>y. ((), drop 8 (snd y))) ext_patterns)"
  by code_simp

lemma accepts_open:
  "list_all (\<lambda>b. b = None) (take n ps) \<Longrightarrow> length ps = length bs \<Longrightarrow>
    accepts ps bs = accepts (drop n ps) (drop n bs)"
  by (induction ps bs arbitrary: n rule: accepts.induct) (auto simp: take_Cons' drop_Cons' split: if_splits nat.splits)

lemma extension_exists: "\<exists>x\<in>set s_opcodes_ext. FindExtOpInfoByOpcode w = Some x \<and> w AND opcode_mask x = opcode x"
proof -
  have "hits [((), replicate 8 None)] (drop 8 (bits_of w)) \<noteq> []"
    by (simp add: hits_def accepts_wildcard [of "replicate 8 None"] list_all_iff)
  then have "hits (map (\<lambda>y. ((), drop 8 (snd y))) ext_patterns) (drop 8 (bits_of w)) \<noteq> []"
    by (rule covered_hits [rotated 2]) (use ext_covered in \<open>auto simp: patterns_def\<close>)
  then obtain x where x: "x \<in> set ext_patterns" "accepts (drop 8 (snd x)) (drop 8 (bits_of w))"
    by (auto simp: hits_def filter_empty_conv)
  then have "list_all (\<lambda>b. b = None) (take 8 (snd x))" "length (snd x) = length (bits_of w)"
    using ext_patterns_low patterns_length [of opcode_mask opcode s_opcodes_ext] by (auto simp: list_all_iff)
  with x have "fst x \<in> set (hits ext_patterns (bits_of w))"
    by (auto simp: hits_def accepts_open)
  then have "fst x \<in> set s_opcodes_ext" "w AND opcode_mask (fst x) = opcode (fst x)"
    by (auto simp: hits_patterns [OF ext_masks_ok])
  then show ?thesis
    unfolding FindExtOpInfoByOpcode_def FindByOpcode_def
    by (cases "find (\<lambda>info. w AND opcode_mask info = opcode info) s_opcodes_ext")
      (auto simp: find_None_iff find_Some_iff)
qed

section \<open>Names\<close>

text \<open>Upper-case letters and their neighbours, and digits; stated on bits, which evaluates fast.\<close>

fun name_char :: "char \<Rightarrow> bool" where
  "name_char (Char b0 b1 b2 b3 b4 b5 b6 b7) \<longleftrightarrow>
     \<not> b7 \<and> (if b6 then \<not> b5 \<and> (b4 \<or> b3 \<or> b2 \<or> b1 \<or> b0) else b5 \<and> b4 \<and> (b3 \<longrightarrow> \<not> b2 \<and> \<not> b1))"

lemma name_char_code: "name_char c \<Longrightarrow> 48 \<le> code_of c \<and> code_of c \<le> 57 \<or> 65 \<le> code_of c \<and> code_of c \<le> 95"
  by (cases c) (auto simp: code_of_def of_char_def split: if_splits)

definition name_ok :: "string \<Rightarrow> bool" where
  "name_ok nm \<longleftrightarrow> nm \<noteq> [] \<and> list_all name_char nm \<and> length nm < 12 \<and> take 2 nm \<noteq> ''CW'' \<and>
     nm \<notin> set [''S15'', ''S16'', ''S40'', ''EQU'', ''INCLUDE'', ''INCDIR'', ''ORG'', ''WARNPC'', ''SEGMENT'']"

lemma main_names_ok: "list_all (\<lambda>opc. name_ok (op_name opc)) s_opcodes"
  by code_simp

lemma ext_names_ok: "list_all (\<lambda>opc. name_ok (op_name opc)) s_opcodes_ext"
  by code_simp

text \<open>A quick test that names are different, branching on one bit at a time.\<close>

definition tails :: "bool \<Rightarrow> bool list list \<Rightarrow> bool list list" where
  "tails b xs = concat (map (\<lambda>x. case x of [] \<Rightarrow> [] | c # cs \<Rightarrow> if c = b then [cs] else []) xs)"

fun no_branch :: "bool list list \<Rightarrow> bool" where
  "no_branch [] = True" | "no_branch [x] = True" | "no_branch (x # y # zs) = False"

fun radix_distinct :: "nat \<Rightarrow> bool list list \<Rightarrow> bool" where
  "radix_distinct 0 xs = no_branch xs"
| "radix_distinct (Suc n) xs =
     (if no_branch xs then True
      else if no_branch (filter (\<lambda>x. x = []) xs) then
        if radix_distinct n (tails False xs) then radix_distinct n (tails True xs) else False
      else False)"

lemma no_branch_distinct: "no_branch xs \<Longrightarrow> distinct xs"
  by (induction xs rule: no_branch.induct) auto

lemma distinct_tails:
  "distinct (filter (\<lambda>x. x = []) xs) \<Longrightarrow> distinct (tails False xs) \<Longrightarrow> distinct (tails True xs) \<Longrightarrow> distinct xs"
  unfolding tails_def by (induction xs) (force split: list.splits if_splits)+

lemma radix_distinct: "radix_distinct n xs \<Longrightarrow> distinct xs"
  by (induction n xs rule: radix_distinct.induct)
    (auto intro: no_branch_distinct distinct_tails split: if_splits)

fun char_bits :: "string \<Rightarrow> bool list" where
  "char_bits [] = []"
| "char_bits (Char b0 b1 b2 b3 b4 b5 b6 b7 # cs) = [b0, b1, b2, b3, b4, b5, b6, b7] @ char_bits cs"

lemma char_bits_inj: "char_bits xs = char_bits ys \<longleftrightarrow> xs = ys"
  by (induction xs arbitrary: ys rule: char_bits.induct) (case_tac ys; case_tac "hd ys"; auto)+

lemma main_names_differ: "radix_distinct 96 (map (\<lambda>x. char_bits (op_name x)) s_opcodes)"
  by code_simp

lemma ext_names_differ: "radix_distinct 96 (map (\<lambda>x. char_bits (op_name x)) s_opcodes_ext)"
  by code_simp

lemma find_by_name:
  assumes "radix_distinct n (map (\<lambda>x. char_bits (op_name x)) table)" "opc \<in> set table"
  shows "find (\<lambda>info. op_name info = op_name opc) table = Some opc"
  using radix_distinct [OF assms(1)] assms(2)
  by (induction table) (auto simp: char_bits_inj)

end
