(* ===== verification/Dsp_Build_Words.thy ===== *)
theory Dsp_Build_Words
  imports Dsp_Template_Facts
begin

text \<open>
  Whole instructions: the words \<open>BuildCode\<close> makes of the parameters the disassembler prints are the
  bits of the instruction that its templates cover.
\<close>

unbundle bit_operations_syntax

section \<open>One template\<close>

text \<open>\<open>|=\<close> on an element of the buffer.\<close>

definition or_at :: "nat \<Rightarrow> u16 \<Rightarrow> u16 list \<Rightarrow> u16 list" where
  "or_at i v buf = buf[i := (buf ! i) OR v]"

lemma length_or_at [simp]: "length (or_at i v buf) = length buf"
  by (simp add: or_at_def)

lemma or_at_or_at [simp]: "or_at i v (or_at i w buf) = or_at i (w OR v) buf"
  by (cases "i < length buf") (simp_all add: or_at_def or.assoc list_update_beyond)

lemma or_at_swap: "i \<noteq> j \<Longrightarrow> or_at i v (or_at j w buf) = or_at j w (or_at i v buf)"
  by (simp add: or_at_def list_update_swap)

lemma or_at_0 [simp]: "or_at i 0 buf = buf"
  by (simp add: or_at_def)

lemma or_at_cleared:
  "i < length buf \<Longrightarrow> or_at i v (or_at (Suc i) w (buf[i := 0])) = or_at (Suc i) w (buf[i := v])"
  by (simp add: or_at_def list_update_swap [of i "Suc i"])

lemma or_at_set: "i < length buf \<Longrightarrow> or_at i v (buf[i := u]) = buf[i := u OR v]"
  by (simp add: or_at_def)

lemma or_word_or_at: "unat i < length buf \<Longrightarrow> or_word i v buf = Inr (or_at (unat i) v buf)"
  by (simp add: or_word_def or_at_def)

lemma reversed_iff: "reversed p \<longleftrightarrow> param_type p = P_ACC_D \<or> param_type p = P_ACCM_D"
proof -
  have "ty AND 0xff00 = v \<Longrightarrow> v AND 0xff00 = v" for ty v :: u32
    by (auto simp: and.assoc)
  from this [of "param_type p" P_ACC_D] this [of "param_type p" P_ACCM_D] show ?thesis
    by (auto simp: plain_type_def)
qed

definition printed_params :: "DSPOPCTemplate \<Rightarrow> u16 \<Rightarrow> u16 \<Rightarrow> param_t list" where
  "printed_params opc op1 op2 = map (\<lambda>p. printed_param p op1 op2) (op_params opc)"

lemma build_printed:
  fixes addr :: u32
  assumes "\<And>k. k < length ps \<Longrightarrow> template_param (Some opc) (i + k) = Inr (ps ! k)"
    and "list_all param_ok ps" "unat addr < length buf" "length buf < 0x100000000"
    and "list_all (\<lambda>p. param_loc p = 0) ps \<or> Suc (unat addr) < length buf"
  shows "build_params opc addr i (map (\<lambda>p. printed_param p op1 op2) ps) buf =
    Inr (or_at (unat addr) (op1 AND field_bits 0 ps) (or_at (Suc (unat addr)) (op2 AND field_bits 1 ps) buf))"
  using assms
proof (induction ps arbitrary: i buf)
  case Nil
  then show ?case by simp
next
  case (Cons p ps)
  have t: "template_param (Some opc) i = Inr p"
    using Cons.prems(1) [of 0] by simp
  have p: "param_ok p" "param_loc p = 0 \<or> param_loc p = 1"
    using Cons.prems(2) by (auto simp: param_ok_def field_ok_def)
  have ix: "unat (addr + of_nat (param_loc p)) = unat addr + param_loc p" "unat addr + param_loc p < length buf"
    using p(2) Cons.prems(3-5) by (auto simp: unat_word_ariths)
  let ?v = "if param_type p \<noteq> P_ACC_D \<and> param_type p \<noteq> P_ACCM_D
            then field_word p op1 op2 AND param_mask p else 0"
  have "(if param_type p \<noteq> P_ACC_D \<and> param_type p \<noteq> P_ACCM_D
      then or_word (addr + of_nat (param_loc p)) (param_word p (par_val (printed_param p op1 op2))) buf
      else Inr buf) = Inr (or_at (unat addr + param_loc p) ?v buf)"
    using ix by (auto simp: or_word_or_at reversed_iff printed_bits [OF p(1)])
  then have "build_params opc addr i (map (\<lambda>p. printed_param p op1 op2) (p # ps)) buf =
      build_params opc addr (Suc i) (map (\<lambda>p. printed_param p op1 op2) ps) (or_at (unat addr + param_loc p) ?v buf)"
    by (simp add: t)
  also have "\<dots> = Inr (or_at (unat addr) (op1 AND field_bits 0 ps)
      (or_at (Suc (unat addr)) (op2 AND field_bits 1 ps) (or_at (unat addr + param_loc p) ?v buf)))"
    using Cons.prems(2-5) Cons.prems(1) [of "Suc _"] by (intro Cons.IH) auto
  also have "\<dots> = Inr (or_at (unat addr) (op1 AND field_bits 0 (p # ps))
      (or_at (Suc (unat addr)) (op2 AND field_bits 1 (p # ps)) buf))"
    using p(2) or_at_swap [of "unat addr" "Suc (unat addr)"]
    by (auto simp: field_word_def bit.conj_disj_distrib)
  finally show ?case .
qed

section \<open>Whole instructions\<close>

text \<open>The bits of the instruction word that its templates account for.\<close>

definition extension_limit :: "u16 \<Rightarrow> u16" where
  "extension_limit op1 = (if drop_bit 12 (opcode (main_template op1)) = 3 then 0x7f else 0xffff)"

definition kept_bits :: "u16 \<Rightarrow> u16" where
  "kept_bits op1 =
     (let opc = main_template op1 in
      opcode_mask opc OR field_bits 0 (op_params opc) OR
      (case extension_word opc op1 of
         None \<Rightarrow> 0
       | Some w \<Rightarrow>
           (case FindExtOpInfoByOpcode w of
              None \<Rightarrow> 0
            | Some x \<Rightarrow> (extension_limit op1 AND opcode_mask x) OR field_bits 0 (op_params x))))"

lemma template_param_in: "k < length (op_params opc) \<Longrightarrow> template_param (Some opc) k = Inr (op_params opc ! k)"
  by (simp add: template_param_def)

lemma params_ok: "opc \<in> set (cw # s_opcodes @ s_opcodes_ext) \<Longrightarrow> list_all param_ok (op_params opc)"
  by (auto simp: list_all_iff all_params_def intro!: param_okI)

lemma one_word_field_bits: "list_all (\<lambda>p. param_loc p = 0) ps \<Longrightarrow> field_bits 1 ps = 0"
  by (induction ps) auto

lemma and_all_bits: "(w :: u16) AND 0xffff = w"
proof -
  have m: "(0xffff :: u16) = mask 16"
    by (simp add: mask_eq_exp_minus_1)
  show ?thesis
    unfolding m by (rule bit_word_eqI) (simp add: bit_simps)
qed

lemma BuildCode_printed:
  assumes opc: "opc \<in> set (cw # s_opcodes @ s_opcodes_ext)" "template_ok opc"
    and buf: "unat addr + unat (op_size opc) \<le> length buf" "length buf < 0x100000000"
  shows "BuildCode opc addr (printed_params opc op1 op2) buf =
    Inr (or_at (unat addr) (opcode opc OR (op1 AND field_bits 0 (op_params opc)))
      (or_at (Suc (unat addr)) (if op_size opc = 2 then op2 else 0) buf))"
proof -
  have sz: "op_size opc = 1 \<and> list_all (\<lambda>p. param_loc p = 0) (op_params opc) \<or>
      op_size opc = 2 \<and> field_bits 1 (op_params opc) = 0xffff"
    using opc(2) by (auto simp: template_ok_def)
  then have l: "unat addr < length buf" "list_all (\<lambda>p. param_loc p = 0) (op_params opc) \<or> Suc (unat addr) < length buf"
    using buf by auto
  have "BuildCode opc addr (printed_params opc op1 op2) buf =
      build_params opc addr 0 (printed_params opc op1 op2) (or_at (unat addr) (opcode opc) buf)"
    using l by (simp add: BuildCode_def or_word_or_at)
  also have "\<dots> = Inr (or_at (unat addr) (op1 AND field_bits 0 (op_params opc))
      (or_at (Suc (unat addr)) (op2 AND field_bits 1 (op_params opc)) (or_at (unat addr) (opcode opc) buf)))"
    unfolding printed_params_def
    using l buf(2) template_param_in params_ok [OF opc(1)] by (intro build_printed) auto
  also have "op2 AND field_bits 1 (op_params opc) = (if op_size opc = 2 then op2 else 0)"
    using sz one_word_field_bits [of "op_params opc"] by (elim disjE) (simp_all add: and_all_bits)
  finally show ?thesis
    by (simp add: or_at_swap [of "Suc (unat addr)" "unat addr"])
qed

lemma main_template_in_tables: "main_template op1 \<in> set (cw # s_opcodes @ s_opcodes_ext)"
  using main_template_in [of op1] by auto

lemma extension_in_tables:
  assumes "extension_word opc op1 = Some w"
  obtains x where "FindExtOpInfoByOpcode w = Some x" "x \<in> set s_opcodes_ext" "w AND opcode_mask x = opcode x"
    "template_ok x" "op_size x = 1"
proof -
  obtain x where "x \<in> set s_opcodes_ext" "FindExtOpInfoByOpcode w = Some x" "w AND opcode_mask x = opcode x"
    using extension_exists [of w] by blast
  moreover have "template_ok x \<and> op_size x = 1"
    using ext_templates_ok calculation(1) unfolding list_all_iff by (rule bspec)
  ultimately show ?thesis
    using that by simp
qed

lemma extension_word_bits:
  assumes "extension_word (main_template op1) op1 = Some w"
  shows "w = op1 AND extension_limit op1" "extended (main_template op1)"
  using assms main_template_ok [of op1]
  by (auto simp: extension_word_def extension_limit_def and_all_bits template_ok_def split: if_splits)

text \<open>The words of an instruction and of its extension, as the assembler builds them.\<close>

definition build_instruction :: "u16 \<Rightarrow> u16 \<Rightarrow> u32 \<Rightarrow> u16 list \<Rightarrow> u16 list asm_result" where
  "build_instruction op1 op2 addr buf =
     (let opc = main_template op1 in
      bindE (BuildCode opc addr (printed_params opc op1 op2) (buf[unat addr := 0])) (\<lambda>buf.
        case extension_word opc op1 of
          None \<Rightarrow> Inr buf
        | Some w \<Rightarrow>
            (case FindExtOpInfoByOpcode w of
               None \<Rightarrow> Inl NullDeref
             | Some x \<Rightarrow> BuildCode x addr (printed_params x op1 op2) buf)))"

lemma build_instruction_bits:
  assumes "unat addr + unat (op_size (main_template op1)) \<le> length buf" "length buf < 0x100000000"
  shows "build_instruction op1 op2 addr buf =
    Inr (or_at (Suc (unat addr)) (if op_size (main_template op1) = 2 then op2 else 0)
      (buf[unat addr := op1 AND kept_bits op1]))"
proof -
  let ?opc = "main_template op1"
  have sz: "op_size ?opc = 1 \<or> op_size ?opc = 2"
    using main_template_ok by (auto simp: template_ok_def)
  then have l: "unat addr < length buf"
    using assms(1) by auto
  note main = BuildCode_printed [OF main_template_in_tables main_template_ok,
      of addr op1 "buf[unat addr := 0]" op1 op2, simplified, OF assms]
  have code: "opcode ?opc = op1 AND opcode_mask ?opc"
    by (simp add: main_template_matches)
  show ?thesis
  proof (cases "extension_word ?opc op1")
    case None
    then show ?thesis
      using l by (simp add: build_instruction_def Let_def main code kept_bits_def bit.conj_disj_distrib or_at_cleared)
  next
    case (Some w)
    from Some obtain x where x: "FindExtOpInfoByOpcode w = Some x" "x \<in> set s_opcodes_ext"
      "w AND opcode_mask x = opcode x" "template_ok x" "op_size x = 1"
      by (rule extension_in_tables)
    have xcode: "opcode x = op1 AND (extension_limit op1 AND opcode_mask x)"
      using x(3) extension_word_bits(1) [OF Some] by (simp add: and.assoc)
    have one: "op_size ?opc = 1"
      using main_template_ok [of op1] extension_word_bits(2) [OF Some] by (simp add: template_ok_def)
    show ?thesis
      using l x BuildCode_printed [of x addr "or_at (unat addr) _ (buf[unat addr := 0])" op1 op2] assms one
      by (simp add: build_instruction_def Let_def main code Some kept_bits_def bit.conj_disj_distrib
          or_at_set xcode or.assoc)
  qed
qed

section \<open>Verified\<close>

text \<open>
  \<open>MADDC\<close> and \<open>MSUBC\<close> with the upper register are the instructions whose printed parameters
  the assembler refuses.
\<close>

definition refused :: "u16 \<Rightarrow> bool" where
  "refused op1 \<longleftrightarrow> list_ex (\<lambda>p. param_type p = P_REG19 \<and> op1 AND param_mask p \<noteq> 0) (op_params (main_template op1))"

lemma printed_accepted:
  assumes "p \<in> set all_params" "param_type p = P_REG19 \<longrightarrow> field_word p op1 op2 AND param_mask p = 0"
  shows "verify_param p (printed_param p op1 op2) = Inr ([], True)"
  using registers_accepted [OF param_okI [OF assms(1)] _ assms(2)] numbers_accepted [OF param_okI [OF assms(1)]]
  by blast

lemma VerifyParams_printed:
  assumes "\<And>k. k < length ps \<Longrightarrow> template_param (Some opc) (i + k) = Inr (ps ! k)"
    and "\<And>p. p \<in> set ps \<Longrightarrow> verify_param p (printed_param p op1 op2) = Inr ([], True)"
  shows "VerifyParams (Some opc) i (map (\<lambda>p. printed_param p op1 op2) ps) a = Inr a"
  using assms
proof (induction ps arbitrary: i)
  case (Cons p ps)
  have "template_param (Some opc) i = Inr p" "verify_param p (printed_param p op1 op2) = Inr ([], True)"
    using Cons.prems(1) [of 0] Cons.prems(2) by simp_all
  moreover have "VerifyParams (Some opc) (Suc i) (map (\<lambda>p. printed_param p op1 op2) ps) a = Inr a"
    using Cons.prems(1) [of "Suc _"] Cons.prems(2) by (intro Cons.IH) auto
  ultimately show ?case
    by simp
qed simp

lemma reg19_loc: "list_all (\<lambda>opc. list_all (\<lambda>p. param_type p = P_REG19 \<longrightarrow> param_loc p = 0) (op_params opc)) s_opcodes"
  by code_simp

lemma ext_no_reg19: "list_all (\<lambda>opc. list_all (\<lambda>p. param_type p \<noteq> P_REG19) (op_params opc)) s_opcodes_ext"
  by code_simp

lemma main_accepted:
  assumes "\<not> refused op1"
  shows "VerifyParams (Some (main_template op1)) 0 (printed_params (main_template op1) op1 op2) a = Inr a"
proof -
  have "verify_param p (printed_param p op1 op2) = Inr ([], True)" if "p \<in> set (op_params (main_template op1))" for p
  proof (rule printed_accepted)
    show "p \<in> set all_params"
      using that main_template_in_tables [of op1] by (auto simp: all_params_def)
    have "param_type p = P_REG19 \<Longrightarrow> param_loc p = 0"
      using that main_template_in [of op1] reg19_loc by (auto simp: list_all_iff cw_def)
    then show "param_type p = P_REG19 \<longrightarrow> field_word p op1 op2 AND param_mask p = 0"
      using that assms by (auto simp: refused_def list_ex_iff field_word_def)
  qed
  then show ?thesis
    unfolding printed_params_def by (intro VerifyParams_printed) (simp_all add: template_param_in)
qed

lemma ext_accepted:
  assumes "x \<in> set s_opcodes_ext"
  shows "VerifyParams (Some x) 0 (printed_params x op1 op2) a = Inr a"
proof -
  have "verify_param p (printed_param p op1 op2) = Inr ([], True)" if "p \<in> set (op_params x)" for p
    using that assms ext_no_reg19 by (intro printed_accepted) (auto simp: all_params_def list_all_iff)
  then show ?thesis
    unfolding printed_params_def by (intro VerifyParams_printed) (simp_all add: template_param_in)
qed

end
