(* ===== verification/Dsp_Text_Facts.thy ===== *)
theory Dsp_Text_Facts
  imports Dsp_Build_Words
begin

text \<open>
  Text: C strings, numbers that are printed and read back, the labels the assembler starts with,
  and expressions without operators.
\<close>

unbundle bit_operations_syntax

section \<open>Characters\<close>

lemma code_of_char_of [simp]: "n < 256 \<Longrightarrow> code_of (char_of n) = n"
  by (simp add: code_of_def)

lemma code_of_inject: "code_of c = code_of d \<longleftrightarrow> c = d"
  by (simp add: code_of_def)

lemma char_eq_code: "c = d \<longleftrightarrow> code_of c = code_of d"
  by (simp add: code_of_inject)

lemma code_of_Char [simp]: "code_of (Char b0 b1 b2 b3 b4 b5 b6 b7) = horner_sum of_bool 2 [b0, b1, b2, b3, b4, b5, b6, b7]"
  by (simp add: code_of_def of_char_def)

lemma char_of_code_of [simp]: "char_of (code_of c) = c"
  by (simp add: code_of_def)

text \<open>What values consist of, once they are in upper case.\<close>

definition value_char :: "char \<Rightarrow> bool" where
  "value_char c \<longleftrightarrow> name_char c \<or> c = CHR ''.''"

lemma value_char_code: "value_char c \<Longrightarrow> code_of c = 46 \<or> 48 \<le> code_of c \<and> code_of c \<le> 57 \<or> 65 \<le> code_of c \<and> code_of c \<le> 95"
  using name_char_code by (auto simp: value_char_def code_of_def)

section \<open>Digits\<close>

lemma hex_digit_char: "d < 16 \<Longrightarrow> hex_digit (to_upper (digit_char d)) = Some (of_nat d)"
  by (auto simp: digit_char_def to_upper_def hex_digit_def decimal_digit_def of_nat_diff)

lemma decimal_digit_char: "d < 10 \<Longrightarrow> decimal_digit (digit_char d) = Some (of_nat d)"
  by (auto simp: digit_char_def decimal_digit_def)

lemma parse_digits_append:
  "parse_digits b dig err (xs @ ys) v a =
    (case parse_digits b dig err xs v a of (v', a') \<Rightarrow> parse_digits b dig err ys v' a')"
  by (induction xs arbitrary: v a) (auto simp: Let_def split: option.split)

lemma parse_printed_digits:
  assumes "\<And>d. d < b \<Longrightarrow> dig (f (digit_char d)) = Some (of_nat d)" "2 \<le> b"
  shows "parse_digits (of_nat b) dig err (map f (digits b n)) v a =
    (v * of_nat b ^ length (digits b n) + of_nat n, a)"
  using assms
proof (induction b n rule: digits.induct)
  case (1 b n)
  show ?case
  proof (cases "n < b")
    case True
    then show ?thesis
      using "1.prems" by (simp add: digits.simps [of b n] Let_def)
  next
    case False
    have n: "of_nat n = of_nat (n div b) * of_nat b + (of_nat (n mod b) :: u32)"
      by (metis div_mult_mod_eq of_nat_add of_nat_mult)
    show ?thesis
      using False "1.IH" "1.prems" "1.prems"(1) [of "n mod b"]
      by (simp add: digits.simps [of b n] parse_digits_append n algebra_simps Let_def)
  qed
qed

text \<open>What cleaning a line does to the characters that stay.\<close>

definition upper_char :: "char \<Rightarrow> char" where
  "upper_char c = (if c = CHR 0x09 then CHR '' '' else to_upper c)"

abbreviation upper_text :: "string \<Rightarrow> string" where
  "upper_text \<equiv> map upper_char"

lemma digit_chars: "set (digits b n) \<subseteq> digit_char ` {d. d < b \<or> b < 2}"
proof (induction b n rule: digits.induct)
  case (1 b n)
  then show ?case
    by (subst digits.simps) (auto simp: not_less)
qed

lemma code_of_digit_char: "d < 16 \<Longrightarrow> code_of (digit_char d) = (if d < 10 then 48 + d else 87 + d)"
  by (simp add: digit_char_def)

lemma code_of_upper_digit: "d < 16 \<Longrightarrow> code_of (upper_char (digit_char d)) = (if d < 10 then 48 + d else 55 + d)"
  by (auto simp: upper_char_def to_upper_def code_of_digit_char char_eq_code)

lemma upper_digit: "d < 16 \<Longrightarrow> upper_char (digit_char d) = to_upper (digit_char d)"
  by (auto simp: upper_char_def to_upper_def code_of_digit_char char_eq_code)

lemma upper_decimal: "d < 10 \<Longrightarrow> upper_char (digit_char d) = digit_char d"
  by (simp add: upper_digit to_upper_def code_of_digit_char)

lemma upper_decimal_digits [simp]: "upper_text (digits 10 n) = digits 10 n"
  using digit_chars [of 10 n] by (auto simp: upper_decimal intro!: map_idI)

lemma leading_digit: "0 < n \<Longrightarrow> 2 \<le> b \<Longrightarrow> \<exists>d cs. digits b n = digit_char d # cs \<and> 0 < d \<and> d < b"
proof (induction b n rule: digits.induct)
  case (1 b n)
  show ?case
  proof (cases "n < b")
    case True
    then show ?thesis
      using "1.prems" by (auto simp: digits.simps [of b n])
  next
    case False
    then have "0 < n div b"
      using "1.prems" by (simp add: div_greater_zero_iff)
    then show ?thesis
      using False "1.IH" "1.prems" by (auto simp: digits.simps [of b n])
  qed
qed

lemma digits_0: "2 \<le> b \<Longrightarrow> digits b 0 = ''0''"
  by (simp add: digits.simps [of b 0] digit_char_def char_eq_code)

lemma parse_zeros:
  "parse_digits b hex_digit err (replicate n (CHR ''0'') @ cs) 0 a = parse_digits b hex_digit err cs 0 a"
  by (induction n) (simp_all add: hex_digit_def decimal_digit_def code_of_def)

lemma upper_consts: "upper_char (CHR ''0'') = CHR ''0''" "upper_char (CHR ''x'') = CHR ''X''"
  by (simp_all add: upper_char_def to_upper_def char_eq_code)

lemma ParseValue_hex: "ParseValue (upper_text (''0x'' @ show_hex_padded k n)) a = (of_nat n, a)"
proof -
  have u: "upper_text (digits 16 n) = map to_upper (digits 16 n)"
    using digit_chars [of 16 n] by (auto simp: upper_digit intro!: map_cong)
  have "parse_digits 16 hex_digit IncorrectHex (upper_text (show_hex_padded k n)) 0 a = (of_nat n, a)"
    using parse_printed_digits [of 16 hex_digit to_upper IncorrectHex n 0 a]
    by (simp add: show_hex_padded_def Let_def upper_consts parse_zeros hex_digit_char u)
  then show ?thesis
    by (simp add: ParseValue_def char_at_def upper_consts is_decimal_def code_of_def)
qed

lemma ParseValue_decimal:
  shows "ParseValue (digits 10 n) a = (of_nat n, a)"
    and "0 < n \<Longrightarrow> ParseValue (CHR ''#'' # digits 10 n) a = (- of_nat n, a)"
proof -
  have p: "parse_digits 10 decimal_digit IncorrectDecimal (digits 10 n) 0 a = (of_nat n, a)"
    using parse_printed_digits [of 10 decimal_digit "\<lambda>c. c" IncorrectDecimal n 0 a] by (simp add: decimal_digit_char)
  have v: "ParseValue (digits 10 n) a = (of_nat n, a)" "ParseValue (CHR ''#'' # digits 10 n) a = (- of_nat n, a)"
    if n: "0 < n"
  proof -
    obtain d cs where d: "digits 10 n = digit_char d # cs" "0 < d" "d < 10"
      using leading_digit [OF n, of 10] by auto
    have c: "code_of (digit_char d) = 48 + d"
      using d by (simp add: code_of_digit_char)
    have "digit_char d \<noteq> CHR ''#''" "digit_char d \<noteq> CHR ''-''" "digit_char d \<noteq> CHR ''0''" "is_decimal (digit_char d)"
      using d c by (simp_all add: is_decimal_def char_eq_code)
    then show "ParseValue (digits 10 n) a = (of_nat n, a)" "ParseValue (CHR ''#'' # digits 10 n) a = (- of_nat n, a)"
      using p unfolding d(1) by (simp_all add: ParseValue_def char_at_def)
  qed
  then show "ParseValue (digits 10 n) a = (of_nat n, a)"
    by (cases "n = 0") (simp_all add: digits_0 ParseValue_def char_at_def is_decimal_def code_of_def)
  show "0 < n \<Longrightarrow> ParseValue (CHR ''#'' # digits 10 n) a = (- of_nat n, a)"
    by (rule v(2))
qed

section \<open>The labels at the start of a pass\<close>

abbreviation default_labels :: LabelMap where
  "default_labels \<equiv> RegisterDefaults ClearLabels"

abbreviation value_names :: "(u16 \<times> string) list" where
  "value_names \<equiv> regnames @ pdlabels"

lemma names_distinct: "radix_distinct n (map (\<lambda>x. char_bits (f x)) xs) \<Longrightarrow> distinct (map f xs)"
  using radix_distinct [of n "map char_bits (map f xs)"] unfolding distinct_map [of char_bits] by (simp add: comp_def)

lemma value_names_differ: "radix_distinct 96 (map (\<lambda>x. char_bits (snd x)) value_names)"
  by code_simp

definition to_label :: "u16 \<times> string \<Rightarrow> Label" where
  "to_label x = Label (snd x) (ucast (fst x)) LABEL_VALUE"

lemma register_distinct:
  "distinct (map label_name ls @ map snd xs) \<Longrightarrow>
    fold (\<lambda>(addr, nm) ls. snd (RegisterLabel nm addr LABEL_VALUE ls)) xs ls = ls @ map to_label xs"
proof (induction xs arbitrary: ls)
  case (Cons x xs)
  have "GetLabelValue (snd x) LABEL_ANY ls = None"
    using Cons.prems by (auto simp: GetLabelValue_def find_None_iff)
  then have "snd (RegisterLabel (snd x) (fst x) LABEL_VALUE ls) = ls @ [to_label x]"
    by (simp add: RegisterLabel_def to_label_def)
  then show ?case
    using Cons by (cases x) (auto simp: to_label_def)
qed simp

lemma default_labels_map: "default_labels = map to_label value_names"
proof -
  have "distinct (map snd value_names)"
    by (rule names_distinct [OF value_names_differ])
  then show ?thesis
    unfolding RegisterDefaults_def using register_distinct [of ClearLabels value_names] by (simp add: ClearLabels_def)
qed

lemma default_label_value:
  assumes "(v, nm) \<in> set value_names"
  shows "GetLabelValue nm LABEL_ANY default_labels = Some v"
proof -
  have d: "distinct (map snd value_names)"
    by (rule names_distinct [OF value_names_differ])
  have "find (\<lambda>l. nm = label_name l \<and> LABEL_ANY AND label_type l \<noteq> 0) (map to_label xs) = Some (to_label (v, nm))"
    if "distinct (map snd xs)" "(v, nm) \<in> set xs" for xs
    using that by (induction xs) (force simp: to_label_def)+
  from this [OF d assms] show ?thesis
    by (simp add: GetLabelValue_def default_labels_map to_label_def)
qed

section \<open>Printed values\<close>

text \<open>A printed value: after cleaning, it has no character that means anything to the parser.\<close>

definition value_text :: "string \<Rightarrow> bool" where
  "value_text s \<longleftrightarrow> s \<noteq> [] \<and> list_all (\<lambda>c. value_char (upper_char c)) s"

lemma upper_value_char: "value_char c \<Longrightarrow> upper_char c = c"
  using value_char_code [of c] by (auto simp: upper_char_def to_upper_def char_eq_code)

lemma value_char_digit: "d < 16 \<Longrightarrow> value_char (upper_char (digit_char d))"
proof -
  assume d: "d < 16"
  have "list_all (\<lambda>d. value_char (upper_char (digit_char d))) [0 ..< 16]"
    by code_simp
  then show ?thesis
    using d unfolding list_all_iff by (auto simp del: upt_conv_Cons upt_Suc)
qed

lemma digits_not_empty [simp]: "digits b n \<noteq> []"
  by (subst digits.simps) simp

lemma value_text_digits: "2 \<le> b \<Longrightarrow> b \<le> 16 \<Longrightarrow> value_text (digits b n)"
  using digit_chars [of b n] by (auto simp: value_text_def list_all_iff intro!: value_char_digit)

lemma value_text_hex:
  "value_text (show_hex_padded k n)" "value_text (''0x'' @ show_hex_padded k n)"
  using value_text_digits [of 16 n]
  by (auto simp: value_text_def show_hex_padded_def Let_def list_all_iff upper_consts value_char_def)

text \<open>Names that are labels, and those that are numbers.\<close>

definition named_value_ok :: "u16 \<times> string \<Rightarrow> bool" where
  "named_value_ok x \<longleftrightarrow> length (snd x) \<le> 10 \<and>
     (if hd (snd x) = CHR ''0'' then snd x = ''0x'' @ show_hex_padded 4 (unat (fst x))
      else snd x \<noteq> [] \<and> list_all value_char (snd x) \<and> hd (snd x) \<notin> set ''#-123456789'')"

lemma digit_char_values:
  "digit_char 0 = CHR ''0''" "digit_char 1 = CHR ''1''" "digit_char 2 = CHR ''2''" "digit_char 3 = CHR ''3''"
  "digit_char 4 = CHR ''4''" "digit_char 5 = CHR ''5''" "digit_char 6 = CHR ''6''" "digit_char 7 = CHR ''7''"
  "digit_char 8 = CHR ''8''" "digit_char 9 = CHR ''9''" "digit_char 10 = CHR ''a''" "digit_char 11 = CHR ''b''"
  "digit_char 12 = CHR ''c''" "digit_char 13 = CHR ''d''" "digit_char 14 = CHR ''e''" "digit_char 15 = CHR ''f''"
  by (simp_all add: char_eq_code code_of_digit_char)

lemma value_names_ok: "list_all named_value_ok value_names"
  by (simp add: regnames_def pdlabels_def named_value_ok_def value_char_def show_hex_padded_def digits.simps
      digit_char_values digit_char_values(2) [unfolded One_nat_def])

lemma not_decimal: "c \<notin> set ''0123456789'' \<Longrightarrow> \<not> is_decimal c"
proof -
  have "is_decimal c \<Longrightarrow> \<exists>d<10. code_of c = 48 + d"
    unfolding is_decimal_def by (rule exI [of _ "code_of c - 48"]) auto
  then show "c \<notin> set ''0123456789'' \<Longrightarrow> \<not> is_decimal c"
    by (auto simp: char_eq_code eval_nat_numeral less_Suc_eq)
qed

lemma named_value:
  assumes "(v, nm) \<in> set value_names" "m_labels a = default_labels"
  shows "value_text nm" "length nm \<le> 10" "ParseValue (upper_text nm) a = (ucast v, a)"
proof -
  have ok: "named_value_ok (v, nm)"
    using value_names_ok assms(1) unfolding list_all_iff by (rule bspec)
  then show "length nm \<le> 10"
    by (simp add: named_value_ok_def)
  consider "nm = ''0x'' @ show_hex_padded 4 (unat v)"
    | "nm \<noteq> []" "list_all value_char nm" "hd nm \<notin> set ''#-0123456789''"
    using ok by (auto simp: named_value_ok_def split: if_splits)
  then have "value_text nm \<and> ParseValue (upper_text nm) a = (ucast v, a)"
  proof cases
    case 1
    have "word_of_nat (unat v) = (ucast v :: u32)"
      by (simp add: unsigned_ucast_eq)
    then show ?thesis
      unfolding 1 using value_text_hex(2) [of 4 "unat v"] ParseValue_hex [of 4 "unat v" a] by simp
  next
    case 2
    have u: "upper_text nm = nm"
      using 2(2) by (auto simp: list_all_iff upper_value_char intro!: map_idI)
    have h: "char_at nm 0 = hd nm"
      using 2(1) by (simp add: char_at_def hd_conv_nth)
    have "ParseValue nm a = (ucast v, a)"
      using 2(3) not_decimal [of "hd nm"] default_label_value [OF assms(1)]
      by (simp add: ParseValue_def h assms(2) Let_def)
    then show ?thesis
      using 2 u by (auto simp: value_text_def list_all_iff upper_value_char)
  qed
  then show "value_text nm" "ParseValue (upper_text nm) a = (ucast v, a)"
    by auto
qed

lemma length_digits: "n < b ^ k \<Longrightarrow> 0 < k \<Longrightarrow> length (digits b n) \<le> k"
proof (induction b n arbitrary: k rule: digits.induct)
  case (1 b n)
  show ?case
  proof (cases "b < 2 \<or> n < b")
    case False
    then obtain k' where k: "k = Suc k'" "0 < k'"
      using "1.prems" by (cases k; cases "k - 1") auto
    then have "n div b < b ^ k'"
      using "1.prems"(1) False by (simp add: div_less_iff_less_mult mult.commute)
    then have "length (digits b (n div b)) \<le> k'"
      using False k(2) by (intro "1.IH") auto
    then show ?thesis
      using False k by (subst digits.simps) auto
  qed (use "1.prems" in \<open>auto simp: digits.simps [of b n]\<close>)
qed

lemma pdname_value:
  assumes "m_labels a = default_labels"
  shows "value_text (pdname v)" "length (pdname v) \<le> 10" "ParseValue (upper_text (pdname v)) a = (ucast v, a)"
proof -
  have "(case find (\<lambda>(addr, nm). addr = v) pdlabels of
      None \<Rightarrow> True | Some (addr, nm) \<Rightarrow> addr = v \<and> (addr, nm) \<in> set value_names)"
    by (auto simp: find_Some_iff split: option.split dest: nth_mem)
  moreover have "length (show_hex_padded 4 (unat v)) \<le> 4"
    using length_digits [of "unat v" 16 4] unsigned_less [of v, where 'a = nat]
    by (simp add: show_hex_padded_def Let_def)
  moreover have "word_of_nat (unat v) = (ucast v :: u32)"
    by (simp add: unsigned_ucast_eq)
  ultimately show "value_text (pdname v)" "length (pdname v) \<le> 10" "ParseValue (upper_text (pdname v)) a = (ucast v, a)"
    using named_value [OF _ assms] value_text_hex(2) [of 4 "unat v"] ParseValue_hex [of 4 "unat v" a]
    by (auto simp: pdname_def split: option.splits)
qed

lemma regname_numbers: "map fst regnames = map of_nat [0 ..< 36]"
  by code_simp

lemma pdregname_value:
  assumes "unat v < 36" "m_labels a = default_labels"
  obtains nm where "pdregname v = Inr nm" "value_text nm" "length nm \<le> 10" "ParseValue (upper_text nm) a = (v, a)"
proof -
  have l: "length regnames = 36"
    using arg_cong [OF regname_numbers, of length] by simp
  have "fst (regnames ! unat v) = (of_nat (unat v) :: u16)"
    using arg_cong [OF regname_numbers, of "\<lambda>xs. xs ! unat v"] assms(1) l by simp
  then have "(of_nat (unat v), snd (regnames ! unat v)) \<in> set value_names"
    using assms(1) l by (metis UnI1 nth_mem prod.collapse set_append)
  moreover have "unat (ucast (of_nat (unat v) :: u16) :: u32) = unat v"
    unfolding unat_ucast_16_32 unat_of_nat using assms(1) by simp
  then have "ucast (of_nat (unat v) :: u16) = v"
    by (simp only: word_unat_eq_iff)
  ultimately show thesis
    using named_value [OF _ assms(2)] that [of "snd (regnames ! unat v)"] assms(1) l by (simp add: pdregname_def)
qed

section \<open>Expressions without operators\<close>

definition quiet :: "string \<Rightarrow> bool" where
  "quiet s \<longleftrightarrow> list_all (\<lambda>c. value_char c \<or> c = CHR '' '') s"

definition operator_char :: "char \<Rightarrow> bool" where
  "operator_char c \<longleftrightarrow> c \<in> set ''()+-*/|&''"

lemma quiet_no_operator: "quiet s \<Longrightarrow> operator_char c \<Longrightarrow> c \<notin> set s"
  by (auto simp: quiet_def list_all_iff operator_char_def value_char_def)

lemma no_split: "c \<notin> set s \<Longrightarrow> split_at c s = None"
  by (simp add: split_at_def)

lemma mark_signs_quiet: "CHR ''-'' \<notin> set s \<Longrightarrow> mark_signs prev s = s"
  by (induction s arbitrary: prev) (auto simp: Let_def)

lemma no_operation: "c \<notin> set s \<Longrightarrow> binary_op (Suc k) c f s a = Inr (s, a)"
  by (simp add: no_split)

lemma no_brackets: "CHR ''('' \<notin> set s \<Longrightarrow> CHR '')'' \<notin> set s \<Longrightarrow> subst_brackets (Suc k) s a = Inr (s, a)"
  by (simp add: FindBrackets_def no_split)

definition without_spaces :: "string \<Rightarrow> string" where
  "without_spaces s = filter (\<lambda>c. c \<noteq> CHR '' '') s"

lemma without_spaces_append [simp]: "without_spaces (s @ t) = without_spaces s @ without_spaces t"
  by (simp add: without_spaces_def)

lemma ParseExpression_value:
  assumes "quiet s" "d \<in> {s, CHR ''-'' # s}"
  shows "ParseExpression (Suc (Suc k)) d a =
    Inr (ParseValue (if d = s then without_spaces s else CHR ''#'' # without_spaces s) a)"
proof -
  define e where "e = (if d = s then without_spaces s else CHR ''#'' # without_spaces s)"
  have q: "c \<notin> set s" if "c \<in> set ''()+-*/|&''" for c
    using that assms(1) by (intro quiet_no_operator) (simp_all add: operator_char_def)
  have b: "CHR ''('' \<notin> set d" "CHR '')'' \<notin> set d" "CHR ''-'' \<notin> set s"
    using q [of "CHR ''(''"] q [of "CHR '')''"] q [of "CHR ''-''"] assms(2) by auto
  then have "CHR ''-'' \<notin> set (filter (\<lambda>c. c \<noteq> CHR '' '') s)"
    by auto
  note ms = mark_signs_quiet [OF this]
  have m: "mark_signs None (filter (\<lambda>c. c \<noteq> CHR '' '') d) = e"
    using assms(2) by (elim insertE emptyE) (simp_all add: e_def without_spaces_def ms Let_def)
  have o: "c \<notin> set e" if "c \<in> set ''+-*/|&''" for c
    using that q [of c] by (auto simp: e_def without_spaces_def)
  show ?thesis
    unfolding ParseExpression.simps no_brackets [OF b(1, 2)] bindE.simps case_prod_conv m Let_def e_def [symmetric]
    by (simp add: no_operation o del: binary_op.simps)
qed

end
