(* ===== verification/Dsp_Print_Facts.thy ===== *)
theory Dsp_Print_Facts
  imports Dsp_Text_Facts
begin

text \<open>
  The parameters of an instruction, printed by the disassembler and read by \<open>GetParams\<close>.
\<close>

unbundle bit_operations_syntax

section \<open>Values\<close>

text \<open>A text that reads as a value, in the labels of an assembler.\<close>

definition reads :: "DSPAssembler \<Rightarrow> string \<Rightarrow> u32 \<Rightarrow> bool" where
  "reads a s v \<longleftrightarrow> value_text s \<and> length s \<le> 10 \<and> ParseValue (upper_text s) a = (v, a)"

lemma reads_pdname: "m_labels a = default_labels \<Longrightarrow> reads a (pdname v) (ucast v)"
  using pdname_value by (simp add: reads_def)

lemma length_hex: "n < 65536 \<Longrightarrow> k \<le> 4 \<Longrightarrow> length (show_hex_padded k n) \<le> 4"
  using length_digits [of n 16 4] by (simp add: show_hex_padded_def Let_def)

lemma reads_hex: "unat v < 65536 \<Longrightarrow> k \<le> 4 \<Longrightarrow> reads a (''0x'' @ show_hex_padded k (unat v)) v"
  using value_text_hex(2) [of k "unat v"] ParseValue_hex [of k "unat v" a] length_hex [of "unat v" k]
  by (simp add: reads_def)

lemma reads_decimal: "unat v < 10 ^ 10 \<Longrightarrow> reads a (digits 10 (unat v)) v"
  using value_text_digits [of 10 "unat v"] ParseValue_decimal(1) [of "unat v" a] length_digits [of "unat v" 10 10]
  by (simp add: reads_def)

lemma spaces_quiet: "value_text s \<Longrightarrow> quiet (upper_text s @ replicate n (CHR '' ''))"
  by (auto simp: value_text_def quiet_def list_all_iff)

lemma without_spaces_blanks [simp]: "without_spaces (replicate n (CHR '' '')) = []"
  by (simp add: without_spaces_def)

lemma without_spaces_value: "value_text s \<Longrightarrow> without_spaces (upper_text s) = upper_text s"
proof -
  have "\<not> value_char (CHR '' '')"
    by (simp add: value_char_def)
  then show "value_text s \<Longrightarrow> without_spaces (upper_text s) = upper_text s"
    by (auto simp: without_spaces_def value_text_def list_all_iff intro!: filter_True)
qed

lemma reads_expression:
  "reads a s v \<Longrightarrow> ParseExpression (Suc (Suc k)) (upper_text s @ replicate n (CHR '' '')) a = Inr (v, a)"
  using ParseExpression_value [of "upper_text s @ replicate n (CHR '' '')" "upper_text s @ replicate n (CHR '' '')" k a]
  by (simp add: reads_def spaces_quiet without_spaces_value del: ParseExpression.simps)

section \<open>One parameter\<close>

text \<open>
  What a parameter looks like in the text, and that reading it gives \<open>par\<close>; blanks may follow.
\<close>

definition param_char :: "char \<Rightarrow> bool" where
  "param_char c \<longleftrightarrow> value_char (upper_char c) \<or> c \<in> set ''$@#-''"

definition denotes :: "DSPAssembler \<Rightarrow> string \<Rightarrow> param_t \<Rightarrow> bool" where
  "denotes a s par \<longleftrightarrow> s \<noteq> [] \<and> list_all param_char s \<and> length s \<le> 12 \<and>
     (\<forall>k n rest. parse_param (Suc (Suc k)) (upper_text s @ replicate n (CHR '' '')) rest a = Inr (par, rest, a))"

lemma value_text_params: "value_text s \<Longrightarrow> list_all param_char s"
  by (auto simp: value_text_def param_char_def list_all_iff)

lemma upper_marks [simp]:
  "upper_char (CHR ''$'') = CHR ''$''" "upper_char (CHR ''@'') = CHR ''@''" "upper_char (CHR ''#'') = CHR ''#''"
  "upper_char (CHR ''-'') = CHR ''-''"
  by (simp_all add: upper_char_def to_upper_def char_eq_code)

lemma denotes_register: "reads a s v \<Longrightarrow> denotes a (''$'' @ s) \<lparr>par_val = v, par_type = P_REG, par_str = None\<rparr>"
  using value_text_params by (auto simp: denotes_def reads_def [of a s] parse_param_def char_at_def reads_expression
      param_char_def simp del: ParseExpression.simps)

lemma denotes_address_register: "reads a s v \<Longrightarrow> denotes a (''@$'' @ s) \<lparr>par_val = v, par_type = P_PRG, par_str = None\<rparr>"
  using value_text_params by (auto simp: denotes_def reads_def [of a s] parse_param_def char_at_def reads_expression
      param_char_def simp del: ParseExpression.simps)

lemma denotes_immediate: "reads a s v \<Longrightarrow> denotes a (''#'' @ s) \<lparr>par_val = v, par_type = P_IMM, par_str = None\<rparr>"
  using value_text_params by (auto simp: denotes_def reads_def [of a s] parse_param_def char_at_def reads_expression
      param_char_def simp del: ParseExpression.simps)

lemma value_text_head: "value_text s \<Longrightarrow> \<exists>c cs. upper_text s = c # cs \<and> value_char c"
  by (cases s) (auto simp: value_text_def)

lemma denotes_memory: 
  assumes "reads a s v"
  shows "denotes a (''@'' @ s) \<lparr>par_val = v, par_type = P_MEM, par_str = None\<rparr>"
proof -
  have t: "value_text s"
    using assms by (simp add: reads_def)
  obtain c cs where "upper_text s = c # cs" "value_char c"
    using value_text_head [OF t] by auto
  moreover from this have "c \<noteq> CHR ''$''"
    by (auto simp: value_char_def)
  ultimately show ?thesis
    using value_text_params [OF t] assms reads_expression [OF assms]
    by (auto simp: denotes_def reads_def [of a s] parse_param_def char_at_def param_char_def simp del: ParseExpression.simps)
qed

lemma denotes_value: 
  assumes "reads a s v"
  shows "denotes a s \<lparr>par_val = v, par_type = P_VAL, par_str = None\<rparr>"
proof -
  have t: "value_text s"
    using assms by (simp add: reads_def)
  obtain c cs where u: "upper_text s = c # cs" "value_char c"
    using value_text_head [OF t] by auto
  then have "c \<notin> set [CHR 0x22, CHR ''#'', CHR ''@'', CHR ''$'']"
    by (auto simp: value_char_def)
  moreover have "s \<noteq> []"
    using t by (simp add: value_text_def)
  ultimately show ?thesis
    using value_text_params [OF t] assms reads_expression [OF assms]
    by (auto simp: denotes_def reads_def [of a s] parse_param_def u(1) char_at_def simp del: ParseExpression.simps)
qed

lemma denotes_negative:
  assumes "0 < n" "n < 10 ^ 10"
  shows "denotes a (''#-'' @ digits 10 n) \<lparr>par_val = - of_nat n, par_type = P_IMM, par_str = None\<rparr>"
proof -
  have t: "value_text (digits 10 n)"
    by (simp add: value_text_digits)
  have e: "ParseExpression (Suc (Suc k)) (CHR ''-'' # digits 10 n @ replicate m (CHR '' '')) a = Inr (- of_nat n, a)" for k m
    using ParseExpression_value [OF spaces_quiet [OF t], of "CHR ''-'' # digits 10 n @ replicate m (CHR '' '')" m k a]
      without_spaces_value [OF t] ParseValue_decimal(2) [OF assms(1), of a]
    by (simp del: ParseExpression.simps)
  have "length (digits 10 n) \<le> 10"
    using assms(2) by (intro length_digits) auto
  then show ?thesis
    using value_text_params [OF t] by (auto simp: denotes_def parse_param_def char_at_def e param_char_def simp del: ParseExpression.simps)
qed

text \<open>Every parameter is printed as a text that denotes it.\<close>

lemma show_register_denotes:
  assumes ok: "param_ok p" "is_register p" and l: "m_labels a = default_labels"
  shows "\<exists>s. show_param settings p op1 op2 = Inr s \<and> denotes a s (printed_param p op1 op2)"
proof -
  obtain val ty where v: "param_value p op1 op2 = (val, ty)"
    by (metis surj_pair)
  note vs = v [symmetric]
  have ty: "ty = P_REG \<or> ty = P_PRG"
    using register_value(2) [OF ok vs] by auto
  have r: "unat val < 36"
    using register_value_bounds(3) [OF ok vs] .
  obtain nm where nm: "pdregname val = Inr nm" "reads a nm val"
    using pdregname_value [OF r l] by (metis reads_def)
  have d: "reads a (digits 10 (unat val)) val"
    using r by (intro reads_decimal) simp
  show ?thesis
    using ty nm d denotes_register denotes_address_register
    by (auto simp: show_param_def printed_param_def v)
qed

lemma shown_shift_amount:
  fixes w :: u16
  assumes "v = ucast (w AND 0x3f)"
  shows "denotes a (''#'' @ show_int (if v AND 0x20 \<noteq> 0 then sint v - 64 else sint v))
    \<lparr>par_val = shift_value v, par_type = P_IMM, par_str = None\<rparr>"
proof -
  have le: "sint v \<le> 63" "0 \<le> sint v" and s: "sint v = uint v"
    using uint_and_le [of w "0x3f"] by (simp_all add: assms ucast_16_32)
  have n: "nat (sint v) = unat v"
    unfolding s by (rule unat_eq_nat_uint [symmetric])
  show ?thesis
  proof (cases "v AND 0x20 \<noteq> 0")
    case True
    have "denotes a (''#-'' @ digits 10 (nat (64 - sint v)))
        \<lparr>par_val = - of_nat (nat (64 - sint v)), par_type = P_IMM, par_str = None\<rparr>"
      using le by (intro denotes_negative) auto
    moreover have "- of_nat (nat (64 - sint v)) = v - 64"
    proof -
      have "(of_nat (nat (64 - sint v)) :: u32) = of_int (64 - uint v)"
        using le by (subst of_nat_nat) (simp_all add: s)
      then show ?thesis
        by simp
    qed
    ultimately show ?thesis
      using True le by (simp add: show_int_def shift_value_def)
  next
    case False
    have "unat v < 10 ^ 10"
      using unsigned_less [of v, where 'a = nat] by simp
    then show ?thesis
      using False le denotes_immediate [OF reads_decimal [of v a]] by (simp add: show_int_def shift_value_def n)
  qed
qed

lemma show_number_denotes:
  assumes ok: "param_ok p" "\<not> is_register p" and l: "m_labels a = default_labels"
  shows "\<exists>s. show_param settings p op1 op2 = Inr s \<and> denotes a s (printed_param p op1 op2)"
proof -
  define w where "w = field_word p op1 op2 AND param_mask p"
  have row: "number_row_ok p"
    using ok by (simp add: param_ok_def)
  note v = number_value [OF ok, of op1 op2, folded w_def]
  note pr = printed_number [OF ok, of op1 op2, folded w_def]
  have hex: "reads a (''0x'' @ show_hex_padded k (unat u)) (ucast u)" if "k \<le> 4" for k and u :: u16
    using reads_hex [of "ucast u" k a] that unsigned_less [of u, where 'a = nat] by (simp add: unat_ucast_16_32)
  note named = reads_pdname [OF l]
  consider "param_type p \<in> {P_VAL, P_ADDR_I, P_ADDR_D}"
    | "param_type p = P_IMM" "param_size p \<noteq> 2" "param_mask p = 0x3f"
    | "param_type p = P_IMM" "param_size p = 2 \<or> param_mask p \<noteq> 0x3f"
    | "param_type p = P_MEM"
    using row by (auto simp: number_row_ok_def)
  then show ?thesis
  proof cases
    case 1
    then show ?thesis
      using denotes_value [OF named [of w]] denotes_value [OF hex [of 4 w]]
      by (auto simp: show_param_def v pr Let_def unat_ucast_16_32)
  next
    case 2
    then have "w = field_word p op1 op2 AND 0x3f"
      by (simp add: w_def)
    then have "denotes a (''#'' @ show_int (if (ucast w :: u32) AND 0x20 \<noteq> 0 then sint (ucast w :: u32) - 64 else sint (ucast w :: u32)))
        \<lparr>par_val = shift_value (ucast w), par_type = P_IMM, par_str = None\<rparr>"
      by (intro shown_shift_amount) simp
    then show ?thesis
      using 2 by (cases "(ucast w :: u32) AND 0x20 = 0") (simp_all add: show_param_def v pr Let_def)
  next
    case 3
    then show ?thesis
      using denotes_immediate [OF hex [of 4 w]] denotes_immediate [OF hex [of 2 w]]
      by (auto simp: show_param_def v pr Let_def unat_ucast_16_32)
  next
    case 4
    define u where "u = (if param_size p \<noteq> 2 then scast (ucast w :: u8) :: u16 else w)"
    show ?thesis
      using 4 denotes_memory [OF named [of u]] denotes_memory [OF hex [of 4 u]]
      by (auto simp: show_param_def v pr Let_def unat_ucast_16_32 ucast_16_32_8 u_def)
  qed
qed

lemma show_param_denotes:
  "p \<in> set all_params \<Longrightarrow> m_labels a = default_labels \<Longrightarrow>
    \<exists>s. show_param settings p op1 op2 = Inr s \<and> denotes a s (printed_param p op1 op2)"
  using show_register_denotes [OF param_okI] show_number_denotes [OF param_okI] by blast

section \<open>Lists of parameters\<close>

abbreviation blanks :: "nat \<Rightarrow> string" where
  "blanks n \<equiv> replicate n (CHR '' '')"

lemma param_char_not: "param_char c \<Longrightarrow> upper_char c \<notin> set '', :'' \<and> upper_char c \<noteq> CHR 0x27"
  by (auto simp: param_char_def value_char_def)

lemma denotes_text:
  assumes "denotes a s par"
  shows "s \<noteq> []" "set (upper_text s) \<inter> set '', :'' = {}" "CHR 0x27 \<notin> set (upper_text s)" "length s \<le> 12"
  using assms param_char_not by (fastforce simp: denotes_def list_all_iff)+

lemma until_char:
  "c \<notin> set t \<Longrightarrow> takeWhile (\<lambda>x. x \<noteq> c) (t @ c # rest) = t"
  "c \<notin> set t \<Longrightarrow> dropWhile (\<lambda>x. x \<noteq> c) (t @ c # rest) = c # rest"
  "c \<notin> set t \<Longrightarrow> takeWhile (\<lambda>x. x \<noteq> c) t = t"
  "c \<notin> set t \<Longrightarrow> dropWhile (\<lambda>x. x \<noteq> c) t = []"
  by (induction t) auto

lemma strtok_token: "t \<noteq> [] \<Longrightarrow> c \<notin> set t \<Longrightarrow> strtok [c] (t @ c # rest) = Some (t, rest)"
  using until_char [of c t] by (cases t) (auto simp: strtok_def Let_def)

lemma strtok_last: "t \<noteq> [] \<Longrightarrow> c \<notin> set t \<Longrightarrow> strtok [c] t = Some (t, [])"
proof -
  assume t: "t \<noteq> []" "c \<notin> set t"
  have "dropWhile (\<lambda>x. x \<in> set [c]) t = t"
    using t by (cases t) auto
  moreover have "takeWhile (\<lambda>x. x \<notin> set [c]) t = t" "dropWhile (\<lambda>x. x \<notin> set [c]) t = []"
    using until_char(3, 4) [OF t(2)] by simp_all
  ultimately show ?thesis
    using t(1) by (simp only: strtok_def Let_def if_False drop_Nil)
qed

lemma skip_blanks: "skip_spaces (blanks n @ t) = skip_spaces t"
  by (induction n) simp_all

lemma skip_spaces_Nil: "skip_spaces [] = []"
  by simp

lemma skip_no_blank: "CHR '' '' \<notin> set t \<Longrightarrow> skip_spaces (t @ blanks n) = (if t = [] then [] else t @ blanks n)"
  by (cases t) (auto simp: dropWhile_eq_Nil_conv)

lemma strtok_Nil: "strtok ds [] = None"
  by (simp add: strtok_def)

text \<open>Reading a list: blanks in front of it and behind it do not matter.\<close>

lemma parse_listed:
  assumes "list_all2 (denotes a) ss pars" "length ss \<le> n"
  shows "parse_params (Suc (Suc k)) n (strtok '','' (blanks i @ upper_text (comma_separated ss) @ blanks j)) a = Inr (pars, a)"
  using assms
proof (induction ss arbitrary: pars n i rule: comma_separated.induct)
  case 1
  then show ?case
  proof (cases "i + j = 0")
    case False
    then have "strtok '','' (blanks (i + j)) = Some (blanks (i + j), [])"
      by (intro strtok_last) auto
    with 1 show ?thesis
      using skip_blanks [of "i + j" "[]"] by (cases n) (auto simp: replicate_add skip_spaces_Nil simp del: skip_spaces.simps)
  qed (cases n; simp add: strtok_Nil)
next
  case (2 s)
  then obtain par where par: "pars = [par]" "denotes a s par"
    by (auto simp: list_all2_Cons1)
  obtain m where n: "n = Suc m"
    using "2.prems"(2) by (cases n) auto
  note t = denotes_text [OF par(2)]
  have "strtok '','' (blanks i @ upper_text s @ blanks j) = Some (blanks i @ upper_text s @ blanks j, [])"
    using t by (intro strtok_last) auto
  moreover have "skip_spaces (blanks i @ upper_text s @ blanks j) = upper_text s @ blanks j"
    using t by (simp add: skip_blanks skip_no_blank del: skip_spaces.simps)
  ultimately show ?case
    using par t(1) by (cases m) (simp_all add: n denotes_def strtok_Nil del: skip_spaces.simps)
next
  case (3 s s' ss)
  then obtain par pars' where par: "pars = par # pars'" "denotes a s par" "list_all2 (denotes a) (s' # ss) pars'"
    by (auto simp: list_all2_Cons1)
  obtain m where n: "n = Suc m" "length (s' # ss) \<le> m"
    using "3.prems"(2) by (cases n) auto
  let ?rest = "blanks 1 @ upper_text (comma_separated (s' # ss)) @ blanks j"
  note t = denotes_text [OF par(2)]
  have "upper_char (CHR '','') = CHR '',''" "upper_char (CHR '' '') = CHR '' ''"
    by (simp_all add: upper_char_def to_upper_def)
  then have "blanks i @ upper_text (comma_separated (s # s' # ss)) @ blanks j = (blanks i @ upper_text s) @ CHR '','' # ?rest"
    by simp
  also have "strtok '','' \<dots> = Some (blanks i @ upper_text s, ?rest)"
    using t by (intro strtok_token) auto
  moreover have "skip_spaces (blanks i @ upper_text s) = upper_text s"
    using t skip_no_blank [of "upper_text s" 0] by (simp add: skip_blanks del: skip_spaces.simps)
  moreover have "parse_param (Suc (Suc k)) (upper_text s) rest a = Inr (par, rest, a)" for rest
    using par(2) unfolding denotes_def by (metis append_Nil2 replicate_0)
  ultimately show ?case
    using par t(1) "3.IH" [OF par(3) n(2), of 1] by (simp add: n denotes_def del: skip_spaces.simps)
qed

lemma show_params_denotes:
  "set ps \<subseteq> set all_params \<Longrightarrow> m_labels a = default_labels \<Longrightarrow>
    \<exists>ss. show_params settings ps op1 op2 = Inr ss \<and>
      list_all2 (denotes a) ss (map (\<lambda>p. printed_param p op1 op2) ps)"
proof (induction ps)
  case (Cons p ps)
  then obtain ss where "show_params settings ps op1 op2 = Inr ss"
    "list_all2 (denotes a) ss (map (\<lambda>p. printed_param p op1 op2) ps)"
    by auto
  moreover obtain s where "show_param settings p op1 op2 = Inr s" "denotes a s (printed_param p op1 op2)"
    using Cons.prems show_param_denotes [of p a settings op1 op2] by auto
  ultimately show ?case
    by simp
qed simp

lemma DisassembleParameters_denotes:
  assumes "opc \<in> set (cw # s_opcodes @ s_opcodes_ext)" "m_labels a = default_labels"
  obtains ss where "DisassembleParameters settings opc op1 op2 = Inr (comma_separated ss)"
    "list_all2 (denotes a) ss (printed_params opc op1 op2)"
proof -
  have "set (op_params opc) \<subseteq> set all_params"
    using assms(1) by (auto simp: all_params_def)
  from show_params_denotes [OF this assms(2), of settings op1 op2] obtain ss where
    "show_params settings (op_params opc) op1 op2 = Inr ss" "list_all2 (denotes a) ss (printed_params opc op1 op2)"
    unfolding printed_params_def by blast
  then show thesis
    using that by (simp add: DisassembleParameters_def)
qed

lemma GetParams_listed:
  assumes "list_all2 (denotes a) ss pars" "length ss \<le> 10"
  shows "GetParams (Suc (Suc k)) (blanks i @ upper_text (comma_separated ss) @ blanks j) a = Inr (pars, a)"
proof -
  have "\<exists>i' j'. skip_spaces (blanks i @ upper_text (comma_separated ss) @ blanks j) =
      blanks i' @ upper_text (comma_separated ss) @ blanks j'"
  proof (cases ss)
    case Nil
    then have "skip_spaces (blanks i @ upper_text (comma_separated ss) @ blanks j) = []"
      by (auto simp: dropWhile_eq_Nil_conv)
    then show ?thesis
      using Nil by (simp add: exI [of _ 0] del: skip_spaces.simps)
  next
    case (Cons s ss')
    then have "denotes a s (hd pars)"
      using assms(1) by (cases pars) auto
    note t = denotes_text [OF this]
    obtain d ds where d: "s = d # ds"
      using t(1) by (cases s) auto
    have "\<exists>cs. upper_text (comma_separated ss) = upper_char d # cs"
      unfolding Cons d by (cases ss') simp_all
    then obtain cs where c: "upper_text (comma_separated ss) = upper_char d # cs" ..
    have "upper_char d \<noteq> CHR '' ''"
      using t(2) by (auto simp: d)
    then have "skip_spaces (blanks i @ upper_text (comma_separated ss) @ blanks j) =
        upper_text (comma_separated ss) @ blanks j"
      unfolding skip_blanks c by simp
    also have "\<dots> = blanks 0 @ upper_text (comma_separated ss) @ blanks j"
      by simp
    finally show ?thesis
      by blast
  qed
  then obtain i' j' where e: "skip_spaces (blanks i @ upper_text (comma_separated ss) @ blanks j) =
      blanks i' @ upper_text (comma_separated ss) @ blanks j'"
    by blast
  show ?thesis
    unfolding GetParams_def e by (rule parse_listed [OF assms])
qed

end
