(* ===== verification/Dsp_Line_Facts.thy ===== *)
theory Dsp_Line_Facts
  imports Dsp_Print_Facts
begin

text \<open>
  One line: an instruction printed by the disassembler, cleaned, taken apart and assembled again.
\<close>

unbundle bit_operations_syntax

section \<open>Cleaning\<close>

definition plain_char :: "char \<Rightarrow> bool" where
  "plain_char c \<longleftrightarrow> c \<notin> {CHR ''/'', CHR ''*'', CHR '';'', CHR 0x22, CHR 0x0d, CHR 0x0a, CHR 0x00}"

lemma clean_plain_char:
  assumes "plain_char c"
  shows "clean_char False True c n = (upper_char c, False, True, False)" "upper_char c \<noteq> CHR 0x00"
proof -
  show "clean_char False True c n = (upper_char c, False, True, False)"
    using assms unfolding clean_char_def plain_char_def upper_char_def Let_def
    by (cases "c = CHR 0x09") (simp_all add: to_upper_def)
  have "code_of c \<noteq> 0"
    using assms by (auto simp: plain_char_def char_eq_code)
  then show "upper_char c \<noteq> CHR 0x00"
    by (auto simp: upper_char_def to_upper_def char_eq_code)
qed

lemma blank_head_False [simp]: "blank_head False cs = cs"
  by (simp add: blank_head_def split: list.split)

lemma clean_plain:
  assumes "list_all plain_char s" "rest = [] \<or> (\<exists>r. rest = CHR '';'' # r)"
  shows "clean_line False True (s @ rest) = (upper_text s, False)"
  using assms(1)
proof (induction s)
  case Nil
  have "clean_char False True (CHR '';'') n = (CHR 0x00, False, True, False)" for n
    by (simp add: clean_char_def to_upper_def)
  with assms(2) show ?case
    by auto
qed (simp add: clean_plain_char)

section \<open>Names\<close>

text \<open>Names in either case come out in upper case.\<close>

lemma upper_name_char: "name_char c \<Longrightarrow> upper_char c = c" "name_char c \<Longrightarrow> upper_char (lower_char c) = c"
proof -
  assume n: "name_char c"
  have "code_of (lower_char c) = (if 65 \<le> code_of c \<and> code_of c \<le> 90 then code_of c + 32 else code_of c)"
    using name_char_code [OF n] by (auto simp: lower_char_def code_of_def)
  then show "upper_char c = c" "upper_char (lower_char c) = c"
    using name_char_code [OF n] by (auto simp: upper_char_def to_upper_def char_eq_code)
qed

definition cased :: "bool \<Rightarrow> string \<Rightarrow> string" where
  "cased lower s = (if lower then map lower_char s else s)"

lemma upper_cased:
  "list_all (\<lambda>c. name_char c \<or> c = CHR 0x27) s \<Longrightarrow> upper_text (cased lower s) = s"
proof (induction s)
  case (Cons c s)
  have "upper_char (CHR 0x27) = CHR 0x27" "lower_char (CHR 0x27) = CHR 0x27"
    by (simp_all add: upper_char_def to_upper_def lower_char_def)
  with Cons show ?case
    by (auto simp: cased_def upper_name_char split: if_splits)
qed (simp add: cased_def)

lemma plain_if_upper:
  "value_char (upper_char c) \<or> upper_char c \<in> set ''$@#-, :'' \<or> upper_char c = CHR 0x27 \<Longrightarrow> plain_char c"
  unfolding plain_char_def by (auto simp: upper_char_def to_upper_def value_char_def split: if_splits)

section \<open>Taking a line apart\<close>

lemma split_at_first: "c \<notin> set s \<Longrightarrow> split_at c (s @ c # t) = Some (s, t)"
  by (simp add: split_at_def until_char)

lemma split_label_none: "CHR '':'' \<notin> set line \<Longrightarrow> split_label line = ([], line)"
  by (simp add: split_label_def no_split)

lemma split_label_not:
  assumes "CHR '':'' \<notin> set s" "c \<in> set s" "\<not> label_char c"
  shows "split_label (s @ CHR '':'' # t) = ([], s @ CHR '':'' # t)"
  using assms by (auto simp: split_label_def split_at_first)

lemma GetParams_Nil: "GetParams fuel [] a = Inr ([], a)"
  by (simp add: GetParams_def strtok_Nil eval_nat_numeral)

lemma split_operation_plain:
  assumes "n \<noteq> []" "CHR '' '' \<notin> set n" "CHR 0x27 \<notin> set n" "CHR '':'' \<notin> set rest"
  shows "split_operation fuel (n @ CHR '' '' # rest) a =
    bindE (GetParams fuel rest a) (\<lambda>(pars, a). Inr (Some n, None, pars, [], a))"
  using strtok_token [OF assms(1, 2), of rest]
  by (cases "rest = []") (simp_all add: split_operation_def no_split assms GetParams_Nil)

lemma split_operation_extended:
  assumes "n \<noteq> []" "CHR '' '' \<notin> set n" "CHR 0x27 \<notin> set n" "x \<noteq> []" "CHR '' '' \<notin> set x" "CHR '':'' \<notin> set s"
  shows "split_operation fuel ((n @ CHR 0x27 # x) @ CHR '' '' # s @ CHR '':'' # t) a =
    bindE (GetParams fuel s a) (\<lambda>(pars, a).
    bindE (GetParams fuel t a) (\<lambda>(xs, a). Inr (Some n, Some x, pars, xs, a)))"
  using strtok_token [of "n @ CHR 0x27 # x" "CHR '' ''" "s @ CHR '':'' # t"] assms
  by (simp add: split_operation_def split_at_first)

section \<open>The printed line\<close>

definition readable :: "AssemblerSettings \<Rightarrow> bool" where
  "readable settings \<longleftrightarrow> \<not> show_hex settings \<and> \<not> show_pc settings \<and> ext_separator settings = CHR 0x27"

definition full_name :: "DSPOPCTemplate \<Rightarrow> DSPOPCTemplate option \<Rightarrow> string" where
  "full_name opc ext = (case ext of None \<Rightarrow> op_name opc | Some x \<Rightarrow> op_name opc @ CHR 0x27 # op_name x)"

definition extension_of :: "u16 \<Rightarrow> DSPOPCTemplate option" where
  "extension_of op1 = (case extension_word (main_template op1) op1 of None \<Rightarrow> None | Some w \<Rightarrow> FindExtOpInfoByOpcode w)"

text \<open>A space has to follow the name: its column is twelve characters wide.\<close>

definition separated :: "AssemblerSettings \<Rightarrow> u16 \<Rightarrow> bool" where
  "separated settings op1 \<longleftrightarrow>
     print_tabs settings \<or> length (full_name (main_template op1) (extension_of op1)) < 12"

lemma upper_show_name:
  assumes "ext_separator settings = CHR 0x27" "list_all (\<lambda>c. name_char c \<or> c = CHR 0x27) (full_name opc ext)"
    "print_tabs settings \<or> length (full_name opc ext) < 12"
  obtains m where "upper_text (show_name settings opc ext) = full_name opc ext @ CHR '' '' # blanks m"
    "length (show_name settings opc ext) \<le> length (full_name opc ext) + 12"
proof -
  have n: "show_name settings opc ext = (let nm = cased (lower_case_ops settings) (full_name opc ext)
      in if print_tabs settings then nm @ [CHR 0x09] else pad_right 12 nm)"
    using assms(1) by (simp add: show_name_def full_name_def cased_def Let_def split: option.split)
  have l: "length (cased low s) = length s" for low s
    by (simp add: cased_def)
  have t: "upper_char (CHR 0x09) = CHR '' ''" "upper_char (CHR '' '') = CHR '' ''"
    by (simp_all add: upper_char_def to_upper_def)
  show thesis
  proof (cases "print_tabs settings")
    case True
    then show thesis
      using that [of 0] by (simp add: n Let_def upper_cased [OF assms(2)] t l)
  next
    case False
    then obtain m where "12 - length (full_name opc ext) = Suc m"
      using assms(3) by (cases "12 - length (full_name opc ext)") auto
    then show thesis
      using that [of m] False by (simp add: n Let_def upper_cased [OF assms(2)] pad_right_def t l)
  qed
qed

section \<open>The instruction again\<close>

abbreviation default_aliases :: "(string \<times> string) list" where
  "default_aliases \<equiv> [(''S15'', ''SET15''), (''S16'', ''SET16''), (''S40'', ''SET40'')]"

definition ready :: "DSPAssembler \<Rightarrow> bool" where
  "ready a \<longleftrightarrow> m_labels a = default_labels \<and> m_aliases a = default_aliases"

lemma extension_of_cases:
  obtains "extension_word (main_template op1) op1 = None" "extension_of op1 = None"
  | w x where "extension_word (main_template op1) op1 = Some w" "FindExtOpInfoByOpcode w = Some x"
      "extension_of op1 = Some x" "x \<in> set s_opcodes_ext" "template_ok x" "op_size x = 1"
      "extended (main_template op1)" "op_size (main_template op1) = 1"
proof (cases "extension_word (main_template op1) op1")
  case None
  then show thesis
    using that(1) by (simp add: extension_of_def)
next
  case (Some w)
  from Some obtain x where "FindExtOpInfoByOpcode w = Some x" "x \<in> set s_opcodes_ext" "template_ok x" "op_size x = 1"
    by (rule extension_in_tables)
  then show thesis
    using that(2) Some extension_word_bits(2) [OF Some] main_template_ok [of op1]
    by (simp add: extension_of_def template_ok_def)
qed

lemma name_not_cw: "name_ok nm \<Longrightarrow> \<not> (char_at nm 0 = CHR ''C'' \<and> char_at nm 1 = CHR ''W'')"
  by (cases nm; cases "tl nm") (auto simp: name_ok_def char_at_def)

lemma FindOpcode_named:
  assumes "ready a" "name_ok (op_name opc)" "n = op_param_count opc"
    and "(if ty = Primary then FindOpInfoByName (op_name opc) else FindExtOpInfoByName (op_name opc)) = Some opc"
  shows "FindOpcode (op_name opc) n ty a = (Some opc, a)"
  using assms name_not_cw [OF assms(2)] by (auto simp: FindOpcode_def ready_def name_ok_def)

lemma main_template_cases: "main_template op1 = cw \<or> main_template op1 \<in> set s_opcodes"
  using main_template_in [of op1] by auto

lemma FindOpcode_main:
  assumes "ready a"
  shows "FindOpcode (op_name (main_template op1)) (op_param_count (main_template op1)) Primary a = (Some (main_template op1), a)"
proof (cases "main_template op1 = cw")
  case True
  then show ?thesis
    by (simp add: FindOpcode_def cw_def char_at_def)
next
  case False
  then have "main_template op1 \<in> set s_opcodes"
    using main_template_cases by auto
  then show ?thesis
    using main_names_ok find_by_name [OF main_names_differ] assms
    by (intro FindOpcode_named) (auto simp: list_all_iff FindOpInfoByName_def)
qed

lemma FindOpcode_extension:
  "ready a \<Longrightarrow> x \<in> set s_opcodes_ext \<Longrightarrow> FindOpcode (op_name x) (op_param_count x) Extension a = (Some x, a)"
  using ext_names_ok find_by_name [OF ext_names_differ]
  by (intro FindOpcode_named) (auto simp: list_all_iff FindExtOpInfoByName_def)

definition printed_extension :: "u16 \<Rightarrow> u16 \<Rightarrow> param_t list" where
  "printed_extension op1 op2 = (case extension_of op1 of None \<Rightarrow> [] | Some x \<Rightarrow> printed_params x op1 op2)"

definition emit_instruction :: "u16 \<Rightarrow> u16 \<Rightarrow> DSPAssembler \<Rightarrow> DSPAssembler asm_result" where
  "emit_instruction op1 op2 a =
     (if unat (m_cur_addr a) < length (m_output_buffer a)
      then bindE (build_instruction op1 op2 (m_cur_addr a) (m_output_buffer a)) (\<lambda>buf. Inr (a\<lparr>m_output_buffer := buf\<rparr>))
      else Inl BadIndex)"

definition advance_address :: "u16 \<Rightarrow> DSPAssembler \<Rightarrow> DSPAssembler" where
  "advance_address n a = a\<lparr>m_cur_addr := m_cur_addr a + ucast n, m_total_size := m_total_size a + ucast n\<rparr>"

lemma length_printed_params: "template_ok opc \<Longrightarrow> length (printed_params opc op1 op2) = op_param_count opc"
  by (simp add: printed_params_def template_ok_def)

lemma emit_printed:
  "emit (main_template op1) (printed_params (main_template op1) op1 op2) (extension_of op1) (printed_extension op1 op2) a =
    emit_instruction op1 op2 a"
  by (rule extension_of_cases [of op1])
    (simp_all add: emit_def emit_instruction_def build_instruction_def printed_extension_def Let_def bindE_assoc)

lemma assemble_printed:
  assumes "ready a" "\<not> refused op1"
  shows "assemble_instruction pass (op_name (main_template op1)) (map_option op_name (extension_of op1))
      (printed_params (main_template op1) op1 op2) (printed_extension op1 op2) a =
    bindE (if pass = 2 then emit_instruction op1 op2 a else Inr a)
      (\<lambda>a. Inr (advance_address (op_size (main_template op1)) a))"
proof (cases rule: extension_of_cases [of op1, case_names plain extended])
  case plain
  then show ?thesis
    using emit_printed [of op1 op2] by (simp add: assemble_instruction_def FindOpcode_main [OF assms(1)] length_printed_params [OF main_template_ok]
      main_accepted [OF assms(2)] printed_extension_def advance_address_def Let_def)
next
  case (extended w x)
  then show ?thesis
    using emit_printed [of op1 op2] by (simp add: assemble_instruction_def FindOpcode_main [OF assms(1)] length_printed_params [OF main_template_ok]
      main_accepted [OF assms(2)] printed_extension_def length_printed_params FindOpcode_extension [OF assms(1)]
      ext_accepted advance_address_def Let_def)
qed

section \<open>Processing the line\<close>

lemma few_params: "list_all (\<lambda>opc. length (op_params opc) \<le> 4) (cw # s_opcodes @ s_opcodes_ext)"
  by code_simp

lemma few_printed_params: "opc \<in> set (cw # s_opcodes @ s_opcodes_ext) \<Longrightarrow> length (printed_params opc op1 op2) \<le> 4"
  using few_params unfolding printed_params_def list_all_iff by auto

lemma no_directive:
  "name_ok nm \<or> nm = ''CW'' \<Longrightarrow>
    process_operation pass nm ext pars pars_ext a = bindE (assemble_instruction pass nm ext pars pars_ext a) (\<lambda>a. Inr (None, a))"
  by (auto simp: process_operation_def name_ok_def Let_def)

lemma main_name_ok: "name_ok (op_name (main_template op1)) \<or> op_name (main_template op1) = ''CW''"
  using main_template_cases [of op1] main_names_ok by (auto simp: list_all_iff cw_def)

lemma name_text:
  assumes "name_ok nm \<or> nm = ''CW''"
  shows "nm \<noteq> []" "list_all name_char nm" "set nm \<inter> set '' :'' = {}" "CHR 0x27 \<notin> set nm" "length nm < 12"
  using assms by (auto simp: name_ok_def list_all_iff)

lemma comma_separated_text:
  assumes "list_all2 (denotes a) ss pars"
  shows "list_all plain_char (comma_separated ss)" "CHR '':'' \<notin> set (upper_text (comma_separated ss))"
    "length (comma_separated ss) \<le> 14 * length pars"
proof -
  have c: "plain_char (CHR '','')" "plain_char (CHR '' '')" "upper_char (CHR '','') = CHR '',''" "upper_char (CHR '' '') = CHR '' ''"
    by (simp_all add: plain_char_def upper_char_def to_upper_def)
  have p: "list_all plain_char s \<and> CHR '':'' \<notin> set (upper_text s) \<and> length s \<le> 12" if "denotes a s par" for s par
  proof (intro conjI)
    show "list_all plain_char s"
      using that by (auto simp: denotes_def list_all_iff param_char_def intro!: plain_if_upper)
    show "CHR '':'' \<notin> set (upper_text s)" "length s \<le> 12"
      using denotes_text [OF that] by auto
  qed
  have "list_all (\<lambda>s. list_all plain_char s \<and> CHR '':'' \<notin> set (upper_text s) \<and> length s \<le> 12) ss"
    using assms by (induction rule: list_all2_induct) (use p in auto)
  then show "list_all plain_char (comma_separated ss)" "CHR '':'' \<notin> set (upper_text (comma_separated ss))"
    "length (comma_separated ss) \<le> 14 * length pars"
    unfolding list_all2_lengthD [OF assms, symmetric] atomize_conj
    by (induction ss rule: comma_separated.induct) (auto simp: c)
qed

text \<open>The line of one instruction, in every pass.\<close>

definition line_assembles :: "u16 \<Rightarrow> u16 \<Rightarrow> string \<Rightarrow> bool" where
  "line_assembles op1 op2 text \<longleftrightarrow> CHR 0x0a \<notin> set text \<and> length text \<le> 1023 \<and>
     (\<exists>line. clean_line False True text = (line, False) \<and>
       (\<forall>a pass k. ready a \<longrightarrow> process_line (Suc (Suc k)) pass line a =
         bindE (if pass = 2 then emit_instruction op1 op2 a else Inr a)
           (\<lambda>a. Inr (None, advance_address (op_size (main_template op1)) a))))"

lemma process_printed:
  assumes "ready a" "\<not> refused op1" "split_label line = ([], line)"
    and "split_operation fuel line a = Inr (Some (op_name (main_template op1)), map_option op_name (extension_of op1),
      printed_params (main_template op1) op1 op2, printed_extension op1 op2, a)"
  shows "process_line fuel pass line a = bindE (if pass = 2 then emit_instruction op1 op2 a else Inr a)
    (\<lambda>a. Inr (None, advance_address (op_size (main_template op1)) a))"
  using assms(3, 4) no_directive [OF main_name_ok]
  by (simp add: process_line_def register_line_label_def assemble_printed [OF assms(1, 2)] bindE_assoc)

text \<open>The parameters, for every assembler that is ready.\<close>

lemma params_text:
  assumes "opc \<in> set (cw # s_opcodes @ s_opcodes_ext)" "template_ok opc"
  obtains P where "(if op_param_count opc > 0 then DisassembleParameters settings opc op1 op2 else Inr []) = Inr P"
    "\<And>a. ready a \<Longrightarrow> \<exists>ss. P = comma_separated ss \<and> list_all2 (denotes a) ss (printed_params opc op1 op2)"
    "list_all plain_char P" "CHR '':'' \<notin> set (upper_text P)" "length P \<le> 56"
proof -
  have ex: "\<exists>ss. DisassembleParameters settings opc op1 op2 = Inr (comma_separated ss) \<and>
      list_all2 (denotes a) ss (printed_params opc op1 op2)" if "ready a" for a
    using DisassembleParameters_denotes [OF assms(1), of a settings op1 op2] that by (metis ready_def)
  have "ready (new_assembler False\<lparr>m_labels := default_labels, m_aliases := default_aliases\<rparr>)"
    by (simp add: ready_def)
  from ex [OF this] obtain a ss where ss: "DisassembleParameters settings opc op1 op2 = Inr (comma_separated ss)"
    "list_all2 (denotes a) ss (printed_params opc op1 op2)"
    by blast
  have "(if op_param_count opc > 0 then DisassembleParameters settings opc op1 op2 else Inr []) = Inr (comma_separated ss)"
    using ss assms(2) by (auto simp: template_ok_def printed_params_def)
  moreover have "\<exists>ss'. comma_separated ss = comma_separated ss' \<and> list_all2 (denotes a) ss' (printed_params opc op1 op2)"
    if "ready a" for a
    using ex [OF that] unfolding ss(1) sum.inject .
  moreover have "length (comma_separated ss) \<le> 56"
    using comma_separated_text(3) [OF ss(2)] few_printed_params [OF assms(1), of op1 op2] by linarith
  ultimately show thesis
    using that [of "comma_separated ss"] comma_separated_text(1, 2) [OF ss(2)] by blast
qed

lemma GetParams_text:
  assumes "list_all2 (denotes a) ss pars" "length pars \<le> 10"
  shows "GetParams (Suc (Suc k)) (blanks i @ upper_text (comma_separated ss) @ blanks j) a = Inr (pars, a)"
  using GetParams_listed [OF assms(1)] list_all2_lengthD [OF assms(1)] assms(2) by simp

lemma plain_from_upper:
  "list_all (\<lambda>c. value_char c \<or> c \<in> set '' :'' \<or> c = CHR 0x27) (upper_text s) \<Longrightarrow> list_all plain_char s"
  by (auto simp: list_all_iff intro!: plain_if_upper)

lemma full_name_text:
  assumes "opc \<in> set (cw # s_opcodes)" "x \<in> set s_opcodes_ext"
  shows "list_all (\<lambda>c. name_char c \<or> c = CHR 0x27) (full_name opc None)" "length (full_name opc None) \<le> 24"
    "list_all (\<lambda>c. name_char c \<or> c = CHR 0x27) (full_name opc (Some x))" "length (full_name opc (Some x)) \<le> 24"
proof -
  have "name_ok (op_name opc) \<or> op_name opc = ''CW''" "name_ok (op_name x)"
    using assms main_names_ok ext_names_ok by (auto simp: list_all_iff cw_def)
  then have "list_all name_char (op_name opc)" "length (op_name opc) < 12" "list_all name_char (op_name x)" "length (op_name x) < 12"
    using name_text by auto
  then show "list_all (\<lambda>c. name_char c \<or> c = CHR 0x27) (full_name opc None)" "length (full_name opc None) \<le> 24"
    "list_all (\<lambda>c. name_char c \<or> c = CHR 0x27) (full_name opc (Some x))" "length (full_name opc (Some x)) \<le> 24"
    by (auto simp: full_name_def list_all_iff)
qed

text \<open>The mark behind an unknown instruction is two tabs and a comment.\<close>

definition unknown_mark :: "DSPOPCTemplate \<Rightarrow> string" where
  "unknown_mark opc = (if opcode_mask opc = 0 then [CHR 0x09, CHR 0x09] @ ''; *** UNKNOWN OPCODE ***'' else [])"

lemma clean_printed:
  assumes "list_all plain_char s"
  obtains j where "clean_line False True (s @ unknown_mark opc) = (upper_text s @ blanks j, False)"
proof (cases "opcode_mask opc = 0")
  case True
  have "list_all plain_char (s @ [CHR 0x09, CHR 0x09])"
    using assms by (simp add: plain_char_def)
  from clean_plain [OF this, of "''; *** UNKNOWN OPCODE ***''"] show thesis
    using that [of 2] True by (simp add: unknown_mark_def upper_char_def to_upper_def eval_nat_numeral)
next
  case False
  with clean_plain [OF assms, of "[]"] show thesis
    using that [of 0] by (simp add: unknown_mark_def)
qed

lemma unknown_mark_text: "CHR 0x0a \<notin> set (unknown_mark opc)" "length (unknown_mark opc) \<le> 30"
  by (simp_all add: unknown_mark_def)

lemma plain_no_newline: "list_all plain_char s \<Longrightarrow> CHR 0x0a \<notin> set s"
  by (auto simp: list_all_iff plain_char_def)

lemma line_assemblesI:
  assumes "list_all plain_char s" "length s \<le> 900" "\<not> refused op1"
    and "\<And>j. split_label (upper_text s @ blanks j) = ([], upper_text s @ blanks j)"
    and "\<And>a j k. ready a \<Longrightarrow> split_operation (Suc (Suc k)) (upper_text s @ blanks j) a =
      Inr (Some (op_name (main_template op1)), map_option op_name (extension_of op1),
        printed_params (main_template op1) op1 op2, printed_extension op1 op2, a)"
  shows "line_assembles op1 op2 (s @ unknown_mark opc)"
proof -
  obtain j where "clean_line False True (s @ unknown_mark opc) = (upper_text s @ blanks j, False)"
    using clean_printed [OF assms(1)] .
  moreover have "CHR 0x0a \<notin> set (s @ unknown_mark opc)" "length (s @ unknown_mark opc) \<le> 1023"
    using plain_no_newline [OF assms(1)] unknown_mark_text [of opc] assms(2) by auto
  ultimately show ?thesis
    unfolding line_assembles_def using process_printed [OF _ assms(3, 4, 5)] by blast
qed

lemma shown_name:
  assumes "readable settings" "separated settings op1" "extension_of op1 = ext" "ext = None \<or> the ext \<in> set s_opcodes_ext"
  obtains m where "upper_text (show_name settings (main_template op1) ext) = full_name (main_template op1) ext @ CHR '' '' # blanks m"
    "length (show_name settings (main_template op1) ext) \<le> 36" "list_all plain_char (show_name settings (main_template op1) ext)"
proof -
  let ?name = "full_name (main_template op1) ext"
  have "list_all (\<lambda>c. name_char c \<or> c = CHR 0x27) ?name \<and> length ?name \<le> 24"
    using full_name_text [OF main_template_in [of op1], of "if ext = None then hd s_opcodes_ext else the ext"] assms(4)
    by (cases ext) (auto simp: s_opcodes_ext_def)
  then have full: "list_all (\<lambda>c. name_char c \<or> c = CHR 0x27) ?name" "length ?name \<le> 24"
    by simp_all
  have sep: "ext_separator settings = CHR 0x27" "print_tabs settings \<or> length ?name < 12"
    using assms(1-3) by (simp_all add: readable_def separated_def)
  obtain m where m: "upper_text (show_name settings (main_template op1) ext) = ?name @ CHR '' '' # blanks m"
    "length (show_name settings (main_template op1) ext) \<le> length ?name + 12"
    by (rule upper_show_name [OF sep(1) full(1) sep(2)])
  have "list_all plain_char (show_name settings (main_template op1) ext)"
    using full(1) by (intro plain_from_upper) (auto simp: m(1) list_all_iff value_char_def)
  with m full(2) show thesis
    using that by auto
qed

lemma upper_punctuation: "upper_char (CHR '':'') = CHR '':''" "upper_char (CHR '' '') = CHR '' ''"
  by (simp_all add: upper_char_def to_upper_def)

lemma main_name_text:
  "op_name (main_template op1) \<noteq> []" "CHR '' '' \<notin> set (op_name (main_template op1))"
  "CHR '':'' \<notin> set (op_name (main_template op1))" "CHR 0x27 \<notin> set (op_name (main_template op1))"
  using name_text [OF main_name_ok] by auto

lemma extension_name_text:
  "x \<in> set s_opcodes_ext \<Longrightarrow> op_name x \<noteq> [] \<and> CHR '' '' \<notin> set (op_name x) \<and> CHR '':'' \<notin> set (op_name x)"
  using name_text [of "op_name x"] ext_names_ok by (auto simp: list_all_iff)

lemma plain_line:
  assumes "readable settings" "separated settings op1" "\<not> refused op1"
    and ext: "extension_word (main_template op1) op1 = None" "extension_of op1 = None"
  obtains out where "show_operation settings (main_template op1) op1 op2 = Inr (out, op_size (main_template op1))"
    "line_assembles op1 op2 out"
proof -
  let ?opc = "main_template op1"
  obtain m where m: "upper_text (show_name settings ?opc None) = full_name ?opc None @ CHR '' '' # blanks m"
    "length (show_name settings ?opc None) \<le> 36" "list_all plain_char (show_name settings ?opc None)"
    using shown_name [OF assms(1, 2) ext(2)] by blast
  obtain P where P: "(if op_param_count ?opc > 0 then DisassembleParameters settings ?opc op1 op2 else Inr []) = Inr P"
    "\<And>a. ready a \<Longrightarrow> \<exists>ss. P = comma_separated ss \<and> list_all2 (denotes a) ss (printed_params ?opc op1 op2)"
    "list_all plain_char P" "CHR '':'' \<notin> set (upper_text P)" "length P \<le> 56"
    using params_text [OF main_template_in_tables main_template_ok] by blast
  let ?s = "show_name settings ?opc None @ P"
  have up: "upper_text ?s @ blanks j = op_name ?opc @ CHR '' '' # blanks m @ upper_text P @ blanks j" for j
    by (simp add: m(1) full_name_def)
  have "line_assembles op1 op2 (?s @ unknown_mark ?opc)"
  proof (rule line_assemblesI [OF _ _ assms(3)])
    fix a j k assume r: "ready a"
    from P(2) [OF r] obtain ss where ss: "P = comma_separated ss" "list_all2 (denotes a) ss (printed_params ?opc op1 op2)"
      by blast
    have "GetParams (Suc (Suc k)) (blanks m @ upper_text P @ blanks j) a = Inr (printed_params ?opc op1 op2, a)"
      unfolding ss(1)
      by (rule GetParams_text [OF ss(2)]) (rule order.trans [OF few_printed_params [OF main_template_in_tables]], simp)
    then show "split_operation (Suc (Suc k)) (upper_text ?s @ blanks j) a =
      Inr (Some (op_name ?opc), map_option op_name (extension_of op1), printed_params ?opc op1 op2, printed_extension op1 op2, a)"
      unfolding up using main_name_text P(4) by (subst split_operation_plain) (auto simp: ext printed_extension_def)
  qed (use main_name_text P m in \<open>auto simp: up full_name_def intro!: split_label_none\<close>)
  moreover have "show_operation settings ?opc op1 op2 = Inr (?s @ unknown_mark ?opc, op_size ?opc)"
    using P(1) by (simp add: show_operation_def ext unknown_mark_def Let_def)
  ultimately show thesis
    using that by blast
qed

lemma extended_line:
  assumes "readable settings" "separated settings op1" "\<not> refused op1"
    and ext: "extension_word (main_template op1) op1 = Some w" "FindExtOpInfoByOpcode w = Some x"
      "extension_of op1 = Some x" "x \<in> set s_opcodes_ext" "template_ok x" "op_size x = op_size (main_template op1)"
  obtains out where "show_operation settings (main_template op1) op1 op2 = Inr (out, op_size (main_template op1))"
    "line_assembles op1 op2 out"
proof -
  let ?opc = "main_template op1"
  obtain m where m: "upper_text (show_name settings ?opc (Some x)) = full_name ?opc (Some x) @ CHR '' '' # blanks m"
    "length (show_name settings ?opc (Some x)) \<le> 36" "list_all plain_char (show_name settings ?opc (Some x))"
    using shown_name [OF assms(1, 2) ext(3)] ext(4) by auto
  have x_in: "x \<in> set (cw # s_opcodes @ s_opcodes_ext)"
    using ext(4) by simp
  obtain P where P: "(if op_param_count ?opc > 0 then DisassembleParameters settings ?opc op1 op2 else Inr []) = Inr P"
    "\<And>a. ready a \<Longrightarrow> \<exists>ss. P = comma_separated ss \<and> list_all2 (denotes a) ss (printed_params ?opc op1 op2)"
    "list_all plain_char P" "CHR '':'' \<notin> set (upper_text P)" "length P \<le> 56"
    using params_text [OF main_template_in_tables main_template_ok] by blast
  obtain X where X: "(if op_param_count x > 0 then DisassembleParameters settings x op1 op2 else Inr []) = Inr X"
    "\<And>a. ready a \<Longrightarrow> \<exists>ss. X = comma_separated ss \<and> list_all2 (denotes a) ss (printed_params x op1 op2)"
    "list_all plain_char X" "CHR '':'' \<notin> set (upper_text X)" "length X \<le> 56"
    using params_text [OF x_in ext(5)] by blast
  define i where "i = (if op_param_count ?opc > 0 then 1 else 0 :: nat)"
  let ?s = "show_name settings ?opc (Some x) @ P @ blanks i @ '': '' @ X"
  let ?first = "blanks m @ upper_text P @ blanks i" and ?second = "\<lambda>j. blanks 1 @ upper_text X @ blanks j"
  have up: "upper_text ?s @ blanks j = (op_name ?opc @ CHR 0x27 # op_name x) @ CHR '' '' # ?first @ CHR '':'' # ?second j" for j
    by (simp add: m(1) full_name_def upper_punctuation)
  have names: "CHR '':'' \<notin> set ((op_name ?opc @ CHR 0x27 # op_name x) @ CHR '' '' # ?first)"
    using main_name_text extension_name_text [OF ext(4)] P(4) by auto
  have "line_assembles op1 op2 (?s @ unknown_mark ?opc)"
  proof (rule line_assemblesI [OF _ _ assms(3)])
    fix a j k assume r: "ready a"
    from P(2) [OF r] X(2) [OF r] obtain ss xs
      where ss: "P = comma_separated ss" "list_all2 (denotes a) ss (printed_params ?opc op1 op2)"
        and xs: "X = comma_separated xs" "list_all2 (denotes a) xs (printed_params x op1 op2)"
      by blast
    have "GetParams (Suc (Suc k)) ?first a = Inr (printed_params ?opc op1 op2, a)"
      unfolding ss(1)
      by (rule GetParams_text [OF ss(2)]) (rule order.trans [OF few_printed_params [OF main_template_in_tables]], simp)
    moreover have "GetParams (Suc (Suc k)) (?second j) a = Inr (printed_params x op1 op2, a)"
      unfolding xs(1) by (rule GetParams_text [OF xs(2)]) (rule order.trans [OF few_printed_params [OF x_in]], simp)
    ultimately show "split_operation (Suc (Suc k)) (upper_text ?s @ blanks j) a =
      Inr (Some (op_name ?opc), map_option op_name (extension_of op1), printed_params ?opc op1 op2, printed_extension op1 op2, a)"
      unfolding up using main_name_text extension_name_text [OF ext(4)] P(4)
      by (subst split_operation_extended) (auto simp: ext printed_extension_def)
  next
    fix j show "split_label (upper_text ?s @ blanks j) = ([], upper_text ?s @ blanks j)"
      unfolding up using split_label_not [OF names, of "CHR 0x27" "?second j"]
      by (simp add: label_char_def label_start_def is_decimal_def)
  qed (use P X m in \<open>auto simp: i_def plain_char_def\<close>)
  moreover have "show_operation settings ?opc op1 op2 = Inr (?s @ unknown_mark ?opc, op_size ?opc)"
    using P(1) X(1) ext(6) by (auto simp: show_operation_def ext(1, 2) unknown_mark_def i_def Let_def split: if_splits)
  ultimately show thesis
    using that by blast
qed

lemma instruction_line:
  assumes "readable settings" "separated settings op1" "\<not> refused op1"
  obtains out where "show_operation settings (main_template op1) op1 op2 = Inr (out, op_size (main_template op1))"
    "line_assembles op1 op2 out"
proof (cases rule: extension_of_cases [of op1, case_names plain extended])
  case plain
  from plain_line [OF assms plain] that show thesis
    by blast
next
  case (extended w x)
  then have "op_size x = op_size (main_template op1)"
    by simp
  from extended_line [OF assms extended(1-5) this] that show thesis
    by blast
qed

end
