(* ===== verification/Dsp_Roundtrip.thy ===== *)
theory Dsp_Roundtrip
  imports Dsp_Line_Facts
begin

text \<open>
  Whole programs: the code a memory holds, disassembled and assembled again, is the same code, for
  memories whose instructions all survive the trip.
\<close>

unbundle bit_operations_syntax

section \<open>Programs that survive\<close>

text \<open>
  Every instruction is complete, has no bit outside its templates, is not one of those the assembler
  refuses, and has a name that leaves a space in its column.
\<close>

fun reassembles :: "AssemblerSettings \<Rightarrow> u16 list \<Rightarrow> bool" where
  "reassembles settings [] = True"
| "reassembles settings (op1 # rest) =
     (op1 AND kept_bits op1 = op1 \<and> \<not> refused op1 \<and> separated settings op1 \<and>
      (if op_size (main_template op1) = 2 then rest \<noteq> [] \<and> reassembles settings (drop 1 rest)
       else reassembles settings rest))"

section \<open>Disassembling\<close>

lemma DisassembleOpcode_line:
  assumes "readable settings" "pc0 AND 0x7fff = pc0" "unat pc0 + unat (op_size (main_template (code ! unat pc0))) \<le> length code"
    and "op2 = (if op_size (main_template (code ! unat pc0)) = 2 then code ! Suc (unat pc0) else 0)"
    and "show_operation settings (main_template (code ! unat pc0)) (code ! unat pc0) op2 =
      Inr (out, op_size (main_template (code ! unat pc0)))"
  shows "DisassembleOpcode settings code pc0 = Inr (True, pc0 + op_size (main_template (code ! unat pc0)), out)"
proof -
  have "op_size (main_template (code ! unat pc0)) = 1 \<or> op_size (main_template (code ! unat pc0)) = 2"
    using main_template_ok [of "code ! unat pc0"] by (auto simp: template_ok_def)
  then show ?thesis
    using assms by (auto simp: DisassembleOpcode_def readable_def Let_def)
qed

section \<open>One step of a pass\<close>

lemma getline_line:
  "CHR 0x0a \<notin> set out \<Longrightarrow> length out \<le> 1023 \<Longrightarrow> getline (out @ CHR 0x0a # rest) = Some (out, rest)"
  by (simp add: getline_def until_char Let_def)

lemma assemble_line:
  assumes "line_assembles op1 op2 out" "ready a" "\<not> m_failed a"
  shows "assemble_lines (Suc (Suc (Suc k))) files pass False (out @ CHR 0x0a # rest) a =
    bindE (if pass = 2 then emit_instruction op1 op2 a else Inr a)
      (\<lambda>a. assemble_lines (Suc (Suc k)) files pass False rest (advance_address (op_size (main_template op1)) a))"
proof -
  obtain line where line: "clean_line False True out = (line, False)"
    "process_line (Suc (Suc k)) pass line a = bindE (if pass = 2 then emit_instruction op1 op2 a else Inr a)
      (\<lambda>a. Inr (None, advance_address (op_size (main_template op1)) a))"
    using assms by (auto simp: line_assembles_def)
  have "getline (out @ CHR 0x0a # rest) = Some (out, rest)"
    using assms(1) by (auto simp: line_assembles_def intro!: getline_line)
  then show ?thesis
    using assms(3) line by (subst assemble_lines.simps) (simp add: bindE_assoc del: assemble_lines.simps)
qed

text \<open>Where a pass has got to: the address, and in the second pass the buffer.\<close>

definition at_word :: "nat \<Rightarrow> u16 list \<Rightarrow> nat \<Rightarrow> DSPAssembler \<Rightarrow> DSPAssembler" where
  "at_word pass code n a = a\<lparr>m_cur_addr := of_nat n, m_total_size := of_nat n,
     m_output_buffer := (if pass = 2 then take n code @ replicate (length code - n) 0 else m_output_buffer a)\<rparr>"

lemma filled_word:
  assumes "n < length code"
  shows "(take n code @ replicate (length code - n) 0)[n := code ! n] = take (Suc n) code @ replicate (length code - Suc n) 0"
proof -
  obtain m where "length code - n = Suc m"
    using assms by (metis Suc_diff_Suc)
  then show ?thesis
    using assms by (simp add: list_update_append take_Suc_conv_app_nth)
qed

lemma size_cases: "op_size (main_template op1) = 1 \<or> op_size (main_template op1) = 2"
  using main_template_ok [of op1] by (auto simp: template_ok_def)

definition operand_word :: "u16 list \<Rightarrow> nat \<Rightarrow> u16" where
  "operand_word code n = (if op_size (main_template (code ! n)) = 2 then code ! Suc n else 0)"

lemma advance_at_word:
  "pass \<noteq> 2 \<Longrightarrow> advance_address sz (at_word pass code n a) = at_word pass code (n + unat sz) a"
  by (simp add: advance_address_def at_word_def)

lemma filled_instruction:
  assumes "n + unat (op_size (main_template (code ! n))) \<le> length code"
  shows "or_at (Suc n) (operand_word code n) ((take n code @ replicate (length code - n) 0)[n := code ! n]) =
    take (n + unat (op_size (main_template (code ! n)))) code @
      replicate (length code - (n + unat (op_size (main_template (code ! n))))) 0"
proof -
  have n: "n < length code"
    using assms size_cases [of "code ! n"] by auto
  show ?thesis
  proof (cases "op_size (main_template (code ! n)) = 2")
    case True
    then have n': "Suc n < length code"
      using assms by simp
    then have z: "(take (Suc n) code @ replicate (length code - Suc n) 0) ! Suc n = 0"
      by (simp add: nth_append)
    show ?thesis
      using True filled_word [OF n'] unfolding filled_word [OF n]
      by (simp add: or_at_def operand_word_def z)
  next
    case False
    then have "op_size (main_template (code ! n)) = 1"
      using size_cases by blast
    then show ?thesis
      unfolding filled_word [OF n] by (simp add: operand_word_def)
  qed
qed

lemma emit_at_word:
  assumes "n + unat (op_size (main_template (code ! n))) \<le> length code" "length code \<le> 0x8000"
    and "code ! n AND kept_bits (code ! n) = code ! n"
  shows "bindE (emit_instruction (code ! n) (operand_word code n) (at_word 2 code n a))
      (\<lambda>a. Inr (advance_address (op_size (main_template (code ! n))) a)) =
    Inr (at_word 2 code (n + unat (op_size (main_template (code ! n)))) a)"
proof -
  let ?sz = "op_size (main_template (code ! n))" and ?buf = "take n code @ replicate (length code - n) 0"
  have n: "n < length code"
    using assms(1) size_cases [of "code ! n"] by auto
  then have u: "unat (of_nat n :: u32) = n"
    using assms(2) by (simp add: unat_of_nat)
  have "build_instruction (code ! n) (operand_word code n) (of_nat n) ?buf =
      Inr (or_at (Suc n) (operand_word code n) (?buf[n := code ! n]))"
    using n build_instruction_bits [of "of_nat n" "code ! n" ?buf "operand_word code n"] assms u
    by (simp add: operand_word_def)
  then show ?thesis
    using n by (simp add: emit_instruction_def at_word_def u filled_instruction [OF assms(1)] advance_address_def)
qed

lemma step_at_word:
  assumes "n + unat (op_size (main_template (code ! n))) \<le> length code" "length code \<le> 0x8000"
    and "code ! n AND kept_bits (code ! n) = code ! n"
  shows "bindE (if pass = 2 then emit_instruction (code ! n) (operand_word code n) (at_word pass code n a)
        else Inr (at_word pass code n a))
      (\<lambda>a. f (advance_address (op_size (main_template (code ! n))) a)) =
    f (at_word pass code (n + unat (op_size (main_template (code ! n)))) a)"
proof (cases "pass = 2")
  case True
  from arg_cong [OF emit_at_word [OF assms, of a], of "\<lambda>m. bindE m f"] True show ?thesis
    by (simp add: bindE_assoc)
next
  case False
  then show ?thesis
    by (simp add: advance_at_word)
qed

section \<open>A whole program\<close>

lemma reassembles_step:
  assumes "n < length code" "reassembles settings (drop n code)"
  shows "code ! n AND kept_bits (code ! n) = code ! n" "\<not> refused (code ! n)" "separated settings (code ! n)"
    "n + unat (op_size (main_template (code ! n))) \<le> length code"
    "reassembles settings (drop (n + unat (op_size (main_template (code ! n)))) code)"
proof -
  have d: "drop n code = code ! n # drop (Suc n) code"
    using assms(1) by (simp add: Cons_nth_drop_Suc)
  note r = assms(2) [unfolded d, simplified]
  show "code ! n AND kept_bits (code ! n) = code ! n" "\<not> refused (code ! n)" "separated settings (code ! n)"
    using r by simp_all
  show "n + unat (op_size (main_template (code ! n))) \<le> length code"
    "reassembles settings (drop (n + unat (op_size (main_template (code ! n)))) code)"
    using r assms(1) size_cases [of "code ! n"] by (auto simp: drop_drop split: if_splits)
qed

lemma unwrapped: "n < 0x8000 \<Longrightarrow> (of_nat n :: u16) AND 0x7fff = of_nat n"
proof -
  assume n: "n < 0x8000"
  have m: "(0x7fff :: u16) = mask 15"
    by (simp add: mask_eq_exp_minus_1)
  have "take_bit 15 n = n"
    using n by (simp add: take_bit_nat_eq_self_iff)
  then show ?thesis
    unfolding m take_bit_eq_mask [symmetric] by (simp add: take_bit_of_nat)
qed

text \<open>The text from word \<open>n\<close> on, and what both passes make of it.\<close>

lemma program_from:
  assumes "readable settings" "length code \<le> 0x8000" "n \<le> length code" "reassembles settings (drop n code)"
  shows "\<exists>out. (\<forall>text0. disassemble_from settings code (of_nat n) text0 = Some (Inr (True, text0 @ out))) \<and>
    (\<forall>pass a k files. ready a \<longrightarrow> \<not> m_failed a \<longrightarrow> length code \<le> n + k \<longrightarrow>
      assemble_lines (k + 3) files pass False out (at_word pass code n a) = Inr (at_word pass code (length code) a))"
  using assms(3, 4)
proof (induction "length code - n" arbitrary: n rule: less_induct)
  case less
  have u: "unat (of_nat n :: u16) = n"
    using less.prems(1) assms(2) by (simp add: unat_of_nat)
  show ?case
  proof (cases "n = length code")
    case True
    have "disassemble_from settings code (of_nat n) text0 = Some (Inr (True, text0))" for text0
      using True u by (subst disassemble_from.simps) simp
    then show ?thesis
      using True by (intro exI [of _ "[]"]) (simp add: getline_def eval_nat_numeral)
  next
    case False
    then have n: "n < length code"
      using less.prems by simp
    note step = reassembles_step [OF n less.prems(2)]
    let ?sz = "op_size (main_template (code ! n))"
    have "length code - (n + unat ?sz) < length code - n"
      using n size_cases [of "code ! n"] by auto
    from less.hyps [OF this step(4, 5)] obtain out where out:
      "\<And>text0. disassemble_from settings code (of_nat (n + unat ?sz)) text0 = Some (Inr (True, text0 @ out))"
      "\<And>pass a k files. ready a \<Longrightarrow> \<not> m_failed a \<Longrightarrow> length code \<le> n + unat ?sz + k \<Longrightarrow>
        assemble_lines (k + 3) files pass False out (at_word pass code (n + unat ?sz) a) =
          Inr (at_word pass code (length code) a)"
      by blast
    obtain line where line: "show_operation settings (main_template (code ! n)) (code ! n) (operand_word code n) = Inr (line, ?sz)"
      "line_assembles (code ! n) (operand_word code n) line"
      using instruction_line [OF assms(1) step(3, 2)] by blast
    have "(of_nat n :: u16) AND 0x7fff = of_nat n"
      using n assms(2) by (intro unwrapped) simp
    from DisassembleOpcode_line [OF assms(1) this, unfolded u, OF step(4) operand_word_def line(1)]
    have dis: "DisassembleOpcode settings code (of_nat n) = Inr (True, of_nat (n + unat ?sz), line)"
      by simp
    show ?thesis
    proof (intro exI [of _ "line @ CHR 0x0a # out"] conjI allI impI)
      fix text0
      show "disassemble_from settings code (of_nat n) text0 = Some (Inr (True, text0 @ line @ CHR 0x0a # out))"
        using n u out(1) by (subst disassemble_from.simps) (simp add: dis)
    next
      fix pass a k files
      assume a: "ready a" "\<not> m_failed a" "length code \<le> n + k"
      then obtain k' where k: "k = Suc k'" "length code \<le> n + unat ?sz + k'"
        using n size_cases [of "code ! n"] by (cases k) auto
      have "ready (at_word pass code n a)" "\<not> m_failed (at_word pass code n a)"
        using a by (simp_all add: ready_def at_word_def)
      note asm = assemble_line [OF line(2) this]
      have e: "k + 3 = Suc (Suc (Suc (Suc k')))" "k' + 3 = Suc (Suc (Suc k'))"
        using k(1) by simp_all
      show "assemble_lines (k + 3) files pass False (line @ CHR 0x0a # out) (at_word pass code n a) =
          Inr (at_word pass code (length code) a)"
        using out(2) [OF a(1, 2) k(2), of files pass] unfolding e asm step_at_word [OF step(4) assms(2) step(1)] .
    qed
  qed
qed

section \<open>The round trip\<close>

lemma ready_InitPass: "ready (InitPass 1 a)" "ready a \<Longrightarrow> ready (InitPass 2 a)"
  by (simp_all add: ready_def InitPass_def Let_def)

lemma ready_at_word: "ready (at_word pass code n a) = ready a"
  by (simp add: ready_def at_word_def)

lemma disassembled_code_assembles:
  assumes "readable settings" "code \<noteq> []" "length code \<le> 0x8000" "reassembles settings code"
    and "m_output_buffer a = []" "length code + 3 \<le> fuel"
  shows "\<exists>out a'. Disassemble settings code [] = Some (Inr (True, out)) \<and>
    Assemble fuel files out a = Inr (Some code, a') \<and> m_last_error a' = OK"
proof -
  from program_from [OF assms(1, 3), of 0] obtain out where
    dis: "disassemble_from settings code 0 [] = Some (Inr (True, out))"
    and asm: "\<And>pass a k files. ready a \<Longrightarrow> \<not> m_failed a \<Longrightarrow> length code \<le> k \<Longrightarrow>
      assemble_lines (k + 3) files pass False out (at_word pass code 0 a) = Inr (at_word pass code (length code) a)"
    using assms(4) by auto
  obtain k where k: "fuel = k + 3" "length code \<le> k"
    using assms(6) by (metis add_le_imp_le_right le_Suc_ex le_add_diff_inverse2 add_leE)
  have l: "length code > 0"
    using assms(2) by simp
  have u: "unat (of_nat (length code) :: u32) = length code" "0 < sint (of_nat (length code) :: u32)"
    using assms(3) l by (simp_all add: unat_of_nat sint_small uint_nat)
  let ?a1 = "InitPass 1 a\<lparr>m_cur_pass := 1\<rparr>"
  have r1: "ready ?a1" "\<not> m_failed ?a1" "at_word 1 code 0 ?a1 = ?a1"
    by (simp_all add: ready_def InitPass_def at_word_def Let_def)
  let ?b = "at_word 1 code (length code) ?a1"
  have p1: "AssemblePass fuel files out 1 (InitPass 1 a) = Inr (True, ?b)"
    using asm [OF r1(1, 2) k(2), of files 1] r1 by (simp add: AssemblePass_def k(1) at_word_def)
  let ?c = "?b\<lparr>m_output_buffer := replicate (length code) 0\<rparr>"
  let ?a2 = "InitPass 2 ?c\<lparr>m_cur_pass := 2\<rparr>"
  have r2: "ready ?a2" "\<not> m_failed ?a2" "at_word 2 code 0 ?a2 = ?a2"
    using r1(1) by (simp_all add: ready_def InitPass_def at_word_def Let_def)
  have p2: "AssemblePass fuel files out 2 (InitPass 2 ?c) = Inr (True, at_word 2 code (length code) ?a2)"
    using asm [OF r2(1, 2) k(2), of files 2] r2 by (simp add: AssemblePass_def k(1) at_word_def)
  have total: "m_total_size ?b = of_nat (length code)" "m_output_buffer ?b = []"
    using assms(5) by (simp_all add: at_word_def InitPass_def Let_def)
  have c: "?b\<lparr>m_output_buffer := resize (unat (m_total_size ?b)) (m_output_buffer ?b)\<rparr> = ?c"
    unfolding total u resize_def by simp
  have "\<exists>a'. Assemble fuel files out a = Inr (Some code, a') \<and> m_last_error a' = OK"
    unfolding Assemble_def p1 bindE.simps case_prod_conv Let_def c p2
    using u(2) by (simp add: total at_word_def)
  then show ?thesis
    using dis assms(3) by (auto simp: Disassemble_def)
qed

end
