(* ===== verification/Dsp_Expression_Facts.thy ===== *)
theory Dsp_Expression_Facts
  imports Dsp_Assembler
begin

text \<open>
  Expressions end: the evaluator calls itself on texts with fewer operators and parentheses, so fuel
  in proportion to their number is enough, and more changes nothing.
\<close>

section \<open>The weight of an expression\<close>

definition char_weight :: "char \<Rightarrow> nat" where
  "char_weight c = (if c = CHR ''('' then 2 else if c \<in> set ''+-*/|&'' then 1 else 0)"

definition weight :: "string \<Rightarrow> nat" where
  "weight s = sum_list (map char_weight s)"

lemma weight_simps [simp]:
  "weight [] = 0" "weight (c # s) = char_weight c + weight s" "weight (s @ t) = weight s + weight t"
  by (simp_all add: weight_def)

lemma weight_filter: "weight (filter P s) \<le> weight s"
  by (induction s) auto

lemma weight_le_length: "weight s \<le> 2 * length s"
  by (induction s) (auto simp: char_weight_def)

lemma digit_char_weight: "d < 10 \<Longrightarrow> char_weight (digit_char d) = 0"
proof -
  have "list_all (\<lambda>d. char_weight (digit_char d) = 0) [0 ..< 10]"
    by code_simp
  then show "d < 10 \<Longrightarrow> char_weight (digit_char d) = 0"
    unfolding list_all_iff by (auto simp del: upt_conv_Cons upt_Suc)
qed

lemma weight_digits: "weight (digits 10 n) = 0"
proof (induction n rule: less_induct)
  case (less n)
  then show ?case
    by (subst digits.simps) (auto simp: digit_char_weight)
qed

lemma weight_print_d: "weight (print_d v) \<le> 1"
  by (simp add: print_d_def show_int_def weight_digits char_weight_def)

lemma weight_mark_signs: "weight (mark_signs prev s) \<le> weight s"
  by (induction s arbitrary: prev) (auto simp: Let_def char_weight_def intro: le_SucI)

lemma split_at_weight: "split_at c s = Some (l, r) \<Longrightarrow> weight s = weight l + char_weight c + weight r"
proof -
  assume s: "split_at c s = Some (l, r)"
  then have "c \<in> set s" "l = takeWhile (\<lambda>x. x \<noteq> c) s" "r = drop 1 (dropWhile (\<lambda>x. x \<noteq> c) s)"
    by (auto simp: split_at_def split: if_splits)
  then have "s = l @ c # r"
    by (induction s arbitrary: l) auto
  then show ?thesis
    by simp
qed

lemma close_bracket_weight: "close_bracket n dst s = Some (d, r) \<Longrightarrow> weight d + weight r \<le> weight dst + weight s"
  by (induction n dst s rule: close_bracket.induct) (auto split: if_splits)

lemma FindBrackets_weight:
  "FindBrackets s = Brackets front inner rest \<Longrightarrow> weight front + 2 + weight inner + weight rest \<le> weight s"
  "FindBrackets s = NoBrackets s' complain \<Longrightarrow> weight s' \<le> weight s"
proof -
  have z: "weight (filter (\<lambda>c. c = CHR '')'') t) = 0" for t
    by (induction t) (auto simp: char_weight_def)
  show "FindBrackets s = Brackets front inner rest \<Longrightarrow> weight front + 2 + weight inner + weight rest \<le> weight s"
    by (auto simp: FindBrackets_def z char_weight_def split: option.splits dest!: split_at_weight close_bracket_weight)
  show "FindBrackets s = NoBrackets s' complain \<Longrightarrow> weight s' \<le> weight s"
    by (auto simp: FindBrackets_def split: option.splits dest!: split_at_weight)
qed

section \<open>Enough fuel\<close>

definition finished :: "'a asm_result \<Rightarrow> bool" where
  "finished m \<longleftrightarrow> m \<noteq> Inl Unfinished"

lemma finished_simps [simp]:
  "finished (Inr x)" "finished (Inl e) \<longleftrightarrow> e \<noteq> Unfinished"
  by (simp_all add: finished_def)

lemma finished_bindE: "finished m \<Longrightarrow> (\<And>x. m = Inr x \<Longrightarrow> finished (f x)) \<Longrightarrow> finished (bindE m f)"
  by (cases m) (auto simp: finished_def)

text \<open>A text result is lighter than some bound.\<close>

definition light :: "nat \<Rightarrow> (string \<times> DSPAssembler) asm_result \<Rightarrow> bool" where
  "light w m \<longleftrightarrow> finished m \<and> (\<forall>s a. m = Inr (s, a) \<longrightarrow> weight s \<le> w)"

lemma light_bindE:
  "light w m \<Longrightarrow> (\<And>s a. weight s \<le> w \<Longrightarrow> finished (f (s, a))) \<Longrightarrow> finished (bindE m f)"
  by (cases m) (auto simp: light_def)

lemma light_bind:
  "finished m \<Longrightarrow> (\<And>x. m = Inr x \<Longrightarrow> light w (f x)) \<Longrightarrow> light w (bindE m f)"
  by (cases m) (auto simp: light_def)

lemma light_mono: "light w m \<Longrightarrow> w \<le> w' \<Longrightarrow> light w' m"
  by (auto simp: light_def)

lemma light_simps [simp]: "light w (Inr (s, a)) \<longleftrightarrow> weight s \<le> w" "light w (Inl e) \<longleftrightarrow> e \<noteq> Unfinished"
  by (auto simp: light_def)

lemma expressions_finish:
  "(\<forall>s a. 2 * weight s + 2 \<le> k \<longrightarrow> finished (ParseExpression k s a)) \<and>
   (\<forall>s a. 2 * weight s + 1 \<le> k \<longrightarrow> light (weight s) (subst_brackets k s a)) \<and>
   (\<forall>c f d a w. c \<in> set ''+-*/|&'' \<longrightarrow> (\<forall>x y. finished (f x y)) \<longrightarrow> weight d \<le> w \<longrightarrow> 2 * w + 1 \<le> k \<longrightarrow>
      light w (binary_op k c f d a))"
proof (induction k)
  case 0
  then show ?case
    by simp
next
  case (Suc k)
  then have P: "\<And>s a. 2 * weight s + 2 \<le> k \<Longrightarrow> finished (ParseExpression k s a)"
    and S: "\<And>s a. 2 * weight s + 1 \<le> k \<Longrightarrow> light (weight s) (subst_brackets k s a)"
    and B: "\<And>c f d a w. c \<in> set ''+-*/|&'' \<Longrightarrow> (\<And>x y. finished (f x y)) \<Longrightarrow> weight d \<le> w \<Longrightarrow> 2 * w + 1 \<le> k \<Longrightarrow>
      light w (binary_op k c f d a)"
    by blast+
  show ?case
  proof (intro conjI allI impI)
    fix s a assume w: "2 * weight s + 2 \<le> Suc k"
    have mark: "weight (mark_signs None (filter (\<lambda>c. c \<noteq> CHR '' '') t)) \<le> weight s" if "weight t \<le> weight s" for t
      by (rule order.trans [OF weight_mark_signs order.trans [OF weight_filter that]])
    have step: "finished (bindE (binary_op k c f d a) (\<lambda>(d, a). g d a))"
      if "c \<in> set ''+-*/|&''" "\<And>x y. finished (f x y)" "weight d \<le> weight s"
        "\<And>d a. weight d \<le> weight s \<Longrightarrow> finished (g d a)" for c f d a g
      using that w by (intro light_bindE [OF B [of c f d "weight s"]]) auto
    show "finished (ParseExpression (Suc k) s a)"
      unfolding ParseExpression.simps
    proof (rule light_bindE [OF S], goal_cases)
      case (2 t a)
      show ?case
        unfolding case_prod_conv Let_def
        by (intro step) (simp_all add: mark [OF 2])
    qed (use w in simp)
  next
    fix s a assume w: "2 * weight s + 1 \<le> Suc k"
    show "light (weight s) (subst_brackets (Suc k) s a)"
    proof (cases "FindBrackets s")
      case (NoBrackets s' complain)
      then show ?thesis
        using FindBrackets_weight(2) by simp
    next
      case (Brackets front inner rest)
      note b = FindBrackets_weight(1) [OF Brackets]
      have "light (weight s) (let s' = front @ print_d v @ rest in
          if length s' \<ge> 1024 then Inl BadIndex else subst_brackets k s' a)" for v a
      proof -
        have "weight (front @ print_d v @ rest) + 1 \<le> weight s"
          using b weight_print_d [of v] by simp
        then have "light (weight s) (subst_brackets k (front @ print_d v @ rest) a)"
          using w S [of "front @ print_d v @ rest" a] by (auto intro: light_mono)
        then show ?thesis
          by (simp add: Let_def del: append_assoc subst_brackets.simps)
      qed
      then show ?thesis
        using b w by (simp add: Brackets) (intro light_bind P; auto)
    qed
  next
    fix c d a w and f :: "u32 \<Rightarrow> u32 \<Rightarrow> u32 asm_result"
    assume c: "c \<in> set ''+-*/|&''" and f: "\<forall>x y. finished (f x y)" and w: "weight d \<le> w" "2 * w + 1 \<le> Suc k"
    show "light w (binary_op (Suc k) c f d a)"
    proof (cases "split_at c d")
      case (Some lr)
      obtain l r where lr: "lr = (l, r)"
        by (cases lr)
      have "char_weight c \<ge> 1"
        using c by (auto simp: char_weight_def)
      then have b: "weight l + 1 \<le> w" "weight r + 1 \<le> w"
        using split_at_weight [of c d l r] Some w(1) by (simp_all add: lr)
      have "weight (print_d v) \<le> w" for v
        using weight_print_d [of v] b(1) by simp
      then show ?thesis
        using b w(2) f unfolding binary_op.simps Some option.case lr case_prod_conv
        by (intro light_bind P; simp add: split_beta del: ParseExpression.simps;
          intro light_bind P; simp add: split_beta; intro light_bind; simp)
    qed (use w in simp)
  qed
qed

section \<open>More fuel\<close>

text \<open>A result extends another when it is the same, unless the other ran out of fuel.\<close>

definition extends :: "'a asm_result \<Rightarrow> 'a asm_result \<Rightarrow> bool" where
  "extends m m' \<longleftrightarrow> finished m \<longrightarrow> m' = m"

lemma extends_refl [simp]: "extends m m"
  by (simp add: extends_def)

lemma extends_Unfinished [simp]: "extends (Inl Unfinished) m"
  by (simp add: extends_def)

lemma extends_bindE: "extends m m' \<Longrightarrow> (\<And>x. extends (f x) (f' x)) \<Longrightarrow> extends (bindE m f) (bindE m' f')"
  by (cases m) (auto simp: extends_def finished_def)

lemma expressions_extend:
  "(\<forall>s a. extends (ParseExpression k s a) (ParseExpression (Suc k) s a)) \<and>
   (\<forall>s a. extends (subst_brackets k s a) (subst_brackets (Suc k) s a)) \<and>
   (\<forall>c f d a. extends (binary_op k c f d a) (binary_op (Suc k) c f d a))"
proof (induction k)
  case 0
  show ?case
    unfolding ParseExpression.simps(1) subst_brackets.simps(1) binary_op.simps(1) by simp
next
  case (Suc k)
  then have P: "\<And>s a. extends (ParseExpression k s a) (ParseExpression (Suc k) s a)"
    and S: "\<And>s a. extends (subst_brackets k s a) (subst_brackets (Suc k) s a)"
    and B: "\<And>c f d a. extends (binary_op k c f d a) (binary_op (Suc k) c f d a)"
    by blast+
  show ?case
  proof (intro conjI allI)
    fix s a
    have step: "extends (bindE (binary_op k c f d a) (\<lambda>(d, a). g d a)) (bindE (binary_op (Suc k) c f d a) (\<lambda>(d, a). g' d a))"
      if "\<And>d a. extends (g d a) (g' d a)" for c f d a and g g' :: "string \<Rightarrow> DSPAssembler \<Rightarrow> (u32 \<times> DSPAssembler) asm_result"
      by (rule extends_bindE [OF B]) (use that in \<open>auto split: prod.split\<close>)
    have start: "extends (bindE (subst_brackets k s a) (\<lambda>(d, a). g d a)) (bindE (subst_brackets (Suc k) s a) (\<lambda>(d, a). g' d a))"
      if "\<And>d a. extends (g d a) (g' d a)" for g g' :: "string \<Rightarrow> DSPAssembler \<Rightarrow> (u32 \<times> DSPAssembler) asm_result"
      by (rule extends_bindE [OF S]) (use that in \<open>auto split: prod.split\<close>)
    show "extends (ParseExpression (Suc k) s a) (ParseExpression (Suc (Suc k)) s a)"
      unfolding ParseExpression.simps(2) [of k] ParseExpression.simps(2) [of "Suc k"] Let_def
      by (intro start step extends_refl)
    show "extends (subst_brackets (Suc k) s a) (subst_brackets (Suc (Suc k)) s a)"
      unfolding subst_brackets.simps(2) [of k] subst_brackets.simps(2) [of "Suc k"]
      by (cases "FindBrackets s") (auto simp: Let_def split_beta simp del: subst_brackets.simps ParseExpression.simps
          intro!: extends_bindE [OF P] S [unfolded subst_brackets.simps(2) [of k]])
  next
    fix c f d a
    show "extends (binary_op (Suc k) c f d a) (binary_op (Suc (Suc k)) c f d a)"
      unfolding binary_op.simps(2) [of k] binary_op.simps(2) [of "Suc k"]
      by (cases "split_at c d") (auto simp: split_beta simp del: binary_op.simps ParseExpression.simps
          intro!: extends_bindE [OF P])
  qed
qed

text \<open>With enough fuel there is one result.\<close>

lemma ParseExpression_result:
  assumes "2 * weight s + 2 \<le> k"
  shows "finished (ParseExpression k s a)" "k \<le> k' \<Longrightarrow> ParseExpression k' s a = ParseExpression k s a"
proof -
  show f: "finished (ParseExpression k s a)"
    using assms expressions_finish by blast
  have e: "extends (ParseExpression k s a) (ParseExpression (Suc k) s a)" for k
    using expressions_extend by blast
  show "k \<le> k' \<Longrightarrow> ParseExpression k' s a = ParseExpression k s a"
  proof (induction k' rule: dec_induct)
    case (step n)
    then show ?case
      using e [of n] f by (simp add: extends_def del: ParseExpression.simps)
  qed simp
qed

end
