(* ===== verification/Dsp_Assembler_Facts.thy ===== *)
theory Dsp_Assembler_Facts
  imports Dsp_Expression_Facts Dsp_Template_Facts
begin

text \<open>
  The assembler ends on every text, when no file is included: each part of it is followed from the
  masks of the parameter check up to the two passes.
\<close>

section \<open>Masks\<close>

lemma shift_mask_finished: "(msk :: u16) \<noteq> 0 \<Longrightarrow> unat msk < 2 ^ n \<Longrightarrow> finished (shift_mask n msk)"
proof (induction n arbitrary: msk)
  case 0
  then show ?case
    by (simp add: unat_eq_0)
next
  case (Suc n)
  show ?case
  proof (cases "msk AND 1 = 0")
    case True
    have "unat (drop_bit 1 msk) = unat msk div 2"
      using unsigned_less [of msk, where 'a = nat] unfolding unsigned_drop_bit_eq
      by (simp add: drop_bit_eq_div take_bit_eq_mod)
    moreover have "even (unat msk)"
    proof -
      have "unat (msk AND 1) = unat msk AND 1"
        by (simp only: unsigned_and_eq unsigned_1)
      then show ?thesis
        using True by (simp add: and_one_eq even_iff_mod_2_eq_zero)
    qed
    moreover have "unat msk \<noteq> 0"
      using Suc.prems(1) by (simp add: unat_eq_0)
    ultimately have "drop_bit 1 msk \<noteq> 0" "unat (drop_bit 1 msk) < 2 ^ n"
      using Suc.prems(2) by (auto simp: dvd_def)
    then show ?thesis
      using True Suc.IH by simp
  qed simp
qed

lemma get_mask_finished: "msk \<noteq> 0 \<Longrightarrow> finished (get_mask_shifted_down msk)"
  using unsigned_less [of msk, where 'a = nat] by (simp add: get_mask_shifted_down_def shift_mask_finished)

lemma masks_not_zero: "list_all (\<lambda>p. param_mask p \<noteq> 0) all_params"
  by code_simp

section \<open>Parameters\<close>

text \<open>The types that the parser gives to parameters.\<close>

definition parsed :: "param_t \<Rightarrow> bool" where
  "parsed par \<longleftrightarrow> par_type par \<in> {P_STR, P_IMM, P_PRG, P_MEM, P_REG, P_VAL}"

lemma finished_if: "(c \<Longrightarrow> finished x) \<Longrightarrow> (\<not> c \<Longrightarrow> finished y) \<Longrightarrow> finished (if c then x else y)"
  by simp

lemma verify_param_finished:
  assumes "p \<in> set all_params \<or> p = Param P_NONE 0 0 0 0" "parsed par"
  shows "finished (verify_param p par)"
proof (cases "p \<in> set all_params")
  case True
  then have "param_mask p \<noteq> 0"
    using masks_not_zero by (simp add: list_all_iff)
  note m = get_mask_finished [OF this]
  have "finished (register_errors p v)" "finished (number_errors p v)" for v
    unfolding register_errors_def number_errors_def Let_def
    by (intro finished_if finished_bindE m finished_simps(1) | simp)+
  then show ?thesis
    unfolding verify_param_def by (intro finished_if finished_bindE) simp_all
next
  case False
  then show ?thesis
    using assms by (auto simp: verify_param_def parsed_def)
qed

lemma template_param_result:
  assumes "\<And>opc'. opc = Some opc' \<Longrightarrow> opc' \<in> set (cw # s_opcodes @ s_opcodes_ext)"
  shows "finished (template_param opc i)"
    and "template_param opc i = Inr p \<Longrightarrow> p \<in> set all_params \<or> p = Param P_NONE 0 0 0 0"
proof -
  show "finished (template_param opc i)"
    by (simp add: template_param_def split: option.split)
  assume p: "template_param opc i = Inr p"
  then obtain opc' where o: "opc = Some opc'"
    by (cases opc) (auto simp: template_param_def)
  have "set (op_params opc') \<subseteq> set all_params"
    using assms [OF o] by (auto simp: all_params_def)
  then show "p \<in> set all_params \<or> p = Param P_NONE 0 0 0 0"
    using p o nth_mem [of i "op_params opc'"] by (auto simp: template_param_def split: if_splits)
qed

lemma VerifyParams_finished:
  "(\<And>opc'. opc = Some opc' \<Longrightarrow> opc' \<in> set (cw # s_opcodes @ s_opcodes_ext)) \<Longrightarrow> list_all parsed pars \<Longrightarrow>
    finished (VerifyParams opc i pars a)"
proof (induction pars arbitrary: i a)
  case (Cons par pars)
  have "finished (verify_param p par)" if "template_param opc i = Inr p" for p
    using template_param_result(2) [OF Cons.prems(1) that] Cons.prems(2) by (intro verify_param_finished) auto
  then show ?case
    using Cons by (auto simp: Let_def intro!: finished_bindE template_param_result(1) split: prod.split)
qed simp

lemma BuildCode_finished: "finished (BuildCode opc addr pars buf)"
proof -
  have w: "finished (or_word i v buf)" for i v buf
    by (simp add: or_word_def)
  have t: "finished (template_param (Some opc) i)" for i
    by (simp add: template_param_def)
  have "finished (build_params opc addr i pars buf)" for i buf
    by (induction pars arbitrary: i buf) (auto intro!: finished_bindE t w)
  then show ?thesis
    unfolding BuildCode_def by (intro finished_bindE w)
qed

section \<open>Reading parameters\<close>

lemma ParseExpression_finished: "4 * length s + 2 \<le> fuel \<Longrightarrow> finished (ParseExpression fuel s a)"
  using weight_le_length [of s] by (intro ParseExpression_result(1)) simp

lemma strtok_length: "strtok ds s = Some (t, rest) \<Longrightarrow> length t \<le> length s \<and> length rest \<le> length s"
proof -
  assume s: "strtok ds s = Some (t, rest)"
  let ?s = "dropWhile (\<lambda>c. c \<in> set ds) s"
  have "t = takeWhile (\<lambda>c. c \<notin> set ds) ?s" "rest = drop 1 (dropWhile (\<lambda>c. c \<notin> set ds) ?s)"
    using s by (auto simp: strtok_def Let_def split: if_splits)
  moreover have "length ?s \<le> length s" "length (dropWhile (\<lambda>c. c \<notin> set ds) ?s) \<le> length ?s"
    by (rule length_dropWhile_le)+
  ultimately show ?thesis
    using length_takeWhile_le [of "\<lambda>c. c \<notin> set ds" ?s] by simp
qed

text \<open>The result of one parameter: parsed, and the rest no longer than it may be.\<close>

definition param_result :: "nat \<Rightarrow> (param_t \<times> string \<times> DSPAssembler) asm_result \<Rightarrow> bool" where
  "param_result n m \<longleftrightarrow> finished m \<and> (\<forall>par rest a. m = Inr (par, rest, a) \<longrightarrow> parsed par \<and> length rest \<le> n)"

lemma parse_param_result:
  assumes "length s \<le> n" "length rest \<le> n" "4 * n + 2 \<le> fuel"
  shows "param_result n (parse_param fuel s rest a)"
proof -
  have e: "param_result n (bindE (ParseExpression fuel t a) (\<lambda>(v, a). Inr (\<lparr>par_val = v, par_type = ty, par_str = None\<rparr>, rest, a)))"
    if "length t \<le> n" "ty \<in> {P_IMM, P_PRG, P_MEM, P_REG, P_VAL}" for t ty
    using that assms ParseExpression_finished [of t fuel a]
    by (cases "ParseExpression fuel t a") (auto simp: param_result_def parsed_def simp del: ParseExpression.simps)
  have "param_result n (case strtok [CHR 0x22] s of
      None \<Rightarrow> Inr (\<lparr>par_val = 0, par_type = P_STR, par_str = None\<rparr>, [], a)
    | Some (t, rest') \<Rightarrow> Inr (\<lparr>par_val = 0, par_type = P_STR, par_str = Some t\<rparr>, rest', a))"
    using assms(1) by (auto simp: param_result_def parsed_def split: option.split dest!: strtok_length)
  then show ?thesis
    using assms(1) unfolding parse_param_def Let_def by (simp add: e del: ParseExpression.simps)
qed

definition params_result :: "(param_t list \<times> DSPAssembler) asm_result \<Rightarrow> bool" where
  "params_result m \<longleftrightarrow> finished m \<and> (\<forall>pars a. m = Inr (pars, a) \<longrightarrow> list_all parsed pars)"

lemma skip_spaces_length: "length (skip_spaces s) \<le> length s"
  by (simp add: length_dropWhile_le)

lemma parse_params_result:
  "4 * n + 2 \<le> fuel \<Longrightarrow> (\<And>t rest. tok = Some (t, rest) \<Longrightarrow> length t \<le> n \<and> length rest \<le> n) \<Longrightarrow>
    params_result (parse_params fuel i tok a)"
proof (induction i arbitrary: tok a)
  case (Suc i)
  show ?case
  proof (cases tok)
    case (Some tr)
    obtain tmpstr rest where tr: "tr = (tmpstr, rest)"
      by (cases tr)
    let ?s = "skip_spaces tmpstr"
    have l: "length ?s \<le> n" "length rest \<le> n"
      using Suc.prems(2) [of tmpstr rest] skip_spaces_length [of tmpstr] Some tr by auto
    have p: "param_result n (parse_param fuel ?s rest a)"
      using l Suc.prems(1) by (rule parse_param_result)
    show ?thesis
    proof (cases "parse_param fuel ?s rest a")
      case (Inl e)
      then show ?thesis
        using p Some tr by (simp add: params_result_def param_result_def Let_def del: skip_spaces.simps)
    next
      case (Inr r)
      obtain par rest' b where r: "r = (par, rest', b)"
        by (cases r)
      then have pr: "parsed par" "length rest' \<le> n"
        using p Inr by (auto simp: param_result_def)
      have ih: "params_result (parse_params fuel i (strtok '','' rest') b)"
        using Suc.prems(1) pr(2) strtok_length [of "'',''" rest'] by (intro Suc.IH) (auto intro: order.trans)
      then show ?thesis
        using pr(1) Some tr Inr r by (cases "parse_params fuel i (strtok '','' rest') b")
          (auto simp: params_result_def Let_def simp del: skip_spaces.simps)
    qed
  qed (simp add: params_result_def)
qed (simp add: params_result_def)

lemma GetParams_result: "4 * length s + 2 \<le> fuel \<Longrightarrow> params_result (GetParams fuel s a)"
  unfolding GetParams_def
  using skip_spaces_length [of s] strtok_length [of "'',''" "skip_spaces s"]
  by (intro parse_params_result [of "length s"]) (auto intro: order.trans simp del: skip_spaces.simps)

section \<open>Lines\<close>

lemma length_clean_line: "length (fst (clean_line disable upper s)) \<le> length s"
proof (induction disable upper s rule: clean_line.induct)
  case (2 disable upper c cs)
  show ?case
  proof (cases "clean_char disable upper c (char_at cs 0)")
    case (fields c' disable' upper' closes)
    then show ?thesis
      using "2.IH" by (auto simp: Let_def split: prod.split)
  qed
qed simp

lemma split_at_length: "split_at c s = Some (l, r) \<Longrightarrow> length l \<le> length s \<and> length r \<le> length s"
  using length_takeWhile_le [of "\<lambda>x. x \<noteq> c" s] length_dropWhile_le [of "\<lambda>x. x \<noteq> c" s]
  by (auto simp: split_at_def split: if_splits)

lemma split_label_length: "length (snd (split_label line)) \<le> length line"
  by (auto simp: split_label_def split: option.split dest!: split_at_length)

definition operation_result ::
    "(string option \<times> string option \<times> param_t list \<times> param_t list \<times> DSPAssembler) asm_result \<Rightarrow> bool" where
  "operation_result m \<longleftrightarrow> finished m \<and>
     (\<forall>opc ext pars xs a. m = Inr (opc, ext, pars, xs, a) \<longrightarrow> list_all parsed pars \<and> list_all parsed xs)"

lemma operation_result_params:
  assumes "params_result m" "\<And>a. params_result (f a)"
  shows "operation_result (bindE m (\<lambda>(pars, a). bindE (f a) (\<lambda>(xs, a). Inr (opc, ext, pars, xs, a))))"
proof (cases m)
  case (Inr r)
  obtain pars b where r: "r = (pars, b)"
    by (cases r)
  then show ?thesis
    using Inr assms(1) assms(2) [of b] by (cases "f b") (auto simp: params_result_def operation_result_def)
qed (use assms in \<open>simp add: params_result_def operation_result_def\<close>)

lemma split_operation_result:
  assumes "4 * length line + 2 \<le> fuel"
  shows "operation_result (split_operation fuel line a)"
proof (cases "strtok '' '' line")
  case None
  then show ?thesis
    by (simp add: split_operation_def operation_result_def)
next
  case (Some tr)
  obtain opname rest where tr: "tr = (opname, rest)"
    by (cases tr)
  have g: "params_result (case s of None \<Rightarrow> Inr ([], a) | Some s \<Rightarrow> GetParams fuel s a)"
    if "\<And>t. s = Some t \<Longrightarrow> length t \<le> length line" for s a
  proof (cases s)
    case (Some t)
    then show ?thesis
      using that [OF Some] assms by (simp add: GetParams_result)
  qed (simp add: params_result_def)
  have r: "length rest \<le> length line"
    using strtok_length [of "'' ''" line opname rest] Some tr by simp
  have s: "length l \<le> length line \<and> length t \<le> length line" if "split_at (CHR '':'') rest = Some (l, t)" for l t
    using split_at_length [OF that] r by simp
  define oe where "oe = (case split_at (CHR 0x27) opname of None \<Rightarrow> (opname, None)
      | Some (opc, ext) \<Rightarrow> (opc, if ext = [] then None else Some ext))"
  define px where "px = (if rest = [] then (None, None) else case split_at (CHR '':'') rest of None \<Rightarrow> (Some rest, None)
      | Some (s, ext) \<Rightarrow> (Some s, Some ext))"
  obtain opc ext where o: "oe = (opc, ext)"
    by (cases oe)
  obtain ps xs where p: "px = (ps, xs)"
    by (cases px)
  have l: "length t \<le> length line" if "ps = Some t \<or> xs = Some t" for t
    using p that r by (auto simp: px_def split: if_splits option.splits dest!: s)
  show ?thesis
    unfolding split_operation_def Some tr option.case case_prod_conv Let_def oe_def [symmetric] px_def [symmetric] o p
  proof (rule operation_result_params)
    show "params_result (case ps of None \<Rightarrow> Inr ([], a) | Some s \<Rightarrow> GetParams fuel s a)"
      by (rule g) (rule l, simp)
    show "params_result (case xs of None \<Rightarrow> Inr ([], a) | Some s \<Rightarrow> GetParams fuel s a)" for a
      by (rule g) (rule l, simp)
  qed
qed

lemma FindOpcode_result:
  "FindOpcode nm n ty a = (Some opc, b) \<Longrightarrow> opc \<in> set (cw # s_opcodes @ s_opcodes_ext)"
  by (auto simp: FindOpcode_def FindOpInfoByName_def FindExtOpInfoByName_def find_Some_iff Let_def
      split: if_splits option.splits)

lemma emit_finished: "finished (emit opc pars ext xs a)"
  unfolding emit_def by (auto intro!: finished_bindE BuildCode_finished split: option.split)

lemma assemble_instruction_finished:
  assumes "list_all parsed pars" "list_all parsed xs"
  shows "finished (assemble_instruction pass nm ext pars xs a)"
proof -
  have v: "finished (VerifyParams (fst (FindOpcode nm n ty a)) i ps b)" if "list_all parsed ps" for nm n ty a i ps b
    using that FindOpcode_result [of nm n ty a] by (intro VerifyParams_finished) (metis surj_pair fst_conv)+
  have m: "finished (VerifyParams (Some cw) i ps b)"
      "fst (FindOpcode nm n ty a) = Some opc \<Longrightarrow> finished (VerifyParams (Some opc) i ps b)"
    if "list_all parsed ps" for nm n ty a i ps b opc
    using that FindOpcode_result [of nm n ty a opc] by (auto intro!: VerifyParams_finished simp: prod_eq_iff)
  show ?thesis
    unfolding assemble_instruction_def Let_def split_beta
    using assms by (auto intro!: finished_bindE v m emit_finished split: option.split)
qed

lemma process_line_finished:
  assumes "4 * length line + 2 \<le> fuel"
  shows "finished (process_line fuel pass line a)"
proof -
  obtain label rest where sl: "split_label line = (label, rest)"
    by (cases "split_label line")
  have "operation_result (split_operation fuel rest a)"
    using split_label_length [of line] sl assms by (intro split_operation_result) simp
  moreover have "finished (process_operation pass nm ext pars xs b)" if "list_all parsed pars" "list_all parsed xs" for nm ext pars xs b
    unfolding process_operation_def Let_def
    using that by (auto intro!: finished_bindE assemble_instruction_finished simp: string_param_def split: option.split)
  ultimately show ?thesis
    unfolding process_line_def sl case_prod_conv
    by (cases "split_operation fuel rest a")
      (auto simp: operation_result_def split: prod.split option.split)
qed

section \<open>Passes\<close>

lemma getline_length:
  "getline inp = Some (line, rest) \<Longrightarrow> length line \<le> 1023 \<and> length rest < length inp"
  using length_dropWhile_le [of "\<lambda>c. c \<noteq> CHR 0x0a" inp]
  by (cases inp) (auto simp: getline_def Let_def length_dropWhile_le less_Suc_eq_le split: if_splits)

text \<open>A line takes at most 4094 of the fuel, the lines one each.\<close>

lemma assemble_lines_finished:
  "length inp + 4095 \<le> fuel \<Longrightarrow> finished (assemble_lines fuel (\<lambda>_. []) pass disable inp a)"
proof (induction "length inp" arbitrary: inp fuel disable a rule: less_induct)
  case less
  obtain k where k: "fuel = Suc k"
    using less.prems by (cases fuel) auto
  show ?case
  proof (cases "getline inp")
    case (Some lr)
    obtain line rest where lr: "lr = (line, rest)"
      by (cases lr)
    have l: "length line \<le> 1023" "length rest < length inp"
      using getline_length [of inp line rest] Some lr by simp_all
    obtain line' disable' where c: "clean_line disable True line = (line', disable')"
      by (cases "clean_line disable True line")
    have p: "finished (process_line k pass line' a)"
      using length_clean_line [of disable True line] c l less.prems k
      by (intro process_line_finished) simp
    have n: "finished (assemble_lines k (\<lambda>_. []) pass disable' rest b)" for b
      using l less.prems k by (intro less.hyps) simp_all
    obtain j where "k = Suc j"
      using less.prems k by (cases k) auto
    then have i: "finished (assemble_lines k (\<lambda>_. []) pass False [] b)" for b
      by (simp add: getline_def)
    show ?thesis
      unfolding k by (auto simp: Some lr c intro!: finished_bindE p n i split: option.split)
  qed (simp add: k)
qed

lemma AssemblePass_finished:
  "length inp + 4095 \<le> fuel \<Longrightarrow> finished (AssemblePass fuel (\<lambda>_. []) inp pass a)"
  unfolding AssemblePass_def by (auto intro!: finished_bindE assemble_lines_finished)

theorem Assemble_finished:
  "length inp + 4095 \<le> fuel \<Longrightarrow> finished (Assemble fuel (\<lambda>_. []) inp a)"
  unfolding Assemble_def Let_def
  by (auto intro!: finished_bindE AssemblePass_finished split: prod.split)

end
