(* ===== verification/Dsp_CodeUtil_Facts.thy ===== *)
theory Dsp_CodeUtil_Facts
  imports Dsp_CodeUtil Dsp_Roundtrip Dsp_Assembler_Facts
begin

text \<open>
  The tools as they are called: no instruction word faults the disassembler, a code memory is
  disassembled to its end exactly when its last instruction is complete, the comparison of two codes
  decides their equality, binary files give back the code, and the round trip of the tests succeeds.
\<close>

unbundle bit_operations_syntax

section \<open>The disassembler is total\<close>

lemma DisassembleParameters_defined:
  assumes "opc \<in> set (cw # s_opcodes @ s_opcodes_ext)"
  shows "\<exists>s. DisassembleParameters settings opc op1 op2 = Inr s"
  using DisassembleParameters_denotes [OF assms, of "new_assembler False\<lparr>m_labels := default_labels\<rparr>" settings op1 op2]
  by (auto simp: new_assembler_def)

lemma show_operation_defined:
  "\<exists>s. show_operation settings (main_template op1) op1 op2 = Inr (s, op_size (main_template op1))"
proof -
  obtain ps where ps: "DisassembleParameters settings (main_template op1) op1 op2 = Inr ps"
    using DisassembleParameters_defined [OF main_template_in_tables] by blast
  show ?thesis
  proof (cases rule: extension_of_cases [of op1, case_names plain extended])
    case plain
    then show ?thesis
      using ps by (auto simp: show_operation_def Let_def)
  next
    case (extended w x)
    then obtain xs where "DisassembleParameters settings x op1 op2 = Inr xs"
      using DisassembleParameters_defined [of x settings op1 op2] by auto
    then show ?thesis
      using ps extended by (auto simp: show_operation_def Let_def)
  qed
qed

text \<open>One instruction, by what is left of the memory.\<close>

definition cut_off :: "u16 list \<Rightarrow> u16 \<Rightarrow> bool" where
  "cut_off code w \<longleftrightarrow> op_size (main_template (code ! unat w)) = 2 \<and> length code \<le> unat w + 1"

lemma DisassembleOpcode_cases:
  "unat (pc0 AND 0x7fff) < length code \<Longrightarrow>
    \<exists>s. DisassembleOpcode settings code pc0 =
      Inr (\<not> cut_off code (pc0 AND 0x7fff), pc0 + op_size (main_template (code ! unat (pc0 AND 0x7fff))), s)"
  using show_operation_defined [of settings "code ! unat (pc0 AND 0x7fff)" "code ! (unat (pc0 AND 0x7fff) + 1)"]
    show_operation_defined [of settings "code ! unat (pc0 AND 0x7fff)" 0]
  by (auto simp: DisassembleOpcode_def Let_def cut_off_def)

lemma DisassembleOpcode_defined: "\<exists>r. DisassembleOpcode settings code pc0 = Inr r"
  using DisassembleOpcode_cases [of pc0 code settings]
  by (cases "unat (pc0 AND 0x7fff) < length code") (auto simp: DisassembleOpcode_def Let_def)

section \<open>Whole memories\<close>

text \<open>The last instruction of a memory is complete.\<close>

fun whole :: "u16 list \<Rightarrow> bool" where
  "whole [] = True"
| "whole (op1 # rest) =
     (if op_size (main_template op1) = 2 then rest \<noteq> [] \<and> whole (drop 1 rest) else whole rest)"

lemma whole_step:
  assumes "n < length code"
  shows "whole (drop n code) \<longleftrightarrow> \<not> (op_size (main_template (code ! n)) = 2 \<and> length code \<le> n + 1) \<and>
    whole (drop (n + unat (op_size (main_template (code ! n)))) code)"
proof -
  have d: "drop n code = code ! n # drop (Suc n) code"
    using assms by (simp add: Cons_nth_drop_Suc)
  show ?thesis
    unfolding d using size_cases [of "code ! n"] by (auto simp: drop_drop)
qed

lemma disassemble_from_whole:
  assumes "length code \<le> 0x8000"
  shows "n \<le> length code \<Longrightarrow> \<exists>out. disassemble_from settings code (of_nat n) dest = Some (Inr (whole (drop n code), out))"
proof (induction "length code - n" arbitrary: n dest rule: less_induct)
  case less
  have u: "unat (of_nat n :: u16) = n"
    using less.prems assms by (simp add: unat_of_nat)
  show ?case
  proof (cases "n = length code")
    case True
    then show ?thesis
      using u by (subst disassemble_from.simps) simp
  next
    case False
    then have n: "n < length code"
      using less.prems by simp
    have w: "(of_nat n :: u16) AND 0x7fff = of_nat n"
      using n assms by (intro unwrapped) simp
    let ?sz = "op_size (main_template (code ! n))"
    obtain s where s: "DisassembleOpcode settings code (of_nat n) =
        Inr (\<not> cut_off code (of_nat n), of_nat n + ?sz, s)"
      using DisassembleOpcode_cases [of "of_nat n" code settings] n unfolding w u by auto
    show ?thesis
    proof (cases "cut_off code (of_nat n)")
      case True
      then show ?thesis
        using n s u whole_step [OF n] by (subst disassemble_from.simps) (simp add: cut_off_def)
    next
      case False
      then have l: "n + unat ?sz \<le> length code" "length code - (n + unat ?sz) < length code - n"
        using n u size_cases [of "code ! n"] by (auto simp: cut_off_def)
      from False have "whole (drop n code) = whole (drop (n + unat ?sz) code)"
        using whole_step [OF n] u by (simp add: cut_off_def)
      then show ?thesis
        using less.hyps [OF l(2, 1), of "dest @ s @ [CHR 0x0a]"] n s u False
        by (subst disassemble_from.simps) simp
    qed
  qed
qed

lemma Disassemble_whole:
  assumes "length code \<le> 0x8000"
  shows "\<exists>out. Disassemble settings code dest = Some (Inr (whole code, out))"
  using disassemble_from_whole [OF assms, of 0 settings dest] assms by (simp add: Disassemble_def)

section \<open>Comparison\<close>

lemma line_at_defined: "\<exists>s. line_at code pc0 = Inr s"
  using DisassembleOpcode_defined [of default_settings code pc0] by (auto simp: line_at_def)

lemma operand_report_defined: "\<exists>s. operand_report code1 code2 i = Inr s"
  using line_at_defined [of code1 "i - 1"] line_at_defined [of code2 "i - 1"]
  by (auto simp: operand_report_def Let_def split: option.split)

lemma difference_report_defined: "\<exists>s. difference_report code1 code2 i = Inr s"
  using line_at_defined [of code1 i] line_at_defined [of code2 i] operand_report_defined [of code1 code2 i]
  by (auto simp: difference_report_def)

lemma compare_words_count:
  "\<exists>out'. compare_words code1 code2 is n out =
    Inr (n + of_nat (length (filter (\<lambda>i. code1 ! i = code2 ! i) is)), out')"
proof (induction "is" arbitrary: n out)
  case (Cons i "is")
  obtain s where s: "difference_report code1 code2 (of_nat i) = Inr s"
    using difference_report_defined by blast
  show ?case
    using Cons.IH [of "n + 1" out] Cons.IH [of n "out @ s"] s by (auto simp: add.assoc)
qed simp

text \<open>How many words are equal, of those both codes have.\<close>

definition equal_count :: "u16 list \<Rightarrow> u16 list \<Rightarrow> nat \<Rightarrow> nat" where
  "equal_count code1 code2 n = length (filter (\<lambda>i. code1 ! i = code2 ! i) [0..<n])"

lemma equal_count_le: "equal_count code1 code2 n \<le> n"
  using length_filter_le [of "\<lambda>i. code1 ! i = code2 ! i" "[0..<n]"] by (simp add: equal_count_def)

lemma equal_count_all:
  assumes "length code1 = length code2"
  shows "equal_count code1 code2 (length code1) = length code1 \<longleftrightarrow> code1 = code2"
proof
  assume e: "equal_count code1 code2 (length code1) = length code1"
  have "code1 ! i = code2 ! i" if "i < length code1" for i
    using that e length_filter_less [of i "[0..<length code1]" "\<lambda>i. code1 ! i = code2 ! i"]
    by (auto simp: equal_count_def)
  then show "code1 = code2"
    using assms by (simp add: list_eq_iff_nth_eq)
qed (simp add: equal_count_def)

text \<open>The size the first loop goes to is the common size, in 16 bits.\<close>

definition min_size :: "u16 list \<Rightarrow> u16 list \<Rightarrow> u16" where
  "min_size code1 code2 = of_nat (min (length code1) (length code2))"

lemma unat_min_size: "unat (min_size code1 code2) = min (length code1) (length code2) mod 0x10000"
  by (simp add: min_size_def unat_of_nat)

lemma unat_min_size_less: "unat (min_size code1 code2) < 0x10000"
  unfolding unat_min_size by simp

lemma Compare_same_length:
  assumes "length code1 = length code2"
  shows "\<exists>out. Compare code1 code2 =
    Some (Inr (length code1 = equal_count code1 code2 (length code1 mod 0x10000), out))"
proof -
  obtain out where "compare_words code1 code2 [0..<unat (min_size code1 code2)] 0 (size_report code1 code2) =
      Inr (of_nat (equal_count code1 code2 (unat (min_size code1 code2))), out)"
    using compare_words_count [of code1 code2 "[0..<unat (min_size code1 code2)]" 0] by (auto simp: equal_count_def)
  moreover have "unat (of_nat (equal_count code1 code2 (unat (min_size code1 code2))) :: u32) =
      equal_count code1 code2 (unat (min_size code1 code2))"
    using equal_count_le [of code1 code2 "unat (min_size code1 code2)"] unat_min_size_less [of code1 code2]
    by (simp add: unat_of_nat)
  ultimately show ?thesis
    using assms unfolding Compare_def Let_def min_size_def [symmetric] by (simp add: unat_min_size)
qed

lemma Compare_decides:
  assumes "length code1 = length code2"
  shows "\<exists>out. Compare code1 code2 = Some (Inr (code1 = code2 \<and> length code1 \<le> 0xffff, out))"
proof (cases "length code1 \<le> 0xffff")
  case True
  then show ?thesis
    using Compare_same_length [OF assms] equal_count_all [OF assms] by (auto simp: eq_commute)
next
  case False
  have "equal_count code1 code2 (length code1 mod 0x10000) < 0x10000"
    by (rule le_less_trans [OF equal_count_le]) simp
  then have "length code1 \<noteq> equal_count code1 code2 (length code1 mod 0x10000)"
    using False by simp
  then show ?thesis
    using Compare_same_length [OF assms] False by simp
qed

lemma extra_words_end:
  assumes "length longest \<le> 0xffff"
  shows "\<exists>s. extra_words longest i out = Some (Inr s)"
proof (induction "length longest - unat i" arbitrary: i out rule: less_induct)
  case less
  show ?case
  proof (cases "unat i < length longest")
    case True
    obtain line where l: "line_at longest i = Inr line"
      using line_at_defined by blast
    have "unat (i + 1) = Suc (unat i)"
      using True assms by (simp add: unat_word_ariths)
    then show ?thesis
      using less [of "i + 1"] True l by (subst extra_words.simps) auto
  next
    case False
    then show ?thesis
      by (subst extra_words.simps) simp
  qed
qed

lemma extra_words_endless:
  assumes "0xffff < length longest"
  shows "extra_words longest i out = None"
proof -
  have "length l \<le> 0xffff" if "extra_words l i out = Some s" for l i out s
  proof (rule extra_words.raw_induct [of "\<lambda>l i out s. length l \<le> 0xffff", OF _ that])
    fix f l i out s
    assume ih: "\<And>l i out s. f l i out = Some s \<Longrightarrow> length l \<le> 0xffff"
      and step: "(if unat i < length l
        then (case line_at l i of
                Inl e \<Rightarrow> Some (Inl e)
              | Inr line \<Rightarrow> f l (i + 1)
                  (out @ ''!! '' @ word_text i @ '' : '' @ word_text (l ! unat i) @ '' - '' @ line @ newline))
        else Some (Inr out)) = Some s"
    obtain line where line: "line_at l i = Inr line"
      using line_at_defined by blast
    show "length l \<le> 0xffff"
    proof (cases "unat i < length l")
      case True
      then show ?thesis
        using step line by (auto intro: ih)
    next
      case False
      then show ?thesis
        using unsigned_less [of i, where 'a = nat] by simp
    qed
  qed
  then show ?thesis
    using assms by (metis not_le option.exhaust)
qed

lemma Compare_other_length:
  assumes "length code1 \<noteq> length code2"
  shows "if max (length code1) (length code2) \<le> 0xffff
    then \<exists>out. Compare code1 code2 = Some (Inr (False, out)) else Compare code1 code2 = None"
proof -
  obtain n out where c: "compare_words code1 code2 [0..<unat (min_size code1 code2)] 0 (size_report code1 code2) = Inr (n, out)"
    using compare_words_count [of code1 code2 "[0..<unat (min_size code1 code2)]" 0] by blast
  define l where "l = (if length code1 > length code2 then code1 else code2)"
  have m: "length l = max (length code1) (length code2)"
    by (simp add: l_def)
  show ?thesis
  proof (cases "length l \<le> 0xffff")
    case True
    obtain s where "extra_words l (min_size code1 code2) (out @ ''Extra code words:'' @ newline) = Some (Inr s)"
      using extra_words_end [OF True] by blast
    then show ?thesis
      using assms c True unfolding Compare_def Let_def min_size_def [symmetric] l_def [symmetric] m by simp
  next
    case False
    then have "extra_words l (min_size code1 code2) (out @ ''Extra code words:'' @ newline) = None"
      using extra_words_endless by simp
    then show ?thesis
      using assms c False unfolding Compare_def Let_def min_size_def [symmetric] l_def [symmetric] m by simp
  qed
qed

section \<open>Binary files\<close>

lemma low_byte: "(w :: u16) AND 0xff = take_bit 8 w"
proof -
  have m: "(0xff :: u16) = mask 8"
    by (simp add: mask_eq_exp_minus_1)
  show ?thesis
    unfolding m by (rule take_bit_eq_mask [symmetric])
qed

lemma word_bytes: "(push_bit 8 (drop_bit 8 w) :: u16) OR (w AND 0xff) = w"
  unfolding low_byte by (rule bit_word_eqI) (auto simp: bit_simps)

lemma byte_char: "unat (w :: u16) < 256 \<Longrightarrow> of_nat (of_char (char_of (unat w))) = w"
  by (simp add: take_bit_nat_eq_self_iff)

lemma byte_bounds: "unat (drop_bit 8 (w :: u16)) < 256" "unat (w AND 0xff) < 256"
proof -
  show "unat (drop_bit 8 w) < 256"
    using unsigned_less [of w, where 'a = nat] unfolding unsigned_drop_bit_eq
    by (simp add: drop_bit_eq_div take_bit_eq_mod)
  have "unat (take_bit 8 w) = take_bit 8 (unat w)"
    by (simp only: unsigned_take_bit_eq)
  then show "unat (w AND 0xff) < 256"
    unfolding low_byte by (simp add: take_bit_eq_mod)
qed

lemma BinaryStringBEToCode_CodeToBinaryStringBE:
  "BinaryStringBEToCode (CodeToBinaryStringBE code @ rest) = code @ BinaryStringBEToCode rest"
proof (induction code)
  case (Cons w code)
  then show ?case
    using byte_char [OF byte_bounds(1) [of w]] byte_char [OF byte_bounds(2) [of w]] word_bytes [of w]
    by (simp add: CodeToBinaryStringBE_def)
qed (simp add: CodeToBinaryStringBE_def)

text \<open>The other way, a byte at the end without a second one is lost.\<close>

lemma joined_bytes:
  defines "w a b \<equiv> push_bit 8 (of_nat (take_bit 8 a)) OR of_nat (take_bit 8 b) :: u16"
  shows "drop_bit 8 (w a b) = of_nat (take_bit 8 a)" "w a b AND 0xff = of_nat (take_bit 8 b)"
  unfolding low_byte w_def by (rule bit_word_eqI; auto simp: bit_simps)+

lemma byte_of_char: "take_bit 8 (of_char c) = (of_char c :: nat)"
  using of_char_of [of "of_char c :: nat"] by (simp only: char_of_char take_bit_eq_mod) simp

lemma unat_byte: "unat (of_nat (take_bit 8 n) :: u16) = take_bit 8 n"
  by (simp add: unsigned_of_nat take_bit_take_bit)

lemma CodeToBinaryStringBE_BinaryStringBEToCode:
  "CodeToBinaryStringBE (BinaryStringBEToCode s) = (if even (length s) then s else butlast s)"
proof (induction s rule: BinaryStringBEToCode.induct)
  case (1 h l s)
  note j = joined_bytes [of "of_char h" "of_char l", unfolded byte_of_char]
  note u = unat_byte [of "of_char h"] unat_byte [of "of_char l"]
  have "CodeToBinaryStringBE (BinaryStringBEToCode (h # l # s)) =
      h # l # CodeToBinaryStringBE (BinaryStringBEToCode s)"
    using j u unfolding byte_of_char by (simp add: CodeToBinaryStringBE_def)
  then show ?case
    using 1 by (cases s) auto
qed (simp_all add: CodeToBinaryStringBE_def)

text \<open>What is written is read back, for a file that is as it was written.\<close>

lemma LoadBinary_SaveBinary:
  assumes "\<And>s fs fs'. write filename s fs = (True, fs') \<Longrightarrow> read filename fs' = Some s"
    and "SaveBinary write code filename fs = (True, fs')"
  shows "LoadBinary read filename fs' = Some code"
  using assms BinaryStringBEToCode_CodeToBinaryStringBE [of code "[]"]
  by (simp add: LoadBinary_def SaveBinary_def)

section \<open>The round trip\<close>

lemma RoundTrip_succeeds:
  assumes "code \<noteq> []" "length code \<le> 0x8000" "reassembles default_settings code" "length code + 3 \<le> fuel"
  shows "RoundTrip fuel files code = Some (Inr True)"
proof -
  have r: "readable default_settings"
    by (simp add: readable_def default_settings_def)
  have d: "default_settings\<lparr>ext_separator := CHR 0x27, decode_names := True, decode_registers := True,
      show_hex := False, show_pc := False\<rparr> = default_settings"
    by (simp add: default_settings_def)
  have b: "m_output_buffer (new_assembler False) = []"
    by (simp add: new_assembler_def)
  obtain out a' where "Disassemble default_settings code [] = Some (Inr (True, out))"
    "Assemble fuel files out (new_assembler False) = Inr (Some code, a')"
    using disassembled_code_assembles [OF r assms(1-3) b assms(4), of files] by blast
  moreover obtain report where "Compare code code = Some (Inr (True, report))"
    using Compare_decides [of code code] assms(2) by auto
  ultimately show ?thesis
    by (simp add: RoundTrip_def RoundTrippableDisassemble_def d DSP_Assemble_def bind_tool_def)
qed

end
