(* ===== verification/Dsp_Tool_Samples.thy ===== *)
theory Dsp_Tool_Samples
  imports Dsp_CodeUtil_Facts
begin

text \<open>
  Small programs and texts on which the properties of the assembler and the disassembler are applied:
  a load of a register, an addition that also loads from memory, and a return.
\<close>

unbundle bit_operations_syntax

section \<open>Templates of the sample\<close>

lemma sample_lri: "main_template 0x0080 =
    DSPOPCTemplate ''LRI'' 0x0080 0xffe0 2 2 [Param P_REG 1 0 0 0x001f, Param P_IMM 2 1 0 0xffff] False False False True False"
  by code_simp

lemma sample_add: "main_template 0x4c64 =
    DSPOPCTemplate ''ADD'' 0x4c00 0xfe00 1 2 [Param P_ACC 1 0 8 0x0100, Param P_ACC_D 1 0 8 0x0100] True False False False True"
  by code_simp

lemma sample_ln: "FindExtOpInfoByOpcode 0x4c64 =
    Some (DSPOPCTemplate ''LN'' 0x0044 0x00c4 1 2 [Param P_REG18 1 0 3 0x0038, Param P_PRG 1 0 0 0x0003] False False False False False)"
  by code_simp

lemma sample_ret: "main_template 0x02df = DSPOPCTemplate ''RET'' 0x02df 0xffff 1 0 [] False True True False False"
  by code_simp

lemmas sample_templates = sample_lri sample_add sample_ln sample_ret

definition sample_code :: "u16 list" where
  "sample_code = [0x0080, 0x1234, 0x4c64, 0x02df]"

lemma sample_reassembles: "reassembles default_settings sample_code"
  by (simp add: sample_code_def sample_templates kept_bits_def extension_limit_def refused_def
      separated_def full_name_def extension_of_def extension_word_def drop_bit_eq_div)

lemma sample_readable: "readable default_settings"
  by (simp add: readable_def default_settings_def)

lemma sample_whole: "whole sample_code" "\<not> whole (butlast (sample_code @ [0x0080, 0x1234]))"
  by (simp_all add: sample_code_def sample_templates)

end
