(* ===== verification/Dsp_HLE.thy ===== *)
theory Dsp_HLE
  imports Dsp_Manager
begin

text \<open>
  The other DSP emulator (Source/Core/Core/HW/DSPHLE): instead of running the microcode of a game it
  recognises it by a checksum and answers the mails of the processor itself.  Here are the mail
  handler (MailHandler.cpp), what all microcodes share (UCodes/UCodes.cpp), the microcodes of the
  boot ROM, of the audio initialisation, of the memory card and of the Game Boy Advance link, and the
  front end (DSPHLE.cpp).

  The five microcodes that mix audio are a parameter, the record \<open>mixers\<close>: their state is of any
  type, and what they do with a mail is any function.  Interrupts that a microcode asks for are
  recorded in a list with their delay, oldest first.  A null pointer is a fault.
\<close>

unbundle bit_operations_syntax

datatype hle_fault = NullUCode | NullMemory

type_synonym 'a hle_result = "hle_fault + 'a"

section \<open>The mail handler\<close>

record CMailHandler =
  m_pending_mails :: "(u32 \<times> bool) list"
  m_last_mail :: u32
  m_halted :: bool
  dsp_interrupts :: "int list"

definition request_interrupt :: "int \<Rightarrow> CMailHandler \<Rightarrow> CMailHandler" where
  "request_interrupt cycles m = m\<lparr>dsp_interrupts := dsp_interrupts m @ [cycles]\<rparr>"

definition PushMail :: "u32 \<Rightarrow> bool \<Rightarrow> int \<Rightarrow> CMailHandler \<Rightarrow> CMailHandler" where
  "PushMail mail interrupt cycles_into_future m =
     (let m = (if interrupt
               then (case m_pending_mails m of
                       [] \<Rightarrow> request_interrupt cycles_into_future m
                     | (front, b) # rest \<Rightarrow> m\<lparr>m_pending_mails := (front, True) # rest\<rparr>)
               else m)
      in m\<lparr>m_pending_mails := m_pending_mails m @ [(mail, False)]\<rparr>)"

definition ReadDSPMailboxHigh :: "CMailHandler \<Rightarrow> u16 \<times> CMailHandler" where
  "ReadDSPMailboxHigh m =
     (let m = (if \<not> m_halted m \<and> m_pending_mails m \<noteq> []
               then m\<lparr>m_last_mail := fst (hd (m_pending_mails m))\<rparr> else m)
      in (ucast (drop_bit 16 (m_last_mail m)), m))"

definition ReadDSPMailboxLow :: "CMailHandler \<Rightarrow> u16 \<times> CMailHandler" where
  "ReadDSPMailboxLow m =
     (let m = (if \<not> m_halted m
               then (case m_pending_mails m of
                       [] \<Rightarrow> m
                     | (mail, generate_interrupt) # rest \<Rightarrow>
                         let m = m\<lparr>m_last_mail := mail, m_pending_mails := rest\<rparr>
                         in if generate_interrupt then request_interrupt 0 m else m)
               else m);
          m = m\<lparr>m_last_mail := m_last_mail m AND NOT 0x80000000\<rparr>
      in (ucast (m_last_mail m AND 0xffff), m))"

definition ClearPending :: "CMailHandler \<Rightarrow> CMailHandler" where
  "ClearPending m = m\<lparr>m_pending_mails := []\<rparr>"

definition HasPending :: "CMailHandler \<Rightarrow> bool" where
  "HasPending m \<longleftrightarrow> m_pending_mails m \<noteq> []"

definition SetHalted :: "bool \<Rightarrow> CMailHandler \<Rightarrow> CMailHandler" where
  "SetHalted b m = m\<lparr>m_halted := b\<rparr>"

section \<open>What microcodes share\<close>

abbreviation UCODE_ROM :: u32 where "UCODE_ROM \<equiv> 0x00000000"
abbreviation UCODE_INIT_AUDIO_SYSTEM :: u32 where "UCODE_INIT_AUDIO_SYSTEM \<equiv> 0x00000001"
abbreviation UCODE_NULL :: u32 where "UCODE_NULL \<equiv> 0xFFFFFFFF"

abbreviation UCODE_DSP_INIT :: u32 where "UCODE_DSP_INIT \<equiv> 0xDCD10000"
abbreviation UCODE_DSP_DONE :: u32 where "UCODE_DSP_DONE \<equiv> 0xDCD10003"
abbreviation MAIL_NEW_UCODE :: u32 where "MAIL_NEW_UCODE \<equiv> 0xCDD10001"
abbreviation MAIL_RESET :: u32 where "MAIL_RESET \<equiv> 0xCDD10002"

record NextUCodeInfo =
  mram_dest_addr :: u32
  mram_size :: u16
  mram_dram_addr :: u16
  iram_mram_addr :: u32
  iram_size :: u16
  iram_dest :: u16
  iram_startpc :: u16
  dram_mram_addr :: u32
  dram_size :: u16
  dram_dest :: u16

record UCodeInterface =
  m_crc :: u32
  m_upload_setup_in_progress :: bool
  m_next_ucode :: NextUCodeInfo
  m_next_ucode_steps :: nat
  m_needs_resume_mail :: bool

definition new_interface :: "u32 \<Rightarrow> UCodeInterface" where
  "new_interface crc = \<lparr>m_crc = crc, m_upload_setup_in_progress = False,
     m_next_ucode = \<lparr>mram_dest_addr = 0, mram_size = 0, mram_dram_addr = 0, iram_mram_addr = 0, iram_size = 0,
       iram_dest = 0, iram_startpc = 0, dram_mram_addr = 0, dram_size = 0, dram_dest = 0\<rparr>,
     m_next_ucode_steps = 0, m_needs_resume_mail = False\<rparr>"

definition NeedsResumeMail :: "UCodeInterface \<Rightarrow> bool \<times> UCodeInterface" where
  "NeedsResumeMail u = (if m_needs_resume_mail u then (True, u\<lparr>m_needs_resume_mail := False\<rparr>) else (False, u))"

text \<open>The checksum of a range of main memory; the pointer is dereferenced unless the range is empty.\<close>

definition hash_range :: "Host \<Rightarrow> u32 \<Rightarrow> nat \<Rightarrow> u32 hle_result" where
  "hash_range mem address sz =
     (case GetPointerForRange mem address sz of
        Some p \<Rightarrow> Inr (HashEctor (map (mem_byte mem p) [0..<sz]))
      | None \<Rightarrow> if sz = 0 then Inr (HashEctor []) else Inl NullMemory)"

text \<open>What a microcode asks the front end for when it has handled a mail.\<close>

datatype switch = Stay | Set_to u32 | Swap_to u32

definition next_ucode_field :: "nat \<Rightarrow> u32 \<Rightarrow> NextUCodeInfo \<Rightarrow> NextUCodeInfo" where
  "next_ucode_field k mail n =
     (if k = 0 then n\<lparr>mram_dest_addr := mail\<rparr>
      else if k = 1 then n\<lparr>mram_size := ucast (mail AND 0xffff)\<rparr>
      else if k = 2 then n\<lparr>mram_dram_addr := ucast (mail AND 0xffff)\<rparr>
      else if k = 3 then n\<lparr>iram_mram_addr := mail\<rparr>
      else if k = 4 then n\<lparr>iram_size := ucast (mail AND 0xffff)\<rparr>
      else if k = 5 then n\<lparr>iram_dest := ucast (mail AND 0xffff)\<rparr>
      else if k = 6 then n\<lparr>iram_startpc := ucast (mail AND 0xffff)\<rparr>
      else if k = 7 then n\<lparr>dram_mram_addr := mail\<rparr>
      else if k = 8 then n\<lparr>dram_size := ucast (mail AND 0xffff)\<rparr>
      else if k = 9 then n\<lparr>dram_dest := ucast (mail AND 0xffff)\<rparr>
      else n)"

definition PrepareBootUCode :: "Host \<Rightarrow> u32 \<Rightarrow> UCodeInterface \<Rightarrow> (UCodeInterface \<times> switch) hle_result" where
  "PrepareBootUCode mem mail u =
     (let u = u\<lparr>m_next_ucode := next_ucode_field (m_next_ucode_steps u) mail (m_next_ucode u),
               m_next_ucode_steps := m_next_ucode_steps u + 1\<rparr>
      in if m_next_ucode_steps u = 10
         then let u = u\<lparr>m_next_ucode_steps := 0, m_needs_resume_mail := True, m_upload_setup_in_progress := False\<rparr>
              in bindE (hash_range mem (iram_mram_addr (m_next_ucode u)) (unat (iram_size (m_next_ucode u))))
                   (\<lambda>ector_crc. Inr (u, Swap_to ector_crc))
         else Inr (u, Stay))"

section \<open>The Game Boy Advance cipher\<close>

text \<open>The 32-bit accesses of the memory manager; a range that is not in memory reads as zero.\<close>

definition word_of_bytes :: "u8 list \<Rightarrow> u32" where
  "word_of_bytes bs = foldr (\<lambda>b w. push_bit 8 w OR ucast b) bs 0"

definition bytes_of_word :: "u32 \<Rightarrow> u8 list" where
  "bytes_of_word w = [ucast w, ucast (drop_bit 8 w), ucast (drop_bit 16 w), ucast (drop_bit 24 w)]"

definition Read_U32_Swap :: "Host \<Rightarrow> u32 \<Rightarrow> u32" where
  "Read_U32_Swap mem address =
     (case CopyFromEmu mem address 4 of None \<Rightarrow> 0 | Some bs \<Rightarrow> word_of_bytes bs)"

definition Read_U32 :: "Host \<Rightarrow> u32 \<Rightarrow> u32" where
  "Read_U32 mem address =
     (case CopyFromEmu mem address 4 of None \<Rightarrow> 0 | Some bs \<Rightarrow> word_of_bytes (rev bs))"

definition Write_U32 :: "u32 \<Rightarrow> u32 \<Rightarrow> Host \<Rightarrow> Host" where
  "Write_U32 val address mem = CopyToEmu address (rev (bytes_of_word val)) mem"

definition AlignUp :: "u32 \<Rightarrow> u32 \<Rightarrow> u32" where
  "AlignUp val sz = (let v = val + (sz - 1) in v - v mod sz)"

text \<open>Palette and speed in one word; the speed is the low byte of its word, with sign.\<close>

definition palette_code :: "u32 \<Rightarrow> u32 \<Rightarrow> u16" where
  "palette_code logo_palette logo_speed_32 =
     (let logo_speed = scast (ucast logo_speed_32 :: u8) :: u32 in
      if logo_speed <s 0 then ucast (((- logo_speed + 2) * 2) OR push_bit 4 logo_palette)
      else if logo_speed = 0 then ucast ((logo_palette * 2) OR 0x70)
      else ucast (((logo_speed - 1) * 2) OR push_bit 4 logo_palette))"

text \<open>The length behind the header in packet pairs; \<open>/ 8\<close> of a number that is not negative.\<close>

definition packet_pairs :: "u32 \<Rightarrow> u16" where
  "packet_pairs len =
     (let length_no_header = AlignUp len 8 - 0x200 in
      if length_no_header <s 0 then 0 else ucast (drop_bit 3 length_no_header))"

definition gba_packed :: "u16 \<Rightarrow> u16 \<Rightarrow> u32" where
  "gba_packed palette_speed_coded packet_pair_count =
     (let palette_speed_coded = palette_speed_coded OR drop_bit 14 (packet_pair_count AND 0x4000);
          t1 = ((push_bit 16 (ucast packet_pair_count) OR 0x3f80) AND 0x3f80ffff) * 2 :: u32;
          t1 = t1 + push_bit 16 ((scast (ucast (drop_bit 8 t1) :: u8) :: u32) AND ucast packet_pair_count);
          t2 = push_bit 16 (ucast (palette_speed_coded AND 0xff)) + (t1 AND 0xff0000) + (drop_bit 8 t1 AND 0xffff00)
      in push_bit 16 (ucast palette_speed_coded) OR (push_bit 8 t2 AND 0xff000000) OR drop_bit 16 t1 OR 0x80808080)"

definition gba_auth_code :: "u16 \<Rightarrow> u16 \<Rightarrow> u32" where
  "gba_auth_code palette_speed_coded packet_pair_count =
     (let t3 = gba_packed palette_speed_coded packet_pair_count
      in t3 XOR (if t3 AND 0x200 \<noteq> 0 then 0x6f646573 else 0x6177614b))"

definition ProcessGBACrypto :: "u32 \<Rightarrow> Host \<Rightarrow> Host" where
  "ProcessGBACrypto address mem =
     (let challenge = Read_U32_Swap mem address;
          logo_palette = Read_U32 mem (address + 4);
          logo_speed_32 = Read_U32 mem (address + 8);
          len = Read_U32 mem (address + 12);
          dest_addr = Read_U32 mem (address + 16);
          mem = Write_U32 (challenge XOR 0x6f646573) dest_addr mem
      in Write_U32 (gba_auth_code (palette_code logo_palette logo_speed_32) (packet_pairs len)) (dest_addr + 4) mem)"

section \<open>Microcodes\<close>

record UCodeBootInfo =
  m_ram_address :: u32
  m_length :: u32
  m_imem_address :: u32
  m_dmem_length :: u32
  m_start_pc :: u32

record ROMUCode =
  m_current_ucode :: UCodeBootInfo
  m_boot_task_num_steps :: int
  m_next_parameter :: u32

datatype MailState = WaitingForRequest | WaitingForAddress | WaitingForNextTask

datatype mixer = AXUCode | AXWiiUCode | ZeldaUCode | ASndUCode | AESndUCode

datatype 'm UCode =
  UCode_ROM UCodeInterface ROMUCode
| UCode_INIT UCodeInterface
| UCode_CARD UCodeInterface
| UCode_GBA UCodeInterface MailState
| UCode_Mixer mixer UCodeInterface 'm

text \<open>What the parameter gives for the microcodes that are not modelled.\<close>

type_synonym env = "CMailHandler \<times> Host"

record 'm mixers =
  mixer_new :: "mixer \<Rightarrow> u32 \<Rightarrow> 'm"
  mixer_initialize :: "mixer \<Rightarrow> UCodeInterface \<times> 'm \<Rightarrow> env \<Rightarrow> (UCodeInterface \<times> 'm) \<times> env"
  mixer_mail :: "mixer \<Rightarrow> u32 \<Rightarrow> UCodeInterface \<times> 'm \<Rightarrow> env \<Rightarrow> ((UCodeInterface \<times> 'm) \<times> env \<times> switch) hle_result"
  mixer_update :: "mixer \<Rightarrow> UCodeInterface \<times> 'm \<Rightarrow> env \<Rightarrow> (UCodeInterface \<times> 'm) \<times> env"

fun interface_of :: "'m UCode \<Rightarrow> UCodeInterface" where
  "interface_of (UCode_ROM u s) = u"
| "interface_of (UCode_INIT u) = u"
| "interface_of (UCode_CARD u) = u"
| "interface_of (UCode_GBA u s) = u"
| "interface_of (UCode_Mixer k u s) = u"

definition GetCRC :: "'m UCode option \<Rightarrow> u32" where
  "GetCRC u = (case u of None \<Rightarrow> UCODE_NULL | Some u \<Rightarrow> m_crc (interface_of u))"

definition new_rom :: ROMUCode where
  "new_rom = \<lparr>m_current_ucode = \<lparr>m_ram_address = 0, m_length = 0, m_imem_address = 0, m_dmem_length = 0,
     m_start_pc = 0\<rparr>, m_boot_task_num_steps = 0, m_next_parameter = 0\<rparr>"

text \<open>The checksums of known microcodes.\<close>

definition known_mixers :: "(mixer \<times> u32 list) list" where
  "known_mixers = [
     (AXUCode, [0x3ad3b7ac, 0x3daf59b9, 0x4e8a8b21, 0x07f88145, 0xe2136399, 0x3389a79e]),
     (ZeldaUCode, [0x86840740, 0x6ca33a6d, 0xd643001f, 0x6ba3b3ea, 0x24b22038, 0x2fcdf1ec, 0xdf059f68, 0x4be6a5cb,
        0x267fd05a, 0x42f64ac4, 0x56d36052, 0x6c3f6f94, 0xb7eb9a9c, 0xeaeb38cc]),
     (AXWiiUCode, [0x2ea36ce6, 0x5ef56da3, 0x347112ba, 0xfa450138, 0xadbc06bd, 0x4cc52064, 0xd9c4bf34, 0x7699af32]),
     (ASndUCode, [0x8d69a19b, 0xcc2fd441, 0xa81582e2, 0xdbbeeb61, 0xbad876ef, 0xfa9c576f, 0x614dd145, 0x5dbf8bf1,
        0x373a950e]),
     (AESndUCode, [0x008366af, 0x078066ab, 0x5ad4d933, 0x84c680a9, 0xa02a6131, 0x2e5e4100, 0x002e5e41])]"

definition mixer_of :: "u32 \<Rightarrow> bool \<Rightarrow> mixer" where
  "mixer_of crc wii =
     (case find (\<lambda>(k, crcs). crc \<in> set crcs) known_mixers of
        Some (k, crcs) \<Rightarrow> k
      | None \<Rightarrow> if wii then AXWiiUCode else AXUCode)"

definition UCodeFactory :: "'m mixers \<Rightarrow> u32 \<Rightarrow> bool \<Rightarrow> 'm UCode option" where
  "UCodeFactory mx crc wii =
     (let u = new_interface crc in
      if crc = UCODE_ROM then Some (UCode_ROM u new_rom)
      else if crc = UCODE_INIT_AUDIO_SYSTEM then Some (UCode_INIT u)
      else if crc = 0x65d6cc6f then Some (UCode_CARD u)
      else if crc = 0xdd7e72d5 then Some (UCode_GBA u WaitingForRequest)
      else if crc = UCODE_NULL then None
      else Some (UCode_Mixer (mixer_of crc wii) u (mixer_new mx (mixer_of crc wii) crc)))"

text \<open>The virtual functions.\<close>

fun UCode_Initialize :: "'m mixers \<Rightarrow> 'm UCode \<Rightarrow> env \<Rightarrow> 'm UCode \<times> env" where
  "UCode_Initialize mx (UCode_ROM u s) (m, mem) = (UCode_ROM u s, (PushMail 0x8071FEED False 0 m, mem))"
| "UCode_Initialize mx (UCode_INIT u) (m, mem) = (UCode_INIT u, (PushMail 0x80544348 False 0 m, mem))"
| "UCode_Initialize mx (UCode_CARD u) (m, mem) = (UCode_CARD u, (PushMail UCODE_DSP_INIT False 0 m, mem))"
| "UCode_Initialize mx (UCode_GBA u s) (m, mem) = (UCode_GBA u s, (PushMail UCODE_DSP_INIT False 0 m, mem))"
| "UCode_Initialize mx (UCode_Mixer k u s) env =
     (case mixer_initialize mx k (u, s) env of ((u, s), env) \<Rightarrow> (UCode_Mixer k u s, env))"

fun UCode_Update :: "'m mixers \<Rightarrow> 'm UCode \<Rightarrow> env \<Rightarrow> 'm UCode \<times> env" where
  "UCode_Update mx (UCode_ROM u s) env = (UCode_ROM u s, env)"
| "UCode_Update mx (UCode_INIT u) env = (UCode_INIT u, env)"
| "UCode_Update mx (UCode_CARD u) (m, mem) =
     (UCode_CARD u, ((if HasPending m then request_interrupt 0 m else m), mem))"
| "UCode_Update mx (UCode_GBA u s) (m, mem) =
     (UCode_GBA u s, ((if HasPending m then request_interrupt 0 m else m), mem))"
| "UCode_Update mx (UCode_Mixer k u s) env =
     (case mixer_update mx k (u, s) env of ((u, s), env) \<Rightarrow> (UCode_Mixer k u s, env))"

definition ROM_HandleMail ::
    "u32 \<Rightarrow> UCodeInterface \<Rightarrow> ROMUCode \<Rightarrow> env \<Rightarrow> ('m UCode \<times> env \<times> switch) hle_result" where
  "ROM_HandleMail mail u s env =
     (case env of (m, mem) \<Rightarrow>
      if m_next_parameter s = 0 then
        if mail AND 0xFFFF0000 \<noteq> 0x80F30000
        then Inr (UCode_ROM u s, (PushMail (0xFEEE0000 OR (mail AND 0xFFFF)) False 0 m, mem), Stay)
        else Inr (UCode_ROM u (s\<lparr>m_next_parameter := mail\<rparr>), env, Stay)
      else
        let c = m_current_ucode s; p = m_next_parameter s;
            continue = (\<lambda>c. Inr (UCode_ROM u (s\<lparr>m_current_ucode := c, m_next_parameter := 0\<rparr>), env, Stay))
        in if p = 0x80F3A001 then continue (c\<lparr>m_ram_address := mail\<rparr>)
           else if p = 0x80F3A002 then continue (c\<lparr>m_length := mail AND 0xffff\<rparr>)
           else if p = 0x80F3B002 then continue (c\<lparr>m_dmem_length := mail AND 0xffff\<rparr>)
           else if p = 0x80F3C002 then continue (c\<lparr>m_imem_address := mail AND 0xffff\<rparr>)
           else if p = 0x80F3D001 then
             bindE (hash_range mem (m_ram_address c) (unat (m_length c))) (\<lambda>ector_crc.
             Inr (UCode_ROM u (s\<lparr>m_current_ucode := c\<lparr>m_start_pc := mail AND 0xffff\<rparr>\<rparr>), env, Set_to ector_crc))
           else continue c)"

definition GBA_HandleMail ::
    "u32 \<Rightarrow> UCodeInterface \<Rightarrow> MailState \<Rightarrow> env \<Rightarrow> ('m UCode \<times> env \<times> switch) hle_result" where
  "GBA_HandleMail mail u s env =
     (case env of (m, mem) \<Rightarrow>
      if m_upload_setup_in_progress u
      then bindE (PrepareBootUCode mem mail u) (\<lambda>(u, sw). Inr (UCode_GBA u s, env, sw))
      else case s of
        WaitingForRequest \<Rightarrow>
          Inr (UCode_GBA u (if mail = 0xabba0000 then WaitingForAddress else s), env, Stay)
      | WaitingForAddress \<Rightarrow>
          Inr (UCode_GBA u WaitingForNextTask,
               (PushMail UCODE_DSP_DONE False 0 m, ProcessGBACrypto (mail AND 0x0fffffff) mem), Stay)
      | WaitingForNextTask \<Rightarrow>
          if mail = MAIL_NEW_UCODE then Inr (UCode_GBA (u\<lparr>m_upload_setup_in_progress := True\<rparr>) s, env, Stay)
          else if mail = MAIL_RESET then Inr (UCode_GBA u s, env, Set_to UCODE_ROM)
          else Inr (UCode_GBA u s, env, Stay))"

fun UCode_HandleMail ::
    "'m mixers \<Rightarrow> u32 \<Rightarrow> 'm UCode \<Rightarrow> env \<Rightarrow> ('m UCode \<times> env \<times> switch) hle_result" where
  "UCode_HandleMail mx mail (UCode_ROM u s) env = ROM_HandleMail mail u s env"
| "UCode_HandleMail mx mail (UCode_INIT u) env = Inr (UCode_INIT u, env, Stay)"
| "UCode_HandleMail mx mail (UCode_CARD u) (m, mem) =
     Inr (UCode_CARD u, (PushMail UCODE_DSP_DONE False 0 m, mem), Set_to UCODE_ROM)"
| "UCode_HandleMail mx mail (UCode_GBA u s) env = GBA_HandleMail mail u s env"
| "UCode_HandleMail mx mail (UCode_Mixer k u s) env =
     bindE (mixer_mail mx k mail (u, s) env) (\<lambda>((u, s), env, sw). Inr (UCode_Mixer k u s, env, sw))"

section \<open>The front end\<close>

record 'm DSPHLE =
  hle_wii :: bool
  hle_ucode :: "'m UCode option"
  hle_last_ucode :: "'m UCode option"
  hle_control :: u16
  hle_init_code_clear_time :: u64
  hle_cpu_mailbox :: u32
  hle_dsp_mailbox :: u32
  hle_mail :: CMailHandler
  hle_memory :: Host

text \<open>A microcode is made and started; a null pointer when the checksum is \<open>UCODE_NULL\<close>.\<close>

definition start_ucode :: "'m mixers \<Rightarrow> u32 \<Rightarrow> 'm DSPHLE \<Rightarrow> 'm DSPHLE hle_result" where
  "start_ucode mx crc h =
     (case UCodeFactory mx crc (hle_wii h) of
        None \<Rightarrow> Inl NullUCode
      | Some u \<Rightarrow>
          (case UCode_Initialize mx u (hle_mail h, hle_memory h) of
             (u, m, mem) \<Rightarrow> Inr (h\<lparr>hle_ucode := Some u, hle_mail := m, hle_memory := mem\<rparr>)))"

definition SetUCode :: "'m mixers \<Rightarrow> u32 \<Rightarrow> 'm DSPHLE \<Rightarrow> 'm DSPHLE hle_result" where
  "SetUCode mx crc h = start_ucode mx crc (h\<lparr>hle_mail := ClearPending (hle_mail h)\<rparr>)"

definition SwapUCode :: "'m mixers \<Rightarrow> u32 \<Rightarrow> 'm DSPHLE \<Rightarrow> 'm DSPHLE hle_result" where
  "SwapUCode mx crc h =
     (let h = h\<lparr>hle_mail := ClearPending (hle_mail h)\<rparr> in
      if hle_last_ucode h \<noteq> None \<and> GetCRC (hle_last_ucode h) = crc
      then Inr (h\<lparr>hle_ucode := hle_last_ucode h, hle_last_ucode := None\<rparr>)
      else start_ucode mx crc
             (if hle_last_ucode h = None then h\<lparr>hle_last_ucode := hle_ucode h, hle_ucode := None\<rparr> else h))"

definition SendMailToDSP :: "'m mixers \<Rightarrow> u32 \<Rightarrow> 'm DSPHLE \<Rightarrow> 'm DSPHLE hle_result" where
  "SendMailToDSP mx mail h =
     (case hle_ucode h of
        None \<Rightarrow> Inr h
      | Some u \<Rightarrow>
          bindE (UCode_HandleMail mx mail u (hle_mail h, hle_memory h)) (\<lambda>(u, (m, mem), sw).
          let h = h\<lparr>hle_ucode := Some u, hle_mail := m, hle_memory := mem\<rparr>
          in case sw of
               Stay \<Rightarrow> Inr h
             | Set_to crc \<Rightarrow> SetUCode mx crc h
             | Swap_to crc \<Rightarrow> SwapUCode mx crc h))"

definition HLE_Initialize :: "'m mixers \<Rightarrow> bool \<Rightarrow> 'm DSPHLE \<Rightarrow> 'm DSPHLE hle_result" where
  "HLE_Initialize mx wii h =
     bindE (SetUCode mx UCODE_ROM (h\<lparr>hle_wii := wii, hle_ucode := None, hle_last_ucode := None\<rparr>)) (\<lambda>h.
     Inr (h\<lparr>hle_control := CTL_DSPHalt OR CTL_DSPInit, hle_mail := SetHalted True (hle_mail h),
           hle_cpu_mailbox := 0, hle_dsp_mailbox := 0\<rparr>))"

definition HLE_Shutdown :: "'m DSPHLE \<Rightarrow> 'm DSPHLE" where
  "HLE_Shutdown h = h\<lparr>hle_ucode := None\<rparr>"

definition HLE_Update :: "'m mixers \<Rightarrow> 'm DSPHLE \<Rightarrow> 'm DSPHLE" where
  "HLE_Update mx h =
     (case hle_ucode h of
        None \<Rightarrow> h
      | Some u \<Rightarrow>
          (case UCode_Update mx u (hle_mail h, hle_memory h) of
             (u, m, mem) \<Rightarrow> h\<lparr>hle_ucode := Some u, hle_mail := m, hle_memory := mem\<rparr>))"

definition HLE_UpdateRate :: "u32 \<Rightarrow> u32" where
  "HLE_UpdateRate ticks_per_second = ticks_per_second div 1000"

definition HLE_ReadMailBoxHigh :: "bool \<Rightarrow> 'm DSPHLE \<Rightarrow> u16 \<times> 'm DSPHLE" where
  "HLE_ReadMailBoxHigh cpu_mailbox h =
     (if cpu_mailbox then (ucast (drop_bit 16 (hle_cpu_mailbox h) AND 0xFFFF), h)
      else case ReadDSPMailboxHigh (hle_mail h) of (v, m) \<Rightarrow> (v, h\<lparr>hle_mail := m\<rparr>))"

definition HLE_ReadMailBoxLow :: "bool \<Rightarrow> 'm DSPHLE \<Rightarrow> u16 \<times> 'm DSPHLE" where
  "HLE_ReadMailBoxLow cpu_mailbox h =
     (if cpu_mailbox then (ucast (hle_cpu_mailbox h AND 0xFFFF), h)
      else case ReadDSPMailboxLow (hle_mail h) of (v, m) \<Rightarrow> (v, h\<lparr>hle_mail := m\<rparr>))"

definition HLE_WriteMailBoxHigh :: "bool \<Rightarrow> u16 \<Rightarrow> 'm DSPHLE \<Rightarrow> 'm DSPHLE" where
  "HLE_WriteMailBoxHigh cpu_mailbox val h =
     (if cpu_mailbox
      then h\<lparr>hle_cpu_mailbox := (hle_cpu_mailbox h AND 0xFFFF) OR push_bit 16 (ucast val)\<rparr> else h)"

definition HLE_WriteMailBoxLow :: "'m mixers \<Rightarrow> bool \<Rightarrow> u16 \<Rightarrow> 'm DSPHLE \<Rightarrow> 'm DSPHLE hle_result" where
  "HLE_WriteMailBoxLow mx cpu_mailbox val h =
     (if cpu_mailbox
      then let h = h\<lparr>hle_cpu_mailbox := (hle_cpu_mailbox h AND 0xFFFF0000) OR ucast val\<rparr>
           in bindE (SendMailToDSP mx (hle_cpu_mailbox h) h) (\<lambda>h.
              Inr (h\<lparr>hle_cpu_mailbox := hle_cpu_mailbox h AND 0x7FFFFFFF\<rparr>))
      else Inr h)"

text \<open>\<open>now\<close> is the time base.\<close>

definition HLE_WriteControlRegister :: "'m mixers \<Rightarrow> u64 \<Rightarrow> u16 \<Rightarrow> 'm DSPHLE \<Rightarrow> (u16 \<times> 'm DSPHLE) hle_result" where
  "HLE_WriteControlRegister mx now val h =
     (let h = (if hle_control h AND CTL_DSPHalt \<noteq> val AND CTL_DSPHalt
               then h\<lparr>hle_mail := SetHalted (val AND CTL_DSPHalt \<noteq> 0) (hle_mail h)\<rparr> else h)
      in bindE (if val AND CTL_DSPReset \<noteq> 0
                then bindE (SetUCode mx UCODE_ROM h) (\<lambda>h. Inr (val AND NOT CTL_DSPReset, h))
                else Inr (val, h)) (\<lambda>(tmp, h).
         bindE (if hle_control h AND CTL_DSPInit \<noteq> 0 \<and> tmp AND CTL_DSPInit = 0
                then bindE (SetUCode mx UCODE_INIT_AUDIO_SYSTEM h) (\<lambda>h.
                     Inr (tmp OR CTL_DSPInitCode, h\<lparr>hle_init_code_clear_time := now + 130\<rparr>))
                else Inr (tmp, h)) (\<lambda>(tmp, h).
         Inr (tmp, h\<lparr>hle_control := tmp\<rparr>))))"

text \<open>Without the call to \<open>ForceExceptionCheck\<close>, which only asks to look again soon.\<close>

definition HLE_ReadControlRegister :: "u64 \<Rightarrow> 'm DSPHLE \<Rightarrow> u16 \<times> 'm DSPHLE" where
  "HLE_ReadControlRegister now h =
     (let h = (if hle_control h AND CTL_DSPInitCode \<noteq> 0 \<and> now \<ge> hle_init_code_clear_time h
               then h\<lparr>hle_control := hle_control h AND NOT CTL_DSPInitCode\<rparr> else h)
      in (hle_control h, h))"

end
