(* ===== verification/Dsp_HLE_Protocol.thy ===== *)
theory Dsp_HLE_Protocol
  imports Dsp_HLE_Facts
begin

text \<open>
  The protocols between the processor and the microcodes: booting one from the ROM, replacing one for
  a while, and the invariant of the front end over all sequences of accesses.
\<close>

unbundle bit_operations_syntax

section \<open>Sequences of mails\<close>

fun send_mails :: "'m mixers \<Rightarrow> u32 list \<Rightarrow> 'm DSPHLE \<Rightarrow> 'm DSPHLE hle_result" where
  "send_mails mx [] h = Inr h"
| "send_mails mx (v # vs) h = bindE (SendMailToDSP mx v h) (send_mails mx vs)"

lemma send_mails_Nil: "send_mails mx [] = Inr"
  by (rule ext) simp

lemma send_mails_append: "send_mails mx (vs @ ws) h = bindE (send_mails mx vs h) (send_mails mx ws)"
proof (induction vs arbitrary: h)
  case (Cons v vs)
  then show ?case
    by (cases "SendMailToDSP mx v h") simp_all
qed simp

lemma SetUCode_new: "SetUCode mx crc (h\<lparr>hle_ucode := x\<rparr>) = SetUCode mx crc h"
  by (simp add: SetUCode_def start_ucode_def split: option.split prod.split)

section \<open>Booting from the ROM\<close>

text \<open>The parameters of the boot task, and the field that each one sets.\<close>

definition boot_field :: "u32 \<Rightarrow> u32 \<Rightarrow> UCodeBootInfo \<Rightarrow> UCodeBootInfo" where
  "boot_field t v c =
     (if t = 0x80F3A001 then c\<lparr>m_ram_address := v\<rparr>
      else if t = 0x80F3A002 then c\<lparr>m_length := v AND 0xffff\<rparr>
      else if t = 0x80F3B002 then c\<lparr>m_dmem_length := v AND 0xffff\<rparr>
      else if t = 0x80F3C002 then c\<lparr>m_imem_address := v AND 0xffff\<rparr> else c)"

definition boot_tags :: "u32 set" where
  "boot_tags = {0x80F3A001, 0x80F3A002, 0x80F3B002, 0x80F3C002}"

lemma boot_parameter:
  assumes "hle_ucode h = Some (UCode_ROM u s)" "m_next_parameter s = 0" "t \<in> boot_tags"
  shows "send_mails mx [t, v] h =
    Inr (h\<lparr>hle_ucode := Some (UCode_ROM u (s\<lparr>m_current_ucode := boot_field t v (m_current_ucode s)\<rparr>))\<rparr>)"
  using assms by (cases h; cases s) (auto simp: SendMailToDSP_def ROM_HandleMail_def boot_tags_def boot_field_def Let_def)

lemma boot_parameters:
  "hle_ucode h = Some (UCode_ROM u s) \<Longrightarrow> m_next_parameter s = 0 \<Longrightarrow> fst ` set ps \<subseteq> boot_tags \<Longrightarrow>
    send_mails mx (concat (map (\<lambda>(t, v). [t, v]) ps)) h =
      Inr (h\<lparr>hle_ucode := Some (UCode_ROM u
        (s\<lparr>m_current_ucode := fold (\<lambda>(t, v). boot_field t v) ps (m_current_ucode s)\<rparr>))\<rparr>)"
proof (induction ps arbitrary: h s)
  case Nil
  then show ?case
    by (cases h) simp
next
  case (Cons p ps)
  obtain t v where p: "p = (t, v)"
    by (cases p)
  let ?s = "s\<lparr>m_current_ucode := boot_field t v (m_current_ucode s)\<rparr>"
  have "send_mails mx ([t, v] @ concat (map (\<lambda>(t, v). [t, v]) ps)) h =
      send_mails mx (concat (map (\<lambda>(t, v). [t, v]) ps)) (h\<lparr>hle_ucode := Some (UCode_ROM u ?s)\<rparr>)"
    unfolding send_mails_append using boot_parameter [OF Cons.prems(1, 2), of t mx v] Cons.prems(3) p by simp
  also have "\<dots> = Inr (h\<lparr>hle_ucode := Some (UCode_ROM u
        (?s\<lparr>m_current_ucode := fold (\<lambda>(t, v). boot_field t v) ps (m_current_ucode ?s)\<rparr>))\<rparr>)"
    using Cons.IH [of "h\<lparr>hle_ucode := Some (UCode_ROM u ?s)\<rparr>" ?s] Cons.prems by simp
  finally show ?case
    using p by simp
qed

lemma boot_address:
  "distinct (map fst ps) \<Longrightarrow> (0x80F3A001, a) \<in> set ps \<Longrightarrow> m_ram_address (fold (\<lambda>(t, v). boot_field t v) ps c) = a"
  "0x80F3A001 \<notin> fst ` set ps \<Longrightarrow> m_ram_address (fold (\<lambda>(t, v). boot_field t v) ps c) = m_ram_address c"
proof -
  show n: "0x80F3A001 \<notin> fst ` set ps \<Longrightarrow> m_ram_address (fold (\<lambda>(t, v). boot_field t v) ps c) = m_ram_address c" for ps c
    by (induction ps arbitrary: c) (auto simp: boot_field_def)
  show "distinct (map fst ps) \<Longrightarrow> (0x80F3A001, a) \<in> set ps \<Longrightarrow> m_ram_address (fold (\<lambda>(t, v). boot_field t v) ps c) = a"
    by (induction ps arbitrary: c) (auto simp: n, auto simp: boot_field_def)
qed

lemma boot_length:
  "distinct (map fst ps) \<Longrightarrow> (0x80F3A002, l) \<in> set ps \<Longrightarrow> m_length (fold (\<lambda>(t, v). boot_field t v) ps c) = l AND 0xffff"
  "0x80F3A002 \<notin> fst ` set ps \<Longrightarrow> m_length (fold (\<lambda>(t, v). boot_field t v) ps c) = m_length c"
proof -
  show n: "0x80F3A002 \<notin> fst ` set ps \<Longrightarrow> m_length (fold (\<lambda>(t, v). boot_field t v) ps c) = m_length c" for ps c
    by (induction ps arbitrary: c) (auto simp: boot_field_def)
  show "distinct (map fst ps) \<Longrightarrow> (0x80F3A002, l) \<in> set ps \<Longrightarrow>
      m_length (fold (\<lambda>(t, v). boot_field t v) ps c) = l AND 0xffff"
    by (induction ps arbitrary: c) (auto simp: n, auto simp: boot_field_def)
qed

lemma boot_task:
  assumes "hle_ucode h = Some (UCode_ROM u s)" "m_next_parameter s = 0"
    and "fst ` set ps \<subseteq> boot_tags" "distinct (map fst ps)"
    and "(0x80F3A001, a) \<in> set ps" "(0x80F3A002, l) \<in> set ps"
  shows "send_mails mx (concat (map (\<lambda>(t, v). [t, v]) ps) @ [0x80F3D001, start]) h =
    bindE (hash_range (hle_memory h) a (unat (l AND 0xffff))) (\<lambda>crc. SetUCode mx crc h)"
proof -
  define c where "c = fold (\<lambda>(t, v). boot_field t v) ps (m_current_ucode s)"
  have c: "m_ram_address c = a" "m_length c = l AND 0xffff"
    using boot_address(1) [OF assms(4, 5)] boot_length(1) [OF assms(4, 6)] by (simp_all add: c_def)
  have "send_mails mx [0x80F3D001, start] (h\<lparr>hle_ucode := Some (UCode_ROM u (s\<lparr>m_current_ucode := c\<rparr>))\<rparr>) =
      bindE (hash_range (hle_memory h) a (unat (l AND 0xffff))) (\<lambda>crc. SetUCode mx crc h)"
    using assms(2) c SetUCode_new [where h = h]
    by (cases "hash_range (hle_memory h) a (unat (l AND 0xffff))"; cases h)
      (simp_all add: SendMailToDSP_def ROM_HandleMail_def send_mails_Nil Let_def)
  then show ?thesis
    unfolding send_mails_append boot_parameters [OF assms(1-3)] c_def [symmetric] by simp
qed

section \<open>Replacing a microcode\<close>

lemma unat_low_half: "unat (ucast (x AND 0xffff :: u32) :: u16) = unat (x AND 0xffff)"
proof -
  have m: "(0xffff :: u32) = mask 16"
    by (simp add: mask_eq_exp_minus_1)
  show ?thesis
    unfolding m by (simp add: take_bit_eq_mask [symmetric] unsigned_ucast_eq unsigned_take_bit_eq)
qed

text \<open>What the microcode of the link knows when the tenth mail of an upload has arrived.\<close>

definition uploaded :: "u32 list \<Rightarrow> UCodeInterface \<Rightarrow> UCodeInterface" where
  "uploaded vs u = u\<lparr>m_next_ucode := fold (\<lambda>k. next_ucode_field k (vs ! k)) [0..<10] (m_next_ucode u),
     m_next_ucode_steps := 0, m_needs_resume_mail := True, m_upload_setup_in_progress := False\<rparr>"

lemma link_upload:
  assumes "hle_ucode h = Some (UCode_GBA u WaitingForNextTask)" "\<not> m_upload_setup_in_progress u"
    "m_next_ucode_steps u = 0"
  shows "send_mails mx [MAIL_NEW_UCODE, a0, a1, a2, a3, a4, a5, a6, a7, a8, a9] h =
    bindE (hash_range (hle_memory h) a3 (unat (a4 AND 0xffff))) (\<lambda>crc.
    SwapUCode mx crc (h\<lparr>hle_ucode := Some (UCode_GBA (uploaded [a0, a1, a2, a3, a4, a5, a6, a7, a8, a9] u) WaitingForNextTask)\<rparr>))"
proof -
  have l: "[0..<10] = [0, 1, 2, 3, 4, 5, 6, 7, 8, 9 :: nat]"
    by (simp add: upt_conv_Cons)
  show ?thesis
    using assms by (cases h; cases u; cases "hash_range (hle_memory h) a3 (unat (a4 AND 0xffff))")
      (simp_all add: SendMailToDSP_def GBA_HandleMail_def PrepareBootUCode_def next_ucode_field_def Let_def
        unat_low_half send_mails_Nil uploaded_def l)
qed

text \<open>
  A microcode that another one replaces is kept, and comes back exactly as it was when its checksum
  is asked for again.
\<close>

lemma SwapUCode_keeps:
  assumes "hle_ucode h = Some u" "hle_last_ucode h = None" "SwapUCode mx crc h = Inr h'"
  shows "hle_last_ucode h' = Some u"
  using assms by (auto simp: SwapUCode_def start_ucode_def Let_def split: option.splits prod.splits)

lemma SwapUCode_back:
  assumes "hle_last_ucode h = Some u"
  shows "SwapUCode mx (m_crc (interface_of u)) h =
    Inr (h\<lparr>hle_ucode := Some u, hle_last_ucode := None, hle_mail := ClearPending (hle_mail h)\<rparr>)"
  using assms by (simp add: SwapUCode_def GetCRC_def Let_def)

lemma SetUCode_keeps_last:
  "SetUCode mx crc h = Inr h' \<Longrightarrow> hle_last_ucode h' = hle_last_ucode h"
  by (auto simp: SetUCode_def start_ucode_def split: option.splits prod.splits)

text \<open>The card microcode reports that it is done, and the report is cleared with the switch to the ROM.\<close>

lemma card_report_is_lost:
  "hle_ucode h = Some (UCode_CARD u) \<Longrightarrow>
    \<exists>h'. SendMailToDSP mx v h = Inr h' \<and> m_pending_mails (hle_mail h') = [(0x8071FEED, False)]"
  by (simp add: SendMailToDSP_def SetUCode_def start_ucode_def UCodeFactory_def ClearPending_def PushMail_def Let_def)

section \<open>Mails from the processor\<close>

lemma halves_joined:
  fixes m :: u32
  shows "(((m AND 0xffff) OR push_bit 16 (ucast (hi :: u16))) AND 0xffff0000) OR ucast (lo :: u16) =
    push_bit 16 (ucast hi) OR ucast lo"
proof -
  have c: "(0xffff0000 :: u32) = push_bit 16 (mask 16)" "(0xffff :: u32) = mask 16"
    by (simp_all add: mask_eq_exp_minus_1)
  show ?thesis
    unfolding c by (rule bit_word_eqI) (auto simp: bit_simps)
qed

lemma cpu_mail:
  "HLE_WriteMailBoxLow mx True lo (HLE_WriteMailBoxHigh True hi h) =
    bindE (SendMailToDSP mx (push_bit 16 (ucast hi) OR ucast lo) (h\<lparr>hle_cpu_mailbox := push_bit 16 (ucast hi) OR ucast lo\<rparr>))
      (\<lambda>h. Inr (h\<lparr>hle_cpu_mailbox := hle_cpu_mailbox h AND 0x7FFFFFFF\<rparr>))"
  using halves_joined [of "hle_cpu_mailbox h" hi lo]
  by (simp add: HLE_WriteMailBoxLow_def HLE_WriteMailBoxHigh_def Let_def)

end
