(* ===== verification/Dsp_HLE_Invariant.thy ===== *)
theory Dsp_HLE_Invariant
  imports Dsp_HLE_Protocol
begin

text \<open>
  The invariant of the front end over all accesses of the processor and all updates: there is a
  microcode, its upload is in a defined step, the mail handler is halted exactly when the control
  register says so, only the mail in front can carry a request for an interrupt, and the reset bit
  never stays set.
\<close>

unbundle bit_operations_syntax

section \<open>The parts\<close>

definition upload_ok :: "UCodeInterface \<Rightarrow> bool" where
  "upload_ok u \<longleftrightarrow> m_next_ucode_steps u < 10 \<and> (m_next_ucode_steps u \<noteq> 0 \<longrightarrow> m_upload_setup_in_progress u)"

definition mails_ok :: "CMailHandler \<Rightarrow> bool" where
  "mails_ok m \<longleftrightarrow> list_all (\<lambda>x. \<not> snd x) (tl (m_pending_mails m))"

text \<open>A mail handler after a microcode has used it: well-formed, and halted as before.\<close>

definition env_ok :: "env \<Rightarrow> env \<Rightarrow> bool" where
  "env_ok e e' \<longleftrightarrow> (mails_ok (fst e) \<longrightarrow> mails_ok (fst e')) \<and> m_halted (fst e') = m_halted (fst e)"

text \<open>What is asked of the microcodes that are a parameter.\<close>

definition mixers_ok :: "'m mixers \<Rightarrow> bool" where
  "mixers_ok mx \<longleftrightarrow>
     (\<forall>k u s e. upload_ok u \<longrightarrow>
       upload_ok (fst (fst (mixer_initialize mx k (u, s) e))) \<and> env_ok e (snd (mixer_initialize mx k (u, s) e)) \<and>
       upload_ok (fst (fst (mixer_update mx k (u, s) e))) \<and> env_ok e (snd (mixer_update mx k (u, s) e)) \<and>
       (\<forall>v us e' sw. mixer_mail mx k v (u, s) e = Inr (us, e', sw) \<longrightarrow> upload_ok (fst us) \<and> env_ok e e'))"

lemma mixers_okD:
  assumes "mixers_ok mx" "upload_ok u"
  shows "mixer_initialize mx k (u, s) e = ((u', s'), e') \<Longrightarrow> upload_ok u' \<and> env_ok e e'"
    "mixer_update mx k (u, s) e = ((u', s'), e') \<Longrightarrow> upload_ok u' \<and> env_ok e e'"
    "mixer_mail mx k v (u, s) e = Inr ((u', s'), e', sw) \<Longrightarrow> upload_ok u' \<and> env_ok e e'"
proof -
  have all: "upload_ok (fst (fst (mixer_initialize mx k (u, s) e)))" "env_ok e (snd (mixer_initialize mx k (u, s) e))"
    "upload_ok (fst (fst (mixer_update mx k (u, s) e)))" "env_ok e (snd (mixer_update mx k (u, s) e))"
    "\<And>v us e' sw. mixer_mail mx k v (u, s) e = Inr (us, e', sw) \<Longrightarrow> upload_ok (fst us) \<and> env_ok e e'"
    using assms unfolding mixers_ok_def by blast+
  show "mixer_initialize mx k (u, s) e = ((u', s'), e') \<Longrightarrow> upload_ok u' \<and> env_ok e e'"
    "mixer_update mx k (u, s) e = ((u', s'), e') \<Longrightarrow> upload_ok u' \<and> env_ok e e'"
    "mixer_mail mx k v (u, s) e = Inr ((u', s'), e', sw) \<Longrightarrow> upload_ok u' \<and> env_ok e e'"
    using all(1-4) all(5) [of v "(u', s')" e' sw] by simp_all
qed

definition hle_ok :: "'m DSPHLE \<Rightarrow> bool" where
  "hle_ok h \<longleftrightarrow>
     (\<exists>u. hle_ucode h = Some u \<and> upload_ok (interface_of u)) \<and>
     (\<forall>u. hle_last_ucode h = Some u \<longrightarrow> upload_ok (interface_of u)) \<and>
     mails_ok (hle_mail h) \<and> (m_halted (hle_mail h) \<longleftrightarrow> hle_control h AND CTL_DSPHalt \<noteq> 0) \<and>
     hle_control h AND CTL_DSPReset = 0"

section \<open>The mail handler\<close>

lemma mails_ok_simps [simp]:
  "mails_ok (request_interrupt c m) = mails_ok m" "mails_ok (ClearPending m)"
  "mails_ok (SetHalted b m) = mails_ok m" "mails_ok (m\<lparr>m_last_mail := v\<rparr>) = mails_ok m"
  by (simp_all add: mails_ok_def request_interrupt_def ClearPending_def SetHalted_def)

lemma halted_simps [simp]:
  "m_halted (request_interrupt c m) = m_halted m" "m_halted (ClearPending m) = m_halted m"
  "m_halted (SetHalted b m) = b" "m_halted (PushMail v i c m) = m_halted m"
  by (simp_all add: request_interrupt_def ClearPending_def SetHalted_def PushMail_pending)

lemma mails_ok_PushMail: "mails_ok m \<Longrightarrow> mails_ok (PushMail v i c m)"
  by (cases "m_pending_mails m")
    (auto simp: mails_ok_def PushMail_def request_interrupt_def Let_def split: prod.split)

lemma env_ok_refl [simp]: "env_ok e e"
  by (simp add: env_ok_def)

lemma env_ok_PushMail [simp]: "env_ok (m, mem) (PushMail v i c m, mem')"
  by (simp add: env_ok_def mails_ok_PushMail)

lemma env_ok_interrupt [simp]: "env_ok (m, mem) (request_interrupt c m, mem')"
  by (simp add: env_ok_def)

lemma mails_ok_reads:
  "mails_ok m \<Longrightarrow> mails_ok (snd (ReadDSPMailboxHigh m))" "m_halted (snd (ReadDSPMailboxHigh m)) = m_halted m"
  "mails_ok m \<Longrightarrow> mails_ok (snd (ReadDSPMailboxLow m))" "m_halted (snd (ReadDSPMailboxLow m)) = m_halted m"
proof -
  have t: "list_all P xs \<Longrightarrow> list_all P (tl xs)" for P :: "'a \<Rightarrow> bool" and xs
    by (cases xs) simp_all
  show "mails_ok m \<Longrightarrow> mails_ok (snd (ReadDSPMailboxHigh m))" "m_halted (snd (ReadDSPMailboxHigh m)) = m_halted m"
    by (simp_all add: ReadDSPMailboxHigh_def mails_ok_def Let_def)
  show "mails_ok m \<Longrightarrow> mails_ok (snd (ReadDSPMailboxLow m))" "m_halted (snd (ReadDSPMailboxLow m)) = m_halted m"
    by (auto simp: ReadDSPMailboxLow_def mails_ok_def request_interrupt_def Let_def t split: list.splits)
qed

section \<open>Microcodes\<close>

lemma new_upload_ok: "upload_ok (new_interface crc)"
  by (simp add: upload_ok_def new_interface_def)

lemma UCodeFactory_ok: "UCodeFactory mx crc wii = Some u \<Longrightarrow> upload_ok (interface_of u)"
  by (auto simp: UCodeFactory_def Let_def new_upload_ok split: if_splits)

lemma PrepareBootUCode_ok:
  "upload_ok u \<Longrightarrow> m_upload_setup_in_progress u \<Longrightarrow> PrepareBootUCode mem v u = Inr (u', sw) \<Longrightarrow> upload_ok u'"
  by (auto simp: PrepareBootUCode_def upload_ok_def Let_def bindE_eq_Inr_iff split: if_splits)

lemma UCode_Initialize_ok:
  assumes "mixers_ok mx" "upload_ok (interface_of u)"
  shows "upload_ok (interface_of (fst (UCode_Initialize mx u e))) \<and> env_ok e (snd (UCode_Initialize mx u e))"
proof (cases u)
  case (UCode_Mixer k i s)
  then show ?thesis
    using assms by (auto split: prod.split dest: mixers_okD(1))
qed (use assms in \<open>cases e; simp\<close>)+

lemma UCode_Update_ok:
  assumes "mixers_ok mx" "upload_ok (interface_of u)"
  shows "upload_ok (interface_of (fst (UCode_Update mx u e))) \<and> env_ok e (snd (UCode_Update mx u e))"
proof (cases u)
  case (UCode_Mixer k i s)
  then show ?thesis
    using assms by (auto split: prod.split dest: mixers_okD(2))
qed (use assms in \<open>cases e; simp\<close>)+

lemma UCode_HandleMail_ok:
  assumes "mixers_ok mx" "upload_ok (interface_of u)" "UCode_HandleMail mx v u e = Inr (u', e', sw)"
  shows "upload_ok (interface_of u') \<and> env_ok e e'"
proof (cases u)
  case (UCode_ROM i s)
  then show ?thesis
    using assms by (cases e) (auto simp: ROM_HandleMail_def Let_def bindE_eq_Inr_iff split: if_splits)
next
  case (UCode_GBA i s)
  obtain m mem where e: "e = (m, mem)"
    by (cases e)
  show ?thesis
  proof (cases "m_upload_setup_in_progress i")
    case True
    then show ?thesis
      using assms UCode_GBA e by (auto simp: GBA_HandleMail_def bindE_eq_Inr_iff dest: PrepareBootUCode_ok)
  next
    case False
    then show ?thesis
      using assms UCode_GBA e
      by (auto simp: GBA_HandleMail_def upload_ok_def split: MailState.splits if_splits)
  qed
next
  case (UCode_Mixer k i s)
  then show ?thesis
    using assms by (auto simp: bindE_eq_Inr_iff dest: mixers_okD(3))
qed (use assms in \<open>cases e; auto\<close>)+

section \<open>The front end\<close>

text \<open>All of the invariant but the reset bit, which a write may carry until it has been served.\<close>

definition hle_inv :: "'m DSPHLE \<Rightarrow> bool" where
  "hle_inv h \<longleftrightarrow>
     (\<forall>u. hle_ucode h = Some u \<longrightarrow> upload_ok (interface_of u)) \<and>
     (\<forall>u. hle_last_ucode h = Some u \<longrightarrow> upload_ok (interface_of u)) \<and> mails_ok (hle_mail h)"

lemma start_ucode_ok:
  assumes "mixers_ok mx" "hle_inv h" "start_ucode mx crc h = Inr h'"
  shows "hle_inv h' \<and> hle_ucode h' \<noteq> None \<and> m_halted (hle_mail h') = m_halted (hle_mail h) \<and> hle_control h' = hle_control h"
proof -
  obtain u u' m mem where u: "UCodeFactory mx crc (hle_wii h) = Some u"
    "UCode_Initialize mx u (hle_mail h, hle_memory h) = (u', m, mem)"
    "h' = h\<lparr>hle_ucode := Some u', hle_mail := m, hle_memory := mem\<rparr>"
    using assms(3) by (auto simp: start_ucode_def split: option.splits prod.splits)
  have "upload_ok (interface_of u') \<and> env_ok (hle_mail h, hle_memory h) (m, mem)"
    using UCode_Initialize_ok [OF assms(1) UCodeFactory_ok [OF u(1)], of "(hle_mail h, hle_memory h)"] u(2) by simp
  then show ?thesis
    using assms(2) u(3) by (simp add: hle_inv_def env_ok_def)
qed

lemma SetUCode_ok:
  assumes "mixers_ok mx" "hle_inv h" "SetUCode mx crc h = Inr h'"
  shows "hle_inv h' \<and> hle_ucode h' \<noteq> None \<and> m_halted (hle_mail h') = m_halted (hle_mail h) \<and> hle_control h' = hle_control h"
proof -
  have "hle_inv (h\<lparr>hle_mail := ClearPending (hle_mail h)\<rparr>)"
    using assms(2) by (simp add: hle_inv_def)
  from start_ucode_ok [OF assms(1) this assms(3) [unfolded SetUCode_def]] show ?thesis
    by simp
qed

lemma SwapUCode_ok:
  assumes "mixers_ok mx" "hle_inv h" "SwapUCode mx crc h = Inr h'"
  shows "hle_inv h' \<and> hle_ucode h' \<noteq> None \<and> m_halted (hle_mail h') = m_halted (hle_mail h) \<and> hle_control h' = hle_control h"
proof (cases "hle_last_ucode h \<noteq> None \<and> GetCRC (hle_last_ucode h) = crc")
  case True
  then show ?thesis
    using assms(2, 3) by (auto simp: SwapUCode_def hle_inv_def Let_def)
next
  case False
  let ?h = "h\<lparr>hle_mail := ClearPending (hle_mail h)\<rparr>"
  let ?k = "if hle_last_ucode ?h = None then ?h\<lparr>hle_last_ucode := hle_ucode ?h, hle_ucode := None\<rparr> else ?h"
  have "start_ucode mx crc ?k = Inr h'"
    using assms(3) False by (auto simp: SwapUCode_def Let_def)
  moreover have "hle_inv ?k"
    using assms(2) by (simp add: hle_inv_def)
  ultimately show ?thesis
    using start_ucode_ok [OF assms(1)] by (auto split: if_splits)
qed

lemma SendMailToDSP_ok:
  assumes "mixers_ok mx" "hle_inv h" "hle_ucode h \<noteq> None" "SendMailToDSP mx v h = Inr h'"
  shows "hle_inv h' \<and> hle_ucode h' \<noteq> None \<and> m_halted (hle_mail h') = m_halted (hle_mail h) \<and> hle_control h' = hle_control h"
proof -
  obtain u where u: "hle_ucode h = Some u" "upload_ok (interface_of u)"
    using assms(2, 3) by (auto simp: hle_inv_def)
  obtain u' m mem sw where m: "UCode_HandleMail mx v u (hle_mail h, hle_memory h) = Inr (u', (m, mem), sw)"
    using assms(4) u(1) by (cases "UCode_HandleMail mx v u (hle_mail h, hle_memory h)") (auto simp: SendMailToDSP_def)
  let ?h = "h\<lparr>hle_ucode := Some u', hle_mail := m, hle_memory := mem\<rparr>"
  have h: "hle_inv ?h" "m_halted (hle_mail ?h) = m_halted (hle_mail h)"
    using UCode_HandleMail_ok [OF assms(1) u(2) m] assms(2) by (simp_all add: hle_inv_def env_ok_def)
  have s: "(case sw of Stay \<Rightarrow> Inr ?h | Set_to crc \<Rightarrow> SetUCode mx crc ?h | Swap_to crc \<Rightarrow> SwapUCode mx crc ?h) = Inr h'"
    using assms(4) u(1) m by (simp add: SendMailToDSP_def Let_def)
  show ?thesis
  proof (cases sw)
    case Stay
    then show ?thesis
      using s h by auto
  next
    case (Set_to crc)
    then have "SetUCode mx crc ?h = Inr h'"
      using s by simp
    from SetUCode_ok [OF assms(1) h(1) this] show ?thesis
      using h(2) by simp
  next
    case (Swap_to crc)
    then have "SwapUCode mx crc ?h = Inr h'"
      using s by simp
    from SwapUCode_ok [OF assms(1) h(1) this] show ?thesis
      using h(2) by simp
  qed
qed

text \<open>The accesses of the processor, and the updates.\<close>

inductive hle_step :: "'m mixers \<Rightarrow> 'm DSPHLE \<Rightarrow> 'm DSPHLE \<Rightarrow> bool" for mx where
  write_high: "hle_step mx h (HLE_WriteMailBoxHigh cpu v h)"
| write_low: "HLE_WriteMailBoxLow mx cpu v h = Inr h' \<Longrightarrow> hle_step mx h h'"
| read_high: "hle_step mx h (snd (HLE_ReadMailBoxHigh cpu h))"
| read_low: "hle_step mx h (snd (HLE_ReadMailBoxLow cpu h))"
| write_control: "HLE_WriteControlRegister mx now v h = Inr (r, h') \<Longrightarrow> hle_step mx h h'"
| read_control: "hle_step mx h (snd (HLE_ReadControlRegister now h))"
| update: "hle_step mx h (HLE_Update mx h)"

lemma hle_ok_inv:
  "hle_ok h \<longleftrightarrow> hle_inv h \<and> hle_ucode h \<noteq> None \<and> (m_halted (hle_mail h) \<longleftrightarrow> hle_control h AND CTL_DSPHalt \<noteq> 0) \<and>
    hle_control h AND CTL_DSPReset = 0"
  by (auto simp: hle_ok_def hle_inv_def)

lemma control_bits_kept:
  fixes v :: u16
  shows "(v AND NOT CTL_DSPReset) AND CTL_DSPReset = 0" "(v AND NOT CTL_DSPReset) AND CTL_DSPHalt = v AND CTL_DSPHalt"
    "(v OR CTL_DSPInitCode) AND CTL_DSPReset = v AND CTL_DSPReset" "(v OR CTL_DSPInitCode) AND CTL_DSPHalt = v AND CTL_DSPHalt"
    "(v AND NOT CTL_DSPInitCode) AND CTL_DSPReset = v AND CTL_DSPReset"
    "(v AND NOT CTL_DSPInitCode) AND CTL_DSPHalt = v AND CTL_DSPHalt"
  by (simp_all add: and.assoc bit.conj_disj_distrib2)

text \<open>The same with the complements as the simplifier writes them.\<close>

lemma control_bits_cleared:
  fixes v :: u16
  shows "(v AND - 2) AND 1 = 0" "(v AND - 2) AND 4 = v AND 4" "(v AND - 1025) AND 1 = v AND 1" "(v AND - 1025) AND 4 = v AND 4"
  by (simp_all add: and.assoc)

lemma WriteControlRegister_ok:
  assumes "mixers_ok mx" "hle_ok h" "HLE_WriteControlRegister mx now v h = Inr (r, h')"
  shows "hle_ok h'"
proof -
  define k where "k = (if hle_control h AND CTL_DSPHalt \<noteq> v AND CTL_DSPHalt
               then h\<lparr>hle_mail := SetHalted (v AND CTL_DSPHalt \<noteq> 0) (hle_mail h)\<rparr> else h)"
  have k: "hle_inv k" "hle_ucode k \<noteq> None" "m_halted (hle_mail k) \<longleftrightarrow> v AND CTL_DSPHalt \<noteq> 0"
    using assms(2) unfolding hle_ok_inv by (auto simp: k_def hle_inv_def)
  from assms(3) obtain tmp l where l: "(if v AND CTL_DSPReset \<noteq> 0
                then bindE (SetUCode mx UCODE_ROM k) (\<lambda>h. Inr (v AND NOT CTL_DSPReset, h))
                else Inr (v, k)) = Inr (tmp, l)"
    and m: "bindE (if hle_control l AND CTL_DSPInit \<noteq> 0 \<and> tmp AND CTL_DSPInit = 0
                then bindE (SetUCode mx UCODE_INIT_AUDIO_SYSTEM l) (\<lambda>h.
                     Inr (tmp OR CTL_DSPInitCode, h\<lparr>hle_init_code_clear_time := now + 130\<rparr>))
                else Inr (tmp, l)) (\<lambda>(tmp, h). Inr (tmp, h\<lparr>hle_control := tmp\<rparr>)) = Inr (r, h')"
    using iffD1 [OF bindE_eq_Inr_iff assms(3) [unfolded HLE_WriteControlRegister_def Let_def k_def [symmetric]]] by force
  have l': "hle_inv l" "hle_ucode l \<noteq> None" "m_halted (hle_mail l) \<longleftrightarrow> tmp AND CTL_DSPHalt \<noteq> 0" "tmp AND CTL_DSPReset = 0"
    using l k SetUCode_ok [OF assms(1) k(1), of UCODE_ROM l]
    by (auto simp: bindE_eq_Inr_iff control_bits_kept control_bits_cleared split: if_splits)
  show ?thesis
    using m l' SetUCode_ok [OF assms(1) l'(1), of UCODE_INIT_AUDIO_SYSTEM] unfolding hle_ok_inv
    by (auto simp: bindE_eq_Inr_iff control_bits_kept hle_inv_def split: if_splits)
qed

lemma ReadControlRegister_ok: "hle_ok h \<Longrightarrow> hle_ok (snd (HLE_ReadControlRegister now h))"
  by (auto simp: hle_ok_inv hle_inv_def HLE_ReadControlRegister_def control_bits_cleared Let_def)

lemma reads_ok:
  "hle_ok h \<Longrightarrow> hle_ok (snd (HLE_ReadMailBoxHigh cpu h))" "hle_ok h \<Longrightarrow> hle_ok (snd (HLE_ReadMailBoxLow cpu h))"
  using mails_ok_reads [of "hle_mail h"]
  by (auto simp: hle_ok_inv hle_inv_def HLE_ReadMailBoxHigh_def HLE_ReadMailBoxLow_def split: prod.split)

lemma write_low_ok:
  assumes "mixers_ok mx" "hle_ok h" "HLE_WriteMailBoxLow mx cpu v h = Inr h'"
  shows "hle_ok h'"
proof (cases cpu)
  case True
  let ?h = "h\<lparr>hle_cpu_mailbox := (hle_cpu_mailbox h AND 0xFFFF0000) OR ucast v\<rparr>"
  obtain k where k: "SendMailToDSP mx (hle_cpu_mailbox ?h) ?h = Inr k" "h' = k\<lparr>hle_cpu_mailbox := hle_cpu_mailbox k AND 0x7FFFFFFF\<rparr>"
    using assms(3) True by (auto simp: HLE_WriteMailBoxLow_def Let_def bindE_eq_Inr_iff)
  have "hle_inv ?h" "hle_ucode ?h \<noteq> None"
    using assms(2) by (simp_all add: hle_ok_inv hle_inv_def)
  from SendMailToDSP_ok [OF assms(1) this k(1)] show ?thesis
    using assms(2) by (simp add: hle_ok_inv k(2) hle_inv_def)
next
  case False
  then show ?thesis
    using assms by (simp add: HLE_WriteMailBoxLow_def)
qed

lemma update_ok:
  assumes "mixers_ok mx" "hle_ok h"
  shows "hle_ok (HLE_Update mx h)"
proof -
  obtain u where u: "hle_ucode h = Some u" "upload_ok (interface_of u)"
    using assms(2) by (auto simp: hle_ok_def)
  show ?thesis
    using UCode_Update_ok [OF assms(1) u(2), of "(hle_mail h, hle_memory h)"] u(1) assms(2)
    by (auto simp: HLE_Update_def hle_ok_inv hle_inv_def env_ok_def split: prod.split)
qed

lemma hle_step_ok:
  assumes "mixers_ok mx" "hle_step mx h h'" "hle_ok h"
  shows "hle_ok h'"
  using assms(2)
proof cases
  case (write_high cpu v)
  then show ?thesis
    using assms(3) by (auto simp: hle_ok_inv hle_inv_def HLE_WriteMailBoxHigh_def)
next
  case (write_low cpu v)
  then show ?thesis
    using write_low_ok [OF assms(1, 3)] by blast
next
  case (write_control now v r)
  then show ?thesis
    using WriteControlRegister_ok [OF assms(1, 3)] by blast
qed (use assms in \<open>auto intro: reads_ok ReadControlRegister_ok update_ok\<close>)

lemma HLE_Initialize_ok:
  assumes "mixers_ok mx" "HLE_Initialize mx wii h = Inr h'"
  shows "hle_ok h'"
proof -
  let ?h = "h\<lparr>hle_wii := wii, hle_ucode := None, hle_last_ucode := None, hle_mail := ClearPending (hle_mail h)\<rparr>"
  obtain k where k: "start_ucode mx UCODE_ROM ?h = Inr k" "h' = k\<lparr>hle_control := CTL_DSPHalt OR CTL_DSPInit, hle_mail := SetHalted True (hle_mail k),
           hle_cpu_mailbox := 0, hle_dsp_mailbox := 0\<rparr>"
    using assms(2) by (auto simp: HLE_Initialize_def SetUCode_def bindE_eq_Inr_iff)
  have "hle_inv ?h"
    by (simp add: hle_inv_def)
  from start_ucode_ok [OF assms(1) this k(1)] show ?thesis
    by (simp add: hle_ok_inv k(2) hle_inv_def)
qed

lemma hle_run_ok:
  assumes "mixers_ok mx" "HLE_Initialize mx wii h0 = Inr h" "(hle_step mx)\<^sup>*\<^sup>* h h'"
  shows "hle_ok h'"
  using assms(3)
proof (induction rule: rtranclp_induct)
  case base
  show ?case
    using assms(1, 2) by (rule HLE_Initialize_ok)
next
  case (step k l)
  then show ?case
    using hle_step_ok [OF assms(1)] by blast
qed

end
