(* ===== verification/Dsp_HLE_Samples.thy ===== *)
theory Dsp_HLE_Samples
  imports Dsp_HLE_Invariant
begin

text \<open>
  Concrete states of the DSP that is emulated by microcode: mixing microcodes that do nothing, a front
  end before it is initialised, mails, and a main memory with the parameters of a Game Boy Advance
  transfer.
\<close>

unbundle bit_operations_syntax

definition silent_mixers :: "unit mixers" where
  "silent_mixers = \<lparr>mixer_new = (\<lambda>k crc. ()), mixer_initialize = (\<lambda>k u e. (u, e)),
     mixer_mail = (\<lambda>k v u e. Inr (u, e, Stay)), mixer_update = (\<lambda>k u e. (u, e))\<rparr>"

lemma silent_mixers_ok: "mixers_ok silent_mixers"
  by (simp add: mixers_ok_def silent_mixers_def)

text \<open>Main memory of 24 MB; the parameters are at 0x100, the result goes to address 0.\<close>

definition link_memory :: Host where
  "link_memory = \<lparr>aram_wii_mode = False, aram_ptr = (\<lambda>_. 0), aram_size = 0x1000000, aram_mask = 0xffffff,
     m_ram = (\<lambda>i. if i = 0x100 then 0x12 else if i = 0x107 then 3 else if i = 0x10b then 0xff else if i = 0x10e then 0x40 else 0),
     m_ram_size_real = 0x1800000, m_ram_mask = 0x1ffffff, has_exram = False, m_exram = (\<lambda>_. 0),
     m_exram_size_real = 0, m_exram_mask = 0, host_events = []\<rparr>"

lemma link_memory_ram: "unat a + 4 \<le> 0x1800000 \<Longrightarrow> phys a = a \<Longrightarrow> in_ram link_memory (phys a) 4"
  by (simp add: in_ram_def link_memory_def)

lemma link_memory_dest: "Read_U32 link_memory 0x110 = 0"
proof -
  have p: "phys 0x110 = 0x110"
    by (simp add: phys_def)
  have r: "in_ram link_memory (phys 0x110) 4"
    by (rule link_memory_ram) (simp_all add: p)
  show ?thesis
    unfolding Read_U32_ram [OF r] p by (simp add: link_memory_def word_of_bytes_def upt_conv_Cons)
qed

lemma link_memory_ok: "in_ram link_memory (phys (Read_U32 link_memory (0x100 + 16))) 8"
  by (simp add: link_memory_dest phys_def) (simp add: in_ram_def link_memory_def)

definition sample_mails :: "u32 list \<Rightarrow> CMailHandler" where
  "sample_mails ms = \<lparr>m_pending_mails = map (\<lambda>v. (v, False)) ms, m_last_mail = 0, m_halted = False, dsp_interrupts = []\<rparr>"

definition sample_hle :: "unit DSPHLE" where
  "sample_hle = \<lparr>hle_wii = False, hle_ucode = None, hle_last_ucode = None, hle_control = 0, hle_init_code_clear_time = 0,
     hle_cpu_mailbox = 0, hle_dsp_mailbox = 0, hle_mail = sample_mails [], hle_memory = link_memory\<rparr>"

lemma sample_hle_rom:
  "\<exists>h s. HLE_Initialize silent_mixers False sample_hle = Inr h \<and>
    hle_ucode h = Some (UCode_ROM (new_interface 0) s) \<and> m_next_parameter s = 0"
  by (simp add: HLE_Initialize_def SetUCode_def start_ucode_def UCodeFactory_def new_rom_def Let_def)

lemma sample_hle_initial:
  "\<exists>h s. HLE_Initialize silent_mixers False sample_hle = Inr h \<and> hle_ucode h = Some (UCode_ROM (new_interface 0) s) \<and>
    hle_last_ucode h = None \<and> length (m_pending_mails (hle_mail h)) < 2 ^ 32"
  by (simp add: HLE_Initialize_def SetUCode_def start_ucode_def UCodeFactory_def PushMail_def ClearPending_def SetHalted_def Let_def)

lemma sample_hle_starts: "\<exists>h. HLE_Initialize silent_mixers False sample_hle = Inr h"
  using sample_hle_rom by blast

lemma sample_hle_run:
  "(hle_step silent_mixers)\<^sup>*\<^sup>* h (HLE_Update silent_mixers (HLE_WriteMailBoxHigh True 0x80f3 h))"
  by (meson hle_step.write_high hle_step.update converse_rtranclp_into_rtranclp rtranclp.rtrancl_refl)

lemma sample_hle_swaps: "\<exists>h1. SwapUCode silent_mixers 0x65d6cc6f (sample_hle\<lparr>hle_ucode := u\<rparr>) = Inr h1"
  by (simp add: SwapUCode_def start_ucode_def UCodeFactory_def sample_hle_def Let_def)

lemma hash_range_empty: "hash_range mem a 0 = Inr 0"
  by (simp add: hash_range_def HashEctor_def split: option.split)

end
