(* ===== verification/Save_State.thy ===== *)
theory Save_State
  imports Prelude
begin

text \<open>
  Save states (Source/Core/Common/ChunkFile.h, and the buffers of Source/Core/Core/State.cpp).  The
  same function saves a state, loads it, and measures its size: \<open>PointerWrap\<close> walks over a buffer
  and copies each variable into it or out of it, depending on its mode.

  A variable that is copied at once is a codec, a size with an encoding into bytes and a decoding
  into a state, little endian as on the host; padding bytes, which C++ leaves open, are zero.  The
  assertion of the mode \<open>Verify\<close>, which debug builds check, has no effect.  The locale \<open>saver\<close> says
  when such a function saves and loads the same bytes; it is closed under sequences and parts.
\<close>

unbundle bit_operations_syntax

section \<open>The buffer\<close>

datatype Mode = Read | Write | Measure | Verify

record PointerWrap =
  pw_buffer :: "u8 list"
  pw_position :: nat
  pw_mode :: Mode

definition IsReadMode :: "PointerWrap \<Rightarrow> bool" where
  "IsReadMode p \<longleftrightarrow> pw_mode p = Read"

definition IsMeasureMode :: "PointerWrap \<Rightarrow> bool" where
  "IsMeasureMode p \<longleftrightarrow> pw_mode p = Measure"

definition SetMeasureMode :: "PointerWrap \<Rightarrow> PointerWrap" where
  "SetMeasureMode p = p\<lparr>pw_mode := Measure\<rparr>"

definition SetVerifyMode :: "PointerWrap \<Rightarrow> PointerWrap" where
  "SetVerifyMode p = p\<lparr>pw_mode := Verify\<rparr>"

text \<open>The bytes of the variable are \<open>bytes\<close>; the result is what it holds afterwards.\<close>

definition DoVoid :: "u8 list \<Rightarrow> PointerWrap \<Rightarrow> u8 list \<times> PointerWrap" where
  "DoVoid bytes p =
     (let sz = length bytes;
          p = (if \<not> IsMeasureMode p \<and> pw_position p + sz > length (pw_buffer p) then SetMeasureMode p else p);
          (bytes, p) =
            (case pw_mode p of
               Read \<Rightarrow> (take sz (drop (pw_position p) (pw_buffer p)), p)
             | Write \<Rightarrow> (bytes, p\<lparr>pw_buffer := take (pw_position p) (pw_buffer p) @ bytes @ drop (pw_position p + sz) (pw_buffer p)\<rparr>)
             | Measure \<Rightarrow> (bytes, p)
             | Verify \<Rightarrow> (bytes, p))
      in (bytes, p\<lparr>pw_position := pw_position p + sz\<rparr>))"

section \<open>Variables\<close>

definition le_bytes :: "'a::len word \<Rightarrow> u8 list" where
  "le_bytes w = map (\<lambda>i. ucast (drop_bit (8 * i) w)) [0..<LENGTH('a) div 8]"

definition le_word :: "u8 list \<Rightarrow> 'a::len word" where
  "le_word bs = foldr (\<lambda>b w. push_bit 8 w OR ucast b) bs 0"

record 's codec =
  c_size :: nat
  c_enc :: "'s \<Rightarrow> u8 list"
  c_dec :: "u8 list \<Rightarrow> 's \<Rightarrow> 's"

definition var :: "('s \<Rightarrow> 'a::len word) \<Rightarrow> (('a word \<Rightarrow> 'a word) \<Rightarrow> 's \<Rightarrow> 's) \<Rightarrow> 's codec" where
  "var get upd = \<lparr>c_size = LENGTH('a) div 8, c_enc = (\<lambda>s. le_bytes (get s)), c_dec = (\<lambda>bs. upd (\<lambda>_. le_word bs))\<rparr>"

definition padding :: "nat \<Rightarrow> 's codec" where
  "padding n = \<lparr>c_size = n, c_enc = (\<lambda>_. replicate n 0), c_dec = (\<lambda>_ s. s)\<rparr>"

text \<open>A C array of \<open>n\<close> words, which is a function in the model.\<close>

definition restore :: "nat \<Rightarrow> (nat \<Rightarrow> 'a) \<Rightarrow> (nat \<Rightarrow> 'a) \<Rightarrow> nat \<Rightarrow> 'a" where
  "restore n f g = (\<lambda>i. if i < n then f i else g i)"

definition array :: "nat \<Rightarrow> ('s \<Rightarrow> nat \<Rightarrow> 'a::len word) \<Rightarrow> (((nat \<Rightarrow> 'a word) \<Rightarrow> nat \<Rightarrow> 'a word) \<Rightarrow> 's \<Rightarrow> 's) \<Rightarrow> 's codec" where
  "array n get upd =
     \<lparr>c_size = n * (LENGTH('a) div 8),
      c_enc = (\<lambda>s. concat (map (\<lambda>i. le_bytes (get s i)) [0..<n])),
      c_dec = (\<lambda>bs. upd (restore n (\<lambda>i. le_word (take (LENGTH('a) div 8) (drop (i * (LENGTH('a) div 8)) bs)))))\<rparr>"

fun struct_dec :: "'s codec list \<Rightarrow> u8 list \<Rightarrow> 's \<Rightarrow> 's" where
  "struct_dec [] bs s = s"
| "struct_dec (c # cs) bs s = struct_dec cs (drop (c_size c) bs) (c_dec c (take (c_size c) bs) s)"

definition struct :: "'s codec list \<Rightarrow> 's codec" where
  "struct cs = \<lparr>c_size = sum_list (map c_size cs), c_enc = (\<lambda>s. concat (map (\<lambda>c. c_enc c s) cs)), c_dec = struct_dec cs\<rparr>"

section \<open>Functions that save and load\<close>

type_synonym ('e, 's) do_state = "'s \<Rightarrow> PointerWrap \<Rightarrow> 'e + 's \<times> PointerWrap"

definition Do :: "'s codec \<Rightarrow> ('e, 's) do_state" where
  "Do c s p = (case DoVoid (c_enc c s) p of (bs, p) \<Rightarrow> Inr (c_dec c bs s, p))"

definition Do_bool :: "('s \<Rightarrow> bool) \<Rightarrow> ((bool \<Rightarrow> bool) \<Rightarrow> 's \<Rightarrow> 's) \<Rightarrow> ('e, 's) do_state" where
  "Do_bool get upd s p =
     (case DoVoid [of_bool (get s)] p of
        (stable8, p) \<Rightarrow> Inr (if IsReadMode p then upd (\<lambda>_. hd stable8 \<noteq> 0) s else s, p))"

definition do_nothing :: "('e, 's) do_state" where
  "do_nothing s p = Inr (s, p)"

definition then_do :: "('e, 's) do_state \<Rightarrow> ('e, 's) do_state \<Rightarrow> ('e, 's) do_state" where
  "then_do d1 d2 s p = bindE (d1 s p) (\<lambda>(s, p). d2 s p)"

definition do_all :: "('e, 's) do_state list \<Rightarrow> ('e, 's) do_state" where
  "do_all ds = foldr then_do ds do_nothing"

definition do_part :: "('s \<Rightarrow> 'v) \<Rightarrow> (('v \<Rightarrow> 'v) \<Rightarrow> 's \<Rightarrow> 's) \<Rightarrow> ('e, 'v) do_state \<Rightarrow> ('e, 's) do_state" where
  "do_part get upd d s p = bindE (d (get s) p) (\<lambda>(v, p). Inr (upd (\<lambda>_. v) s, p))"

text \<open>A container: its size, and then its elements; elements that are added are \<open>new\<close>.\<close>

fun do_elements :: "('e, 'v) do_state \<Rightarrow> ('e, 'v list) do_state" where
  "do_elements d [] p = Inr ([], p)"
| "do_elements d (x # xs) p = bindE (d x p) (\<lambda>(x, p). bindE (do_elements d xs p) (\<lambda>(xs, p). Inr (x # xs, p)))"

definition resized :: "nat \<Rightarrow> 'v \<Rightarrow> 'v list \<Rightarrow> 'v list" where
  "resized n new xs = take n xs @ replicate (n - length xs) new"

definition DoContainer :: "'v \<Rightarrow> ('e, 'v) do_state \<Rightarrow> ('e, 'v list) do_state" where
  "DoContainer new d xs p =
     bindE (Do (var (\<lambda>n. n) (\<lambda>f. f)) (of_nat (length xs) :: u32) p) (\<lambda>(size, p).
     do_elements d (resized (unat size) new xs) p)"

section \<open>Buffers of the emulator\<close>

definition LoadFromBuffer :: "('e, 's) do_state \<Rightarrow> 's \<Rightarrow> u8 list \<Rightarrow> 'e + bool \<times> 's" where
  "LoadFromBuffer do_state s buf =
     bindE (do_state s \<lparr>pw_buffer = buf, pw_position = 0, pw_mode = Read\<rparr>) (\<lambda>(s, p). Inr (IsReadMode p, s))"

text \<open>The new buffer of \<open>reset\<close> is uninitialised; its bytes are zero here.\<close>

partial_function (option) SaveToBuffer :: "('e, 's) do_state \<Rightarrow> 's \<Rightarrow> u8 list \<Rightarrow> ('e + nat \<times> u8 list \<times> 's) option" where
  [code]: "SaveToBuffer do_state s buf =
     (case do_state s \<lparr>pw_buffer = buf, pw_position = 0, pw_mode = Write\<rparr> of
        Inl e \<Rightarrow> Some (Inl e)
      | Inr (s, p) \<Rightarrow>
          if pw_mode p = Write then Some (Inr (pw_position p, pw_buffer p, s))
          else if pw_position p > length buf then SaveToBuffer do_state s (replicate (pw_position p) 0)
          else Some (Inr (0, pw_buffer p, s)))"

section \<open>Bytes and words\<close>

lemma length_le_bytes [simp]: "length (le_bytes (w :: 'a::len word)) = LENGTH('a) div 8"
  by (simp add: le_bytes_def)

lemma bit_le_word:
  "bit (le_word bs :: 'a::len word) k \<longleftrightarrow> k < LENGTH('a) \<and> k div 8 < length bs \<and> bit (bs ! (k div 8)) (k mod 8)"
proof (induction bs arbitrary: k)
  case Nil
  show ?case
    by (simp add: le_word_def)
next
  case (Cons b bs)
  have "bit (le_word (b # bs) :: 'a word) k \<longleftrightarrow> k < LENGTH('a) \<and> (8 \<le> k \<and> bit (le_word bs :: 'a word) (k - 8) \<or> bit b k)"
    by (auto simp: le_word_def bit_simps)
  also have "\<dots> \<longleftrightarrow> k < LENGTH('a) \<and> k div 8 < length (b # bs) \<and> bit ((b # bs) ! (k div 8)) (k mod 8)"
  proof (cases "8 \<le> k")
    case True
    then have "k div 8 = Suc ((k - 8) div 8)" "(k - 8) mod 8 = k mod 8"
      by (simp_all add: div_if le_mod_geq)
    moreover have "\<not> bit b k"
      using True bit_imp_le_length [of b k] by auto
    ultimately show ?thesis
      using True by (auto simp: Cons.IH)
  next
    case False
    then show ?thesis
      by simp
  qed
  finally show ?case .
qed

lemma le_word_le_bytes [simp]:
  assumes "8 dvd LENGTH('a)"
  shows "le_word (le_bytes w) = (w :: 'a::len word)"
proof (rule bit_word_eqI)
  fix k assume k: "k < LENGTH('a)"
  have "k div 8 < LENGTH('a) div 8"
    using k assms by (auto elim!: dvdE)
  then show "bit (le_word (le_bytes w) :: 'a word) k \<longleftrightarrow> bit w k"
    using k by (simp add: bit_le_word le_bytes_def bit_simps)
qed


section \<open>What makes a function save and load the same bytes\<close>

text \<open>
  \<open>bytes s\<close> is what is written for \<open>s\<close>, \<open>load s t\<close> is \<open>t\<close> after these bytes have been read into it,
  and \<open>fits s t\<close> what that needs, for example that both have memories of the same size.
\<close>

definition put_bytes :: "nat \<Rightarrow> u8 list \<Rightarrow> u8 list \<Rightarrow> u8 list" where
  "put_bytes pos bs buf = take pos buf @ bs @ drop (pos + length bs) buf"

locale saver =
  fixes do_state :: "('e, 's) do_state" and bytes :: "'s \<Rightarrow> u8 list"
    and load :: "'s \<Rightarrow> 's \<Rightarrow> 's" and fits :: "'s \<Rightarrow> 's \<Rightarrow> bool"
  assumes measure: "fits s s \<Longrightarrow> do_state s \<lparr>pw_buffer = buf, pw_position = pos, pw_mode = Measure\<rparr> =
      Inr (s, \<lparr>pw_buffer = buf, pw_position = pos + length (bytes s), pw_mode = Measure\<rparr>)"
    and write_fits: "fits s s \<Longrightarrow> pos + length (bytes s) \<le> length buf \<Longrightarrow>
      do_state s \<lparr>pw_buffer = buf, pw_position = pos, pw_mode = Write\<rparr> =
      Inr (s, \<lparr>pw_buffer = put_bytes pos (bytes s) buf, pw_position = pos + length (bytes s), pw_mode = Write\<rparr>)"
    and write_full: "fits s s \<Longrightarrow> length buf < pos + length (bytes s) \<Longrightarrow> pos \<le> length buf \<Longrightarrow>
      \<exists>buf'. do_state s \<lparr>pw_buffer = buf, pw_position = pos, pw_mode = Write\<rparr> =
      Inr (s, \<lparr>pw_buffer = buf', pw_position = pos + length (bytes s), pw_mode = Measure\<rparr>)"
    and read: "fits s t \<Longrightarrow> pos + length (bytes s) \<le> length buf \<Longrightarrow> take (length (bytes s)) (drop pos buf) = bytes s \<Longrightarrow>
      do_state t \<lparr>pw_buffer = buf, pw_position = pos, pw_mode = Read\<rparr> =
      Inr (load s t, \<lparr>pw_buffer = buf, pw_position = pos + length (bytes s), pw_mode = Read\<rparr>)"
    and stays: "fits s t \<Longrightarrow> fits s (load s t)"
begin

lemma save_to_buffer:
  assumes "fits s s"
  shows "\<exists>buf'. SaveToBuffer do_state s buf = Some (Inr (length (bytes s), buf', s)) \<and> take (length (bytes s)) buf' = bytes s \<and>
    length (bytes s) \<le> length buf'"
proof -
  have room: "SaveToBuffer do_state s b = Some (Inr (length (bytes s), put_bytes 0 (bytes s) b, s))"
    if "length (bytes s) \<le> length b" for b
    using write_fits [OF assms, of 0 b] that by (subst SaveToBuffer.simps) simp
  show ?thesis
  proof (cases "length (bytes s) \<le> length buf")
    case True
    then show ?thesis
      using room [OF True] by (simp add: put_bytes_def)
  next
    case False
    then have l: "length buf < 0 + length (bytes s)"
      by simp
    obtain b where "do_state s \<lparr>pw_buffer = buf, pw_position = 0, pw_mode = Write\<rparr> =
        Inr (s, \<lparr>pw_buffer = b, pw_position = 0 + length (bytes s), pw_mode = Measure\<rparr>)"
      using write_full [OF assms l] by auto
    then have "SaveToBuffer do_state s buf = SaveToBuffer do_state s (replicate (length (bytes s)) 0)"
      using False by (subst SaveToBuffer.simps) simp
    then show ?thesis
      using room [of "replicate (length (bytes s)) 0"] by (simp add: put_bytes_def)
  qed
qed

lemma load_from_buffer:
  assumes "fits s t" "take (length (bytes s)) buf = bytes s" "length (bytes s) \<le> length buf"
  shows "LoadFromBuffer do_state t buf = Inr (True, load s t)"
  using read [OF assms(1), of 0 buf] assms by (simp add: LoadFromBuffer_def IsReadMode_def)

lemma save_and_load:
  assumes "fits s s" "fits s t"
  shows "\<exists>n buf'. SaveToBuffer do_state s buf = Some (Inr (n, buf', s)) \<and> LoadFromBuffer do_state t buf' = Inr (True, load s t)"
  using save_to_buffer [OF assms(1), of buf] load_from_buffer [OF assms(2)] by blast

end

section \<open>Savers from savers\<close>

named_theorems saver_intros "rules for functions that save and load"

lemma put_bytes_append:
  assumes "pos + length (a @ b) \<le> length buf"
  shows "put_bytes (pos + length a) b (put_bytes pos a buf) = put_bytes pos (a @ b) buf"
  using assms by (simp add: put_bytes_def min_absorb1 ac_simps)

lemma length_put_bytes [simp]: "pos + length a \<le> length buf \<Longrightarrow> length (put_bytes pos a buf) = length buf"
  by (simp add: put_bytes_def)

lemma take_append_split:
  assumes "take (length (a @ b)) (drop pos buf) = a @ b"
  shows "take (length a) (drop pos buf) = a" "take (length b) (drop (pos + length a) buf) = b"
proof -
  have "take (length a) (take (length (a @ b)) (drop pos buf)) = take (length a) (a @ b)"
    using assms by simp
  then show "take (length a) (drop pos buf) = a"
    by simp
  have "drop (length a) (take (length a + length b) (drop pos buf)) = drop (length a) (a @ b)"
    using assms by simp
  then show "take (length b) (drop (pos + length a) buf) = b"
    by (simp add: drop_take add.commute)
qed

lemma saver_nothing: "saver do_nothing (\<lambda>s. []) (\<lambda>s t. t) fits"
  by unfold_locales (simp_all add: do_nothing_def put_bytes_def)

text \<open>The second function may ask for something else, which loading the first part gives.\<close>

lemma saver_then_fits:
  assumes 1: "saver d1 b1 l1 fits" and 2: "saver d2 b2 l2 fit" and f2: "\<And>s t. fits s t \<Longrightarrow> fit s (l1 s t)"
    and fs: "\<And>s. fits s s \<Longrightarrow> fit s s" and st: "\<And>s t. fits s t \<Longrightarrow> fits s (l2 s (l1 s t))"
  shows "saver (then_do d1 d2) (\<lambda>s. b1 s @ b2 s) (\<lambda>s t. l2 s (l1 s t)) fits"
proof
  fix s t buf pos
  note defs = then_do_def saver.measure [OF 1] saver.measure [OF 2 fs]
  show "then_do d1 d2 s \<lparr>pw_buffer = buf, pw_position = pos, pw_mode = Measure\<rparr> =
      Inr (s, \<lparr>pw_buffer = buf, pw_position = pos + length (b1 s @ b2 s), pw_mode = Measure\<rparr>)" if "fits s s"
    using that by (simp add: defs add.assoc)
  show "then_do d1 d2 s \<lparr>pw_buffer = buf, pw_position = pos, pw_mode = Write\<rparr> =
      Inr (s, \<lparr>pw_buffer = put_bytes pos (b1 s @ b2 s) buf, pw_position = pos + length (b1 s @ b2 s), pw_mode = Write\<rparr>)"
    if f: "fits s s" and l: "pos + length (b1 s @ b2 s) \<le> length buf"
    using saver.write_fits [OF 1 f, of pos buf] saver.write_fits [OF 2 fs [OF f], of "pos + length (b1 s)" "put_bytes pos (b1 s) buf"]
      put_bytes_append [OF l] l by (simp add: then_do_def add.assoc)
  show "\<exists>buf'. then_do d1 d2 s \<lparr>pw_buffer = buf, pw_position = pos, pw_mode = Write\<rparr> =
      Inr (s, \<lparr>pw_buffer = buf', pw_position = pos + length (b1 s @ b2 s), pw_mode = Measure\<rparr>)"
    if f: "fits s s" and l: "length buf < pos + length (b1 s @ b2 s)" "pos \<le> length buf"
  proof (cases "pos + length (b1 s) \<le> length buf")
    case True
    then show ?thesis
      using saver.write_fits [OF 1 f True] saver.write_full [OF 2 fs [OF f], of "put_bytes pos (b1 s) buf" "pos + length (b1 s)"] l
      by (auto simp: then_do_def add.assoc)
  next
    case False
    then obtain b where "d1 s \<lparr>pw_buffer = buf, pw_position = pos, pw_mode = Write\<rparr> =
        Inr (s, \<lparr>pw_buffer = b, pw_position = pos + length (b1 s), pw_mode = Measure\<rparr>)"
      using saver.write_full [OF 1 f _ l(2)] by auto
    then show ?thesis
      using f by (simp add: defs add.assoc)
  qed
  show "then_do d1 d2 t \<lparr>pw_buffer = buf, pw_position = pos, pw_mode = Read\<rparr> =
      Inr (l2 s (l1 s t), \<lparr>pw_buffer = buf, pw_position = pos + length (b1 s @ b2 s), pw_mode = Read\<rparr>)"
    if f: "fits s t" and l: "pos + length (b1 s @ b2 s) \<le> length buf"
      and r: "take (length (b1 s @ b2 s)) (drop pos buf) = b1 s @ b2 s"
  proof -
    have "d1 t \<lparr>pw_buffer = buf, pw_position = pos, pw_mode = Read\<rparr> =
        Inr (l1 s t, \<lparr>pw_buffer = buf, pw_position = pos + length (b1 s), pw_mode = Read\<rparr>)"
      using l by (intro saver.read [OF 1 f _ take_append_split(1) [OF r]]) simp
    moreover have "d2 (l1 s t) \<lparr>pw_buffer = buf, pw_position = pos + length (b1 s), pw_mode = Read\<rparr> =
        Inr (l2 s (l1 s t), \<lparr>pw_buffer = buf, pw_position = pos + length (b1 s) + length (b2 s), pw_mode = Read\<rparr>)"
      using l by (intro saver.read [OF 2 f2 [OF f] _ take_append_split(2) [OF r]]) simp
    ultimately show ?thesis
      by (simp add: then_do_def add.assoc)
  qed
  show "fits s (l2 s (l1 s t))" if "fits s t"
    by (rule st [OF that])
qed

lemma saver_then:
  assumes "saver d1 b1 l1 fits" "saver d2 b2 l2 fits"
  shows "saver (then_do d1 d2) (\<lambda>s. b1 s @ b2 s) (\<lambda>s t. l2 s (l1 s t)) fits"
  by (rule saver_then_fits [OF assms]) (auto intro: saver.stays [OF assms(1)] saver.stays [OF assms(2)])

text \<open>Lists of savers with their bytes and loads.\<close>

lemma saver_all_Nil: "saver (do_all []) (\<lambda>s. []) (\<lambda>s t. t) fits"
  unfolding do_all_def by (simp add: saver_nothing)

lemma saver_all_Cons:
  "saver d b l fits \<Longrightarrow> saver (do_all ds) bs ls fits \<Longrightarrow> saver (do_all (d # ds)) (\<lambda>s. b s @ bs s) (\<lambda>s t. ls s (l s t)) fits"
  unfolding do_all_def by (simp add: saver_then)

lemma saver_part:
  assumes d: "saver d b l fit" and f: "\<And>s t. fits s t \<Longrightarrow> fit (get s) (get t)"
    and u: "\<And>s. upd (\<lambda>_. get s) s = s" and st: "\<And>s t. fits s t \<Longrightarrow> fits s (upd (\<lambda>_. l (get s) (get t)) t)"
  shows "saver (do_part get upd d) (\<lambda>s. b (get s)) (\<lambda>s t. upd (\<lambda>_. l (get s) (get t)) t) fits"
proof
  fix s t buf pos
  show "do_part get upd d s \<lparr>pw_buffer = buf, pw_position = pos, pw_mode = Measure\<rparr> =
      Inr (s, \<lparr>pw_buffer = buf, pw_position = pos + length (b (get s)), pw_mode = Measure\<rparr>)" if "fits s s"
    using saver.measure [OF d f [OF that]] u by (simp add: do_part_def)
  show "do_part get upd d s \<lparr>pw_buffer = buf, pw_position = pos, pw_mode = Write\<rparr> =
      Inr (s, \<lparr>pw_buffer = put_bytes pos (b (get s)) buf, pw_position = pos + length (b (get s)), pw_mode = Write\<rparr>)"
    if "fits s s" "pos + length (b (get s)) \<le> length buf"
    using saver.write_fits [OF d f [OF that(1)] that(2)] u by (simp add: do_part_def)
  show "\<exists>buf'. do_part get upd d s \<lparr>pw_buffer = buf, pw_position = pos, pw_mode = Write\<rparr> =
      Inr (s, \<lparr>pw_buffer = buf', pw_position = pos + length (b (get s)), pw_mode = Measure\<rparr>)"
    if "fits s s" "length buf < pos + length (b (get s))" "pos \<le> length buf"
    using saver.write_full [OF d f [OF that(1)] that(2,3)] u by (auto simp: do_part_def)
  show "do_part get upd d t \<lparr>pw_buffer = buf, pw_position = pos, pw_mode = Read\<rparr> =
      Inr (upd (\<lambda>_. l (get s) (get t)) t, \<lparr>pw_buffer = buf, pw_position = pos + length (b (get s)), pw_mode = Read\<rparr>)"
    if "fits s t" "pos + length (b (get s)) \<le> length buf" "take (length (b (get s))) (drop pos buf) = b (get s)"
    using saver.read [OF d f [OF that(1)] that(2,3)] by (simp add: do_part_def)
  show "fits s (upd (\<lambda>_. l (get s) (get t)) t)" if "fits s t"
    by (rule st [OF that])
qed

section \<open>Variables as savers\<close>

definition codec_ok :: "'s codec \<Rightarrow> bool" where
  "codec_ok c \<longleftrightarrow> (\<forall>s. length (c_enc c s) = c_size c)"

definition codec_load :: "'s codec \<Rightarrow> 's \<Rightarrow> 's \<Rightarrow> 's" where
  "codec_load c s t = c_dec c (c_enc c s) t"

lemma length_concat_le_bytes [simp]:
  "length (concat (map (\<lambda>i. le_bytes (f i :: 'a::len word)) xs)) = length xs * (LENGTH('a) div 8)"
  by (induction xs) simp_all

lemma codec_ok_simps [simp]: "codec_ok (var get upd)" "codec_ok (padding n)" "codec_ok (array n get' upd')"
  by (simp_all add: codec_ok_def var_def padding_def array_def)

lemma codec_ok_struct [simp]: "list_all codec_ok cs \<Longrightarrow> codec_ok (struct cs)"
  by (induction cs) (simp_all add: struct_def codec_ok_def)

lemma concat_nth_block:
  assumes "\<And>x. x \<in> set xs \<Longrightarrow> length (f x) = k" "i < length xs"
  shows "take k (drop (i * k) (concat (map f xs))) = f (xs ! i)"
  using assms
proof (induction xs arbitrary: i)
  case (Cons x xs)
  show ?case
  proof (cases i)
    case 0
    then show ?thesis
      using Cons.prems(1) [of x] by simp
  next
    case (Suc j)
    then show ?thesis
      using Cons.IH [of j] Cons.prems Cons.prems(1) [of x] by simp
  qed
qed simp

lemma codec_load_simps [simp]:
  "codec_load (padding n) s t = t"
  "codec_load (struct []) s t = t"
  "codec_ok c \<Longrightarrow> codec_load (struct (c # cs)) s t = codec_load (struct cs) s (codec_load c s t)"
  by (simp_all add: codec_load_def padding_def struct_def codec_ok_def)

lemma codec_load_var [simp]:
  "8 dvd LENGTH('a) \<Longrightarrow> codec_load (var (get :: 's \<Rightarrow> 'a::len word) upd) s t = upd (\<lambda>_. get s) t"
  by (simp add: codec_load_def var_def)

lemma restore_self [simp]: "restore n f f = f"
  by (simp add: restore_def)

lemma codec_load_array [simp]:
  assumes "8 dvd LENGTH('a)"
  shows "codec_load (array n (get :: 's \<Rightarrow> nat \<Rightarrow> 'a::len word) upd) s t = upd (restore n (get s)) t"
proof -
  have "restore n (\<lambda>i. le_word (take (LENGTH('a) div 8) (drop (i * (LENGTH('a) div 8)) (concat (map (\<lambda>i. le_bytes (get s i)) [0..<n]))))) =
      restore n (get s)"
    using concat_nth_block [of "[0..<n]" "\<lambda>i. le_bytes (get s i)" "LENGTH('a) div 8"] assms by (intro ext) (simp add: restore_def)
  then show ?thesis
    by (simp add: codec_load_def array_def)
qed

text \<open>A codec that depends on the state, for example on the size of an array.\<close>

lemma saver_sized:
  assumes same: "\<And>s t. fits s t \<Longrightarrow> c t = c s" and ok: "\<And>s. codec_ok (c s)"
    and same_load: "\<And>s. fits s s \<Longrightarrow> codec_load (c s) s s = s"
    and st: "\<And>s t. fits s t \<Longrightarrow> fits s (codec_load (c s) s t)"
  shows "saver (\<lambda>s. Do (c s) s) (\<lambda>s. c_enc (c s) s) (\<lambda>s. codec_load (c s) s) fits"
proof
  fix s t buf pos
  note defs = Do_def DoVoid_def IsMeasureMode_def SetMeasureMode_def Let_def same_load [unfolded codec_load_def]
  show "Do (c s) s \<lparr>pw_buffer = buf, pw_position = pos, pw_mode = Measure\<rparr> =
      Inr (s, \<lparr>pw_buffer = buf, pw_position = pos + length (c_enc (c s) s), pw_mode = Measure\<rparr>)" if "fits s s"
    using that by (simp add: defs)
  show "Do (c s) s \<lparr>pw_buffer = buf, pw_position = pos, pw_mode = Write\<rparr> =
      Inr (s, \<lparr>pw_buffer = put_bytes pos (c_enc (c s) s) buf, pw_position = pos + length (c_enc (c s) s), pw_mode = Write\<rparr>)"
    if "fits s s" "pos + length (c_enc (c s) s) \<le> length buf"
    using that by (simp add: defs put_bytes_def)
  show "\<exists>buf'. Do (c s) s \<lparr>pw_buffer = buf, pw_position = pos, pw_mode = Write\<rparr> =
      Inr (s, \<lparr>pw_buffer = buf', pw_position = pos + length (c_enc (c s) s), pw_mode = Measure\<rparr>)"
    if "fits s s" "length buf < pos + length (c_enc (c s) s)"
    using that by (simp add: defs)
  show "Do (c t) t \<lparr>pw_buffer = buf, pw_position = pos, pw_mode = Read\<rparr> =
      Inr (codec_load (c s) s t, \<lparr>pw_buffer = buf, pw_position = pos + length (c_enc (c s) s), pw_mode = Read\<rparr>)"
    if f: "fits s t" and "pos + length (c_enc (c s) s) \<le> length buf"
      and "take (length (c_enc (c s) s)) (drop pos buf) = c_enc (c s) s"
  proof -
    have "length (c_enc (c s) t) = length (c_enc (c s) s)"
      using ok [of s] by (simp add: codec_ok_def)
    then show ?thesis
      using that by (simp add: defs same [OF f] codec_load_def)
  qed
  show "fits s (codec_load (c s) s t)" if "fits s t"
    by (rule st [OF that])
qed

lemma saver_Do:
  assumes "codec_ok c" "\<And>s. fits s s \<Longrightarrow> codec_load c s s = s" "\<And>s t. fits s t \<Longrightarrow> fits s (codec_load c s t)"
  shows "saver (Do c) (c_enc c) (codec_load c) fits"
  using saver_sized [of fits "\<lambda>_. c"] assms by simp

lemma saver_bool:
  assumes u: "\<And>s. upd (\<lambda>_. get s) s = s" and st: "\<And>s t. fits s t \<Longrightarrow> fits s (upd (\<lambda>_. get s) t)"
  shows "saver (Do_bool get upd) (\<lambda>s. [of_bool (get s)]) (\<lambda>s t. upd (\<lambda>_. get s) t) fits"
proof
  fix s t buf pos
  note defs = Do_bool_def DoVoid_def IsMeasureMode_def SetMeasureMode_def IsReadMode_def Let_def
  show "Do_bool get upd s \<lparr>pw_buffer = buf, pw_position = pos, pw_mode = Measure\<rparr> =
      Inr (s, \<lparr>pw_buffer = buf, pw_position = pos + length [of_bool (get s) :: u8], pw_mode = Measure\<rparr>)"
    by (simp add: defs)
  show "Do_bool get upd s \<lparr>pw_buffer = buf, pw_position = pos, pw_mode = Write\<rparr> =
      Inr (s, \<lparr>pw_buffer = put_bytes pos [of_bool (get s)] buf, pw_position = pos + length [of_bool (get s) :: u8], pw_mode = Write\<rparr>)"
    if "pos + length [of_bool (get s) :: u8] \<le> length buf"
    using that by (simp add: defs put_bytes_def)
  show "\<exists>buf'. Do_bool get upd s \<lparr>pw_buffer = buf, pw_position = pos, pw_mode = Write\<rparr> =
      Inr (s, \<lparr>pw_buffer = buf', pw_position = pos + length [of_bool (get s) :: u8], pw_mode = Measure\<rparr>)"
    if "length buf < pos + length [of_bool (get s) :: u8]"
    using that by (simp add: defs)
  show "Do_bool get upd t \<lparr>pw_buffer = buf, pw_position = pos, pw_mode = Read\<rparr> =
      Inr (upd (\<lambda>_. get s) t, \<lparr>pw_buffer = buf, pw_position = pos + length [of_bool (get s) :: u8], pw_mode = Read\<rparr>)"
    if "pos + length [of_bool (get s) :: u8] \<le> length buf"
      and "take (length [of_bool (get s) :: u8]) (drop pos buf) = [of_bool (get s)]"
    using that by (simp add: defs)
  show "fits s (upd (\<lambda>_. get s) t)" if "fits s t"
    by (rule st [OF that])
qed

section \<open>Containers as savers\<close>

lemma elements_measure:
  assumes "saver d b l (\<lambda>_ _. True)"
  shows "do_elements d xs \<lparr>pw_buffer = buf, pw_position = pos, pw_mode = Measure\<rparr> =
    Inr (xs, \<lparr>pw_buffer = buf, pw_position = pos + length (concat (map b xs)), pw_mode = Measure\<rparr>)"
  by (induction xs arbitrary: pos) (simp_all add: saver.measure [OF assms] add.assoc)

lemma elements_saver:
  assumes d: "saver (d :: ('e, 'v) do_state) b (\<lambda>x _. x) (\<lambda>_ _. True)"
  shows "saver (do_elements d) (\<lambda>xs. concat (map b xs)) (\<lambda>xs _. xs) (\<lambda>xs ys. length xs = length ys)"
proof
  fix s t :: "'v list" and buf :: "u8 list" and pos
  show "do_elements d s \<lparr>pw_buffer = buf, pw_position = pos, pw_mode = Measure\<rparr> =
      Inr (s, \<lparr>pw_buffer = buf, pw_position = pos + length (concat (map b s)), pw_mode = Measure\<rparr>)"
    by (rule elements_measure [OF d])
  show "do_elements d s \<lparr>pw_buffer = buf, pw_position = pos, pw_mode = Write\<rparr> =
      Inr (s, \<lparr>pw_buffer = put_bytes pos (concat (map b s)) buf, pw_position = pos + length (concat (map b s)), pw_mode = Write\<rparr>)"
    if "pos + length (concat (map b s)) \<le> length buf"
    using that
  proof (induction s arbitrary: pos buf)
    case (Cons x xs)
    then show ?case
      using put_bytes_append [of pos "b x" "concat (map b xs)" buf] by (simp add: saver.write_fits [OF d] add.assoc)
  qed (simp add: put_bytes_def)
  show "\<exists>buf'. do_elements d s \<lparr>pw_buffer = buf, pw_position = pos, pw_mode = Write\<rparr> =
      Inr (s, \<lparr>pw_buffer = buf', pw_position = pos + length (concat (map b s)), pw_mode = Measure\<rparr>)"
    if "length buf < pos + length (concat (map b s))" "pos \<le> length buf"
    using that
  proof (induction s arbitrary: pos buf)
    case (Cons x xs)
    show ?case
    proof (cases "pos + length (b x) \<le> length buf")
      case True
      then show ?thesis
        using Cons.IH [of "put_bytes pos (b x) buf" "pos + length (b x)"] Cons.prems
        by (auto simp: saver.write_fits [OF d] add.assoc)
    next
      case False
      then obtain buf' where "d x \<lparr>pw_buffer = buf, pw_position = pos, pw_mode = Write\<rparr> =
          Inr (x, \<lparr>pw_buffer = buf', pw_position = pos + length (b x), pw_mode = Measure\<rparr>)"
        using saver.write_full [OF d, where s = x and buf = buf and pos = pos] Cons.prems(2) by auto
      then show ?thesis
        by (simp add: elements_measure [OF d] add.assoc)
    qed
  qed simp
  show "do_elements d t \<lparr>pw_buffer = buf, pw_position = pos, pw_mode = Read\<rparr> =
      Inr (s, \<lparr>pw_buffer = buf, pw_position = pos + length (concat (map b s)), pw_mode = Read\<rparr>)"
    if "length s = length t" "pos + length (concat (map b s)) \<le> length buf"
      "take (length (concat (map b s))) (drop pos buf) = concat (map b s)"
    using that
  proof (induction s t arbitrary: pos rule: list_induct2)
    case (Cons x xs y ys)
    have r: "take (length (b x @ concat (map b xs))) (drop pos buf) = b x @ concat (map b xs)"
      using Cons.prems(2) by simp
    show ?case
      using Cons.IH [of "pos + length (b x)"] Cons.prems(1) take_append_split [OF r] saver.read [OF d, where s = x and t = y]
      by (simp add: add.assoc)
  qed simp
qed simp_all

lemma size_saver:
  "saver (Do (var (\<lambda>n. n) (\<lambda>f. f)) :: ('e, u32) do_state) le_bytes (\<lambda>m n. m) (\<lambda>_ _. True)"
proof -
  have c: "codec_load (var (\<lambda>n. n) (\<lambda>f. f) :: u32 codec) = (\<lambda>m n. m)"
    by (intro ext) simp
  show ?thesis
    using saver_Do [of "var (\<lambda>n. n) (\<lambda>f. f) :: u32 codec" "\<lambda>_ _. True"] by (simp add: c) (simp add: var_def)
qed

lemma saver_container:
  assumes d: "saver (d :: ('e, 'v) do_state) b (\<lambda>x _. x) (\<lambda>_ _. True)"
  shows "saver (DoContainer new d) (\<lambda>xs. le_bytes (of_nat (length xs) :: u32) @ concat (map b xs)) (\<lambda>xs _. xs)
    (\<lambda>xs _. length xs < 2 ^ 32)"
proof
  fix s t :: "'v list" and buf :: "u8 list" and pos
  note els = elements_saver [OF d]
  have self: "resized (unat (of_nat (length s) :: u32)) new s = s" and other: "length (resized (unat (of_nat (length s) :: u32)) new t) = length s"
    if "length s < 2 ^ 32"
    using that by (simp_all add: resized_def unat_of_nat)
  let ?n = "le_bytes (of_nat (length s) :: u32)" and ?c = "concat (map b s)"
  show "DoContainer new d s \<lparr>pw_buffer = buf, pw_position = pos, pw_mode = Measure\<rparr> =
      Inr (s, \<lparr>pw_buffer = buf, pw_position = pos + length (?n @ ?c), pw_mode = Measure\<rparr>)" if "length s < 2 ^ 32"
    using self [OF that] by (simp add: DoContainer_def saver.measure [OF size_saver] saver.measure [OF els] add.assoc)
  show "DoContainer new d s \<lparr>pw_buffer = buf, pw_position = pos, pw_mode = Write\<rparr> =
      Inr (s, \<lparr>pw_buffer = put_bytes pos (?n @ ?c) buf, pw_position = pos + length (?n @ ?c), pw_mode = Write\<rparr>)"
    if "length s < 2 ^ 32" "pos + length (?n @ ?c) \<le> length buf"
    using self [OF that(1)] that(2) put_bytes_append [OF that(2)]
    by (simp add: DoContainer_def saver.write_fits [OF size_saver] saver.write_fits [OF els] add.assoc)
  show "\<exists>buf'. DoContainer new d s \<lparr>pw_buffer = buf, pw_position = pos, pw_mode = Write\<rparr> =
      Inr (s, \<lparr>pw_buffer = buf', pw_position = pos + length (?n @ ?c), pw_mode = Measure\<rparr>)"
    if f: "length s < 2 ^ 32" and l: "length buf < pos + length (?n @ ?c)" "pos \<le> length buf"
  proof (cases "pos + length ?n \<le> length buf")
    case True
    then show ?thesis
      using self [OF f] l(1) saver.write_full [OF els, where s = s and buf = "put_bytes pos ?n buf" and pos = "pos + length ?n"]
      by (auto simp: DoContainer_def saver.write_fits [OF size_saver] add.assoc)
  next
    case False
    then obtain buf' where "Do (var (\<lambda>n. n) (\<lambda>f. f)) (of_nat (length s) :: u32) \<lparr>pw_buffer = buf, pw_position = pos, pw_mode = Write\<rparr> =
        (Inr (of_nat (length s), \<lparr>pw_buffer = buf', pw_position = pos + length ?n, pw_mode = Measure\<rparr>) :: 'e + u32 \<times> PointerWrap)"
      using saver.write_full [OF size_saver, where s = "of_nat (length s)" and buf = buf and pos = pos] l(2) by auto
    then show ?thesis
      using self [OF f] by (simp add: DoContainer_def saver.measure [OF els] add.assoc)
  qed
  show "DoContainer new d t \<lparr>pw_buffer = buf, pw_position = pos, pw_mode = Read\<rparr> =
      Inr (s, \<lparr>pw_buffer = buf, pw_position = pos + length (?n @ ?c), pw_mode = Read\<rparr>)"
    if f: "length s < 2 ^ 32" and l: "pos + length (?n @ ?c) \<le> length buf" and r: "take (length (?n @ ?c)) (drop pos buf) = ?n @ ?c"
  proof -
    have "Do (var (\<lambda>n. n) (\<lambda>f. f)) (of_nat (length t) :: u32) \<lparr>pw_buffer = buf, pw_position = pos, pw_mode = Read\<rparr> =
        (Inr (of_nat (length s), \<lparr>pw_buffer = buf, pw_position = pos + length ?n, pw_mode = Read\<rparr>) :: 'e + u32 \<times> PointerWrap)"
      using l by (intro saver.read [OF size_saver _ _ take_append_split(1) [OF r]]) simp_all
    moreover have "do_elements d (resized (unat (of_nat (length s) :: u32)) new t) \<lparr>pw_buffer = buf, pw_position = pos + length ?n, pw_mode = Read\<rparr> =
        Inr (s, \<lparr>pw_buffer = buf, pw_position = pos + length ?n + length ?c, pw_mode = Read\<rparr>)"
      using l other [OF f] by (intro saver.read [OF els _ _ take_append_split(2) [OF r]]) simp_all
    ultimately show ?thesis
      by (simp add: DoContainer_def add.assoc)
  qed
qed simp_all

lemma saver_cong:
  assumes "saver d b l fits" "\<And>s. b s = b' s" "\<And>s t. l s t = l' s t"
  shows "saver d b' l' fits"
proof -
  have "b = b'" "l = l'"
    using assms(2,3) by (intro ext; simp)+
  then show ?thesis
    using assms(1) by simp
qed

lemma c_enc_var [simp]: "c_enc (var get upd) s = le_bytes (get s)"
  by (simp add: var_def)

lemma saver_Do_free:
  assumes "codec_ok c" "\<And>s. codec_load c s s = s"
  shows "saver (Do c) (c_enc c) (codec_load c) (\<lambda>_ _. True)"
  using saver_Do [of c "\<lambda>_ _. True"] assms by simp

section \<open>Without the bytes\<close>

definition saves :: "('e, 's) do_state \<Rightarrow> ('s \<Rightarrow> 's \<Rightarrow> 's) \<Rightarrow> ('s \<Rightarrow> 's \<Rightarrow> bool) \<Rightarrow> bool" where
  "saves d load fits \<longleftrightarrow> (\<exists>bytes. saver d bytes load fits)"

lemma saves_round_trip:
  assumes "saves d load fits" "fits s s" "fits s t"
  shows "\<exists>n buf'. SaveToBuffer d s buf = Some (Inr (n, buf', s)) \<and> LoadFromBuffer d t buf' = Inr (True, load s t)"
proof -
  obtain b where b: "saver d b load fits"
    using assms(1) unfolding saves_def by blast
  show ?thesis
    by (rule saver.save_and_load [OF b assms(2,3)])
qed

lemma saver_weaken:
  assumes d: "saver d b l fit" and f: "\<And>s t. fits s t \<Longrightarrow> fit s t" and e: "\<And>s t. fits s t \<Longrightarrow> l s t = l' s t"
    and st: "\<And>s t. fits s t \<Longrightarrow> fits s (l' s t)"
  shows "saver d b l' fits"
proof
  fix s t buf pos
  show "\<exists>buf'. d s \<lparr>pw_buffer = buf, pw_position = pos, pw_mode = Write\<rparr> =
      Inr (s, \<lparr>pw_buffer = buf', pw_position = pos + length (b s), pw_mode = Measure\<rparr>)"
    if "fits s s" "length buf < pos + length (b s)" "pos \<le> length buf"
    using saver.write_full [OF d f [OF that(1)] that(2,3)] .
  show "d t \<lparr>pw_buffer = buf, pw_position = pos, pw_mode = Read\<rparr> =
      Inr (l' s t, \<lparr>pw_buffer = buf, pw_position = pos + length (b s), pw_mode = Read\<rparr>)"
    if "fits s t" "pos + length (b s) \<le> length buf" "take (length (b s)) (drop pos buf) = b s"
    using saver.read [OF d f [OF that(1)] that(2,3)] e [OF that(1)] by simp
  show "d s \<lparr>pw_buffer = buf, pw_position = pos, pw_mode = Measure\<rparr> =
      Inr (s, \<lparr>pw_buffer = buf, pw_position = pos + length (b s), pw_mode = Measure\<rparr>)" if "fits s s"
    using saver.measure [OF d f [OF that]] .
  show "d s \<lparr>pw_buffer = buf, pw_position = pos, pw_mode = Write\<rparr> =
      Inr (s, \<lparr>pw_buffer = put_bytes pos (b s) buf, pw_position = pos + length (b s), pw_mode = Write\<rparr>)"
    if "fits s s" "pos + length (b s) \<le> length buf"
    using saver.write_fits [OF d f [OF that(1)] that(2)] .
  show "fits s (l' s t)" if "fits s t"
    by (rule st [OF that])
qed

lemma saves_weaken:
  assumes "saves d l fit" "\<And>s t. fits s t \<Longrightarrow> fit s t" "\<And>s t. fits s t \<Longrightarrow> l s t = l' s t" "\<And>s t. fits s t \<Longrightarrow> fits s (l' s t)"
  shows "saves d l' fits"
proof -
  obtain b where b: "saver d b l fit"
    using assms(1) unfolding saves_def by blast
  have "saver d b l' fits"
    by (rule saver_weaken [OF b]) (fact assms)+
  then show ?thesis
    unfolding saves_def by blast
qed

lemma saves_eq:
  assumes "saves d l (\<lambda>_ _. True)" "\<And>s t. l s t = l' s t"
  shows "saves d l' (\<lambda>_ _. True)"
  by (rule saves_weaken [OF assms(1)]) (simp_all add: assms(2))

lemma saves_nothing [saver_intros]: "saves do_nothing (\<lambda>s t. t) fits"
  unfolding saves_def by (blast intro: saver_nothing)

lemma saves_Nil [saver_intros]: "saves (do_all []) (\<lambda>s t. t) fits"
  unfolding saves_def by (blast intro: saver_all_Nil)

lemma saves_Cons [saver_intros]:
  "saves d l fits \<Longrightarrow> saves (do_all ds) ls fits \<Longrightarrow> saves (do_all (d # ds)) (\<lambda>s t. ls s (l s t)) fits"
  unfolding saves_def by (blast intro: saver_all_Cons)

text \<open>When nothing is asked of the states.\<close>

lemma saves_Do [saver_intros]:
  assumes "codec_ok c" "\<And>s. codec_load c s s = s"
  shows "saves (Do c) (codec_load c) (\<lambda>_ _. True)"
  using saver_Do [of c "\<lambda>_ _. True"] assms unfolding saves_def by blast

lemma saves_bool [saver_intros]:
  assumes "\<And>s. upd (\<lambda>_. get s) s = s"
  shows "saves (Do_bool get upd) (\<lambda>s. upd (\<lambda>_. get s)) (\<lambda>_ _. True)"
  using saver_bool [of upd get "\<lambda>_ _. True"] assms unfolding saves_def by blast

lemma saves_part:
  assumes "saves d l fit" "\<And>s t. fits s t \<Longrightarrow> fit (get s) (get t)"
    and "\<And>s. upd (\<lambda>_. get s) s = s" and "\<And>s t. fits s t \<Longrightarrow> fits s (upd (\<lambda>_. l (get s) (get t)) t)"
  shows "saves (do_part get upd d) (\<lambda>s t. upd (\<lambda>_. l (get s) (get t)) t) fits"
proof -
  obtain b where b: "saver d b l fit"
    using assms(1) unfolding saves_def by blast
  have "saver (do_part get upd d) (\<lambda>s. b (get s)) (\<lambda>s t. upd (\<lambda>_. l (get s) (get t)) t) fits"
    by (rule saver_part [OF b]) (fact assms)+
  then show ?thesis
    unfolding saves_def by blast
qed

lemma saves_part_free [saver_intros]:
  assumes "saves d l (\<lambda>_ _. True)" "\<And>s. upd (\<lambda>_. get s) s = s"
  shows "saves (do_part get upd d) (\<lambda>s t. upd (\<lambda>_. l (get s) (get t)) t) (\<lambda>_ _. True)"
  by (rule saves_part [OF assms(1)]) (simp_all add: assms(2))

text \<open>When something is asked of the states.\<close>

lemma saves_free:
  assumes "saves d l (\<lambda>_ _. True)" "\<And>s t. fits s t \<Longrightarrow> fits s (l s t)"
  shows "saves d l fits"
  by (rule saves_weaken [OF assms(1)]) (simp_all add: assms(2))

lemma saves_Do_if:
  assumes "codec_ok c" "\<And>s. fits s s \<Longrightarrow> codec_load c s s = s" "\<And>s t. fits s t \<Longrightarrow> fits s (codec_load c s t)"
  shows "saves (Do c) (codec_load c) fits"
  unfolding saves_def by (rule exI, rule saver_Do) (fact assms)+

lemma saver_if:
  assumes 1: "saver d1 b1 l1 fits" and 2: "saver d2 b2 l2 fits" and P: "\<And>s t. fits s t \<Longrightarrow> P t = P s"
  shows "saver (\<lambda>s. if P s then d1 s else d2 s) (\<lambda>s. if P s then b1 s else b2 s) (\<lambda>s t. if P s then l1 s t else l2 s t) fits"
proof
  fix s t buf pos
  let ?d = "\<lambda>s. if P s then d1 s else d2 s" and ?b = "\<lambda>s. if P s then b1 s else b2 s"
  show "?d s \<lparr>pw_buffer = buf, pw_position = pos, pw_mode = Measure\<rparr> =
      Inr (s, \<lparr>pw_buffer = buf, pw_position = pos + length (?b s), pw_mode = Measure\<rparr>)" if "fits s s"
    using saver.measure [OF 1 that] saver.measure [OF 2 that] by simp
  show "?d s \<lparr>pw_buffer = buf, pw_position = pos, pw_mode = Write\<rparr> =
      Inr (s, \<lparr>pw_buffer = put_bytes pos (?b s) buf, pw_position = pos + length (?b s), pw_mode = Write\<rparr>)"
    if "fits s s" "pos + length (?b s) \<le> length buf"
    using saver.write_fits [OF 1 that(1)] saver.write_fits [OF 2 that(1)] that(2) by (cases "P s") simp_all
  show "\<exists>buf'. ?d s \<lparr>pw_buffer = buf, pw_position = pos, pw_mode = Write\<rparr> =
      Inr (s, \<lparr>pw_buffer = buf', pw_position = pos + length (?b s), pw_mode = Measure\<rparr>)"
    if "fits s s" "length buf < pos + length (?b s)" "pos \<le> length buf"
    using saver.write_full [OF 1 that(1)] saver.write_full [OF 2 that(1)] that(2,3) by (cases "P s") simp_all
  show "?d t \<lparr>pw_buffer = buf, pw_position = pos, pw_mode = Read\<rparr> =
      Inr (if P s then l1 s t else l2 s t, \<lparr>pw_buffer = buf, pw_position = pos + length (?b s), pw_mode = Read\<rparr>)"
    if "fits s t" "pos + length (?b s) \<le> length buf" "take (length (?b s)) (drop pos buf) = ?b s"
    using saver.read [OF 1 that(1)] saver.read [OF 2 that(1)] that(2,3) P [OF that(1)] by (cases "P s") simp_all
  show "fits s (if P s then l1 s t else l2 s t)" if "fits s t"
    using saver.stays [OF 1 that] saver.stays [OF 2 that] by simp
qed

lemma saves_then_fits:
  assumes "saves d1 l1 fits" "saves d2 l2 fit" "\<And>s t. fits s t \<Longrightarrow> fit s (l1 s t)"
    and "\<And>s. fits s s \<Longrightarrow> fit s s" and "\<And>s t. fits s t \<Longrightarrow> fits s (l2 s (l1 s t))"
  shows "saves (then_do d1 d2) (\<lambda>s t. l2 s (l1 s t)) fits"
proof -
  obtain b1 b2 where b: "saver d1 b1 l1 fits" "saver d2 b2 l2 fit"
    using assms(1,2) unfolding saves_def by blast
  have "saver (then_do d1 d2) (\<lambda>s. b1 s @ b2 s) (\<lambda>s t. l2 s (l1 s t)) fits"
    by (rule saver_then_fits [OF b]) (fact assms)+
  then show ?thesis
    unfolding saves_def by blast
qed

lemma saves_container:
  assumes "saves d (\<lambda>x _. x) (\<lambda>_ _. True)"
  shows "saves (DoContainer new d) (\<lambda>xs _. xs) (\<lambda>xs _. length xs < 2 ^ 32)"
proof -
  obtain b where b: "saver d b (\<lambda>x _. x) (\<lambda>_ _. True)"
    using assms unfolding saves_def by blast
  show ?thesis
    unfolding saves_def by (rule exI, rule saver_container [OF b])
qed

end
