(* ===== verification/Dsp_SaveState.thy ===== *)
theory Dsp_SaveState
  imports Save_State Dsp_Manager
begin

text \<open>
  Saving and loading the DSP: \<open>DoState\<close> of the accelerator (DSPAccelerator.cpp), of the DSP and its
  core (DSPCore.cpp), of the front end (DSPLLE.cpp) and of the interface of the console (HW/DSP.cpp),
  without the recompiler.  Structures that are copied at once have the layout of the C++ ABI.  Loading
  the instruction memory analyses it again.
\<close>

unbundle bit_operations_syntax

section \<open>The accelerator\<close>

definition Accelerator_DoState :: "('e, Accelerator) do_state" where
  "Accelerator_DoState = do_all [
     Do (var m_start_address m_start_address_update),
     Do (var m_end_address m_end_address_update),
     Do (var m_current_address m_current_address_update),
     Do (var m_sample_format m_sample_format_update),
     Do (var m_yn1 m_yn1_update),
     Do (var m_yn2 m_yn2_update),
     Do (var m_pred_scale m_pred_scale_update),
     Do_bool m_reads_stopped m_reads_stopped_update]"

section \<open>The DSP\<close>

definition DSP_Regs_codec :: "DSP_Regs codec" where
  "DSP_Regs_codec = struct [
     array 4 ar ar_update, array 4 ix ix_update, array 4 wr wr_update, array 4 st st_update,
     var cr cr_update, var sr sr_update, padding 4,
     var prod prod_update, array 2 ax ax_update, array 2 ac ac_update]"

definition stack_codec :: "nat \<Rightarrow> 'a SDSP_scheme codec" where
  "stack_codec i = array 32 (\<lambda>s. reg_stacks s i) (\<lambda>g. reg_stacks_update (\<lambda>f. f(i := g (f i))))"

definition mailbox_codec :: "Mailbox \<Rightarrow> 'a SDSP_scheme codec" where
  "mailbox_codec m = var (\<lambda>s. m_mailbox s m) (\<lambda>g. m_mailbox_update (\<lambda>f. f(m := g (f m))))"

text \<open>\<open>CodeLoaded\<close> with a pointer to the code.\<close>

definition CodeLoaded_at :: "u8 list \<Rightarrow> 'a SDSP_scheme \<Rightarrow> 'a SDSP_scheme result" where
  "CodeLoaded_at code s = analyze_code (SetIRAMCRC (HashEctor code) s)"

definition iram_codec :: "'a SDSP_scheme codec" where
  "iram_codec = array 0x1000 iram iram_update"

definition iram_loaded :: "(dsp_error, 'a SDSP_scheme) do_state" where
  "iram_loaded s p = bindE (if IsReadMode p then CodeLoaded_at (c_enc iram_codec s) s else Inr s) (\<lambda>s. Inr (s, p))"

definition SDSP_DoState :: "(dsp_error, 'a SDSP_scheme) do_state" where
  "SDSP_DoState = do_all [
     do_part regs regs_update (Do DSP_Regs_codec),
     Do (var pc pc_update),
     Do (var control_reg control_reg_update),
     Do (var control_reg_init_code_clear_time control_reg_init_code_clear_time_update),
     Do (array 4 reg_stack_ptrs reg_stack_ptrs_update),
     Do (var exceptions exceptions_update),
     Do_bool external_interrupt_waiting external_interrupt_waiting_update,
     Do (stack_codec 0), Do (stack_codec 1), Do (stack_codec 2), Do (stack_codec 3),
     Do (var m_step_counter m_step_counter_update),
     Do (array 256 m_ifx_regs m_ifx_regs_update),
     do_part m_accelerator m_accelerator_update Accelerator_DoState,
     Do (mailbox_codec MailboxCPU), Do (mailbox_codec MailboxDSP),
     Do iram_codec, iram_loaded,
     Do (array 0x1000 dram dram_update)]"

definition DSPCore_DoState :: "(dsp_error, DSPCore) do_state" where
  "DSPCore_DoState = do_all [do_part m_dsp m_dsp_update SDSP_DoState, Do_bool m_init_hax m_init_hax_update]"

section \<open>The front end\<close>

text \<open>
  Both front ends begin with a flag that says which of them saved the state, and change to the mode
  \<open>Verify\<close> when it was the other.
\<close>

definition for_engine :: "bool \<Rightarrow> ('e, 's) do_state \<Rightarrow> ('e, 's) do_state" where
  "for_engine hle d s p =
     bindE (Do_bool (\<lambda>b. b) (\<lambda>f. f) hle p) (\<lambda>(is_hle, p).
     if is_hle \<noteq> hle \<and> IsReadMode p then Inr (s, SetVerifyMode p) else d s p)"

text \<open>The state is the front end with \<open>m_cycle_count\<close>, the cycles granted to the thread.\<close>

definition LLE_DoState_body :: "(dsp_error, DSPLLE \<times> u32) do_state" where
  "LLE_DoState_body = do_all [
     do_part (m_dsp_core \<circ> fst) (apfst \<circ> m_dsp_core_update) DSPCore_DoState,
     Do (var snd apsnd)]"

definition LLE_DoState :: "(dsp_error, DSPLLE \<times> u32) do_state" where
  "LLE_DoState = for_engine False LLE_DoState_body"

section \<open>The interface of the console\<close>

definition aram_codec :: "nat \<Rightarrow> Host codec" where
  "aram_codec n =
     \<lparr>c_size = n, c_enc = (\<lambda>h. map (\<lambda>i. aram_ptr h (of_nat i)) [0..<n]),
      c_dec = (\<lambda>bs. aram_ptr_update (\<lambda>f a. if unat a < n then bs ! unat a else f a))\<rparr>"

definition do_aram :: "('e, Host) do_state" where
  "do_aram h = (if \<not> aram_wii_mode h then Do (aram_codec (unat (aram_size h))) h else do_nothing h)"

definition int_var :: "('s \<Rightarrow> int) \<Rightarrow> ((int \<Rightarrow> int) \<Rightarrow> 's \<Rightarrow> 's) \<Rightarrow> 's codec" where
  "int_var get upd =
     \<lparr>c_size = 4, c_enc = (\<lambda>s. le_bytes (word_of_int (get s) :: s32)), c_dec = (\<lambda>bs. upd (\<lambda>_. sint (le_word bs :: s32)))\<rparr>"

definition AudioDMA_codec :: "DSPManager codec" where
  "AudioDMA_codec = struct [
     var current_source_address current_source_address_update, var remaining_blocks_count remaining_blocks_count_update,
     padding 2, var SourceAddress SourceAddress_update, var AudioDMAControl AudioDMAControl_update, padding 2]"

definition ARAM_DMA_codec :: "DSPManager codec" where
  "ARAM_DMA_codec = struct [var MMAddr MMAddr_update, var ARAddr ARAddr_update, var Cnt Cnt_update]"

definition Manager_DoState :: "(dsp_error, DSPManager \<times> u32) do_state" where
  "Manager_DoState = do_all [
     do_part (the_host \<circ> fst) (\<lambda>f. apfst (upd_host (\<lambda>h. f h))) do_aram,
     do_part fst apfst (do_all [
       Do (var m_dsp_control m_dsp_control_update),
       Do AudioDMA_codec, Do ARAM_DMA_codec,
       Do (var m_aram_info m_aram_info_update),
       Do (var m_aram_mode m_aram_mode_update),
       Do (var m_aram_refresh m_aram_refresh_update),
       Do (int_var m_dsp_slice m_dsp_slice_update)]),
     do_part (apfst m_dsp_emulator) (\<lambda>f (d, c). case f (m_dsp_emulator d, c) of (l, c) \<Rightarrow> (d\<lparr>m_dsp_emulator := l\<rparr>, c)) LLE_DoState]"

end
