(* ===== verification/Dsp_HLE_SaveState.thy ===== *)
theory Dsp_HLE_SaveState
  imports Dsp_SaveState Dsp_HLE
begin

text \<open>
  Saving and loading the front end that emulates microcode: \<open>DoState\<close> of the mail handler
  (MailHandler.cpp), of the microcodes (UCodes.cpp, ROM.cpp, INIT.cpp, CARD.cpp, GBA.cpp) and of the
  front end (DSPHLE.cpp).  A microcode is found again by its checksum: loading makes a new one unless
  the running one has the same.  \<open>DoState\<close> of the mixing microcodes is the parameter \<open>md\<close>.
\<close>

unbundle bit_operations_syntax

section \<open>The mail handler\<close>

definition mail_DoState :: "('e, u32 \<times> bool) do_state" where
  "mail_DoState = do_all [Do (var fst apfst), Do_bool snd apsnd]"

definition MailHandler_DoState :: "('e, CMailHandler) do_state" where
  "MailHandler_DoState = do_all [
     do_part m_pending_mails m_pending_mails_update (DoContainer (0, False) mail_DoState),
     Do (var m_last_mail m_last_mail_update),
     Do_bool m_halted m_halted_update]"

section \<open>Microcodes\<close>

definition NextUCodeInfo_codec :: "NextUCodeInfo codec" where
  "NextUCodeInfo_codec = struct [
     var mram_dest_addr mram_dest_addr_update, var mram_size mram_size_update, var mram_dram_addr mram_dram_addr_update,
     var iram_mram_addr iram_mram_addr_update, var iram_size iram_size_update, var iram_dest iram_dest_update,
     var iram_startpc iram_startpc_update, padding 2,
     var dram_mram_addr dram_mram_addr_update, var dram_size dram_size_update, var dram_dest dram_dest_update]"

definition steps_codec :: "UCodeInterface codec" where
  "steps_codec = int_var (\<lambda>u. int (m_next_ucode_steps u)) (\<lambda>f. m_next_ucode_steps_update (\<lambda>n. nat (f (int n))))"

definition DoStateShared :: "('e, UCodeInterface) do_state" where
  "DoStateShared = do_all [
     Do_bool m_upload_setup_in_progress m_upload_setup_in_progress_update,
     do_part m_next_ucode m_next_ucode_update (Do NextUCodeInfo_codec),
     Do steps_codec,
     Do_bool m_needs_resume_mail m_needs_resume_mail_update]"

definition UCodeBootInfo_codec :: "UCodeBootInfo codec" where
  "UCodeBootInfo_codec = struct [
     var m_ram_address m_ram_address_update, var m_length m_length_update, var m_imem_address m_imem_address_update,
     var m_dmem_length m_dmem_length_update, var m_start_pc m_start_pc_update]"

definition ROM_DoState :: "('e, UCodeInterface \<times> ROMUCode) do_state" where
  "ROM_DoState = do_all [
     do_part snd apsnd (do_all [
       do_part m_current_ucode m_current_ucode_update (Do UCodeBootInfo_codec),
       Do (int_var m_boot_task_num_steps m_boot_task_num_steps_update),
       Do (var m_next_parameter m_next_parameter_update)]),
     do_part fst apfst DoStateShared]"

text \<open>\<open>m_state\<close> of the memory card is never written: it is the first value, and ignored.\<close>

definition CARD_DoState :: "('e, UCodeInterface) do_state" where
  "CARD_DoState = do_all [DoStateShared, Do (int_var (\<lambda>_. 0) (\<lambda>_ u. u))]"

definition mail_state_code :: "MailState \<Rightarrow> int" where
  "mail_state_code m = (case m of WaitingForRequest \<Rightarrow> 0 | WaitingForAddress \<Rightarrow> 1 | WaitingForNextTask \<Rightarrow> 2)"

definition mail_state_of :: "int \<Rightarrow> MailState" where
  "mail_state_of i = (if i = 0 then WaitingForRequest else if i = 1 then WaitingForAddress else WaitingForNextTask)"

definition GBA_DoState :: "('e, UCodeInterface \<times> MailState) do_state" where
  "GBA_DoState = do_all [
     do_part fst apfst DoStateShared,
     do_part snd apsnd (Do (int_var mail_state_code (\<lambda>f m. mail_state_of (f (mail_state_code m)))))]"

type_synonym ('e, 'm) mixer_states = "mixer \<Rightarrow> ('e, UCodeInterface \<times> 'm) do_state"

fun UCode_DoState :: "('e, 'm) mixer_states \<Rightarrow> ('e, 'm UCode) do_state" where
  "UCode_DoState md (UCode_ROM u s) p = bindE (ROM_DoState (u, s) p) (\<lambda>((u, s), p). Inr (UCode_ROM u s, p))"
| "UCode_DoState md (UCode_INIT u) p = Inr (UCode_INIT u, p)"
| "UCode_DoState md (UCode_CARD u) p = bindE (CARD_DoState u p) (\<lambda>(u, p). Inr (UCode_CARD u, p))"
| "UCode_DoState md (UCode_GBA u s) p = bindE (GBA_DoState (u, s) p) (\<lambda>((u, s), p). Inr (UCode_GBA u s, p))"
| "UCode_DoState md (UCode_Mixer k u s) p = bindE (md k (u, s) p) (\<lambda>((u, s), p). Inr (UCode_Mixer k u s, p))"

section \<open>The front end\<close>

fun do_option :: "('e, 'v) do_state \<Rightarrow> ('e, 'v option) do_state" where
  "do_option d None p = Inr (None, p)"
| "do_option d (Some x) p = bindE (d x p) (\<lambda>(x, p). Inr (Some x, p))"

definition find_ucode ::
    "'m mixers \<Rightarrow> ('m DSPHLE \<Rightarrow> 'm UCode option) \<Rightarrow> (('m UCode option \<Rightarrow> 'm UCode option) \<Rightarrow> 'm DSPHLE \<Rightarrow> 'm DSPHLE)
      \<Rightarrow> ('e, 'm DSPHLE) do_state" where
  "find_ucode mx get upd h p =
     bindE (Do (var (\<lambda>c. c) (\<lambda>f. f)) (GetCRC (get h)) p) (\<lambda>(ucode_crc, p).
     Inr (if ucode_crc = GetCRC (get h) then h else upd (\<lambda>_. UCodeFactory mx ucode_crc (hle_wii h)) h, p))"

definition do_ucodes :: "'m mixers \<Rightarrow> ('e, 'm) mixer_states \<Rightarrow> ('e, 'm DSPHLE) do_state" where
  "do_ucodes mx md = then_do
     (do_all [find_ucode mx hle_ucode hle_ucode_update, find_ucode mx hle_last_ucode hle_last_ucode_update])
     (do_all [do_part hle_ucode hle_ucode_update (do_option (UCode_DoState md)),
              do_part hle_last_ucode hle_last_ucode_update (do_option (UCode_DoState md))])"

definition HLE_DoState_body :: "'m mixers \<Rightarrow> ('e, 'm) mixer_states \<Rightarrow> ('e, 'm DSPHLE) do_state" where
  "HLE_DoState_body mx md = do_all [
     Do (var hle_control hle_control_update),
     Do (var hle_init_code_clear_time hle_init_code_clear_time_update),
     Do (struct [var hle_cpu_mailbox hle_cpu_mailbox_update, var hle_dsp_mailbox hle_dsp_mailbox_update]),
     do_ucodes mx md,
     do_part hle_mail hle_mail_update MailHandler_DoState]"

definition HLE_DoState :: "'m mixers \<Rightarrow> ('e, 'm) mixer_states \<Rightarrow> ('e, 'm DSPHLE) do_state" where
  "HLE_DoState mx md = for_engine True (HLE_DoState_body mx md)"

end
