(* ===== verification/Dsp_SaveState_Facts.thy ===== *)
theory Dsp_SaveState_Facts
  imports Dsp_SaveState
begin

text \<open>
  What the DSP is after a state has been loaded into it: the definitions \<open>restored_\<close> give the
  result of loading what was saved of \<open>s\<close> into \<open>t\<close>.  The fields that no save state has stay those
  of \<open>t\<close>: the ROMs, the gain and input of the accelerator, the write-back log, memory.
\<close>

unbundle bit_operations_syntax

definition restored_accelerator :: "Accelerator \<Rightarrow> Accelerator \<Rightarrow> Accelerator" where
  "restored_accelerator s t = s\<lparr>m_gain := m_gain t, m_input := m_input t\<rparr>"

definition restored_regs :: "DSP_Regs \<Rightarrow> DSP_Regs \<Rightarrow> DSP_Regs" where
  "restored_regs s t =
     \<lparr>ar = restore 4 (ar s) (ar t), ix = restore 4 (ix s) (ix t), wr = restore 4 (wr s) (wr t), st = restore 4 (st s) (st t),
      cr = cr s, sr = sr s, prod = prod s, ax = restore 2 (ax s) (ax t), ac = restore 2 (ac s) (ac t)\<rparr>"

text \<open>The bytes of the accelerator in a save state.\<close>

definition accelerator_bytes :: "Accelerator \<Rightarrow> u8 list" where
  "accelerator_bytes s =
     le_bytes (m_start_address s) @ le_bytes (m_end_address s) @ le_bytes (m_current_address s) @
     le_bytes (m_sample_format s) @ le_bytes (m_yn1 s) @ le_bytes (m_yn2 s) @ le_bytes (m_pred_scale s) @
     [of_bool (m_reads_stopped s)]"

interpretation accel: saver Accelerator_DoState accelerator_bytes restored_accelerator "\<lambda>_ _. True"
  unfolding Accelerator_DoState_def
  by (rule saver_cong, (rule saver_all_Cons saver_all_Nil saver_Do_free saver_bool | simp)+)
    (simp_all add: accelerator_bytes_def restored_accelerator_def)

lemma saves_accelerator: "saves Accelerator_DoState restored_accelerator (\<lambda>_ _. True)"
  unfolding saves_def using accel.saver_axioms by blast

interpretation regfile: saver "Do DSP_Regs_codec" "c_enc DSP_Regs_codec" restored_regs "\<lambda>_ _. True"
  by (rule saver_cong [OF saver_Do_free]) (simp_all add: DSP_Regs_codec_def restored_regs_def)

lemma saves_regs: "saves (Do DSP_Regs_codec) restored_regs (\<lambda>_ _. True)"
  unfolding saves_def using regfile.saver_axioms by blast

text \<open>The analysis of the loaded code always returns.\<close>

definition reanalysed :: "'a SDSP_scheme \<Rightarrow> 'a SDSP_scheme" where
  "reanalysed t = t\<lparr>m_iram_crc := HashEctor (c_enc iram_codec t), m_code_flags := the (Analyze t)\<rparr>"

lemma CodeLoaded_at_returns: "CodeLoaded_at (c_enc iram_codec t) t = Inr (reanalysed t)"
proof -
  have "ReadIMEM (SetIRAMCRC c t) = ReadIMEM t" for c
    by (intro ext) (simp add: ReadIMEM_def SetIRAMCRC_def)
  then have "Analyze (SetIRAMCRC c t) = Analyze t" for c
    by (simp only: Analyze_def)
  moreover obtain flags where "Analyze t = Some flags"
    using Analyze_returns by blast
  ultimately show ?thesis
    by (simp add: CodeLoaded_at_def analyze_code_def reanalysed_def) (simp add: SetIRAMCRC_def)
qed

lemma saves_iram_loaded [saver_intros]: "saves iram_loaded (\<lambda>s t. reanalysed t) (\<lambda>_ _. True)"
proof -
  have "saver (iram_loaded :: (dsp_error, 'a SDSP_scheme) do_state) (\<lambda>_. []) (\<lambda>s t. reanalysed t) (\<lambda>_ _. True)"
    by unfold_locales (simp_all add: iram_loaded_def IsReadMode_def CodeLoaded_at_returns put_bytes_def)
  then show ?thesis
    unfolding saves_def by blast
qed

definition restored_dsp :: "'a SDSP_scheme \<Rightarrow> 'a SDSP_scheme \<Rightarrow> 'a SDSP_scheme" where
  "restored_dsp s t =
     (let u = t\<lparr>regs := restored_regs (regs s) (regs t), pc := pc s, control_reg := control_reg s,
        control_reg_init_code_clear_time := control_reg_init_code_clear_time s,
        reg_stack_ptrs := restore 4 (reg_stack_ptrs s) (reg_stack_ptrs t), exceptions := exceptions s,
        external_interrupt_waiting := external_interrupt_waiting s,
        reg_stacks := restore 4 (\<lambda>i. restore 32 (reg_stacks s i) (reg_stacks t i)) (reg_stacks t),
        m_step_counter := m_step_counter s, m_ifx_regs := restore 256 (m_ifx_regs s) (m_ifx_regs t),
        m_accelerator := restored_accelerator (m_accelerator s) (m_accelerator t), m_mailbox := m_mailbox s,
        iram := restore 0x1000 (iram s) (iram t)\<rparr>
      in (reanalysed u)\<lparr>dram := restore 0x1000 (dram s) (dram t)\<rparr>)"

lemma four_stacks:
  "f(0 := restore 32 (g 0) (f 0), Suc 0 := restore 32 (g (Suc 0)) (f (Suc 0)), 2 := restore 32 (g 2) (f 2), 3 := restore 32 (g 3) (f 3)) =
    restore 4 (\<lambda>i. restore 32 (g i) (f i)) f"
proof
  fix i :: nat
  consider "i = 0" | "i = 1" | "i = 2" | "i = 3" | "4 \<le> i"
    by linarith
  then show "(f(0 := restore 32 (g 0) (f 0), Suc 0 := restore 32 (g (Suc 0)) (f (Suc 0)), 2 := restore 32 (g 2) (f 2), 3 := restore 32 (g 3) (f 3))) i =
      restore 4 (\<lambda>i. restore 32 (g i) (f i)) f i"
    by cases (simp_all add: restore_def [of 4])
qed

lemma both_mailboxes: "f(MailboxCPU := g MailboxCPU, MailboxDSP := g MailboxDSP) = g"
proof
  show "(f(MailboxCPU := g MailboxCPU, MailboxDSP := g MailboxDSP)) m = g m" for m
    by (cases m) simp_all
qed

lemma saves_stack:
  "saves (Do (stack_codec i)) (\<lambda>s. reg_stacks_update (\<lambda>f. f(i := restore 32 (reg_stacks s i) (f i)))) (\<lambda>_ _. True)"
proof -
  have l: "codec_load (stack_codec i) = (\<lambda>s. reg_stacks_update (\<lambda>f. f(i := restore 32 (reg_stacks s i) (f i))))"
    by (intro ext) (simp add: stack_codec_def)
  have "reg_stacks_update (\<lambda>f. f(i := restore 32 (reg_stacks s i) (f i))) s = s" for s :: "'a SDSP_scheme"
    by (cases s) (simp add: fun_upd_idem)
  then show ?thesis
    unfolding l [symmetric] by (intro saves_Do) (simp_all add: l stack_codec_def)
qed

lemma saves_mailbox:
  "saves (Do (mailbox_codec m)) (\<lambda>s. m_mailbox_update (\<lambda>f. f(m := m_mailbox s m))) (\<lambda>_ _. True)"
proof -
  have l: "codec_load (mailbox_codec m) = (\<lambda>s. m_mailbox_update (\<lambda>f. f(m := m_mailbox s m)))"
    by (intro ext) (simp add: mailbox_codec_def)
  have "m_mailbox_update (\<lambda>f. f(m := m_mailbox s m)) s = s" for s :: "'a SDSP_scheme"
    by (cases s) (simp add: fun_upd_idem)
  then show ?thesis
    unfolding l [symmetric] by (intro saves_Do) (simp_all add: l mailbox_codec_def)
qed

lemma saves_dsp: "saves SDSP_DoState restored_dsp (\<lambda>_ _. True)"
  unfolding SDSP_DoState_def iram_codec_def
  apply (rule saves_eq, (rule saves_regs saves_accelerator saves_stack saves_mailbox saver_intros | simp)+)
  subgoal for s t
    by (cases t) (simp add: restored_dsp_def reanalysed_def four_stacks both_mailboxes Let_def comp_def)
  done

text \<open>Loading what was just saved changes nothing but the results of the analysis.\<close>

lemma restored_self:
  "restored_accelerator a a = a" "restored_regs r r = r" "restored_dsp s s = reanalysed s"
proof -
  show r: "restored_accelerator a a = a" "restored_regs r r = r" for a r
    by (cases a; simp add: restored_accelerator_def) (cases r; simp add: restored_regs_def)
  show "restored_dsp s s = reanalysed s"
    by (cases s) (simp add: restored_dsp_def reanalysed_def r Let_def)
qed

definition restored_core :: "DSPCore \<Rightarrow> DSPCore \<Rightarrow> DSPCore" where
  "restored_core s t = t\<lparr>m_dsp := restored_dsp (m_dsp s) (m_dsp t), m_init_hax := m_init_hax s\<rparr>"

lemma saves_core: "saves DSPCore_DoState restored_core (\<lambda>_ _. True)"
  unfolding DSPCore_DoState_def
  by (rule saves_eq, (rule saves_dsp saver_intros | simp)+) (simp add: restored_core_def)

section \<open>The front end\<close>

lemma saver_for_engine:
  assumes d: "saver (d :: ('e, 's) do_state) b l fits"
  shows "saver (for_engine hle d) (\<lambda>s. [of_bool hle] @ b s) l fits"
proof -
  have flag: "saver (Do_bool (\<lambda>b. b) (\<lambda>f. f) :: ('e, bool) do_state) (\<lambda>b. [of_bool b]) (\<lambda>s t. s) (\<lambda>_ _. True)"
    by (rule saver_bool [of "\<lambda>f. f" "\<lambda>b. b"]) simp_all
  show ?thesis
  proof
    fix s t buf pos
    note first = for_engine_def saver.measure [OF flag] saver.write_fits [OF flag] saver.read [OF flag, where s = hle]
    show "for_engine hle d s \<lparr>pw_buffer = buf, pw_position = pos, pw_mode = Measure\<rparr> =
        Inr (s, \<lparr>pw_buffer = buf, pw_position = pos + length ([of_bool hle] @ b s), pw_mode = Measure\<rparr>)" if "fits s s"
      using saver.measure [OF d that] by (simp add: first)
    show "for_engine hle d s \<lparr>pw_buffer = buf, pw_position = pos, pw_mode = Write\<rparr> =
        Inr (s, \<lparr>pw_buffer = put_bytes pos ([of_bool hle] @ b s) buf, pw_position = pos + length ([of_bool hle] @ b s), pw_mode = Write\<rparr>)"
      if "fits s s" "pos + length ([of_bool hle] @ b s) \<le> length buf"
      using that saver.write_fits [OF d that(1), of "Suc pos" "put_bytes pos [of_bool hle] buf"] put_bytes_append [OF that(2)]
      by (simp add: first)
    show "\<exists>buf'. for_engine hle d s \<lparr>pw_buffer = buf, pw_position = pos, pw_mode = Write\<rparr> =
        Inr (s, \<lparr>pw_buffer = buf', pw_position = pos + length ([of_bool hle] @ b s), pw_mode = Measure\<rparr>)"
      if f: "fits s s" and k: "length buf < pos + length ([of_bool hle] @ b s)" "pos \<le> length buf"
    proof (cases "pos < length buf")
      case True
      then show ?thesis
        using k saver.write_full [OF d f, where buf = "put_bytes pos [of_bool hle] buf" and pos = "Suc pos"] by (auto simp: first)
    next
      case False
      then obtain buf' where "(Do_bool (\<lambda>b. b) (\<lambda>f. f) :: ('e, bool) do_state) hle \<lparr>pw_buffer = buf, pw_position = pos, pw_mode = Write\<rparr> =
          Inr (hle, \<lparr>pw_buffer = buf', pw_position = pos + length [of_bool hle :: u8], pw_mode = Measure\<rparr>)"
        using saver.write_full [OF flag, where s = hle and buf = buf and pos = pos] k(2) by auto
      then show ?thesis
        using saver.measure [OF d f] by (simp add: first)
    qed
    show "for_engine hle d t \<lparr>pw_buffer = buf, pw_position = pos, pw_mode = Read\<rparr> =
        Inr (l s t, \<lparr>pw_buffer = buf, pw_position = pos + length ([of_bool hle] @ b s), pw_mode = Read\<rparr>)"
      if f: "fits s t" and k: "pos + length ([of_bool hle] @ b s) \<le> length buf"
        and r: "take (length ([of_bool hle] @ b s)) (drop pos buf) = [of_bool hle] @ b s"
      using k saver.read [OF d f, of "Suc pos" buf] take_append_split [OF r] by (simp add: first)
    show "fits s (l s t)" if "fits s t"
      by (rule saver.stays [OF d that])
  qed
qed

lemma saves_for_engine: "saves d l fits \<Longrightarrow> saves (for_engine hle d) l fits"
  unfolding saves_def by (blast intro: saver_for_engine)

definition restored_lle :: "DSPLLE \<times> u32 \<Rightarrow> DSPLLE \<times> u32 \<Rightarrow> DSPLLE \<times> u32" where
  "restored_lle s t = ((fst t)\<lparr>m_dsp_core := restored_core (m_dsp_core (fst s)) (m_dsp_core (fst t))\<rparr>, snd s)"

lemma saves_lle_body: "saves LLE_DoState_body restored_lle (\<lambda>_ _. True)"
  unfolding LLE_DoState_body_def
  by (rule saves_eq, (rule saves_core saver_intros | (simp add: apfst_def apsnd_def map_prod_def split_beta; fail))+)
    (simp add: restored_lle_def apfst_def apsnd_def map_prod_def split_beta)

lemma saves_lle: "saves LLE_DoState restored_lle (\<lambda>_ _. True)"
  unfolding LLE_DoState_def by (rule saves_for_engine [OF saves_lle_body])

section \<open>The interface of the console\<close>

text \<open>
  What a manager must have for the state of another one: ARAM of the same size, and the slice in the
  range of a C++ integer.
\<close>

definition same_aram :: "Host \<Rightarrow> Host \<Rightarrow> bool" where
  "same_aram s t \<longleftrightarrow> aram_wii_mode s = aram_wii_mode t \<and> aram_size s = aram_size t"

definition restored_aram :: "Host \<Rightarrow> Host \<Rightarrow> Host" where
  "restored_aram s t =
     (if aram_wii_mode s then t else t\<lparr>aram_ptr := (\<lambda>a. if a < aram_size s then aram_ptr s a else aram_ptr t a)\<rparr>)"

lemma codec_load_aram:
  "codec_load (aram_codec (unat (n :: u32))) s t = t\<lparr>aram_ptr := (\<lambda>a. if a < n then aram_ptr s a else aram_ptr t a)\<rparr>"
  by (cases t) (simp add: codec_load_def aram_codec_def word_less_nat_alt fun_eq_iff)

lemma saves_aram: "saves do_aram restored_aram same_aram"
proof -
  have ok: "codec_ok (aram_codec n)" for n
    by (simp add: codec_ok_def aram_codec_def)
  have sized: "saver (\<lambda>s. Do (aram_codec (unat (aram_size s))) s) (\<lambda>s. c_enc (aram_codec (unat (aram_size s))) s)
      (\<lambda>s. codec_load (aram_codec (unat (aram_size s))) s) same_aram"
    by (rule saver_sized) (simp_all add: ok codec_load_aram same_aram_def)
  have "saver do_aram (\<lambda>s. if \<not> aram_wii_mode s then c_enc (aram_codec (unat (aram_size s))) s else [])
      (\<lambda>s t. if \<not> aram_wii_mode s then codec_load (aram_codec (unat (aram_size s))) s t else t) same_aram"
    unfolding do_aram_def [abs_def] by (rule saver_if [OF sized saver_nothing]) (simp add: same_aram_def)
  then have "saver do_aram (\<lambda>s. if \<not> aram_wii_mode s then c_enc (aram_codec (unat (aram_size s))) s else []) restored_aram same_aram"
    by (rule saver_weaken) (auto simp: restored_aram_def codec_load_aram same_aram_def)
  then show ?thesis
    unfolding saves_def by blast
qed

definition slice_fits :: "DSPManager \<Rightarrow> DSPManager \<Rightarrow> bool" where
  "slice_fits s t \<longleftrightarrow> - (2 ^ 31) \<le> m_dsp_slice s \<and> m_dsp_slice s < 2 ^ 31"

lemma saves_slice: "saves (Do (int_var m_dsp_slice m_dsp_slice_update)) (\<lambda>s. m_dsp_slice_update (\<lambda>_. m_dsp_slice s)) slice_fits"
proof -
  let ?c = "int_var m_dsp_slice m_dsp_slice_update"
  have l: "codec_load ?c s t = t\<lparr>m_dsp_slice := m_dsp_slice s\<rparr>" if "slice_fits s t'" for s t t'
    using that by (simp add: codec_load_def int_var_def slice_fits_def sint_sbintrunc' signed_take_bit_int_eq_self)
  have "saves (Do ?c) (codec_load ?c) slice_fits"
    by (rule saves_Do_if) (auto simp: l codec_ok_def, simp_all add: int_var_def slice_fits_def)
  then show ?thesis
    by (rule saves_weaken) (auto simp: l, simp add: slice_fits_def)
qed

definition restored_registers :: "DSPManager \<Rightarrow> DSPManager \<Rightarrow> DSPManager" where
  "restored_registers s t =
     t\<lparr>m_dsp_control := m_dsp_control s,
       current_source_address := current_source_address s, remaining_blocks_count := remaining_blocks_count s,
       SourceAddress := SourceAddress s, AudioDMAControl := AudioDMAControl s,
       MMAddr := MMAddr s, ARAddr := ARAddr s, Cnt := Cnt s,
       m_aram_info := m_aram_info s, m_aram_mode := m_aram_mode s, m_aram_refresh := m_aram_refresh s,
       m_dsp_slice := m_dsp_slice s\<rparr>"

lemma saves_registers:
  "saves (do_all [
       Do (var m_dsp_control m_dsp_control_update),
       Do AudioDMA_codec, Do ARAM_DMA_codec,
       Do (var m_aram_info m_aram_info_update),
       Do (var m_aram_mode m_aram_mode_update),
       Do (var m_aram_refresh m_aram_refresh_update),
       Do (int_var m_dsp_slice m_dsp_slice_update)]) restored_registers slice_fits"
  unfolding AudioDMA_codec_def ARAM_DMA_codec_def
  apply (rule saves_weaken [where fit = slice_fits])
     apply (rule saves_Cons saves_slice saves_Nil | rule saves_free, rule saves_Do | (simp add: slice_fits_def; fail))+
  by (simp_all add: restored_registers_def slice_fits_def)

definition machine_fits :: "DSPManager \<times> u32 \<Rightarrow> DSPManager \<times> u32 \<Rightarrow> bool" where
  "machine_fits s t \<longleftrightarrow> same_aram (the_host (fst s)) (the_host (fst t)) \<and> slice_fits (fst s) (fst t)"

definition restored_machine :: "DSPManager \<times> u32 \<Rightarrow> DSPManager \<times> u32 \<Rightarrow> DSPManager \<times> u32" where
  "restored_machine s t =
     (let d = restored_registers (fst s) (upd_host (\<lambda>_. restored_aram (the_host (fst s)) (the_host (fst t))) (fst t))
      in map_prod (\<lambda>l. d\<lparr>m_dsp_emulator := l\<rparr>) (\<lambda>c. c)
           (restored_lle (m_dsp_emulator (fst s), snd s) (m_dsp_emulator d, snd t)))"

lemma restored_keeps_host [simp]: "host (restored_dsp s t) = host t"
  by (simp add: restored_dsp_def reanalysed_def Let_def)

lemma restored_aram_same [simp]: "same_aram h (restored_aram g t) \<longleftrightarrow> same_aram h t"
  by (simp add: same_aram_def restored_aram_def)

lemma upd_host_self [simp]: "upd_host (\<lambda>_. the_host d) d = d"
proof -
  have "g (m_dsp_emulator d) = m_dsp_emulator d \<Longrightarrow> m_dsp_emulator_update g d = d" for g d
    by (cases d) simp
  moreover have "g (m_dsp_core l) = m_dsp_core l \<Longrightarrow> m_dsp_core_update g l = l" for g l
    by (cases l) simp
  moreover have "g (m_dsp c) = m_dsp c \<Longrightarrow> m_dsp_update g c = c" for g c
    by (cases c) simp
  moreover have "host_update (\<lambda>_. host i) i = i" for i :: Interpreter
    by simp
  ultimately show ?thesis
    by blast
qed

lemma saves_machine: "saves Manager_DoState restored_machine machine_fits"
  unfolding Manager_DoState_def
  apply (rule saves_weaken [where fit = machine_fits])
     apply (rule saves_Cons)
      apply (rule saves_part [OF saves_aram])
        apply (simp add: machine_fits_def)
       apply (simp add: apfst_def map_prod_def split_beta)
      apply (simp add: machine_fits_def slice_fits_def apfst_def map_prod_def split_beta)
     apply (rule saves_Cons)
      apply (rule saves_part [OF saves_registers])
        apply (simp add: machine_fits_def)
       apply (simp add: apfst_def map_prod_def split_beta)
      apply (simp add: machine_fits_def slice_fits_def restored_registers_def)
     apply (rule saves_Cons)
      apply (rule saves_free, rule saves_part_free [OF saves_lle])
       apply (simp add: split_beta)
      apply (simp add: machine_fits_def slice_fits_def split_beta restored_lle_def restored_core_def)
     apply (rule saves_Nil)
    apply simp
   apply (simp add: restored_machine_def restored_registers_def Let_def split_beta restored_lle_def)
  apply (simp add: restored_machine_def machine_fits_def slice_fits_def restored_registers_def restored_lle_def restored_core_def Let_def split_beta)
  done

end
