(* ===== verification/Dsp_HLE_SaveState_Facts.thy ===== *)
theory Dsp_HLE_SaveState_Facts
  imports Dsp_HLE_SaveState Dsp_SaveState_Facts Dsp_HLE_Invariant
begin

text \<open>
  A save state of the front end that emulates microcode has all of it but main memory and the
  interrupts already sent, for the microcodes that are modelled.
\<close>

unbundle bit_operations_syntax

section \<open>The mail handler\<close>

definition restored_mails :: "CMailHandler \<Rightarrow> CMailHandler \<Rightarrow> CMailHandler" where
  "restored_mails s t = s\<lparr>dsp_interrupts := dsp_interrupts t\<rparr>"

definition mails_fit :: "CMailHandler \<Rightarrow> CMailHandler \<Rightarrow> bool" where
  "mails_fit s t \<longleftrightarrow> length (m_pending_mails s) < 2 ^ 32"

lemma saves_mail: "saves mail_DoState (\<lambda>x _. x) (\<lambda>_ _. True)"
  unfolding mail_DoState_def
  by (rule saves_eq, (rule saver_intros | (simp add: apfst_def apsnd_def map_prod_def split_beta; fail))+)

lemma saves_mail_handler: "saves MailHandler_DoState restored_mails mails_fit"
  unfolding MailHandler_DoState_def
  apply (rule saves_weaken [where fit = mails_fit])
     apply (rule saves_Cons, rule saves_part [OF saves_container [OF saves_mail]]
       | rule saves_Cons | rule saves_Nil | rule saves_free, rule saver_intros | (simp add: mails_fit_def; fail))+
  apply (simp_all add: restored_mails_def mails_fit_def)
  done

section \<open>Microcodes\<close>

definition int_fits :: "int \<Rightarrow> bool" where
  "int_fits i \<longleftrightarrow> - (2 ^ 31) \<le> i \<and> i < 2 ^ 31"

lemma codec_load_int: "int_fits (get s) \<Longrightarrow> codec_load (int_var get upd) s t = upd (\<lambda>_. get s) t"
  by (simp add: codec_load_def int_var_def int_fits_def sint_sbintrunc' signed_take_bit_int_eq_self)

lemma codec_ok_int [simp]: "codec_ok (int_var get upd)"
  by (simp add: codec_ok_def int_var_def)

definition steps_fit :: "UCodeInterface \<Rightarrow> UCodeInterface \<Rightarrow> bool" where
  "steps_fit u v \<longleftrightarrow> m_next_ucode_steps u < 10"

definition restored_interface :: "UCodeInterface \<Rightarrow> UCodeInterface \<Rightarrow> UCodeInterface" where
  "restored_interface s t = s\<lparr>m_crc := m_crc t\<rparr>"

lemma saves_next_ucode: "saves (Do NextUCodeInfo_codec) (\<lambda>s t. s) (\<lambda>_ _. True)"
  unfolding NextUCodeInfo_codec_def
  by (rule saves_eq, (rule saver_intros | simp)+)

lemma saves_steps: "saves (Do steps_codec) (\<lambda>s. m_next_ucode_steps_update (\<lambda>_. m_next_ucode_steps s)) steps_fit"
proof -
  have l: "codec_load steps_codec s t = t\<lparr>m_next_ucode_steps := m_next_ucode_steps s\<rparr>" if "steps_fit s t'" for s t t'
    using that codec_load_int [of "\<lambda>u. int (m_next_ucode_steps u)" s "\<lambda>f. m_next_ucode_steps_update (\<lambda>n. nat (f (int n)))" t]
    by (simp add: steps_codec_def steps_fit_def int_fits_def)
  have "saves (Do steps_codec) (codec_load steps_codec) steps_fit"
  proof (rule saves_Do_if)
    show "steps_fit s s \<Longrightarrow> codec_load steps_codec s s = s" for s
      by (simp add: l)
  qed (simp_all add: steps_codec_def steps_fit_def)
  then show ?thesis
    by (rule saves_weaken) (auto simp: l, simp add: steps_fit_def)
qed

lemma saves_shared: "saves DoStateShared restored_interface steps_fit"
  unfolding DoStateShared_def
  apply (rule saves_weaken [where fit = steps_fit])
     apply (rule saves_Cons saves_Nil saves_steps | rule saves_free, rule saves_part_free [OF saves_next_ucode]
       | rule saves_free, rule saver_intros | (simp add: steps_fit_def; fail))+
  apply (simp_all add: restored_interface_def steps_fit_def)
  done

definition rom_fits :: "ROMUCode \<Rightarrow> ROMUCode \<Rightarrow> bool" where
  "rom_fits s t \<longleftrightarrow> int_fits (m_boot_task_num_steps s)"

lemma saves_boot_info: "saves (Do UCodeBootInfo_codec) (\<lambda>s t. s) (\<lambda>_ _. True)"
  unfolding UCodeBootInfo_codec_def
  by (rule saves_eq, (rule saver_intros | simp)+)

lemma saves_boot_steps:
  "saves (Do (int_var m_boot_task_num_steps m_boot_task_num_steps_update))
    (\<lambda>s. m_boot_task_num_steps_update (\<lambda>_. m_boot_task_num_steps s)) rom_fits"
proof -
  have l: "codec_load (int_var m_boot_task_num_steps m_boot_task_num_steps_update) s t = t\<lparr>m_boot_task_num_steps := m_boot_task_num_steps s\<rparr>"
    if "rom_fits s t'" for s t t'
    using that by (simp add: codec_load_int rom_fits_def)
  have "saves (Do (int_var m_boot_task_num_steps m_boot_task_num_steps_update))
      (codec_load (int_var m_boot_task_num_steps m_boot_task_num_steps_update)) rom_fits"
  proof (rule saves_Do_if)
    show "rom_fits s s \<Longrightarrow> codec_load (int_var m_boot_task_num_steps m_boot_task_num_steps_update) s s = s" for s
      by (simp add: l)
  qed (simp_all add: rom_fits_def)
  then show ?thesis
    by (rule saves_weaken) (auto simp: l, simp add: rom_fits_def)
qed

lemma saves_rom_part:
  "saves (do_all [
       do_part m_current_ucode m_current_ucode_update (Do UCodeBootInfo_codec),
       Do (int_var m_boot_task_num_steps m_boot_task_num_steps_update),
       Do (var m_next_parameter m_next_parameter_update)]) (\<lambda>s t. s) rom_fits"
  apply (rule saves_weaken [where fit = rom_fits])
     apply (rule saves_Cons saves_Nil saves_boot_steps | rule saves_free, rule saves_part_free [OF saves_boot_info]
       | rule saves_free, rule saver_intros | (simp add: rom_fits_def; fail))+
  done

text \<open>Microcodes with their own state: the shared part, and a part that is loaded as it was.\<close>

definition restored_pair :: "UCodeInterface \<times> 'm \<Rightarrow> UCodeInterface \<times> 'm \<Rightarrow> UCodeInterface \<times> 'm" where
  "restored_pair s t = (restored_interface (fst s) (fst t), snd s)"

lemma saves_fst:
  assumes "saves d l fit"
  shows "saves (do_part fst apfst d) (\<lambda>s t. apfst (\<lambda>_. l (fst s) (fst t)) t) (\<lambda>s t. fit (fst s) (fst t) \<and> fit' (snd s) (snd t))"
proof (rule saves_part [OF assms])
  obtain b where b: "saver d b l fit"
    using assms unfolding saves_def by blast
  show "fit (fst s) (fst (apfst (\<lambda>_. l (fst s) (fst t)) t)) \<and> fit' (snd s) (snd (apfst (\<lambda>_. l (fst s) (fst t)) t))"
    if "fit (fst s) (fst t) \<and> fit' (snd s) (snd t)" for s t
    using that saver.stays [OF b] by simp
qed (simp_all add: apfst_def map_prod_def split_beta)

lemma saves_snd:
  assumes "saves d l fit"
  shows "saves (do_part snd apsnd d) (\<lambda>s t. apsnd (\<lambda>_. l (snd s) (snd t)) t) (\<lambda>s t. fit' (fst s) (fst t) \<and> fit (snd s) (snd t))"
proof (rule saves_part [OF assms])
  obtain b where b: "saver d b l fit"
    using assms unfolding saves_def by blast
  show "fit' (fst s) (fst (apsnd (\<lambda>_. l (snd s) (snd t)) t)) \<and> fit (snd s) (snd (apsnd (\<lambda>_. l (snd s) (snd t)) t))"
    if "fit' (fst s) (fst t) \<and> fit (snd s) (snd t)" for s t
    using that saver.stays [OF b] by simp
qed (simp_all add: apsnd_def map_prod_def split_beta)

lemma saves_rom: "saves ROM_DoState restored_pair (\<lambda>s t. steps_fit (fst s) (fst t) \<and> rom_fits (snd s) (snd t))"
  unfolding ROM_DoState_def
  by (rule saves_weaken, rule saves_Cons [OF saves_snd [OF saves_rom_part] saves_Cons [OF saves_fst [OF saves_shared] saves_Nil]])
    (auto simp: restored_pair_def steps_fit_def rom_fits_def restored_interface_def)

lemma saves_card: "saves CARD_DoState restored_interface steps_fit"
proof -
  have l: "codec_load (int_var (\<lambda>_. 0) (\<lambda>_ u. u)) = (\<lambda>s t. t)"
    by (intro ext) (simp add: codec_load_int int_fits_def)
  have "saves (Do (int_var (\<lambda>_. 0) (\<lambda>_ u. u)) :: ('a, UCodeInterface) do_state) (\<lambda>s t. t) steps_fit"
    by (rule saves_free) (use saves_Do [of "int_var (\<lambda>_. 0) (\<lambda>_ u. u)"] in \<open>simp_all add: l\<close>)
  from saves_Cons [OF saves_shared saves_Cons [OF this saves_Nil]] show ?thesis
    unfolding CARD_DoState_def .
qed

lemma mail_state_of_code [simp]: "mail_state_of (mail_state_code m) = m"
  by (cases m) (simp_all add: mail_state_of_def mail_state_code_def)

lemma saves_mail_state: "saves (Do (int_var mail_state_code (\<lambda>f m. mail_state_of (f (mail_state_code m))))) (\<lambda>s t. s) (\<lambda>_ _. True)"
proof -
  have l: "codec_load (int_var mail_state_code (\<lambda>f m. mail_state_of (f (mail_state_code m)))) = (\<lambda>s t. s)"
  proof (intro ext)
    fix s t
    have "int_fits (mail_state_code s)"
      by (cases s) (simp_all add: int_fits_def mail_state_code_def)
    then show "codec_load (int_var mail_state_code (\<lambda>f m. mail_state_of (f (mail_state_code m)))) s t = s"
      by (simp add: codec_load_int)
  qed
  show ?thesis
    unfolding l [symmetric] by (rule saves_Do) (simp_all add: l)
qed

lemma saves_gba: "saves GBA_DoState restored_pair (\<lambda>s t. steps_fit (fst s) (fst t))"
  unfolding GBA_DoState_def
  by (rule saves_weaken, rule saves_Cons [OF saves_fst [OF saves_shared, of "\<lambda>_ _. True"] saves_Cons [OF saves_snd [OF saves_mail_state] saves_Nil]])
    (auto simp: restored_pair_def steps_fit_def restored_interface_def)

section \<open>Any microcode\<close>

text \<open>Microcodes of the same class, which is not one of the mixing microcodes, with the same checksum.\<close>

fun ucode_fits :: "'m UCode \<Rightarrow> 'm UCode \<Rightarrow> bool" where
  "ucode_fits (UCode_ROM u s) (UCode_ROM v t) \<longleftrightarrow> m_crc u = m_crc v \<and> steps_fit u v \<and> rom_fits s t"
| "ucode_fits (UCode_INIT u) (UCode_INIT v) \<longleftrightarrow> u = v"
| "ucode_fits (UCode_CARD u) (UCode_CARD v) \<longleftrightarrow> m_crc u = m_crc v \<and> steps_fit u v"
| "ucode_fits (UCode_GBA u s) (UCode_GBA v t) \<longleftrightarrow> m_crc u = m_crc v \<and> steps_fit u v"
| "ucode_fits u v \<longleftrightarrow> False"

lemma ucode_fits_cases [consumes 1, case_names ROM INIT CARD GBA]:
  assumes "ucode_fits a b"
    and "\<And>u s v t. a = UCode_ROM u s \<Longrightarrow> b = UCode_ROM v t \<Longrightarrow> m_crc v = m_crc u \<Longrightarrow> steps_fit u v \<Longrightarrow> rom_fits s t \<Longrightarrow> P"
    and "\<And>u. a = UCode_INIT u \<Longrightarrow> b = UCode_INIT u \<Longrightarrow> P"
    and "\<And>u v. a = UCode_CARD u \<Longrightarrow> b = UCode_CARD v \<Longrightarrow> m_crc v = m_crc u \<Longrightarrow> steps_fit u v \<Longrightarrow> P"
    and "\<And>u s v t. a = UCode_GBA u s \<Longrightarrow> b = UCode_GBA v t \<Longrightarrow> m_crc v = m_crc u \<Longrightarrow> steps_fit u v \<Longrightarrow> P"
  shows P
  using assms by (cases a; cases b) auto

lemma saves_ucode: "saves (UCode_DoState (md :: ('e, 'm) mixer_states)) (\<lambda>s t. s) ucode_fits"
proof -
  obtain b1 where rom: "saver (ROM_DoState :: ('e, UCodeInterface \<times> ROMUCode) do_state) b1 restored_pair
      (\<lambda>s t. steps_fit (fst s) (fst t) \<and> rom_fits (snd s) (snd t))"
    using saves_rom unfolding saves_def by blast
  obtain b2 where card: "saver (CARD_DoState :: ('e, UCodeInterface) do_state) b2 restored_interface steps_fit"
    using saves_card unfolding saves_def by blast
  obtain b3 where gba: "saver (GBA_DoState :: ('e, UCodeInterface \<times> MailState) do_state) b3 restored_pair
      (\<lambda>s t. steps_fit (fst s) (fst t))"
    using saves_gba unfolding saves_def by blast
  define b where "b = (\<lambda>u :: 'm UCode. case u of UCode_ROM u s \<Rightarrow> b1 (u, s) | UCode_CARD u \<Rightarrow> b2 u | UCode_GBA u s \<Rightarrow> b3 (u, s) | _ \<Rightarrow> [])"
  have crc: "m_crc v = m_crc u \<Longrightarrow> restored_interface u v = u" for u v
    by (simp add: restored_interface_def)
  have "saver (UCode_DoState md) b (\<lambda>s t. s) ucode_fits"
  proof
    fix s t :: "'m UCode" and buf :: "u8 list" and pos
    show "UCode_DoState md s \<lparr>pw_buffer = buf, pw_position = pos, pw_mode = Measure\<rparr> =
        Inr (s, \<lparr>pw_buffer = buf, pw_position = pos + length (b s), pw_mode = Measure\<rparr>)" if "ucode_fits s s"
      using that
      by (cases rule: ucode_fits_cases)
        (auto simp: b_def saver.measure [OF rom] saver.measure [OF card] saver.measure [OF gba])
    show "UCode_DoState md s \<lparr>pw_buffer = buf, pw_position = pos, pw_mode = Write\<rparr> =
        Inr (s, \<lparr>pw_buffer = put_bytes pos (b s) buf, pw_position = pos + length (b s), pw_mode = Write\<rparr>)"
      if "ucode_fits s s" "pos + length (b s) \<le> length buf"
      using that
      by (cases rule: ucode_fits_cases)
        (auto simp: b_def put_bytes_def saver.write_fits [OF rom] saver.write_fits [OF card] saver.write_fits [OF gba])
    show "\<exists>buf'. UCode_DoState md s \<lparr>pw_buffer = buf, pw_position = pos, pw_mode = Write\<rparr> =
        Inr (s, \<lparr>pw_buffer = buf', pw_position = pos + length (b s), pw_mode = Measure\<rparr>)"
      if "ucode_fits s s" "length buf < pos + length (b s)" "pos \<le> length buf"
      using that
    proof (cases rule: ucode_fits_cases)
      case (ROM u s' v t')
      then show ?thesis
        using that saver.write_full [OF rom, where s = "(u, s')" and pos = pos and buf = buf] by (auto simp: b_def)
    next
      case (CARD u v)
      then show ?thesis
        using that saver.write_full [OF card, where s = u and pos = pos and buf = buf] by (auto simp: b_def)
    next
      case (GBA u s' v t')
      then show ?thesis
        using that saver.write_full [OF gba, where s = "(u, s')" and pos = pos and buf = buf] by (auto simp: b_def)
    qed (simp add: b_def)
    show "UCode_DoState md t \<lparr>pw_buffer = buf, pw_position = pos, pw_mode = Read\<rparr> =
        Inr (s, \<lparr>pw_buffer = buf, pw_position = pos + length (b s), pw_mode = Read\<rparr>)"
      if "ucode_fits s t" "pos + length (b s) \<le> length buf" "take (length (b s)) (drop pos buf) = b s"
      using that
    proof (cases rule: ucode_fits_cases)
      case (ROM u s' v t')
      then show ?thesis
        using that saver.read [OF rom, where s = "(u, s')" and t = "(v, t')" and pos = pos and buf = buf]
        by (simp add: b_def restored_pair_def crc)
    next
      case (CARD u v)
      then show ?thesis
        using that saver.read [OF card, where s = u and t = v and pos = pos and buf = buf] by (simp add: b_def crc)
    next
      case (GBA u s' v t')
      then show ?thesis
        using that saver.read [OF gba, where s = "(u, s')" and t = "(v, t')" and pos = pos and buf = buf]
        by (simp add: b_def restored_pair_def crc)
    qed (simp add: b_def)
    show "ucode_fits s s" if "ucode_fits s t"
      using that by (cases rule: ucode_fits_cases) (simp_all add: steps_fit_def rom_fits_def)
  qed
  then show ?thesis
    unfolding saves_def by blast
qed

section \<open>The two microcodes of the front end\<close>

fun both_fit :: "('v \<Rightarrow> 'v \<Rightarrow> bool) \<Rightarrow> 'v option \<Rightarrow> 'v option \<Rightarrow> bool" where
  "both_fit fit None None \<longleftrightarrow> True"
| "both_fit fit (Some x) (Some y) \<longleftrightarrow> fit x y"
| "both_fit fit _ _ \<longleftrightarrow> False"

lemma saves_option:
  assumes "saves d (\<lambda>s t. s) fit"
  shows "saves (do_option d) (\<lambda>s t. s) (both_fit fit)"
proof -
  obtain b where b: "saver d b (\<lambda>s t. s) fit"
    using assms unfolding saves_def by blast
  have "saver (do_option d) (\<lambda>s. case s of None \<Rightarrow> [] | Some x \<Rightarrow> b x) (\<lambda>s t. s) (both_fit fit)"
  proof
    fix s t buf pos
    let ?b = "case s of None \<Rightarrow> [] | Some x \<Rightarrow> b x"
    show "do_option d s \<lparr>pw_buffer = buf, pw_position = pos, pw_mode = Measure\<rparr> =
        Inr (s, \<lparr>pw_buffer = buf, pw_position = pos + length ?b, pw_mode = Measure\<rparr>)" if "both_fit fit s s"
      using that by (cases s) (simp_all add: saver.measure [OF b])
    show "do_option d s \<lparr>pw_buffer = buf, pw_position = pos, pw_mode = Write\<rparr> =
        Inr (s, \<lparr>pw_buffer = put_bytes pos ?b buf, pw_position = pos + length ?b, pw_mode = Write\<rparr>)"
      if "both_fit fit s s" "pos + length ?b \<le> length buf"
      using that by (cases s) (simp_all add: put_bytes_def saver.write_fits [OF b])
    show "\<exists>buf'. do_option d s \<lparr>pw_buffer = buf, pw_position = pos, pw_mode = Write\<rparr> =
        Inr (s, \<lparr>pw_buffer = buf', pw_position = pos + length ?b, pw_mode = Measure\<rparr>)"
      if "both_fit fit s s" "length buf < pos + length ?b" "pos \<le> length buf"
    proof (cases s)
      case (Some x)
      then show ?thesis
        using that saver.write_full [OF b, where s = x and pos = pos and buf = buf] by auto
    qed (use that in simp)
    show "do_option d t \<lparr>pw_buffer = buf, pw_position = pos, pw_mode = Read\<rparr> =
        Inr (s, \<lparr>pw_buffer = buf, pw_position = pos + length ?b, pw_mode = Read\<rparr>)"
      if f: "both_fit fit s t" and r: "pos + length ?b \<le> length buf" "take (length ?b) (drop pos buf) = ?b"
    proof (cases s)
      case None
      then show ?thesis
        using f by (cases t) simp_all
    next
      case (Some x)
      then obtain y where "t = Some y"
        using f by (cases t) simp_all
      then show ?thesis
        using Some f r saver.read [OF b, where s = x and t = y and pos = pos and buf = buf] by simp
    qed
    show "both_fit fit s s" if "both_fit fit s t"
      using that saver.stays [OF b] by (cases s; cases t) auto
  qed
  then show ?thesis
    unfolding saves_def by blast
qed

text \<open>What a microcode has in common with one that the factory makes for its checksum.\<close>

fun as_made :: "'m UCode \<Rightarrow> 'm UCode \<Rightarrow> bool" where
  "as_made (UCode_ROM u s) (UCode_ROM v t) \<longleftrightarrow> m_boot_task_num_steps s = m_boot_task_num_steps t"
| "as_made (UCode_INIT u) (UCode_INIT v) \<longleftrightarrow> u = v"
| "as_made (UCode_CARD u) (UCode_CARD v) \<longleftrightarrow> True"
| "as_made (UCode_GBA u s) (UCode_GBA v t) \<longleftrightarrow> True"
| "as_made (UCode_Mixer k u s) (UCode_Mixer l v t) \<longleftrightarrow> k = l"
| "as_made u v \<longleftrightarrow> False"

definition known :: "'m mixers \<Rightarrow> bool \<Rightarrow> 'm UCode \<Rightarrow> bool" where
  "known mx wii u \<longleftrightarrow>
     (\<exists>v. UCodeFactory mx (m_crc (interface_of u)) wii = Some v \<and> as_made u v) \<and> upload_ok (interface_of u)"

fun is_mixer :: "'m UCode \<Rightarrow> bool" where
  "is_mixer (UCode_Mixer k u s) = True"
| "is_mixer u = False"

lemma as_made_refl [simp]: "as_made u u"
  by (cases u) simp_all

lemma factory_crc: "UCodeFactory mx crc wii = Some v \<Longrightarrow> m_crc (interface_of v) = crc"
  by (auto simp: UCodeFactory_def new_interface_def Let_def split: if_splits)

lemma factory_known: "UCodeFactory mx crc wii = Some v \<Longrightarrow> known mx wii v"
  unfolding known_def using factory_crc UCodeFactory_ok as_made_refl by blast

lemma factory_null: "UCodeFactory mx crc wii = None \<longleftrightarrow> crc = UCODE_NULL"
  by (simp add: UCodeFactory_def Let_def)

lemma factory_boot_steps: "UCodeFactory mx crc wii = Some (UCode_ROM u s) \<Longrightarrow> m_boot_task_num_steps s = 0"
  by (auto simp: UCodeFactory_def new_rom_def Let_def split: if_splits)

lemma known_fits:
  assumes "known mx wii u" "known mx wii v" "m_crc (interface_of u) = m_crc (interface_of v)" "\<not> is_mixer u"
  shows "ucode_fits u v"
proof -
  obtain w where w: "UCodeFactory mx (m_crc (interface_of u)) wii = Some w" "as_made u w" "as_made v w"
    using assms(1-3) unfolding known_def by auto
  have s: "m_next_ucode_steps (interface_of u) < 10"
    using assms(1) by (simp add: known_def upload_ok_def)
  have r: "m_boot_task_num_steps s = 0" if "w = UCode_ROM i s" for i s
    using factory_boot_steps w(1) that by blast
  show ?thesis
    using w(2,3) s r assms(3,4)
    by (cases u; cases v; cases w) (auto simp: steps_fit_def rom_fits_def int_fits_def)
qed

definition all_known :: "'m mixers \<Rightarrow> 'm DSPHLE \<Rightarrow> bool" where
  "all_known mx h \<longleftrightarrow>
     (\<forall>u. hle_ucode h = Some u \<longrightarrow> known mx (hle_wii h) u) \<and> (\<forall>u. hle_last_ucode h = Some u \<longrightarrow> known mx (hle_wii h) u)"

definition no_mixers :: "'m DSPHLE \<Rightarrow> bool" where
  "no_mixers h \<longleftrightarrow>
     (\<forall>u. hle_ucode h = Some u \<longrightarrow> \<not> is_mixer u) \<and> (\<forall>u. hle_last_ucode h = Some u \<longrightarrow> \<not> is_mixer u)"

definition hle_fits :: "'m mixers \<Rightarrow> 'm DSPHLE \<Rightarrow> 'm DSPHLE \<Rightarrow> bool" where
  "hle_fits mx s t \<longleftrightarrow> hle_wii s = hle_wii t \<and> all_known mx s \<and> all_known mx t \<and> no_mixers s"

text \<open>The microcode that is found for the checksum of \<open>u\<close>.\<close>

definition found :: "'m mixers \<Rightarrow> bool \<Rightarrow> 'm UCode option \<Rightarrow> 'm UCode option \<Rightarrow> 'm UCode option" where
  "found mx wii u v = (if GetCRC u = GetCRC v then v else UCodeFactory mx (GetCRC u) wii)"

lemma GetCRC_known: "known mx wii u \<Longrightarrow> GetCRC (Some u) \<noteq> UCODE_NULL"
  using factory_null [of mx UCODE_NULL wii] by (auto simp: known_def GetCRC_def)

lemma found_fits:
  assumes "\<And>x. u = Some x \<Longrightarrow> known mx wii x \<and> \<not> is_mixer x" "\<And>y. v = Some y \<Longrightarrow> known mx wii y"
  shows "both_fit ucode_fits u (found mx wii u v)"
proof (cases u)
  case None
  have "v = None" if "GetCRC v = UCODE_NULL"
    using that assms(2) GetCRC_known by (cases v) auto
  then show ?thesis
    using None factory_null [of mx UCODE_NULL wii] by (auto simp: found_def) (simp_all add: GetCRC_def)
next
  case (Some x)
  then have x: "known mx wii x" "\<not> is_mixer x"
    using assms(1) by auto
  have "\<exists>y. found mx wii u v = Some y \<and> known mx wii y \<and> m_crc (interface_of y) = m_crc (interface_of x)"
  proof (cases "GetCRC u = GetCRC v")
    case True
    then obtain y where y: "v = Some y" "known mx wii y"
      using assms(2) GetCRC_known [OF x(1)] Some by (cases v) (auto simp: GetCRC_def)
    then show ?thesis
      using True Some by (simp add: found_def) (simp add: GetCRC_def)
  next
    case False
    then obtain y where "UCodeFactory mx (GetCRC u) wii = Some y"
      using GetCRC_known [OF x(1)] Some factory_null [of mx "GetCRC u" wii] by auto
    then show ?thesis
      using False Some factory_known factory_crc by (fastforce simp: found_def GetCRC_def)
  qed
  then obtain y where y: "found mx wii u v = Some y" "known mx wii y" "m_crc (interface_of y) = m_crc (interface_of x)"
    by blast
  show ?thesis
    using known_fits [OF x(1) y(2) y(3) [symmetric] x(2)] Some y(1) by simp
qed

lemma saves_find_ucode:
  assumes u: "\<And>s. upd (\<lambda>_. get s) s = s"
    and st: "\<And>s t. fits s t \<Longrightarrow> fits s (upd (\<lambda>_. found mx (hle_wii t) (get s) (get t)) t)"
  shows "saves (find_ucode mx get upd :: ('e, 'm DSPHLE) do_state) (\<lambda>s t. upd (\<lambda>_. found mx (hle_wii t) (get s) (get t)) t) fits"
proof -
  have "saver (find_ucode mx get upd :: ('e, 'm DSPHLE) do_state) (\<lambda>s. le_bytes (GetCRC (get s))) (\<lambda>s t. upd (\<lambda>_. found mx (hle_wii t) (get s) (get t)) t) fits"
  proof
    fix s t :: "'m DSPHLE" and buf :: "u8 list" and pos
    show "find_ucode mx get upd s \<lparr>pw_buffer = buf, pw_position = pos, pw_mode = Measure\<rparr> =
        Inr (s, \<lparr>pw_buffer = buf, pw_position = pos + length (le_bytes (GetCRC (get s))), pw_mode = Measure\<rparr>)"
      by (simp add: find_ucode_def saver.measure [OF size_saver])
    show "find_ucode mx get upd s \<lparr>pw_buffer = buf, pw_position = pos, pw_mode = Write\<rparr> =
        Inr (s, \<lparr>pw_buffer = put_bytes pos (le_bytes (GetCRC (get s))) buf, pw_position = pos + length (le_bytes (GetCRC (get s))), pw_mode = Write\<rparr>)"
      if "pos + length (le_bytes (GetCRC (get s))) \<le> length buf"
      using that by (simp add: find_ucode_def saver.write_fits [OF size_saver])
    show "\<exists>buf'. (find_ucode mx get upd :: ('e, 'm DSPHLE) do_state) s \<lparr>pw_buffer = buf, pw_position = pos, pw_mode = Write\<rparr> =
        Inr (s, \<lparr>pw_buffer = buf', pw_position = pos + length (le_bytes (GetCRC (get s))), pw_mode = Measure\<rparr>)"
      if "length buf < pos + length (le_bytes (GetCRC (get s)))" "pos \<le> length buf"
      using saver.write_full [OF size_saver [where 'e = 'e], where s = "GetCRC (get s)" and buf = buf and pos = pos] that
      by (auto simp: find_ucode_def)
    show "(find_ucode mx get upd :: ('e, 'm DSPHLE) do_state) t \<lparr>pw_buffer = buf, pw_position = pos, pw_mode = Read\<rparr> =
        Inr (upd (\<lambda>_. found mx (hle_wii t) (get s) (get t)) t,
          \<lparr>pw_buffer = buf, pw_position = pos + length (le_bytes (GetCRC (get s))), pw_mode = Read\<rparr>)"
      if "pos + length (le_bytes (GetCRC (get s))) \<le> length buf"
        "take (length (le_bytes (GetCRC (get s)))) (drop pos buf) = le_bytes (GetCRC (get s))"
      using that saver.read [OF size_saver [where 'e = 'e], where s = "GetCRC (get s)" and t = "GetCRC (get t)" and buf = buf and pos = pos] u [of t]
      by (auto simp: find_ucode_def found_def)
    show "fits s (upd (\<lambda>_. found mx (hle_wii t) (get s) (get t)) t)" if "fits s t"
      by (rule st [OF that])
  qed
  then show ?thesis
    unfolding saves_def by blast
qed

lemma found_known:
  assumes "\<And>y. v = Some y \<Longrightarrow> known mx wii y" "found mx wii u v = Some y"
  shows "known mx wii y"
  using assms factory_known by (auto simp: found_def split: if_splits)

definition ucodes_fit :: "'m DSPHLE \<Rightarrow> 'm DSPHLE \<Rightarrow> bool" where
  "ucodes_fit s t \<longleftrightarrow> both_fit ucode_fits (hle_ucode s) (hle_ucode t) \<and> both_fit ucode_fits (hle_last_ucode s) (hle_last_ucode t)"

lemma both_fit_self: "both_fit ucode_fits u v \<Longrightarrow> both_fit ucode_fits u u"
proof -
  have "ucode_fits x x" if "ucode_fits x y" for x y :: "'m UCode"
    using that by (cases rule: ucode_fits_cases) (simp_all add: steps_fit_def rom_fits_def)
  then show "both_fit ucode_fits u v \<Longrightarrow> both_fit ucode_fits u u"
    by (cases u; cases v) auto
qed

lemma saves_options:
  "saves (do_all [do_part hle_ucode hle_ucode_update (do_option (UCode_DoState md)),
      do_part hle_last_ucode hle_last_ucode_update (do_option (UCode_DoState md))])
    (\<lambda>s t. t\<lparr>hle_ucode := hle_ucode s, hle_last_ucode := hle_last_ucode s\<rparr>) ucodes_fit"
  by (rule saves_weaken [where fit = ucodes_fit],
      rule saves_Cons [OF saves_part [OF saves_option [OF saves_ucode]] saves_Cons [OF saves_part [OF saves_option [OF saves_ucode]] saves_Nil]])
    (auto simp: ucodes_fit_def intro: both_fit_self)

lemma hle_fits_found:
  assumes "hle_fits mx s t"
  shows "hle_fits mx s (t\<lparr>hle_ucode := found mx (hle_wii t) (hle_ucode s) (hle_ucode t)\<rparr>)"
    "hle_fits mx s (t\<lparr>hle_last_ucode := found mx (hle_wii t) (hle_last_ucode s) (hle_last_ucode t)\<rparr>)"
  using assms found_known [of _ mx "hle_wii t"] by (auto simp: hle_fits_def all_known_def)

lemma hle_fits_ucodes:
  assumes "hle_fits mx s t"
  shows "both_fit ucode_fits (hle_ucode s) (found mx (hle_wii t) (hle_ucode s) (hle_ucode t))"
    "both_fit ucode_fits (hle_last_ucode s) (found mx (hle_wii t) (hle_last_ucode s) (hle_last_ucode t))"
  using assms by (auto simp: hle_fits_def all_known_def no_mixers_def intro!: found_fits)

lemma found_self [simp]: "found mx wii u u = u"
  by (simp add: found_def)

lemma saves_ucodes:
  "saves (do_ucodes mx md) (\<lambda>s t. t\<lparr>hle_ucode := hle_ucode s, hle_last_ucode := hle_last_ucode s\<rparr>) (hle_fits mx)"
proof -
  have first: "saves (do_all [find_ucode mx hle_ucode hle_ucode_update, find_ucode mx hle_last_ucode hle_last_ucode_update])
      (\<lambda>s t. t\<lparr>hle_ucode := found mx (hle_wii t) (hle_ucode s) (hle_ucode t),
        hle_last_ucode := found mx (hle_wii t) (hle_last_ucode s) (hle_last_ucode t)\<rparr>) (hle_fits mx)"
    by (rule saves_weaken [where fit = "hle_fits mx"],
        rule saves_Cons [OF saves_find_ucode saves_Cons [OF saves_find_ucode saves_Nil]])
      (use hle_fits_found in \<open>force+\<close>)
  have "saves (do_ucodes mx md) (\<lambda>s t. t\<lparr>hle_ucode := found mx (hle_wii t) (hle_ucode s) (hle_ucode t),
        hle_last_ucode := found mx (hle_wii t) (hle_last_ucode s) (hle_last_ucode t)\<rparr>
        \<lparr>hle_ucode := hle_ucode s, hle_last_ucode := hle_last_ucode s\<rparr>) (hle_fits mx)"
    unfolding do_ucodes_def
  proof (rule saves_then_fits [OF first saves_options])
    show "ucodes_fit s (t\<lparr>hle_ucode := found mx (hle_wii t) (hle_ucode s) (hle_ucode t),
        hle_last_ucode := found mx (hle_wii t) (hle_last_ucode s) (hle_last_ucode t)\<rparr>)" if "hle_fits mx s t" for s t
      using hle_fits_ucodes [OF that] by (simp add: ucodes_fit_def)
    show "ucodes_fit s s" if "hle_fits mx s s" for s
      using hle_fits_ucodes [OF that] by (simp add: ucodes_fit_def)
  qed (auto simp: hle_fits_def all_known_def)
  then show ?thesis
    by simp
qed

definition restored_hle :: "'m DSPHLE \<Rightarrow> 'm DSPHLE \<Rightarrow> 'm DSPHLE" where
  "restored_hle s t = s\<lparr>hle_memory := hle_memory t, hle_mail := restored_mails (hle_mail s) (hle_mail t)\<rparr>"

definition hle_mails_fit :: "'m mixers \<Rightarrow> 'm DSPHLE \<Rightarrow> 'm DSPHLE \<Rightarrow> bool" where
  "hle_mails_fit mx s t \<longleftrightarrow> hle_fits mx s t \<and> mails_fit (hle_mail s) (hle_mail t)"

lemma hle_mails_fit_simps [simp]:
  "hle_mails_fit mx s (t\<lparr>hle_control := c\<rparr>) = hle_mails_fit mx s t"
  "hle_mails_fit mx s (t\<lparr>hle_init_code_clear_time := i\<rparr>) = hle_mails_fit mx s t"
  "hle_mails_fit mx s (t\<lparr>hle_cpu_mailbox := a\<rparr>) = hle_mails_fit mx s t"
  "hle_mails_fit mx s (t\<lparr>hle_dsp_mailbox := b\<rparr>) = hle_mails_fit mx s t"
  "hle_mails_fit mx s (t\<lparr>hle_mail := m\<rparr>) = hle_mails_fit mx s t"
  by (simp_all add: hle_mails_fit_def hle_fits_def all_known_def mails_fit_def)

lemma hle_mails_fit_ucodes:
  "hle_mails_fit mx s t \<Longrightarrow> hle_mails_fit mx s (t\<lparr>hle_ucode := hle_ucode s, hle_last_ucode := hle_last_ucode s\<rparr>)"
  by (auto simp: hle_mails_fit_def hle_fits_def all_known_def mails_fit_def)

lemma hle_mails_fit_restored: "hle_mails_fit mx s t \<Longrightarrow> hle_mails_fit mx s (restored_hle s t)"
  by (auto simp: hle_mails_fit_def hle_fits_def all_known_def mails_fit_def restored_hle_def)

lemma saves_hle_body: "saves (HLE_DoState_body mx md) restored_hle (hle_mails_fit mx)"
  unfolding HLE_DoState_body_def
  apply (rule saves_weaken [where fit = "hle_mails_fit mx"])
     apply (rule saves_Cons, rule saves_free, rule saves_Do, simp, simp, simp)
     apply (rule saves_Cons, rule saves_free, rule saves_Do, simp, simp, simp)
     apply (rule saves_Cons, rule saves_free, rule saves_Do, simp, simp, simp)
     apply (rule saves_Cons, rule saves_weaken [OF saves_ucodes])
        apply (simp add: hle_mails_fit_def)
       apply (rule refl)
      apply (erule hle_mails_fit_ucodes)
     apply (rule saves_Cons, rule saves_part [OF saves_mail_handler])
        apply (simp add: hle_mails_fit_def)
       apply simp
      apply simp
     apply (rule saves_Nil)
    apply assumption
  subgoal for s t
    by (cases s; cases t) (simp add: restored_hle_def hle_mails_fit_def hle_fits_def)
  apply (erule hle_mails_fit_restored)
  done

lemma saves_hle: "saves (HLE_DoState mx md) restored_hle (hle_mails_fit mx)"
  unfolding HLE_DoState_def by (rule saves_for_engine [OF saves_hle_body])

end
