(* ===== verification/Dsp_HLE_Known.thy ===== *)
theory Dsp_HLE_Known
  imports Dsp_HLE_SaveState_Facts
begin

text \<open>
  In every state that the front end can reach, each microcode is of the class that its checksum stands
  for, so a save state finds it again: what was saved of one reachable state can be loaded into another.
\<close>

unbundle bit_operations_syntax

section \<open>Every microcode is of the class its checksum stands for\<close>

definition mixers_keep_crc :: "'m mixers \<Rightarrow> bool" where
  "mixers_keep_crc mx \<longleftrightarrow>
     (\<forall>k u s e. m_crc (fst (fst (mixer_initialize mx k (u, s) e))) = m_crc u \<and>
       m_crc (fst (fst (mixer_update mx k (u, s) e))) = m_crc u \<and>
       (\<forall>v us e' sw. mixer_mail mx k v (u, s) e = Inr (us, e', sw) \<longrightarrow> m_crc (fst us) = m_crc u))"

definition same_class :: "'m UCode \<Rightarrow> 'm UCode \<Rightarrow> bool" where
  "same_class u u' \<longleftrightarrow> m_crc (interface_of u') = m_crc (interface_of u) \<and> (\<forall>v. as_made u v \<longrightarrow> as_made u' v)"

lemma known_same_class: "known mx wii u \<Longrightarrow> same_class u u' \<Longrightarrow> upload_ok (interface_of u') \<Longrightarrow> known mx wii u'"
  unfolding known_def same_class_def by auto

lemma same_class_refl [simp]: "same_class u u"
  by (simp add: same_class_def)

lemma same_class_rules [simp]:
  "m_crc u' = m_crc u \<Longrightarrow> m_boot_task_num_steps s' = m_boot_task_num_steps s \<Longrightarrow> same_class (UCode_ROM u s :: 'm UCode) (UCode_ROM u' s')"
  "m_crc u' = m_crc u \<Longrightarrow> same_class (UCode_GBA u g :: 'm UCode) (UCode_GBA u' g')"
  "m_crc u' = m_crc u \<Longrightarrow> same_class (UCode_Mixer k u x) (UCode_Mixer k u' x')"
proof -
  have "as_made (UCode_ROM u s) v \<Longrightarrow> m_boot_task_num_steps s' = m_boot_task_num_steps s \<Longrightarrow> as_made (UCode_ROM u' s') v"
    "as_made (UCode_GBA u g) v \<Longrightarrow> as_made (UCode_GBA u' g') v"
    for v :: "'m UCode"
    by (cases v; simp)+
  moreover have "as_made (UCode_Mixer k u x) v \<Longrightarrow> as_made (UCode_Mixer k u' x') v" for v
    by (cases v; simp)
  ultimately show "m_crc u' = m_crc u \<Longrightarrow> m_boot_task_num_steps s' = m_boot_task_num_steps s \<Longrightarrow> same_class (UCode_ROM u s :: 'm UCode) (UCode_ROM u' s')"
    "m_crc u' = m_crc u \<Longrightarrow> same_class (UCode_GBA u g :: 'm UCode) (UCode_GBA u' g')"
    "m_crc u' = m_crc u \<Longrightarrow> same_class (UCode_Mixer k u x) (UCode_Mixer k u' x')"
    by (simp_all add: same_class_def)
qed

lemma mixers_crcD:
  assumes "mixers_keep_crc mx"
  shows "mixer_initialize mx k (u, s) e = ((u', s'), e') \<Longrightarrow> m_crc u' = m_crc u"
    "mixer_update mx k (u, s) e = ((u', s'), e') \<Longrightarrow> m_crc u' = m_crc u"
    "mixer_mail mx k v (u, s) e = Inr ((u', s'), e', sw) \<Longrightarrow> m_crc u' = m_crc u"
proof -
  have all: "m_crc (fst (fst (mixer_initialize mx k (u, s) e))) = m_crc u" "m_crc (fst (fst (mixer_update mx k (u, s) e))) = m_crc u"
    "\<And>v us e' sw. mixer_mail mx k v (u, s) e = Inr (us, e', sw) \<Longrightarrow> m_crc (fst us) = m_crc u"
    using assms unfolding mixers_keep_crc_def by blast+
  show "mixer_initialize mx k (u, s) e = ((u', s'), e') \<Longrightarrow> m_crc u' = m_crc u"
    "mixer_update mx k (u, s) e = ((u', s'), e') \<Longrightarrow> m_crc u' = m_crc u"
    "mixer_mail mx k v (u, s) e = Inr ((u', s'), e', sw) \<Longrightarrow> m_crc u' = m_crc u"
    using all(1,2) all(3) [of v "(u', s')" e' sw] by simp_all
qed

lemma Initialize_class: "mixers_keep_crc mx \<Longrightarrow> same_class u (fst (UCode_Initialize mx u e))"
  by (cases u; cases e) (auto split: prod.split dest: mixers_crcD(1))

lemma Update_class: "mixers_keep_crc mx \<Longrightarrow> same_class u (fst (UCode_Update mx u e))"
  by (cases u; cases e) (auto split: prod.split dest: mixers_crcD(2))

lemma PrepareBootUCode_crc: "PrepareBootUCode mem v u = Inr (u', sw) \<Longrightarrow> m_crc u' = m_crc u"
  by (auto simp: PrepareBootUCode_def Let_def bindE_eq_Inr_iff split: if_splits)

lemma HandleMail_class:
  assumes "mixers_keep_crc mx" "UCode_HandleMail mx v u e = Inr (u', e', sw)"
  shows "same_class u u'"
proof (cases u)
  case (UCode_ROM i s)
  then show ?thesis
    using assms by (cases e) (auto simp: ROM_HandleMail_def Let_def bindE_eq_Inr_iff split: if_splits)
next
  case (UCode_GBA i s)
  then show ?thesis
    using assms by (cases e) (auto simp: GBA_HandleMail_def bindE_eq_Inr_iff dest: PrepareBootUCode_crc split: MailState.splits if_splits)
next
  case (UCode_Mixer k i s)
  then show ?thesis
    using assms by (auto simp: bindE_eq_Inr_iff dest: mixers_crcD(3))
qed (use assms in \<open>cases e; auto\<close>)+

text \<open>All of it with the invariant of the front end.\<close>

definition hle_known :: "'m mixers \<Rightarrow> bool \<Rightarrow> 'm DSPHLE \<Rightarrow> bool" where
  "hle_known mx wii h \<longleftrightarrow> hle_wii h = wii \<and>
     (\<forall>u. hle_ucode h = Some u \<longrightarrow> known mx wii u) \<and> (\<forall>u. hle_last_ucode h = Some u \<longrightarrow> known mx wii u)"

lemma hle_known_iff: "hle_known mx wii h \<longleftrightarrow> hle_wii h = wii \<and> all_known mx h"
  by (auto simp: hle_known_def all_known_def)

lemma start_ucode_known:
  assumes "mixers_ok mx" "mixers_keep_crc mx" "hle_known mx wii h" "start_ucode mx crc h = Inr h'"
  shows "hle_known mx wii h'"
proof -
  obtain u u' m mem where u: "UCodeFactory mx crc (hle_wii h) = Some u"
    "UCode_Initialize mx u (hle_mail h, hle_memory h) = (u', m, mem)"
    "h' = h\<lparr>hle_ucode := Some u', hle_mail := m, hle_memory := mem\<rparr>"
    using assms(4) by (auto simp: start_ucode_def split: option.splits prod.splits)
  have "same_class u u'" "upload_ok (interface_of u')"
    using Initialize_class [OF assms(2), of u "(hle_mail h, hle_memory h)"]
      UCode_Initialize_ok [OF assms(1) UCodeFactory_ok [OF u(1)], of "(hle_mail h, hle_memory h)"] u(2) by simp_all
  from known_same_class [OF factory_known [OF u(1)] this] show ?thesis
    using assms(3) u(3) by (simp add: hle_known_def)
qed

lemma SetUCode_known:
  assumes "mixers_ok mx" "mixers_keep_crc mx" "hle_known mx wii h" "SetUCode mx crc h = Inr h'"
  shows "hle_known mx wii h'"
proof -
  have "hle_known mx wii (h\<lparr>hle_mail := ClearPending (hle_mail h)\<rparr>)"
    using assms(3) by (simp add: hle_known_def)
  from start_ucode_known [OF assms(1,2) this assms(4) [unfolded SetUCode_def]] show ?thesis .
qed

lemma SwapUCode_known:
  assumes "mixers_ok mx" "mixers_keep_crc mx" "hle_known mx wii h" "SwapUCode mx crc h = Inr h'"
  shows "hle_known mx wii h'"
proof (cases "hle_last_ucode h \<noteq> None \<and> GetCRC (hle_last_ucode h) = crc")
  case True
  then show ?thesis
    using assms(3,4) by (auto simp: SwapUCode_def hle_known_def Let_def)
next
  case False
  let ?h = "h\<lparr>hle_mail := ClearPending (hle_mail h)\<rparr>"
  let ?k = "if hle_last_ucode ?h = None then ?h\<lparr>hle_last_ucode := hle_ucode ?h, hle_ucode := None\<rparr> else ?h"
  have "start_ucode mx crc ?k = Inr h'"
    using assms(4) False by (auto simp: SwapUCode_def Let_def)
  moreover have "hle_known mx wii ?k"
    using assms(3) by (simp add: hle_known_def)
  ultimately show ?thesis
    using start_ucode_known [OF assms(1,2)] by blast
qed

lemma SendMailToDSP_known:
  assumes "mixers_ok mx" "mixers_keep_crc mx" "hle_known mx wii h" "SendMailToDSP mx v h = Inr h'"
  shows "hle_known mx wii h'"
proof (cases "hle_ucode h")
  case None
  then show ?thesis
    using assms(3,4) by (simp add: SendMailToDSP_def)
next
  case (Some u)
  then have k: "known mx wii u"
    using assms(3) by (auto simp: hle_known_def)
  obtain u' m mem sw where m: "UCode_HandleMail mx v u (hle_mail h, hle_memory h) = Inr (u', (m, mem), sw)"
    using assms(4) Some by (cases "UCode_HandleMail mx v u (hle_mail h, hle_memory h)") (auto simp: SendMailToDSP_def)
  let ?h = "h\<lparr>hle_ucode := Some u', hle_mail := m, hle_memory := mem\<rparr>"
  have "known mx wii u'"
    using known_same_class [OF k HandleMail_class [OF assms(2) m]] UCode_HandleMail_ok [OF assms(1) _ m] k by (simp add: known_def)
  then have h: "hle_known mx wii ?h"
    using assms(3) by (simp add: hle_known_def)
  have "(case sw of Stay \<Rightarrow> Inr ?h | Set_to crc \<Rightarrow> SetUCode mx crc ?h | Swap_to crc \<Rightarrow> SwapUCode mx crc ?h) = Inr h'"
    using assms(4) Some m by (simp add: SendMailToDSP_def Let_def)
  then show ?thesis
    using h SetUCode_known [OF assms(1,2) h] SwapUCode_known [OF assms(1,2) h] by (cases sw) auto
qed

lemma hle_known_simps [simp]:
  "hle_known mx wii (h\<lparr>hle_control := c\<rparr>) = hle_known mx wii h" "hle_known mx wii (h\<lparr>hle_mail := m\<rparr>) = hle_known mx wii h"
  "hle_known mx wii (h\<lparr>hle_init_code_clear_time := i\<rparr>) = hle_known mx wii h"
  "hle_known mx wii (h\<lparr>hle_cpu_mailbox := a\<rparr>) = hle_known mx wii h"
  "hle_known mx wii (h\<lparr>hle_dsp_mailbox := b\<rparr>) = hle_known mx wii h"
  by (simp_all add: hle_known_def)

lemma Initialize_known:
  assumes "mixers_ok mx" "mixers_keep_crc mx" "HLE_Initialize mx wii h = Inr h'"
  shows "hle_known mx wii h'"
proof -
  let ?h = "h\<lparr>hle_wii := wii, hle_ucode := None, hle_last_ucode := None\<rparr>"
  obtain k where k: "SetUCode mx UCODE_ROM ?h = Inr k" "h' = k\<lparr>hle_control := CTL_DSPHalt OR CTL_DSPInit, hle_mail := SetHalted True (hle_mail k),
           hle_cpu_mailbox := 0, hle_dsp_mailbox := 0\<rparr>"
    using assms(3) by (auto simp: HLE_Initialize_def bindE_eq_Inr_iff)
  have "hle_known mx wii ?h"
    by (simp add: hle_known_def)
  from SetUCode_known [OF assms(1,2) this k(1)] show ?thesis
    by (simp add: k(2))
qed

lemma write_control_known:
  assumes "mixers_ok mx" "mixers_keep_crc mx" "hle_known mx wii h" "HLE_WriteControlRegister mx now v h = Inr (r, h')"
  shows "hle_known mx wii h'"
proof -
  define k where "k = (if hle_control h AND CTL_DSPHalt \<noteq> v AND CTL_DSPHalt
               then h\<lparr>hle_mail := SetHalted (v AND CTL_DSPHalt \<noteq> 0) (hle_mail h)\<rparr> else h)"
  have k: "hle_known mx wii k"
    using assms(3) by (simp add: k_def)
  from assms(4) obtain tmp l where l: "(if v AND CTL_DSPReset \<noteq> 0
                then bindE (SetUCode mx UCODE_ROM k) (\<lambda>h. Inr (v AND NOT CTL_DSPReset, h))
                else Inr (v, k)) = Inr (tmp, l)"
    and m: "bindE (if hle_control l AND CTL_DSPInit \<noteq> 0 \<and> tmp AND CTL_DSPInit = 0
                then bindE (SetUCode mx UCODE_INIT_AUDIO_SYSTEM l) (\<lambda>h.
                     Inr (tmp OR CTL_DSPInitCode, h\<lparr>hle_init_code_clear_time := now + 130\<rparr>))
                else Inr (tmp, l)) (\<lambda>(tmp, h). Inr (tmp, h\<lparr>hle_control := tmp\<rparr>)) = Inr (r, h')"
    using iffD1 [OF bindE_eq_Inr_iff assms(4) [unfolded HLE_WriteControlRegister_def Let_def k_def [symmetric]]] by force
  have l': "hle_known mx wii l"
    using l k SetUCode_known [OF assms(1,2) k, of UCODE_ROM l] by (auto simp: bindE_eq_Inr_iff split: if_splits)
  show ?thesis
    using m l' SetUCode_known [OF assms(1,2) l', of UCODE_INIT_AUDIO_SYSTEM]
    by (auto simp: bindE_eq_Inr_iff split: if_splits)
qed

lemma hle_step_known:
  assumes "mixers_ok mx" "mixers_keep_crc mx" "hle_step mx h h'" "hle_known mx wii h"
  shows "hle_known mx wii h'"
  using assms(3)
proof cases
  case (write_high cpu v)
  then show ?thesis
    using assms(4) by (simp add: HLE_WriteMailBoxHigh_def)
next
  case (write_low cpu v)
  show ?thesis
  proof (cases cpu)
    case True
    let ?h = "h\<lparr>hle_cpu_mailbox := (hle_cpu_mailbox h AND 0xFFFF0000) OR ucast v\<rparr>"
    obtain k where k: "SendMailToDSP mx (hle_cpu_mailbox ?h) ?h = Inr k" "h' = k\<lparr>hle_cpu_mailbox := hle_cpu_mailbox k AND 0x7FFFFFFF\<rparr>"
      using write_low True by (auto simp: HLE_WriteMailBoxLow_def Let_def bindE_eq_Inr_iff)
    have "hle_known mx wii ?h"
      using assms(4) by simp
    from SendMailToDSP_known [OF assms(1,2) this k(1)] show ?thesis
      by (simp add: k(2))
  next
    case False
    then show ?thesis
      using write_low assms(4) by (simp add: HLE_WriteMailBoxLow_def)
  qed
next
  case (write_control now v r)
  then show ?thesis
    using write_control_known [OF assms(1,2,4)] by blast
next
  case update
  show ?thesis
  proof (cases "hle_ucode h")
    case (Some u)
    then have k: "known mx wii u"
      using assms(4) by (auto simp: hle_known_def)
    have "known mx wii (fst (UCode_Update mx u (hle_mail h, hle_memory h)))"
      using known_same_class [OF k Update_class [OF assms(2)]] UCode_Update_ok [OF assms(1)] k by (simp add: known_def)
    then show ?thesis
      using assms(4) Some update by (auto simp: HLE_Update_def hle_known_def split: prod.split)
  qed (use assms(4) update in \<open>simp add: HLE_Update_def\<close>)
qed (use assms(4) in \<open>auto simp: HLE_ReadMailBoxHigh_def HLE_ReadMailBoxLow_def HLE_ReadControlRegister_def Let_def split: prod.split\<close>)

lemma hle_run_known:
  assumes "mixers_ok mx" "mixers_keep_crc mx" "HLE_Initialize mx wii h0 = Inr h" "(hle_step mx)\<^sup>*\<^sup>* h h'"
  shows "hle_known mx wii h'"
  using assms(4)
proof (induction rule: rtranclp_induct)
  case base
  show ?case
    by (rule Initialize_known [OF assms(1-3)])
next
  case (step k l)
  then show ?case
    using hle_step_known [OF assms(1,2)] by blast
qed

lemma reachable_states_save:
  assumes mx: "mixers_ok mx" "mixers_keep_crc mx"
    and h: "HLE_Initialize mx wii h0 = Inr h1" "(hle_step mx)\<^sup>*\<^sup>* h1 h"
    and g: "HLE_Initialize mx wii g0 = Inr g1" "(hle_step mx)\<^sup>*\<^sup>* g1 g"
    and m: "no_mixers h" "length (m_pending_mails (hle_mail h)) < 2 ^ 32"
  shows "\<exists>n buf'. SaveToBuffer (HLE_DoState mx md) h buf = Some (Inr (n, buf', h)) \<and>
    LoadFromBuffer (HLE_DoState mx md) g buf' = Inr (True, restored_hle h g)"
proof -
  have "hle_known mx wii h" "hle_known mx wii g"
    using hle_run_known [OF mx h] hle_run_known [OF mx g] by simp_all
  then have "hle_mails_fit mx h h" "hle_mails_fit mx h g"
    using m by (simp_all add: hle_mails_fit_def hle_fits_def hle_known_iff mails_fit_def)
  then show ?thesis
    by (rule saves_round_trip [OF saves_hle])
qed

section \<open>States of the other engine\<close>

lemma for_engine_refuses:
  assumes "buf \<noteq> []" "hd buf = of_bool (\<not> hle)"
  shows "LoadFromBuffer (for_engine hle d) t buf = Inr (False, t)"
  using assms
  by (cases buf) (auto simp: LoadFromBuffer_def for_engine_def Do_bool_def DoVoid_def IsReadMode_def IsMeasureMode_def SetVerifyMode_def Let_def)

lemma for_engine_first_byte:
  assumes d: "saves d l fits" and "fits s s" "SaveToBuffer (for_engine hle d) s buf = Some (Inr (n, buf', s'))"
  shows "buf' \<noteq> [] \<and> hd buf' = of_bool hle"
proof -
  obtain b where b: "saver d b l fits"
    using d unfolding saves_def by blast
  obtain c where "SaveToBuffer (for_engine hle d) s buf = Some (Inr (length ([of_bool hle] @ b s), c, s))"
    "take (length ([of_bool hle] @ b s)) c = [of_bool hle] @ b s"
    using saver.save_to_buffer [OF saver_for_engine [OF b] assms(2)] by blast
  then show ?thesis
    using assms(3) by (cases c) auto
qed

lemma saved_by_lle: "SaveToBuffer LLE_DoState l buf = Some (Inr (n, buf', l')) \<Longrightarrow> buf' \<noteq> [] \<and> hd buf' = of_bool False"
  unfolding LLE_DoState_def by (rule for_engine_first_byte [OF saves_lle_body]) simp_all

lemma saved_by_hle:
  "SaveToBuffer (HLE_DoState mx md) h buf = Some (Inr (n, buf', h')) \<Longrightarrow> hle_mails_fit mx h h \<Longrightarrow> buf' \<noteq> [] \<and> hd buf' = of_bool True"
  unfolding HLE_DoState_def by (rule for_engine_first_byte [OF saves_hle_body])

end
