(* ===== verification/Spec2Isabelle.thy ===== *)
theory Spec2Isabelle
  imports Dsp_Samples Dsp_Control_Facts Dsp_Register_Facts Dsp_Address_Facts Dsp_Accel_Facts
    Dsp_Analyzer_Facts Dsp_Interface_Samples Dsp_Corollaries Dsp_Tool_Samples
    Dsp_HLE_Samples Dsp_HLE_Known
begin

text \<open>
  The DSP of the emulated console: the emulation of the audio DSP in the Dolphin core of this
  repository, from its interpreter up to the registers the processor sees and the thread it runs on,
  its assembler and disassembler, and the second back end that emulates microcode instead of
  instructions.  File names below are relative to \<open>src/Source/Core/\<close>.

  \<^bold>\<open>The program.\<close>  The DSP is a 16-bit processor with its own instruction and data memory, two
  40-bit accumulators, a product register, four address registers with modular addressing, four
  hardware stacks, an accelerator that decodes samples from the audio memory (ARAM), mailboxes to
  the main processor and a DMA engine.  \<open>Core/DSP\<close> holds its state, memory map, hardware registers,
  static analyser and interpreter, and the assembler and disassembler over the table of instruction
  templates that the analyser uses too; \<open>Core/HW/DSPLLE\<close> the front end that grants it cycles, in the
  emulation thread or on a thread of its own; \<open>Core/HW/DSPHLE\<close> the other front end, which recognises
  the microcode of a game by a checksum and answers its mails; \<open>Core/HW/DSP.cpp\<close> the interface of the
  console: control register, interrupts, mailbox registers, ARAM DMA and audio DMA.

  \<^bold>\<open>Theories and code.\<close>  Data and operations have the names of the code; each theory names its
  source file.
    \<^item> Prelude, Bit_Patterns: words and their bits, the error monad \<open>result\<close> with the rules
      \<open>okE_intros\<close> for postconditions, and executable checks for tables of opcode patterns.
    \<^item> Dsp_State (\<open>Core/DSP/DSPCore.h\<close>): register file and \<open>SDSP\<close> as records, with
      \<open>Interpreter\<close> extending \<open>SDSP\<close> by the write-back log.  Dsp_Stacks (\<open>DSPStacks.cpp\<close>),
      Dsp_Accelerator (\<open>DSPAccelerator.cpp\<close>), Dsp_Host (\<open>HW/DSPLLE/DSPHost.cpp\<close> and what it reaches of
      \<open>HW/Memmap.cpp\<close>), Dsp_HWInterface (\<open>DSPHWInterface.cpp\<close>, \<open>DSPMemoryMap.cpp\<close>).
    \<^item> Dsp_Tables (\<open>DSPTables.cpp\<close>), Dsp_Analyzer (\<open>DSPAnalyzer.cpp\<close>).
    \<^item> Dsp_CCUtil, Dsp_Interp_Base, Dsp_IntBranch, Dsp_IntMisc, Dsp_IntArithmetic,
      Dsp_IntMultiplier, Dsp_IntExtOps, Dsp_IntTables (the files of \<open>Core/DSP/Interpreter\<close>): flags and
      register access, every instruction and extended opcode, and the two dispatch tables.
    \<^item> Dsp_Core (\<open>DSPCore.cpp\<close>), Dsp_Interpreter (\<open>DSPInterpreter.cpp\<close>): start-up, exceptions, the
      step, the three run functions, the control register, and \<open>DSPCore::RunCycles\<close>.
    \<^item> Dsp_LLE (\<open>HW/DSPLLE/DSPLLE.cpp\<close>): ROM files, start-up, what the processor can call.
    \<^item> Dsp_Event (\<open>Common/Event.h\<close>, \<open>Common/Flag.h\<close>), Dsp_Thread (the threads of \<open>DSPLLE.cpp\<close>): step
      relations, one atomic operation of one thread per step.
    \<^item> Dsp_Manager (\<open>HW/DSP.cpp\<close>, \<open>HW/DSP.h\<close>, \<open>HW/HSP\<close>, the combined accesses of \<open>HW/MMIO.cpp\<close>): the
      state \<open>DSPManager\<close>, the handler of every register, both DMAs, the time slices.
    \<^item> Dsp_Labels (\<open>LabelMap.cpp\<close>, the names in \<open>DSPTables.cpp\<close>), Dsp_Disassembler
      (\<open>DSPDisassembler.cpp\<close>), Dsp_Assembler (\<open>DSPAssembler.cpp\<close>), Dsp_CodeUtil (\<open>DSPCodeUtil.cpp\<close> and
      the round trip of \<open>UnitTests/Core/DSP/DSPAssemblyTest.cpp\<close>): texts are lists of characters.
    \<^item> Dsp_HLE (\<open>DSPHLE.cpp\<close>, \<open>MailHandler.cpp\<close> and \<open>UCodes/UCodes.cpp\<close>, \<open>ROM.cpp\<close>, \<open>INIT.cpp\<close>,
      \<open>CARD.cpp\<close>, \<open>GBA.cpp\<close> of \<open>Core/HW/DSPHLE\<close>): the classes derived from \<open>UCodeInterface\<close> are the
      constructors of \<open>UCode\<close>, the virtual functions \<open>UCode_Initialize\<close>, \<open>UCode_HandleMail\<close> and
      \<open>UCode_Update\<close>; a call that replaces the running microcode is a value of \<open>switch\<close>.
    \<^item> Save_State (\<open>Common/ChunkFile.h\<close>, the buffers of \<open>Core/State.cpp\<close>), Dsp_SaveState and
      Dsp_HLE_SaveState (the functions \<open>DoState\<close> of all of the above): one function per class saves,
      loads and measures, as in the code.

  State is passed explicitly; \<open>Host\<close>, inside the DSP state, is main memory, extended memory and ARAM
  with the list of requests sent to the rest of the emulator.  An operation that can fail returns
  \<open>result\<close> (\<open>Inl\<close> an error: an access outside an array, a null pointer, the end of the process), one
  that may not come back returns an option, and \<open>outcome\<close> is both.

  \<^bold>\<open>Lemmas.\<close>
    \<^item> Dsp_Invariant has the locale \<open>dsp_inv\<close>: a predicate that the primitive updates keep is kept by
      every instruction, step and run.  Dsp_Wf and Dsp_Log interpret it with the representation
      invariant, with memory safety, and with the write-back log.
    \<^item> Dsp_Flags, Dsp_Arith_Facts and Dsp_Product_Facts relate accumulators and status bits to integer
      arithmetic; Dsp_Address_Facts relates the address registers to a ring; Dsp_Register_Facts has
      the saturating reads and extending writes.
    \<^item> Dsp_Control_Facts: exceptions, calls and hardware loops as round trips on the visible stacks,
      which the locale \<open>hw_stack\<close> of Dsp_Stacks turns into lists.
    \<^item> Dsp_Decode_Facts and the locale \<open>opcode_table\<close>: both tables match each word at most once and
      agree; Dsp_Analyzer_Facts: the analyser is a linear sweep.
    \<^item> Dsp_Accel_Facts, Dsp_HW_Facts (with the locale \<open>mailbox_port\<close>, interpreted on the mailboxes of
      the DSP and, in Dsp_Interface_Facts, on the processor's view of them), Dsp_Run_Facts.
    \<^item> Dsp_Manager_Facts and Dsp_Interface_Facts: the interrupt line as an invariant of every access,
      the ARAM DMA as a copy of bytes started by three register writes, rounds of the audio DMA.
    \<^item> Dsp_Template_Facts, Dsp_Text_Facts, Dsp_Print_Facts, Dsp_Expression_Facts, Dsp_Line_Facts,
      Dsp_Build_Words, Dsp_Build_Facts and Dsp_Roundtrip follow one instruction from its word to its
      text and back: what the disassembler prints for a parameter is what the assembler reads, passes
      its checks and gives the same bits.  Dsp_Assembler_Facts: the assembler returns;
      Dsp_CodeUtil_Facts: the disassembler never leaves a table, comparison, bytes and words.
    \<^item> Dsp_HLE_Facts (the mail handler as a queue, the cipher of the link), Dsp_HLE_Protocol (the
      sequences of mails that start a microcode), Dsp_HLE_Invariant (what every call from the
      processor keeps, over the step relation \<open>hle_step\<close>, for any mixing microcodes that keep it).
    \<^item> The locale \<open>saver\<close> of Save_State says that what a \<open>DoState\<close> writes it reads back; it is closed
      under sequences, parts, containers and choices, which gives it for every component:
      Dsp_SaveState_Facts (the functions \<open>restored_\<close> are the result of loading one state into another),
      Dsp_HLE_SaveState_Facts, and Dsp_HLE_Known for all reachable states.
    \<^item> Dsp_Corollaries has consequences that are not among the properties of this file; Dsp_Samples,
      Dsp_Interface_Samples, Dsp_Tool_Samples and Dsp_HLE_Samples the concrete states of the
      witnesses.

  \<^bold>\<open>Loops and fuel.\<close>  The run loops of the interpreter recurse on the cycles left, hardware loops and
  tables on their lists.  The walk of the analyser and the loop of the ARAM DMA are
  \<open>partial_function (option)\<close> and proved to return, the latter for counts that are multiples of eight,
  which is an invariant of the registers.  \<open>DSPCore::RunCycles\<close> waits for step events while stepping;
  the number of events that arrive is its argument \<open>steps\<close>, and \<open>None\<close> means that it still waits.
  The assembler recurses over lines, parameters and brackets of a text that it rewrites, and over
  included files, so it has fuel, and \<open>Unfinished\<close> is the fault of running out of it: the length of
  the text and 4095 more, for the longest line its buffer can hold, is enough when included files
  are empty, since every recursion consumes a character.  The loop of the disassembler may run
  forever in the code and is a partial function, which returns for codes up to 0x8000 words.

  \<^bold>\<open>Not modelled.\<close>  The recompiler (its meaning is that of the x86-64 code it emits), log messages, the capture logger (it only writes
  a file), the debugger, the five mixing microcodes of \<open>Core/HW/DSPHLE/UCodes\<close> (the parameter
  \<open>mixers\<close>: any state and any answer to a mail), texts and positions of assembler errors, and the rest
  of the emulator.  The hash of the ROMs and the file system are parameters; the time base is an
  argument of the functions that read it.  Data races between the threads on the DSP state itself
  are not modelled: Dsp_Thread shows which sections exclude each other.
\<close>

unbundle bit_operations_syntax








text \<open>
  C3. A code that is disassembled without addresses and hex words, with any other settings, and
  assembled again comes back word for word and without an error, when each of its instructions
  is complete, has no bit outside its templates, is not a MADDC or MSUBC with the register the
  table gets wrong, and has a name that leaves a space in its column.
\<close>

theorem disassembly_assembles_back:
  assumes "readable settings" and "code \<noteq> []" and "length code \<le> 0x8000" and "reassembles settings code"
    and "m_output_buffer a = []" and "length code + 3 \<le> fuel"
  shows "\<exists>out a'. Disassemble settings code [] = Some (Inr (True, out)) \<and>
    Assemble fuel files out a = Inr (Some code, a') \<and> m_last_error a' = OK"
  by (rule disassembled_code_assembles [OF assms])

theorem disassembly_assembles_back_witness:
  "\<exists>out a'. Disassemble default_settings sample_code [] = Some (Inr (True, out)) \<and>
    Assemble 7 (\<lambda>_. []) out (new_assembler False) = Inr (Some sample_code, a') \<and> m_last_error a' = OK"
  by (rule disassembly_assembles_back [OF sample_readable _ _ sample_reassembles])
    (simp_all add: sample_code_def new_assembler_def)

text \<open>
  C4. While the CPU adds cycles to the account of the DSP thread or signals it, the thread is
  waiting, so the store of zero after a run never overwrites a grant; and while the emulator is
  paused the thread is not inside the DSP core.
\<close>

theorem threads_take_turns:
  assumes "thread_run (thread_started determinism) as s"
  shows "(cpu_active s \<longrightarrow> dsp_at s = D_WaitDsp) \<and>
    (cpu_at s = C_Paused \<longrightarrow> (\<forall>n. dsp_at s \<noteq> D_Run n) \<and> dsp_at s \<noteq> D_Store)"
  using thread_inv_reachable [OF assms] cpu_turn(1) paused_core unfolding thread_inv_def by blast

theorem threads_take_turns_witness: "\<exists>as s. thread_run (thread_started False) as s \<and> cpu_at s = C_Add 2100 \<and> dsp_at s = D_WaitDsp"
proof -
  obtain s where s: "thread_run (thread_started False) [Tau, Tau, Tau, Tau, Tau] s" and c: "cpu_at s = C_Add 2100"
    using can_endD [OF sample_adding] by blast
  then have "cpu_active s" by (simp add: cpu_active_def)
  with s c threads_take_turns [OF s] show ?thesis by blast
qed





text \<open>
  C7. Saving the DSP interface with the DSP behind it always succeeds, in a buffer of any size,
  and leaves it unchanged; loading that buffer into any other machine with ARAM of the same size
  gives the saved registers, stacks, memories and ARAM, with the code analysed again, and keeps
  the ROMs, main memory and the gain and input of the accelerator.
\<close>

theorem saved_machine_comes_back:
  assumes "machine_fits s t"
  shows "\<exists>n buf'. SaveToBuffer Manager_DoState s buf = Some (Inr (n, buf', s)) \<and>
    LoadFromBuffer Manager_DoState t buf' = Inr (True, restored_machine s t)"
proof (rule saves_round_trip [OF saves_machine _ assms])
  show "machine_fits s s"
    using assms by (simp add: machine_fits_def same_aram_def slice_fits_def)
qed

theorem saved_machine_comes_back_witness:
  "\<exists>n buf'. SaveToBuffer Manager_DoState (sample_manager\<lparr>m_dsp_slice := -6\<rparr>, 2100) [0x55] =
      Some (Inr (n, buf', (sample_manager\<lparr>m_dsp_slice := -6\<rparr>, 2100))) \<and>
    LoadFromBuffer Manager_DoState (sample_manager, 0) buf' =
      Inr (True, restored_machine (sample_manager\<lparr>m_dsp_slice := -6\<rparr>, 2100) (sample_manager, 0))"
  by (rule saved_machine_comes_back) (simp add: machine_fits_def same_aram_def slice_fits_def)





text \<open>
  C10. The decoder of the interpreter and the template table agree on instruction sizes: every
  instruction that is not a branch moves the program counter past exactly the operand words its
  template announces, whatever the opcode word.
\<close>

theorem instruction_sizes_agree:
  assumes "\<not> branch (GetOpTemplate w)" and "GetOp w w s = Inr r"
  shows "pc r = pc s + (op_size (GetOpTemplate w) - 1)"
proof -
  have "okE (\<lambda>r. pc r = pc s + (op_size (GetOpTemplate w) - 1)) (GetOp w w s)"
    using GetOp_advances [OF assms(1)] unfolding advances_def by blast
  then show ?thesis by (simp add: assms(2))
qed

theorem instruction_sizes_agree_witness: "pc (lri 0x0080 sample_dsp) = 0x11"
proof -
  have "GetOp 0x0080 0x0080 sample_dsp = Inr (lri 0x0080 sample_dsp)" by (simp add: op_lri total_def)
  from instruction_sizes_agree [OF template_lri(2) this] show ?thesis
    by (simp add: template_lri(1)) (simp add: sample_simps)
qed



text \<open>
  C12. The write-back log of an extended instruction is never read past its five entries: when
  both halves of the instruction succeed, applying the log comes to its end mark and leaves it
  empty for the next instruction.
\<close>

theorem write_back_log_in_bounds:
  assumes "log_empty s" and "GetExtOp w w s = Inr s1" and "GetOp w w s1 = Inr s2"
  shows "\<exists>r. ApplyWriteBackLog s2 = Inr r \<and> log_empty r"
proof -
  have "log_ok s1" using log_GetExtOp [OF assms(1), of w w] assms(2) by simp
  then have "log_ok s2" using idx_GetOp [of s1 w w] assms(3) by (simp add: log_ok_def)
  then show ?thesis by (rule ApplyWriteBackLog_returns)
qed

theorem write_back_log_in_bounds_witness: "\<exists>r. ApplyWriteBackLog sample_dsp = Inr r \<and> log_empty r"
  by (rule write_back_log_in_bounds [OF sample_log_empty, of 0 sample_dsp])
    (simp_all add: ext_op_nop op_nop total_def nop_ext_def nop_def)

text \<open>
  C13. The assembler returns on every text, when included files are empty: with as much fuel as
  the text has characters, and that of one line more, no loop or recursion is cut short, so it
  gives code, an error of its own, or one of the faults of the model.
\<close>

theorem assembler_always_returns:
  assumes "length src + 4095 \<le> fuel"
  shows "Assemble fuel (\<lambda>_. []) src a \<noteq> Inl Unfinished"
  using Assemble_finished [OF assms] by (simp add: finished_def)

theorem assembler_always_returns_witness:
  "Assemble 4200 (\<lambda>_. []) ''  lri $ar0, #(1+(2*3))'' (new_assembler False) \<noteq> Inl Unfinished"
  by (rule assembler_always_returns) simp



text \<open>
  C15. The dispatch table of the interpreter has an entry for an opcode word exactly when the
  template table has one, so no instruction the analyser knows is executed as an unknown opcode.
\<close>

theorem decoders_cover_the_same_words:
  "FindByOpcode w s_opcodes = None \<longleftrightarrow> FindFunction w i_opcodes = None"
proof -
  have "FindByOpcode w s_opcodes = None \<longleftrightarrow> matching_templates w = []"
    by (auto simp: FindByOpcode_def find_None_iff filter_empty_conv)
  then show ?thesis using same_coverage FindFunction_row(1) [OF rows_ok] by blast
qed

text \<open>
  C16. Disassembling a code of at most 0x8000 words always returns, whatever the words and the
  settings: no array or table is left and no null pointer is followed, and it succeeds exactly
  when the last instruction has its second word.
\<close>

theorem disassembler_reads_to_the_end:
  assumes "length code \<le> 0x8000"
  shows "\<exists>out. Disassemble settings code dest = Some (Inr (whole code, out))"
  by (rule Disassemble_whole [OF assms])

theorem disassembler_reads_to_the_end_witness:
  "\<exists>out. Disassemble default_settings sample_code ''; code'' = Some (Inr (True, out))"
proof -
  have "length sample_code \<le> 0x8000"
    by (simp add: sample_code_def)
  from disassembler_reads_to_the_end [OF this, of default_settings "''; code''"] show ?thesis
    using sample_whole(1) by simp
qed



text \<open>
  C18. The answer for the Game Boy Advance, two words in main memory, has everything that went
  into it: the challenge comes back from the first word, and from the second word, unwrapped
  with the key that one of its own bits selects, the length in packet pairs and the code of
  palette and speed.
\<close>

theorem link_answer_can_be_decoded:
  assumes "in_ram mem (phys (Read_U32 mem (address + 16))) 8"
  shows "Read_U32 (ProcessGBACrypto address mem) (Read_U32 mem (address + 16)) XOR 0x6f646573 = Read_U32_Swap mem address \<and>
    gba_decode (Read_U32 (ProcessGBACrypto address mem) (Read_U32 mem (address + 16) + 4)) =
      (packet_pairs (Read_U32 mem (address + 12)) AND 0x7fff,
       palette_code (Read_U32 mem (address + 4)) (Read_U32 mem (address + 8)) AND 0x7e)"
  using gba_answer [OF assms] by blast

theorem link_answer_can_be_decoded_witness:
  "gba_decode (Read_U32 (ProcessGBACrypto 0x100 link_memory) 4) =
    (packet_pairs (Read_U32 link_memory 0x10c) AND 0x7fff,
     palette_code (Read_U32 link_memory 0x104) (Read_U32 link_memory 0x108) AND 0x7e)"
proof -
  have "in_ram link_memory (phys (Read_U32 link_memory (0x100 + 16))) 8"
    by (rule link_memory_ok)
  from link_answer_can_be_decoded [OF this] show ?thesis
    by (simp add: link_memory_dest)
qed





text \<open>
  C21. Entering an exception jumps to its vector with the enabling bit cleared, and RTI comes
  back to the interrupted instruction with the status register and the visible stacks as they
  were, the exception no longer pending.
\<close>

theorem exception_round_trip:
  assumes "stacks_ok s" and "i \<le> 7"
  shows "pc (enter_exception i s) = of_nat (2 * i) \<and>
    \<not> bit (sr (regs (enter_exception i s))) (if i = 7 then 11 else 9) \<and>
    pc (rti 0x02ff (enter_exception i s)) = pc s \<and>
    sr (regs (rti 0x02ff (enter_exception i s))) = sr (regs s) \<and>
    same_stacks s (rti 0x02ff (enter_exception i s)) \<and>
    exceptions (rti 0x02ff (enter_exception i s)) = exceptions s AND NOT (push_bit i 1)"
  by (intro conjI rti_enter_exception [OF assms])

theorem exception_round_trip_witness: "pc (rti 0x02ff (enter_exception 7 sample_dsp)) = 0x10"
  using exception_round_trip [OF sample_stacks_ok, of 7, THEN conjunct2, THEN conjunct2, THEN conjunct1]
  by (simp add: sample_simps)

text \<open>
  C22. CheckExceptions enters the pending exception with the highest number among those that are
  not masked, where only the external interrupt ignores SR_INT_ENABLE, and does nothing when
  there is none.
\<close>

theorem exception_priority:
  "CheckExceptions s =
     (if ready_exceptions s = {} then (False, s)
      else (True, enter_exception (Max (ready_exceptions s)) s))"
  by (rule CheckExceptions_Max)

text \<open>
  C23. A CALL whose condition holds jumps to the address in its second word, and RET comes back
  to the instruction behind the CALL with status register and visible stacks as they were.
\<close>

theorem call_round_trip:
  assumes "stacks_ok s" and "CheckCondition s (ucast (opc AND 0xf))"
  shows "pc (call opc s) = ReadIMEM s (pc s) \<and> pc (ret 0x02df (call opc s)) = pc s + 1 \<and>
    same_stacks s (ret 0x02df (call opc s)) \<and>
    sr (regs (ret 0x02df (call opc s))) = sr (regs s)"
  by (intro conjI ret_call [OF assms])

theorem call_round_trip_witness: "pc (ret 0x02df (call 0x02bf sample_dsp)) = 0x11"
proof -
  have "CheckCondition sample_dsp (ucast ((0x02bf :: u16) AND 0xf))" by simp
  from call_round_trip [OF sample_stacks_ok this, THEN conjunct2, THEN conjunct1] show ?thesis by (simp add: sample_simps)
qed



text \<open>
  C25. Adding or subtracting a signed index register moves the same distance in the ring, for
  every index no longer than the ring, except that subtracting 0x8000 is not treated as a step
  forward.
\<close>

theorem indexed_steps_of_address_registers:
  assumes "in_ring (wr (regs s) r) (ar (regs s) r)" and "\<bar>sint x\<bar> \<le> uint (wr (regs s) r)"
    and "- (2 ^ 15) < sint x"
  shows "uint (IncreaseAddressRegister r x s) = ring_add (wr (regs s) r) (ar (regs s) r) (sint x) \<and>
    uint (DecreaseAddressRegister r x s) = ring_add (wr (regs s) r) (ar (regs s) r) (- sint x)"
  by (rule conjI [OF Increase_step [OF assms(1,2)] Decrease_step [OF assms]])

theorem indexed_steps_of_address_registers_witness:
  "uint (IncreaseAddressRegister 0 5 sample_dsp) = ring_add 0xffff 0 5"
proof -
  have w: "wr (regs sample_dsp) 0 = 0xffff" "ar (regs sample_dsp) 0 = 0" by (simp_all add: sample_simps)
  have "ring_bits 0xffff = 16" unfolding ring_bits_def by (simp add: bit_length.simps)
  then have "in_ring 0xffff 0" by (simp add: in_ring_def ring_start_def)
  then show ?thesis using indexed_steps_of_address_registers [of sample_dsp 0 5] by (simp add: w)
qed



text \<open>
  C27. What was saved of one run of the emulation by microcode, while no mixing microcode is
  loaded, can be loaded into any other run of the same console: the loaded state has the control
  register, mailboxes, waiting mails and both microcodes of the saved one, found again by their
  checksums, with main memory and the interrupts already sent of the other.
\<close>

theorem saved_microcode_comes_back:
  assumes "mixers_ok mx" and "mixers_keep_crc mx"
    and "HLE_Initialize mx wii h0 = Inr h1" and "(hle_step mx)\<^sup>*\<^sup>* h1 h"
    and "HLE_Initialize mx wii g0 = Inr g1" and "(hle_step mx)\<^sup>*\<^sup>* g1 g"
    and "no_mixers h" and "length (m_pending_mails (hle_mail h)) < 2 ^ 32"
  shows "\<exists>n buf'. SaveToBuffer (HLE_DoState mx md) h buf = Some (Inr (n, buf', h)) \<and>
    LoadFromBuffer (HLE_DoState mx md) g buf' =
      Inr (True, h\<lparr>hle_memory := hle_memory g, hle_mail := (hle_mail h)\<lparr>dsp_interrupts := dsp_interrupts (hle_mail g)\<rparr>\<rparr>)"
  using reachable_states_save [OF assms, of md buf] by (simp add: restored_hle_def restored_mails_def)

theorem saved_microcode_comes_back_witness:
  "\<exists>h n buf'. HLE_Initialize silent_mixers False sample_hle = Inr h \<and>
    SaveToBuffer (HLE_DoState silent_mixers (\<lambda>_. do_nothing :: (hle_fault, UCodeInterface \<times> unit) do_state)) h [] = Some (Inr (n, buf', h))"
proof -
  obtain h s where h: "HLE_Initialize silent_mixers False sample_hle = Inr h"
    "hle_ucode h = Some (UCode_ROM (new_interface 0) s)" "hle_last_ucode h = None" "length (m_pending_mails (hle_mail h)) < 2 ^ 32"
    using sample_hle_initial by blast
  have n: "no_mixers h"
    using h by (simp add: no_mixers_def)
  have k: "mixers_keep_crc silent_mixers"
    by (simp add: mixers_keep_crc_def silent_mixers_def)
  from saved_microcode_comes_back [OF silent_mixers_ok k h(1) rtranclp.rtrancl_refl h(1) rtranclp.rtrancl_refl n h(4),
      of "\<lambda>_. do_nothing" "[]"] h(1) show ?thesis
    by blast
qed



text \<open>
  C29. A microcode that is replaced while none is kept is kept with its whole state: when,
  without another replacement in between, the checksum of that microcode is asked for again, it
  runs on exactly as it was left, and the mails of the other one are dropped.
\<close>

theorem replaced_microcode_comes_back:
  assumes "hle_ucode h = Some u" and "hle_last_ucode h = None" and "SwapUCode mx crc h = Inr h1"
    and "hle_last_ucode h2 = hle_last_ucode h1"
  shows "SwapUCode mx (m_crc (interface_of u)) h2 =
    Inr (h2\<lparr>hle_ucode := Some u, hle_last_ucode := None, hle_mail := ClearPending (hle_mail h2)\<rparr>)"
  using SwapUCode_back SwapUCode_keeps [OF assms(1-3)] assms(4) by metis

theorem replaced_microcode_comes_back_witness:
  "\<exists>h h1. hle_ucode h = Some (UCode_GBA (new_interface 0xdd7e72d5) WaitingForNextTask) \<and>
    SwapUCode silent_mixers 0x65d6cc6f h = Inr h1 \<and>
    SwapUCode silent_mixers 0xdd7e72d5 h1 = Inr (h1\<lparr>hle_ucode := hle_ucode h, hle_last_ucode := None,
      hle_mail := ClearPending (hle_mail h1)\<rparr>)"
proof -
  let ?u = "UCode_GBA (new_interface 0xdd7e72d5) WaitingForNextTask :: unit UCode"
  let ?h = "sample_hle\<lparr>hle_ucode := Some ?u\<rparr>"
  obtain h1 where h1: "SwapUCode silent_mixers 0x65d6cc6f ?h = Inr h1"
    using sample_hle_swaps by blast
  have a: "hle_ucode ?h = Some ?u" and b: "hle_last_ucode ?h = None"
    by (simp_all add: sample_hle_def)
  have c: "m_crc (interface_of ?u) = 0xdd7e72d5"
    by (simp add: new_interface_def)
  have "SwapUCode silent_mixers (m_crc (interface_of ?u)) h1 =
      Inr (h1\<lparr>hle_ucode := Some ?u, hle_last_ucode := None, hle_mail := ClearPending (hle_mail h1)\<rparr>)"
    by (rule replaced_microcode_comes_back [OF a b h1 refl])
  then show ?thesis
    using h1 unfolding c by (intro exI [of _ ?h] exI [of _ h1]) simp
qed

text \<open>
  C30. The mail handler is a queue: while the DSP is not halted, reading both mailbox halves as
  often as there are mails gives the waiting ones and then the new ones in the order they were
  pushed, with all 32 bits, and leaves nothing, whatever interrupts were asked for with them.
\<close>

theorem hle_mails_arrive_in_order:
  assumes "\<not> m_halted m"
  shows "fst (read_mails (length (m_pending_mails m) + length ms) (push_mails ms m)) =
      map fst (m_pending_mails m) @ map fst ms \<and>
    m_pending_mails (snd (read_mails (length (m_pending_mails m) + length ms) (push_mails ms m))) = []"
proof -
  have p: "map fst (m_pending_mails (push_mails ms m)) = map fst (m_pending_mails m) @ map fst ms"
    "\<not> m_halted (push_mails ms m)"
    using push_mails_pending [of ms m] assms by simp_all
  have "length (m_pending_mails (push_mails ms m)) = length (m_pending_mails m) + length ms"
    using arg_cong [OF p(1), of length] by simp
  then show ?thesis
    using read_mails_pending [OF p(2)] p(1) by simp
qed

theorem hle_mails_arrive_in_order_witness:
  "fst (read_mails 3 (push_mails [(0xDCD10002, True, 0), (7, True, 5)] (sample_mails [0x8071FEED]))) =
    [0x8071FEED, 0xDCD10002, 7]"
proof -
  let ?m = "sample_mails [0x8071FEED]" and ?ms = "[(0xDCD10002, True, 0), (7, True, 5)]"
  have h: "\<not> m_halted ?m" and l: "length (m_pending_mails ?m) + length ?ms = 3"
    and v: "map fst (m_pending_mails ?m) @ map fst ?ms = [0x8071FEED, 0xDCD10002, 7]"
    by (simp_all add: sample_mails_def)
  show ?thesis
    using hle_mails_arrive_in_order [OF h, of ?ms] unfolding l v by (rule conjunct1)
qed



text \<open>
  C32. When the CPU waits for the DSP thread, the thread is never stuck and signals within
  eleven of its own steps, one of which may be a run of the core.
\<close>

theorem cpu_wait_is_short:
  assumes "thread_run (thread_started determinism) as s" and "cpu_waiting s" and "(unanswered ^^ k) s t"
  shows "k \<le> 11 \<and> (m_ppc_event t \<or> (\<exists>u. unanswered t u))"
  by (rule cpu_wait_ends [OF assms])

theorem cpu_wait_is_short_witness:
  "(0 :: nat) \<le> 11 \<and> (m_ppc_event ((thread_started False)\<lparr>cpu_at := C_WaitPpc 2100\<rparr>) \<or>
    (\<exists>u. unanswered ((thread_started False)\<lparr>cpu_at := C_WaitPpc 2100\<rparr>) u))"
  by (rule cpu_wait_is_short [OF sample_waiting]) (simp_all add: cpu_waiting_def)

text \<open>
  C33. No wake-up of an event is lost: in every reachable state with the flag set, the waiting
  thread can finish its wait, and if it is asleep some thread is still inside Set and will
  notify it.
\<close>

theorem event_wakes_the_waiter:
  assumes "event_step\<^sup>*\<^sup>* new_event e" and "m_flag e"
  shows "(\<exists>e'. event_step\<^sup>*\<^sup>* e e' \<and> waiter e' = WaitIdle) \<and>
    (waiter e = WaitBlocked \<longrightarrow> (\<exists>i. setters e i \<noteq> SetIdle))"
  using wait_done_set [OF event_inv_reachable [OF assms(1)] assms(2)] asleep_has_notifier [OF assms(1) _ assms(2)]
  by (simp add: wait_done_def)

theorem event_wakes_the_waiter_witness:
  "(\<exists>e'. event_step\<^sup>*\<^sup>* sample_event e' \<and> waiter e' = WaitIdle) \<and> (\<exists>i. setters sample_event i \<noteq> SetIdle)"
proof -
  have "m_flag sample_event" "waiter sample_event = WaitBlocked" by (simp_all add: sample_event_def)
  then show ?thesis using event_wakes_the_waiter [OF sample_event_reachable] by blast
qed



text \<open>
  C35. A write to a register of the DSP interface always comes back: the loop of the ARAM DMA,
  which runs until its count is exactly zero, ends for every count that accesses to the
  registers can leave behind.
\<close>

theorem register_writes_return:
  assumes "\<not> int_cause_dsp d0" and "interface_step\<^sup>*\<^sup>* (Reinit is_wii d0) d"
  shows "\<exists>r. mmio_write16 now wii a val d = Some r"
  by (rule reachable_write_returns [OF assms])

theorem register_writes_return_witness:
  "\<exists>r. mmio_write16 0 False AR_DMA_CNT_L 0x7fff (Reinit False sample_manager) = Some r"
  by (rule register_writes_return [OF _ rtranclp.rtrancl_refl]) simp

text \<open>
  C36. While audio DMA is enabled, each call sends one 32-byte block from the next address;
  before the last block nothing else changes, and the call that sends the last block reloads
  address and count from their registers and raises the audio interrupt.
\<close>

theorem audio_dma_round:
  assumes "Audio_Enable (AudioDMAControl d)" and "0 < remaining_blocks_count d"
  shows "(\<forall>k<unat (remaining_blocks_count d). (UpdateAudioDMA ^^ k) d = within_round k d) \<and>
    (UpdateAudioDMA ^^ unat (remaining_blocks_count d)) d =
      GenerateDSPInterrupt INT_AID
        (d\<lparr>current_source_address := SourceAddress d,
           remaining_blocks_count := Audio_NumBlocks (AudioDMAControl d),
           scheduled := scheduled d @
             blocks_sent (the_host d) (current_source_address d) (unat (remaining_blocks_count d))\<rparr>)"
  using UpdateAudioDMA_rounds [OF assms(1)] UpdateAudioDMA_last [OF assms] by blast

theorem audio_dma_round_witness:
  "remaining_blocks_count ((UpdateAudioDMA ^^ 2)
     (sample_manager\<lparr>AudioDMAControl := 0x8003, remaining_blocks_count := 2\<rparr>)) = 3"
proof -
  have "Audio_Enable 0x8003" by (simp add: Audio_Enable_def)
  then show ?thesis
    using audio_dma_round [of "sample_manager\<lparr>AudioDMAControl := 0x8003, remaining_blocks_count := 2\<rparr>"]
    by (simp add: GenerateDSPInterrupt_def Audio_NumBlocks_def)
qed

text \<open>
  C37. A DMA fails exactly when its registers ask for more than 0x4000 bytes (the process ends),
  when a range that is valid in main memory does not fit the 4096 words of DSP memory (out-of-
  bounds access, since neither the DSP address nor the length is checked), or when code is
  loaded from an invalid address (null pointer).
\<close>

theorem dma_failures: "error_of (DoDMA s) = dma_error s"
  by (rule DoDMA_error)



text \<open>
  C39. Comparing two codes that 16 bits can count always returns, and the answer is whether they
  are equal, whatever the report says.
\<close>

theorem comparison_decides_equality:
  assumes "length code1 \<le> 0xffff" and "length code2 \<le> 0xffff"
  shows "\<exists>out. Compare code1 code2 = Some (Inr (code1 = code2, out))"
proof (cases "length code1 = length code2")
  case True
  then show ?thesis
    using Compare_decides [OF True] assms by simp
next
  case False
  then have "code1 \<noteq> code2"
    by auto
  then show ?thesis
    using Compare_other_length [OF False] assms by simp
qed

theorem comparison_decides_equality_witness:
  "\<exists>out. Compare [0x0080, 0x1234] [0x0080, 0x1235, 0x02df] = Some (Inr (False, out))"
  using comparison_decides_equality [of "[0x0080, 0x1234]" "[0x0080, 0x1235, 0x02df]"] by simp

text \<open>
  C40. The analyser always returns; the addresses it marks as starts of instructions are those
  of a linear sweep over the two code memories, and it marks as loop ends exactly the end
  addresses of the loop instructions on the sweep.
\<close>

theorem analyser_sweeps_the_code:
  "\<exists>flags. Analyze s = Some flags \<and> (\<forall>a. IsStartOfInstruction flags a = swept s a) \<and>
     (\<forall>a. IsLoopEnd flags a = (\<exists>c. swept s c \<and> loop_end_of (ReadIMEM s) c = Some a))"
proof -
  obtain flags where "Analyze s = Some flags" using Analyze_returns by blast
  with Analyze_bits [OF this] show ?thesis by blast
qed

end
